(* ===== verification/Prelude.thy ===== *)
theory Prelude
  imports Main "HOL-Library.Word" "HOL-Library.Char_ord" "HOL-Library.List_Lexorder"
    "HOL-Library.Product_Lexorder"
begin

text \<open>
  Shared vocabulary of the development.

  \<^item> Python exceptions are values: an operation that may raise has a result of type
    \<open>'e + 'a\<close>, \<open>Inl\<close> for the raised error.  \<open>rbind\<close> is statement sequencing,
    \<open>require\<close> is \<open>if not c: raise e\<close>, \<open>checks\<close> is a straight-line sequence of such
    statements whose first error wins, and \<open>rmap\<close> is a loop (or a generator) over a
    fallible operation.
  \<^item> Python \<open>str\<close> is \<open>string\<close>, one \<open>char\<close> per code point, so the model covers text over
    the code points 0 to 255; Python \<open>bytes\<close> is a list of 8-bit words.
  \<^item> Decimal and hexadecimal text as Python formats it, with the round trips the
    encoders rely on.
\<close>

section \<open>Automation\<close>

named_theorems ok_simps \<open>when a fallible computation returns normally\<close>
named_theorems text_simps \<open>evaluation of character classes and text predicates\<close>

section \<open>Fallible computations\<close>

type_synonym bytes = "8 word list"

fun rbind :: "'e + 'a \<Rightarrow> ('a \<Rightarrow> 'e + 'b) \<Rightarrow> 'e + 'b" where
  "rbind (Inl e) f = Inl e"
| "rbind (Inr x) f = f x"

definition require :: "bool \<Rightarrow> 'e \<Rightarrow> 'e + unit" where
  "require c e = (if c then Inr () else Inl e)"

fun checks :: "('e + unit) list \<Rightarrow> 'e + unit" where
  "checks [] = Inr ()"
| "checks (Inl e # cs) = Inl e"
| "checks (Inr u # cs) = checks cs"

fun rmap :: "('a \<Rightarrow> 'e + 'b) \<Rightarrow> 'a list \<Rightarrow> 'e + 'b list" where
  "rmap f [] = Inr []"
| "rmap f (x # xs) = rbind (f x) (\<lambda>y. rbind (rmap f xs) (\<lambda>ys. Inr (y # ys)))"

text \<open>An optional field: Python's \<open>f(x) if x is not None else None\<close>.\<close>

fun ropt :: "('a \<Rightarrow> 'e + 'b) \<Rightarrow> 'a option \<Rightarrow> 'e + 'b option" where
  "ropt f None = Inr None"
| "ropt f (Some x) = rbind (f x) (\<lambda>y. Inr (Some y))"

lemma rbind_ok_iff [ok_simps]: "rbind m f = Inr y \<longleftrightarrow> (\<exists>x. m = Inr x \<and> f x = Inr y)"
  by (cases m) auto

lemma rbind_error_iff: "rbind m f = Inl e \<longleftrightarrow> m = Inl e \<or> (\<exists>x. m = Inr x \<and> f x = Inl e)"
  by (cases m) auto

lemma rbind_assoc: "rbind (rbind m f) g = rbind m (\<lambda>x. rbind (f x) g)"
  by (cases m) auto

lemma rbind_cong [fundef_cong]:
  "m = m' \<Longrightarrow> (\<And>x. m' = Inr x \<Longrightarrow> f x = f' x) \<Longrightarrow> rbind m f = rbind m' f'"
  by (cases m') auto

lemma require_ok_iff [ok_simps]: "require c e = Inr u \<longleftrightarrow> c"
  by (simp add: require_def)

lemma require_True [simp]: "require True e = Inr ()"
  by (simp add: require_def)

lemma require_False [simp]: "require False e = Inl e"
  by (simp add: require_def)

lemma require_error_iff: "require c e = Inl e' \<longleftrightarrow> \<not> c \<and> e' = e"
  by (auto simp: require_def)

lemma checks_Nil_ok [ok_simps]: "checks [] = Inr u"
  by simp

lemma checks_Cons_ok_iff [ok_simps]:
  "checks (c # cs) = Inr u \<longleftrightarrow> c = Inr () \<and> checks cs = Inr ()"
  by (cases c) auto

lemma checks_append: "checks (cs @ ds) = rbind (checks cs) (\<lambda>_. checks ds)"
  by (induction cs rule: checks.induct) auto

lemma checks_ok_iff: "checks cs = Inr () \<longleftrightarrow> (\<forall>c \<in> set cs. c = Inr ())"
  by (induction cs rule: checks.induct) auto

lemma checks_map_ok_iff [ok_simps]:
  "checks (map f xs) = Inr u \<longleftrightarrow> (\<forall>x \<in> set xs. f x = Inr ())"
  by (cases u) (simp add: checks_ok_iff)

lemma checks_skip [simp]: "checks (Inr u # cs) = checks cs"
  by simp

lemma checks_cong [fundef_cong]: "cs = ds \<Longrightarrow> checks cs = checks ds"
  by simp

lemma rmap_cong [fundef_cong]:
  "xs = ys \<Longrightarrow> (\<And>x. x \<in> set ys \<Longrightarrow> f x = g x) \<Longrightarrow> rmap f xs = rmap g ys"
proof (induction xs arbitrary: ys)
  case (Cons x xs)
  then show ?case by (cases ys) auto
qed simp

lemma rmap_map: "rmap f (map g xs) = rmap (f \<circ> g) xs"
  by (induction xs) auto

lemma rmap_id: "(\<And>x. x \<in> set xs \<Longrightarrow> f x = Inr (g x)) \<Longrightarrow> rmap f xs = Inr (map g xs)"
  by (induction xs) auto

lemma rmap_ok_list_all2: "rmap f xs = Inr ys \<longleftrightarrow> list_all2 (\<lambda>x y. f x = Inr y) xs ys"
proof (induction xs arbitrary: ys)
  case (Cons x xs)
  then show ?case by (cases ys) (auto simp: rbind_ok_iff)
qed auto

lemma rmap_ok_length: "rmap f xs = Inr ys \<Longrightarrow> length ys = length xs"
  by (auto simp: rmap_ok_list_all2 dest: list_all2_lengthD)

lemma rmap_ok_set: "rmap f xs = Inr ys \<Longrightarrow> y \<in> set ys \<Longrightarrow> \<exists>x \<in> set xs. f x = Inr y"
  by (fastforce simp: rmap_ok_list_all2 list_all2_conv_all_nth in_set_conv_nth)

lemma rmap_error: "rmap f xs = Inl e \<Longrightarrow> \<exists>x \<in> set xs. f x = Inl e"
  by (induction xs) (auto simp: rbind_error_iff)

lemma ropt_ok_None_iff [ok_simps]: "ropt f x = Inr None \<longleftrightarrow> x = None"
  by (cases x) (auto simp: rbind_ok_iff)

lemma ropt_ok_Some_iff [ok_simps]: "ropt f x = Inr (Some y) \<longleftrightarrow> (\<exists>z. x = Some z \<and> f z = Inr y)"
  by (cases x) (auto simp: rbind_ok_iff)

section \<open>Characters and text\<close>

abbreviation (input) ord_c :: "char \<Rightarrow> nat" where
  "ord_c c \<equiv> of_char c"

definition is_digit :: "char \<Rightarrow> bool" where
  [text_simps]: "is_digit c \<longleftrightarrow> 48 \<le> ord_c c \<and> ord_c c \<le> 57"

definition is_upper :: "char \<Rightarrow> bool" where
  [text_simps]: "is_upper c \<longleftrightarrow> 65 \<le> ord_c c \<and> ord_c c \<le> 90"

definition is_lower :: "char \<Rightarrow> bool" where
  [text_simps]: "is_lower c \<longleftrightarrow> 97 \<le> ord_c c \<and> ord_c c \<le> 122"

definition is_alnum :: "char \<Rightarrow> bool" where
  [text_simps]: "is_alnum c \<longleftrightarrow> is_digit c \<or> is_upper c \<or> is_lower c"

definition is_lower_hex :: "char \<Rightarrow> bool" where
  [text_simps]: "is_lower_hex c \<longleftrightarrow> is_digit c \<or> (97 \<le> ord_c c \<and> ord_c c \<le> 102)"

definition is_ascii :: "char \<Rightarrow> bool" where
  [text_simps]: "is_ascii c \<longleftrightarrow> ord_c c < 128"

text \<open>\<open>str.lower()\<close> on ASCII letters.\<close>

definition to_lower :: "string \<Rightarrow> string" where
  "to_lower s = map (\<lambda>c. if is_upper c then char_of (ord_c c + 32) else c) s"

text \<open>\<open>str.encode("ascii")\<close> on text already known to be ASCII, and \<open>bytes.hex()\<close>.\<close>

definition encode_ascii :: "string \<Rightarrow> bytes" where
  "encode_ascii s = map (\<lambda>c. of_nat (ord_c c)) s"

definition hex_digit :: "nat \<Rightarrow> char" where
  "hex_digit n = ''0123456789abcdef'' ! n"

definition hex_bytes :: "bytes \<Rightarrow> string" where
  "hex_bytes bs = concat (map (\<lambda>b. [hex_digit (unat b div 16), hex_digit (unat b mod 16)]) bs)"

lemma inj_encode_ascii: "encode_ascii s = encode_ascii t \<Longrightarrow> s = t"
proof -
  have inj: "c = d" if "(of_nat (ord_c c) :: 8 word) = of_nat (ord_c d)" for c d
  proof -
    from that have "unat (of_nat (ord_c c) :: 8 word) = unat (of_nat (ord_c d) :: 8 word)"
      by simp
    then show ?thesis by (simp add: unat_of_nat)
  qed
  show "encode_ascii s = encode_ascii t \<Longrightarrow> s = t"
    unfolding encode_ascii_def
    by (induction s arbitrary: t) (auto dest: inj)
qed

lemma length_encode_ascii [simp]: "length (encode_ascii s) = length s"
  by (simp add: encode_ascii_def)

lemma nat_lt_16_cases:
  "(n :: nat) < 16 \<Longrightarrow> n \<in> {0, 1, 2, 3, 4, 5, 6, 7, 8, 9, 10, 11, 12, 13, 14, 15}"
  by (simp; arith)

lemma hex_digit_class: "n < 16 \<Longrightarrow> is_lower_hex (hex_digit n)"
  by (drule nat_lt_16_cases) (elim insertE emptyE, simp_all add: hex_digit_def is_lower_hex_def is_digit_def)

lemma length_hex_bytes [simp]: "length (hex_bytes bs) = 2 * length bs"
  by (induction bs) (auto simp: hex_bytes_def)

lemma hex_bytes_class: "list_all is_lower_hex (hex_bytes bs)"
proof (induction bs)
  case (Cons b bs)
  have "unat b div 16 < 16" using unsigned_less [of b, where ?'a = nat] by simp
  with Cons show ?case by (simp add: hex_bytes_def hex_digit_class)
qed (simp add: hex_bytes_def)

section \<open>Decimal text\<close>

definition dec_digit :: "nat \<Rightarrow> char" where
  "dec_digit n = ''0123456789'' ! n"

fun show_nat :: "nat \<Rightarrow> string" where
  "show_nat n = (if n < 10 then [dec_digit n] else show_nat (n div 10) @ [dec_digit (n mod 10)])"

declare show_nat.simps [simp del]

lemma show_nat_small [simp]: "n < 10 \<Longrightarrow> show_nat n = [dec_digit n]"
  by (subst show_nat.simps) simp

lemma show_nat_big [simp]: "\<not> n < 10 \<Longrightarrow> show_nat n = show_nat (n div 10) @ [dec_digit (n mod 10)]"
  by (subst show_nat.simps) simp

text \<open>\<open>str(n)\<close> and the decimal rendering of JSON integers.\<close>

definition show_int :: "int \<Rightarrow> string" where
  "show_int i = (if i < 0 then CHR ''-'' # show_nat (nat (- i)) else show_nat (nat i))"

definition digit_val :: "char \<Rightarrow> nat" where
  "digit_val c = ord_c c - 48"

definition read_nat :: "string \<Rightarrow> nat" where
  "read_nat s = foldl (\<lambda>acc c. 10 * acc + digit_val c) 0 s"

lemma nat_lt_10_cases: "(n :: nat) < 10 \<Longrightarrow> n \<in> {0, 1, 2, 3, 4, 5, 6, 7, 8, 9}"
  by (simp; arith)

lemma ord_dec_digit: "n < 10 \<Longrightarrow> ord_c (dec_digit n) = 48 + n"
  by (drule nat_lt_10_cases) (elim insertE emptyE, simp_all add: dec_digit_def)

lemma is_digit_dec_digit [simp]: "n < 10 \<Longrightarrow> is_digit (dec_digit n)"
  by (simp add: ord_dec_digit is_digit_def)

lemma digit_val_dec_digit [simp]: "n < 10 \<Longrightarrow> digit_val (dec_digit n) = n"
  by (simp add: ord_dec_digit digit_val_def)

lemma dec_digit_digit_val [simp]: "is_digit c \<Longrightarrow> dec_digit (digit_val c) = c"
proof -
  assume c: "is_digit c"
  then have "digit_val c < 10" by (auto simp: is_digit_def digit_val_def)
  then have "ord_c (dec_digit (digit_val c)) = ord_c c"
    using c by (simp add: ord_dec_digit) (simp add: is_digit_def digit_val_def)
  then show ?thesis by simp
qed

lemma digit_val_lt: "is_digit c \<Longrightarrow> digit_val c < 10"
  by (auto simp: is_digit_def digit_val_def)

lemma show_nat_digits: "list_all is_digit (show_nat n)"
  by (induction n rule: show_nat.induct) (subst show_nat.simps, simp)

lemma show_nat_nonempty [simp]: "show_nat n \<noteq> []"
  by (subst show_nat.simps) simp

lemma read_nat_append_digit: "read_nat (s @ [c]) = 10 * read_nat s + digit_val c"
  by (simp add: read_nat_def)

lemma read_show_nat [simp]: "read_nat (show_nat n) = n"
proof (induction n rule: show_nat.induct)
  case (1 n)
  show ?case
  proof (cases "n < 10")
    case True
    then show ?thesis by (simp add: read_nat_def)
  next
    case False
    with 1 show ?thesis by (simp add: read_nat_append_digit)
  qed
qed

lemma show_nat_inject [simp]: "show_nat m = show_nat n \<longleftrightarrow> m = n"
  by (metis read_show_nat)

lemma show_nat_head: "show_nat n = c # s \<Longrightarrow> is_digit c"
  using show_nat_digits [of n] by simp

lemma show_nat_no_leading_zero: "hd (show_nat n) = CHR ''0'' \<longleftrightarrow> n = 0"
proof (induction n rule: show_nat.induct)
  case (1 n)
  show ?case
  proof (cases "n < 10")
    case True
    have "ord_c (CHR ''0'') = 48" by simp
    with True have "dec_digit n = CHR ''0'' \<longleftrightarrow> n = 0"
      by (metis ord_dec_digit of_char_eq_iff add_cancel_right_right)
    with True show ?thesis by simp
  next
    case False
    with 1 show ?thesis by (simp add: div_eq_0_iff)
  qed
qed

text \<open>The number of decimal digits: \<open>k + 1\<close> digits are needed from \<open>10 ^ k\<close> on.\<close>

lemma show_nat_length_ge: "10 ^ k \<le> n \<Longrightarrow> k < length (show_nat n)"
proof (induction k arbitrary: n)
  case 0
  then show ?case by simp
next
  case (Suc k)
  have "(10 :: nat) \<le> 10 * 10 ^ k" by simp
  with Suc.prems have big: "\<not> n < 10" by (simp only: power_Suc)
  from Suc.prems have "10 ^ k \<le> n div 10"
    by (simp add: less_eq_div_iff_mult_less_eq mult.commute)
  then have "k < length (show_nat (n div 10))" by (rule Suc.IH)
  with big show ?case by simp
qed

lemma show_nat_length_le: "n < 10 ^ Suc k \<Longrightarrow> length (show_nat n) \<le> Suc k"
proof (induction k arbitrary: n)
  case (Suc k)
  show ?case
  proof (cases "n < 10")
    case False
    have "n div 10 < 10 ^ Suc k" using Suc.prems by (simp add: less_mult_imp_div_less)
    then have "length (show_nat (n div 10)) \<le> Suc k" by (rule Suc.IH)
    with False show ?thesis by simp
  qed simp
qed simp

lemma read_nat_Cons: "read_nat (c # s) = digit_val c * 10 ^ length s + read_nat s"
proof -
  have "foldl (\<lambda>acc c. 10 * acc + digit_val c) a s = a * 10 ^ length s + read_nat s" for a
    unfolding read_nat_def by (induction s rule: rev_induct) (simp_all add: algebra_simps)
  from this [of "digit_val c"] show ?thesis by (simp add: read_nat_def)
qed

lemma read_nat_bound: "list_all is_digit s \<Longrightarrow> read_nat s < 10 ^ length s"
proof (induction s)
  case (Cons c s)
  then have "digit_val c \<le> 9" using digit_val_lt [of c] by simp
  then have "digit_val c * 10 ^ length s \<le> 9 * 10 ^ length s" by (rule mult_le_mono1)
  moreover have "read_nat s < 10 ^ length s" using Cons by simp
  ultimately have "digit_val c * 10 ^ length s + read_nat s < 10 * 10 ^ length s" by linarith
  then show ?case by (simp add: read_nat_Cons)
qed (simp add: read_nat_def)

text \<open>Zero-padded fields, as in \<open>f"{n:04d}"\<close>.\<close>

definition pad_dec :: "nat \<Rightarrow> nat \<Rightarrow> string" where
  "pad_dec w n = replicate (w - length (show_nat n)) (CHR ''0'') @ show_nat n"

lemma pad_dec_digits: "list_all is_digit (pad_dec w n)"
  using show_nat_digits [of n] by (auto simp: pad_dec_def list_all_iff is_digit_def)

lemma length_pad_dec: "n < 10 ^ w \<Longrightarrow> 0 < w \<Longrightarrow> length (pad_dec w n) = w"
  using show_nat_length_le [of n "w - 1"] by (simp add: pad_dec_def)

lemma read_nat_zeros: "read_nat (replicate k (CHR ''0'') @ s) = read_nat s"
proof -
  have "foldl (\<lambda>acc c. 10 * acc + digit_val c) 0 (replicate k (CHR ''0'')) = 0"
    by (induction k) (simp_all add: digit_val_def)
  then show ?thesis by (simp add: read_nat_def)
qed

lemma read_pad_dec [simp]: "read_nat (pad_dec w n) = n"
  by (simp add: pad_dec_def read_nat_zeros)

end
