(* ===== verification/Py_Value.thy ===== *)
theory Py_Value
  imports Prelude "HOL-Library.Multiset"
begin

text \<open>
  Python values as the program inspects them at run time, and the part of the standard
  \<open>json\<close> module it uses.

  \<^item> \<open>pyval\<close>: the values an \<open>object\<close>-typed argument may hold.  A mapping is an
    association list in insertion order, with string keys; \<open>PDict\<close> is a \<open>dict\<close>,
    \<open>PProxy\<close> a read-only \<open>MappingProxyType\<close>, \<open>PObject d\<close> an object whose
    \<open>to_document()\<close> returns \<open>d\<close>, \<open>POther\<close> any value of another type, \<open>PFloat\<close> a
    float given by its text.
  \<^item> \<open>dumps\<close>: \<open>json.dumps(v, sort_keys=True, separators=(",", ":"), ensure_ascii=True)\<close>.
  \<^item> \<open>json_loads\<close>: \<open>json.loads\<close> with an \<open>object_pairs_hook\<close> that rejects duplicate keys
    and a \<open>parse_constant\<close> that rejects NaN and infinities; floats are rejected or kept
    according to its first argument.  The scanner recurses on fuel; \<open>json_fuel\<close> is
    enough for every input (\<open>parse_value_never_fuel\<close>).

  The main results are \<open>loads_dumps\<close>, parsing undoes printing up to the order of keys,
  and \<open>dumps_inject\<close>, equal text means equal values up to the order of keys.
\<close>

section \<open>Values\<close>

datatype pyval =
    PNone
  | PBool bool
  | PInt int
  | PFloat string
  | PStr string
  | PList "pyval list"
  | PTuple "pyval list"
  | PDict "(string \<times> pyval) list"
  | PProxy "(string \<times> pyval) list"
  | PObject pyval
  | POther string

text \<open>\<open>isinstance(v, Mapping)\<close> and \<open>isinstance(v, Sequence)\<close> with their contents.\<close>

fun mapping_items :: "pyval \<Rightarrow> (string \<times> pyval) list option" where
  "mapping_items (PDict kvs) = Some kvs"
| "mapping_items (PProxy kvs) = Some kvs"
| "mapping_items _ = None"

text \<open>\<open>document[key]\<close>, used after the key set has been checked.\<close>

definition dget :: "(string \<times> pyval) list \<Rightarrow> string \<Rightarrow> pyval" where
  "dget kvs k = (case map_of kvs k of Some v \<Rightarrow> v | None \<Rightarrow> PNone)"

text \<open>The optional string field of a document: a string or \<open>None\<close>.\<close>

fun opt_str :: "string option \<Rightarrow> pyval" where
  "opt_str None = PNone"
| "opt_str (Some s) = PStr s"

lemma dget_Cons [simp]: "dget ((k, v) # kvs) k' = (if k = k' then v else dget kvs k')"
  by (simp add: dget_def)

section \<open>json.dumps\<close>

definition json_escape :: "char \<Rightarrow> string" where
  "json_escape c =
    (let n = ord_c c in
     if n = 34 then [CHR 0x5C, c]
     else if n = 92 then [CHR 0x5C, c]
     else if n = 10 then [CHR 0x5C, CHR ''n'']
     else if n = 13 then [CHR 0x5C, CHR ''r'']
     else if n = 9 then [CHR 0x5C, CHR ''t'']
     else if n = 12 then [CHR 0x5C, CHR ''f'']
     else if n = 8 then [CHR 0x5C, CHR ''b'']
     else if 32 \<le> n \<and> n \<le> 126 then [c]
     else [CHR 0x5C, CHR ''u'', CHR ''0'', CHR ''0'', hex_digit (n div 16), hex_digit (n mod 16)])"

definition json_string :: "string \<Rightarrow> string" where
  "json_string s = CHR 0x22 # concat (map json_escape s) @ [CHR 0x22]"

fun join_comma :: "string list \<Rightarrow> string" where
  "join_comma [] = []"
| "join_comma [x] = x"
| "join_comma (x # y # zs) = x @ CHR '','' # join_comma (y # zs)"

definition json_member :: "string \<times> string \<Rightarrow> string" where
  "json_member kt = json_string (fst kt) @ CHR '':'' # snd kt"

fun dumps :: "pyval \<Rightarrow> string" where
  "dumps PNone = ''null''"
| "dumps (PBool b) = (if b then ''true'' else ''false'')"
| "dumps (PInt i) = show_int i"
| "dumps (PFloat t) = t"
| "dumps (PStr s) = json_string s"
| "dumps (PList vs) = CHR ''['' # join_comma (map dumps vs) @ '']''"
| "dumps (PTuple vs) = CHR ''['' # join_comma (map dumps vs) @ '']''"
| "dumps (PDict kvs) =
     CHR ''{'' # join_comma (map json_member (sort_key fst (map (\<lambda>(k, v). (k, dumps v)) kvs))) @ ''}''"
| "dumps (PProxy kvs) = []"
| "dumps (PObject d) = []"
| "dumps (POther t) = []"

text \<open>
  Values \<open>json.dumps\<close> accepts and whose text determines them: no float, no tuple, every
  integer within the interpreter's limit of 4300 decimal digits, no repeated key.  The
  last three equations of \<open>dumps\<close>, where \<open>json.dumps\<close> raises \<open>TypeError\<close>, and the
  equation for floats are never reached: the canonicaliser has replaced or rejected
  these values before.
\<close>

definition max_str_digits :: nat where
  "max_str_digits = 4300"

definition int_digits :: "int \<Rightarrow> nat" where
  "int_digits i = length (show_nat (nat \<bar>i\<bar>))"

fun is_json :: "pyval \<Rightarrow> bool" where
  "is_json PNone = True"
| "is_json (PBool b) = True"
| "is_json (PInt i) = (int_digits i \<le> max_str_digits)"
| "is_json (PStr s) = True"
| "is_json (PList vs) = list_all is_json vs"
| "is_json (PDict kvs) = (distinct (map fst kvs) \<and> list_all (\<lambda>(k, v). is_json v) kvs)"
| "is_json _ = False"

text \<open>A value with the keys of every mapping in sorted order.\<close>

fun canon :: "pyval \<Rightarrow> pyval" where
  "canon (PList vs) = PList (map canon vs)"
| "canon (PDict kvs) = PDict (sort_key fst (map (\<lambda>(k, v). (k, canon v)) kvs))"
| "canon v = v"

section \<open>json.loads\<close>

datatype json_error =
    JSONDecodeError
  | JsonFloat
  | JsonConstant
  | JsonDuplicateKey
  | JsonIntDigits
  | JsonOutsideModel
  | JsonFuel

fun skip_ws :: "string \<Rightarrow> string" where
  "skip_ws [] = []"
| "skip_ws (c # cs) = (if ord_c c \<in> {32, 9, 10, 13} then skip_ws cs else c # cs)"

definition hex_val :: "char \<Rightarrow> nat option" where
  "hex_val c =
    (let n = ord_c c in
     if 48 \<le> n \<and> n \<le> 57 then Some (n - 48)
     else if 97 \<le> n \<and> n \<le> 102 then Some (n - 87)
     else if 65 \<le> n \<and> n \<le> 70 then Some (n - 55)
     else None)"

text \<open>The next character after white space.\<close>

definition next_tok :: "string \<Rightarrow> json_error + (char \<times> string)" where
  "next_tok s = (case skip_ws s of [] \<Rightarrow> Inl JSONDecodeError | c # cs \<Rightarrow> Inr (c, cs))"

text \<open>The text after a backslash: the character it denotes and the rest.\<close>

definition simple_escapes :: "(char \<times> char) list" where
  "simple_escapes =
    [(CHR 0x22, CHR 0x22), (CHR 0x5C, CHR 0x5C), (CHR ''/'', CHR ''/''), (CHR ''b'', CHR 0x08),
     (CHR ''f'', CHR 0x0C), (CHR ''n'', CHR 0x0A), (CHR ''r'', CHR 0x0D), (CHR ''t'', CHR 0x09)]"

fun scan_unicode :: "string \<Rightarrow> json_error + (char \<times> string)" where
  "scan_unicode (a # b # x # y # rest) =
    (case (hex_val a, hex_val b, hex_val x, hex_val y) of
       (Some a', Some b', Some x', Some y') \<Rightarrow>
         if a' = 0 \<and> b' = 0 then Inr (char_of (16 * x' + y'), rest) else Inl JsonOutsideModel
     | _ \<Rightarrow> Inl JSONDecodeError)"
| "scan_unicode _ = Inl JSONDecodeError"

fun scan_escape :: "string \<Rightarrow> json_error + (char \<times> string)" where
  "scan_escape [] = Inl JSONDecodeError"
| "scan_escape (e # es) =
    (if e = CHR ''u'' then scan_unicode es
     else case map_of simple_escapes e of
            None \<Rightarrow> Inl JSONDecodeError
          | Some d \<Rightarrow> Inr (d, es))"

lemma scan_unicode_shorter: "scan_unicode s = Inr (c, r) \<Longrightarrow> length r < length s"
  by (induction s rule: scan_unicode.induct) (auto split: option.splits if_splits)

lemma scan_escape_shorter: "scan_escape s = Inr (c, r) \<Longrightarrow> length r < length s"
  by (cases s) (auto split: option.splits if_splits dest: scan_unicode_shorter)

function scan_string :: "string \<Rightarrow> json_error + (string \<times> string)" where
  "scan_string [] = Inl JSONDecodeError"
| "scan_string (c # cs) =
    (if ord_c c = 34 then Inr ([], cs)
     else if ord_c c = 92 then
       rbind (scan_escape cs) (\<lambda>dr. rbind (scan_string (snd dr)) (\<lambda>(s, r). Inr (fst dr # s, r)))
     else if ord_c c < 32 then Inl JSONDecodeError
     else rbind (scan_string cs) (\<lambda>(s, r). Inr (c # s, r)))"
  by pat_completeness auto
termination
  by (relation "measure length") (auto dest: scan_escape_shorter)

text \<open>
  The number grammar \<open>(-?(?:0|[1-9][0-9]*))(\.[0-9]+)?([eE][-+]?[0-9]+)?\<close>: the text of
  the integer part, the text of the fraction and exponent, and the rest.
\<close>

definition scan_int_part :: "string \<Rightarrow> (string \<times> string) option" where
  "scan_int_part s =
    (case s of
       [] \<Rightarrow> None
     | c # cs \<Rightarrow>
         if c = CHR ''0'' then Some (''0'', cs)
         else if is_digit c then Some (takeWhile is_digit s, dropWhile is_digit s)
         else None)"

definition scan_fraction :: "string \<Rightarrow> string \<times> string" where
  "scan_fraction s =
    (case s of
       c # cs \<Rightarrow>
         if c = CHR ''.'' \<and> takeWhile is_digit cs \<noteq> []
         then (c # takeWhile is_digit cs, dropWhile is_digit cs) else ([], s)
     | [] \<Rightarrow> ([], s))"

definition scan_exponent :: "string \<Rightarrow> string \<times> string" where
  "scan_exponent s =
    (case s of
       c # cs \<Rightarrow>
         if c = CHR ''e'' \<or> c = CHR ''E'' then
           (let (sg, ds) = (case cs of d # ds \<Rightarrow> if d = CHR ''-'' \<or> d = CHR ''+'' then ([d], ds) else ([], cs)
                            | [] \<Rightarrow> ([], cs))
            in if takeWhile is_digit ds \<noteq> []
               then (c # sg @ takeWhile is_digit ds, dropWhile is_digit ds) else ([], s))
         else ([], s)
     | [] \<Rightarrow> ([], s))"

definition scan_number :: "bool \<Rightarrow> bool \<Rightarrow> string \<Rightarrow> json_error + (pyval \<times> string)" where
  "scan_number floats neg s =
    (case scan_int_part s of
       None \<Rightarrow> Inl JSONDecodeError
     | Some (ds, r0) \<Rightarrow>
         (let (frac, r1) = scan_fraction r0; (ex, r2) = scan_exponent r1 in
          if frac @ ex = [] then
            (if length ds \<le> max_str_digits
             then Inr (PInt (if neg then - int (read_nat ds) else int (read_nat ds)), r2)
             else Inl JsonIntDigits)
          else if floats then Inr (PFloat ((if neg then ''-'' else []) @ ds @ frac @ ex), r2)
          else Inl JsonFloat))"

definition starts_with :: "string \<Rightarrow> string \<Rightarrow> bool" where
  "starts_with p s \<longleftrightarrow> take (length p) s = p"

definition scan_literal :: "bool \<Rightarrow> string \<Rightarrow> json_error + (pyval \<times> string)" where
  "scan_literal floats s =
    (if starts_with ''null'' s then Inr (PNone, drop 4 s)
     else if starts_with ''true'' s then Inr (PBool True, drop 4 s)
     else if starts_with ''false'' s then Inr (PBool False, drop 5 s)
     else if starts_with ''NaN'' s \<or> starts_with ''Infinity'' s \<or> starts_with ''-Infinity'' s
       then Inl JsonConstant
     else case s of
       [] \<Rightarrow> Inl JSONDecodeError
     | c # cs \<Rightarrow>
         if c = CHR ''-'' then scan_number floats True cs else scan_number floats False s)"

text \<open>The \<open>object_pairs_hook\<close> every strict reader of the program installs.\<close>

definition no_duplicates :: "(string \<times> pyval) list \<Rightarrow> json_error + pyval" where
  "no_duplicates kvs = (if distinct (map fst kvs) then Inr (PDict kvs) else Inl JsonDuplicateKey)"

fun parse_value :: "bool \<Rightarrow> nat \<Rightarrow> string \<Rightarrow> json_error + (pyval \<times> string)"
  and parse_elements :: "bool \<Rightarrow> nat \<Rightarrow> string \<Rightarrow> json_error + (pyval list \<times> string)"
  and parse_members :: "bool \<Rightarrow> nat \<Rightarrow> string \<Rightarrow> json_error + ((string \<times> pyval) list \<times> string)"
where
  "parse_value fl 0 s = Inl JsonFuel"
| "parse_value fl (Suc n) [] = Inl JSONDecodeError"
| "parse_value fl (Suc n) (c # cs) =
    (if ord_c c = 34 then rbind (scan_string cs) (\<lambda>(t, r). Inr (PStr t, r))
     else if c = CHR ''['' then
       rbind (next_tok cs) (\<lambda>(d, ds).
         if d = CHR '']'' then Inr (PList [], ds)
         else rbind (parse_elements fl n (d # ds)) (\<lambda>(vs, r). Inr (PList vs, r)))
     else if c = CHR ''{'' then
       rbind (next_tok cs) (\<lambda>(d, ds).
         if d = CHR ''}'' then Inr (PDict [], ds)
         else rbind (parse_members fl n (d # ds))
                (\<lambda>(kvs, r). rbind (no_duplicates kvs) (\<lambda>v. Inr (v, r))))
     else scan_literal fl (c # cs))"
| "parse_elements fl 0 s = Inl JsonFuel"
| "parse_elements fl (Suc n) s =
    rbind (parse_value fl n s) (\<lambda>(v, r).
    rbind (next_tok r) (\<lambda>(c, cs).
      if c = CHR '']'' then Inr ([v], cs)
      else if c = CHR '','' then
        rbind (parse_elements fl n (skip_ws cs)) (\<lambda>(vs, r'). Inr (v # vs, r'))
      else Inl JSONDecodeError))"
| "parse_members fl 0 s = Inl JsonFuel"
| "parse_members fl (Suc n) [] = Inl JSONDecodeError"
| "parse_members fl (Suc n) (c # cs) =
    (if ord_c c = 34 then
       rbind (scan_string cs) (\<lambda>(k, r).
       rbind (next_tok r) (\<lambda>(d, ds).
         if d = CHR '':'' then
           rbind (parse_value fl n (skip_ws ds)) (\<lambda>(v, r').
           rbind (next_tok r') (\<lambda>(e, es).
             if e = CHR ''}'' then Inr ([(k, v)], es)
             else if e = CHR '','' then
               rbind (parse_members fl n (skip_ws es)) (\<lambda>(kvs, r''). Inr ((k, v) # kvs, r''))
             else Inl JSONDecodeError))
         else Inl JSONDecodeError))
     else Inl JSONDecodeError)"

definition json_fuel :: "string \<Rightarrow> nat" where
  "json_fuel s = 2 * length s + 2"

definition json_loads :: "bool \<Rightarrow> string \<Rightarrow> json_error + pyval" where
  "json_loads floats s =
    (let t = skip_ws s in
     rbind (parse_value floats (json_fuel t) t)
       (\<lambda>(v, r). if skip_ws r = [] then Inr v else Inl JSONDecodeError))"

section \<open>Parsing undoes printing\<close>

subsection \<open>Strings\<close>

lemma hex_val_hex_digit [simp]: "n < 16 \<Longrightarrow> hex_val (hex_digit n) = Some n"
  by (drule nat_lt_16_cases) (elim insertE emptyE, simp_all add: hex_digit_def hex_val_def)

lemma char_eqI: "ord_c c = ord_c d \<Longrightarrow> c = d"
  by simp

lemma ord_c_inv: "ord_c c = n \<Longrightarrow> c = char_of n"
  by auto

lemma scan_string_escape:
  "scan_string (json_escape c @ t) = rbind (scan_string t) (\<lambda>(s, r). Inr (c # s, r))"
proof -
  let ?n = "ord_c c"
  consider (two) "?n \<in> {34, 92, 10, 13, 9, 12, 8}"
    | (plain) "?n \<notin> {34, 92, 10, 13, 9, 12, 8}" "32 \<le> ?n" "?n \<le> 126"
    | (hex) "?n \<notin> {34, 92, 10, 13, 9, 12, 8}" "\<not> (32 \<le> ?n \<and> ?n \<le> 126)"
    by blast
  then show ?thesis
  proof cases
    case two
    then have "c \<in> {CHR 0x22, CHR 0x5C, CHR 0x0A, CHR 0x0D, CHR 0x09, CHR 0x0C, CHR 0x08}"
      by (auto intro!: char_eqI)
    then show ?thesis by (auto simp: json_escape_def simple_escapes_def)
  next
    case plain
    then show ?thesis by (simp add: json_escape_def)
  next
    case hex
    have "?n < 256" by simp
    then have "?n div 16 < 16" by linarith
    moreover have "hex_val (CHR ''0'') = Some 0" by (simp add: hex_val_def)
    ultimately show ?thesis using hex by (simp add: json_escape_def Let_def)
  qed
qed

lemma scan_string_escaped [simp]:
  "scan_string (concat (map json_escape s) @ CHR 0x22 # r) = Inr (s, r)"
  by (induction s) (simp_all add: scan_string_escape)

subsection \<open>Numbers\<close>

text \<open>What may follow a value inside a document: nothing, or punctuation.\<close>

definition delimited :: "string \<Rightarrow> bool" where
  "delimited r \<longleftrightarrow> (r = [] \<or> hd r \<in> {CHR '','', CHR '']'', CHR ''}''})"

lemma delimited_no_ws: "delimited r \<Longrightarrow> skip_ws r = r"
  by (cases r) (auto simp: delimited_def)

lemma delimited_number:
  assumes "delimited r"
  shows "scan_fraction r = ([], r)" "scan_exponent r = ([], r)"
    and "takeWhile is_digit r = []" "dropWhile is_digit r = r"
  using assms by (cases r; auto simp: delimited_def scan_fraction_def scan_exponent_def is_digit_def)+

lemma scan_int_part_show_nat:
  assumes "takeWhile is_digit r = []"
  shows "scan_int_part (show_nat n @ r) = Some (show_nat n, r)"
proof -
  obtain c cs where sh: "show_nat n = c # cs" by (cases "show_nat n") auto
  have digits: "list_all is_digit (show_nat n)" by (rule show_nat_digits)
  show ?thesis
  proof (cases "n = 0")
    case True
    then show ?thesis by (simp add: scan_int_part_def dec_digit_def)
  next
    case False
    with sh show_nat_no_leading_zero [of n] have "c \<noteq> CHR ''0''" by simp
    moreover have "takeWhile is_digit (show_nat n @ r) = show_nat n"
      "dropWhile is_digit (show_nat n @ r) = r"
      using digits assms takeWhile_dropWhile_id [of is_digit r]
      by (simp_all add: list_all_iff takeWhile_append2 dropWhile_append2)
    moreover have "is_digit c" using sh digits by simp
    ultimately show ?thesis using sh by (simp add: scan_int_part_def)
  qed
qed

lemma scan_number_show_nat:
  assumes "delimited r" "length (show_nat n) \<le> max_str_digits"
  shows "scan_number fl neg (show_nat n @ r) = Inr (PInt (if neg then - int n else int n), r)"
  using assms by (simp add: scan_number_def scan_int_part_show_nat delimited_number)

lemma digit_not_literal:
  assumes "is_digit c"
  shows "\<not> starts_with ''null'' (c # s)" "\<not> starts_with ''true'' (c # s)"
    "\<not> starts_with ''false'' (c # s)" "\<not> starts_with ''NaN'' (c # s)"
    "\<not> starts_with ''Infinity'' (c # s)" "\<not> starts_with ''-Infinity'' (c # s)"
  using assms by (auto simp: starts_with_def is_digit_def)

lemma minus_not_literal:
  assumes "is_digit c"
  shows "\<not> starts_with ''-Infinity'' (CHR ''-'' # c # s)"
  using assms by (auto simp: starts_with_def is_digit_def)

lemma scan_literal_int:
  assumes "delimited r" "int_digits i \<le> max_str_digits"
  shows "scan_literal fl (show_int i @ r) = Inr (PInt i, r)"
proof -
  obtain c cs where sh: "show_nat (nat \<bar>i\<bar>) = c # cs" by (cases "show_nat (nat \<bar>i\<bar>)") auto
  then have c: "is_digit c" by (rule show_nat_head)
  note len = assms(2)[unfolded int_digits_def]
  show ?thesis
  proof (cases "i < 0")
    case True
    then have eq: "show_int i = CHR ''-'' # show_nat (nat \<bar>i\<bar>)" by (simp add: show_int_def)
    have "scan_literal fl (show_int i @ r) = scan_number fl True (show_nat (nat \<bar>i\<bar>) @ r)"
      using minus_not_literal [OF c, of "cs @ r"]
      by (simp add: eq sh scan_literal_def) (simp add: starts_with_def)
    with scan_number_show_nat [OF assms(1) len] True show ?thesis by simp
  next
    case False
    then have eq: "show_int i = show_nat (nat \<bar>i\<bar>)" by (simp add: show_int_def)
    have "scan_literal fl (show_int i @ r) = scan_number fl False (show_nat (nat \<bar>i\<bar>) @ r)"
      using digit_not_literal [OF c, of "cs @ r"] c by (auto simp: eq sh scan_literal_def is_digit_def)
    with scan_number_show_nat [OF assms(1) len] False show ?thesis by simp
  qed
qed

subsection \<open>Arrays and objects\<close>

lemma insort_key_apsnd:
  "insort_key fst (k, f v) (map (\<lambda>(k, v). (k, f v)) kvs)
    = map (\<lambda>(k, v). (k, f v)) (insort_key fst (k, v) kvs)"
  by (induction kvs) auto

lemma sort_key_apsnd:
  "sort_key fst (map (\<lambda>(k, v). (k, f v)) kvs) = map (\<lambda>(k, v). (k, f v)) (sort_key fst kvs)"
  by (induction kvs) (auto simp: sort_key_def insort_key_apsnd split: prod.splits)

lemma dumps_PDict_sorted:
  "dumps (PDict kvs) =
    CHR ''{'' # join_comma (map (\<lambda>(k, v). json_member (k, dumps v)) (sort_key fst kvs)) @ ''}''"
  by (simp add: sort_key_apsnd) (simp add: comp_def case_prod_unfold)

lemma canon_PDict_sorted: "canon (PDict kvs) = PDict (map (\<lambda>(k, v). (k, canon v)) (sort_key fst kvs))"
  by (simp add: sort_key_apsnd)

lemma join_comma_Cons: "xs \<noteq> [] \<Longrightarrow> join_comma (x # xs) = x @ CHR '','' # join_comma xs"
  by (cases xs) auto

lemma next_tok_char [simp]: "ord_c c \<notin> {32, 9, 10, 13} \<Longrightarrow> next_tok (c # cs) = Inr (c, cs)"
  by (simp add: next_tok_def)

definition opens_value :: "char \<Rightarrow> bool" where
  "opens_value c \<longleftrightarrow> c \<notin> {CHR '','', CHR '']'', CHR ''}'', CHR '':''} \<and> ord_c c \<notin> {32, 9, 10, 13}"

lemma dumps_head: "is_json v \<Longrightarrow> \<exists>c cs. dumps v = c # cs \<and> opens_value c"
proof (cases v)
  case (PInt i)
  obtain c cs where sh: "show_nat (nat \<bar>i\<bar>) = c # cs" by (cases "show_nat (nat \<bar>i\<bar>)") auto
  then have "is_digit c" by (rule show_nat_head)
  with sh PInt show ?thesis
    by (cases "i < 0") (auto simp: show_int_def opens_value_def is_digit_def)
qed (auto simp: opens_value_def json_string_def)

lemma opens_value_no_ws: "opens_value c \<Longrightarrow> skip_ws (c # s) = c # s"
  by (auto simp: opens_value_def)


definition has_head :: "pyval \<Rightarrow> bool" where
  "has_head v \<longleftrightarrow> (\<exists>c cs. dumps v = c # cs \<and> opens_value c)"

lemma has_head_json: "is_json v \<Longrightarrow> has_head v"
  unfolding has_head_def by (rule dumps_head)

text \<open>
  One value is read back: for any fuel of at least twice its printed length, and whatever
  punctuation follows.
\<close>

definition reads_back :: "bool \<Rightarrow> pyval \<Rightarrow> bool" where
  "reads_back fl v \<longleftrightarrow> (\<forall>n r. delimited r \<longrightarrow> 2 * length (dumps v) \<le> n \<longrightarrow>
     parse_value fl n (dumps v @ r) = Inr (canon v, r))"

lemma reads_backD:
  "reads_back fl v \<Longrightarrow> delimited r \<Longrightarrow> 2 * length (dumps v) \<le> n \<Longrightarrow>
    parse_value fl n (dumps v @ r) = Inr (canon v, r)"
  by (simp add: reads_back_def)

lemma delimited_simps [simp]:
  "delimited (CHR '','' # r)" "delimited (CHR '']'' # r)" "delimited (CHR ''}'' # r)"
  by (simp_all add: delimited_def)

lemma parse_elements_dumps:
  assumes "vs \<noteq> []" "\<And>v. v \<in> set vs \<Longrightarrow> reads_back fl v" "\<And>v. v \<in> set vs \<Longrightarrow> has_head v"
    and "2 * length (join_comma (map dumps vs)) < n"
  shows "parse_elements fl n (join_comma (map dumps vs) @ CHR '']'' # r) = Inr (map canon vs, r)"
  using assms
proof (induction vs arbitrary: n)
  case (Cons v vs)
  obtain m where n: "n = Suc m" using Cons.prems(4) by (cases n) auto
  have rb: "reads_back fl v" using Cons.prems(2) by simp
  show ?case
  proof (cases "vs = []")
    case True
    have "parse_value fl m (dumps v @ CHR '']'' # r) = Inr (canon v, CHR '']'' # r)"
      using rb Cons.prems(4) True n by (intro reads_backD) auto
    with True n show ?thesis by simp
  next
    case False
    let ?t = "join_comma (map dumps vs) @ CHR '']'' # r"
    have jc: "join_comma (map dumps (v # vs)) @ CHR '']'' # r = dumps v @ CHR '','' # ?t"
      using False by (simp add: join_comma_Cons)
    have len: "length (join_comma (map dumps (v # vs))) = length (dumps v) + length (join_comma (map dumps vs)) + 1"
      using False by (simp add: join_comma_Cons)
    have val: "parse_value fl m (dumps v @ CHR '','' # ?t) = Inr (canon v, CHR '','' # ?t)"
      using rb Cons.prems(4) n len by (intro reads_backD) auto
    obtain w ws where vs: "vs = w # ws" using False by (cases vs) auto
    obtain c cs where "dumps w = c # cs" "opens_value c"
      using Cons.prems(3) [of w] vs by (auto simp: has_head_def)
    then have ws: "skip_ws ?t = ?t"
      using vs by (cases ws) (auto simp: opens_value_def join_comma_Cons)
    have "parse_elements fl m ?t = Inr (map canon vs, r)"
      using False Cons.prems n len by (intro Cons.IH) auto
    with val ws show ?thesis by (simp only: jc n) simp
  qed
qed simp

lemma json_member_append:
  "json_member (k, t) @ s = CHR 0x22 # concat (map json_escape k) @ CHR 0x22 # CHR '':'' # t @ s"
  by (simp add: json_member_def json_string_def)

lemma parse_members_dumps:
  assumes "kvs \<noteq> []" "\<And>k v. (k, v) \<in> set kvs \<Longrightarrow> reads_back fl v"
    and "\<And>k v. (k, v) \<in> set kvs \<Longrightarrow> has_head v"
    and "2 * length (join_comma (map (\<lambda>(k, v). json_member (k, dumps v)) kvs)) < n"
  shows "parse_members fl n (join_comma (map (\<lambda>(k, v). json_member (k, dumps v)) kvs) @ CHR ''}'' # r)
    = Inr (map (\<lambda>(k, v). (k, canon v)) kvs, r)"
  using assms
proof (induction kvs arbitrary: n)
  case (Cons kv kvs)
  obtain k v where kv: "kv = (k, v)" by (cases kv)
  obtain m where n: "n = Suc m" using Cons.prems(4) by (cases n) auto
  have rb: "reads_back fl v" using Cons.prems(2) [of k v] kv by simp
  obtain c cs where c: "dumps v = c # cs" "opens_value c"
    using Cons.prems(3) [of k v] kv by (auto simp: has_head_def)
  have ws: "skip_ws (dumps v @ s) = dumps v @ s" for s
    using c by (simp add: opens_value_def)
  let ?p = "\<lambda>(k, v). json_member (k, dumps v)"
  show ?case
  proof (cases "kvs = []")
    case True
    have "parse_value fl m (dumps v @ CHR ''}'' # r) = Inr (canon v, CHR ''}'' # r)"
      using rb Cons.prems(4) True n kv
      by (intro reads_backD) (auto simp: json_member_def json_string_def)
    with True n kv ws show ?thesis by (simp add: json_member_append)
  next
    case False
    let ?t = "join_comma (map ?p kvs) @ CHR ''}'' # r"
    have jc: "join_comma (map ?p (kv # kvs)) @ CHR ''}'' # r = json_member (k, dumps v) @ CHR '','' # ?t"
      using False kv by (simp add: join_comma_Cons)
    have len: "length (join_comma (map ?p (kv # kvs)))
        = length (json_member (k, dumps v)) + length (join_comma (map ?p kvs)) + 1"
      using False kv by (simp add: join_comma_Cons)
    have val: "parse_value fl m (dumps v @ CHR '','' # ?t) = Inr (canon v, CHR '','' # ?t)"
      using rb Cons.prems(4) n len
      by (intro reads_backD) (auto simp: json_member_def json_string_def)
    have ws': "skip_ws ?t = ?t"
      using False by (cases kvs; cases "tl kvs") (auto simp: json_member_def json_string_def split: prod.splits)
    have "parse_members fl m ?t = Inr (map (\<lambda>(k, v). (k, canon v)) kvs, r)"
      using False Cons.prems n len by (intro Cons.IH) auto
    with val ws ws' have "parse_members fl (Suc m) (json_member (k, dumps v) @ CHR '','' # ?t)
        = Inr ((k, canon v) # map (\<lambda>(k, v). (k, canon v)) kvs, r)"
      by (simp add: json_member_append)
    then show ?thesis by (simp only: jc n) (simp add: kv)
  qed
qed simp

lemma distinct_sort_key_fst: "distinct (map fst (sort_key fst kvs)) = distinct (map fst kvs)"
  by (metis mset_map mset_sort mset_eq_imp_distinct_iff)

lemma parse_value_literal:
  "0 < n \<Longrightarrow> ord_c c \<noteq> 34 \<Longrightarrow> c \<notin> {CHR ''['', CHR ''{''} \<Longrightarrow>
    parse_value fl n (c # cs) = scan_literal fl (c # cs)"
  by (cases n) auto

lemma reads_back_scalars: "reads_back fl PNone" "reads_back fl (PBool b)"
  by (auto simp: reads_back_def parse_value_literal scan_literal_def starts_with_def)

lemma reads_back_string: "reads_back fl (PStr s)"
proof -
  have "parse_value fl n (json_string s @ r) = Inr (PStr s, r)" if "0 < n" for n r
    using that by (cases n) (simp_all add: json_string_def)
  then show ?thesis by (simp add: reads_back_def json_string_def)
qed

lemma reads_back_int:
  assumes "int_digits i \<le> max_str_digits"
  shows "reads_back fl (PInt i)"
proof -
  obtain c cs where sh: "show_nat (nat \<bar>i\<bar>) = c # cs" by (cases "show_nat (nat \<bar>i\<bar>)") auto
  then have "is_digit c" by (rule show_nat_head)
  then have "ord_c c \<noteq> 34" "c \<noteq> CHR ''[''" "c \<noteq> CHR ''{''" by (auto simp: is_digit_def)
  with sh obtain d ds where d: "show_int i = d # ds" "ord_c d \<noteq> 34" "d \<notin> {CHR ''['', CHR ''{''}"
    by (cases "i < 0") (auto simp: show_int_def)
  have "parse_value fl n (show_int i @ r) = Inr (PInt i, r)" if "0 < n" "delimited r" for n r
    using scan_literal_int [OF that(2) assms, of fl] that(1) d by (simp add: parse_value_literal)
  with d show ?thesis by (simp add: reads_back_def)
qed

text \<open>A float with a whole value, as \<open>repr\<close> prints it.\<close>

lemma reads_back_whole_float: "reads_back True (PFloat (show_nat n @ ''.0''))"
proof -
  obtain c cs where sh: "show_nat n = c # cs" by (cases "show_nat n") auto
  then have c: "is_digit c" by (rule show_nat_head)
  have "parse_value True m (show_nat n @ ''.0'' @ r) = Inr (PFloat (show_nat n @ ''.0''), r)"
    if "0 < m" "delimited r" for m r
  proof -
    have "parse_value True m (show_nat n @ ''.0'' @ r) = scan_literal True (show_nat n @ ''.0'' @ r)"
      unfolding sh append_Cons using that(1) c by (intro parse_value_literal) (auto simp: is_digit_def)
    also have "\<dots> = scan_number True False (show_nat n @ ''.0'' @ r)"
      using digit_not_literal [OF c, of "cs @ ''.0'' @ r"] c by (auto simp: sh scan_literal_def is_digit_def)
    also have "\<dots> = Inr (PFloat (show_nat n @ ''.0''), r)"
    proof -
      have "scan_int_part (show_nat n @ ''.0'' @ r) = Some (show_nat n, ''.0'' @ r)"
        by (rule scan_int_part_show_nat) (simp add: is_digit_def)
      moreover have "scan_fraction (''.0'' @ r) = (''.0'', r)"
        using delimited_number(3,4) [OF that(2)] by (simp add: scan_fraction_def is_digit_def)
      ultimately show ?thesis using delimited_number(2) [OF that(2)] by (simp add: scan_number_def)
    qed
    finally show ?thesis .
  qed
  then show ?thesis by (simp add: reads_back_def)
qed

lemma reads_back_list:
  assumes "\<And>v. v \<in> set vs \<Longrightarrow> reads_back fl v" "\<And>v. v \<in> set vs \<Longrightarrow> has_head v"
  shows "reads_back fl (PList vs)"
  unfolding reads_back_def
proof (intro allI impI)
  fix n r assume n: "2 * length (dumps (PList vs)) \<le> n"
  then obtain m where m: "n = Suc m" by (cases n) auto
  show "parse_value fl n (dumps (PList vs) @ r) = Inr (canon (PList vs), r)"
  proof (cases vs)
    case (Cons w ws)
    with assms(2) obtain c cs where c: "dumps w = c # cs" "opens_value c"
      by (metis has_head_def list.set_intros(1))
    let ?t = "join_comma (map dumps vs) @ CHR '']'' # r"
    from c Cons obtain cs' where t: "?t = c # cs'" by (cases ws) auto
    have "parse_elements fl m ?t = Inr (map canon vs, r)"
      using assms n m Cons by (intro parse_elements_dumps) auto
    moreover have "next_tok ?t = Inr (c, cs')" "c \<noteq> CHR '']''" using t c by (auto simp: opens_value_def)
    ultimately show ?thesis using t m by simp
  qed (simp add: m)
qed

lemma reads_back_dict:
  assumes "distinct (map fst kvs)" "\<And>k v. (k, v) \<in> set kvs \<Longrightarrow> reads_back fl v"
    and "\<And>k v. (k, v) \<in> set kvs \<Longrightarrow> has_head v"
  shows "reads_back fl (PDict kvs)"
  unfolding reads_back_def
proof (intro allI impI)
  let ?ms = "map (\<lambda>(k, v). json_member (k, dumps v)) (sort_key fst kvs)"
  fix n r assume n: "2 * length (dumps (PDict kvs)) \<le> n"
  then obtain m where m: "n = Suc m" by (cases n) auto
  show "parse_value fl n (dumps (PDict kvs) @ r) = Inr (canon (PDict kvs), r)"
  proof (cases "kvs = []")
    case False
    let ?t = "join_comma ?ms @ CHR ''}'' # r"
    from False obtain k v kvs' where sk: "sort_key fst kvs = (k, v) # kvs'"
      by (metis list.exhaust set_empty set_sort surj_pair)
    then obtain cs' where t: "?t = CHR 0x22 # cs'"
      by (cases kvs') (auto simp: json_member_def json_string_def split: prod.splits)
    have mem: "reads_back fl v" "has_head v" if "(k, v) \<in> set (sort_key fst kvs)" for k v
      using assms(2,3) [of k v] that by simp_all
    have "parse_members fl m ?t = Inr (map (\<lambda>(k, v). (k, canon v)) (sort_key fst kvs), r)"
      using n m sk
      by (intro parse_members_dumps mem) (auto simp: dumps_PDict_sorted simp del: dumps.simps)
    moreover have "no_duplicates (map (\<lambda>(k, v). (k, canon v)) (sort_key fst kvs)) = Inr (canon (PDict kvs))"
      using assms(1) distinct_sort_key_fst [of kvs]
      by (simp add: no_duplicates_def canon_PDict_sorted comp_def case_prod_unfold del: canon.simps)
    ultimately show ?thesis using t m by (simp add: dumps_PDict_sorted del: dumps.simps)
  qed (simp add: m)
qed

theorem parse_value_dumps: "is_json v \<Longrightarrow> reads_back fl v"
proof (induction v rule: pyval.induct)
  case (PList vs)
  then show ?case by (intro reads_back_list) (auto simp: list_all_iff has_head_json)
next
  case (PDict kvs)
  have js: "is_json v" if "(k, v) \<in> set kvs" for k v
    using PDict.prems that by (auto simp: list_all_iff)
  show ?case
    using PDict js by (intro reads_back_dict) (auto simp: has_head_json)
qed (simp_all add: reads_back_scalars reads_back_string reads_back_int)

lemma loads_reads_back: "reads_back fl v \<Longrightarrow> has_head v \<Longrightarrow> json_loads fl (dumps v) = Inr (canon v)"
  using reads_backD [of fl v "[]" "json_fuel (dumps v)"]
  by (auto simp: json_loads_def Let_def json_fuel_def delimited_def has_head_def opens_value_def)

lemma skip_ws_dumps: "is_json v \<Longrightarrow> skip_ws (dumps v) = dumps v"
  using dumps_head [of v] by (auto simp: opens_value_def)

theorem loads_dumps: "is_json v \<Longrightarrow> json_loads fl (dumps v) = Inr (canon v)"
  by (simp add: loads_reads_back parse_value_dumps has_head_json)

theorem dumps_inject: "is_json v \<Longrightarrow> is_json w \<Longrightarrow> dumps v = dumps w \<Longrightarrow> canon v = canon w"
  using loads_dumps [of v True] loads_dumps [of w True] by simp

subsection \<open>Canonical order\<close>

lemma is_json_canon: "is_json v \<Longrightarrow> is_json (canon v)"
proof (induction v rule: pyval.induct)
  case (PDict kvs)
  then show ?case
    using distinct_sort_key_fst [of kvs]
    by (fastforce simp: canon_PDict_sorted list_all_iff comp_def case_prod_unfold simp del: canon.simps)
qed (auto simp: list_all_iff)

lemma sort_key_fst_sorted: "sorted (map fst kvs) \<Longrightarrow> sort_key fst kvs = kvs"
  by (simp add: sort_key_id_if_sorted)

lemma dumps_canon: "dumps (canon v) = dumps v"
proof (induction v rule: pyval.induct)
  case (PDict kvs)
  have "sort_key fst (map (\<lambda>(k, v). (k, canon v)) (sort_key fst kvs)) = map (\<lambda>(k, v). (k, canon v)) (sort_key fst kvs)"
    by (intro sort_key_fst_sorted) (simp add: comp_def case_prod_unfold)
  moreover have "map ((\<lambda>(k, v). json_member (k, dumps v)) \<circ> (\<lambda>(k, v). (k, canon v))) (sort_key fst kvs)
      = map (\<lambda>(k, v). json_member (k, dumps v)) (sort_key fst kvs)"
    using PDict.IH by (intro map_cong) (auto simp del: set_sort simp: set_sort)
  ultimately show ?case
    by (simp only: canon_PDict_sorted dumps_PDict_sorted map_map)
qed (auto cong: map_cong simp: comp_def)

text \<open>
  Two mappings listing the same distinct keys in the same order are equal when their
  canonical forms are: the values agree key by key.
\<close>

lemma alist_eqI:
  assumes "map fst xs = map fst ys" "distinct (map fst xs)" "set xs = set ys"
  shows "xs = ys"
proof (rule nth_equalityI)
  show len: "length xs = length ys" using assms(1) by (rule map_eq_imp_length_eq)
  fix i assume i: "i < length xs"
  then have "xs ! i \<in> set xs" by simp
  then have "xs ! i \<in> set ys" by (simp only: assms(3))
  then obtain j where j: "j < length ys" "ys ! j = xs ! i" by (auto simp: in_set_conv_nth)
  have "map fst ys ! j = map fst xs ! i" using j i by simp
  also have "\<dots> = map fst ys ! i" using assms(1) by simp
  finally have "map fst ys ! j = map fst ys ! i" .
  moreover have "distinct (map fst ys)" using assms(1,2) by simp
  ultimately have "j = i"
    using j i len nth_eq_iff_index_eq [of "map fst ys" j i] by simp
  with j show "xs ! i = ys ! i" by simp
qed

lemma canon_PDict_same_keys:
  assumes "map fst kvs = map fst kws" "distinct (map fst kvs)" "canon (PDict kvs) = canon (PDict kws)"
  shows "map (canon \<circ> snd) kvs = map (canon \<circ> snd) kws"
proof -
  let ?c = "map (\<lambda>(k, v). (k, canon v))"
  have "sort_key fst (?c kvs) = sort_key fst (?c kws)" using assms(3) by simp
  then have "set (sort_key fst (?c kvs)) = set (sort_key fst (?c kws))" by (rule arg_cong)
  then have "set (?c kvs) = set (?c kws)" by (simp only: set_sort)
  moreover have "map fst (?c kvs) = map fst kvs" "map fst (?c kws) = map fst kws"
    by (auto simp: comp_def case_prod_unfold)
  ultimately have "?c kvs = ?c kws"
    using assms(1,2) by (intro alist_eqI) auto
  then have "map snd (?c kvs) = map snd (?c kws)" by (rule arg_cong)
  then show ?thesis by (simp add: comp_def case_prod_unfold)
qed


section \<open>The scanner's fuel is enough\<close>

lemma length_skip_ws: "length (skip_ws s) \<le> length s"
  by (induction s) auto

lemma scan_string_shorter: "scan_string s = Inr (t, r) \<Longrightarrow> length r < length s"
proof (induction s arbitrary: t rule: scan_string.induct)
  case (2 c cs)
  show ?case
  proof (cases "ord_c c = 92")
    case True
    with "2.prems" obtain d r1 u where e: "scan_escape cs = Inr (d, r1)"
      and u: "scan_string r1 = Inr (u, r)"
      by (auto simp: rbind_ok_iff)
    have "length r < length r1" using "2.IH"(1) True e u by fastforce
    with scan_escape_shorter [OF e] show ?thesis by simp
  next
    case False
    with "2.prems" "2.IH"(2) show ?thesis
      by (fastforce simp: rbind_ok_iff split: if_splits)
  qed
qed simp

lemma scan_escape_not_fuel: "scan_escape s \<noteq> Inl JsonFuel"
proof -
  have "scan_unicode t \<noteq> Inl JsonFuel" for t
    by (induction t rule: scan_unicode.induct) (auto split: option.splits)
  then show ?thesis by (cases s) (auto split: option.splits)
qed

lemma scan_string_not_fuel: "scan_string s \<noteq> Inl JsonFuel"
proof (induction s rule: scan_string.induct)
  case (2 c cs)
  then show ?case by (auto simp: rbind_error_iff scan_escape_not_fuel split: prod.splits)
qed simp

lemma next_tok_length: "next_tok s = Inr (c, cs) \<Longrightarrow> length cs < length s"
  using length_skip_ws [of s] by (auto simp: next_tok_def split: list.splits)

lemma next_tok_not_fuel: "next_tok s \<noteq> Inl JsonFuel"
  by (auto simp: next_tok_def split: list.splits)

lemma scan_int_part_shorter: "scan_int_part s = Some (ds, r) \<Longrightarrow> length r < length s"
  by (auto simp: scan_int_part_def length_dropWhile_le le_imp_less_Suc split: list.splits if_splits)

lemma scan_fraction_shorter: "scan_fraction s = (f, r) \<Longrightarrow> length r \<le> length s"
  by (auto simp: scan_fraction_def split: list.splits if_splits intro: le_SucI length_dropWhile_le)

lemma scan_exponent_shorter: "scan_exponent s = (f, r) \<Longrightarrow> length r \<le> length s"
  by (auto simp: scan_exponent_def Let_def split: list.splits if_splits
      intro: le_SucI length_dropWhile_le)

lemma scan_number_shorter: "scan_number fl neg s = Inr (v, r) \<Longrightarrow> length r < length s"
  by (auto simp: scan_number_def Let_def split: option.splits prod.splits if_splits
      dest!: scan_int_part_shorter scan_fraction_shorter scan_exponent_shorter)

lemma scan_literal_shorter: "scan_literal fl s = Inr (v, r) \<Longrightarrow> length r < length s"
  by (auto simp: scan_literal_def starts_with_def split: list.splits if_splits
      dest!: scan_number_shorter)

lemma scan_literal_not_fuel: "scan_literal fl s \<noteq> Inl JsonFuel"
  by (auto simp: scan_literal_def scan_number_def Let_def split: list.splits option.splits prod.splits)

lemma parse_members_shorter_step:
  assumes val: "\<And>s v r. parse_value fl n s = Inr (v, r) \<Longrightarrow> length r < length s"
    and members: "\<And>s kvs r. parse_members fl n s = Inr (kvs, r) \<Longrightarrow> length r < length s"
    and ok: "parse_members fl (Suc n) s = Inr (kvs, r)"
  shows "length r < length s"
proof -
  from ok obtain c cs where s: "s = c # cs" by (cases s) auto
  from ok s obtain k r1 d ds v r2 e es where k: "scan_string cs = Inr (k, r1)"
    and d: "next_tok r1 = Inr (d, ds)" and v: "parse_value fl n (skip_ws ds) = Inr (v, r2)"
    and e: "next_tok r2 = Inr (e, es)"
    and rest: "r = es \<or> (\<exists>kvs'. parse_members fl n (skip_ws es) = Inr (kvs', r))"
    by (auto simp: rbind_ok_iff split: if_splits)
  have "length r \<le> length es"
    using rest members [of "skip_ws es"] length_skip_ws [of es] by fastforce
  then show ?thesis
    using scan_string_shorter [OF k] next_tok_length [OF d] next_tok_length [OF e] val [OF v]
      length_skip_ws [of ds] s by simp
qed

lemma parse_elements_shorter_step:
  assumes val: "\<And>s v r. parse_value fl n s = Inr (v, r) \<Longrightarrow> length r < length s"
    and elements: "\<And>s vs r. parse_elements fl n s = Inr (vs, r) \<Longrightarrow> length r < length s"
    and ok: "parse_elements fl (Suc n) s = Inr (vs, r)"
  shows "length r < length s"
proof -
  from ok obtain v r1 c cs where v: "parse_value fl n s = Inr (v, r1)" and c: "next_tok r1 = Inr (c, cs)"
    and rest: "r = cs \<or> (\<exists>vs'. parse_elements fl n (skip_ws cs) = Inr (vs', r))"
    by (auto simp: rbind_ok_iff split: if_splits)
  have "length r \<le> length cs"
    using rest elements [of "skip_ws cs"] length_skip_ws [of cs] by fastforce
  then show ?thesis using next_tok_length [OF c] val [OF v] by simp
qed

lemma parse_value_shorter_step:
  assumes elements: "\<And>s vs r. parse_elements fl n s = Inr (vs, r) \<Longrightarrow> length r < length s"
    and members: "\<And>s kvs r. parse_members fl n s = Inr (kvs, r) \<Longrightarrow> length r < length s"
    and ok: "parse_value fl (Suc n) s = Inr (v, r)"
  shows "length r < length s"
proof -
  from ok obtain c cs where s: "s = c # cs" by (cases s) auto
  show ?thesis
  proof (cases "ord_c c = 34 \<or> c = CHR ''['' \<or> c = CHR ''{''")
    case True
    with ok s show ?thesis
      by (fastforce simp: rbind_ok_iff split: if_splits
          dest!: scan_string_shorter elements members next_tok_length)
  next
    case False
    with ok s have "scan_literal fl s = Inr (v, r)" by simp
    then show ?thesis by (rule scan_literal_shorter)
  qed
qed

lemma parse_shorter:
  "(\<forall>s v r. parse_value fl n s = Inr (v, r) \<longrightarrow> length r < length s)
   \<and> (\<forall>s vs r. parse_elements fl n s = Inr (vs, r) \<longrightarrow> length r < length s)
   \<and> (\<forall>s kvs r. parse_members fl n s = Inr (kvs, r) \<longrightarrow> length r < length s)"
proof (induction n)
  case (Suc n)
  then show ?case
    using parse_value_shorter_step [of fl n] parse_elements_shorter_step [of fl n]
      parse_members_shorter_step [of fl n] by blast
qed simp

lemmas parse_value_shorter = parse_shorter [THEN conjunct1, rule_format]
lemmas parse_elements_shorter = parse_shorter [THEN conjunct2, THEN conjunct1, rule_format]
lemmas parse_members_shorter = parse_shorter [THEN conjunct2, THEN conjunct2, rule_format]

lemma parse_never_fuel:
  "(\<forall>s. 2 * length s < n \<longrightarrow> parse_value fl n s \<noteq> Inl JsonFuel)
   \<and> (\<forall>s. 2 * length s + 1 < n \<longrightarrow> parse_elements fl n s \<noteq> Inl JsonFuel)
   \<and> (\<forall>s. 2 * length s + 1 < n \<longrightarrow> parse_members fl n s \<noteq> Inl JsonFuel)"
proof (induction n)
  case (Suc n)
  have "parse_value fl (Suc n) s \<noteq> Inl JsonFuel" if len: "2 * length s < Suc n" for s
  proof (cases s)
    case (Cons c cs)
    have lt: "2 * length (d # ds) + 1 < n" if "next_tok cs = Inr (d, ds)" for d ds
      using next_tok_length [OF that] len Cons by simp
    show ?thesis
      using Suc.IH lt Cons
      by (fastforce simp: rbind_error_iff no_duplicates_def scan_string_not_fuel scan_literal_not_fuel
          next_tok_not_fuel split: if_splits prod.splits)
  qed simp
  moreover have "parse_elements fl (Suc n) s \<noteq> Inl JsonFuel" if len: "2 * length s + 1 < Suc n" for s
  proof -
    have "parse_value fl n s \<noteq> Inl JsonFuel" using Suc.IH len by simp
    moreover have "parse_elements fl n (skip_ws cs) \<noteq> Inl JsonFuel"
      if "parse_value fl n s = Inr (v, r)" "next_tok r = Inr (c, cs)" for v r c cs
      using parse_value_shorter [OF that(1)] next_tok_length [OF that(2)] length_skip_ws [of cs]
        len Suc.IH by simp
    ultimately show ?thesis
      by (auto simp: rbind_error_iff next_tok_not_fuel split: prod.splits)
  qed
  moreover have "parse_members fl (Suc n) s \<noteq> Inl JsonFuel" if len: "2 * length s + 1 < Suc n" for s
  proof (cases s)
    case (Cons c cs)
    have ds: "2 * length (skip_ws ds) + 1 < n"
      if "scan_string cs = Inr (k, r)" "next_tok r = Inr (d, ds)" for k r d ds
      using scan_string_shorter [OF that(1)] next_tok_length [OF that(2)] length_skip_ws [of ds]
        len Cons by simp
    have es: "parse_members fl n (skip_ws es) \<noteq> Inl JsonFuel"
      if "scan_string cs = Inr (k, r)" "next_tok r = Inr (d, ds)"
        "parse_value fl n (skip_ws ds) = Inr (v, r')" "next_tok r' = Inr (e, es)" for k r d ds v r' e es
      using ds [OF that(1,2)] parse_value_shorter [OF that(3)] next_tok_length [OF that(4)]
        length_skip_ws [of es] Suc.IH by simp
    have vs: "parse_value fl n (skip_ws ds) \<noteq> Inl JsonFuel"
      if "scan_string cs = Inr (k, r)" "next_tok r = Inr (d, ds)" for k r d ds
      using ds [OF that] Suc.IH by simp
    show ?thesis
      using es vs Cons
      by (auto simp: rbind_error_iff scan_string_not_fuel next_tok_not_fuel split: prod.splits)
  qed simp
  ultimately show ?case by blast
qed simp

theorem parse_value_never_fuel: "parse_value fl (json_fuel s) s \<noteq> Inl JsonFuel"
  using parse_never_fuel [of "json_fuel s" fl] by (simp add: json_fuel_def)

section \<open>What the strict reader returns\<close>

lemma int_digits_read:
  "list_all is_digit ds \<Longrightarrow> ds \<noteq> [] \<Longrightarrow> int_digits (int (read_nat ds)) \<le> length ds"
  using read_nat_bound [of ds] show_nat_length_le [of "read_nat ds" "length ds - 1"]
  by (cases ds) (auto simp: int_digits_def)

lemma int_digits_minus [simp]: "int_digits (- i) = int_digits i"
  by (simp add: int_digits_def)

lemma scan_int_part_digits: "scan_int_part s = Some (ds, r) \<Longrightarrow> list_all is_digit ds \<and> ds \<noteq> []"
  by (auto simp: scan_int_part_def list_all_iff is_digit_def [of "CHR ''0''"] split: list.splits if_splits
      dest: set_takeWhileD)

text \<open>The trees a reader can return: as \<open>is_json\<close>, and floats when the reader takes them.\<close>

fun json_tree :: "bool \<Rightarrow> pyval \<Rightarrow> bool" where
  "json_tree fl (PFloat t) = fl"
| "json_tree fl (PInt i) = (int_digits i \<le> max_str_digits)"
| "json_tree fl (PList vs) = list_all (json_tree fl) vs"
| "json_tree fl (PDict kvs) = (distinct (map fst kvs) \<and> list_all (\<lambda>(k, v). json_tree fl v) kvs)"
| "json_tree fl PNone = True"
| "json_tree fl (PBool b) = True"
| "json_tree fl (PStr s) = True"
| "json_tree fl _ = False"

lemma json_tree_False: "json_tree False v = is_json v"
  by (induction v rule: pyval.induct) (auto simp: list_all_iff)

lemma scan_literal_json_tree: "scan_literal fl s = Inr (v, r) \<Longrightarrow> json_tree fl v"
proof -
  have num: "scan_number fl neg t = Inr (v, r) \<Longrightarrow> json_tree fl v" for neg t
    using scan_int_part_digits [of t] int_digits_read
    by (fastforce simp: scan_number_def Let_def split: option.splits prod.splits if_splits)
  show "scan_literal fl s = Inr (v, r) \<Longrightarrow> json_tree fl v"
    by (auto simp: scan_literal_def dest: num split: if_splits list.splits)
qed

lemma parse_json_tree:
  "(\<forall>s v r. parse_value fl n s = Inr (v, r) \<longrightarrow> json_tree fl v)
   \<and> (\<forall>s vs r. parse_elements fl n s = Inr (vs, r) \<longrightarrow> list_all (json_tree fl) vs)
   \<and> (\<forall>s kvs r. parse_members fl n s = Inr (kvs, r) \<longrightarrow> list_all (\<lambda>(k, v). json_tree fl v) kvs)"
proof (induction n)
  case (Suc n)
  then have val: "parse_value fl n s = Inr (v, r) \<Longrightarrow> json_tree fl v"
    and elements: "parse_elements fl n s = Inr (vs, r) \<Longrightarrow> list_all (json_tree fl) vs"
    and members: "parse_members fl n s = Inr (kvs, r) \<Longrightarrow> list_all (\<lambda>(k, v). json_tree fl v) kvs"
    for s v r vs kvs by blast+
  have "parse_value fl (Suc n) s = Inr (v, r) \<Longrightarrow> json_tree fl v" for s v r
    by (cases s) (auto simp: rbind_ok_iff no_duplicates_def dest: elements members scan_literal_json_tree
        split: if_splits)
  moreover have "parse_elements fl (Suc n) s = Inr (vs, r) \<Longrightarrow> list_all (json_tree fl) vs" for s vs r
    by (auto simp: rbind_ok_iff dest: val elements split: if_splits)
  moreover have "parse_members fl (Suc n) s = Inr (kvs, r) \<Longrightarrow> list_all (\<lambda>(k, v). json_tree fl v) kvs" for s kvs r
    by (cases s) (auto simp: rbind_ok_iff dest: val members split: if_splits)
  ultimately show ?case by blast
qed simp

theorem loads_json_tree: "json_loads fl s = Inr v \<Longrightarrow> json_tree fl v"
  using parse_json_tree by (fastforce simp: json_loads_def Let_def rbind_ok_iff split: if_splits)

theorem loads_is_json: "json_loads False s = Inr v \<Longrightarrow> is_json v"
  using loads_json_tree json_tree_False by blast

section \<open>Lookup does not depend on the order of keys\<close>

lemma map_of_filter_key: "map_of kvs k = map_of (filter (\<lambda>kv. fst kv = k) kvs) k"
  by (induction kvs) auto

lemma map_of_sort_key [simp]: "map_of (sort_key fst kvs) = map_of kvs"
proof
  fix k
  have "filter (\<lambda>kv. fst kv = k) (sort_key fst kvs) = filter (\<lambda>kv. fst kv = k) kvs"
    by (rule sort_key_stable)
  then show "map_of (sort_key fst kvs) k = map_of kvs k"
    by (metis map_of_filter_key)
qed

lemma dget_sort_key [simp]: "dget (sort_key fst kvs) k = dget kvs k"
  by (simp add: dget_def)

text \<open>Two mappings print alike when they have the same keys and their values print alike.\<close>

lemma sort_key_same_map:
  assumes "distinct (map fst kvs)" "distinct (map fst kws)" "map_of kvs = map_of kws"
  shows "sort_key fst kvs = sort_key fst kws"
proof -
  have "set kvs = set kws" using assms by (simp add: map_of_inject_set)
  moreover have "distinct kvs" "distinct kws" using assms(1,2) by (auto simp: distinct_map)
  ultimately have "mset kvs = mset kws" by (simp add: set_eq_iff_mset_eq_distinct)
  then show ?thesis
    using assms(1) by (intro sort_key_inj_key_eq) (auto simp: distinct_map)
qed

lemma dumps_same_items:
  assumes "distinct (map fst kvs)" "distinct (map fst kws)" "set (map fst kvs) = set (map fst kws)"
    and same: "list_all (\<lambda>(k, v). dumps (dget kvs k) = dumps v) kws"
  shows "dumps (PDict kvs) = dumps (PDict kws)"
proof -
  let ?d = "map (\<lambda>(k, v). (k, dumps v))"
  have "map_of (?d kvs) k = map_of (?d kws) k" for k
  proof (cases "map_of kws k")
    case None
    moreover from None have "map_of kvs k = None" using assms(3) by (simp add: map_of_eq_None_iff)
    ultimately show ?thesis by (simp add: map_of_map)
  next
    case (Some w)
    then have "(k, w) \<in> set kws" by (rule map_of_SomeD)
    with same have w: "dumps (dget kvs k) = dumps w" by (auto simp: list_all_iff)
    from Some have "map_of kvs k \<noteq> None" using assms(3) by (metis map_of_eq_None_iff option.distinct(1) set_map)
    with Some w show ?thesis by (auto simp: map_of_map dget_def)
  qed
  then have "sort_key fst (?d kvs) = sort_key fst (?d kws)"
    using assms(1,2) by (intro sort_key_same_map) (auto simp: comp_def case_prod_unfold)
  then show ?thesis by simp
qed

end
