(* ===== verification/Py_Time.thy ===== *)
theory Py_Time
  imports Prelude
begin

text \<open>
  Python \<open>datetime\<close> as the program uses it: a civil date and time with an optional UTC
  offset, the canonical text \<open>YYYY-MM-DDTHH:MM:SS.ffffffZ\<close> of a UTC time, and
  \<open>datetime.strptime(text, "%Y-%m-%dT%H:%M:%S.%fZ")\<close>.  Aware datetimes with the same
  offset compare field by field, which is all the program does: every stored time has
  been required to be UTC.

  \<open>strptime_format\<close> is the round trip: the canonical text of a UTC time parses back to
  that time.
\<close>

section \<open>Dates and times\<close>

datatype datetime = Datetime
  (dt_year: nat) (dt_month: nat) (dt_day: nat)
  (dt_hour: nat) (dt_minute: nat) (dt_second: nat) (dt_microsecond: nat)
  (dt_offset: "int option") \<comment> \<open>\<open>utcoffset()\<close> in seconds; \<open>None\<close> for a naive time\<close>

definition leap_year :: "nat \<Rightarrow> bool" where
  "leap_year y \<longleftrightarrow> y mod 4 = 0 \<and> (y mod 100 \<noteq> 0 \<or> y mod 400 = 0)"

definition days_in_month :: "nat \<Rightarrow> nat \<Rightarrow> nat" where
  "days_in_month y m =
    (if m = 2 then (if leap_year y then 29 else 28)
     else if m \<in> {4, 6, 9, 11} then 30 else 31)"

text \<open>The ranges the \<open>datetime\<close> constructor enforces: what makes a value a \<open>datetime\<close>.\<close>

definition valid_datetime :: "datetime \<Rightarrow> bool" where
  "valid_datetime d \<longleftrightarrow>
     1 \<le> dt_year d \<and> dt_year d \<le> 9999 \<and> 1 \<le> dt_month d \<and> dt_month d \<le> 12
     \<and> 1 \<le> dt_day d \<and> dt_day d \<le> days_in_month (dt_year d) (dt_month d)
     \<and> dt_hour d \<le> 23 \<and> dt_minute d \<le> 59 \<and> dt_second d \<le> 59 \<and> dt_microsecond d \<le> 999999"

text \<open>
  \<open>isinstance(value, datetime) and value.tzinfo is not None and
  value.utcoffset() == timedelta(0)\<close>
\<close>

definition is_utc :: "datetime \<Rightarrow> bool" where
  "is_utc d \<longleftrightarrow> valid_datetime d \<and> dt_offset d = Some 0"

definition dt_key :: "datetime \<Rightarrow> nat \<times> nat \<times> nat \<times> nat \<times> nat \<times> nat \<times> nat" where
  "dt_key d = (dt_year d, dt_month d, dt_day d, dt_hour d, dt_minute d, dt_second d, dt_microsecond d)"

definition dt_less :: "datetime \<Rightarrow> datetime \<Rightarrow> bool" where
  "dt_less a b \<longleftrightarrow> dt_key a < dt_key b"

definition dt_le :: "datetime \<Rightarrow> datetime \<Rightarrow> bool" where
  "dt_le a b \<longleftrightarrow> dt_key a \<le> dt_key b"

lemma dt_not_less [simp]: "\<not> dt_less a b \<longleftrightarrow> dt_le b a"
  by (auto simp: dt_less_def dt_le_def not_less)

lemma dt_not_le [simp]: "\<not> dt_le a b \<longleftrightarrow> dt_less b a"
  by (auto simp: dt_less_def dt_le_def not_le)

lemma dt_le_refl [simp]: "dt_le a a"
  by (simp add: dt_le_def)

lemma dt_less_irrefl [simp]: "\<not> dt_less a a"
  by simp

lemma dt_less_imp_le: "dt_less a b \<Longrightarrow> dt_le a b"
  by (simp add: dt_less_def dt_le_def)

lemma dt_le_trans [trans]: "dt_le a b \<Longrightarrow> dt_le b c \<Longrightarrow> dt_le a c"
  unfolding dt_le_def by (rule order_trans)

lemma dt_le_less_trans [trans]: "dt_le a b \<Longrightarrow> dt_less b c \<Longrightarrow> dt_less a c"
  unfolding dt_le_def dt_less_def by (rule order_le_less_trans)

lemma dt_less_le_trans [trans]: "dt_less a b \<Longrightarrow> dt_le b c \<Longrightarrow> dt_less a c"
  unfolding dt_le_def dt_less_def by (rule order_less_le_trans)

lemma dt_less_trans [trans]: "dt_less a b \<Longrightarrow> dt_less b c \<Longrightarrow> dt_less a c"
  unfolding dt_less_def by (rule order_less_trans)

lemma utc_antisym: "is_utc a \<Longrightarrow> is_utc b \<Longrightarrow> dt_le a b \<Longrightarrow> dt_le b a \<Longrightarrow> a = b"
proof -
  assume utc: "is_utc a" "is_utc b" and "dt_le a b" "dt_le b a"
  then have "dt_key a = dt_key b" unfolding dt_le_def by (simp only: antisym)
  with utc show "a = b" by (cases a; cases b) (simp add: dt_key_def is_utc_def)
qed

section \<open>The canonical text of a UTC time\<close>

definition format_utc :: "datetime \<Rightarrow> string" where
  "format_utc d =
     pad_dec 4 (dt_year d) @ CHR ''-'' # pad_dec 2 (dt_month d) @ CHR ''-'' # pad_dec 2 (dt_day d)
     @ CHR ''T'' # pad_dec 2 (dt_hour d) @ CHR '':'' # pad_dec 2 (dt_minute d)
     @ CHR '':'' # pad_dec 2 (dt_second d) @ CHR ''.'' # pad_dec 6 (dt_microsecond d) @ ''Z''"

section \<open>strptime\<close>

text \<open>
  A numeric field: a run of one to \<open>k\<close> digits whose value lies in a range.  The
  separators are not digits, so the directive's regular expression can only match the
  whole run.  Letters of the format match in either case.
\<close>

definition num_field :: "nat \<Rightarrow> nat \<Rightarrow> nat \<Rightarrow> string \<Rightarrow> (nat \<times> string) option" where
  "num_field k lo hi s =
    (let ds = takeWhile is_digit s; n = read_nat ds
     in if ds \<noteq> [] \<and> length ds \<le> k \<and> lo \<le> n \<and> n \<le> hi
        then Some (n, dropWhile is_digit s) else None)"

definition year_field :: "string \<Rightarrow> (nat \<times> string) option" where
  "year_field s =
    (let ds = takeWhile is_digit s
     in if length ds = 4 then Some (read_nat ds, dropWhile is_digit s) else None)"

text \<open>\<open>%d\<close> also accepts a space before a single digit.\<close>

definition day_field :: "string \<Rightarrow> (nat \<times> string) option" where
  "day_field s =
    (case s of
       c # cs \<Rightarrow> if c = CHR '' '' then num_field 1 1 9 cs else num_field 2 1 31 s
     | [] \<Rightarrow> None)"

text \<open>\<open>%f\<close>: one to six digits, read as a decimal fraction of a second.\<close>

definition micro_field :: "string \<Rightarrow> (nat \<times> string) option" where
  "micro_field s =
    (let ds = takeWhile is_digit s
     in if ds \<noteq> [] \<and> length ds \<le> 6
        then Some (read_nat ds * 10 ^ (6 - length ds), dropWhile is_digit s) else None)"

definition lit_field :: "char \<Rightarrow> string \<Rightarrow> string option" where
  "lit_field c s =
    (case s of d # ds \<Rightarrow> if to_lower [d] = to_lower [c] then Some ds else None | [] \<Rightarrow> None)"

definition strptime_utc :: "string \<Rightarrow> datetime option" where
  "strptime_utc s =
    Option.bind (year_field s) (\<lambda>(y, s).
    Option.bind (lit_field (CHR ''-'') s) (\<lambda>s.
    Option.bind (num_field 2 1 12 s) (\<lambda>(mo, s).
    Option.bind (lit_field (CHR ''-'') s) (\<lambda>s.
    Option.bind (day_field s) (\<lambda>(d, s).
    Option.bind (lit_field (CHR ''T'') s) (\<lambda>s.
    Option.bind (num_field 2 0 23 s) (\<lambda>(h, s).
    Option.bind (lit_field (CHR '':'') s) (\<lambda>s.
    Option.bind (num_field 2 0 59 s) (\<lambda>(mi, s).
    Option.bind (lit_field (CHR '':'') s) (\<lambda>s.
    Option.bind (num_field 2 0 61 s) (\<lambda>(se, s).
    Option.bind (lit_field (CHR ''.'') s) (\<lambda>s.
    Option.bind (micro_field s) (\<lambda>(us, s).
    Option.bind (lit_field (CHR ''Z'') s) (\<lambda>s.
      let r = Datetime y mo d h mi se us (Some 0)
      in if s = [] \<and> valid_datetime r then Some r else None))))))))))))))"

section \<open>Parsing undoes formatting\<close>

definition no_digit_head :: "string \<Rightarrow> bool" where
  "no_digit_head r \<longleftrightarrow> (r = [] \<or> \<not> is_digit (hd r))"

lemma takeWhile_pad:
  assumes "no_digit_head r"
  shows "takeWhile is_digit (pad_dec w n @ r) = pad_dec w n"
    and "dropWhile is_digit (pad_dec w n @ r) = r"
proof -
  have d: "\<And>c. c \<in> set (pad_dec w n) \<Longrightarrow> is_digit c"
    using pad_dec_digits [of w n] by (simp add: list_all_iff)
  moreover have "takeWhile is_digit r = []" "dropWhile is_digit r = r"
    using assms by (cases r; simp add: no_digit_head_def)+
  ultimately show "takeWhile is_digit (pad_dec w n @ r) = pad_dec w n"
    and "dropWhile is_digit (pad_dec w n @ r) = r"
    by (simp_all add: takeWhile_append2 dropWhile_append2)
qed

lemma pad_dec_nonempty [simp]: "pad_dec w n \<noteq> []"
  by (simp add: pad_dec_def)

lemma num_field_pad:
  "no_digit_head r \<Longrightarrow> n < 10 ^ k \<Longrightarrow> 0 < k \<Longrightarrow> lo \<le> n \<Longrightarrow> n \<le> hi \<Longrightarrow>
    num_field k lo hi (pad_dec k n @ r) = Some (n, r)"
  by (simp add: num_field_def takeWhile_pad length_pad_dec)

lemma year_field_pad:
  "no_digit_head r \<Longrightarrow> n < 10 ^ 4 \<Longrightarrow> year_field (pad_dec 4 n @ r) = Some (n, r)"
  by (simp add: year_field_def takeWhile_pad length_pad_dec)

lemma day_field_pad:
  assumes "no_digit_head r" "1 \<le> n" "n \<le> 31"
  shows "day_field (pad_dec 2 n @ r) = Some (n, r)"
proof -
  obtain c cs where c: "pad_dec 2 n = c # cs" by (cases "pad_dec 2 n") auto
  with pad_dec_digits [of 2 n] have "is_digit c" by simp
  then have "c \<noteq> CHR '' ''" by (auto simp: is_digit_def)
  then have "day_field (pad_dec 2 n @ r) = num_field 2 1 31 (pad_dec 2 n @ r)"
    using c by (simp add: day_field_def)
  with assms show ?thesis by (simp add: num_field_pad)
qed

lemma micro_field_pad:
  "no_digit_head r \<Longrightarrow> n < 10 ^ 6 \<Longrightarrow> micro_field (pad_dec 6 n @ r) = Some (n, r)"
  by (simp add: micro_field_def takeWhile_pad length_pad_dec)

lemma lit_field_hit [simp]: "lit_field c (c # r) = Some r"
  by (simp add: lit_field_def)

lemma no_digit_head_separators [simp]:
  "no_digit_head (CHR ''-'' # r)" "no_digit_head (CHR ''T'' # r)" "no_digit_head (CHR '':'' # r)"
  "no_digit_head (CHR ''.'' # r)" "no_digit_head (CHR ''Z'' # r)"
  by (simp_all add: no_digit_head_def is_digit_def)

lemma days_in_month_le: "days_in_month y m \<le> 31"
  by (simp add: days_in_month_def)

lemma utc_field_bounds:
  assumes "is_utc d"
  shows "dt_year d < 10 ^ 4" "dt_month d < 10 ^ 2" "dt_hour d < 10 ^ 2" "dt_minute d < 10 ^ 2"
    "dt_second d < 10 ^ 2" "dt_microsecond d < 10 ^ 6" "1 \<le> dt_month d" "dt_month d \<le> 12"
    "1 \<le> dt_day d" "dt_day d \<le> 31" "dt_hour d \<le> 23" "dt_minute d \<le> 59" "dt_second d \<le> 61"
  using assms days_in_month_le [of "dt_year d" "dt_month d"]
  by (simp_all add: is_utc_def valid_datetime_def)

lemma utc_rebuild:
  "is_utc d \<Longrightarrow> Datetime (dt_year d) (dt_month d) (dt_day d) (dt_hour d) (dt_minute d)
     (dt_second d) (dt_microsecond d) (Some 0) = d"
  by (cases d) (simp add: is_utc_def)

theorem strptime_format: "is_utc d \<Longrightarrow> strptime_utc (format_utc d) = Some d"
proof -
  assume utc: "is_utc d"
  note b = utc_field_bounds [OF utc]
  have fields:
    "no_digit_head r \<Longrightarrow> year_field (pad_dec 4 (dt_year d) @ r) = Some (dt_year d, r)"
    "no_digit_head r \<Longrightarrow> num_field 2 1 12 (pad_dec 2 (dt_month d) @ r) = Some (dt_month d, r)"
    "no_digit_head r \<Longrightarrow> day_field (pad_dec 2 (dt_day d) @ r) = Some (dt_day d, r)"
    "no_digit_head r \<Longrightarrow> num_field 2 0 23 (pad_dec 2 (dt_hour d) @ r) = Some (dt_hour d, r)"
    "no_digit_head r \<Longrightarrow> num_field 2 0 59 (pad_dec 2 (dt_minute d) @ r) = Some (dt_minute d, r)"
    "no_digit_head r \<Longrightarrow> num_field 2 0 61 (pad_dec 2 (dt_second d) @ r) = Some (dt_second d, r)"
    "no_digit_head r \<Longrightarrow> micro_field (pad_dec 6 (dt_microsecond d) @ r) = Some (dt_microsecond d, r)"
    for r
    by (erule year_field_pad num_field_pad day_field_pad micro_field_pad; (rule b | simp))+
  have "valid_datetime d" using utc by (simp add: is_utc_def)
  then show ?thesis
    unfolding strptime_utc_def format_utc_def Let_def
    by (simp only: fields no_digit_head_separators lit_field_hit bind.simps prod.case
        utc_rebuild [OF utc] simp_thms if_True)
qed

theorem format_utc_inject: "is_utc a \<Longrightarrow> is_utc b \<Longrightarrow> format_utc a = format_utc b \<Longrightarrow> a = b"
  by (metis strptime_format option.inject)

end
