(* ===== verification/Sha2.thy ===== *)
theory Sha2
  imports Prelude
begin

text \<open>
  The part of Python's \<open>hashlib\<close> the program uses: SHA-256 (FIPS 180-4) over bytes, its
  hexadecimal digest, the \<open>sha256:\<close> label every record digest carries, and HMAC-SHA256.
  The lemmas give the shape of a digest: 32 bytes, 64 lower-case hexadecimal characters.
\<close>

unbundle bit_operations_syntax

section \<open>The compression function\<close>

definition rotr :: "nat \<Rightarrow> 32 word \<Rightarrow> 32 word" where
  "rotr n x = drop_bit n x OR push_bit (32 - n) x"

definition sha_ch :: "32 word \<Rightarrow> 32 word \<Rightarrow> 32 word \<Rightarrow> 32 word" where
  "sha_ch x y z = (x AND y) XOR (NOT x AND z)"

definition sha_maj :: "32 word \<Rightarrow> 32 word \<Rightarrow> 32 word \<Rightarrow> 32 word" where
  "sha_maj x y z = (x AND y) XOR (x AND z) XOR (y AND z)"

definition K256 :: "32 word list" where
  "K256 = [
    1116352408, 1899447441, 3049323471, 3921009573, 961987163, 1508970993, 2453635748,
    2870763221, 3624381080, 310598401, 607225278, 1426881987, 1925078388, 2162078206,
    2614888103, 3248222580, 3835390401, 4022224774, 264347078, 604807628, 770255983,
    1249150122, 1555081692, 1996064986, 2554220882, 2821834349, 2952996808, 3210313671,
    3336571891, 3584528711, 113926993, 338241895, 666307205, 773529912, 1294757372,
    1396182291, 1695183700, 1986661051, 2177026350, 2456956037, 2730485921, 2820302411,
    3259730800, 3345764771, 3516065817, 3600352804, 4094571909, 275423344, 430227734,
    506948616, 659060556, 883997877, 958139571, 1322822218, 1537002063, 1747873779,
    1955562222, 2024104815, 2227730452, 2361852424, 2428436474, 2756734187, 3204031479,
    3329325298]"

definition H256 :: "32 word list" where
  "H256 = [
    1779033703, 3144134277, 1013904242, 2773480762, 1359893119, 2600822924, 528734635,
    1541459225]"

definition be_word :: "bytes \<Rightarrow> 32 word" where
  "be_word bs = foldl (\<lambda>acc b. push_bit 8 acc OR ucast b) 0 bs"

definition word_be :: "32 word \<Rightarrow> bytes" where
  "word_be w = [ucast (drop_bit 24 w), ucast (drop_bit 16 w), ucast (drop_bit 8 w), ucast w]"

text \<open>The message schedule, newest word first.\<close>

fun expand256 :: "nat \<Rightarrow> 32 word list \<Rightarrow> 32 word list" where
  "expand256 0 ws = ws"
| "expand256 (Suc n) ws =
    (let w15 = ws ! 14; w2 = ws ! 1;
         s0 = rotr 7 w15 XOR rotr 18 w15 XOR drop_bit 3 w15;
         s1 = rotr 17 w2 XOR rotr 19 w2 XOR drop_bit 10 w2
     in expand256 n ((s1 + ws ! 6 + s0 + ws ! 15) # ws))"

fun round256 :: "32 word list \<Rightarrow> 32 word \<times> 32 word \<Rightarrow> 32 word list" where
  "round256 [a, b, c, d, e, f, g, h] (k, w) =
    (let t1 = h + (rotr 6 e XOR rotr 11 e XOR rotr 25 e) + sha_ch e f g + k + w;
         t2 = (rotr 2 a XOR rotr 13 a XOR rotr 22 a) + sha_maj a b c
     in [t1 + t2, a, b, c, d + t1, e, f, g])"
| "round256 st _ = st"

text \<open>Consecutive blocks of \<open>n\<close> elements.\<close>

function chunks :: "nat \<Rightarrow> 'a list \<Rightarrow> 'a list list" where
  "chunks n xs = (if xs = [] \<or> n = 0 then [] else take n xs # chunks n (drop n xs))"
  by pat_completeness auto
termination
  by (relation "measure (\<lambda>(n, xs). length xs)") auto

declare chunks.simps [simp del]

definition block256 :: "32 word list \<Rightarrow> bytes \<Rightarrow> 32 word list" where
  "block256 st blk =
    (let ws = rev (expand256 48 (rev (map be_word (chunks 4 blk))))
     in map2 (+) st (foldl round256 st (zip K256 ws)))"

definition pad256 :: "bytes \<Rightarrow> bytes" where
  "pad256 m =
    (let l = length m
     in m @ [0x80] @ replicate ((119 - l mod 64) mod 64) 0
        @ map (\<lambda>i. of_nat (8 * l div 256 ^ i)) (rev [0..<8]))"

section \<open>Digests\<close>

definition sha256 :: "bytes \<Rightarrow> bytes" where
  "sha256 m = concat (map word_be (foldl block256 H256 (chunks 64 (pad256 m))))"

definition sha256_hexdigest :: "bytes \<Rightarrow> string" where
  "sha256_hexdigest m = hex_bytes (sha256 m)"

definition sha256_label :: "bytes \<Rightarrow> string" where
  "sha256_label m = ''sha256:'' @ sha256_hexdigest m"

definition hmac_sha256 :: "bytes \<Rightarrow> bytes \<Rightarrow> bytes" where
  "hmac_sha256 key msg =
    (let k0 = (if length key > 64 then sha256 key else key);
         k = k0 @ replicate (64 - length k0) 0
     in sha256 (map (\<lambda>b. b XOR 0x5c) k @ sha256 (map (\<lambda>b. b XOR 0x36) k @ msg)))"

text \<open>Two different inputs with one digest: what the binding theorems exhibit otherwise.\<close>

definition sha256_collision :: "bytes \<Rightarrow> bytes \<Rightarrow> bool" where
  "sha256_collision x y \<longleftrightarrow> x \<noteq> y \<and> sha256 x = sha256 y"

section \<open>The shape of a digest\<close>

lemma length_round256: "length st = 8 \<Longrightarrow> length (round256 st kw) = 8"
  by (induction st kw rule: round256.induct) (simp_all add: Let_def)

lemma length_foldl_round256: "length st = 8 \<Longrightarrow> length (foldl round256 st kws) = 8"
  by (induction kws arbitrary: st) (auto simp: length_round256)

lemma length_block256: "length st = 8 \<Longrightarrow> length (block256 st blk) = 8"
  by (simp add: block256_def Let_def length_foldl_round256)

lemma length_foldl_block256: "length st = 8 \<Longrightarrow> length (foldl block256 st blks) = 8"
  by (induction blks arbitrary: st) (auto simp: length_block256)

lemma length_concat_word_be: "length (concat (map word_be ws)) = 4 * length ws"
  by (induction ws) (auto simp: word_be_def)

lemma length_sha256 [simp]: "length (sha256 m) = 32"
  by (simp add: sha256_def length_concat_word_be length_foldl_block256 H256_def)

lemma length_sha256_hexdigest [simp]: "length (sha256_hexdigest m) = 64"
  by (simp add: sha256_hexdigest_def)

lemma sha256_hexdigest_class: "list_all is_lower_hex (sha256_hexdigest m)"
  by (simp add: sha256_hexdigest_def hex_bytes_class)

lemma hex_digit_inj: "m < 16 \<Longrightarrow> n < 16 \<Longrightarrow> hex_digit m = hex_digit n \<Longrightarrow> m = n"
  unfolding hex_digit_def by (subst (asm) nth_eq_iff_index_eq) auto

lemma hex_bytes_inj: "hex_bytes xs = hex_bytes ys \<Longrightarrow> xs = ys"
proof (induction xs arbitrary: ys)
  case Nil
  then show ?case by (cases ys) (auto simp: hex_bytes_def)
next
  case (Cons x xs)
  then obtain y ys' where ys: "ys = y # ys'" by (cases ys) (auto simp: hex_bytes_def)
  have lt: "unat b div 16 < 16" for b :: "8 word"
    using unsigned_less [of b, where ?'a = nat] by simp
  from Cons.prems ys have "unat x div 16 = unat y div 16" "unat x mod 16 = unat y mod 16"
    and tl: "hex_bytes xs = hex_bytes ys'"
    by (auto simp: hex_bytes_def lt intro!: hex_digit_inj)
  then have "unat x = unat y" by (metis div_mult_mod_eq)
  then have "x = y" by (rule unsigned_word_eqI)
  with Cons.IH [OF tl] ys show ?case by simp
qed

text \<open>Equal labels: equal inputs, or a collision.\<close>

lemma sha256_label_inj: "sha256_label x = sha256_label y \<Longrightarrow> x = y \<or> sha256_collision x y"
  by (auto simp: sha256_label_def sha256_hexdigest_def sha256_collision_def dest: hex_bytes_inj)

end
