(* ===== verification/Provider_Canonical.thy ===== *)
theory Provider_Canonical
  imports Py_Value Py_Time Sha2
begin

text \<open>
  The canonical JSON of \<open>provider_contract.py\<close>: field validators, the budgeted
  normaliser, \<open>canonical_json_bytes\<close>, \<open>canonical_sha256\<close> and \<open>parse_canonical_json\<close>.
\<close>

section \<open>Errors\<close>

datatype ProviderRejectionCode =
    CONTRACT_INVALID
  | DIGEST_MISMATCH
  | PRIVATE_FIELD_FORBIDDEN
  | PERMIT_ASSIGNMENT_MISMATCH
  | PERMIT_EXPIRED
  | PERMIT_NOT_YET_VALID
  | PERMIT_REPLAY
  | PERMIT_SEQUENCE
  | RESULT_NONCE_MISMATCH
  | RESULT_MEASUREMENT_MISMATCH
  | IDEMPOTENCY_CONFLICT
  | WORKER_SETTLEMENT_CONFLICT

text \<open>
  \<open>ProviderContractError(message, code)\<close>.  The two other values are a built-in
  \<open>ValueError\<close> that a function lets through, and a document whose text leaves the
  modelled code points.
\<close>

datatype perr =
    ProviderContractError string ProviderRejectionCode
  | BuiltinValueError
  | OutsideModel

abbreviation contract_error :: "string \<Rightarrow> perr" where
  "contract_error m \<equiv> ProviderContractError m CONTRACT_INVALID"

section \<open>Field validators\<close>

definition MAX_CANONICAL_BYTES :: nat where
  "MAX_CANONICAL_BYTES = 1024 * 1024"

definition MAX_INVENTORY_SLOTS :: nat where
  "MAX_INVENTORY_SLOTS = 4096"

definition MAX_MONEY_MICROS :: int where
  "MAX_MONEY_MICROS = 2 ^ 63 - 1"

text \<open>The regular expressions, as predicates on the whole text (\<open>fullmatch\<close>).\<close>

definition ID_RE :: "string \<Rightarrow> bool" where
  [text_simps]: "ID_RE s \<longleftrightarrow>
     s \<noteq> [] \<and> is_alnum (hd s) \<and> length s \<le> 128
     \<and> list_all (\<lambda>c. is_alnum c \<or> c \<in> {CHR ''.'', CHR ''_'', CHR '':'', CHR ''-''}) (tl s)"

definition PROFILE_RE :: "string \<Rightarrow> bool" where
  [text_simps]: "PROFILE_RE s \<longleftrightarrow>
     s \<noteq> [] \<and> is_alnum (hd s) \<and> length s \<le> 256
     \<and> list_all (\<lambda>c. is_alnum c \<or> c \<in> {CHR ''.'', CHR ''_'', CHR '':'', CHR ''/'', CHR ''-''}) (tl s)"

definition is_base58 :: "char \<Rightarrow> bool" where
  [text_simps]: "is_base58 c \<longleftrightarrow> is_alnum c \<and> c \<notin> {CHR ''0'', CHR ''I'', CHR ''O'', CHR ''l''}"

definition HOTKEY_RE :: "string \<Rightarrow> bool" where
  [text_simps]: "HOTKEY_RE s \<longleftrightarrow> 32 \<le> length s \<and> length s \<le> 128 \<and> list_all is_base58 s"

definition DIGEST_RE :: "string \<Rightarrow> bool" where
  "DIGEST_RE s \<longleftrightarrow> take 7 s = ''sha256:'' \<and> length (drop 7 s) = 64 \<and> list_all is_lower_hex (drop 7 s)"

definition NONCE_RE :: "string \<Rightarrow> bool" where
  [text_simps]: "NONCE_RE s \<longleftrightarrow> length s = 64 \<and> list_all is_lower_hex s"

lemma DIGEST_RE_label [simp]: "DIGEST_RE (sha256_label m)"
  by (simp add: DIGEST_RE_def sha256_label_def sha256_hexdigest_class)

fun bounded_text :: "(string \<Rightarrow> bool) \<Rightarrow> string \<Rightarrow> pyval \<Rightarrow> perr + string" where
  "bounded_text pattern label (PStr s) = (if pattern s then Inr s else Inl (contract_error (label @ '' is invalid'')))"
| "bounded_text pattern label _ = Inl (contract_error (label @ '' is invalid''))"

fun digest_text :: "string \<Rightarrow> pyval \<Rightarrow> perr + string" where
  "digest_text label (PStr s) =
     (if DIGEST_RE s then Inr s else Inl (contract_error (label @ '' must be a lowercase sha256 digest'')))"
| "digest_text label _ = Inl (contract_error (label @ '' must be a lowercase sha256 digest''))"

fun money_micros :: "string \<Rightarrow> pyval \<Rightarrow> perr + int" where
  "money_micros label (PInt i) =
     (if i < 0 \<or> i > MAX_MONEY_MICROS
      then Inl (contract_error (label @ '' must be bounded non-negative integer micros'')) else Inr i)"
| "money_micros label _ = Inl (contract_error (label @ '' must be bounded non-negative integer micros''))"

definition canonical_utc :: "string \<Rightarrow> datetime \<Rightarrow> perr + string" where
  "canonical_utc label d =
     (if is_utc d then Inr (format_utc d) else Inl (contract_error (label @ '' must be a UTC datetime'')))"

definition parse_utc :: "string \<Rightarrow> pyval \<Rightarrow> perr + datetime" where
  "parse_utc label v =
    (case v of
       PStr s \<Rightarrow>
         (case strptime_utc s of
            None \<Rightarrow> Inl (contract_error (label @ '' must be canonical UTC time''))
          | Some d \<Rightarrow>
              rbind (canonical_utc label d) (\<lambda>t.
                if t \<noteq> s then Inl (contract_error (label @ '' must be canonical UTC time'')) else Inr d))
     | _ \<Rightarrow> Inl (contract_error (label @ '' must be canonical UTC time'')))"

text \<open>\<open>_enum\<close>: the table of an \<open>Enum\<close> is its members' values with the members.\<close>

definition enum_value :: "(string \<times> 'e) list \<Rightarrow> string \<Rightarrow> pyval \<Rightarrow> perr + 'e" where
  "enum_value table label v =
    (case v of
       PStr s \<Rightarrow> (case map_of table s of Some e \<Rightarrow> Inr e | None \<Rightarrow> Inl (contract_error (label @ '' is invalid'')))
     | _ \<Rightarrow> Inl (contract_error (label @ '' is invalid'')))"

text \<open>
  \<open>_require_keys\<close> returns the mapping; keys are strings in the model.  An integer field
  that must not be a \<open>bool\<close> has its own reader.
\<close>

definition require_keys :: "pyval \<Rightarrow> string \<Rightarrow> string list \<Rightarrow> string \<Rightarrow> perr + (string \<times> pyval) list" where
  "require_keys document schema keys label =
    (case mapping_items document of
       None \<Rightarrow> Inl (contract_error (label @ '' must be an object with string keys''))
     | Some kvs \<Rightarrow>
         if set (map fst kvs) \<noteq> set keys
         then Inl (contract_error (label @ '' has missing or unknown fields''))
         else if dget kvs ''schema'' \<noteq> PStr schema
         then Inl (contract_error (label @ '' schema is unsupported''))
         else Inr kvs)"

fun plain_int :: "string \<Rightarrow> pyval \<Rightarrow> perr + int" where
  "plain_int message (PInt i) = Inr i"
| "plain_int message _ = Inl (contract_error message)"

text \<open>\<open>x = value[k]; if x is not None: x = f(x)\<close>\<close>

fun optional_field :: "(pyval \<Rightarrow> perr + 'a) \<Rightarrow> pyval \<Rightarrow> perr + 'a option" where
  "optional_field f PNone = Inr None"
| "optional_field f v = rbind (f v) (\<lambda>x. Inr (Some x))"

section \<open>Canonical normalisation\<close>

definition charge_canonical_budget :: "int \<Rightarrow> int \<Rightarrow> perr + int" where
  "charge_canonical_budget budget amount =
    (if budget - amount < 0 then Inl (contract_error ''canonical document exceeds the size limit'')
     else Inr (budget - amount))"

fun bit_length :: "nat \<Rightarrow> nat" where
  "bit_length n = (if n = 0 then 0 else Suc (bit_length (n div 2)))"

declare bit_length.simps [simp del]

definition digits_lower_bound :: "int \<Rightarrow> int" where
  "digits_lower_bound i = max 1 (((int (bit_length (nat \<bar>i\<bar>)) - 1) * 301) div 1000 + 1)"

text \<open>The cell \<open>budget[0]\<close> is threaded through the recursion.\<close>

fun normalize_canonical :: "nat \<Rightarrow> int \<Rightarrow> pyval \<Rightarrow> perr + (pyval \<times> int)"
  and normalize_members :: "nat \<Rightarrow> int \<Rightarrow> (string \<times> pyval) list \<Rightarrow> perr + ((string \<times> pyval) list \<times> int)"
  and normalize_elements :: "nat \<Rightarrow> int \<Rightarrow> pyval list \<Rightarrow> perr + (pyval list \<times> int)"
where
  "normalize_canonical depth budget v =
    (if depth > 64 then Inl (contract_error ''canonical value is too deeply nested'')
     else case v of
       PNone \<Rightarrow> rbind (charge_canonical_budget budget 4) (\<lambda>b. Inr (v, b))
     | PStr s \<Rightarrow> rbind (charge_canonical_budget budget (int (length s) + 2)) (\<lambda>b. Inr (v, b))
     | PBool t \<Rightarrow> rbind (charge_canonical_budget budget (if t then 4 else 5)) (\<lambda>b. Inr (v, b))
     | PInt i \<Rightarrow>
         rbind (charge_canonical_budget budget (digits_lower_bound i + (if i < 0 then 1 else 0)))
           (\<lambda>b. Inr (v, b))
     | PFloat t \<Rightarrow> Inl (contract_error ''floating-point values are not canonical'')
     | PDict kvs \<Rightarrow>
         rbind (charge_canonical_budget budget (2 + max 0 (int (length kvs) - 1))) (\<lambda>b.
         rbind (normalize_members depth b kvs) (\<lambda>(kvs', b'). Inr (PDict kvs', b')))
     | PProxy kvs \<Rightarrow>
         rbind (charge_canonical_budget budget (2 + max 0 (int (length kvs) - 1))) (\<lambda>b.
         rbind (normalize_members depth b kvs) (\<lambda>(kvs', b'). Inr (PDict kvs', b')))
     | PList vs \<Rightarrow>
         rbind (charge_canonical_budget budget (2 + max 0 (int (length vs) - 1))) (\<lambda>b.
         rbind (normalize_elements depth b vs) (\<lambda>(vs', b'). Inr (PList vs', b')))
     | PTuple vs \<Rightarrow>
         rbind (charge_canonical_budget budget (2 + max 0 (int (length vs) - 1))) (\<lambda>b.
         rbind (normalize_elements depth b vs) (\<lambda>(vs', b'). Inr (PList vs', b')))
     | PObject d \<Rightarrow> normalize_canonical (depth + 1) budget d
     | POther t \<Rightarrow> Inl (contract_error (''value of type '' @ t @ '' is not canonical'')))"
| "normalize_members depth budget [] = Inr ([], budget)"
| "normalize_members depth budget ((key, child) # rest) =
     rbind (charge_canonical_budget budget (int (length key) + 3)) (\<lambda>b.
     rbind (normalize_canonical (depth + 1) b child) (\<lambda>(child', b').
     rbind (normalize_members depth b' rest) (\<lambda>(rest', b''). Inr ((key, child') # rest', b''))))"
| "normalize_elements depth budget [] = Inr ([], budget)"
| "normalize_elements depth budget (child # rest) =
     rbind (normalize_canonical (depth + 1) budget child) (\<lambda>(child', b).
     rbind (normalize_elements depth b rest) (\<lambda>(rest', b'). Inr (child' # rest', b')))"

declare normalize_canonical.simps [simp del]

text \<open>\<open>json.dumps\<close> raises \<open>ValueError\<close> on an integer of more than 4300 digits.\<close>

fun digits_ok :: "pyval \<Rightarrow> bool" where
  "digits_ok (PInt i) = (int_digits i \<le> max_str_digits)"
| "digits_ok (PList vs) = list_all digits_ok vs"
| "digits_ok (PTuple vs) = list_all digits_ok vs"
| "digits_ok (PDict kvs) = list_all (\<lambda>(k, v). digits_ok v) kvs"
| "digits_ok (PProxy kvs) = list_all (\<lambda>(k, v). digits_ok v) kvs"
| "digits_ok (PObject d) = digits_ok d"
| "digits_ok _ = True"

definition canonical_json_bytes :: "pyval \<Rightarrow> perr + bytes" where
  "canonical_json_bytes v =
    rbind (normalize_canonical 0 (int MAX_CANONICAL_BYTES) v) (\<lambda>(normalized, _).
      if \<not> digits_ok normalized then Inl (contract_error ''value is not canonical JSON'')
      else let encoded = encode_ascii (dumps normalized) in
        if length encoded > MAX_CANONICAL_BYTES
        then Inl (contract_error ''canonical document exceeds the size limit'')
        else Inr encoded)"

definition canonical_sha256 :: "pyval \<Rightarrow> perr + string" where
  "canonical_sha256 v = rbind (canonical_json_bytes v) (\<lambda>bs. Inr (sha256_label bs))"

section \<open>Strict parsing\<close>

text \<open>The argument \<open>data: bytes | str\<close>.\<close>

datatype json_data = DataBytes bytes | DataText string

fun json_data_bytes :: "json_data \<Rightarrow> perr + bytes" where
  "json_data_bytes (DataBytes bs) = Inr bs"
| "json_data_bytes (DataText s) =
     (if list_all is_ascii s then Inr (encode_ascii s) else Inl (contract_error ''canonical JSON must be ASCII''))"

definition decode_ascii :: "bytes \<Rightarrow> string option" where
  "decode_ascii bs = (if list_all (\<lambda>b. b < 128) bs then Some (map (\<lambda>b. char_of (unat b)) bs) else None)"

fun json_error_raised :: "json_error \<Rightarrow> perr" where
  "json_error_raised JSONDecodeError = contract_error ''canonical JSON is invalid''"
| "json_error_raised JsonFloat = contract_error ''floating-point values are not canonical''"
| "json_error_raised JsonConstant = contract_error ''non-finite values are not canonical''"
| "json_error_raised JsonDuplicateKey = contract_error ''duplicate canonical JSON key''"
| "json_error_raised JsonIntDigits = BuiltinValueError"
| "json_error_raised JsonOutsideModel = OutsideModel"
| "json_error_raised JsonFuel = OutsideModel"

definition parse_canonical_json :: "json_data \<Rightarrow> perr + pyval" where
  "parse_canonical_json data =
    rbind (json_data_bytes data) (\<lambda>encoded.
      if length encoded > MAX_CANONICAL_BYTES
      then Inl (contract_error ''canonical document exceeds the size limit'')
      else case decode_ascii encoded of
        None \<Rightarrow> Inl (contract_error ''canonical JSON is invalid'')
      | Some text \<Rightarrow>
          (case json_loads False text of
             Inl e \<Rightarrow> Inl (json_error_raised e)
           | Inr document \<Rightarrow>
               rbind (canonical_json_bytes document) (\<lambda>bs.
                 if bs \<noteq> encoded then Inl (contract_error ''JSON bytes are not in canonical form'')
                 else Inr document)))"

section \<open>What canonicalisation computes\<close>

text \<open>
  The value the normaliser returns, the values it accepts, the depth it counts and the
  amount it charges, each as a function of the value alone.
\<close>

fun norm :: "pyval \<Rightarrow> pyval" where
  "norm (PList vs) = PList (map norm vs)"
| "norm (PTuple vs) = PList (map norm vs)"
| "norm (PDict kvs) = PDict (map (\<lambda>(k, v). (k, norm v)) kvs)"
| "norm (PProxy kvs) = PDict (map (\<lambda>(k, v). (k, norm v)) kvs)"
| "norm (PObject d) = norm d"
| "norm v = v"

fun canonical_shape :: "nat \<Rightarrow> pyval \<Rightarrow> bool" where
  "canonical_shape d (PFloat t) = False"
| "canonical_shape d (POther t) = False"
| "canonical_shape d (PList vs) = (d \<le> 64 \<and> list_all (canonical_shape (Suc d)) vs)"
| "canonical_shape d (PTuple vs) = (d \<le> 64 \<and> list_all (canonical_shape (Suc d)) vs)"
| "canonical_shape d (PDict kvs) = (d \<le> 64 \<and> list_all (\<lambda>(k, v). canonical_shape (Suc d) v) kvs)"
| "canonical_shape d (PProxy kvs) = (d \<le> 64 \<and> list_all (\<lambda>(k, v). canonical_shape (Suc d) v) kvs)"
| "canonical_shape d (PObject v) = (d \<le> 64 \<and> canonical_shape (Suc d) v)"
| "canonical_shape d v = (d \<le> 64)"

fun canonical_cost :: "pyval \<Rightarrow> int" where
  "canonical_cost PNone = 4"
| "canonical_cost (PStr s) = int (length s) + 2"
| "canonical_cost (PBool t) = (if t then 4 else 5)"
| "canonical_cost (PInt i) = digits_lower_bound i + (if i < 0 then 1 else 0)"
| "canonical_cost (PList vs) = 2 + max 0 (int (length vs) - 1) + (\<Sum>v\<leftarrow>vs. canonical_cost v)"
| "canonical_cost (PTuple vs) = 2 + max 0 (int (length vs) - 1) + (\<Sum>v\<leftarrow>vs. canonical_cost v)"
| "canonical_cost (PDict kvs) =
     2 + max 0 (int (length kvs) - 1) + (\<Sum>(k, v)\<leftarrow>kvs. int (length k) + 3 + canonical_cost v)"
| "canonical_cost (PProxy kvs) =
     2 + max 0 (int (length kvs) - 1) + (\<Sum>(k, v)\<leftarrow>kvs. int (length k) + 3 + canonical_cost v)"
| "canonical_cost (PObject v) = canonical_cost v"
| "canonical_cost (PFloat t) = 0"
| "canonical_cost (POther t) = 0"

lemma charge_ok_iff [ok_simps]:
  "charge_canonical_budget b a = Inr b' \<longleftrightarrow> b' = b - a \<and> 0 \<le> b'"
  by (auto simp: charge_canonical_budget_def)

lemma canonical_cost_nonneg: "0 \<le> canonical_cost v"
proof (induction v rule: pyval.induct)
  case (PDict kvs)
  then show ?case
    by (fastforce intro!: add_nonneg_nonneg sum_list_nonneg simp: snds.simps)
next
  case (PProxy kvs)
  then show ?case
    by (fastforce intro!: add_nonneg_nonneg sum_list_nonneg simp: snds.simps)
qed (auto intro!: add_nonneg_nonneg sum_list_nonneg simp: digits_lower_bound_def)

definition normalizes_exactly :: "pyval \<Rightarrow> bool" where
  "normalizes_exactly v \<longleftrightarrow>
     (\<forall>d b v' b'. normalize_canonical d b v = Inr (v', b') \<longleftrightarrow>
        canonical_shape d v \<and> v' = norm v \<and> b' = b - canonical_cost v \<and> 0 \<le> b')"

lemma normalizes_exactlyD:
  "normalizes_exactly v \<Longrightarrow> normalize_canonical d b v = Inr (v', b') \<longleftrightarrow>
     canonical_shape d v \<and> v' = norm v \<and> b' = b - canonical_cost v \<and> 0 \<le> b'"
  by (simp add: normalizes_exactly_def)

abbreviation members_cost :: "(string \<times> pyval) list \<Rightarrow> int" where
  "members_cost kvs \<equiv> (\<Sum>(k, v)\<leftarrow>kvs. int (length k) + 3 + canonical_cost v)"

abbreviation elements_cost :: "pyval list \<Rightarrow> int" where
  "elements_cost vs \<equiv> (\<Sum>v\<leftarrow>vs. canonical_cost v)"

lemma members_cost_nonneg: "0 \<le> members_cost kvs"
  by (intro sum_list_nonneg) (auto intro: add_nonneg_nonneg canonical_cost_nonneg)

lemma elements_cost_nonneg: "0 \<le> elements_cost vs"
  by (intro sum_list_nonneg) (auto intro: canonical_cost_nonneg)

lemma normalize_members_exact:
  assumes "\<And>k v. (k, v) \<in> set kvs \<Longrightarrow> normalizes_exactly v"
  shows "normalize_members d b kvs = Inr (kvs', b') \<longleftrightarrow>
     list_all (\<lambda>(k, v). canonical_shape (Suc d) v) kvs \<and> kvs' = map (\<lambda>(k, v). (k, norm v)) kvs
     \<and> b' = b - members_cost kvs \<and> (kvs = [] \<or> 0 \<le> b')"
  using assms
proof (induction kvs arbitrary: b kvs' b')
  case (Cons kv kvs)
  obtain k v where kv: "kv = (k, v)" by (cases kv)
  have v: "normalize_canonical (Suc d) b0 v = Inr (v', b1) \<longleftrightarrow>
      canonical_shape (Suc d) v \<and> v' = norm v \<and> b1 = b0 - canonical_cost v \<and> 0 \<le> b1" for b0 v' b1
    using Cons.prems [of k v] kv by (intro normalizes_exactlyD) simp
  have rest: "normalize_members d b0 kvs = Inr (kvs0, b1) \<longleftrightarrow>
      list_all (\<lambda>(k, v). canonical_shape (Suc d) v) kvs \<and> kvs0 = map (\<lambda>(k, v). (k, norm v)) kvs
      \<and> b1 = b0 - members_cost kvs \<and> (kvs = [] \<or> 0 \<le> b1)" for b0 kvs0 b1
    by (rule Cons.IH) (use Cons.prems in auto)
  show ?case
    using canonical_cost_nonneg [of v] members_cost_nonneg [of kvs]
    by (auto simp: kv ok_simps v rest)
qed auto

lemma normalize_elements_exact:
  assumes "\<And>v. v \<in> set vs \<Longrightarrow> normalizes_exactly v"
  shows "normalize_elements d b vs = Inr (vs', b') \<longleftrightarrow>
     list_all (canonical_shape (Suc d)) vs \<and> vs' = map norm vs
     \<and> b' = b - elements_cost vs \<and> (vs = [] \<or> 0 \<le> b')"
  using assms
proof (induction vs arbitrary: b vs' b')
  case (Cons v vs)
  have v: "normalize_canonical (Suc d) b0 v = Inr (v', b1) \<longleftrightarrow>
      canonical_shape (Suc d) v \<and> v' = norm v \<and> b1 = b0 - canonical_cost v \<and> 0 \<le> b1" for b0 v' b1
    using Cons.prems [of v] by (intro normalizes_exactlyD) simp
  have rest: "normalize_elements d b0 vs = Inr (vs0, b1) \<longleftrightarrow>
      list_all (canonical_shape (Suc d)) vs \<and> vs0 = map norm vs
      \<and> b1 = b0 - elements_cost vs \<and> (vs = [] \<or> 0 \<le> b1)" for b0 vs0 b1
    by (rule Cons.IH) (use Cons.prems in auto)
  show ?case
    using canonical_cost_nonneg [of v] elements_cost_nonneg [of vs]
    by (auto simp: ok_simps v rest)
qed auto

lemma normalize_exact: "normalizes_exactly v"
proof (induction v rule: pyval.induct)
  case (PList vs)
  then show ?case
    using elements_cost_nonneg [of vs] unfolding normalizes_exactly_def [of "PList vs"]
    by (auto simp: normalize_canonical.simps ok_simps normalize_elements_exact)
next
  case (PTuple vs)
  then show ?case
    using elements_cost_nonneg [of vs] unfolding normalizes_exactly_def [of "PTuple vs"]
    by (auto simp: normalize_canonical.simps ok_simps normalize_elements_exact)
next
  case (PDict kvs)
  then have "normalizes_exactly v" if "(k, v) \<in> set kvs" for k v using that by fastforce
  then show ?case
    using members_cost_nonneg [of kvs] unfolding normalizes_exactly_def [of "PDict kvs"]
    by (auto simp: normalize_canonical.simps ok_simps normalize_members_exact)
next
  case (PProxy kvs)
  then have "normalizes_exactly v" if "(k, v) \<in> set kvs" for k v using that by fastforce
  then show ?case
    using members_cost_nonneg [of kvs] unfolding normalizes_exactly_def [of "PProxy kvs"]
    by (auto simp: normalize_canonical.simps ok_simps normalize_members_exact)
next
  case (PObject e)
  have "normalize_canonical d b (PObject e) =
      (if d > 64 then Inl (contract_error ''canonical value is too deeply nested'')
       else normalize_canonical (Suc d) b e)" for d b
    by (subst normalize_canonical.simps) simp
  then show ?case
    using PObject unfolding normalizes_exactly_def by auto
qed (auto simp: normalizes_exactly_def normalize_canonical.simps ok_simps)

section \<open>The budget never rejects what the size limit would accept\<close>

lemma bit_length_power: "n \<noteq> 0 \<Longrightarrow> 2 ^ (bit_length n - 1) \<le> n"
proof (induction n rule: bit_length.induct)
  case (1 n)
  show ?case
  proof (cases "n div 2 = 0")
    case True
    then have "bit_length (n div 2) = 0" by (simp add: bit_length.simps)
    then show ?thesis using 1(2) by (subst bit_length.simps) simp
  next
    case False
    then have "2 ^ (bit_length (n div 2) - 1) \<le> n div 2" using 1 by simp
    moreover from False have "0 < bit_length (n div 2)" by (subst bit_length.simps) simp
    then obtain k where "bit_length (n div 2) = Suc k" by (cases "bit_length (n div 2)") auto
    ultimately show ?thesis using 1(2) by (subst bit_length.simps) simp
  qed
qed

lemma ten_power_le_two_power: "1000 * q \<le> 301 * k \<Longrightarrow> (10 :: nat) ^ q \<le> 2 ^ k"
proof -
  assume le: "1000 * q \<le> 301 * k"
  have "((10 :: nat) ^ q) ^ 1000 = 10 ^ (1000 * q)" by (simp only: power_mult [symmetric] mult.commute)
  also have "\<dots> \<le> 10 ^ (301 * k)" using le by (intro power_increasing) auto
  also have "\<dots> = (10 ^ 301) ^ k" by (simp only: power_mult)
  also have "\<dots> \<le> (2 ^ 1000) ^ k" by (intro power_mono) simp_all
  also have "\<dots> = (2 ^ k) ^ 1000" by (simp only: power_mult [symmetric] mult.commute)
  finally show ?thesis by (rule power_le_imp_le_base [where n = 999, simplified]) simp
qed

lemma digits_lower_bound_le: "digits_lower_bound i \<le> int (int_digits i)"
proof (cases "i = 0")
  case False
  let ?n = "nat \<bar>i\<bar>" and ?k = "bit_length (nat \<bar>i\<bar>) - 1"
  let ?q = "(301 * ?k) div 1000"
  from False have n: "?n \<noteq> 0" by simp
  then have pos: "0 < bit_length ?n" by (subst bit_length.simps) simp
  have "1000 * ?q \<le> 301 * ?k" by (simp add: div_times_less_eq_dividend mult.commute)
  then have "10 ^ ?q \<le> (2 :: nat) ^ ?k" by (rule ten_power_le_two_power)
  also have "\<dots> \<le> ?n" using n by (rule bit_length_power)
  finally have "?q < int_digits i" unfolding int_digits_def by (rule show_nat_length_ge)
  moreover have "((int (bit_length ?n) - 1) * 301) div 1000 = int ?q"
    using pos by (simp add: zdiv_int of_nat_diff mult.commute)
  ultimately show ?thesis by (simp add: digits_lower_bound_def)
qed (simp add: digits_lower_bound_def int_digits_def bit_length.simps)

lemma length_json_string_ge: "length s + 2 \<le> length (json_string s)"
proof -
  have "1 \<le> length (json_escape c)" for c by (simp add: json_escape_def Let_def)
  then have "length s \<le> length (concat (map json_escape s))"
    by (induction s) (auto intro: add_le_mono [of 1, simplified])
  then show ?thesis by (simp add: json_string_def)
qed

lemma length_join_comma: "length (join_comma ts) = sum_list (map length ts) + (length ts - 1)"
  by (induction ts rule: join_comma.induct) auto

lemma sum_list_sort_key: "sum_list (map f (sort_key g xs)) = (sum_list (map f xs) :: nat)"
  by (metis mset_map mset_sort sum_mset_sum_list)

lemma int_sum_list: "int (sum_list (map f xs)) = (\<Sum>x\<leftarrow>xs. int (f x))"
  by (induction xs) auto

lemma canonical_cost_mapping_le:
  assumes "\<And>k v. (k, v) \<in> set kvs \<Longrightarrow> canonical_cost v \<le> int (length (dumps (norm v)))"
  shows "canonical_cost (PDict kvs) \<le> int (length (dumps (norm (PDict kvs))))"
proof -
  have "(\<Sum>(k, v)\<leftarrow>kvs. int (length k) + 3 + canonical_cost v)
      \<le> (\<Sum>(k, v)\<leftarrow>kvs. int (length (json_member (k, dumps (norm v)))))"
  proof (intro sum_list_mono, clarify)
    fix k v assume "(k, v) \<in> set kvs"
    then show "int (length k) + 3 + canonical_cost v \<le> int (length (json_member (k, dumps (norm v))))"
      using assms length_json_string_ge [of k] by (fastforce simp: json_member_def)
  qed
  then show ?thesis
    by (simp add: length_join_comma comp_def sum_list_sort_key int_sum_list case_prod_unfold)
qed

lemma canonical_cost_le: "canonical_shape d v \<Longrightarrow> canonical_cost v \<le> int (length (dumps (norm v)))"
proof (induction v arbitrary: d rule: pyval.induct)
  case (PInt i)
  then show ?case
    using digits_lower_bound_le [of i] by (auto simp: show_int_def int_digits_def)
next
  case (PStr s)
  then show ?case using length_json_string_ge [of s] by simp
next
  case (PList vs)
  have "(\<Sum>v\<leftarrow>vs. canonical_cost v) \<le> (\<Sum>v\<leftarrow>vs. int (length (dumps (norm v))))"
    using PList by (intro sum_list_mono) (auto simp: list_all_iff)
  then show ?case by (simp add: length_join_comma int_sum_list comp_def)
next
  case (PTuple vs)
  have "(\<Sum>v\<leftarrow>vs. canonical_cost v) \<le> (\<Sum>v\<leftarrow>vs. int (length (dumps (norm v))))"
    using PTuple by (intro sum_list_mono) (auto simp: list_all_iff)
  then show ?case by (simp add: length_join_comma int_sum_list comp_def)
next
  case (PDict kvs)
  have "canonical_cost v \<le> int (length (dumps (norm v)))" if "(k, v) \<in> set kvs" for k v
    using PDict that by (fastforce simp: list_all_iff)
  then show ?case by (rule canonical_cost_mapping_le)
next
  case (PProxy kvs)
  have "canonical_cost v \<le> int (length (dumps (norm v)))" if "(k, v) \<in> set kvs" for k v
    using PProxy that by (fastforce simp: list_all_iff)
  then have "canonical_cost (PDict kvs) \<le> int (length (dumps (norm (PDict kvs))))"
    by (rule canonical_cost_mapping_le)
  then show ?case by simp
qed auto

section \<open>Canonical bytes\<close>

definition canonical_accepts :: "pyval \<Rightarrow> bool" where
  "canonical_accepts v \<longleftrightarrow>
     canonical_shape 0 v \<and> digits_ok (norm v) \<and> length (dumps (norm v)) \<le> MAX_CANONICAL_BYTES"

lemma canonical_json_bytes_iff:
  "canonical_json_bytes v = Inr bs \<longleftrightarrow> canonical_accepts v \<and> bs = encode_ascii (dumps (norm v))"
proof -
  have "canonical_cost v \<le> int MAX_CANONICAL_BYTES"
    if "canonical_shape 0 v" "length (dumps (norm v)) \<le> MAX_CANONICAL_BYTES"
    using canonical_cost_le [OF that(1)] that(2) by simp
  then show ?thesis
    using normalizes_exactlyD [OF normalize_exact, of 0 "int MAX_CANONICAL_BYTES" v]
    by (auto simp: canonical_json_bytes_def canonical_accepts_def ok_simps Let_def split: if_splits)
qed

text \<open>A Python mapping has no repeated key.\<close>

fun distinct_keys :: "pyval \<Rightarrow> bool" where
  "distinct_keys (PList vs) = list_all distinct_keys vs"
| "distinct_keys (PTuple vs) = list_all distinct_keys vs"
| "distinct_keys (PDict kvs) = (distinct (map fst kvs) \<and> list_all (\<lambda>(k, v). distinct_keys v) kvs)"
| "distinct_keys (PProxy kvs) = (distinct (map fst kvs) \<and> list_all (\<lambda>(k, v). distinct_keys v) kvs)"
| "distinct_keys (PObject d) = distinct_keys d"
| "distinct_keys _ = True"

lemma norm_is_json:
  "canonical_shape d v \<Longrightarrow> digits_ok (norm v) \<Longrightarrow> distinct_keys v \<Longrightarrow> is_json (norm v)"
proof (induction v arbitrary: d rule: pyval.induct)
  case (PDict kvs)
  then show ?case by (fastforce simp: list_all_iff comp_def case_prod_unfold)
next
  case (PProxy kvs)
  then show ?case by (fastforce simp: list_all_iff comp_def case_prod_unfold)
qed (auto simp: list_all_iff)

lemma norm_json [simp]: "is_json v \<Longrightarrow> norm v = v"
proof (induction v rule: pyval.induct)
  case (PDict kvs)
  then have "map (\<lambda>(k, v). (k, norm v)) kvs = kvs"
    by (intro map_idI) (fastforce simp: list_all_iff)
  then show ?case by simp
qed (auto simp: list_all_iff intro!: map_idI)

lemma json_distinct_keys: "is_json v \<Longrightarrow> distinct_keys v"
  by (induction v rule: pyval.induct) (fastforce simp: list_all_iff)+

lemma json_digits_ok: "is_json v \<Longrightarrow> digits_ok v"
  by (induction v rule: pyval.induct) (fastforce simp: list_all_iff)+

lemma canonical_accepts_json: "canonical_accepts v \<Longrightarrow> distinct_keys v \<Longrightarrow> is_json (norm v)"
  by (auto simp: canonical_accepts_def intro: norm_is_json)

subsection \<open>Key order is irrelevant\<close>

lemma canonical_shape_canon [simp]: "canonical_shape d (canon v) = canonical_shape d v"
proof (induction v arbitrary: d rule: pyval.induct)
  case (PDict kvs)
  then show ?case by (fastforce simp: list_all_iff)
qed (auto simp: list_all_iff)

lemma is_json_canon_iff: "is_json (canon v) \<longleftrightarrow> is_json v"
proof (induction v rule: pyval.induct)
  case (PDict kvs)
  then show ?case
    using distinct_sort_key_fst [of kvs]
    by (fastforce simp: canon_PDict_sorted list_all_iff comp_def case_prod_unfold simp del: canon.simps)
qed (auto simp: list_all_iff)

lemma canonical_json_bytes_canon:
  "is_json v \<Longrightarrow> canonical_json_bytes (canon v) = Inr bs \<longleftrightarrow> canonical_json_bytes v = Inr bs"
  using is_json_canon [of v]
  by (simp add: canonical_json_bytes_iff canonical_accepts_def dumps_canon json_digits_ok)

lemma canon_idem: "canon (canon v) = canon v"
proof (induction v rule: pyval.induct)
  case (PDict kvs)
  have "map (\<lambda>(k, v). (k, canon v)) (map (\<lambda>(k, v). (k, canon v)) (sort_key fst kvs))
      = map (\<lambda>(k, v). (k, canon v)) (sort_key fst kvs)"
    using PDict by auto
  moreover have "sort_key fst (map (\<lambda>(k, v). (k, canon v)) (sort_key fst kvs))
      = map (\<lambda>(k, v). (k, canon v)) (sort_key fst kvs)"
    by (intro sort_key_fst_sorted) (simp add: comp_def case_prod_unfold)
  ultimately show ?case by (simp only: canon_PDict_sorted)
qed (auto simp: comp_def)

subsection \<open>ASCII\<close>

lemma ascii_hex_digit: "n < 16 \<Longrightarrow> is_ascii (hex_digit n)"
  using hex_digit_class [of n] by (auto simp: text_simps)

lemma ord_c_less: "ord_c c < 256"
  by (metis of_char_mod_256 mod_less_divisor zero_less_numeral)

lemma ascii_json_string: "list_all is_ascii (json_string s)"
proof -
  have "list_all is_ascii (json_escape c)" for c
    using ascii_hex_digit ord_c_less [of c]
    by (auto simp: json_escape_def Let_def is_ascii_def less_mult_imp_div_less)
  then show ?thesis by (auto simp: json_string_def list_all_iff is_ascii_def)
qed

lemma ascii_show_nat: "list_all is_ascii (show_nat n)"
  using show_nat_digits [of n] by (auto simp: list_all_iff is_ascii_def is_digit_def)

lemma ascii_join_comma: "list_all (list_all is_ascii) ts \<Longrightarrow> list_all is_ascii (join_comma ts)"
  by (induction ts rule: join_comma.induct) (auto simp: is_ascii_def)

lemma ascii_brackets: "is_ascii (CHR ''{'')" "is_ascii (CHR ''}'')" "is_ascii (CHR ''['')" "is_ascii (CHR '']'')"
  by (simp_all add: is_ascii_def)

lemma ascii_dumps_dict:
  assumes "\<And>k v. (k, v) \<in> set kvs \<Longrightarrow> list_all is_ascii (dumps v)"
  shows "list_all is_ascii (dumps (PDict kvs))"
proof -
  have "list_all is_ascii (json_member (k, dumps v))" if "(k, v) \<in> set kvs" for k v
    using assms [OF that] ascii_json_string [of k]
    by (simp add: json_member_def is_ascii_def [of "CHR '':''"])
  then have "list_all (list_all is_ascii) (map (\<lambda>(k, v). json_member (k, dumps v)) (sort_key fst kvs))"
    by (auto simp: list_all_iff)
  then have "list_all is_ascii (join_comma (map (\<lambda>(k, v). json_member (k, dumps v)) (sort_key fst kvs)))"
    by (rule ascii_join_comma)
  then show ?thesis by (simp add: dumps_PDict_sorted ascii_brackets del: dumps.simps)
qed

lemma ascii_dumps: "is_json v \<Longrightarrow> list_all is_ascii (dumps v)"
proof (induction v rule: pyval.induct)
  case (PDict kvs)
  then have "list_all is_ascii (dumps v)" if "(k, v) \<in> set kvs" for k v
    using that by (fastforce simp: list_all_iff)
  then show ?case by (rule ascii_dumps_dict)
next
  case (PList vs)
  then have "list_all (list_all is_ascii) (map dumps vs)" by (auto simp: list_all_iff)
  then have "list_all is_ascii (join_comma (map dumps vs))" by (rule ascii_join_comma)
  then show ?case by (simp add: ascii_brackets)
next
  case (PInt i)
  then show ?case using ascii_show_nat by (simp add: show_int_def is_ascii_def [of "CHR ''-''"])
next
  case (PBool b)
  then show ?case by (simp add: is_ascii_def)
qed (simp_all add: ascii_json_string, simp_all add: is_ascii_def)

lemma decode_encode_ascii: "list_all is_ascii s \<Longrightarrow> decode_ascii (encode_ascii s) = Some s"
proof (induction s)
  case (Cons c s)
  then have "unat (of_nat (ord_c c) :: 8 word) = ord_c c"
    by (simp add: unat_of_nat is_ascii_def)
  with Cons show ?case
    by (auto simp: decode_ascii_def encode_ascii_def is_ascii_def word_less_nat_alt split: if_splits)
qed (simp add: decode_ascii_def encode_ascii_def)

lemma encode_decode_ascii: "decode_ascii bs = Some s \<Longrightarrow> encode_ascii s = bs"
proof -
  have "(of_nat (ord_c (char_of (unat b) :: char)) :: 8 word) = b" if "b < 128" for b :: "8 word"
    using that by (simp add: word_less_nat_alt)
  then show "decode_ascii bs = Some s \<Longrightarrow> encode_ascii s = bs"
    by (auto simp: decode_ascii_def encode_ascii_def list_all_iff comp_def intro!: map_idI split: if_splits)
qed

section \<open>The strict parser accepts exactly the canonical bytes\<close>

lemma parse_canonical_json_iff:
  "parse_canonical_json (DataBytes bs) = Inr v \<longleftrightarrow>
     is_json v \<and> canon v = v \<and> canonical_json_bytes v = Inr bs"
proof
  assume ok: "parse_canonical_json (DataBytes bs) = Inr v"
  then obtain t where t: "decode_ascii bs = Some t" and v: "json_loads False t = Inr v"
    and bs: "canonical_json_bytes v = Inr bs"
    by (auto simp: parse_canonical_json_def ok_simps split: if_splits option.splits sum.splits)
  from v have json: "is_json v" by (rule loads_is_json)
  with bs have "encode_ascii (dumps v) = bs" by (simp add: canonical_json_bytes_iff)
  with encode_decode_ascii [OF t] have "dumps v = t" by (metis inj_encode_ascii)
  with v loads_dumps [OF json, of False] have "canon v = v" by simp
  with json bs show "is_json v \<and> canon v = v \<and> canonical_json_bytes v = Inr bs" by simp
next
  assume v: "is_json v \<and> canon v = v \<and> canonical_json_bytes v = Inr bs"
  then have bs: "bs = encode_ascii (dumps v)" and len: "length (dumps v) \<le> MAX_CANONICAL_BYTES"
    by (auto simp: canonical_json_bytes_iff canonical_accepts_def)
  have "json_loads False (dumps v) = Inr v" using v loads_dumps [of v False] by simp
  moreover have "decode_ascii bs = Some (dumps v)"
    using v by (simp add: bs decode_encode_ascii ascii_dumps)
  ultimately show "parse_canonical_json (DataBytes bs) = Inr v"
    using v len by (simp add: parse_canonical_json_def bs)
qed

lemma canonical_shape_norm: "canonical_shape d v \<Longrightarrow> d' \<le> d \<Longrightarrow> canonical_shape d' (norm v)"
proof (induction v arbitrary: d d' rule: pyval.induct)
  case (PDict kvs)
  then have "canonical_shape (Suc d') (norm v)" if "(k, v) \<in> set kvs" for k v
    using that by (fastforce simp: list_all_iff)
  with PDict.prems show ?case by (auto simp: list_all_iff)
next
  case (PProxy kvs)
  then have "canonical_shape (Suc d') (norm v)" if "(k, v) \<in> set kvs" for k v
    using that by (fastforce simp: list_all_iff)
  with PProxy.prems show ?case by (auto simp: list_all_iff)
next
  case (PObject e)
  then show ?case by (metis canonical_shape.simps(7) norm.simps(5) le_Suc_eq)
qed (fastforce simp: list_all_iff)+

lemma parse_canonical_bytes:
  assumes "distinct_keys v" "canonical_json_bytes v = Inr bs"
  shows "parse_canonical_json (DataBytes bs) = Inr (canon (norm v))"
proof -
  from assms have acc: "canonical_accepts v" and bs: "bs = encode_ascii (dumps (norm v))"
    by (auto simp: canonical_json_bytes_iff)
  with assms(1) have json: "is_json (norm v)" by (simp add: canonical_accepts_json)
  from acc have "canonical_shape 0 (norm v)"
    by (auto simp: canonical_accepts_def intro: canonical_shape_norm)
  with acc bs json have "canonical_json_bytes (norm v) = Inr bs"
    by (auto simp: canonical_json_bytes_iff canonical_accepts_def)
  with json have "canonical_json_bytes (canon (norm v)) = Inr bs"
    by (simp add: canonical_json_bytes_canon)
  then show ?thesis
    using json by (simp add: parse_canonical_json_iff is_json_canon canon_idem)
qed

lemma canonical_json_bytes_inject:
  assumes "distinct_keys v" "distinct_keys w"
    and "canonical_json_bytes v = Inr bs" "canonical_json_bytes w = Inr bs"
  shows "canon (norm v) = canon (norm w)"
  using parse_canonical_bytes [OF assms(1,3)] parse_canonical_bytes [OF assms(2,4)] by simp

section \<open>What the field validators accept\<close>

lemma bounded_text_ok_iff [ok_simps]: "bounded_text p l v = Inr s \<longleftrightarrow> v = PStr s \<and> p s"
  by (cases v) auto

lemma digest_text_ok_iff [ok_simps]: "digest_text l v = Inr s \<longleftrightarrow> v = PStr s \<and> DIGEST_RE s"
  by (cases v) auto

lemma money_micros_ok_iff [ok_simps]:
  "money_micros l v = Inr i \<longleftrightarrow> v = PInt i \<and> 0 \<le> i \<and> i \<le> MAX_MONEY_MICROS"
  by (cases v) auto

lemma plain_int_ok_iff [ok_simps]: "plain_int m v = Inr i \<longleftrightarrow> v = PInt i"
  by (cases v) auto

lemma canonical_utc_ok_iff [ok_simps]: "canonical_utc l d = Inr s \<longleftrightarrow> is_utc d \<and> s = format_utc d"
  by (auto simp: canonical_utc_def)

lemma parse_utc_ok_iff [ok_simps]: "parse_utc l v = Inr d \<longleftrightarrow> is_utc d \<and> v = PStr (format_utc d)"
proof
  assume "parse_utc l v = Inr d"
  then obtain s where "v = PStr s" "rbind (canonical_utc l d)
      (\<lambda>t. if t \<noteq> s then Inl (contract_error (l @ '' must be canonical UTC time'')) else Inr d) = Inr d"
    unfolding parse_utc_def
    by (cases v; simp split: option.splits) (auto simp: rbind_ok_iff split: if_splits)
  then show "is_utc d \<and> v = PStr (format_utc d)"
    by (simp add: canonical_utc_def split: if_splits)
next
  assume "is_utc d \<and> v = PStr (format_utc d)"
  then show "parse_utc l v = Inr d"
    using strptime_format [of d] by (simp add: parse_utc_def canonical_utc_def)
qed

lemma enum_value_ok_iff [ok_simps]:
  "enum_value t l v = Inr e \<longleftrightarrow> (\<exists>s. v = PStr s \<and> map_of t s = Some e)"
  by (auto simp: enum_value_def split: pyval.splits option.splits)

lemma optional_field_ok_None [ok_simps]: "optional_field f v = Inr None \<longleftrightarrow> v = PNone"
  by (cases v) (auto simp: rbind_ok_iff)

lemma optional_field_ok_Some [ok_simps]:
  "optional_field f v = Inr (Some x) \<longleftrightarrow> v \<noteq> PNone \<and> f v = Inr x"
  by (cases v) (auto simp: rbind_ok_iff)

lemma require_keys_ok_iff [ok_simps]:
  "require_keys d s ks l = Inr kvs \<longleftrightarrow>
     mapping_items d = Some kvs \<and> fst ` set kvs = set ks \<and> dget kvs ''schema'' = PStr s"
  by (auto simp: require_keys_def split: option.splits if_splits)

section \<open>Versioned records\<close>

text \<open>
  The contract every record class of the module keeps between \<open>to_document\<close>,
  \<open>from_document\<close> and \<open>__post_init__\<close> (\<open>valid\<close>): documents hold plain JSON data, the
  stored form of a valid record reads back as that record, only valid records are ever
  built, and a document that is read is the document of the record it gives.
\<close>

fun plain_json :: "pyval \<Rightarrow> bool" where
  "plain_json (PList vs) = list_all plain_json vs"
| "plain_json (PDict kvs) = (distinct (map fst kvs) \<and> list_all (\<lambda>(k, v). plain_json v) kvs)"
| "plain_json (PTuple vs) = False"
| "plain_json (PProxy kvs) = False"
| "plain_json (PObject d) = False"
| "plain_json (PFloat t) = False"
| "plain_json (POther t) = False"
| "plain_json _ = True"

lemma plain_json_norm [simp]: "plain_json v \<Longrightarrow> norm v = v"
proof (induction v rule: pyval.induct)
  case (PDict kvs)
  then have "map (\<lambda>(k, v). (k, norm v)) kvs = kvs"
    by (intro map_idI) (fastforce simp: list_all_iff)
  then show ?case by simp
qed (auto simp: list_all_iff intro!: map_idI)

lemma plain_json_distinct: "plain_json v \<Longrightarrow> distinct_keys v"
  by (induction v rule: pyval.induct) (fastforce simp: list_all_iff)+

lemma is_json_plain: "is_json v \<Longrightarrow> plain_json v"
  by (induction v rule: pyval.induct) (fastforce simp: list_all_iff)+

text \<open>\<open>x.to_document() if x is not None else None\<close>\<close>

fun opt_doc :: "('a \<Rightarrow> pyval) \<Rightarrow> 'a option \<Rightarrow> pyval" where
  "opt_doc f None = PNone"
| "opt_doc f (Some x) = f x"

locale document_codec =
  fixes to_doc :: "'a \<Rightarrow> pyval"
    and from_doc :: "pyval \<Rightarrow> perr + 'a"
    and valid :: "'a \<Rightarrow> bool"
  assumes doc_plain: "valid x \<Longrightarrow> plain_json (to_doc x)"
    and reads_stored: "valid x \<Longrightarrow> from_doc (canon (to_doc x)) = Inr x"
    and only_valid: "from_doc d = Inr x \<Longrightarrow> valid x"
    and reads_exactly: "plain_json d \<Longrightarrow> from_doc d = Inr x \<Longrightarrow> canon d = canon (to_doc x)"
begin

text \<open>A record is encoded as its document, or as an object whose document is taken.\<close>

definition encodes :: "pyval \<Rightarrow> 'a \<Rightarrow> bool" where
  "encodes v x \<longleftrightarrow> v = to_doc x \<or> v = PObject (to_doc x)"

lemma encodes_intros [intro!, simp]: "encodes (to_doc x) x" "encodes (PObject (to_doc x)) x"
  by (simp_all add: encodes_def)

lemma encodes_norm: "valid x \<Longrightarrow> encodes v x \<Longrightarrow> norm v = to_doc x \<and> distinct_keys v"
  by (auto simp: encodes_def doc_plain plain_json_distinct)

lemma bytes_round_trip:
  assumes "valid x" "encodes v x" "canonical_json_bytes v = Inr bs"
  shows "rbind (parse_canonical_json (DataBytes bs)) from_doc = Inr x"
  using parse_canonical_bytes [OF _ assms(3)] encodes_norm [OF assms(1,2)] assms(1)
  by (simp add: reads_stored)

lemma bytes_inject:
  assumes "valid x" "valid y" "encodes v x" "encodes w y"
    and "canonical_json_bytes v = Inr bs" "canonical_json_bytes w = Inr bs"
  shows "x = y"
  using bytes_round_trip [OF assms(1,3,5)] bytes_round_trip [OF assms(2,4,6)] by simp

lemma bytes_canonical:
  assumes "rbind (parse_canonical_json (DataBytes bs)) from_doc = Inr x"
  shows "canonical_json_bytes (to_doc x) = Inr bs"
proof -
  from assms obtain d where d: "is_json d" "canonical_json_bytes d = Inr bs" "from_doc d = Inr x"
    by (auto simp: rbind_ok_iff parse_canonical_json_iff)
  then have same: "canon d = canon (to_doc x)" by (simp add: reads_exactly is_json_plain)
  have "is_json (to_doc x)"
    using d(1) same is_json_canon [of d] by (metis is_json_canon_iff)
  then show ?thesis using d same by (metis canonical_json_bytes_canon)
qed

lemma digest_binds:
  assumes "valid x" "valid y" "encodes v x" "encodes w y"
    and "canonical_sha256 v = Inr d" "canonical_sha256 w = Inr d"
  shows "x = y \<or> (\<exists>bs cs. canonical_json_bytes v = Inr bs \<and> canonical_json_bytes w = Inr cs
      \<and> sha256_collision bs cs)"
proof -
  from assms obtain bs cs where bs: "canonical_json_bytes v = Inr bs"
    and cs: "canonical_json_bytes w = Inr cs" and eq: "sha256_label bs = sha256_label cs"
    by (auto simp: canonical_sha256_def rbind_ok_iff)
  from sha256_label_inj [OF eq] bs cs bytes_inject [OF assms(1-4)] show ?thesis by blast
qed

text \<open>Lists of records and optional records.\<close>

lemma rmap_stored:
  "list_all valid xs \<Longrightarrow> rmap from_doc (map (\<lambda>x. canon (to_doc x)) xs) = Inr xs"
  by (induction xs) (simp_all add: reads_stored)

lemma rmap_exact:
  "list_all plain_json vs \<Longrightarrow> rmap from_doc vs = Inr xs \<Longrightarrow>
     map canon vs = map (\<lambda>x. canon (to_doc x)) xs"
  by (induction vs arbitrary: xs) (auto simp: ok_simps reads_exactly)

lemma rmap_valid: "rmap from_doc vs = Inr xs \<Longrightarrow> list_all valid xs"
  by (induction vs arbitrary: xs) (auto simp: ok_simps dest: only_valid)

lemma docs_plain: "list_all valid xs \<Longrightarrow> list_all plain_json (map to_doc xs)"
  by (auto simp: list_all_iff doc_plain)

lemma optional_stored:
  assumes "pred_option valid xo" "\<And>x. canon (to_doc x) \<noteq> PNone"
  shows "optional_field from_doc (canon (opt_doc to_doc xo)) = Inr xo"
  using assms by (cases xo) (simp_all add: ok_simps reads_stored)

lemma optional_valid: "optional_field from_doc v = Inr xo \<Longrightarrow> pred_option valid xo"
  by (cases xo) (auto simp: ok_simps dest: only_valid)

lemma optional_exact:
  "plain_json v \<Longrightarrow> optional_field from_doc v = Inr xo \<Longrightarrow> canon v = canon (opt_doc to_doc xo)"
  by (cases xo) (auto simp: ok_simps reads_exactly)

lemma optional_plain: "pred_option valid xo \<Longrightarrow> plain_json (opt_doc to_doc xo)"
  by (cases xo) (auto simp: doc_plain)

end

text \<open>The record classes without free-form documents: every document is plain JSON data.\<close>

locale record_codec = document_codec +
  assumes record_plain [simp]: "plain_json (to_doc x)"
begin

lemma records_plain [simp]: "list_all plain_json (map to_doc xs)"
  by (simp add: list_all_iff)

end

subsection \<open>Automation for the record classes\<close>

text \<open>
  The sorted items of a stored document: lookup finds what it finds in the document
  that was stored.
\<close>

definition canon_items :: "(string \<times> pyval) list \<Rightarrow> (string \<times> pyval) list" where
  "canon_items kvs = sort_key fst (map (\<lambda>(k, v). (k, canon v)) kvs)"

lemma canon_PDict_items: "canon (PDict kvs) = PDict (canon_items kvs)"
  by (simp add: canon_items_def)

declare canon.simps(2) [simp del]

lemma dget_canon_items [simp]: "dget (canon_items kvs) k = canon (dget kvs k)"
proof -
  have "dget (map (\<lambda>(k, v). (k, canon v)) kvs) k = canon (dget kvs k)"
    by (induction kvs) (auto simp: dget_def)
  then show ?thesis by (simp add: canon_items_def)
qed

lemma canon_items_keys [simp]: "fst ` set (canon_items kvs) = fst ` set kvs"
  by (force simp: canon_items_def)

lemma require_keys_stored:
  "fst ` set kvs = set ks \<Longrightarrow> dget kvs ''schema'' = PStr s \<Longrightarrow>
     require_keys (canon (PDict kvs)) s ks l = Inr (canon_items kvs)"
  by (simp only: canon_PDict_items) (simp add: require_keys_ok_iff)

lemma canon_atoms [simp]: "canon (opt_str so) = opt_str so"
  by (cases so) auto

lemma plain_dget: "plain_json (PDict kvs) \<Longrightarrow> plain_json (dget kvs k)"
  by (auto simp: dget_def list_all_iff split: option.splits dest!: map_of_SomeD)

lemma plain_mapping_items: "plain_json d \<Longrightarrow> mapping_items d = Some kvs \<Longrightarrow> d = PDict kvs"
  by (cases d) auto

lemma plain_opt_str [simp]: "plain_json (opt_str so)"
  by (cases so) auto

lemma canon_PDict_eqI:
  assumes dx: "distinct (map fst xs)" and dy: "distinct (map fst ys)" and keys: "fst ` set xs = fst ` set ys"
    and vals: "\<And>k. k \<in> fst ` set ys \<Longrightarrow> canon (dget xs k) = canon (dget ys k)"
  shows "canon (PDict xs) = canon (PDict ys)"
proof -
  let ?c = "map (\<lambda>(k, v). (k, canon v))"
  have dom: "map_of (?c zs) k = map_option canon (map_of zs k)" for zs k
    by (induction zs) auto
  have "map_of (?c xs) = map_of (?c ys)"
  proof
    fix k
    show "map_of (?c xs) k = map_of (?c ys) k"
    proof (cases "k \<in> fst ` set ys")
      case True
      then obtain v w where "map_of ys k = Some v" "map_of xs k = Some w"
        using keys by (metis map_of_eq_None_iff not_None_eq)
      with vals [OF True] show ?thesis by (simp add: dom dget_def)
    next
      case False
      then have "map_of ys k = None" "map_of xs k = None"
        using keys by (auto simp: map_of_eq_None_iff)
      then show ?thesis by (simp add: dom)
    qed
  qed
  moreover have "distinct (map fst (?c xs))" "distinct (map fst (?c ys))"
    using dx dy by (simp_all add: comp_def case_prod_unfold)
  ultimately have "set (?c xs) = set (?c ys)"
    by (metis map_of_inject_set)
  moreover have "map fst (sort_key fst (?c xs)) = map fst (sort_key fst (?c ys))"
    using dx dy keys
    by (intro sorted_distinct_set_unique)
      (simp_all add: distinct_sort_key_fst comp_def case_prod_unfold image_image)
  ultimately have "sort_key fst (?c xs) = sort_key fst (?c ys)"
    using dx dy by (intro alist_eqI) (auto simp: distinct_sort_key_fst comp_def case_prod_unfold)
  then show ?thesis by (simp only: canon.simps)
qed

lemma reads_exactlyI:
  assumes "plain_json d" "mapping_items d = Some kvs" "plain_json (PDict ws)"
    and "fst ` set kvs = set (map fst ws)"
    and "list_all (\<lambda>(k, w). canon (dget kvs k) = canon w) ws"
  shows "canon d = canon (PDict ws)"
proof -
  have "canon (dget kvs k) = canon (dget ws k)" if "k \<in> fst ` set ws" for k
  proof -
    from that obtain w where w: "(k, w) \<in> set ws" by force
    with assms(3) have "dget ws k = w" by (simp add: dget_def)
    with w assms(5) show ?thesis by (auto simp: list_all_iff)
  qed
  then show ?thesis
    using assms canon_PDict_eqI [of kvs ws] plain_mapping_items [OF assms(1,2)] by simp
qed

text \<open>The checks \<open>__post_init__\<close> makes of one field, and the end of every constructor.\<close>

definition check_text :: "(string \<Rightarrow> bool) \<Rightarrow> string \<Rightarrow> string \<Rightarrow> perr + unit" where
  "check_text p label s = rbind (bounded_text p label (PStr s)) (\<lambda>_. Inr ())"

definition check_digest :: "string \<Rightarrow> string \<Rightarrow> perr + unit" where
  "check_digest label s = rbind (digest_text label (PStr s)) (\<lambda>_. Inr ())"

definition check_money :: "string \<Rightarrow> int \<Rightarrow> perr + unit" where
  "check_money label i = rbind (money_micros label (PInt i)) (\<lambda>_. Inr ())"

definition check_utc :: "string \<Rightarrow> datetime \<Rightarrow> perr + unit" where
  "check_utc label d = rbind (canonical_utc label d) (\<lambda>_. Inr ())"

definition construct :: "('a \<Rightarrow> perr + unit) \<Rightarrow> 'a \<Rightarrow> perr + 'a" where
  "construct post_init x = rbind (post_init x) (\<lambda>_. Inr x)"

lemma check_field_ok_iffs [ok_simps]:
  "check_text p l s = Inr u \<longleftrightarrow> p s"
  "check_digest l s = Inr u \<longleftrightarrow> DIGEST_RE s"
  "check_money l i = Inr u \<longleftrightarrow> 0 \<le> i \<and> i \<le> MAX_MONEY_MICROS"
  "check_utc l d = Inr u \<longleftrightarrow> is_utc d"
  by (auto simp: check_text_def check_digest_def check_money_def check_utc_def ok_simps)

lemma construct_ok_iff [ok_simps]: "construct post x = Inr y \<longleftrightarrow> y = x \<and> post x = Inr ()"
  by (auto simp: construct_def rbind_ok_iff)

section \<open>Properties\<close>

text \<open>
  C18. \<open>canonical_json_bytes\<close> returns exactly when the value is a tree of JSON data of
  depth at most 64 without floats whose integers are printable and whose sorted compact
  JSON fits the size limit, and it then returns that JSON.  In particular the running
  budget, which charges a lower bound of every rendering before anything is rendered,
  never rejects a value whose encoding would have fitted.
\<close>

theorem canonical_json_bytes_exact:
  "canonical_json_bytes v = Inr bs \<longleftrightarrow>
     canonical_shape 0 v \<and> digits_ok (norm v) \<and> bs = encode_ascii (dumps (norm v))
     \<and> length bs \<le> MAX_CANONICAL_BYTES"
  by (auto simp: canonical_json_bytes_iff canonical_accepts_def)

text \<open>
  \<open>parse_canonical_json\<close> accepts exactly the bytes \<open>canonical_json_bytes\<close> produces for
  JSON data, and returns that data with sorted keys: one byte string per document, so
  padding, duplicate keys, reordered keys, floats and alternative escapes are all refused.
\<close>

lemma parse_canonical_json_exact:
  "parse_canonical_json (DataBytes bs) = Inr v \<longleftrightarrow>
     is_json v \<and> canon v = v \<and> canonical_json_bytes v = Inr bs"
  by (rule parse_canonical_json_iff)

end
