(* ===== verification/Provider_Records.thy ===== *)
theory Provider_Records
  imports Provider_Canonical
begin

text \<open>
  The provider-facing records of \<open>provider_contract.py\<close>: identity, capability slot and
  inventory, attempt assignment, permit and ledger binding, with the checks that join a
  permit to its assignment and an assignment to its slot.

  A dataclass is a record; \<open>*_post_init\<close> is its \<open>__post_init__\<close>, whose \<open>isinstance\<close>
  guards hold by typing; \<open>*_from_document\<close> reads the fields in the order the source
  does and ends with the constructor.  Each class is an interpretation of
  \<open>document_codec\<close>.
\<close>

section \<open>Provider identity\<close>

datatype ProviderIdentityKind = CATHEDRAL_SEED | SUBNET_HOTKEY

definition ProviderIdentityKind_table :: "(string \<times> ProviderIdentityKind) list" where
  "ProviderIdentityKind_table = [(''cathedral_seed'', CATHEDRAL_SEED), (''subnet_hotkey'', SUBNET_HOTKEY)]"

fun ProviderIdentityKind_value :: "ProviderIdentityKind \<Rightarrow> string" where
  "ProviderIdentityKind_value CATHEDRAL_SEED = ''cathedral_seed''"
| "ProviderIdentityKind_value SUBNET_HOTKEY = ''subnet_hotkey''"

record ProviderIdentity =
  pi_kind :: ProviderIdentityKind
  pi_provider_id :: string
  pi_subnet_hotkey :: "string option"

definition seed_hotkey_error :: perr where
  "seed_hotkey_error = contract_error ''a Cathedral seed must not claim a subnet hotkey''"

definition subnet_hotkey_error :: perr where
  "subnet_hotkey_error = contract_error ''a subnet provider_id must be its bound canonical subnet hotkey''"

definition ProviderIdentity_post_init :: "ProviderIdentity \<Rightarrow> perr + unit" where
  "ProviderIdentity_post_init p =
    checks [
      check_text ID_RE ''provider_id'' (pi_provider_id p),
      (case pi_kind p of
         CATHEDRAL_SEED \<Rightarrow> require (pi_subnet_hotkey p = None) seed_hotkey_error
       | SUBNET_HOTKEY \<Rightarrow>
           (case pi_subnet_hotkey p of
              None \<Rightarrow> Inl subnet_hotkey_error
            | Some h \<Rightarrow> require (HOTKEY_RE h \<and> pi_provider_id p = h) subnet_hotkey_error))]"

definition valid_ProviderIdentity :: "ProviderIdentity \<Rightarrow> bool" where
  "valid_ProviderIdentity p \<longleftrightarrow> ProviderIdentity_post_init p = Inr ()"

definition ProviderIdentity_to_document :: "ProviderIdentity \<Rightarrow> pyval" where
  "ProviderIdentity_to_document p = PDict
    [(''schema'', PStr ''cathedral_provider_identity_v1''),
     (''kind'', PStr (ProviderIdentityKind_value (pi_kind p))),
     (''provider_id'', PStr (pi_provider_id p)),
     (''subnet_hotkey'', opt_str (pi_subnet_hotkey p))]"

text \<open>
  \<open>from_document\<close> passes \<open>value["subnet_hotkey"]\<close> through unchecked; a value that is
  neither a string nor \<open>None\<close> is then refused by \<open>__post_init__\<close> with the message of the
  identity's kind.
\<close>

fun raw_hotkey :: "ProviderIdentityKind \<Rightarrow> pyval \<Rightarrow> perr + string option" where
  "raw_hotkey kind PNone = Inr None"
| "raw_hotkey kind (PStr s) = Inr (Some s)"
| "raw_hotkey CATHEDRAL_SEED _ = Inl seed_hotkey_error"
| "raw_hotkey SUBNET_HOTKEY _ = Inl subnet_hotkey_error"

definition ProviderIdentity_from_document :: "pyval \<Rightarrow> perr + ProviderIdentity" where
  "ProviderIdentity_from_document document =
    rbind (require_keys document ''cathedral_provider_identity_v1''
      [''schema'', ''kind'', ''provider_id'', ''subnet_hotkey''] ''provider identity'') (\<lambda>v.
    rbind (enum_value ProviderIdentityKind_table ''provider identity kind'' (dget v ''kind'')) (\<lambda>kind.
    rbind (bounded_text ID_RE ''provider_id'' (dget v ''provider_id'')) (\<lambda>provider_id.
    rbind (raw_hotkey kind (dget v ''subnet_hotkey'')) (\<lambda>hotkey.
    construct ProviderIdentity_post_init
      \<lparr>pi_kind = kind, pi_provider_id = provider_id, pi_subnet_hotkey = hotkey\<rparr>))))"

lemma raw_hotkey_ok_iff [ok_simps]: "raw_hotkey k v = Inr h \<longleftrightarrow> v = opt_str h"
  by (cases k; cases v; cases h) auto

lemma ProviderIdentityKind_table_iff [ok_simps]:
  "map_of ProviderIdentityKind_table s = Some k \<longleftrightarrow> s = ProviderIdentityKind_value k"
  by (cases k) (auto simp: ProviderIdentityKind_table_def)

interpretation provider_identity:
  record_codec ProviderIdentity_to_document ProviderIdentity_from_document valid_ProviderIdentity
proof
  show plain: "plain_json (ProviderIdentity_to_document x)" for x
    by (simp add: ProviderIdentity_to_document_def)
  then show "plain_json (ProviderIdentity_to_document x)" for x .
  fix x d
  show "ProviderIdentity_from_document (canon (ProviderIdentity_to_document x)) = Inr x" if "valid_ProviderIdentity x"
    using that unfolding ProviderIdentity_from_document_def ProviderIdentity_to_document_def
    by (cases x) (simp add: require_keys_stored valid_ProviderIdentity_def ProviderIdentity_post_init_def ok_simps)
  show "valid_ProviderIdentity x" if "ProviderIdentity_from_document d = Inr x"
    using that unfolding ProviderIdentity_from_document_def valid_ProviderIdentity_def ok_simps
    by (elim exE conjE) (simp)
  show "canon d = canon (ProviderIdentity_to_document x)" if "plain_json d" "ProviderIdentity_from_document d = Inr x"
    using that unfolding ProviderIdentity_from_document_def ProviderIdentity_to_document_def
    by (clarsimp simp: ok_simps) (rule reads_exactlyI, assumption, assumption, simp_all)
qed

section \<open>Capability slot\<close>

datatype SupplyClass = SEED_PREEMPTIBLE | SEED_NON_PREEMPTIBLE | SUBNET_MINER

fun SupplyClass_value :: "SupplyClass \<Rightarrow> string" where
  "SupplyClass_value SEED_PREEMPTIBLE = ''seed_preemptible''"
| "SupplyClass_value SEED_NON_PREEMPTIBLE = ''seed_non_preemptible''"
| "SupplyClass_value SUBNET_MINER = ''subnet_miner''"

definition SupplyClass_table :: "(string \<times> SupplyClass) list" where
  "SupplyClass_table =
    map (\<lambda>c. (SupplyClass_value c, c)) [SEED_PREEMPTIBLE, SEED_NON_PREEMPTIBLE, SUBNET_MINER]"

lemma SupplyClass_table_iff [ok_simps]:
  "map_of SupplyClass_table s = Some c \<longleftrightarrow> s = SupplyClass_value c"
  by (cases c) (auto simp: SupplyClass_table_def)

record CapabilitySlot =
  cs_provider :: ProviderIdentity
  cs_slot_id :: string
  cs_region :: string
  cs_zone :: string
  cs_execution_profile :: string
  cs_image_digest :: string
  cs_policy_version :: string
  cs_policy_digest :: string
  cs_supply_class :: SupplyClass
  cs_heartbeat_at :: datetime

definition CapabilitySlot_post_init :: "CapabilitySlot \<Rightarrow> perr + unit" where
  "CapabilitySlot_post_init s =
    checks [
      check_text ID_RE ''slot_id'' (cs_slot_id s),
      check_text ID_RE ''region'' (cs_region s),
      check_text ID_RE ''zone'' (cs_zone s),
      check_text PROFILE_RE ''execution_profile'' (cs_execution_profile s),
      check_text PROFILE_RE ''policy_version'' (cs_policy_version s),
      check_digest ''image_digest'' (cs_image_digest s),
      check_digest ''policy_digest'' (cs_policy_digest s),
      (if pi_kind (cs_provider s) = CATHEDRAL_SEED
       then require (cs_supply_class s \<noteq> SUBNET_MINER)
              (contract_error ''a Cathedral seed cannot advertise subnet supply'')
       else require (cs_supply_class s = SUBNET_MINER)
              (contract_error ''a subnet hotkey must advertise subnet supply'')),
      check_utc ''heartbeat_at'' (cs_heartbeat_at s)]"

text \<open>A slot that exists holds a provider identity that exists.\<close>

definition valid_CapabilitySlot :: "CapabilitySlot \<Rightarrow> bool" where
  "valid_CapabilitySlot s \<longleftrightarrow>
     valid_ProviderIdentity (cs_provider s) \<and> CapabilitySlot_post_init s = Inr ()"

definition CapabilitySlot_to_document :: "CapabilitySlot \<Rightarrow> pyval" where
  "CapabilitySlot_to_document s = PDict
    [(''schema'', PStr ''cathedral_provider_capability_slot_v1''),
     (''provider'', ProviderIdentity_to_document (cs_provider s)),
     (''slot_id'', PStr (cs_slot_id s)),
     (''region'', PStr (cs_region s)),
     (''zone'', PStr (cs_zone s)),
     (''execution_profile'', PStr (cs_execution_profile s)),
     (''image_digest'', PStr (cs_image_digest s)),
     (''policy_version'', PStr (cs_policy_version s)),
     (''policy_digest'', PStr (cs_policy_digest s)),
     (''supply_class'', PStr (SupplyClass_value (cs_supply_class s))),
     (''heartbeat_at'', PStr (format_utc (cs_heartbeat_at s)))]"

definition CapabilitySlot_from_document :: "pyval \<Rightarrow> perr + CapabilitySlot" where
  "CapabilitySlot_from_document document =
    rbind (require_keys document ''cathedral_provider_capability_slot_v1''
      [''schema'', ''provider'', ''slot_id'', ''region'', ''zone'', ''execution_profile'',
       ''image_digest'', ''policy_version'', ''policy_digest'', ''supply_class'', ''heartbeat_at'']
      ''capability slot'') (\<lambda>v.
    rbind (ProviderIdentity_from_document (dget v ''provider'')) (\<lambda>provider.
    rbind (bounded_text ID_RE ''slot_id'' (dget v ''slot_id'')) (\<lambda>slot_id.
    rbind (bounded_text ID_RE ''region'' (dget v ''region'')) (\<lambda>region.
    rbind (bounded_text ID_RE ''zone'' (dget v ''zone'')) (\<lambda>zone.
    rbind (bounded_text PROFILE_RE ''execution_profile'' (dget v ''execution_profile'')) (\<lambda>profile.
    rbind (digest_text ''image_digest'' (dget v ''image_digest'')) (\<lambda>image.
    rbind (bounded_text PROFILE_RE ''policy_version'' (dget v ''policy_version'')) (\<lambda>version.
    rbind (digest_text ''policy_digest'' (dget v ''policy_digest'')) (\<lambda>policy.
    rbind (enum_value SupplyClass_table ''supply_class'' (dget v ''supply_class'')) (\<lambda>supply.
    rbind (parse_utc ''heartbeat_at'' (dget v ''heartbeat_at'')) (\<lambda>heartbeat.
    construct CapabilitySlot_post_init
      \<lparr>cs_provider = provider, cs_slot_id = slot_id, cs_region = region, cs_zone = zone,
       cs_execution_profile = profile, cs_image_digest = image, cs_policy_version = version,
       cs_policy_digest = policy, cs_supply_class = supply, cs_heartbeat_at = heartbeat\<rparr>)))))))))))"

lemma mapping_items_plain_dget:
  "plain_json d \<Longrightarrow> mapping_items d = Some kvs \<Longrightarrow> plain_json (dget kvs k)"
  using plain_mapping_items [of d kvs] plain_dget [of kvs k] by simp

interpretation capability_slot:
  record_codec CapabilitySlot_to_document CapabilitySlot_from_document valid_CapabilitySlot
proof
  show plain: "plain_json (CapabilitySlot_to_document x)" for x
    by (simp add: CapabilitySlot_to_document_def)
  then show "plain_json (CapabilitySlot_to_document x)" for x .
  fix x d
  show "CapabilitySlot_from_document (canon (CapabilitySlot_to_document x)) = Inr x" if "valid_CapabilitySlot x"
    using that unfolding CapabilitySlot_from_document_def CapabilitySlot_to_document_def
    by (cases x) (simp add: require_keys_stored valid_CapabilitySlot_def CapabilitySlot_post_init_def ok_simps provider_identity.reads_stored)
  show "valid_CapabilitySlot x" if "CapabilitySlot_from_document d = Inr x"
    using that unfolding CapabilitySlot_from_document_def valid_CapabilitySlot_def ok_simps
    by (elim exE conjE) (drule provider_identity.only_valid, simp)
  show "canon d = canon (CapabilitySlot_to_document x)" if "plain_json d" "CapabilitySlot_from_document d = Inr x"
    using that unfolding CapabilitySlot_from_document_def CapabilitySlot_to_document_def
    by (clarsimp simp: ok_simps) (rule reads_exactlyI, assumption, assumption, simp_all add: provider_identity.reads_exactly [OF mapping_items_plain_dget])
qed

section \<open>Capability inventory\<close>

record CapabilityInventory =
  ci_inventory_id :: string
  ci_generated_at :: datetime
  ci_slots :: "CapabilitySlot list"

definition slot_identity :: "CapabilitySlot \<Rightarrow> string \<times> string" where
  "slot_identity s = (pi_provider_id (cs_provider s), cs_slot_id s)"

definition CapabilityInventory_post_init :: "CapabilityInventory \<Rightarrow> perr + unit" where
  "CapabilityInventory_post_init i =
    checks [
      check_text ID_RE ''inventory_id'' (ci_inventory_id i),
      check_utc ''generated_at'' (ci_generated_at i),
      require (length (ci_slots i) \<le> MAX_INVENTORY_SLOTS)
        (contract_error ''capability inventory slots are invalid''),
      require (card (set (map slot_identity (ci_slots i))) = length (ci_slots i))
        (contract_error ''capability inventory contains duplicate slots''),
      require (\<not> list_ex (\<lambda>s. dt_less (ci_generated_at i) (cs_heartbeat_at s)) (ci_slots i))
        (contract_error ''a slot heartbeat cannot be later than its inventory'')]"

definition valid_CapabilityInventory :: "CapabilityInventory \<Rightarrow> bool" where
  "valid_CapabilityInventory i \<longleftrightarrow>
     list_all valid_CapabilitySlot (ci_slots i) \<and> CapabilityInventory_post_init i = Inr ()"

definition CapabilityInventory_to_document :: "CapabilityInventory \<Rightarrow> pyval" where
  "CapabilityInventory_to_document i = PDict
    [(''schema'', PStr ''cathedral_provider_capability_inventory_v1''),
     (''inventory_id'', PStr (ci_inventory_id i)),
     (''generated_at'', PStr (format_utc (ci_generated_at i))),
     (''slots'', PList (map CapabilitySlot_to_document (ci_slots i)))]"

fun inventory_slots :: "pyval \<Rightarrow> perr + pyval list" where
  "inventory_slots (PList vs) =
     (if length vs > MAX_INVENTORY_SLOTS
      then Inl (contract_error ''capability inventory exceeds the slot limit'') else Inr vs)"
| "inventory_slots _ = Inl (contract_error ''capability inventory slots must be a list'')"

definition CapabilityInventory_from_document :: "pyval \<Rightarrow> perr + CapabilityInventory" where
  "CapabilityInventory_from_document document =
    rbind (require_keys document ''cathedral_provider_capability_inventory_v1''
      [''schema'', ''inventory_id'', ''generated_at'', ''slots''] ''capability inventory'') (\<lambda>v.
    rbind (inventory_slots (dget v ''slots'')) (\<lambda>raw_slots.
    rbind (bounded_text ID_RE ''inventory_id'' (dget v ''inventory_id'')) (\<lambda>inventory_id.
    rbind (parse_utc ''generated_at'' (dget v ''generated_at'')) (\<lambda>generated_at.
    rbind (rmap CapabilitySlot_from_document raw_slots) (\<lambda>slots.
    construct CapabilityInventory_post_init
      \<lparr>ci_inventory_id = inventory_id, ci_generated_at = generated_at, ci_slots = slots\<rparr>)))))"

lemma inventory_slots_ok_iff [ok_simps]:
  "inventory_slots v = Inr vs \<longleftrightarrow> v = PList vs \<and> length vs \<le> MAX_INVENTORY_SLOTS"
  by (cases v) auto

lemma mapping_items_plain_list:
  "plain_json d \<Longrightarrow> mapping_items d = Some kvs \<Longrightarrow> dget kvs k = PList vs \<Longrightarrow> list_all plain_json vs"
  using mapping_items_plain_dget [of d kvs k] by simp

interpretation capability_inventory:
  record_codec CapabilityInventory_to_document CapabilityInventory_from_document valid_CapabilityInventory
proof
  show plain: "plain_json (CapabilityInventory_to_document x)" for x
    by (simp add: CapabilityInventory_to_document_def)
  then show "plain_json (CapabilityInventory_to_document x)" for x .
  fix x d
  show "CapabilityInventory_from_document (canon (CapabilityInventory_to_document x)) = Inr x" if "valid_CapabilityInventory x"
    using that unfolding CapabilityInventory_from_document_def CapabilityInventory_to_document_def
    by (cases x) (simp add: require_keys_stored valid_CapabilityInventory_def CapabilityInventory_post_init_def ok_simps comp_def capability_slot.rmap_stored)
  show "valid_CapabilityInventory x" if "CapabilityInventory_from_document d = Inr x"
    using that unfolding CapabilityInventory_from_document_def valid_CapabilityInventory_def ok_simps
    by (elim exE conjE) (drule capability_slot.rmap_valid, simp)
  show "canon d = canon (CapabilityInventory_to_document x)" if "plain_json d" "CapabilityInventory_from_document d = Inr x"
    using that unfolding CapabilityInventory_from_document_def CapabilityInventory_to_document_def
    by (clarsimp simp: ok_simps) (rule reads_exactlyI, assumption, assumption, simp_all add: comp_def capability_slot.rmap_exact [OF mapping_items_plain_list])
qed

section \<open>Attempt assignment\<close>

record AttemptAssignment =
  aa_attempt_id :: string
  aa_provider :: ProviderIdentity
  aa_slot_id :: string
  aa_provider_nonce :: string
  aa_workload_manifest_digest :: string
  aa_policy_digest :: string
  aa_image_digest :: string

definition AttemptAssignment_post_init :: "AttemptAssignment \<Rightarrow> perr + unit" where
  "AttemptAssignment_post_init a =
    checks [
      check_text ID_RE ''attempt_id'' (aa_attempt_id a),
      check_text ID_RE ''slot_id'' (aa_slot_id a),
      check_text NONCE_RE ''provider_nonce'' (aa_provider_nonce a),
      check_digest ''workload_manifest_digest'' (aa_workload_manifest_digest a),
      check_digest ''policy_digest'' (aa_policy_digest a),
      check_digest ''image_digest'' (aa_image_digest a)]"

definition valid_AttemptAssignment :: "AttemptAssignment \<Rightarrow> bool" where
  "valid_AttemptAssignment a \<longleftrightarrow>
     valid_ProviderIdentity (aa_provider a) \<and> AttemptAssignment_post_init a = Inr ()"

definition AttemptAssignment_to_document :: "AttemptAssignment \<Rightarrow> pyval" where
  "AttemptAssignment_to_document a = PDict
    [(''schema'', PStr ''cathedral_attempt_assignment_v1''),
     (''attempt_id'', PStr (aa_attempt_id a)),
     (''provider'', ProviderIdentity_to_document (aa_provider a)),
     (''slot_id'', PStr (aa_slot_id a)),
     (''provider_nonce'', PStr (aa_provider_nonce a)),
     (''workload_manifest_digest'', PStr (aa_workload_manifest_digest a)),
     (''policy_digest'', PStr (aa_policy_digest a)),
     (''image_digest'', PStr (aa_image_digest a))]"

definition AttemptAssignment_digest :: "AttemptAssignment \<Rightarrow> perr + string" where
  "AttemptAssignment_digest a = canonical_sha256 (PObject (AttemptAssignment_to_document a))"

definition AttemptAssignment_from_document :: "pyval \<Rightarrow> perr + AttemptAssignment" where
  "AttemptAssignment_from_document document =
    rbind (require_keys document ''cathedral_attempt_assignment_v1''
      [''schema'', ''attempt_id'', ''provider'', ''slot_id'', ''provider_nonce'',
       ''workload_manifest_digest'', ''policy_digest'', ''image_digest'']
      ''attempt assignment'') (\<lambda>v.
    rbind (bounded_text ID_RE ''attempt_id'' (dget v ''attempt_id'')) (\<lambda>attempt_id.
    rbind (ProviderIdentity_from_document (dget v ''provider'')) (\<lambda>provider.
    rbind (bounded_text ID_RE ''slot_id'' (dget v ''slot_id'')) (\<lambda>slot_id.
    rbind (bounded_text NONCE_RE ''provider_nonce'' (dget v ''provider_nonce'')) (\<lambda>nonce.
    rbind (digest_text ''workload_manifest_digest'' (dget v ''workload_manifest_digest'')) (\<lambda>manifest.
    rbind (digest_text ''policy_digest'' (dget v ''policy_digest'')) (\<lambda>policy.
    rbind (digest_text ''image_digest'' (dget v ''image_digest'')) (\<lambda>image.
    construct AttemptAssignment_post_init
      \<lparr>aa_attempt_id = attempt_id, aa_provider = provider, aa_slot_id = slot_id,
       aa_provider_nonce = nonce, aa_workload_manifest_digest = manifest,
       aa_policy_digest = policy, aa_image_digest = image\<rparr>))))))))"

interpretation attempt_assignment:
  record_codec AttemptAssignment_to_document AttemptAssignment_from_document valid_AttemptAssignment
proof
  show plain: "plain_json (AttemptAssignment_to_document x)" for x
    by (simp add: AttemptAssignment_to_document_def)
  then show "plain_json (AttemptAssignment_to_document x)" for x .
  fix x d
  show "AttemptAssignment_from_document (canon (AttemptAssignment_to_document x)) = Inr x" if "valid_AttemptAssignment x"
    using that unfolding AttemptAssignment_from_document_def AttemptAssignment_to_document_def
    by (cases x) (simp add: require_keys_stored valid_AttemptAssignment_def AttemptAssignment_post_init_def ok_simps provider_identity.reads_stored)
  show "valid_AttemptAssignment x" if "AttemptAssignment_from_document d = Inr x"
    using that unfolding AttemptAssignment_from_document_def valid_AttemptAssignment_def ok_simps
    by (elim exE conjE) (drule provider_identity.only_valid, simp)
  show "canon d = canon (AttemptAssignment_to_document x)" if "plain_json d" "AttemptAssignment_from_document d = Inr x"
    using that unfolding AttemptAssignment_from_document_def AttemptAssignment_to_document_def
    by (clarsimp simp: ok_simps) (rule reads_exactlyI, assumption, assumption, simp_all add: provider_identity.reads_exactly [OF mapping_items_plain_dget])
qed

section \<open>Assignment permit\<close>

record AssignmentPermit =
  ap_assignment_digest :: string
  ap_sequence :: int
  ap_issued_at :: datetime
  ap_expires_at :: datetime
  ap_key_id :: string
  ap_authorization_digest :: string

definition AssignmentPermit_post_init :: "AssignmentPermit \<Rightarrow> perr + unit" where
  "AssignmentPermit_post_init p =
    checks [
      check_digest ''assignment_digest'' (ap_assignment_digest p),
      require (1 \<le> ap_sequence p) (contract_error ''permit sequence must be a positive integer''),
      check_utc ''issued_at'' (ap_issued_at p),
      check_utc ''expires_at'' (ap_expires_at p),
      require (\<not> dt_le (ap_expires_at p) (ap_issued_at p))
        (contract_error ''permit expiry must be later than issuance''),
      check_text ID_RE ''key_id'' (ap_key_id p),
      check_digest ''authorization_digest'' (ap_authorization_digest p)]"

definition valid_AssignmentPermit :: "AssignmentPermit \<Rightarrow> bool" where
  "valid_AssignmentPermit p \<longleftrightarrow> AssignmentPermit_post_init p = Inr ()"

definition AssignmentPermit_to_document :: "AssignmentPermit \<Rightarrow> pyval" where
  "AssignmentPermit_to_document p = PDict
    [(''schema'', PStr ''cathedral_assignment_permit_v1''),
     (''assignment_digest'', PStr (ap_assignment_digest p)),
     (''sequence'', PInt (ap_sequence p)),
     (''issued_at'', PStr (format_utc (ap_issued_at p))),
     (''expires_at'', PStr (format_utc (ap_expires_at p))),
     (''key_id'', PStr (ap_key_id p)),
     (''authorization_digest'', PStr (ap_authorization_digest p))]"

definition AssignmentPermit_digest :: "AssignmentPermit \<Rightarrow> perr + string" where
  "AssignmentPermit_digest p = canonical_sha256 (PObject (AssignmentPermit_to_document p))"

definition AssignmentPermit_from_document :: "pyval \<Rightarrow> perr + AssignmentPermit" where
  "AssignmentPermit_from_document document =
    rbind (require_keys document ''cathedral_assignment_permit_v1''
      [''schema'', ''assignment_digest'', ''sequence'', ''issued_at'', ''expires_at'', ''key_id'',
       ''authorization_digest''] ''assignment permit'') (\<lambda>v.
    rbind (plain_int ''permit sequence must be an integer'' (dget v ''sequence'')) (\<lambda>sequence.
    rbind (digest_text ''assignment_digest'' (dget v ''assignment_digest'')) (\<lambda>assignment.
    rbind (parse_utc ''issued_at'' (dget v ''issued_at'')) (\<lambda>issued.
    rbind (parse_utc ''expires_at'' (dget v ''expires_at'')) (\<lambda>expires.
    rbind (bounded_text ID_RE ''key_id'' (dget v ''key_id'')) (\<lambda>key_id.
    rbind (digest_text ''authorization_digest'' (dget v ''authorization_digest'')) (\<lambda>authorization.
    construct AssignmentPermit_post_init
      \<lparr>ap_assignment_digest = assignment, ap_sequence = sequence, ap_issued_at = issued,
       ap_expires_at = expires, ap_key_id = key_id, ap_authorization_digest = authorization\<rparr>)))))))"

interpretation assignment_permit:
  record_codec AssignmentPermit_to_document AssignmentPermit_from_document valid_AssignmentPermit
proof
  show plain: "plain_json (AssignmentPermit_to_document x)" for x
    by (simp add: AssignmentPermit_to_document_def)
  then show "plain_json (AssignmentPermit_to_document x)" for x .
  fix x d
  show "AssignmentPermit_from_document (canon (AssignmentPermit_to_document x)) = Inr x" if "valid_AssignmentPermit x"
    using that unfolding AssignmentPermit_from_document_def AssignmentPermit_to_document_def
    by (cases x) (simp add: require_keys_stored valid_AssignmentPermit_def AssignmentPermit_post_init_def ok_simps)
  show "valid_AssignmentPermit x" if "AssignmentPermit_from_document d = Inr x"
    using that unfolding AssignmentPermit_from_document_def valid_AssignmentPermit_def ok_simps
    by (elim exE conjE) (simp)
  show "canon d = canon (AssignmentPermit_to_document x)" if "plain_json d" "AssignmentPermit_from_document d = Inr x"
    using that unfolding AssignmentPermit_from_document_def AssignmentPermit_to_document_def
    by (clarsimp simp: ok_simps) (rule reads_exactlyI, assumption, assumption, simp_all)
qed

definition validate_assignment_permit :: "AttemptAssignment \<Rightarrow> AssignmentPermit \<Rightarrow> datetime \<Rightarrow> perr + unit" where
  "validate_assignment_permit assignment permit observed_at =
    checks [
      check_utc ''observed_at'' observed_at,
      rbind (AttemptAssignment_digest assignment) (\<lambda>digest.
        require (ap_assignment_digest permit = digest)
          (ProviderContractError ''permit authorizes a different assignment'' PERMIT_ASSIGNMENT_MISMATCH)),
      require (\<not> dt_less observed_at (ap_issued_at permit))
        (ProviderContractError ''permit is not yet valid'' PERMIT_NOT_YET_VALID),
      require (\<not> dt_le (ap_expires_at permit) observed_at)
        (ProviderContractError ''permit has expired'' PERMIT_EXPIRED)]"

definition validate_permit_renewal :: "AssignmentPermit \<Rightarrow> AssignmentPermit \<Rightarrow> datetime \<Rightarrow> perr + unit" where
  "validate_permit_renewal current candidate observed_at =
    checks [
      check_utc ''observed_at'' observed_at,
      require (ap_assignment_digest candidate = ap_assignment_digest current)
        (ProviderContractError ''permit renewal changes the assignment digest'' PERMIT_ASSIGNMENT_MISMATCH),
      require (ap_sequence candidate \<noteq> ap_sequence current)
        (ProviderContractError ''permit sequence replayed'' PERMIT_REPLAY),
      require (ap_sequence candidate = ap_sequence current + 1)
        (ProviderContractError ''permit renewal must use the next sequence'' PERMIT_SEQUENCE),
      require (\<not> dt_le (ap_issued_at candidate) (ap_issued_at current))
        (ProviderContractError ''permit renewal issuance did not advance'' PERMIT_SEQUENCE),
      require (\<not> dt_less observed_at (ap_issued_at candidate))
        (ProviderContractError ''renewed permit is not yet valid'' PERMIT_NOT_YET_VALID),
      require (\<not> dt_le (ap_expires_at candidate) observed_at)
        (ProviderContractError ''renewed permit has expired'' PERMIT_EXPIRED)]"

definition validate_assignment_slot :: "AttemptAssignment \<Rightarrow> CapabilitySlot \<Rightarrow> perr + unit" where
  "validate_assignment_slot assignment slot =
    require
      ((aa_provider assignment, aa_slot_id assignment, aa_image_digest assignment, aa_policy_digest assignment)
        = (cs_provider slot, cs_slot_id slot, cs_image_digest slot, cs_policy_digest slot))
      (contract_error ''assignment does not match the advertised provider slot'')"

section \<open>Assignment ledger binding\<close>

record AssignmentLedgerBinding =
  ab_binding_id :: string
  ab_assignment_digest :: string
  ab_customer_id :: string
  ab_worker_id :: string
  ab_attempt_id :: string
  ab_attempt_number :: int
  ab_retry_parent_attempt_id :: "string option"
  ab_reservation_id :: string
  ab_request_digest :: string
  ab_reserved_micros :: int
  ab_created_at :: datetime

definition AssignmentLedgerBinding_post_init :: "AssignmentLedgerBinding \<Rightarrow> perr + unit" where
  "AssignmentLedgerBinding_post_init b =
    checks [
      check_text ID_RE ''binding_id'' (ab_binding_id b),
      check_text ID_RE ''customer_id'' (ab_customer_id b),
      check_text ID_RE ''worker_id'' (ab_worker_id b),
      check_text ID_RE ''attempt_id'' (ab_attempt_id b),
      check_text ID_RE ''reservation_id'' (ab_reservation_id b),
      check_digest ''assignment_digest'' (ab_assignment_digest b),
      check_digest ''request_digest'' (ab_request_digest b),
      require (1 \<le> ab_attempt_number b) (contract_error ''attempt_number must be a positive integer''),
      (if ab_attempt_number b = 1
       then require (ab_retry_parent_attempt_id b = None)
              (contract_error ''attempt 1 must not name a retry parent'')
       else case ab_retry_parent_attempt_id b of
         None \<Rightarrow> Inl (contract_error ''a retry attempt must name its immediate parent'')
       | Some parent \<Rightarrow>
           checks [
             check_text ID_RE ''retry_parent_attempt_id'' parent,
             require (parent \<noteq> ab_attempt_id b)
               (contract_error ''a retry attempt cannot parent itself'')]),
      check_money ''reserved_micros'' (ab_reserved_micros b),
      check_utc ''created_at'' (ab_created_at b)]"

definition valid_AssignmentLedgerBinding :: "AssignmentLedgerBinding \<Rightarrow> bool" where
  "valid_AssignmentLedgerBinding b \<longleftrightarrow> AssignmentLedgerBinding_post_init b = Inr ()"

definition AssignmentLedgerBinding_to_document :: "AssignmentLedgerBinding \<Rightarrow> pyval" where
  "AssignmentLedgerBinding_to_document b = PDict
    [(''schema'', PStr ''cathedral_assignment_ledger_binding_v1''),
     (''binding_id'', PStr (ab_binding_id b)),
     (''assignment_digest'', PStr (ab_assignment_digest b)),
     (''customer_id'', PStr (ab_customer_id b)),
     (''worker_id'', PStr (ab_worker_id b)),
     (''attempt_id'', PStr (ab_attempt_id b)),
     (''attempt_number'', PInt (ab_attempt_number b)),
     (''retry_parent_attempt_id'', opt_str (ab_retry_parent_attempt_id b)),
     (''reservation_id'', PStr (ab_reservation_id b)),
     (''request_digest'', PStr (ab_request_digest b)),
     (''reserved_micros'', PInt (ab_reserved_micros b)),
     (''created_at'', PStr (format_utc (ab_created_at b)))]"

definition AssignmentLedgerBinding_from_document :: "pyval \<Rightarrow> perr + AssignmentLedgerBinding" where
  "AssignmentLedgerBinding_from_document document =
    rbind (require_keys document ''cathedral_assignment_ledger_binding_v1''
      [''schema'', ''binding_id'', ''assignment_digest'', ''customer_id'', ''worker_id'', ''attempt_id'',
       ''attempt_number'', ''retry_parent_attempt_id'', ''reservation_id'', ''request_digest'',
       ''reserved_micros'', ''created_at''] ''assignment ledger binding'') (\<lambda>v.
    rbind (plain_int ''attempt_number must be an integer'' (dget v ''attempt_number'')) (\<lambda>number.
    rbind (optional_field (bounded_text ID_RE ''retry_parent_attempt_id'')
      (dget v ''retry_parent_attempt_id'')) (\<lambda>parent.
    rbind (bounded_text ID_RE ''binding_id'' (dget v ''binding_id'')) (\<lambda>binding_id.
    rbind (digest_text ''assignment_digest'' (dget v ''assignment_digest'')) (\<lambda>assignment.
    rbind (bounded_text ID_RE ''customer_id'' (dget v ''customer_id'')) (\<lambda>customer_id.
    rbind (bounded_text ID_RE ''worker_id'' (dget v ''worker_id'')) (\<lambda>worker_id.
    rbind (bounded_text ID_RE ''attempt_id'' (dget v ''attempt_id'')) (\<lambda>attempt_id.
    rbind (bounded_text ID_RE ''reservation_id'' (dget v ''reservation_id'')) (\<lambda>reservation_id.
    rbind (digest_text ''request_digest'' (dget v ''request_digest'')) (\<lambda>request.
    rbind (money_micros ''reserved_micros'' (dget v ''reserved_micros'')) (\<lambda>reserved.
    rbind (parse_utc ''created_at'' (dget v ''created_at'')) (\<lambda>created.
    construct AssignmentLedgerBinding_post_init
      \<lparr>ab_binding_id = binding_id, ab_assignment_digest = assignment, ab_customer_id = customer_id,
       ab_worker_id = worker_id, ab_attempt_id = attempt_id, ab_attempt_number = number,
       ab_retry_parent_attempt_id = parent, ab_reservation_id = reservation_id,
       ab_request_digest = request, ab_reserved_micros = reserved, ab_created_at = created\<rparr>))))))))))))"

lemma optional_text_ok_iff [ok_simps]:
  "optional_field (bounded_text p l) v = Inr so \<longleftrightarrow> v = opt_str so \<and> pred_option p so"
  by (cases so) (auto simp: ok_simps)

lemma optional_digest_ok_iff [ok_simps]:
  "optional_field (digest_text l) v = Inr so \<longleftrightarrow> v = opt_str so \<and> pred_option DIGEST_RE so"
  by (cases so) (auto simp: ok_simps)

interpretation ledger_binding:
  record_codec AssignmentLedgerBinding_to_document AssignmentLedgerBinding_from_document valid_AssignmentLedgerBinding
proof
  show plain: "plain_json (AssignmentLedgerBinding_to_document x)" for x
    by (simp add: AssignmentLedgerBinding_to_document_def)
  then show "plain_json (AssignmentLedgerBinding_to_document x)" for x .
  fix x d
  show "AssignmentLedgerBinding_from_document (canon (AssignmentLedgerBinding_to_document x)) = Inr x" if "valid_AssignmentLedgerBinding x"
    using that unfolding AssignmentLedgerBinding_from_document_def AssignmentLedgerBinding_to_document_def
    by (cases x) (simp add: require_keys_stored valid_AssignmentLedgerBinding_def AssignmentLedgerBinding_post_init_def ok_simps split: option.splits if_splits)
  show "valid_AssignmentLedgerBinding x" if "AssignmentLedgerBinding_from_document d = Inr x"
    using that unfolding AssignmentLedgerBinding_from_document_def valid_AssignmentLedgerBinding_def ok_simps
    by (elim exE conjE) (simp)
  show "canon d = canon (AssignmentLedgerBinding_to_document x)" if "plain_json d" "AssignmentLedgerBinding_from_document d = Inr x"
    using that unfolding AssignmentLedgerBinding_from_document_def AssignmentLedgerBinding_to_document_def
    by (clarsimp simp: ok_simps) (rule reads_exactlyI, assumption, assumption, simp_all)
qed

end
