(* ===== verification/Provider_Attempt.thy ===== *)
theory Provider_Attempt
  imports Provider_Records
begin

text \<open>
  The attempt state machine of \<open>provider_contract.py\<close> and the facts recorded about an
  attempt: interruption, cleanup, result and transition events, with the checks that bind
  them to the assignment and a terminal transition to its cleanup.
\<close>

section \<open>Attempt states\<close>

datatype AttemptState =
    DISPATCH_PENDING
  | SLOT_CLAIMED
  | ASSIGNMENT_SENT
  | ACKNOWLEDGED
  | ATTESTING
  | RUNNING
  | RESULT_RECEIVED
  | EVIDENCE_VERIFIED
  | EVIDENCE_REJECTED
  | SUCCESS_CLEANUP_PENDING
  | FAILURE_CLEANUP_PENDING
  | CANCEL_CLEANUP_PENDING
  | INTERRUPT_CLEANUP_PENDING
  | SUCCEEDED
  | FAILED
  | CANCELLED
  | INTERRUPTED

fun AttemptState_value :: "AttemptState \<Rightarrow> string" where
  "AttemptState_value DISPATCH_PENDING = ''DISPATCH_PENDING''"
| "AttemptState_value SLOT_CLAIMED = ''SLOT_CLAIMED''"
| "AttemptState_value ASSIGNMENT_SENT = ''ASSIGNMENT_SENT''"
| "AttemptState_value ACKNOWLEDGED = ''ACKNOWLEDGED''"
| "AttemptState_value ATTESTING = ''ATTESTING''"
| "AttemptState_value RUNNING = ''RUNNING''"
| "AttemptState_value RESULT_RECEIVED = ''RESULT_RECEIVED''"
| "AttemptState_value EVIDENCE_VERIFIED = ''EVIDENCE_VERIFIED''"
| "AttemptState_value EVIDENCE_REJECTED = ''EVIDENCE_REJECTED''"
| "AttemptState_value SUCCESS_CLEANUP_PENDING = ''SUCCESS_CLEANUP_PENDING''"
| "AttemptState_value FAILURE_CLEANUP_PENDING = ''FAILURE_CLEANUP_PENDING''"
| "AttemptState_value CANCEL_CLEANUP_PENDING = ''CANCEL_CLEANUP_PENDING''"
| "AttemptState_value INTERRUPT_CLEANUP_PENDING = ''INTERRUPT_CLEANUP_PENDING''"
| "AttemptState_value SUCCEEDED = ''SUCCEEDED''"
| "AttemptState_value FAILED = ''FAILED''"
| "AttemptState_value CANCELLED = ''CANCELLED''"
| "AttemptState_value INTERRUPTED = ''INTERRUPTED''"

definition AttemptState_table :: "(string \<times> AttemptState) list" where
  "AttemptState_table =
    map (\<lambda>c. (AttemptState_value c, c)) [DISPATCH_PENDING, SLOT_CLAIMED, ASSIGNMENT_SENT, ACKNOWLEDGED, ATTESTING, RUNNING, RESULT_RECEIVED, EVIDENCE_VERIFIED, EVIDENCE_REJECTED, SUCCESS_CLEANUP_PENDING, FAILURE_CLEANUP_PENDING, CANCEL_CLEANUP_PENDING, INTERRUPT_CLEANUP_PENDING, SUCCEEDED, FAILED, CANCELLED, INTERRUPTED]"

lemma AttemptState_table_iff [ok_simps]:
  "map_of AttemptState_table s = Some c \<longleftrightarrow> s = AttemptState_value c"
  by (cases c) (auto simp: AttemptState_table_def)

definition ABORTABLE_BEFORE_RESULT :: "AttemptState list" where
  "ABORTABLE_BEFORE_RESULT =
    [DISPATCH_PENDING, SLOT_CLAIMED, ASSIGNMENT_SENT, ACKNOWLEDGED, ATTESTING, RUNNING,
     RESULT_RECEIVED, EVIDENCE_VERIFIED, EVIDENCE_REJECTED, SUCCESS_CLEANUP_PENDING]"

fun base_transitions :: "AttemptState \<Rightarrow> AttemptState list" where
  "base_transitions DISPATCH_PENDING = [SLOT_CLAIMED]"
| "base_transitions SLOT_CLAIMED = [ASSIGNMENT_SENT]"
| "base_transitions ASSIGNMENT_SENT = [ACKNOWLEDGED]"
| "base_transitions ACKNOWLEDGED = [ATTESTING]"
| "base_transitions ATTESTING = [RUNNING]"
| "base_transitions RUNNING = [RESULT_RECEIVED]"
| "base_transitions RESULT_RECEIVED = [EVIDENCE_VERIFIED, EVIDENCE_REJECTED]"
| "base_transitions EVIDENCE_VERIFIED = [SUCCESS_CLEANUP_PENDING]"
| "base_transitions EVIDENCE_REJECTED = [FAILURE_CLEANUP_PENDING]"
| "base_transitions SUCCESS_CLEANUP_PENDING = [SUCCEEDED]"
| "base_transitions FAILURE_CLEANUP_PENDING = [FAILED]"
| "base_transitions CANCEL_CLEANUP_PENDING = [CANCELLED]"
| "base_transitions INTERRUPT_CLEANUP_PENDING = [INTERRUPTED]"
| "base_transitions SUCCEEDED = []"
| "base_transitions FAILED = []"
| "base_transitions CANCELLED = []"
| "base_transitions INTERRUPTED = []"

text \<open>The table after the loop over the abortable states.\<close>

definition ALLOWED_ATTEMPT_TRANSITIONS :: "AttemptState \<Rightarrow> AttemptState list" where
  "ALLOWED_ATTEMPT_TRANSITIONS s =
    (if s \<in> set ABORTABLE_BEFORE_RESULT
     then base_transitions s
       @ [FAILURE_CLEANUP_PENDING, CANCEL_CLEANUP_PENDING, INTERRUPT_CLEANUP_PENDING]
     else base_transitions s)"

definition TERMINAL_ATTEMPT_STATES :: "AttemptState list" where
  "TERMINAL_ATTEMPT_STATES = [SUCCEEDED, FAILED, CANCELLED, INTERRUPTED]"

datatype CleanupPath =
    PATH_SUCCESS
  | PATH_FAILURE
  | PATH_CANCEL
  | PATH_INTERRUPT

fun CleanupPath_value :: "CleanupPath \<Rightarrow> string" where
  "CleanupPath_value PATH_SUCCESS = ''success''"
| "CleanupPath_value PATH_FAILURE = ''failure''"
| "CleanupPath_value PATH_CANCEL = ''cancel''"
| "CleanupPath_value PATH_INTERRUPT = ''interrupt''"

definition CleanupPath_table :: "(string \<times> CleanupPath) list" where
  "CleanupPath_table =
    map (\<lambda>c. (CleanupPath_value c, c)) [PATH_SUCCESS, PATH_FAILURE, PATH_CANCEL, PATH_INTERRUPT]"

lemma CleanupPath_table_iff [ok_simps]:
  "map_of CleanupPath_table s = Some c \<longleftrightarrow> s = CleanupPath_value c"
  by (cases c) (auto simp: CleanupPath_table_def)

datatype ProviderAbsenceStatus =
    PROVEN_ABSENT
  | PRESENT
  | NOT_PROVEN

fun ProviderAbsenceStatus_value :: "ProviderAbsenceStatus \<Rightarrow> string" where
  "ProviderAbsenceStatus_value PROVEN_ABSENT = ''PROVEN_ABSENT''"
| "ProviderAbsenceStatus_value PRESENT = ''PRESENT''"
| "ProviderAbsenceStatus_value NOT_PROVEN = ''NOT_PROVEN''"

definition ProviderAbsenceStatus_table :: "(string \<times> ProviderAbsenceStatus) list" where
  "ProviderAbsenceStatus_table =
    map (\<lambda>c. (ProviderAbsenceStatus_value c, c)) [PROVEN_ABSENT, PRESENT, NOT_PROVEN]"

lemma ProviderAbsenceStatus_table_iff [ok_simps]:
  "map_of ProviderAbsenceStatus_table s = Some c \<longleftrightarrow> s = ProviderAbsenceStatus_value c"
  by (cases c) (auto simp: ProviderAbsenceStatus_table_def)

datatype TerminalBasis =
    PROVIDER_ABSENCE
  | CUSTOMER_CLEANUP_DEADLINE

fun TerminalBasis_value :: "TerminalBasis \<Rightarrow> string" where
  "TerminalBasis_value PROVIDER_ABSENCE = ''provider_absence''"
| "TerminalBasis_value CUSTOMER_CLEANUP_DEADLINE = ''customer_cleanup_deadline''"

definition TerminalBasis_table :: "(string \<times> TerminalBasis) list" where
  "TerminalBasis_table =
    map (\<lambda>c. (TerminalBasis_value c, c)) [PROVIDER_ABSENCE, CUSTOMER_CLEANUP_DEADLINE]"

lemma TerminalBasis_table_iff [ok_simps]:
  "map_of TerminalBasis_table s = Some c \<longleftrightarrow> s = TerminalBasis_value c"
  by (cases c) (auto simp: TerminalBasis_table_def)

datatype InterruptionKind =
    PREEMPTION_NOTICE
  | HEARTBEAT_TIMEOUT
  | PROVIDER_REPORTED
  | OPERATOR_REQUESTED

fun InterruptionKind_value :: "InterruptionKind \<Rightarrow> string" where
  "InterruptionKind_value PREEMPTION_NOTICE = ''preemption_notice''"
| "InterruptionKind_value HEARTBEAT_TIMEOUT = ''heartbeat_timeout''"
| "InterruptionKind_value PROVIDER_REPORTED = ''provider_reported''"
| "InterruptionKind_value OPERATOR_REQUESTED = ''operator_requested''"

definition InterruptionKind_table :: "(string \<times> InterruptionKind) list" where
  "InterruptionKind_table =
    map (\<lambda>c. (InterruptionKind_value c, c)) [PREEMPTION_NOTICE, HEARTBEAT_TIMEOUT, PROVIDER_REPORTED, OPERATOR_REQUESTED]"

lemma InterruptionKind_table_iff [ok_simps]:
  "map_of InterruptionKind_table s = Some c \<longleftrightarrow> s = InterruptionKind_value c"
  by (cases c) (auto simp: InterruptionKind_table_def)

definition require_attempt_transition :: "AttemptState \<Rightarrow> AttemptState \<Rightarrow> perr + unit" where
  "require_attempt_transition current target =
    require (target \<in> set (ALLOWED_ATTEMPT_TRANSITIONS current))
      (contract_error (''illegal attempt transition '' @ AttemptState_value current @ '' -> ''
         @ AttemptState_value target))"

section \<open>Interruption outcome\<close>

record InterruptionOutcome =
  io_attempt_id :: string
  io_assignment_digest :: string
  io_provider :: ProviderIdentity
  io_slot_id :: string
  io_kind :: InterruptionKind
  io_source_event_digest :: string
  io_observed_at :: datetime

definition InterruptionOutcome_post_init :: "InterruptionOutcome \<Rightarrow> perr + unit" where
  "InterruptionOutcome_post_init o' =
    checks [
      check_text ID_RE ''attempt_id'' (io_attempt_id o'),
      check_digest ''assignment_digest'' (io_assignment_digest o'),
      check_text ID_RE ''slot_id'' (io_slot_id o'),
      check_digest ''source_event_digest'' (io_source_event_digest o'),
      check_utc ''observed_at'' (io_observed_at o')]"

definition valid_InterruptionOutcome :: "InterruptionOutcome \<Rightarrow> bool" where
  "valid_InterruptionOutcome o' \<longleftrightarrow>
     valid_ProviderIdentity (io_provider o') \<and> InterruptionOutcome_post_init o' = Inr ()"

definition InterruptionOutcome_to_document :: "InterruptionOutcome \<Rightarrow> pyval" where
  "InterruptionOutcome_to_document o' = PDict
    [(''schema'', PStr ''cathedral_interruption_outcome_v1''),
     (''attempt_id'', PStr (io_attempt_id o')),
     (''assignment_digest'', PStr (io_assignment_digest o')),
     (''provider'', ProviderIdentity_to_document (io_provider o')),
     (''slot_id'', PStr (io_slot_id o')),
     (''kind'', PStr (InterruptionKind_value (io_kind o'))),
     (''source_event_digest'', PStr (io_source_event_digest o')),
     (''observed_at'', PStr (format_utc (io_observed_at o')))]"

definition InterruptionOutcome_digest :: "InterruptionOutcome \<Rightarrow> perr + string" where
  "InterruptionOutcome_digest o' = canonical_sha256 (PObject (InterruptionOutcome_to_document o'))"

definition InterruptionOutcome_from_document :: "pyval \<Rightarrow> perr + InterruptionOutcome" where
  "InterruptionOutcome_from_document document =
    rbind (require_keys document ''cathedral_interruption_outcome_v1''
      [''schema'', ''attempt_id'', ''assignment_digest'', ''provider'', ''slot_id'', ''kind'',
       ''source_event_digest'', ''observed_at''] ''interruption outcome'') (\<lambda>v.
    rbind (bounded_text ID_RE ''attempt_id'' (dget v ''attempt_id'')) (\<lambda>attempt_id.
    rbind (digest_text ''assignment_digest'' (dget v ''assignment_digest'')) (\<lambda>assignment.
    rbind (ProviderIdentity_from_document (dget v ''provider'')) (\<lambda>provider.
    rbind (bounded_text ID_RE ''slot_id'' (dget v ''slot_id'')) (\<lambda>slot_id.
    rbind (enum_value InterruptionKind_table ''interruption kind'' (dget v ''kind'')) (\<lambda>kind.
    rbind (digest_text ''source_event_digest'' (dget v ''source_event_digest'')) (\<lambda>source.
    rbind (parse_utc ''observed_at'' (dget v ''observed_at'')) (\<lambda>observed.
    construct InterruptionOutcome_post_init
      \<lparr>io_attempt_id = attempt_id, io_assignment_digest = assignment, io_provider = provider,
       io_slot_id = slot_id, io_kind = kind, io_source_event_digest = source,
       io_observed_at = observed\<rparr>))))))))"

interpretation interruption_outcome:
  record_codec InterruptionOutcome_to_document InterruptionOutcome_from_document valid_InterruptionOutcome
proof
  show plain: "plain_json (InterruptionOutcome_to_document x)" for x
    by (simp add: InterruptionOutcome_to_document_def)
  then show "plain_json (InterruptionOutcome_to_document x)" for x .
  fix x d
  show "InterruptionOutcome_from_document (canon (InterruptionOutcome_to_document x)) = Inr x" if "valid_InterruptionOutcome x"
    using that unfolding InterruptionOutcome_from_document_def InterruptionOutcome_to_document_def
    by (cases x) (simp add: require_keys_stored valid_InterruptionOutcome_def InterruptionOutcome_post_init_def ok_simps provider_identity.reads_stored)
  show "valid_InterruptionOutcome x" if "InterruptionOutcome_from_document d = Inr x"
    using that unfolding InterruptionOutcome_from_document_def valid_InterruptionOutcome_def ok_simps
    by (elim exE conjE) (drule provider_identity.only_valid, simp)
  show "canon d = canon (InterruptionOutcome_to_document x)" if "plain_json d" "InterruptionOutcome_from_document d = Inr x"
    using that unfolding InterruptionOutcome_from_document_def InterruptionOutcome_to_document_def
    by (clarsimp simp: ok_simps) (rule reads_exactlyI, assumption, assumption, simp_all add: provider_identity.reads_exactly [OF mapping_items_plain_dget])
qed

section \<open>Cleanup outcome\<close>

record CleanupOutcome =
  co_attempt_id :: string
  co_assignment_digest :: string
  co_provider :: ProviderIdentity
  co_slot_id :: string
  co_path :: CleanupPath
  co_absence_status :: ProviderAbsenceStatus
  co_requested_at :: datetime
  co_observed_at :: datetime
  co_observation_digest :: "string option"
  co_customer_cleanup_deadline_at :: "datetime option"

definition CleanupOutcome_post_init :: "CleanupOutcome \<Rightarrow> perr + unit" where
  "CleanupOutcome_post_init c =
    checks [
      check_text ID_RE ''attempt_id'' (co_attempt_id c),
      check_digest ''assignment_digest'' (co_assignment_digest c),
      check_text ID_RE ''slot_id'' (co_slot_id c),
      check_utc ''requested_at'' (co_requested_at c),
      check_utc ''observed_at'' (co_observed_at c),
      require (\<not> dt_less (co_observed_at c) (co_requested_at c))
        (contract_error ''cleanup observation precedes its request''),
      (if co_absence_status c = PROVEN_ABSENT \<or> co_absence_status c = PRESENT
       then require (co_observation_digest c \<noteq> None)
              (contract_error ''proven absence or presence requires an observation digest'')
       else Inr ()),
      (case co_observation_digest c of None \<Rightarrow> Inr () | Some d \<Rightarrow> check_digest ''observation_digest'' d),
      (case co_customer_cleanup_deadline_at c of
         None \<Rightarrow> Inr ()
       | Some t \<Rightarrow>
           checks [
             check_utc ''customer_cleanup_deadline_at'' t,
             require (\<not> dt_less t (co_requested_at c))
               (contract_error ''customer cleanup deadline precedes cleanup request'')])]"

definition valid_CleanupOutcome :: "CleanupOutcome \<Rightarrow> bool" where
  "valid_CleanupOutcome c \<longleftrightarrow>
     valid_ProviderIdentity (co_provider c) \<and> CleanupOutcome_post_init c = Inr ()"

fun opt_utc :: "datetime option \<Rightarrow> pyval" where
  "opt_utc None = PNone"
| "opt_utc (Some t) = PStr (format_utc t)"

definition CleanupOutcome_to_document :: "CleanupOutcome \<Rightarrow> pyval" where
  "CleanupOutcome_to_document c = PDict
    [(''schema'', PStr ''cathedral_cleanup_outcome_v1''),
     (''attempt_id'', PStr (co_attempt_id c)),
     (''assignment_digest'', PStr (co_assignment_digest c)),
     (''provider'', ProviderIdentity_to_document (co_provider c)),
     (''slot_id'', PStr (co_slot_id c)),
     (''path'', PStr (CleanupPath_value (co_path c))),
     (''absence_status'', PStr (ProviderAbsenceStatus_value (co_absence_status c))),
     (''requested_at'', PStr (format_utc (co_requested_at c))),
     (''observed_at'', PStr (format_utc (co_observed_at c))),
     (''observation_digest'', opt_str (co_observation_digest c)),
     (''customer_cleanup_deadline_at'', opt_utc (co_customer_cleanup_deadline_at c))]"

definition CleanupOutcome_digest :: "CleanupOutcome \<Rightarrow> perr + string" where
  "CleanupOutcome_digest c = canonical_sha256 (PObject (CleanupOutcome_to_document c))"

definition CleanupOutcome_from_document :: "pyval \<Rightarrow> perr + CleanupOutcome" where
  "CleanupOutcome_from_document document =
    rbind (require_keys document ''cathedral_cleanup_outcome_v1''
      [''schema'', ''attempt_id'', ''assignment_digest'', ''provider'', ''slot_id'', ''path'',
       ''absence_status'', ''requested_at'', ''observed_at'', ''observation_digest'',
       ''customer_cleanup_deadline_at''] ''cleanup outcome'') (\<lambda>v.
    rbind (optional_field (digest_text ''observation_digest'') (dget v ''observation_digest'')) (\<lambda>observation.
    rbind (optional_field (parse_utc ''customer_cleanup_deadline_at'')
      (dget v ''customer_cleanup_deadline_at'')) (\<lambda>deadline.
    rbind (bounded_text ID_RE ''attempt_id'' (dget v ''attempt_id'')) (\<lambda>attempt_id.
    rbind (digest_text ''assignment_digest'' (dget v ''assignment_digest'')) (\<lambda>assignment.
    rbind (ProviderIdentity_from_document (dget v ''provider'')) (\<lambda>provider.
    rbind (bounded_text ID_RE ''slot_id'' (dget v ''slot_id'')) (\<lambda>slot_id.
    rbind (enum_value CleanupPath_table ''cleanup path'' (dget v ''path'')) (\<lambda>path.
    rbind (enum_value ProviderAbsenceStatus_table ''provider absence status'' (dget v ''absence_status'')) (\<lambda>status.
    rbind (parse_utc ''requested_at'' (dget v ''requested_at'')) (\<lambda>requested.
    rbind (parse_utc ''observed_at'' (dget v ''observed_at'')) (\<lambda>observed.
    construct CleanupOutcome_post_init
      \<lparr>co_attempt_id = attempt_id, co_assignment_digest = assignment, co_provider = provider,
       co_slot_id = slot_id, co_path = path, co_absence_status = status,
       co_requested_at = requested, co_observed_at = observed,
       co_observation_digest = observation, co_customer_cleanup_deadline_at = deadline\<rparr>)))))))))))"

lemma optional_utc_ok_iff [ok_simps]:
  "optional_field (parse_utc l) v = Inr t \<longleftrightarrow> v = opt_utc t \<and> pred_option is_utc t"
  by (cases t) (auto simp: ok_simps)

lemma opt_utc_plain [simp]: "plain_json (opt_utc t)" "canon (opt_utc t) = opt_utc t"
  by (cases t; simp)+

interpretation cleanup_outcome:
  record_codec CleanupOutcome_to_document CleanupOutcome_from_document valid_CleanupOutcome
proof
  show plain: "plain_json (CleanupOutcome_to_document x)" for x
    by (simp add: CleanupOutcome_to_document_def)
  then show "plain_json (CleanupOutcome_to_document x)" for x .
  fix x d
  show "CleanupOutcome_from_document (canon (CleanupOutcome_to_document x)) = Inr x" if "valid_CleanupOutcome x"
    using that unfolding CleanupOutcome_from_document_def CleanupOutcome_to_document_def
    by (cases x) (simp add: require_keys_stored valid_CleanupOutcome_def CleanupOutcome_post_init_def ok_simps provider_identity.reads_stored split: option.splits if_splits)
  show "valid_CleanupOutcome x" if "CleanupOutcome_from_document d = Inr x"
    using that unfolding CleanupOutcome_from_document_def valid_CleanupOutcome_def ok_simps
    by (elim exE conjE) (drule provider_identity.only_valid, simp)
  show "canon d = canon (CleanupOutcome_to_document x)" if "plain_json d" "CleanupOutcome_from_document d = Inr x"
    using that unfolding CleanupOutcome_from_document_def CleanupOutcome_to_document_def
    by (clarsimp simp: ok_simps) (rule reads_exactlyI, assumption, assumption, simp_all add: provider_identity.reads_exactly [OF mapping_items_plain_dget])
qed

fun CLEANUP_PATH_FOR_TERMINAL :: "AttemptState \<Rightarrow> CleanupPath option" where
  "CLEANUP_PATH_FOR_TERMINAL SUCCEEDED = Some PATH_SUCCESS"
| "CLEANUP_PATH_FOR_TERMINAL FAILED = Some PATH_FAILURE"
| "CLEANUP_PATH_FOR_TERMINAL CANCELLED = Some PATH_CANCEL"
| "CLEANUP_PATH_FOR_TERMINAL INTERRUPTED = Some PATH_INTERRUPT"
| "CLEANUP_PATH_FOR_TERMINAL _ = None"

section \<open>Attempt result\<close>

record AttemptResult =
  ar_attempt_id :: string
  ar_assignment_digest :: string
  ar_quote_digest :: string
  ar_attested_nonce :: string
  ar_measurement_digest :: string
  ar_result_payload_digest :: string
  ar_produced_at :: datetime
  ar_received_at :: datetime

definition AttemptResult_post_init :: "AttemptResult \<Rightarrow> perr + unit" where
  "AttemptResult_post_init r =
    checks [
      check_text ID_RE ''attempt_id'' (ar_attempt_id r),
      check_digest ''assignment_digest'' (ar_assignment_digest r),
      check_digest ''quote_digest'' (ar_quote_digest r),
      check_text NONCE_RE ''attested_nonce'' (ar_attested_nonce r),
      check_digest ''measurement_digest'' (ar_measurement_digest r),
      check_digest ''result_payload_digest'' (ar_result_payload_digest r),
      check_utc ''produced_at'' (ar_produced_at r),
      check_utc ''received_at'' (ar_received_at r),
      require (\<not> dt_less (ar_received_at r) (ar_produced_at r))
        (contract_error ''attempt result was received before it was produced'')]"

definition valid_AttemptResult :: "AttemptResult \<Rightarrow> bool" where
  "valid_AttemptResult r \<longleftrightarrow> AttemptResult_post_init r = Inr ()"

definition AttemptResult_to_document :: "AttemptResult \<Rightarrow> pyval" where
  "AttemptResult_to_document r = PDict
    [(''schema'', PStr ''cathedral_attempt_result_v1''),
     (''attempt_id'', PStr (ar_attempt_id r)),
     (''assignment_digest'', PStr (ar_assignment_digest r)),
     (''quote_digest'', PStr (ar_quote_digest r)),
     (''attested_nonce'', PStr (ar_attested_nonce r)),
     (''measurement_digest'', PStr (ar_measurement_digest r)),
     (''result_payload_digest'', PStr (ar_result_payload_digest r)),
     (''produced_at'', PStr (format_utc (ar_produced_at r))),
     (''received_at'', PStr (format_utc (ar_received_at r)))]"

definition AttemptResult_digest :: "AttemptResult \<Rightarrow> perr + string" where
  "AttemptResult_digest r = canonical_sha256 (PObject (AttemptResult_to_document r))"

definition AttemptResult_from_document :: "pyval \<Rightarrow> perr + AttemptResult" where
  "AttemptResult_from_document document =
    rbind (require_keys document ''cathedral_attempt_result_v1''
      [''schema'', ''attempt_id'', ''assignment_digest'', ''quote_digest'', ''attested_nonce'',
       ''measurement_digest'', ''result_payload_digest'', ''produced_at'', ''received_at'']
      ''attempt result'') (\<lambda>v.
    rbind (bounded_text ID_RE ''attempt_id'' (dget v ''attempt_id'')) (\<lambda>attempt_id.
    rbind (digest_text ''assignment_digest'' (dget v ''assignment_digest'')) (\<lambda>assignment.
    rbind (digest_text ''quote_digest'' (dget v ''quote_digest'')) (\<lambda>quote'.
    rbind (bounded_text NONCE_RE ''attested_nonce'' (dget v ''attested_nonce'')) (\<lambda>nonce.
    rbind (digest_text ''measurement_digest'' (dget v ''measurement_digest'')) (\<lambda>measurement.
    rbind (digest_text ''result_payload_digest'' (dget v ''result_payload_digest'')) (\<lambda>payload.
    rbind (parse_utc ''produced_at'' (dget v ''produced_at'')) (\<lambda>produced.
    rbind (parse_utc ''received_at'' (dget v ''received_at'')) (\<lambda>received.
    construct AttemptResult_post_init
      \<lparr>ar_attempt_id = attempt_id, ar_assignment_digest = assignment, ar_quote_digest = quote',
       ar_attested_nonce = nonce, ar_measurement_digest = measurement,
       ar_result_payload_digest = payload, ar_produced_at = produced, ar_received_at = received\<rparr>)))))))))"

interpretation attempt_result:
  record_codec AttemptResult_to_document AttemptResult_from_document valid_AttemptResult
proof
  show plain: "plain_json (AttemptResult_to_document x)" for x
    by (simp add: AttemptResult_to_document_def)
  then show "plain_json (AttemptResult_to_document x)" for x .
  fix x d
  show "AttemptResult_from_document (canon (AttemptResult_to_document x)) = Inr x" if "valid_AttemptResult x"
    using that unfolding AttemptResult_from_document_def AttemptResult_to_document_def
    by (cases x) (simp add: require_keys_stored valid_AttemptResult_def AttemptResult_post_init_def ok_simps)
  show "valid_AttemptResult x" if "AttemptResult_from_document d = Inr x"
    using that unfolding AttemptResult_from_document_def valid_AttemptResult_def ok_simps
    by (elim exE conjE) (simp)
  show "canon d = canon (AttemptResult_to_document x)" if "plain_json d" "AttemptResult_from_document d = Inr x"
    using that unfolding AttemptResult_from_document_def AttemptResult_to_document_def
    by (clarsimp simp: ok_simps) (rule reads_exactlyI, assumption, assumption, simp_all)
qed

definition validate_result_assignment :: "AttemptAssignment \<Rightarrow> AttemptResult \<Rightarrow> perr + unit" where
  "validate_result_assignment assignment result =
    checks [
      (if ar_attempt_id result \<noteq> aa_attempt_id assignment
       then Inl (contract_error ''result does not match its attempt assignment'')
       else rbind (AttemptAssignment_digest assignment) (\<lambda>d.
         require (ar_assignment_digest result = d)
           (contract_error ''result does not match its attempt assignment''))),
      require (ar_attested_nonce result = aa_provider_nonce assignment)
        (ProviderContractError ''quote attests a different nonce than this assignment issued''
           RESULT_NONCE_MISMATCH),
      require (ar_measurement_digest result = aa_image_digest assignment)
        (ProviderContractError ''quote measurement does not match the assignment image digest''
           RESULT_MEASUREMENT_MISMATCH)]"

section \<open>Transition events\<close>

record AttemptTransitionEvent =
  te_event_id :: string
  te_attempt_id :: string
  te_assignment_digest :: string
  te_current :: AttemptState
  te_target :: AttemptState
  te_occurred_at :: datetime
  te_detail_digest :: string
  te_cleanup_outcome_digest :: "string option"
  te_terminal_basis :: "TerminalBasis option"

definition AttemptTransitionEvent_post_init :: "AttemptTransitionEvent \<Rightarrow> perr + unit" where
  "AttemptTransitionEvent_post_init e =
    checks [
      check_text ID_RE ''event_id'' (te_event_id e),
      check_text ID_RE ''attempt_id'' (te_attempt_id e),
      check_digest ''assignment_digest'' (te_assignment_digest e),
      require_attempt_transition (te_current e) (te_target e),
      check_utc ''occurred_at'' (te_occurred_at e),
      check_digest ''detail_digest'' (te_detail_digest e),
      (if te_target e \<in> set TERMINAL_ATTEMPT_STATES
       then (case te_cleanup_outcome_digest e of
           None \<Rightarrow> Inl (contract_error ''a terminal transition requires cleanup outcome and terminal basis'')
         | Some d \<Rightarrow>
             if te_terminal_basis e = None
             then Inl (contract_error ''a terminal transition requires cleanup outcome and terminal basis'')
             else check_digest ''cleanup_outcome_digest'' d)
       else require (te_cleanup_outcome_digest e = None \<and> te_terminal_basis e = None)
         (contract_error ''only a terminal transition carries cleanup outcome and terminal basis''))]"

definition valid_AttemptTransitionEvent :: "AttemptTransitionEvent \<Rightarrow> bool" where
  "valid_AttemptTransitionEvent e \<longleftrightarrow> AttemptTransitionEvent_post_init e = Inr ()"

definition AttemptTransitionEvent_to_document :: "AttemptTransitionEvent \<Rightarrow> pyval" where
  "AttemptTransitionEvent_to_document e = PDict
    [(''schema'', PStr ''cathedral_attempt_transition_v1''),
     (''event_id'', PStr (te_event_id e)),
     (''attempt_id'', PStr (te_attempt_id e)),
     (''assignment_digest'', PStr (te_assignment_digest e)),
     (''current'', PStr (AttemptState_value (te_current e))),
     (''target'', PStr (AttemptState_value (te_target e))),
     (''occurred_at'', PStr (format_utc (te_occurred_at e))),
     (''detail_digest'', PStr (te_detail_digest e)),
     (''cleanup_outcome_digest'', opt_str (te_cleanup_outcome_digest e)),
     (''terminal_basis'', opt_str (map_option TerminalBasis_value (te_terminal_basis e)))]"

definition AttemptTransitionEvent_digest :: "AttemptTransitionEvent \<Rightarrow> perr + string" where
  "AttemptTransitionEvent_digest e = canonical_sha256 (PObject (AttemptTransitionEvent_to_document e))"

definition AttemptTransitionEvent_from_document :: "pyval \<Rightarrow> perr + AttemptTransitionEvent" where
  "AttemptTransitionEvent_from_document document =
    rbind (require_keys document ''cathedral_attempt_transition_v1''
      [''schema'', ''event_id'', ''attempt_id'', ''assignment_digest'', ''current'', ''target'',
       ''occurred_at'', ''detail_digest'', ''cleanup_outcome_digest'', ''terminal_basis'']
      ''attempt transition'') (\<lambda>v.
    rbind (optional_field (digest_text ''cleanup_outcome_digest'')
      (dget v ''cleanup_outcome_digest'')) (\<lambda>cleanup.
    rbind (optional_field (enum_value TerminalBasis_table ''terminal basis'')
      (dget v ''terminal_basis'')) (\<lambda>basis.
    rbind (bounded_text ID_RE ''event_id'' (dget v ''event_id'')) (\<lambda>event_id.
    rbind (bounded_text ID_RE ''attempt_id'' (dget v ''attempt_id'')) (\<lambda>attempt_id.
    rbind (digest_text ''assignment_digest'' (dget v ''assignment_digest'')) (\<lambda>assignment.
    rbind (enum_value AttemptState_table ''current attempt state'' (dget v ''current'')) (\<lambda>current.
    rbind (enum_value AttemptState_table ''target attempt state'' (dget v ''target'')) (\<lambda>target.
    rbind (parse_utc ''occurred_at'' (dget v ''occurred_at'')) (\<lambda>occurred.
    rbind (digest_text ''detail_digest'' (dget v ''detail_digest'')) (\<lambda>detail.
    construct AttemptTransitionEvent_post_init
      \<lparr>te_event_id = event_id, te_attempt_id = attempt_id, te_assignment_digest = assignment,
       te_current = current, te_target = target, te_occurred_at = occurred,
       te_detail_digest = detail, te_cleanup_outcome_digest = cleanup, te_terminal_basis = basis\<rparr>))))))))))"

lemma optional_basis_ok_iff [ok_simps]:
  "optional_field (enum_value TerminalBasis_table l) v = Inr b \<longleftrightarrow>
     v = opt_str (map_option TerminalBasis_value b)"
  by (cases b) (auto simp: ok_simps)

lemma require_attempt_transition_ok_iff [ok_simps]:
  "require_attempt_transition s t = Inr u \<longleftrightarrow> t \<in> set (ALLOWED_ATTEMPT_TRANSITIONS s)"
  by (simp add: require_attempt_transition_def ok_simps)

interpretation transition_event:
  record_codec AttemptTransitionEvent_to_document AttemptTransitionEvent_from_document valid_AttemptTransitionEvent
proof
  show plain: "plain_json (AttemptTransitionEvent_to_document x)" for x
    by (simp add: AttemptTransitionEvent_to_document_def)
  then show "plain_json (AttemptTransitionEvent_to_document x)" for x .
  fix x d
  show "AttemptTransitionEvent_from_document (canon (AttemptTransitionEvent_to_document x)) = Inr x" if "valid_AttemptTransitionEvent x"
    using that unfolding AttemptTransitionEvent_from_document_def AttemptTransitionEvent_to_document_def
    by (cases x) (simp add: require_keys_stored valid_AttemptTransitionEvent_def AttemptTransitionEvent_post_init_def ok_simps split: option.splits if_splits)
  show "valid_AttemptTransitionEvent x" if "AttemptTransitionEvent_from_document d = Inr x"
    using that unfolding AttemptTransitionEvent_from_document_def valid_AttemptTransitionEvent_def ok_simps
    by (elim exE conjE) (simp)
  show "canon d = canon (AttemptTransitionEvent_to_document x)" if "plain_json d" "AttemptTransitionEvent_from_document d = Inr x"
    using that unfolding AttemptTransitionEvent_from_document_def AttemptTransitionEvent_to_document_def
    by (clarsimp simp: ok_simps) (rule reads_exactlyI, assumption, assumption, simp_all)
qed

definition validate_transition_assignment :: "AttemptAssignment \<Rightarrow> AttemptTransitionEvent \<Rightarrow> perr + unit" where
  "validate_transition_assignment assignment event =
    (if te_attempt_id event \<noteq> aa_attempt_id assignment
     then Inl (contract_error ''transition event does not match its attempt assignment'')
     else rbind (AttemptAssignment_digest assignment) (\<lambda>d.
       require (te_assignment_digest event = d)
         (contract_error ''transition event does not match its attempt assignment'')))"

text \<open>
  The lookup \<open>_CLEANUP_PATH_FOR_TERMINAL[event.target]\<close> is reached only for a terminal
  target, where the table is defined.
\<close>

definition validate_terminal_transition :: "AttemptTransitionEvent \<Rightarrow> CleanupOutcome \<Rightarrow> perr + unit" where
  "validate_terminal_transition event cleanup =
    checks [
      require (te_target event \<in> set TERMINAL_ATTEMPT_STATES)
        (contract_error ''terminal validation requires a terminal target''),
      require (te_attempt_id event = co_attempt_id cleanup)
        (contract_error ''cleanup outcome belongs to another attempt''),
      require (te_assignment_digest event = co_assignment_digest cleanup)
        (contract_error ''cleanup outcome belongs to another assignment''),
      require (\<not> dt_less (te_occurred_at event) (co_observed_at cleanup))
        (contract_error ''terminal transition precedes its cleanup observation''),
      rbind (CleanupOutcome_digest cleanup) (\<lambda>d.
        require (te_cleanup_outcome_digest event = Some d)
          (contract_error ''terminal transition does not bind the cleanup outcome'')),
      require (Some (co_path cleanup) = CLEANUP_PATH_FOR_TERMINAL (te_target event))
        (contract_error ''cleanup path does not match the terminal state''),
      (case te_terminal_basis event of
         Some PROVIDER_ABSENCE \<Rightarrow>
           require (co_absence_status cleanup = PROVEN_ABSENT)
             (contract_error ''provider absence is not proven'')
       | Some CUSTOMER_CLEANUP_DEADLINE \<Rightarrow>
           checks [
             require (te_target event \<noteq> SUCCEEDED)
               (contract_error ''an unproven cleanup deadline cannot produce a successful attempt''),
             (case co_customer_cleanup_deadline_at cleanup of
                None \<Rightarrow> Inl (contract_error ''the customer cleanup deadline has not been reached'')
              | Some t \<Rightarrow>
                  require (\<not> dt_less (co_observed_at cleanup) t)
                    (contract_error ''the customer cleanup deadline has not been reached'')),
             require (co_absence_status cleanup \<noteq> PROVEN_ABSENT)
               (contract_error ''proven absence must use the provider-absence terminal basis'')]
       | None \<Rightarrow> Inl (contract_error ''terminal basis is invalid''))]"

section \<open>Duplicates\<close>

datatype DuplicateDecision = DUPLICATE_NEW | DUPLICATE_REPLAY

definition resolve_transition_duplicate ::
  "AttemptTransitionEvent option \<Rightarrow> AttemptTransitionEvent \<Rightarrow> perr + DuplicateDecision" where
  "resolve_transition_duplicate existing candidate =
    (case existing of
       None \<Rightarrow> Inr DUPLICATE_NEW
     | Some e \<Rightarrow>
         if te_event_id e \<noteq> te_event_id candidate
         then Inl (contract_error ''transition duplicate lookup used a different event ID'')
         else rbind (canonical_json_bytes (PObject (AttemptTransitionEvent_to_document e))) (\<lambda>bs.
              rbind (canonical_json_bytes (PObject (AttemptTransitionEvent_to_document candidate))) (\<lambda>cs.
              if bs \<noteq> cs then Inl (contract_error ''changed duplicate transition event conflicts'')
              else Inr DUPLICATE_REPLAY)))"

section \<open>Facts bound to their assignment\<close>

definition validate_cleanup_assignment :: "AttemptAssignment \<Rightarrow> CleanupOutcome \<Rightarrow> perr + unit" where
  "validate_cleanup_assignment assignment cleanup =
    rbind (AttemptAssignment_digest assignment) (\<lambda>d.
      require
        ((co_attempt_id cleanup, co_assignment_digest cleanup, co_provider cleanup, co_slot_id cleanup)
          = (aa_attempt_id assignment, d, aa_provider assignment, aa_slot_id assignment))
        (contract_error ''cleanup outcome does not match its attempt assignment''))"

definition validate_interruption_assignment :: "AttemptAssignment \<Rightarrow> InterruptionOutcome \<Rightarrow> perr + unit" where
  "validate_interruption_assignment assignment interruption =
    rbind (AttemptAssignment_digest assignment) (\<lambda>d.
      require
        ((io_attempt_id interruption, io_assignment_digest interruption, io_provider interruption,
          io_slot_id interruption)
          = (aa_attempt_id assignment, d, aa_provider assignment, aa_slot_id assignment))
        (contract_error ''interruption does not match its attempt assignment''))"

end
