(* ===== verification/Provider_Settlement.thy ===== *)
theory Provider_Settlement
  imports Provider_Attempt
begin

text \<open>
  The customer side of \<open>provider_contract.py\<close>: cap reservations, worker settlement
  decisions and their supersession, unassigned dispatch outcomes and submission
  idempotency.
\<close>

section \<open>Customer cap reservation\<close>

record CustomerCapReservation =
  cr_customer_id :: string
  cr_worker_id :: string
  cr_reservation_id :: string
  cr_request_digest :: string
  cr_reserved_micros :: int
  cr_reserved_at :: datetime
  cr_expires_at :: datetime

definition CustomerCapReservation_post_init :: "CustomerCapReservation \<Rightarrow> perr + unit" where
  "CustomerCapReservation_post_init r =
    checks [
      check_text ID_RE ''customer_id'' (cr_customer_id r),
      check_text ID_RE ''worker_id'' (cr_worker_id r),
      check_text ID_RE ''reservation_id'' (cr_reservation_id r),
      check_digest ''request_digest'' (cr_request_digest r),
      check_money ''reserved_micros'' (cr_reserved_micros r),
      check_utc ''reserved_at'' (cr_reserved_at r),
      check_utc ''expires_at'' (cr_expires_at r),
      require (\<not> dt_le (cr_expires_at r) (cr_reserved_at r))
        (contract_error ''cap reservation expiry must follow its creation'')]"

definition valid_CustomerCapReservation :: "CustomerCapReservation \<Rightarrow> bool" where
  "valid_CustomerCapReservation r \<longleftrightarrow> CustomerCapReservation_post_init r = Inr ()"

definition CustomerCapReservation_to_document :: "CustomerCapReservation \<Rightarrow> pyval" where
  "CustomerCapReservation_to_document r = PDict
    [(''schema'', PStr ''cathedral_customer_cap_reservation_v1''),
     (''customer_id'', PStr (cr_customer_id r)),
     (''worker_id'', PStr (cr_worker_id r)),
     (''reservation_id'', PStr (cr_reservation_id r)),
     (''request_digest'', PStr (cr_request_digest r)),
     (''reserved_micros'', PInt (cr_reserved_micros r)),
     (''reserved_at'', PStr (format_utc (cr_reserved_at r))),
     (''expires_at'', PStr (format_utc (cr_expires_at r)))]"

definition CustomerCapReservation_from_document :: "pyval \<Rightarrow> perr + CustomerCapReservation" where
  "CustomerCapReservation_from_document document =
    rbind (require_keys document ''cathedral_customer_cap_reservation_v1''
      [''schema'', ''customer_id'', ''worker_id'', ''reservation_id'', ''request_digest'',
       ''reserved_micros'', ''reserved_at'', ''expires_at''] ''customer cap reservation'') (\<lambda>v.
    rbind (bounded_text ID_RE ''customer_id'' (dget v ''customer_id'')) (\<lambda>customer_id.
    rbind (bounded_text ID_RE ''worker_id'' (dget v ''worker_id'')) (\<lambda>worker_id.
    rbind (bounded_text ID_RE ''reservation_id'' (dget v ''reservation_id'')) (\<lambda>reservation_id.
    rbind (digest_text ''request_digest'' (dget v ''request_digest'')) (\<lambda>request.
    rbind (money_micros ''reserved_micros'' (dget v ''reserved_micros'')) (\<lambda>reserved.
    rbind (parse_utc ''reserved_at'' (dget v ''reserved_at'')) (\<lambda>reserved_at.
    rbind (parse_utc ''expires_at'' (dget v ''expires_at'')) (\<lambda>expires_at.
    construct CustomerCapReservation_post_init
      \<lparr>cr_customer_id = customer_id, cr_worker_id = worker_id, cr_reservation_id = reservation_id,
       cr_request_digest = request, cr_reserved_micros = reserved, cr_reserved_at = reserved_at,
       cr_expires_at = expires_at\<rparr>))))))))"

interpretation cap_reservation:
  record_codec CustomerCapReservation_to_document CustomerCapReservation_from_document valid_CustomerCapReservation
proof
  show plain: "plain_json (CustomerCapReservation_to_document x)" for x
    by (simp add: CustomerCapReservation_to_document_def)
  then show "plain_json (CustomerCapReservation_to_document x)" for x .
  fix x d
  show "CustomerCapReservation_from_document (canon (CustomerCapReservation_to_document x)) = Inr x" if "valid_CustomerCapReservation x"
    using that unfolding CustomerCapReservation_from_document_def CustomerCapReservation_to_document_def
    by (cases x) (simp add: require_keys_stored valid_CustomerCapReservation_def CustomerCapReservation_post_init_def ok_simps)
  show "valid_CustomerCapReservation x" if "CustomerCapReservation_from_document d = Inr x"
    using that unfolding CustomerCapReservation_from_document_def valid_CustomerCapReservation_def ok_simps
    by (elim exE conjE) (simp)
  show "canon d = canon (CustomerCapReservation_to_document x)" if "plain_json d" "CustomerCapReservation_from_document d = Inr x"
    using that unfolding CustomerCapReservation_from_document_def CustomerCapReservation_to_document_def
    by (clarsimp simp: ok_simps) (rule reads_exactlyI, assumption, assumption, simp_all)
qed

definition resolve_reservation_duplicate ::
  "CustomerCapReservation option \<Rightarrow> CustomerCapReservation \<Rightarrow> perr + DuplicateDecision" where
  "resolve_reservation_duplicate existing candidate =
    (case existing of
       None \<Rightarrow> Inr DUPLICATE_NEW
     | Some r \<Rightarrow>
         if cr_reservation_id r \<noteq> cr_reservation_id candidate
         then Inl (contract_error ''reservation duplicate lookup used a different ID'')
         else rbind (canonical_json_bytes (PObject (CustomerCapReservation_to_document r))) (\<lambda>bs.
              rbind (canonical_json_bytes (PObject (CustomerCapReservation_to_document candidate))) (\<lambda>cs.
              if bs \<noteq> cs then Inl (contract_error ''changed duplicate cap reservation conflicts'')
              else Inr DUPLICATE_REPLAY)))"

definition validate_assignment_reservation ::
  "AttemptAssignment \<Rightarrow> AssignmentPermit \<Rightarrow> AssignmentLedgerBinding \<Rightarrow> CustomerCapReservation \<Rightarrow> perr + unit" where
  "validate_assignment_reservation assignment initial_permit binding reservation =
    rbind (AttemptAssignment_digest assignment) (\<lambda>d.
    checks [
      require
        ((ab_assignment_digest binding, ab_attempt_id binding, ab_customer_id binding, ab_worker_id binding,
          ab_reservation_id binding, ab_request_digest binding, ab_reserved_micros binding)
         = (d, aa_attempt_id assignment, cr_customer_id reservation, cr_worker_id reservation,
            cr_reservation_id reservation, cr_request_digest reservation, cr_reserved_micros reservation))
        (contract_error ''assignment binding does not match its cap reservation''),
      require (ap_assignment_digest initial_permit = d \<and> ap_sequence initial_permit = 1)
        (contract_error ''initial permit does not authorize this assignment''),
      require (\<not> dt_less (ap_issued_at initial_permit) (cr_reserved_at reservation))
        (contract_error ''attempt was created before its cap reservation''),
      require (\<not> dt_le (cr_expires_at reservation) (ap_issued_at initial_permit))
        (contract_error ''attempt used an expired cap reservation''),
      require (\<not> dt_less (cr_expires_at reservation) (ap_expires_at initial_permit))
        (contract_error ''permit expiry exceeds its cap reservation expiry''),
      require (\<not> (dt_less (ab_created_at binding) (cr_reserved_at reservation)
                \<or> dt_less (ap_issued_at initial_permit) (ab_created_at binding)))
        (contract_error ''assignment ledger binding time is outside its valid window'')])"

section \<open>Unassigned dispatch outcome\<close>

datatype UnassignedDispatchReason =
    NO_CAPACITY
  | POLICY_INELIGIBLE
  | RESERVATION_EXPIRED

fun UnassignedDispatchReason_value :: "UnassignedDispatchReason \<Rightarrow> string" where
  "UnassignedDispatchReason_value NO_CAPACITY = ''no_capacity''"
| "UnassignedDispatchReason_value POLICY_INELIGIBLE = ''policy_ineligible''"
| "UnassignedDispatchReason_value RESERVATION_EXPIRED = ''reservation_expired''"

definition UnassignedDispatchReason_table :: "(string \<times> UnassignedDispatchReason) list" where
  "UnassignedDispatchReason_table =
    map (\<lambda>c. (UnassignedDispatchReason_value c, c)) [NO_CAPACITY, POLICY_INELIGIBLE, RESERVATION_EXPIRED]"

lemma UnassignedDispatchReason_table_iff [ok_simps]:
  "map_of UnassignedDispatchReason_table s = Some c \<longleftrightarrow> s = UnassignedDispatchReason_value c"
  by (cases c) (auto simp: UnassignedDispatchReason_table_def)

record UnassignedDispatchOutcome =
  uo_outcome_id :: string
  uo_worker_id :: string
  uo_request_digest :: string
  uo_reason :: UnassignedDispatchReason
  uo_routing_decision_digest :: string
  uo_observed_at :: datetime

definition UnassignedDispatchOutcome_post_init :: "UnassignedDispatchOutcome \<Rightarrow> perr + unit" where
  "UnassignedDispatchOutcome_post_init u =
    checks [
      check_text ID_RE ''outcome_id'' (uo_outcome_id u),
      check_text ID_RE ''worker_id'' (uo_worker_id u),
      check_digest ''request_digest'' (uo_request_digest u),
      check_digest ''routing_decision_digest'' (uo_routing_decision_digest u),
      check_utc ''observed_at'' (uo_observed_at u)]"

definition valid_UnassignedDispatchOutcome :: "UnassignedDispatchOutcome \<Rightarrow> bool" where
  "valid_UnassignedDispatchOutcome u \<longleftrightarrow> UnassignedDispatchOutcome_post_init u = Inr ()"

definition UnassignedDispatchOutcome_to_document :: "UnassignedDispatchOutcome \<Rightarrow> pyval" where
  "UnassignedDispatchOutcome_to_document u = PDict
    [(''schema'', PStr ''cathedral_unassigned_dispatch_outcome_v1''),
     (''outcome_id'', PStr (uo_outcome_id u)),
     (''worker_id'', PStr (uo_worker_id u)),
     (''request_digest'', PStr (uo_request_digest u)),
     (''reason'', PStr (UnassignedDispatchReason_value (uo_reason u))),
     (''routing_decision_digest'', PStr (uo_routing_decision_digest u)),
     (''observed_at'', PStr (format_utc (uo_observed_at u)))]"

definition UnassignedDispatchOutcome_digest :: "UnassignedDispatchOutcome \<Rightarrow> perr + string" where
  "UnassignedDispatchOutcome_digest u = canonical_sha256 (PObject (UnassignedDispatchOutcome_to_document u))"

definition UnassignedDispatchOutcome_from_document :: "pyval \<Rightarrow> perr + UnassignedDispatchOutcome" where
  "UnassignedDispatchOutcome_from_document document =
    rbind (require_keys document ''cathedral_unassigned_dispatch_outcome_v1''
      [''schema'', ''outcome_id'', ''worker_id'', ''request_digest'', ''reason'',
       ''routing_decision_digest'', ''observed_at''] ''unassigned dispatch outcome'') (\<lambda>v.
    rbind (bounded_text ID_RE ''outcome_id'' (dget v ''outcome_id'')) (\<lambda>outcome_id.
    rbind (bounded_text ID_RE ''worker_id'' (dget v ''worker_id'')) (\<lambda>worker_id.
    rbind (digest_text ''request_digest'' (dget v ''request_digest'')) (\<lambda>request.
    rbind (enum_value UnassignedDispatchReason_table ''unassigned reason'' (dget v ''reason'')) (\<lambda>reason.
    rbind (digest_text ''routing_decision_digest'' (dget v ''routing_decision_digest'')) (\<lambda>routing.
    rbind (parse_utc ''observed_at'' (dget v ''observed_at'')) (\<lambda>observed.
    construct UnassignedDispatchOutcome_post_init
      \<lparr>uo_outcome_id = outcome_id, uo_worker_id = worker_id, uo_request_digest = request,
       uo_reason = reason, uo_routing_decision_digest = routing, uo_observed_at = observed\<rparr>)))))))"

interpretation unassigned_outcome:
  record_codec UnassignedDispatchOutcome_to_document UnassignedDispatchOutcome_from_document valid_UnassignedDispatchOutcome
proof
  show plain: "plain_json (UnassignedDispatchOutcome_to_document x)" for x
    by (simp add: UnassignedDispatchOutcome_to_document_def)
  then show "plain_json (UnassignedDispatchOutcome_to_document x)" for x .
  fix x d
  show "UnassignedDispatchOutcome_from_document (canon (UnassignedDispatchOutcome_to_document x)) = Inr x" if "valid_UnassignedDispatchOutcome x"
    using that unfolding UnassignedDispatchOutcome_from_document_def UnassignedDispatchOutcome_to_document_def
    by (cases x) (simp add: require_keys_stored valid_UnassignedDispatchOutcome_def UnassignedDispatchOutcome_post_init_def ok_simps)
  show "valid_UnassignedDispatchOutcome x" if "UnassignedDispatchOutcome_from_document d = Inr x"
    using that unfolding UnassignedDispatchOutcome_from_document_def valid_UnassignedDispatchOutcome_def ok_simps
    by (elim exE conjE) (simp)
  show "canon d = canon (UnassignedDispatchOutcome_to_document x)" if "plain_json d" "UnassignedDispatchOutcome_from_document d = Inr x"
    using that unfolding UnassignedDispatchOutcome_from_document_def UnassignedDispatchOutcome_to_document_def
    by (clarsimp simp: ok_simps) (rule reads_exactlyI, assumption, assumption, simp_all)
qed

section \<open>Worker settlement decision\<close>

datatype SettlementAction =
    CHARGED
  | RELEASED
  | HELD_PENDING_CLEANUP

fun SettlementAction_value :: "SettlementAction \<Rightarrow> string" where
  "SettlementAction_value CHARGED = ''charged''"
| "SettlementAction_value RELEASED = ''released''"
| "SettlementAction_value HELD_PENDING_CLEANUP = ''held_pending_cleanup''"

definition SettlementAction_table :: "(string \<times> SettlementAction) list" where
  "SettlementAction_table =
    map (\<lambda>c. (SettlementAction_value c, c)) [CHARGED, RELEASED, HELD_PENDING_CLEANUP]"

lemma SettlementAction_table_iff [ok_simps]:
  "map_of SettlementAction_table s = Some c \<longleftrightarrow> s = SettlementAction_value c"
  by (cases c) (auto simp: SettlementAction_table_def)

record WorkerSettlementDecision =
  sd_decision_id :: string
  sd_sequence :: int
  sd_supersedes_digest :: "string option"
  sd_customer_id :: string
  sd_worker_id :: string
  sd_reservation_id :: string
  sd_reserved_micros :: int
  sd_charged_micros :: int
  sd_action :: SettlementAction
  sd_winning_attempt_id :: "string option"
  sd_worker_outcome_digest :: string
  sd_decided_at :: datetime

definition WorkerSettlementDecision_post_init :: "WorkerSettlementDecision \<Rightarrow> perr + unit" where
  "WorkerSettlementDecision_post_init s =
    checks [
      check_text ID_RE ''decision_id'' (sd_decision_id s),
      check_text ID_RE ''customer_id'' (sd_customer_id s),
      check_text ID_RE ''worker_id'' (sd_worker_id s),
      check_text ID_RE ''reservation_id'' (sd_reservation_id s),
      require (sd_sequence s = 1 \<or> sd_sequence s = 2)
        (contract_error ''settlement sequence must be 1 or 2''),
      require (\<not> (sd_sequence s = 1 \<and> sd_supersedes_digest s \<noteq> None))
        (contract_error ''an initial settlement cannot supersede another decision''),
      (if sd_sequence s = 2
       then (case sd_supersedes_digest s of
           None \<Rightarrow> Inl (contract_error ''a settlement resolution must bind the held decision'')
         | Some d \<Rightarrow> check_digest ''supersedes_digest'' d)
       else Inr ()),
      check_money ''reserved_micros'' (sd_reserved_micros s),
      check_money ''charged_micros'' (sd_charged_micros s),
      require (sd_charged_micros s \<le> sd_reserved_micros s)
        (contract_error ''settlement charge exceeds the reserved customer cap''),
      check_digest ''worker_outcome_digest'' (sd_worker_outcome_digest s),
      check_utc ''decided_at'' (sd_decided_at s),
      (if sd_action s = CHARGED
       then checks [
         require (\<not> (sd_sequence s \<noteq> 1 \<or> sd_charged_micros s \<le> 0))
           (contract_error ''a charged settlement must be an initial positive charge''),
         (case sd_winning_attempt_id s of
            None \<Rightarrow> Inl (contract_error ''a charged settlement requires a winning attempt'')
          | Some w \<Rightarrow> check_text ID_RE ''winning_attempt_id'' w)]
       else checks [
         require (sd_charged_micros s = 0)
           (contract_error ''an uncharged settlement action must charge zero''),
         require (sd_winning_attempt_id s = None)
           (contract_error ''an uncharged settlement must not name a winner'')]),
      require (\<not> (sd_sequence s = 2 \<and> sd_action s \<noteq> RELEASED))
        (contract_error ''a held settlement resolves only by releasing the cap'')]"

definition valid_WorkerSettlementDecision :: "WorkerSettlementDecision \<Rightarrow> bool" where
  "valid_WorkerSettlementDecision s \<longleftrightarrow> WorkerSettlementDecision_post_init s = Inr ()"

definition WorkerSettlementDecision_to_document :: "WorkerSettlementDecision \<Rightarrow> pyval" where
  "WorkerSettlementDecision_to_document s = PDict
    [(''schema'', PStr ''cathedral_worker_settlement_decision_v1''),
     (''decision_id'', PStr (sd_decision_id s)),
     (''sequence'', PInt (sd_sequence s)),
     (''supersedes_digest'', opt_str (sd_supersedes_digest s)),
     (''customer_id'', PStr (sd_customer_id s)),
     (''worker_id'', PStr (sd_worker_id s)),
     (''reservation_id'', PStr (sd_reservation_id s)),
     (''reserved_micros'', PInt (sd_reserved_micros s)),
     (''charged_micros'', PInt (sd_charged_micros s)),
     (''action'', PStr (SettlementAction_value (sd_action s))),
     (''winning_attempt_id'', opt_str (sd_winning_attempt_id s)),
     (''worker_outcome_digest'', PStr (sd_worker_outcome_digest s)),
     (''decided_at'', PStr (format_utc (sd_decided_at s)))]"

definition WorkerSettlementDecision_digest :: "WorkerSettlementDecision \<Rightarrow> perr + string" where
  "WorkerSettlementDecision_digest s = canonical_sha256 (PObject (WorkerSettlementDecision_to_document s))"

definition WorkerSettlementDecision_from_document :: "pyval \<Rightarrow> perr + WorkerSettlementDecision" where
  "WorkerSettlementDecision_from_document document =
    rbind (require_keys document ''cathedral_worker_settlement_decision_v1''
      [''schema'', ''decision_id'', ''sequence'', ''supersedes_digest'', ''customer_id'', ''worker_id'',
       ''reservation_id'', ''reserved_micros'', ''charged_micros'', ''action'', ''winning_attempt_id'',
       ''worker_outcome_digest'', ''decided_at''] ''worker settlement decision'') (\<lambda>v.
    rbind (plain_int ''settlement sequence must be an integer'' (dget v ''sequence'')) (\<lambda>sequence.
    rbind (optional_field (digest_text ''supersedes_digest'') (dget v ''supersedes_digest'')) (\<lambda>supersedes.
    rbind (optional_field (bounded_text ID_RE ''winning_attempt_id'') (dget v ''winning_attempt_id'')) (\<lambda>winner.
    rbind (bounded_text ID_RE ''decision_id'' (dget v ''decision_id'')) (\<lambda>decision_id.
    rbind (bounded_text ID_RE ''customer_id'' (dget v ''customer_id'')) (\<lambda>customer_id.
    rbind (bounded_text ID_RE ''worker_id'' (dget v ''worker_id'')) (\<lambda>worker_id.
    rbind (bounded_text ID_RE ''reservation_id'' (dget v ''reservation_id'')) (\<lambda>reservation_id.
    rbind (money_micros ''reserved_micros'' (dget v ''reserved_micros'')) (\<lambda>reserved.
    rbind (money_micros ''charged_micros'' (dget v ''charged_micros'')) (\<lambda>charged.
    rbind (enum_value SettlementAction_table ''settlement action'' (dget v ''action'')) (\<lambda>action.
    rbind (digest_text ''worker_outcome_digest'' (dget v ''worker_outcome_digest'')) (\<lambda>outcome.
    rbind (parse_utc ''decided_at'' (dget v ''decided_at'')) (\<lambda>decided.
    construct WorkerSettlementDecision_post_init
      \<lparr>sd_decision_id = decision_id, sd_sequence = sequence, sd_supersedes_digest = supersedes,
       sd_customer_id = customer_id, sd_worker_id = worker_id, sd_reservation_id = reservation_id,
       sd_reserved_micros = reserved, sd_charged_micros = charged, sd_action = action,
       sd_winning_attempt_id = winner, sd_worker_outcome_digest = outcome, sd_decided_at = decided\<rparr>)))))))))))))"

lemma valid_settlement_options:
  "valid_WorkerSettlementDecision s \<Longrightarrow>
     pred_option DIGEST_RE (sd_supersedes_digest s) \<and> pred_option ID_RE (sd_winning_attempt_id s)"
  by (cases "sd_supersedes_digest s"; cases "sd_winning_attempt_id s"; cases "sd_action s")
    (auto simp: valid_WorkerSettlementDecision_def WorkerSettlementDecision_post_init_def ok_simps)

lemma valid_settlement_fields:
  "valid_WorkerSettlementDecision s \<Longrightarrow>
     ID_RE (sd_decision_id s) \<and> ID_RE (sd_customer_id s) \<and> ID_RE (sd_worker_id s)
     \<and> ID_RE (sd_reservation_id s) \<and> 0 \<le> sd_reserved_micros s \<and> sd_reserved_micros s \<le> MAX_MONEY_MICROS
     \<and> 0 \<le> sd_charged_micros s \<and> sd_charged_micros s \<le> MAX_MONEY_MICROS
     \<and> DIGEST_RE (sd_worker_outcome_digest s) \<and> is_utc (sd_decided_at s)
     \<and> WorkerSettlementDecision_post_init s = Inr ()"
  by (simp add: valid_WorkerSettlementDecision_def, simp add: WorkerSettlementDecision_post_init_def ok_simps)

interpretation settlement_decision:
  record_codec WorkerSettlementDecision_to_document WorkerSettlementDecision_from_document valid_WorkerSettlementDecision
proof
  show plain: "plain_json (WorkerSettlementDecision_to_document x)" for x
    by (simp add: WorkerSettlementDecision_to_document_def)
  then show "plain_json (WorkerSettlementDecision_to_document x)" for x .
  fix x d
  show "WorkerSettlementDecision_from_document (canon (WorkerSettlementDecision_to_document x)) = Inr x" if "valid_WorkerSettlementDecision x"
    using that unfolding WorkerSettlementDecision_from_document_def WorkerSettlementDecision_to_document_def
    using valid_settlement_fields [OF that] valid_settlement_options [OF that]
    by (cases x) (simp add: require_keys_stored ok_simps)
  show "valid_WorkerSettlementDecision x" if "WorkerSettlementDecision_from_document d = Inr x"
    using that unfolding WorkerSettlementDecision_from_document_def valid_WorkerSettlementDecision_def ok_simps
    by (elim exE conjE) (simp)
  show "canon d = canon (WorkerSettlementDecision_to_document x)" if "plain_json d" "WorkerSettlementDecision_from_document d = Inr x"
    using that unfolding WorkerSettlementDecision_from_document_def WorkerSettlementDecision_to_document_def
    by (clarsimp simp: ok_simps) (rule reads_exactlyI, assumption, assumption, simp_all)
qed

definition resolve_settlement_duplicate ::
  "WorkerSettlementDecision option \<Rightarrow> WorkerSettlementDecision \<Rightarrow> perr + DuplicateDecision" where
  "resolve_settlement_duplicate existing candidate =
    (case existing of
       None \<Rightarrow> Inr DUPLICATE_NEW
     | Some s \<Rightarrow>
         if sd_decision_id s \<noteq> sd_decision_id candidate
         then Inl (contract_error ''settlement duplicate lookup used a different decision ID'')
         else rbind (canonical_json_bytes (PObject (WorkerSettlementDecision_to_document s))) (\<lambda>bs.
              rbind (canonical_json_bytes (PObject (WorkerSettlementDecision_to_document candidate))) (\<lambda>cs.
              if bs \<noteq> cs
              then Inl (ProviderContractError ''changed duplicate settlement decision conflicts''
                          WORKER_SETTLEMENT_CONFLICT)
              else Inr DUPLICATE_REPLAY)))"

definition validate_settlement :: "CustomerCapReservation \<Rightarrow> WorkerSettlementDecision \<Rightarrow> perr + unit" where
  "validate_settlement reservation decision =
    checks [
      require
        ((sd_customer_id decision, sd_worker_id decision, sd_reservation_id decision, sd_reserved_micros decision)
         = (cr_customer_id reservation, cr_worker_id reservation, cr_reservation_id reservation,
            cr_reserved_micros reservation))
        (contract_error ''settlement does not match its cap reservation''),
      require (\<not> dt_less (sd_decided_at decision) (cr_reserved_at reservation))
        (contract_error ''settlement precedes its cap reservation''),
      require (\<not> (dt_le (cr_expires_at reservation) (sd_decided_at decision) \<and> sd_action decision \<noteq> RELEASED))
        (contract_error ''an expired cap reservation must be released uncharged'')]"

definition validate_settlement_supersession ::
  "CustomerCapReservation \<Rightarrow> WorkerSettlementDecision \<Rightarrow> WorkerSettlementDecision \<Rightarrow> perr + unit" where
  "validate_settlement_supersession reservation held resolution =
    checks [
      validate_settlement reservation held,
      validate_settlement reservation resolution,
      require (\<not> (sd_sequence held \<noteq> 1 \<or> sd_action held \<noteq> HELD_PENDING_CLEANUP))
        (contract_error ''only an initial held settlement can be resolved''),
      (if sd_sequence resolution \<noteq> 2
       then Inl (contract_error ''settlement resolution does not supersede the held decision'')
       else rbind (WorkerSettlementDecision_digest held) (\<lambda>d.
         require (sd_supersedes_digest resolution = Some d)
           (contract_error ''settlement resolution does not supersede the held decision''))),
      require (sd_worker_outcome_digest resolution = sd_worker_outcome_digest held)
        (contract_error ''settlement resolution changes the Worker outcome''),
      require (\<not> dt_le (sd_decided_at resolution) (sd_decided_at held))
        (contract_error ''settlement resolution must follow the held decision''),
      require (sd_decision_id resolution \<noteq> sd_decision_id held)
        (contract_error ''settlement resolution requires a new decision ID'')]"

definition resolve_held_settlement ::
  "WorkerSettlementDecision option \<Rightarrow> CustomerCapReservation \<Rightarrow> WorkerSettlementDecision
    \<Rightarrow> WorkerSettlementDecision \<Rightarrow> perr + DuplicateDecision" where
  "resolve_held_settlement existing_resolution reservation held candidate =
    rbind (validate_settlement_supersession reservation held candidate) (\<lambda>_.
    case existing_resolution of
      None \<Rightarrow> Inr DUPLICATE_NEW
    | Some existing \<Rightarrow>
        rbind (validate_settlement_supersession reservation held existing) (\<lambda>_.
        rbind (canonical_json_bytes (PObject (WorkerSettlementDecision_to_document existing))) (\<lambda>bs.
        rbind (canonical_json_bytes (PObject (WorkerSettlementDecision_to_document candidate))) (\<lambda>cs.
        if bs = cs then Inr DUPLICATE_REPLAY
        else Inl (ProviderContractError ''held settlement already has a different resolution''
                    WORKER_SETTLEMENT_CONFLICT)))))"

section \<open>Submission idempotency\<close>

record SubmissionIdempotencyBinding =
  ib_customer_id :: string
  ib_idempotency_key_digest :: string
  ib_request_digest :: string
  ib_worker_id :: string

definition SubmissionIdempotencyBinding_post_init :: "SubmissionIdempotencyBinding \<Rightarrow> perr + unit" where
  "SubmissionIdempotencyBinding_post_init b =
    checks [
      check_text ID_RE ''customer_id'' (ib_customer_id b),
      check_digest ''idempotency_key_digest'' (ib_idempotency_key_digest b),
      check_digest ''request_digest'' (ib_request_digest b),
      check_text ID_RE ''worker_id'' (ib_worker_id b)]"

definition valid_SubmissionIdempotencyBinding :: "SubmissionIdempotencyBinding \<Rightarrow> bool" where
  "valid_SubmissionIdempotencyBinding b \<longleftrightarrow> SubmissionIdempotencyBinding_post_init b = Inr ()"

definition SubmissionIdempotencyBinding_to_document :: "SubmissionIdempotencyBinding \<Rightarrow> pyval" where
  "SubmissionIdempotencyBinding_to_document b = PDict
    [(''schema'', PStr ''cathedral_submission_idempotency_v1''),
     (''customer_id'', PStr (ib_customer_id b)),
     (''idempotency_key_digest'', PStr (ib_idempotency_key_digest b)),
     (''request_digest'', PStr (ib_request_digest b)),
     (''worker_id'', PStr (ib_worker_id b))]"

definition SubmissionIdempotencyBinding_from_document :: "pyval \<Rightarrow> perr + SubmissionIdempotencyBinding" where
  "SubmissionIdempotencyBinding_from_document document =
    rbind (require_keys document ''cathedral_submission_idempotency_v1''
      [''schema'', ''customer_id'', ''idempotency_key_digest'', ''request_digest'', ''worker_id'']
      ''submission idempotency binding'') (\<lambda>v.
    rbind (bounded_text ID_RE ''customer_id'' (dget v ''customer_id'')) (\<lambda>customer_id.
    rbind (digest_text ''idempotency_key_digest'' (dget v ''idempotency_key_digest'')) (\<lambda>key_digest.
    rbind (digest_text ''request_digest'' (dget v ''request_digest'')) (\<lambda>request.
    rbind (bounded_text ID_RE ''worker_id'' (dget v ''worker_id'')) (\<lambda>worker_id.
    construct SubmissionIdempotencyBinding_post_init
      \<lparr>ib_customer_id = customer_id, ib_idempotency_key_digest = key_digest,
       ib_request_digest = request, ib_worker_id = worker_id\<rparr>)))))"

interpretation idempotency_binding:
  record_codec SubmissionIdempotencyBinding_to_document SubmissionIdempotencyBinding_from_document valid_SubmissionIdempotencyBinding
proof
  show plain: "plain_json (SubmissionIdempotencyBinding_to_document x)" for x
    by (simp add: SubmissionIdempotencyBinding_to_document_def)
  then show "plain_json (SubmissionIdempotencyBinding_to_document x)" for x .
  fix x d
  show "SubmissionIdempotencyBinding_from_document (canon (SubmissionIdempotencyBinding_to_document x)) = Inr x" if "valid_SubmissionIdempotencyBinding x"
    using that unfolding SubmissionIdempotencyBinding_from_document_def SubmissionIdempotencyBinding_to_document_def
    by (cases x) (simp add: require_keys_stored valid_SubmissionIdempotencyBinding_def SubmissionIdempotencyBinding_post_init_def ok_simps)
  show "valid_SubmissionIdempotencyBinding x" if "SubmissionIdempotencyBinding_from_document d = Inr x"
    using that unfolding SubmissionIdempotencyBinding_from_document_def valid_SubmissionIdempotencyBinding_def ok_simps
    by (elim exE conjE) (simp)
  show "canon d = canon (SubmissionIdempotencyBinding_to_document x)" if "plain_json d" "SubmissionIdempotencyBinding_from_document d = Inr x"
    using that unfolding SubmissionIdempotencyBinding_from_document_def SubmissionIdempotencyBinding_to_document_def
    by (clarsimp simp: ok_simps) (rule reads_exactlyI, assumption, assumption, simp_all)
qed

definition hash_idempotency_key :: "bytes \<Rightarrow> perr + string" where
  "hash_idempotency_key raw_key =
    (if \<not> (8 \<le> length raw_key \<and> length raw_key \<le> 200)
     then Inl (contract_error ''raw idempotency key must be 8 to 200 bytes'')
     else Inr (sha256_label raw_key))"

datatype IdempotencyDecision = IDEMPOTENCY_NEW | IDEMPOTENCY_REPLAY

definition resolve_submission_idempotency ::
  "SubmissionIdempotencyBinding option \<Rightarrow> SubmissionIdempotencyBinding
    \<Rightarrow> perr + (IdempotencyDecision \<times> SubmissionIdempotencyBinding)" where
  "resolve_submission_idempotency existing candidate =
    (case existing of
       None \<Rightarrow> Inr (IDEMPOTENCY_NEW, candidate)
     | Some b \<Rightarrow>
         if ib_customer_id b \<noteq> ib_customer_id candidate
            \<or> ib_idempotency_key_digest b \<noteq> ib_idempotency_key_digest candidate
         then Inl (contract_error ''idempotency lookup used a different customer or key'')
         else if ib_request_digest b \<noteq> ib_request_digest candidate
         then Inl (ProviderContractError ''idempotency key was reused with changed request bytes''
                     IDEMPOTENCY_CONFLICT)
         else Inr (IDEMPOTENCY_REPLAY, b))"

end
