(* ===== verification/Provider_Transcript.thy ===== *)
theory Provider_Transcript
  imports Provider_Settlement
begin

text \<open>
  \<open>provider_transcript.py\<close>: the transcript of one provider attempt and the private
  finaliser of one Worker with all its attempts.  The two \<open>validate\<close> methods are split
  into the blocks the source separates by blank lines, in the order it runs them; an
  early return with an error is the first error of the sequence.
\<close>

definition MAX_TRANSCRIPT_EVENTS :: nat where
  "MAX_TRANSCRIPT_EVENTS = 32"

definition MAX_WORKER_ATTEMPTS :: nat where
  "MAX_WORKER_ATTEMPTS = 16"

definition CLEANUP_PENDING_STATES :: "AttemptState list" where
  "CLEANUP_PENDING_STATES =
    [SUCCESS_CLEANUP_PENDING, FAILURE_CLEANUP_PENDING, CANCEL_CLEANUP_PENDING, INTERRUPT_CLEANUP_PENDING]"

section \<open>Attempt transcript\<close>

record ProviderAttemptTranscript =
  pt_assignment :: AttemptAssignment
  pt_permits :: "AssignmentPermit list"
  pt_events :: "AttemptTransitionEvent list"
  pt_cleanup :: CleanupOutcome
  pt_interruption :: "InterruptionOutcome option"
  pt_result :: "AttemptResult option"

text \<open>\<open>zip(xs, xs[1:])\<close>\<close>

definition adjacent :: "'a list \<Rightarrow> ('a \<times> 'a) list" where
  "adjacent xs = zip xs (tl xs)"

definition transcript_permits :: "ProviderAttemptTranscript \<Rightarrow> perr + unit" where
  "transcript_permits t =
    checks [
      require (pt_permits t \<noteq> []) (contract_error ''transcript permits are invalid''),
      require (ap_sequence (hd (pt_permits t)) = 1)
        (contract_error ''transcript permit history must begin at sequence 1''),
      checks (map (\<lambda>p. validate_assignment_permit (pt_assignment t) p (ap_issued_at p)) (pt_permits t)),
      checks (map (\<lambda>(current, candidate). validate_permit_renewal current candidate (ap_issued_at candidate))
        (adjacent (pt_permits t)))]"

fun transcript_event_ids :: "AttemptAssignment \<Rightarrow> string list \<Rightarrow> AttemptTransitionEvent list \<Rightarrow> perr + unit" where
  "transcript_event_ids assignment seen [] = Inr ()"
| "transcript_event_ids assignment seen (event # events) =
    (if te_event_id event \<in> set seen
     then Inl (contract_error ''transcript contains a duplicate event ID'')
     else rbind (validate_transition_assignment assignment event) (\<lambda>_.
       transcript_event_ids assignment (te_event_id event # seen) events))"

definition transcript_events :: "ProviderAttemptTranscript \<Rightarrow> perr + unit" where
  "transcript_events t =
    checks [
      require (pt_events t \<noteq> [] \<and> length (pt_events t) \<le> MAX_TRANSCRIPT_EVENTS)
        (contract_error ''transcript events are invalid''),
      require (te_current (hd (pt_events t)) = DISPATCH_PENDING)
        (contract_error ''transcript must begin at DISPATCH_PENDING''),
      require (\<not> dt_less (te_occurred_at (hd (pt_events t))) (ap_issued_at (hd (pt_permits t))))
        (contract_error ''transcript begins before its initial permit''),
      transcript_event_ids (pt_assignment t) [] (pt_events t),
      checks (map (\<lambda>(previous, next).
        checks [
          require (te_current next = te_target previous)
            (contract_error ''transcript state chain is not continuous''),
          require (\<not> dt_less (te_occurred_at next) (te_occurred_at previous))
            (contract_error ''transcript event timestamps are not nondecreasing'')])
        (adjacent (pt_events t)))]"

definition permit_covers :: "AssignmentPermit \<Rightarrow> datetime \<Rightarrow> bool" where
  "permit_covers p at \<longleftrightarrow> dt_le (ap_issued_at p) at \<and> dt_less at (ap_expires_at p)"

definition transcript_dispatch_windows :: "ProviderAttemptTranscript \<Rightarrow> perr + unit" where
  "transcript_dispatch_windows t =
    checks (map (\<lambda>event.
      if te_target event = ASSIGNMENT_SENT \<or> te_target event = ACKNOWLEDGED
      then require (list_ex (\<lambda>p. permit_covers p (te_occurred_at event)) (pt_permits t))
             (contract_error ''assignment dispatch event falls outside every permit window'')
      else Inr ()) (pt_events t))"

text \<open>\<open>min\<close> of a nonempty list of times.\<close>

definition min_time :: "datetime list \<Rightarrow> datetime" where
  "min_time ts = foldl (\<lambda>a b. if dt_less b a then b else a) (hd ts) (tl ts)"

definition cleanup_entry_times :: "ProviderAttemptTranscript \<Rightarrow> datetime list" where
  "cleanup_entry_times t =
    map te_occurred_at
      (filter (\<lambda>e. te_target e \<in> set CLEANUP_PENDING_STATES \<union> set TERMINAL_ATTEMPT_STATES) (pt_events t))"

definition transcript_renewals :: "ProviderAttemptTranscript \<Rightarrow> perr + unit" where
  "transcript_renewals t =
    (if cleanup_entry_times t = [] then Inr ()
     else require
       (\<not> list_ex (\<lambda>p. dt_le (min_time (cleanup_entry_times t)) (ap_issued_at p)) (tl (pt_permits t)))
       (contract_error ''a permit was renewed after cleanup began''))"

definition last_event :: "ProviderAttemptTranscript \<Rightarrow> AttemptTransitionEvent" where
  "last_event t = last (pt_events t)"

definition cleanup_entry_event :: "ProviderAttemptTranscript \<Rightarrow> AttemptTransitionEvent" where
  "cleanup_entry_event t = last (butlast (pt_events t))"

definition transcript_terminal :: "ProviderAttemptTranscript \<Rightarrow> perr + unit" where
  "transcript_terminal t =
    checks [
      checks (map (\<lambda>e. require (te_target e \<notin> set TERMINAL_ATTEMPT_STATES)
        (contract_error ''only the final transcript event may be terminal'')) (butlast (pt_events t))),
      require (te_target (last_event t) \<in> set TERMINAL_ATTEMPT_STATES)
        (contract_error ''transcript must end at a terminal state''),
      require (\<not> length (pt_events t) < 2)
        (contract_error ''transcript terminal event lacks a cleanup entry''),
      require (\<not> dt_less (co_requested_at (pt_cleanup t)) (te_occurred_at (cleanup_entry_event t)))
        (contract_error ''cleanup was requested before the attempt entered cleanup-pending''),
      validate_cleanup_assignment (pt_assignment t) (pt_cleanup t),
      validate_terminal_transition (last_event t) (pt_cleanup t)]"

definition result_events :: "ProviderAttemptTranscript \<Rightarrow> AttemptTransitionEvent list" where
  "result_events t = filter (\<lambda>e. te_target e = RESULT_RECEIVED) (pt_events t)"

definition transcript_result :: "ProviderAttemptTranscript \<Rightarrow> perr + unit" where
  "transcript_result t =
    checks [
      require (\<not> length (result_events t) > 1)
        (contract_error ''transcript reached RESULT_RECEIVED more than once''),
      (if result_events t \<noteq> []
       then (case pt_result t of
           None \<Rightarrow> Inl (contract_error ''a RESULT_RECEIVED transition requires a matching result record'')
         | Some r \<Rightarrow>
             checks [
               validate_result_assignment (pt_assignment t) r,
               rbind (AttemptResult_digest r) (\<lambda>d.
                 require (te_detail_digest (hd (result_events t)) = d)
                   (contract_error ''RESULT_RECEIVED transition does not bind its result record'')),
               require (\<not> dt_less (te_occurred_at (hd (result_events t))) (ar_received_at r))
                 (contract_error ''RESULT_RECEIVED transition occurred before its result was received'')])
       else require (pt_result t = None)
         (contract_error ''only an attempt that received a result may carry a result record''))]"

definition transcript_interruption :: "ProviderAttemptTranscript \<Rightarrow> perr + unit" where
  "transcript_interruption t =
    (if te_target (last_event t) = INTERRUPTED
     then (case pt_interruption t of
         None \<Rightarrow> Inl (contract_error ''an interrupted transcript requires an interruption outcome'')
       | Some i \<Rightarrow>
           checks [
             validate_interruption_assignment (pt_assignment t) i,
             rbind (InterruptionOutcome_digest i) (\<lambda>d.
               require (te_detail_digest (cleanup_entry_event t) = d)
                 (contract_error ''interrupt cleanup entry does not bind its interruption outcome'')),
             rbind (InterruptionOutcome_digest i) (\<lambda>d.
               require (te_detail_digest (last_event t) = d)
                 (contract_error ''interrupted terminal transition does not bind its interruption outcome'')),
             require (dt_le (te_occurred_at (hd (pt_events t))) (io_observed_at i)
                      \<and> dt_le (io_observed_at i) (te_occurred_at (cleanup_entry_event t)))
               (contract_error ''interruption observation falls outside the attempt event window''),
             require (\<not> dt_less (co_requested_at (pt_cleanup t)) (io_observed_at i))
               (contract_error ''interruption observation follows cleanup request'')])
     else require (pt_interruption t = None)
       (contract_error ''only an interrupted transcript accepts an interruption outcome''))"

definition ProviderAttemptTranscript_validate :: "ProviderAttemptTranscript \<Rightarrow> perr + AttemptState" where
  "ProviderAttemptTranscript_validate t =
    rbind (checks [
      transcript_permits t,
      transcript_events t,
      transcript_dispatch_windows t,
      transcript_renewals t,
      transcript_terminal t,
      transcript_result t,
      transcript_interruption t]) (\<lambda>_.
    Inr (te_target (last_event t)))"

text \<open>The document once \<open>self.validate()\<close> has succeeded, and the accessors that validate first.\<close>

definition attempt_document :: "ProviderAttemptTranscript \<Rightarrow> pyval" where
  "attempt_document t = PDict
    [(''schema'', PStr ''cathedral_provider_attempt_transcript_v1''),
     (''assignment'', AttemptAssignment_to_document (pt_assignment t)),
     (''permits'', PList (map AssignmentPermit_to_document (pt_permits t))),
     (''events'', PList (map AttemptTransitionEvent_to_document (pt_events t))),
     (''cleanup'', CleanupOutcome_to_document (pt_cleanup t)),
     (''interruption'', opt_doc InterruptionOutcome_to_document (pt_interruption t)),
     (''result'', opt_doc AttemptResult_to_document (pt_result t))]"

definition ProviderAttemptTranscript_to_document :: "ProviderAttemptTranscript \<Rightarrow> perr + pyval" where
  "ProviderAttemptTranscript_to_document t =
    rbind (ProviderAttemptTranscript_validate t) (\<lambda>_. Inr (attempt_document t))"

definition ProviderAttemptTranscript_digest :: "ProviderAttemptTranscript \<Rightarrow> perr + string" where
  "ProviderAttemptTranscript_digest t =
    rbind (ProviderAttemptTranscript_to_document t) canonical_sha256"

definition ProviderAttemptTranscript_canonical_bytes :: "ProviderAttemptTranscript \<Rightarrow> perr + bytes" where
  "ProviderAttemptTranscript_canonical_bytes t =
    rbind (ProviderAttemptTranscript_to_document t) canonical_json_bytes"

text \<open>The combined key and schema test of the two transcript classes, and a JSON list.\<close>

definition mapping_with_keys :: "pyval \<Rightarrow> string \<Rightarrow> string list \<Rightarrow> string \<Rightarrow> perr + (string \<times> pyval) list" where
  "mapping_with_keys document schema keys message =
    (case mapping_items document of
       None \<Rightarrow> Inl (contract_error message)
     | Some kvs \<Rightarrow>
         if set (map fst kvs) \<noteq> set keys \<or> dget kvs ''schema'' \<noteq> PStr schema
         then Inl (contract_error message) else Inr kvs)"

fun list_field :: "string \<Rightarrow> pyval \<Rightarrow> perr + pyval list" where
  "list_field message (PList vs) = Inr vs"
| "list_field message _ = Inl (contract_error message)"

definition ProviderAttemptTranscript_from_document :: "pyval \<Rightarrow> perr + ProviderAttemptTranscript" where
  "ProviderAttemptTranscript_from_document document =
    rbind (mapping_with_keys document ''cathedral_provider_attempt_transcript_v1''
      [''schema'', ''assignment'', ''permits'', ''events'', ''cleanup'', ''interruption'', ''result'']
      ''provider attempt transcript has missing, unknown, or unsupported fields'') (\<lambda>v.
    rbind (list_field ''provider attempt transcript permits must be a list'' (dget v ''permits'')) (\<lambda>raw_permits.
    rbind (list_field ''provider attempt transcript events must be a list'' (dget v ''events'')) (\<lambda>raw_events.
    rbind (require (length raw_events \<le> MAX_TRANSCRIPT_EVENTS)
      (contract_error ''provider attempt transcript has too many events'')) (\<lambda>_.
    rbind (AttemptAssignment_from_document (dget v ''assignment'')) (\<lambda>assignment.
    rbind (rmap AssignmentPermit_from_document raw_permits) (\<lambda>permits.
    rbind (rmap AttemptTransitionEvent_from_document raw_events) (\<lambda>events.
    rbind (CleanupOutcome_from_document (dget v ''cleanup'')) (\<lambda>cleanup.
    rbind (optional_field InterruptionOutcome_from_document (dget v ''interruption'')) (\<lambda>interruption.
    rbind (optional_field AttemptResult_from_document (dget v ''result'')) (\<lambda>result.
    let t = \<lparr>pt_assignment = assignment, pt_permits = permits, pt_events = events, pt_cleanup = cleanup,
             pt_interruption = interruption, pt_result = result\<rparr> in
    rbind (ProviderAttemptTranscript_validate t) (\<lambda>_. Inr t)))))))))))"

definition ProviderAttemptTranscript_from_bytes :: "json_data \<Rightarrow> perr + ProviderAttemptTranscript" where
  "ProviderAttemptTranscript_from_bytes data =
     rbind (parse_canonical_json data) ProviderAttemptTranscript_from_document"

definition ProviderAttemptTranscript_terminal_event :: "ProviderAttemptTranscript \<Rightarrow> perr + AttemptTransitionEvent" where
  "ProviderAttemptTranscript_terminal_event t =
     rbind (ProviderAttemptTranscript_validate t) (\<lambda>_. Inr (last_event t))"

definition valid_ProviderAttemptTranscript :: "ProviderAttemptTranscript \<Rightarrow> bool" where
  "valid_ProviderAttemptTranscript t \<longleftrightarrow>
     valid_AttemptAssignment (pt_assignment t) \<and> list_all valid_AssignmentPermit (pt_permits t)
     \<and> list_all valid_AttemptTransitionEvent (pt_events t) \<and> valid_CleanupOutcome (pt_cleanup t)
     \<and> pred_option valid_InterruptionOutcome (pt_interruption t)
     \<and> pred_option valid_AttemptResult (pt_result t)
     \<and> (\<exists>s. ProviderAttemptTranscript_validate t = Inr s)"

lemma mapping_with_keys_ok_iff [ok_simps]:
  "mapping_with_keys d s ks m = Inr kvs \<longleftrightarrow>
     mapping_items d = Some kvs \<and> fst ` set kvs = set ks \<and> dget kvs ''schema'' = PStr s"
  by (auto simp: mapping_with_keys_def split: option.splits if_splits)

lemma mapping_with_keys_stored:
  "fst ` set kvs = set ks \<Longrightarrow> dget kvs ''schema'' = PStr s \<Longrightarrow>
     mapping_with_keys (canon (PDict kvs)) s ks m = Inr (canon_items kvs)"
  by (simp only: canon_PDict_items) (simp add: mapping_with_keys_ok_iff)

lemma list_field_ok_iff [ok_simps]: "list_field m v = Inr vs \<longleftrightarrow> v = PList vs"
  by (cases v) auto

lemma documents_not_none:
  "canon (InterruptionOutcome_to_document i) \<noteq> PNone" "canon (AttemptResult_to_document r) \<noteq> PNone"
  "canon (UnassignedDispatchOutcome_to_document u) \<noteq> PNone"
  by (simp_all add: InterruptionOutcome_to_document_def AttemptResult_to_document_def
      UnassignedDispatchOutcome_to_document_def canon_PDict_items)

lemma attempt_validate_events_length:
  "ProviderAttemptTranscript_validate t = Inr s \<Longrightarrow> length (pt_events t) \<le> MAX_TRANSCRIPT_EVENTS"
  by (auto simp: ProviderAttemptTranscript_validate_def transcript_events_def ok_simps)

lemma valid_attempt_events_length:
  "valid_ProviderAttemptTranscript t \<Longrightarrow> length (pt_events t) \<le> MAX_TRANSCRIPT_EVENTS"
  by (auto simp: valid_ProviderAttemptTranscript_def dest: attempt_validate_events_length)

lemma rebuild_attempt:
  "\<lparr>pt_assignment = pt_assignment t, pt_permits = pt_permits t, pt_events = pt_events t,
    pt_cleanup = pt_cleanup t, pt_interruption = pt_interruption t, pt_result = pt_result t\<rparr> = t"
  by (cases t) simp

lemmas transcript_parts_stored =
  attempt_assignment.reads_stored assignment_permit.rmap_stored transition_event.rmap_stored
  cleanup_outcome.reads_stored interruption_outcome.optional_stored attempt_result.optional_stored
  documents_not_none comp_def

lemma attempt_from_documentE:
  assumes "ProviderAttemptTranscript_from_document d = Inr x"
  obtains kvs ps es where "mapping_items d = Some kvs"
    and "fst ` set kvs = set [''schema'', ''assignment'', ''permits'', ''events'', ''cleanup'', ''interruption'', ''result'']"
    and "dget kvs ''schema'' = PStr ''cathedral_provider_attempt_transcript_v1''"
    and "AttemptAssignment_from_document (dget kvs ''assignment'') = Inr (pt_assignment x)"
    and "dget kvs ''permits'' = PList ps" "dget kvs ''events'' = PList es"
    and "rmap AssignmentPermit_from_document ps = Inr (pt_permits x)"
    and "rmap AttemptTransitionEvent_from_document es = Inr (pt_events x)"
    and "CleanupOutcome_from_document (dget kvs ''cleanup'') = Inr (pt_cleanup x)"
    and "optional_field InterruptionOutcome_from_document (dget kvs ''interruption'') = Inr (pt_interruption x)"
    and "optional_field AttemptResult_from_document (dget kvs ''result'') = Inr (pt_result x)"
    and "\<exists>s. ProviderAttemptTranscript_validate x = Inr s"
  using assms unfolding ProviderAttemptTranscript_from_document_def ok_simps Let_def by auto

interpretation attempt_transcript:
  document_codec attempt_document ProviderAttemptTranscript_from_document valid_ProviderAttemptTranscript
proof
  fix x d
  show "plain_json (attempt_document x)" if "valid_ProviderAttemptTranscript x"
    using that by (simp add: attempt_document_def valid_ProviderAttemptTranscript_def
        interruption_outcome.optional_plain attempt_result.optional_plain)
  show "ProviderAttemptTranscript_from_document (canon (attempt_document x)) = Inr x"
    if x: "valid_ProviderAttemptTranscript x"
  proof -
    note len = valid_attempt_events_length [OF x]
    from x obtain s where s: "ProviderAttemptTranscript_validate x = Inr s"
      by (auto simp: valid_ProviderAttemptTranscript_def)
    from x show ?thesis
      unfolding ProviderAttemptTranscript_from_document_def attempt_document_def
      by (simp add: mapping_with_keys_stored valid_ProviderAttemptTranscript_def transcript_parts_stored
          len s Let_def rebuild_attempt)
  qed
  show "valid_ProviderAttemptTranscript x" if "ProviderAttemptTranscript_from_document d = Inr x"
    using that
    by (rule attempt_from_documentE) (simp add: valid_ProviderAttemptTranscript_def
        attempt_assignment.only_valid [of _ "pt_assignment x"] assignment_permit.rmap_valid [of _ "pt_permits x"]
        transition_event.rmap_valid [of _ "pt_events x"] cleanup_outcome.only_valid [of _ "pt_cleanup x"]
        interruption_outcome.optional_valid [of _ "pt_interruption x"]
        attempt_result.optional_valid [of _ "pt_result x"])
  show "canon d = canon (attempt_document x)"
    if plain: "plain_json d" and ok: "ProviderAttemptTranscript_from_document d = Inr x"
  proof -
    from ok obtain kvs ps es where items: "mapping_items d = Some kvs"
      and keys: "fst ` set kvs = set [''schema'', ''assignment'', ''permits'', ''events'', ''cleanup'', ''interruption'', ''result'']"
      and schema: "dget kvs ''schema'' = PStr ''cathedral_provider_attempt_transcript_v1''"
      and a: "AttemptAssignment_from_document (dget kvs ''assignment'') = Inr (pt_assignment x)"
      and lists: "dget kvs ''permits'' = PList ps" "dget kvs ''events'' = PList es"
      and ps: "rmap AssignmentPermit_from_document ps = Inr (pt_permits x)"
      and es: "rmap AttemptTransitionEvent_from_document es = Inr (pt_events x)"
      and c: "CleanupOutcome_from_document (dget kvs ''cleanup'') = Inr (pt_cleanup x)"
      and i: "optional_field InterruptionOutcome_from_document (dget kvs ''interruption'') = Inr (pt_interruption x)"
      and r: "optional_field AttemptResult_from_document (dget kvs ''result'') = Inr (pt_result x)"
      by (rule attempt_from_documentE)
    note pl = mapping_items_plain_dget [OF plain items]
    from attempt_assignment.reads_exactly [OF pl a] cleanup_outcome.reads_exactly [OF pl c]
      assignment_permit.rmap_exact [OF _ ps] transition_event.rmap_exact [OF _ es]
      interruption_outcome.optional_exact [OF pl i] attempt_result.optional_exact [OF pl r]
      mapping_items_plain_list [OF plain items lists(1)] mapping_items_plain_list [OF plain items lists(2)]
      interruption_outcome.optional_plain [OF interruption_outcome.optional_valid [OF i]]
      attempt_result.optional_plain [OF attempt_result.optional_valid [OF r]]
      keys schema lists
    show ?thesis
      unfolding attempt_document_def by (intro reads_exactlyI [OF plain items]) (simp_all add: comp_def)
  qed
qed

section \<open>Worker transcript\<close>

record WorkerExecutionTranscript =
  wt_reservation :: CustomerCapReservation
  wt_bindings :: "AssignmentLedgerBinding list"
  wt_attempts :: "ProviderAttemptTranscript list"
  wt_unassigned_dispatch :: "UnassignedDispatchOutcome option"
  wt_settlements :: "WorkerSettlementDecision list"

definition worker_shape :: "WorkerExecutionTranscript \<Rightarrow> perr + unit" where
  "worker_shape w =
    checks [
      require (length (wt_attempts w) \<le> MAX_WORKER_ATTEMPTS)
        (contract_error ''worker attempts are invalid''),
      require ((wt_attempts w = []) \<noteq> (wt_unassigned_dispatch w = None))
        (contract_error ''worker transcript requires either attempts or one unassigned outcome''),
      require (\<not> (wt_attempts w \<noteq> [] \<and> length (wt_bindings w) \<noteq> length (wt_attempts w)))
        (contract_error ''every attempt requires one private ledger binding''),
      require (\<not> (wt_unassigned_dispatch w \<noteq> None \<and> wt_bindings w \<noteq> []))
        (contract_error ''an unassigned Worker cannot have attempt bindings''),
      require (length (wt_settlements w) = 1 \<or> length (wt_settlements w) = 2)
        (contract_error ''worker finalizer requires one final settlement'')]"

definition worker_attempt_identities :: "WorkerExecutionTranscript \<Rightarrow> perr + unit" where
  "worker_attempt_identities w =
    checks [
      require (distinct (map (\<lambda>t. aa_attempt_id (pt_assignment t)) (wt_attempts w)))
        (contract_error ''worker attempts reuse an attempt ID''),
      require (distinct (map (\<lambda>t. aa_provider_nonce (pt_assignment t)) (wt_attempts w)))
        (contract_error ''worker attempts reuse a provider nonce'')]"

definition worker_permit_window :: "CustomerCapReservation \<Rightarrow> AssignmentPermit \<Rightarrow> perr + unit" where
  "worker_permit_window reservation permit =
    checks [
      require (\<not> dt_less (ap_issued_at permit) (cr_reserved_at reservation))
        (contract_error ''permit predates the Worker reservation''),
      require (\<not> dt_less (cr_expires_at reservation) (ap_expires_at permit))
        (contract_error ''permit outlives the Worker reservation'')]"

text \<open>
  The loop over \<open>enumerate(zip(bindings, attempts), start=1)\<close>; \<open>parent\<close> is the attempt of
  the previous round, \<open>self.attempts[index - 2]\<close>.
\<close>

fun worker_bindings :: "CustomerCapReservation \<Rightarrow> int \<Rightarrow> string option
    \<Rightarrow> (AssignmentLedgerBinding \<times> ProviderAttemptTranscript) list \<Rightarrow> perr + unit" where
  "worker_bindings reservation index parent [] = Inr ()"
| "worker_bindings reservation index parent ((binding, attempt) # rest) =
    checks [
      validate_assignment_reservation (pt_assignment attempt) (hd (pt_permits attempt)) binding reservation,
      require (ab_attempt_number binding = index)
        (contract_error ''worker attempt numbers are not contiguous''),
      require (ab_retry_parent_attempt_id binding = parent)
        (contract_error ''retry attempt does not name its immediate parent''),
      checks (map (worker_permit_window reservation) (pt_permits attempt)),
      worker_bindings reservation (index + 1) (Some (aa_attempt_id (pt_assignment attempt))) rest]"

definition worker_retry_order :: "WorkerExecutionTranscript \<Rightarrow> perr + unit" where
  "worker_retry_order w =
    checks (map (\<lambda>(previous, candidate).
      checks [
        require (\<not> dt_less (ap_issued_at (hd (pt_permits candidate))) (te_occurred_at (last_event previous)))
          (contract_error ''retry permit overlaps the prior attempt''),
        require (\<not> dt_less (te_occurred_at (hd (pt_events candidate))) (te_occurred_at (last_event previous)))
          (contract_error ''retry attempt overlaps the prior attempt'')])
      (adjacent (wt_attempts w)))"

definition success_indexes :: "AttemptState list \<Rightarrow> nat list" where
  "success_indexes states = filter (\<lambda>i. states ! i = SUCCEEDED) [0..<length states]"

definition worker_success :: "WorkerExecutionTranscript \<Rightarrow> AttemptState list \<Rightarrow> perr + unit" where
  "worker_success w states =
    checks [
      require (\<not> length (success_indexes states) > 1)
        (contract_error ''a Worker cannot have multiple successful attempts''),
      require (\<not> (success_indexes states \<noteq> [] \<and> hd (success_indexes states) \<noteq> length (wt_attempts w) - 1))
        (contract_error ''only the final Worker attempt may succeed'')]"

definition final_settlement :: "WorkerExecutionTranscript \<Rightarrow> WorkerSettlementDecision" where
  "final_settlement w = last (wt_settlements w)"

definition worker_settlements :: "WorkerExecutionTranscript \<Rightarrow> perr + unit" where
  "worker_settlements w =
    checks [
      checks (map (validate_settlement (wt_reservation w)) (wt_settlements w)),
      require (card (set (map sd_decision_id (wt_settlements w))) = length (wt_settlements w))
        (contract_error ''worker settlement IDs are not unique''),
      (if length (wt_settlements w) = 2
       then validate_settlement_supersession (wt_reservation w) (wt_settlements w ! 0) (wt_settlements w ! 1)
       else require (sd_action (hd (wt_settlements w)) \<noteq> HELD_PENDING_CLEANUP)
         (contract_error ''a held Worker settlement is not final'')),
      require (sd_action (final_settlement w) \<noteq> HELD_PENDING_CLEANUP)
        (contract_error ''worker finalizer cannot end with a held settlement'')]"

definition worker_unassigned :: "WorkerExecutionTranscript \<Rightarrow> UnassignedDispatchOutcome \<Rightarrow> perr + unit" where
  "worker_unassigned w outcome =
    checks [
      require (uo_worker_id outcome = cr_worker_id (wt_reservation w))
        (contract_error ''unassigned outcome belongs to another Worker''),
      require (uo_request_digest outcome = cr_request_digest (wt_reservation w))
        (contract_error ''unassigned outcome changes the Worker request''),
      require (sd_action (hd (wt_settlements w)) \<noteq> HELD_PENDING_CLEANUP)
        (contract_error ''an unassigned Worker cannot hold settlement''),
      require (sd_action (final_settlement w) = RELEASED)
        (contract_error ''an unassigned Worker must release its reservation''),
      rbind (UnassignedDispatchOutcome_digest outcome) (\<lambda>d.
        require (sd_worker_outcome_digest (final_settlement w) = d)
          (contract_error ''settlement does not bind the unassigned outcome'')),
      require (\<not> dt_less (sd_decided_at (final_settlement w)) (uo_observed_at outcome))
        (contract_error ''settlement precedes the unassigned outcome'')]"

definition worker_assigned :: "WorkerExecutionTranscript \<Rightarrow> AttemptState list \<Rightarrow> perr + unit" where
  "worker_assigned w states =
    (let last_attempt = last (wt_attempts w); final = final_settlement w in
     checks [
       require (\<not> dt_less (sd_decided_at final) (te_occurred_at (last_event last_attempt)))
         (contract_error ''settlement precedes a child attempt terminal event''),
       (if sd_action final = CHARGED
        then checks [
          require (length (success_indexes states) = 1)
            (contract_error ''a charged Worker requires one successful attempt''),
          require (sd_winning_attempt_id final = Some (aa_attempt_id (pt_assignment last_attempt)))
            (contract_error ''settlement names the wrong winning attempt''),
          rbind (ProviderAttemptTranscript_digest last_attempt) (\<lambda>d.
            require (sd_worker_outcome_digest final = d)
              (contract_error ''settlement does not bind the winning transcript'')),
          require (te_terminal_basis (last_event last_attempt) = Some PROVIDER_ABSENCE)
            (contract_error ''a charged winner requires provider-absence cleanup''),
          require (co_absence_status (pt_cleanup last_attempt) = PROVEN_ABSENT)
            (contract_error ''a charged winner lacks proven cleanup'')]
        else checks [
          require (success_indexes states = [])
            (contract_error ''a successful Worker must settle against its winner''),
          rbind (ProviderAttemptTranscript_digest last_attempt) (\<lambda>d.
            require (sd_worker_outcome_digest final = d)
              (contract_error ''released settlement does not bind the final attempt''))])])"

definition WorkerExecutionTranscript_validate :: "WorkerExecutionTranscript \<Rightarrow> perr + SettlementAction" where
  "WorkerExecutionTranscript_validate w =
    rbind (worker_shape w) (\<lambda>_.
    rbind (rmap ProviderAttemptTranscript_validate (wt_attempts w)) (\<lambda>terminal_states.
    rbind (checks [
      worker_attempt_identities w,
      worker_bindings (wt_reservation w) 1 None (zip (wt_bindings w) (wt_attempts w)),
      worker_retry_order w,
      worker_success w terminal_states,
      worker_settlements w,
      (case wt_unassigned_dispatch w of
         Some outcome \<Rightarrow> worker_unassigned w outcome
       | None \<Rightarrow> worker_assigned w terminal_states)]) (\<lambda>_.
    Inr (sd_action (final_settlement w)))))"

definition worker_document :: "WorkerExecutionTranscript \<Rightarrow> pyval" where
  "worker_document w = PDict
    [(''schema'', PStr ''cathedral_worker_execution_transcript_v1''),
     (''reservation'', CustomerCapReservation_to_document (wt_reservation w)),
     (''bindings'', PList (map AssignmentLedgerBinding_to_document (wt_bindings w))),
     (''attempts'', PList (map attempt_document (wt_attempts w))),
     (''unassigned_dispatch'', opt_doc UnassignedDispatchOutcome_to_document (wt_unassigned_dispatch w)),
     (''settlements'', PList (map WorkerSettlementDecision_to_document (wt_settlements w)))]"

definition WorkerExecutionTranscript_to_document :: "WorkerExecutionTranscript \<Rightarrow> perr + pyval" where
  "WorkerExecutionTranscript_to_document w =
    rbind (WorkerExecutionTranscript_validate w) (\<lambda>_. Inr (worker_document w))"

definition WorkerExecutionTranscript_digest :: "WorkerExecutionTranscript \<Rightarrow> perr + string" where
  "WorkerExecutionTranscript_digest w =
    rbind (WorkerExecutionTranscript_to_document w) canonical_sha256"

definition WorkerExecutionTranscript_canonical_bytes :: "WorkerExecutionTranscript \<Rightarrow> perr + bytes" where
  "WorkerExecutionTranscript_canonical_bytes w =
    rbind (WorkerExecutionTranscript_to_document w) canonical_json_bytes"

definition WorkerExecutionTranscript_from_document :: "pyval \<Rightarrow> perr + WorkerExecutionTranscript" where
  "WorkerExecutionTranscript_from_document document =
    rbind (mapping_with_keys document ''cathedral_worker_execution_transcript_v1''
      [''schema'', ''reservation'', ''bindings'', ''attempts'', ''unassigned_dispatch'', ''settlements'']
      ''worker execution transcript has missing, unknown, or unsupported fields'') (\<lambda>v.
    rbind (list_field ''worker attempts and bindings must be lists'' (dget v ''bindings'')) (\<lambda>bindings.
    rbind (list_field ''worker attempts and bindings must be lists'' (dget v ''attempts'')) (\<lambda>attempts.
    rbind (list_field ''worker settlements must be a list'' (dget v ''settlements'')) (\<lambda>settlements.
    rbind (require (length attempts \<le> MAX_WORKER_ATTEMPTS)
      (contract_error ''worker transcript has too many attempts'')) (\<lambda>_.
    rbind (CustomerCapReservation_from_document (dget v ''reservation'')) (\<lambda>reservation.
    rbind (rmap AssignmentLedgerBinding_from_document bindings) (\<lambda>bindings.
    rbind (rmap ProviderAttemptTranscript_from_document attempts) (\<lambda>attempts.
    rbind (optional_field UnassignedDispatchOutcome_from_document (dget v ''unassigned_dispatch'')) (\<lambda>unassigned.
    rbind (rmap WorkerSettlementDecision_from_document settlements) (\<lambda>settlements.
    let w = \<lparr>wt_reservation = reservation, wt_bindings = bindings, wt_attempts = attempts,
             wt_unassigned_dispatch = unassigned, wt_settlements = settlements\<rparr> in
    rbind (WorkerExecutionTranscript_validate w) (\<lambda>_. Inr w)))))))))))"

definition WorkerExecutionTranscript_from_bytes :: "json_data \<Rightarrow> perr + WorkerExecutionTranscript" where
  "WorkerExecutionTranscript_from_bytes data =
     rbind (parse_canonical_json data) WorkerExecutionTranscript_from_document"

definition WorkerExecutionTranscript_final_settlement :: "WorkerExecutionTranscript \<Rightarrow> perr + WorkerSettlementDecision" where
  "WorkerExecutionTranscript_final_settlement w =
     rbind (WorkerExecutionTranscript_validate w) (\<lambda>_. Inr (final_settlement w))"

definition valid_WorkerExecutionTranscript :: "WorkerExecutionTranscript \<Rightarrow> bool" where
  "valid_WorkerExecutionTranscript w \<longleftrightarrow>
     valid_CustomerCapReservation (wt_reservation w)
     \<and> list_all valid_AssignmentLedgerBinding (wt_bindings w)
     \<and> list_all valid_ProviderAttemptTranscript (wt_attempts w)
     \<and> pred_option valid_UnassignedDispatchOutcome (wt_unassigned_dispatch w)
     \<and> list_all valid_WorkerSettlementDecision (wt_settlements w)
     \<and> (\<exists>a. WorkerExecutionTranscript_validate w = Inr a)"

lemma valid_worker_attempts_length:
  "valid_WorkerExecutionTranscript w \<Longrightarrow> length (wt_attempts w) \<le> MAX_WORKER_ATTEMPTS"
  by (auto simp: valid_WorkerExecutionTranscript_def WorkerExecutionTranscript_validate_def
      worker_shape_def ok_simps)

lemma rebuild_worker:
  "\<lparr>wt_reservation = wt_reservation w, wt_bindings = wt_bindings w, wt_attempts = wt_attempts w,
    wt_unassigned_dispatch = wt_unassigned_dispatch w, wt_settlements = wt_settlements w\<rparr> = w"
  by (cases w) simp

lemmas worker_parts_stored =
  cap_reservation.reads_stored ledger_binding.rmap_stored attempt_transcript.rmap_stored
  unassigned_outcome.optional_stored settlement_decision.rmap_stored documents_not_none comp_def

lemma worker_from_documentE:
  assumes "WorkerExecutionTranscript_from_document d = Inr x"
  obtains kvs bs ts ss where "mapping_items d = Some kvs"
    and "fst ` set kvs = set [''schema'', ''reservation'', ''bindings'', ''attempts'', ''unassigned_dispatch'', ''settlements'']"
    and "dget kvs ''schema'' = PStr ''cathedral_worker_execution_transcript_v1''"
    and "CustomerCapReservation_from_document (dget kvs ''reservation'') = Inr (wt_reservation x)"
    and "dget kvs ''bindings'' = PList bs" "dget kvs ''attempts'' = PList ts" "dget kvs ''settlements'' = PList ss"
    and "rmap AssignmentLedgerBinding_from_document bs = Inr (wt_bindings x)"
    and "rmap ProviderAttemptTranscript_from_document ts = Inr (wt_attempts x)"
    and "optional_field UnassignedDispatchOutcome_from_document (dget kvs ''unassigned_dispatch'')
          = Inr (wt_unassigned_dispatch x)"
    and "rmap WorkerSettlementDecision_from_document ss = Inr (wt_settlements x)"
    and "\<exists>s. WorkerExecutionTranscript_validate x = Inr s"
  using assms unfolding WorkerExecutionTranscript_from_document_def ok_simps Let_def by auto

interpretation worker_transcript:
  document_codec worker_document WorkerExecutionTranscript_from_document valid_WorkerExecutionTranscript
proof
  fix x d
  show "plain_json (worker_document x)" if "valid_WorkerExecutionTranscript x"
    using that by (simp add: worker_document_def valid_WorkerExecutionTranscript_def
        unassigned_outcome.optional_plain attempt_transcript.docs_plain)
  show "WorkerExecutionTranscript_from_document (canon (worker_document x)) = Inr x"
    if x: "valid_WorkerExecutionTranscript x"
  proof -
    note len = valid_worker_attempts_length [OF x]
    from x obtain s where s: "WorkerExecutionTranscript_validate x = Inr s"
      by (auto simp: valid_WorkerExecutionTranscript_def)
    from x show ?thesis
      unfolding WorkerExecutionTranscript_from_document_def worker_document_def
      by (simp add: mapping_with_keys_stored valid_WorkerExecutionTranscript_def worker_parts_stored
          len s Let_def rebuild_worker)
  qed
  show "valid_WorkerExecutionTranscript x" if "WorkerExecutionTranscript_from_document d = Inr x"
    using that
    by (rule worker_from_documentE) (simp add: valid_WorkerExecutionTranscript_def
        cap_reservation.only_valid [of _ "wt_reservation x"] ledger_binding.rmap_valid [of _ "wt_bindings x"]
        attempt_transcript.rmap_valid [of _ "wt_attempts x"]
        unassigned_outcome.optional_valid [of _ "wt_unassigned_dispatch x"]
        settlement_decision.rmap_valid [of _ "wt_settlements x"])
  show "canon d = canon (worker_document x)"
    if plain: "plain_json d" and ok: "WorkerExecutionTranscript_from_document d = Inr x"
  proof -
    from ok obtain kvs bs ts ss where items: "mapping_items d = Some kvs"
      and keys: "fst ` set kvs = set [''schema'', ''reservation'', ''bindings'', ''attempts'', ''unassigned_dispatch'', ''settlements'']"
      and schema: "dget kvs ''schema'' = PStr ''cathedral_worker_execution_transcript_v1''"
      and r: "CustomerCapReservation_from_document (dget kvs ''reservation'') = Inr (wt_reservation x)"
      and lists: "dget kvs ''bindings'' = PList bs" "dget kvs ''attempts'' = PList ts" "dget kvs ''settlements'' = PList ss"
      and bs: "rmap AssignmentLedgerBinding_from_document bs = Inr (wt_bindings x)"
      and ts: "rmap ProviderAttemptTranscript_from_document ts = Inr (wt_attempts x)"
      and u: "optional_field UnassignedDispatchOutcome_from_document (dget kvs ''unassigned_dispatch'')
          = Inr (wt_unassigned_dispatch x)"
      and ss: "rmap WorkerSettlementDecision_from_document ss = Inr (wt_settlements x)"
      by (rule worker_from_documentE)
    note pl = mapping_items_plain_dget [OF plain items]
    from cap_reservation.reads_exactly [OF pl r] ledger_binding.rmap_exact [OF _ bs]
      attempt_transcript.rmap_exact [OF _ ts] settlement_decision.rmap_exact [OF _ ss]
      unassigned_outcome.optional_exact [OF pl u]
      mapping_items_plain_list [OF plain items lists(1)] mapping_items_plain_list [OF plain items lists(2)]
      mapping_items_plain_list [OF plain items lists(3)]
      unassigned_outcome.optional_plain [OF unassigned_outcome.optional_valid [OF u]]
      attempt_transcript.docs_plain [OF attempt_transcript.rmap_valid [OF ts]]
      keys schema lists
    show ?thesis
      unfolding worker_document_def by (intro reads_exactlyI [OF plain items]) (simp_all add: comp_def)
  qed
qed

end
