(* ===== verification/Provider_Sizes.thy ===== *)
theory Provider_Sizes
  imports Provider_Transcript
begin

text \<open>
  Every valid record has canonical bytes: the field validators bound each field, so the
  document always fits the size limit.  The two records with an unbounded integer, the
  permit and the ledger binding, need that integer to be printable.
\<close>

section \<open>Upper bounds on the canonical text\<close>

fun text_bound :: "pyval \<Rightarrow> nat" where
  "text_bound (PInt i) = int_digits i + 1"
| "text_bound (PStr s) = 6 * length s + 2"
| "text_bound (PList vs) = 2 + (\<Sum>v\<leftarrow>vs. text_bound v + 1)"
| "text_bound (PDict kvs) = 2 + (\<Sum>(k, v)\<leftarrow>kvs. 6 * length k + 4 + text_bound v)"
| "text_bound v = 5"

lemma length_json_string_le: "length (json_string s) \<le> 6 * length s + 2"
proof -
  have "length (json_escape c) \<le> 6" for c by (simp add: json_escape_def Let_def)
  then have "length (concat (map json_escape s)) \<le> 6 * length s"
    by (induction s) (auto intro: add_mono [of _ 6 _ "6 * n" for n, simplified])
  then show ?thesis by (simp add: json_string_def)
qed

lemma length_join_comma_le: "length (join_comma ts) \<le> (\<Sum>t\<leftarrow>ts. length t + 1)"
  by (induction ts rule: join_comma.induct) auto

lemma dumps_text_bound: "plain_json v \<Longrightarrow> length (dumps v) \<le> text_bound v"
proof (induction v rule: pyval.induct)
  case (PInt i)
  then show ?case by (auto simp: show_int_def int_digits_def)
next
  case (PStr s)
  then show ?case using length_json_string_le [of s] by simp
next
  case (PList vs)
  have "(\<Sum>t\<leftarrow>map dumps vs. length t + 1) \<le> (\<Sum>v\<leftarrow>vs. text_bound v + 1)"
    using PList by (simp add: comp_def) (intro sum_list_mono, auto simp: list_all_iff)
  with length_join_comma_le [of "map dumps vs"] show ?case by simp
next
  case (PDict kvs)
  let ?ts = "map (\<lambda>(k, v). json_member (k, dumps v)) (sort_key fst kvs)"
  have "(\<Sum>t\<leftarrow>?ts. length t + 1) = (\<Sum>(k, v)\<leftarrow>kvs. length (json_member (k, dumps v)) + 1)"
    by (simp add: comp_def case_prod_unfold sum_list_sort_key)
  also have "\<dots> \<le> (\<Sum>(k, v)\<leftarrow>kvs. 6 * length k + 4 + text_bound v)"
  proof (intro sum_list_mono, clarify)
    fix k v assume kv: "(k, v) \<in> set kvs"
    then have "length (dumps v) \<le> text_bound v" using PDict by (fastforce simp: list_all_iff)
    then show "length (json_member (k, dumps v)) + 1 \<le> 6 * length k + 4 + text_bound v"
      using length_json_string_le [of k] by (simp add: json_member_def)
  qed
  finally show ?case
    using length_join_comma_le [of ?ts] by (simp add: dumps_PDict_sorted del: dumps.simps)
qed auto

lemma canonical_acceptsI:
  assumes "plain_json d" "canonical_shape 1 d" "digits_ok d" "text_bound d \<le> MAX_CANONICAL_BYTES"
  shows "canonical_json_bytes (PObject d) = Inr (encode_ascii (dumps d))"
  using assms dumps_text_bound [OF assms(1)]
  by (simp add: canonical_json_bytes_iff canonical_accepts_def)

lemma length_format_utc: "is_utc d \<Longrightarrow> length (format_utc d) = 27"
proof -
  assume utc: "is_utc d"
  note b = utc_field_bounds [OF utc]
  have "dt_day d < 10 ^ 2" using b(10) by simp
  with b show ?thesis
    by (simp only: format_utc_def length_append list.size length_pad_dec zero_less_numeral)
qed

lemma text_bound_opt_str: "pred_option (\<lambda>s. length s \<le> n) so \<Longrightarrow> text_bound (opt_str so) \<le> 6 * n + 5"
  by (cases so) auto

lemma text_bound_opt_utc: "pred_option is_utc t \<Longrightarrow> text_bound (opt_utc t) \<le> 164"
  by (cases t) (auto simp: length_format_utc)

lemma opt_shape [simp]:
  "canonical_shape d (opt_str so) \<longleftrightarrow> d \<le> 64" "canonical_shape d (opt_utc t) \<longleftrightarrow> d \<le> 64"
  "digits_ok (opt_str so)" "digits_ok (opt_utc t)"
  by (cases so; simp; fail | cases t; simp)+

lemma money_digits: "0 \<le> i \<Longrightarrow> i \<le> MAX_MONEY_MICROS \<Longrightarrow> int_digits i \<le> 19"
  unfolding int_digits_def MAX_MONEY_MICROS_def
  by (rule show_nat_length_le [of _ 18, simplified]) simp

lemma canonical_shape_mono: "canonical_shape d v \<Longrightarrow> d' \<le> d \<Longrightarrow> canonical_shape d' v"
proof (induction v arbitrary: d d' rule: pyval.induct)
  case (PDict kvs)
  then show ?case by (fastforce simp: list_all_iff)
next
  case (PProxy kvs)
  then show ?case by (fastforce simp: list_all_iff)
next
  case (PObject e)
  then show ?case by (metis canonical_shape.simps(7) Suc_le_mono le_trans)
qed (fastforce simp: list_all_iff)+

section \<open>Records have canonical bytes\<close>

lemma pattern_lengths:
  "ID_RE s \<Longrightarrow> length s \<le> 128" "PROFILE_RE s \<Longrightarrow> length s \<le> 256" "HOTKEY_RE s \<Longrightarrow> length s \<le> 128"
  "DIGEST_RE s \<Longrightarrow> length s = 71" "NONCE_RE s \<Longrightarrow> length s = 64"
proof -
  show "DIGEST_RE s \<Longrightarrow> length s = 71" by (cases "length s < 7") (auto simp: DIGEST_RE_def)
qed (simp_all add: text_simps)

lemma enum_lengths:
  "length (ProviderIdentityKind_value k) \<le> 30" "length (SupplyClass_value c) \<le> 30"
  "length (AttemptState_value s) \<le> 30" "length (CleanupPath_value p) \<le> 30"
  "length (ProviderAbsenceStatus_value a) \<le> 30" "length (InterruptionKind_value i) \<le> 30"
  "length (UnassignedDispatchReason_value u) \<le> 30" "length (SettlementAction_value t) \<le> 30"
  "length (TerminalBasis_value b) \<le> 30"
proof -
  show "length (ProviderIdentityKind_value k) \<le> 30" by (cases k) simp_all
  show "length (SupplyClass_value c) \<le> 30" by (cases c) simp_all
  show "length (AttemptState_value s) \<le> 30" by (cases s) simp_all
  show "length (CleanupPath_value p) \<le> 30" by (cases p) simp_all
  show "length (ProviderAbsenceStatus_value a) \<le> 30" by (cases a) simp_all
  show "length (InterruptionKind_value i) \<le> 30" by (cases i) simp_all
  show "length (UnassignedDispatchReason_value u) \<le> 30" by (cases u) simp_all
  show "length (SettlementAction_value t) \<le> 30" by (cases t) simp_all
  show "length (TerminalBasis_value b) \<le> 30" by (cases b) simp_all
qed

lemma provider_document_bounds:
  assumes "valid_ProviderIdentity p"
  shows "text_bound (ProviderIdentity_to_document p) \<le> 3000"
    and "d \<le> 62 \<Longrightarrow> canonical_shape d (ProviderIdentity_to_document p)"
    and "digits_ok (ProviderIdentity_to_document p)"
proof -
  have "pred_option (\<lambda>s. length s \<le> 128) (pi_subnet_hotkey p)" "length (pi_provider_id p) \<le> 128"
    using assms pattern_lengths
    by (auto simp: valid_ProviderIdentity_def ProviderIdentity_post_init_def ok_simps
        split: ProviderIdentityKind.splits option.splits)
  then show "text_bound (ProviderIdentity_to_document p) \<le> 3000"
    using text_bound_opt_str [of 128 "pi_subnet_hotkey p"] enum_lengths(1) [of "pi_kind p"]
    by (simp add: ProviderIdentity_to_document_def)
  show "d \<le> 62 \<Longrightarrow> canonical_shape d (ProviderIdentity_to_document p)"
    "digits_ok (ProviderIdentity_to_document p)"
    by (simp_all add: ProviderIdentity_to_document_def)
qed


lemma assignment_document_bounds:
  assumes "valid_AttemptAssignment x"
  shows "text_bound (AttemptAssignment_to_document x) \<le> 20000"
    and "d \<le> 60 \<Longrightarrow> canonical_shape d (AttemptAssignment_to_document x)"
    and "digits_ok (AttemptAssignment_to_document x)"
proof -
  show "d \<le> 60 \<Longrightarrow> canonical_shape d (AttemptAssignment_to_document x)" "digits_ok (AttemptAssignment_to_document x)"
    using assms provider_document_bounds [of "aa_provider x"]
    by (simp_all add: AttemptAssignment_to_document_def valid_AttemptAssignment_def)
  show "text_bound (AttemptAssignment_to_document x) \<le> 20000"
    using assms provider_document_bounds [of "aa_provider x"]
    unfolding valid_AttemptAssignment_def AttemptAssignment_post_init_def ok_simps
    by (elim conjE) ((drule pattern_lengths length_format_utc)+, simp add: AttemptAssignment_to_document_def)
qed

lemma assignment_encodable:
  assumes "valid_AttemptAssignment x"
  shows "canonical_json_bytes (PObject (AttemptAssignment_to_document x)) = Inr (encode_ascii (dumps (AttemptAssignment_to_document x)))"
  using assignment_document_bounds [OF assms] by (intro canonical_acceptsI) (simp_all add: MAX_CANONICAL_BYTES_def)

lemma interruption_document_bounds:
  assumes "valid_InterruptionOutcome x"
  shows "text_bound (InterruptionOutcome_to_document x) \<le> 20000"
    and "d \<le> 60 \<Longrightarrow> canonical_shape d (InterruptionOutcome_to_document x)"
    and "digits_ok (InterruptionOutcome_to_document x)"
proof -
  show "d \<le> 60 \<Longrightarrow> canonical_shape d (InterruptionOutcome_to_document x)" "digits_ok (InterruptionOutcome_to_document x)"
    using assms provider_document_bounds [of "io_provider x"]
    by (simp_all add: InterruptionOutcome_to_document_def valid_InterruptionOutcome_def)
  show "text_bound (InterruptionOutcome_to_document x) \<le> 20000"
    using assms provider_document_bounds [of "io_provider x"] enum_lengths(6) [of "io_kind x"]
    unfolding valid_InterruptionOutcome_def InterruptionOutcome_post_init_def ok_simps
    by (elim conjE) ((drule pattern_lengths length_format_utc)+, simp add: InterruptionOutcome_to_document_def)
qed

lemma interruption_encodable:
  assumes "valid_InterruptionOutcome x"
  shows "canonical_json_bytes (PObject (InterruptionOutcome_to_document x)) = Inr (encode_ascii (dumps (InterruptionOutcome_to_document x)))"
  using interruption_document_bounds [OF assms] by (intro canonical_acceptsI) (simp_all add: MAX_CANONICAL_BYTES_def)

lemma result_document_bounds:
  assumes "valid_AttemptResult x"
  shows "text_bound (AttemptResult_to_document x) \<le> 20000"
    and "d \<le> 60 \<Longrightarrow> canonical_shape d (AttemptResult_to_document x)"
    and "digits_ok (AttemptResult_to_document x)"
proof -
  show "d \<le> 60 \<Longrightarrow> canonical_shape d (AttemptResult_to_document x)" "digits_ok (AttemptResult_to_document x)"
    using assms
    by (simp_all add: AttemptResult_to_document_def valid_AttemptResult_def)
  show "text_bound (AttemptResult_to_document x) \<le> 20000"
    using assms
    unfolding valid_AttemptResult_def AttemptResult_post_init_def ok_simps
    by (elim conjE) ((drule pattern_lengths length_format_utc)+, simp add: AttemptResult_to_document_def)
qed

lemma result_encodable:
  assumes "valid_AttemptResult x"
  shows "canonical_json_bytes (PObject (AttemptResult_to_document x)) = Inr (encode_ascii (dumps (AttemptResult_to_document x)))"
  using result_document_bounds [OF assms] by (intro canonical_acceptsI) (simp_all add: MAX_CANONICAL_BYTES_def)

lemma unassigned_document_bounds:
  assumes "valid_UnassignedDispatchOutcome x"
  shows "text_bound (UnassignedDispatchOutcome_to_document x) \<le> 20000"
    and "d \<le> 60 \<Longrightarrow> canonical_shape d (UnassignedDispatchOutcome_to_document x)"
    and "digits_ok (UnassignedDispatchOutcome_to_document x)"
proof -
  show "d \<le> 60 \<Longrightarrow> canonical_shape d (UnassignedDispatchOutcome_to_document x)" "digits_ok (UnassignedDispatchOutcome_to_document x)"
    using assms
    by (simp_all add: UnassignedDispatchOutcome_to_document_def valid_UnassignedDispatchOutcome_def)
  show "text_bound (UnassignedDispatchOutcome_to_document x) \<le> 20000"
    using assms enum_lengths(7) [of "uo_reason x"]
    unfolding valid_UnassignedDispatchOutcome_def UnassignedDispatchOutcome_post_init_def ok_simps
    by (elim conjE) ((drule pattern_lengths length_format_utc)+, simp add: UnassignedDispatchOutcome_to_document_def)
qed

lemma unassigned_encodable:
  assumes "valid_UnassignedDispatchOutcome x"
  shows "canonical_json_bytes (PObject (UnassignedDispatchOutcome_to_document x)) = Inr (encode_ascii (dumps (UnassignedDispatchOutcome_to_document x)))"
  using unassigned_document_bounds [OF assms] by (intro canonical_acceptsI) (simp_all add: MAX_CANONICAL_BYTES_def)

lemma idempotency_document_bounds:
  assumes "valid_SubmissionIdempotencyBinding x"
  shows "text_bound (SubmissionIdempotencyBinding_to_document x) \<le> 20000"
    and "d \<le> 60 \<Longrightarrow> canonical_shape d (SubmissionIdempotencyBinding_to_document x)"
    and "digits_ok (SubmissionIdempotencyBinding_to_document x)"
proof -
  show "d \<le> 60 \<Longrightarrow> canonical_shape d (SubmissionIdempotencyBinding_to_document x)" "digits_ok (SubmissionIdempotencyBinding_to_document x)"
    using assms
    by (simp_all add: SubmissionIdempotencyBinding_to_document_def valid_SubmissionIdempotencyBinding_def)
  show "text_bound (SubmissionIdempotencyBinding_to_document x) \<le> 20000"
    using assms
    unfolding valid_SubmissionIdempotencyBinding_def SubmissionIdempotencyBinding_post_init_def ok_simps
    by (elim conjE) ((drule pattern_lengths length_format_utc)+, simp add: SubmissionIdempotencyBinding_to_document_def)
qed

lemma idempotency_encodable:
  assumes "valid_SubmissionIdempotencyBinding x"
  shows "canonical_json_bytes (PObject (SubmissionIdempotencyBinding_to_document x)) = Inr (encode_ascii (dumps (SubmissionIdempotencyBinding_to_document x)))"
  using idempotency_document_bounds [OF assms] by (intro canonical_acceptsI) (simp_all add: MAX_CANONICAL_BYTES_def)


lemma reservation_document_bounds:
  assumes "valid_CustomerCapReservation x"
  shows "text_bound (CustomerCapReservation_to_document x) \<le> 20000"
    and "d \<le> 60 \<Longrightarrow> canonical_shape d (CustomerCapReservation_to_document x)"
    and "digits_ok (CustomerCapReservation_to_document x)"
proof -
  show "d \<le> 60 \<Longrightarrow> canonical_shape d (CustomerCapReservation_to_document x)" "digits_ok (CustomerCapReservation_to_document x)"
    using assms
    money_digits [of "cr_reserved_micros x"]
    by (simp_all add: CustomerCapReservation_to_document_def valid_CustomerCapReservation_def
        CustomerCapReservation_post_init_def ok_simps max_str_digits_def)
  show "text_bound (CustomerCapReservation_to_document x) \<le> 20000"
    using assms money_digits [of "cr_reserved_micros x"]
    unfolding valid_CustomerCapReservation_def CustomerCapReservation_post_init_def ok_simps
    by (elim conjE) ((drule pattern_lengths length_format_utc)+, simp add: CustomerCapReservation_to_document_def)
qed

lemma reservation_encodable:
  assumes "valid_CustomerCapReservation x"
  shows "canonical_json_bytes (PObject (CustomerCapReservation_to_document x)) = Inr (encode_ascii (dumps (CustomerCapReservation_to_document x)))"
  using reservation_document_bounds [OF assms] by (intro canonical_acceptsI) (simp_all add: MAX_CANONICAL_BYTES_def)

lemma permit_document_bounds:
  assumes "valid_AssignmentPermit x" "int_digits (ap_sequence x) \<le> max_str_digits"
  shows "text_bound (AssignmentPermit_to_document x) \<le> 20000"
    and "d \<le> 60 \<Longrightarrow> canonical_shape d (AssignmentPermit_to_document x)"
    and "digits_ok (AssignmentPermit_to_document x)"
proof -
  show "d \<le> 60 \<Longrightarrow> canonical_shape d (AssignmentPermit_to_document x)" "digits_ok (AssignmentPermit_to_document x)"
    using assms
    by (simp_all add: AssignmentPermit_to_document_def valid_AssignmentPermit_def)
  show "text_bound (AssignmentPermit_to_document x) \<le> 20000"
    using assms
    unfolding valid_AssignmentPermit_def AssignmentPermit_post_init_def ok_simps
    by (elim conjE) ((drule pattern_lengths length_format_utc)+, simp add: AssignmentPermit_to_document_def max_str_digits_def)
qed

lemma permit_encodable:
  assumes "valid_AssignmentPermit x" "int_digits (ap_sequence x) \<le> max_str_digits"
  shows "canonical_json_bytes (PObject (AssignmentPermit_to_document x)) = Inr (encode_ascii (dumps (AssignmentPermit_to_document x)))"
  using permit_document_bounds [OF assms] by (intro canonical_acceptsI) (simp_all add: MAX_CANONICAL_BYTES_def)

lemma event_document_bounds:
  assumes "valid_AttemptTransitionEvent x"
  shows "text_bound (AttemptTransitionEvent_to_document x) \<le> 20000"
    and "d \<le> 60 \<Longrightarrow> canonical_shape d (AttemptTransitionEvent_to_document x)"
    and "digits_ok (AttemptTransitionEvent_to_document x)"
proof -
  show "d \<le> 60 \<Longrightarrow> canonical_shape d (AttemptTransitionEvent_to_document x)" "digits_ok (AttemptTransitionEvent_to_document x)"
    by (simp_all add: AttemptTransitionEvent_to_document_def)
  have "pred_option (\<lambda>s. length s \<le> 71) (te_cleanup_outcome_digest x)"
    using assms pattern_lengths(4)
    by (auto simp: valid_AttemptTransitionEvent_def AttemptTransitionEvent_post_init_def ok_simps
        split: option.splits if_splits)
  then have digest: "text_bound (opt_str (te_cleanup_outcome_digest x)) \<le> 431"
    using text_bound_opt_str by fastforce
  have basis: "text_bound (opt_str (map_option TerminalBasis_value (te_terminal_basis x))) \<le> 185"
  proof (cases "te_terminal_basis x")
    case (Some b)
    then show ?thesis by (cases b) simp_all
  qed simp
  show "text_bound (AttemptTransitionEvent_to_document x) \<le> 20000"
    using assms digest basis enum_lengths(3) [of "te_current x"] enum_lengths(3) [of "te_target x"]
    unfolding valid_AttemptTransitionEvent_def AttemptTransitionEvent_post_init_def ok_simps
    by (elim conjE) ((drule pattern_lengths length_format_utc)+,
        simp add: AttemptTransitionEvent_to_document_def)
qed

lemma event_encodable:
  assumes "valid_AttemptTransitionEvent x"
  shows "canonical_json_bytes (PObject (AttemptTransitionEvent_to_document x)) = Inr (encode_ascii (dumps (AttemptTransitionEvent_to_document x)))"
  using event_document_bounds [OF assms] by (intro canonical_acceptsI) (simp_all add: MAX_CANONICAL_BYTES_def)

lemma cleanup_document_bounds:
  assumes "valid_CleanupOutcome x"
  shows "text_bound (CleanupOutcome_to_document x) \<le> 20000"
    and "d \<le> 60 \<Longrightarrow> canonical_shape d (CleanupOutcome_to_document x)"
    and "digits_ok (CleanupOutcome_to_document x)"
proof -
  have prov: "valid_ProviderIdentity (co_provider x)" using assms by (simp add: valid_CleanupOutcome_def)
  then show "d \<le> 60 \<Longrightarrow> canonical_shape d (CleanupOutcome_to_document x)" "digits_ok (CleanupOutcome_to_document x)"
    using provider_document_bounds [of "co_provider x"] by (simp_all add: CleanupOutcome_to_document_def)
  have "pred_option (\<lambda>s. length s \<le> 71) (co_observation_digest x)"
    "pred_option is_utc (co_customer_cleanup_deadline_at x)"
    using assms pattern_lengths(4)
    by (auto simp: valid_CleanupOutcome_def CleanupOutcome_post_init_def ok_simps split: option.splits if_splits)
  then have opts: "text_bound (opt_str (co_observation_digest x)) \<le> 431"
    "text_bound (opt_utc (co_customer_cleanup_deadline_at x)) \<le> 164"
    using text_bound_opt_str text_bound_opt_utc by fastforce+
  show "text_bound (CleanupOutcome_to_document x) \<le> 20000"
    using assms opts enum_lengths(4) [of "co_path x"] enum_lengths(5) [of "co_absence_status x"]
      provider_document_bounds(1) [OF prov]
    unfolding valid_CleanupOutcome_def CleanupOutcome_post_init_def ok_simps
    by (elim conjE) ((drule pattern_lengths length_format_utc)+,
        simp add: CleanupOutcome_to_document_def)
qed

lemma cleanup_encodable:
  assumes "valid_CleanupOutcome x"
  shows "canonical_json_bytes (PObject (CleanupOutcome_to_document x)) = Inr (encode_ascii (dumps (CleanupOutcome_to_document x)))"
  using cleanup_document_bounds [OF assms] by (intro canonical_acceptsI) (simp_all add: MAX_CANONICAL_BYTES_def)

lemma settlement_document_bounds:
  assumes "valid_WorkerSettlementDecision x"
  shows "text_bound (WorkerSettlementDecision_to_document x) \<le> 20000"
    and "d \<le> 60 \<Longrightarrow> canonical_shape d (WorkerSettlementDecision_to_document x)"
    and "digits_ok (WorkerSettlementDecision_to_document x)"
proof -
  note fields = valid_settlement_fields [OF assms] and options = valid_settlement_options [OF assms]
  have "sd_sequence x = 1 \<or> sd_sequence x = 2"
    using fields by (simp add: WorkerSettlementDecision_post_init_def ok_simps)
  then have seq: "int_digits (sd_sequence x) = 1" by (auto simp: int_digits_def)
  have money: "int_digits (sd_reserved_micros x) \<le> 19" "int_digits (sd_charged_micros x) \<le> 19"
    using fields money_digits by blast+
  show "d \<le> 60 \<Longrightarrow> canonical_shape d (WorkerSettlementDecision_to_document x)" "digits_ok (WorkerSettlementDecision_to_document x)"
    using seq money by (simp_all add: WorkerSettlementDecision_to_document_def max_str_digits_def)
  have "text_bound (opt_str (sd_supersedes_digest x)) \<le> 431" "text_bound (opt_str (sd_winning_attempt_id x)) \<le> 773"
    using options pattern_lengths(1,4)
    by (cases "sd_supersedes_digest x"; fastforce) (cases "sd_winning_attempt_id x"; use options pattern_lengths(1) in fastforce)
  then show "text_bound (WorkerSettlementDecision_to_document x) \<le> 20000"
    using fields seq money enum_lengths(8) [of "sd_action x"]
    by (elim conjE) ((drule pattern_lengths length_format_utc)+,
        simp add: WorkerSettlementDecision_to_document_def)
qed

lemma settlement_encodable:
  assumes "valid_WorkerSettlementDecision x"
  shows "canonical_json_bytes (PObject (WorkerSettlementDecision_to_document x)) = Inr (encode_ascii (dumps (WorkerSettlementDecision_to_document x)))"
  using settlement_document_bounds [OF assms] by (intro canonical_acceptsI) (simp_all add: MAX_CANONICAL_BYTES_def)


section \<open>Attempt transcripts have canonical bytes\<close>

text \<open>
  A transcript with few enough permits: the events of a validated transcript are bounded,
  and every other part is a bounded record.
\<close>

lemma sum_bounds: "(\<And>x. x \<in> set xs \<Longrightarrow> f x \<le> (n :: nat)) \<Longrightarrow> (\<Sum>x\<leftarrow>xs. f x) \<le> length xs * n"
  by (induction xs) (fastforce intro: add_le_mono)+

lemma optional_bounds:
  "pred_option valid_InterruptionOutcome i \<Longrightarrow> text_bound (opt_doc InterruptionOutcome_to_document i) \<le> 20000
     \<and> (d \<le> 60 \<longrightarrow> canonical_shape d (opt_doc InterruptionOutcome_to_document i))
     \<and> digits_ok (opt_doc InterruptionOutcome_to_document i)"
  "pred_option valid_AttemptResult r \<Longrightarrow> text_bound (opt_doc AttemptResult_to_document r) \<le> 20000
     \<and> (d \<le> 60 \<longrightarrow> canonical_shape d (opt_doc AttemptResult_to_document r))
     \<and> digits_ok (opt_doc AttemptResult_to_document r)"
  by (cases i; simp add: interruption_document_bounds) (cases r; simp add: result_document_bounds)

lemma attempt_document_bounds:
  assumes t: "valid_ProviderAttemptTranscript t"
    and permits: "length (pt_permits t) \<le> 10" "\<forall>p \<in> set (pt_permits t). int_digits (ap_sequence p) \<le> max_str_digits"
  shows "text_bound (attempt_document t) \<le> 950000"
    and "d \<le> 50 \<Longrightarrow> canonical_shape d (attempt_document t)"
    and "digits_ok (attempt_document t)"
proof -
  note parts = t [unfolded valid_ProviderAttemptTranscript_def list_all_iff]
  have events: "length (pt_events t) \<le> 32"
    using valid_attempt_events_length [OF t] by (simp add: MAX_TRANSCRIPT_EVENTS_def)
  have "(\<Sum>e\<leftarrow>pt_events t. text_bound (AttemptTransitionEvent_to_document e) + 1) \<le> length (pt_events t) * 20001"
    using parts by (intro sum_bounds) (simp add: event_document_bounds)
  with events have e: "(\<Sum>e\<leftarrow>pt_events t. text_bound (AttemptTransitionEvent_to_document e) + 1) \<le> 32 * 20001"
    by (meson le_trans mult_le_mono1)
  have "(\<Sum>p\<leftarrow>pt_permits t. text_bound (AssignmentPermit_to_document p) + 1) \<le> length (pt_permits t) * 20001"
    using parts permits by (intro sum_bounds) (simp add: permit_document_bounds)
  with permits have p: "(\<Sum>p\<leftarrow>pt_permits t. text_bound (AssignmentPermit_to_document p) + 1) \<le> 10 * 20001"
    by (meson le_trans mult_le_mono1)
  show "text_bound (attempt_document t) \<le> 950000"
    using e p parts optional_bounds(1) [of "pt_interruption t" 0] optional_bounds(2) [of "pt_result t" 0]
      assignment_document_bounds [of "pt_assignment t"] cleanup_document_bounds [of "pt_cleanup t"]
    by (simp add: attempt_document_def comp_def)
  show "d \<le> 50 \<Longrightarrow> canonical_shape d (attempt_document t)" "digits_ok (attempt_document t)"
    using parts permits optional_bounds(1) [of "pt_interruption t" "Suc d"] optional_bounds(2) [of "pt_result t" "Suc d"]
      assignment_document_bounds [of "pt_assignment t"] cleanup_document_bounds [of "pt_cleanup t"]
    by (auto simp: attempt_document_def list_all_iff event_document_bounds permit_document_bounds)
qed

lemma attempt_document_encodable:
  assumes t: "valid_ProviderAttemptTranscript t"
    and permits: "length (pt_permits t) \<le> 10" "\<forall>p \<in> set (pt_permits t). int_digits (ap_sequence p) \<le> max_str_digits"
  shows "canonical_json_bytes (attempt_document t) = Inr (encode_ascii (dumps (attempt_document t)))"
proof -
  have "canonical_json_bytes (PObject (attempt_document t)) = Inr (encode_ascii (dumps (attempt_document t)))"
    using attempt_document_bounds [OF assms] attempt_transcript.doc_plain [OF t]
    by (intro canonical_acceptsI) (simp_all add: MAX_CANONICAL_BYTES_def)
  then show ?thesis
    by (auto simp: canonical_json_bytes_iff canonical_accepts_def canonical_shape_mono)
qed

end
