(* ===== verification/Provider_Dispatch.thy ===== *)
theory Provider_Dispatch
  imports Provider_Records
begin

text \<open>
  The dispatch envelope of \<open>provider_contract.py\<close>: everything one provider sees of one
  permit sequence.  The two free-form documents are copied through canonical JSON,
  frozen, searched for private field names at every depth, and bound by digest to the
  assignment; the permit is bound to the assignment.
\<close>

section \<open>Private fields\<close>

definition PROVIDER_FORBIDDEN_FIELD_NAMES :: "string list" where
  "PROVIDER_FORBIDDEN_FIELD_NAMES =
    [''customer_id'', ''customer_subject'', ''customer_subject_digest'', ''worker_id'',
     ''logical_job_id'', ''reservation_id'', ''reserved_micros'', ''charged_micros'',
     ''budget_micros'', ''amount_micros'', ''protected_inputs'', ''secrets'', ''secret_env'',
     ''credentials'', ''bearer_token'', ''api_key'']"

definition private_field_error :: "string \<Rightarrow> perr" where
  "private_field_error key =
    ProviderContractError
      (''provider dispatch field '' @ [CHR 0x27] @ key @ [CHR 0x27] @ '' is private or secret'')
      PRIVATE_FIELD_FORBIDDEN"

fun reject_provider_private_fields :: "pyval \<Rightarrow> perr + unit" where
  "reject_provider_private_fields (PDict kvs) =
    checks (map (\<lambda>(key, child).
      checks [require (to_lower key \<notin> set PROVIDER_FORBIDDEN_FIELD_NAMES) (private_field_error key),
              reject_provider_private_fields child]) kvs)"
| "reject_provider_private_fields (PProxy kvs) =
    checks (map (\<lambda>(key, child).
      checks [require (to_lower key \<notin> set PROVIDER_FORBIDDEN_FIELD_NAMES) (private_field_error key),
              reject_provider_private_fields child]) kvs)"
| "reject_provider_private_fields (PList vs) = checks (map reject_provider_private_fields vs)"
| "reject_provider_private_fields (PTuple vs) = checks (map reject_provider_private_fields vs)"
| "reject_provider_private_fields _ = Inr ()"

text \<open>A field name occurring anywhere in a document.\<close>

inductive has_field :: "pyval \<Rightarrow> string \<Rightarrow> bool" where
  dict_key: "(k, v) \<in> set kvs \<Longrightarrow> has_field (PDict kvs) k"
| dict_value: "(k, v) \<in> set kvs \<Longrightarrow> has_field v f \<Longrightarrow> has_field (PDict kvs) f"
| proxy_key: "(k, v) \<in> set kvs \<Longrightarrow> has_field (PProxy kvs) k"
| proxy_value: "(k, v) \<in> set kvs \<Longrightarrow> has_field v f \<Longrightarrow> has_field (PProxy kvs) f"
| list_element: "v \<in> set vs \<Longrightarrow> has_field v f \<Longrightarrow> has_field (PList vs) f"
| tuple_element: "v \<in> set vs \<Longrightarrow> has_field v f \<Longrightarrow> has_field (PTuple vs) f"

inductive_simps has_field_simps [simp]:
  "has_field (PDict kvs) f" "has_field (PProxy kvs) f" "has_field (PList vs) f" "has_field (PTuple vs) f"
  "has_field PNone f" "has_field (PBool b) f" "has_field (PInt i) f" "has_field (PFloat t) f"
  "has_field (PStr s) f" "has_field (PObject d) f" "has_field (POther t) f"

lemma reject_private_ok_iff:
  "reject_provider_private_fields v = Inr () \<longleftrightarrow>
     (\<forall>f. has_field v f \<longrightarrow> to_lower f \<notin> set PROVIDER_FORBIDDEN_FIELD_NAMES)"
proof (induction v rule: pyval.induct)
  case (PDict kvs)
  have "reject_provider_private_fields v = Inr () \<longleftrightarrow>
      (\<forall>f. has_field v f \<longrightarrow> to_lower f \<notin> set PROVIDER_FORBIDDEN_FIELD_NAMES)"
    if "(k, v) \<in> set kvs" for k v
    using PDict [OF that] by simp
  then show ?case by (auto simp: ok_simps split: prod.splits) blast+
next
  case (PProxy kvs)
  have "reject_provider_private_fields v = Inr () \<longleftrightarrow>
      (\<forall>f. has_field v f \<longrightarrow> to_lower f \<notin> set PROVIDER_FORBIDDEN_FIELD_NAMES)"
    if "(k, v) \<in> set kvs" for k v
    using PProxy [OF that] by simp
  then show ?case by (auto simp: ok_simps split: prod.splits) blast+
qed (auto simp: ok_simps)

section \<open>Freezing\<close>

fun freeze_canonical_value :: "pyval \<Rightarrow> pyval" where
  "freeze_canonical_value (PDict kvs) = PProxy (map (\<lambda>(k, v). (k, freeze_canonical_value v)) kvs)"
| "freeze_canonical_value (PList vs) = PTuple (map freeze_canonical_value vs)"
| "freeze_canonical_value v = v"

fun thaw_canonical_value :: "pyval \<Rightarrow> pyval" where
  "thaw_canonical_value (PDict kvs) = PDict (map (\<lambda>(k, v). (k, thaw_canonical_value v)) kvs)"
| "thaw_canonical_value (PProxy kvs) = PDict (map (\<lambda>(k, v). (k, thaw_canonical_value v)) kvs)"
| "thaw_canonical_value (PTuple vs) = PList (map thaw_canonical_value vs)"
| "thaw_canonical_value v = v"

fun require_dict :: "string \<Rightarrow> pyval \<Rightarrow> perr + unit" where
  "require_dict label (PDict kvs) = Inr ()"
| "require_dict label _ = Inl (contract_error (label @ '' must be a canonical object''))"

definition frozen_canonical_mapping :: "string \<Rightarrow> pyval \<Rightarrow> perr + pyval" where
  "frozen_canonical_mapping label v =
    (case mapping_items v of
       None \<Rightarrow> Inl (contract_error (label @ '' must be a canonical object''))
     | Some _ \<Rightarrow>
         rbind (canonical_json_bytes v) (\<lambda>bs.
         rbind (parse_canonical_json (DataBytes bs)) (\<lambda>copied.
         rbind (require_dict label copied) (\<lambda>_.
           Inr (freeze_canonical_value copied)))))"

lemma require_dict_ok_iff [ok_simps]: "require_dict l v = Inr u \<longleftrightarrow> (\<exists>kvs. v = PDict kvs)"
  by (cases v) auto

lemma thaw_freeze: "is_json v \<Longrightarrow> thaw_canonical_value (freeze_canonical_value v) = v"
proof (induction v rule: pyval.induct)
  case (PDict kvs)
  then show ?case by (force simp: list_all_iff intro!: map_idI)
qed (auto simp: list_all_iff intro!: map_idI)

lemma norm_freeze: "is_json v \<Longrightarrow> norm (freeze_canonical_value v) = v"
proof (induction v rule: pyval.induct)
  case (PDict kvs)
  then show ?case by (force simp: list_all_iff intro!: map_idI)
qed (auto simp: list_all_iff intro!: map_idI)

lemma has_field_freeze: "is_json v \<Longrightarrow> has_field (freeze_canonical_value v) f \<longleftrightarrow> has_field v f"
proof (induction v rule: pyval.induct)
  case (PDict kvs)
  then show ?case by (fastforce simp: list_all_iff)
qed (fastforce simp: list_all_iff)+

section \<open>The dispatch envelope\<close>

record ProviderDispatchEnvelope =
  de_assignment :: AttemptAssignment
  de_workload_manifest :: pyval
  de_policy_document :: pyval
  de_permit :: AssignmentPermit

definition ProviderDispatchEnvelope_to_document :: "ProviderDispatchEnvelope \<Rightarrow> pyval" where
  "ProviderDispatchEnvelope_to_document e = PDict
    [(''schema'', PStr ''cathedral_provider_dispatch_envelope_v1''),
     (''assignment'', AttemptAssignment_to_document (de_assignment e)),
     (''workload_manifest'', thaw_canonical_value (de_workload_manifest e)),
     (''policy_document'', thaw_canonical_value (de_policy_document e)),
     (''permit'', AssignmentPermit_to_document (de_permit e))]"

text \<open>The constructor: \<open>__post_init__\<close> replaces the two documents by frozen copies.\<close>

definition ProviderDispatchEnvelope_init ::
  "AttemptAssignment \<Rightarrow> pyval \<Rightarrow> pyval \<Rightarrow> AssignmentPermit \<Rightarrow> perr + ProviderDispatchEnvelope" where
  "ProviderDispatchEnvelope_init assignment manifest policy permit =
    rbind (frozen_canonical_mapping ''workload_manifest'' manifest) (\<lambda>workload_manifest.
    rbind (frozen_canonical_mapping ''policy_document'' policy) (\<lambda>policy_document.
    rbind (reject_provider_private_fields workload_manifest) (\<lambda>_.
    rbind (reject_provider_private_fields policy_document) (\<lambda>_.
    let e = \<lparr>de_assignment = assignment, de_workload_manifest = workload_manifest,
             de_policy_document = policy_document, de_permit = permit\<rparr> in
    rbind (canonical_sha256 workload_manifest) (\<lambda>d.
    rbind (require (d = aa_workload_manifest_digest assignment)
      (ProviderContractError ''workload manifest digest does not match the assignment'' DIGEST_MISMATCH)) (\<lambda>_.
    rbind (canonical_sha256 policy_document) (\<lambda>d.
    rbind (require (d = aa_policy_digest assignment)
      (ProviderContractError ''policy document digest does not match the assignment'' DIGEST_MISMATCH)) (\<lambda>_.
    rbind (AttemptAssignment_digest assignment) (\<lambda>d.
    rbind (require (ap_assignment_digest permit = d)
      (ProviderContractError ''dispatch permit authorizes a different assignment'' PERMIT_ASSIGNMENT_MISMATCH)) (\<lambda>_.
    rbind (canonical_json_bytes (ProviderDispatchEnvelope_to_document e)) (\<lambda>_.
    Inr e)))))))))))"

definition valid_ProviderDispatchEnvelope :: "ProviderDispatchEnvelope \<Rightarrow> bool" where
  "valid_ProviderDispatchEnvelope e \<longleftrightarrow>
     valid_AttemptAssignment (de_assignment e) \<and> valid_AssignmentPermit (de_permit e)
     \<and> ProviderDispatchEnvelope_init (de_assignment e) (de_workload_manifest e)
          (de_policy_document e) (de_permit e) = Inr e"

definition ProviderDispatchEnvelope_canonical_bytes :: "ProviderDispatchEnvelope \<Rightarrow> perr + bytes" where
  "ProviderDispatchEnvelope_canonical_bytes e =
     canonical_json_bytes (ProviderDispatchEnvelope_to_document e)"

definition ProviderDispatchEnvelope_digest :: "ProviderDispatchEnvelope \<Rightarrow> perr + string" where
  "ProviderDispatchEnvelope_digest e = canonical_sha256 (ProviderDispatchEnvelope_to_document e)"

definition ProviderDispatchEnvelope_validate :: "ProviderDispatchEnvelope \<Rightarrow> datetime \<Rightarrow> perr + unit" where
  "ProviderDispatchEnvelope_validate e observed_at =
     validate_assignment_permit (de_assignment e) (de_permit e) observed_at"

definition ProviderDispatchEnvelope_from_document :: "pyval \<Rightarrow> perr + ProviderDispatchEnvelope" where
  "ProviderDispatchEnvelope_from_document document =
    rbind (require_keys document ''cathedral_provider_dispatch_envelope_v1''
      [''schema'', ''assignment'', ''workload_manifest'', ''policy_document'', ''permit'']
      ''provider dispatch envelope'') (\<lambda>v.
    rbind (AttemptAssignment_from_document (dget v ''assignment'')) (\<lambda>assignment.
    rbind (frozen_canonical_mapping ''workload_manifest'' (dget v ''workload_manifest'')) (\<lambda>manifest.
    rbind (frozen_canonical_mapping ''policy_document'' (dget v ''policy_document'')) (\<lambda>policy.
    rbind (AssignmentPermit_from_document (dget v ''permit'')) (\<lambda>permit.
    ProviderDispatchEnvelope_init assignment manifest policy permit)))))"

definition ProviderDispatchEnvelope_from_bytes :: "json_data \<Rightarrow> perr + ProviderDispatchEnvelope" where
  "ProviderDispatchEnvelope_from_bytes data =
     rbind (parse_canonical_json data) ProviderDispatchEnvelope_from_document"

subsection \<open>Frozen copies\<close>

text \<open>
  A frozen copy is the freeze of a stored object; freezing it again changes nothing.
\<close>

definition stored_object :: "pyval \<Rightarrow> bool" where
  "stored_object d \<longleftrightarrow> is_json d \<and> canon d = d \<and> canonical_accepts d \<and> (\<exists>kvs. d = PDict kvs)"

lemma frozen_stored:
  "frozen_canonical_mapping l v = Inr m \<Longrightarrow> \<exists>d. stored_object d \<and> m = freeze_canonical_value d"
  unfolding stored_object_def
  by (fastforce simp: frozen_canonical_mapping_def ok_simps parse_canonical_json_iff canonical_json_bytes_iff
      split: option.splits)

lemma frozen_copy:
  assumes v: "distinct_keys v" "mapping_items v \<noteq> None" "norm v = d" "canonical_accepts v"
    and d: "stored_object d"
  shows "frozen_canonical_mapping l v = Inr (freeze_canonical_value d)"
proof -
  from v obtain bs where bs: "canonical_json_bytes v = Inr bs" by (auto simp: canonical_json_bytes_iff)
  from parse_canonical_bytes [OF v(1) bs] v(3) d
  have "parse_canonical_json (DataBytes bs) = Inr d" by (simp add: stored_object_def)
  with v(2) bs d show ?thesis by (auto simp: frozen_canonical_mapping_def stored_object_def)
qed

lemma canonical_shape_freeze: "is_json v \<Longrightarrow> canonical_shape d (freeze_canonical_value v) = canonical_shape d v"
proof (induction v arbitrary: d rule: pyval.induct)
  case (PDict kvs)
  then show ?case by (fastforce simp: list_all_iff)
qed (auto simp: list_all_iff)

lemma distinct_keys_freeze: "is_json v \<Longrightarrow> distinct_keys (freeze_canonical_value v)"
proof (induction v rule: pyval.induct)
  case (PDict kvs)
  then show ?case by (fastforce simp: list_all_iff comp_def case_prod_unfold)
qed (auto simp: list_all_iff)

lemma canonical_accepts_freeze:
  "is_json d \<Longrightarrow> canonical_accepts (freeze_canonical_value d) = canonical_accepts d"
  by (simp add: canonical_accepts_def canonical_shape_freeze norm_freeze)

lemma refrozen:
  assumes "stored_object d"
  shows "frozen_canonical_mapping l (freeze_canonical_value d) = Inr (freeze_canonical_value d)"
    and "frozen_canonical_mapping l d = Inr (freeze_canonical_value d)"
proof -
  from assms have d: "is_json d" "canonical_accepts d" by (auto simp: stored_object_def)
  from assms have items: "mapping_items d \<noteq> None" "mapping_items (freeze_canonical_value d) \<noteq> None"
    by (auto simp: stored_object_def)
  show "frozen_canonical_mapping l (freeze_canonical_value d) = Inr (freeze_canonical_value d)"
    by (intro frozen_copy assms items) (simp_all add: d distinct_keys_freeze norm_freeze canonical_accepts_freeze)
  show "frozen_canonical_mapping l d = Inr (freeze_canonical_value d)"
    by (intro frozen_copy assms items) (simp_all add: d json_distinct_keys)
qed

lemma frozen_plain:
  assumes "plain_json v" "frozen_canonical_mapping l v = Inr m"
  shows "m = freeze_canonical_value (canon v)" and "is_json (canon v)"
proof -
  from assms(2) obtain bs d where bs: "canonical_json_bytes v = Inr bs"
    and d: "parse_canonical_json (DataBytes bs) = Inr d" and m: "m = freeze_canonical_value d"
    by (auto simp: frozen_canonical_mapping_def ok_simps split: option.splits)
  from parse_canonical_bytes [OF _ bs] d assms(1) have "d = canon v" by (simp add: plain_json_distinct)
  with m d show "m = freeze_canonical_value (canon v)" "is_json (canon v)"
    by (auto simp: parse_canonical_json_iff)
qed

subsection \<open>The envelope is a codec\<close>

definition envelope_documents :: "ProviderDispatchEnvelope \<Rightarrow> pyval \<Rightarrow> pyval \<Rightarrow> bool" where
  "envelope_documents e m p \<longleftrightarrow>
     stored_object m \<and> stored_object p
     \<and> de_workload_manifest e = freeze_canonical_value m \<and> de_policy_document e = freeze_canonical_value p"

lemma envelope_init_result:
  assumes "ProviderDispatchEnvelope_init a m p permit = Inr e"
  shows "de_assignment e = a" "de_permit e = permit"
    and "frozen_canonical_mapping ''workload_manifest'' m = Inr (de_workload_manifest e)"
    and "frozen_canonical_mapping ''policy_document'' p = Inr (de_policy_document e)"
  using assms by (auto simp: ProviderDispatchEnvelope_init_def ok_simps Let_def)

lemma envelope_init_bound:
  assumes "ProviderDispatchEnvelope_init a m p permit = Inr e"
  shows "reject_provider_private_fields (de_workload_manifest e) = Inr ()"
    and "reject_provider_private_fields (de_policy_document e) = Inr ()"
    and "canonical_sha256 (de_workload_manifest e) = Inr (aa_workload_manifest_digest a)"
    and "canonical_sha256 (de_policy_document e) = Inr (aa_policy_digest a)"
    and "AttemptAssignment_digest a = Inr (ap_assignment_digest permit)"
  using assms by (auto simp: ProviderDispatchEnvelope_init_def ok_simps Let_def)

lemma envelope_init_documents:
  assumes "ProviderDispatchEnvelope_init a m p permit = Inr e"
  shows "\<exists>m' p'. envelope_documents e m' p'"
  using frozen_stored [OF envelope_init_result(3) [OF assms]]
    frozen_stored [OF envelope_init_result(4) [OF assms]]
  by (auto simp: envelope_documents_def)

lemma envelope_init_again:
  assumes "ProviderDispatchEnvelope_init a m p permit = Inr e"
  shows "ProviderDispatchEnvelope_init a (de_workload_manifest e) (de_policy_document e) permit = Inr e"
proof -
  from envelope_init_documents [OF assms] obtain m' p' where d: "envelope_documents e m' p'" by blast
  then have "frozen_canonical_mapping ''workload_manifest'' (de_workload_manifest e) = Inr (de_workload_manifest e)"
    "frozen_canonical_mapping ''policy_document'' (de_policy_document e) = Inr (de_policy_document e)"
    by (auto simp: envelope_documents_def refrozen)
  with assms envelope_init_result [OF assms] show ?thesis
    unfolding ProviderDispatchEnvelope_init_def by simp
qed

lemma valid_envelope_documents:
  "valid_ProviderDispatchEnvelope e \<Longrightarrow> \<exists>m p. envelope_documents e m p"
  by (auto simp: valid_ProviderDispatchEnvelope_def dest: envelope_init_documents)

lemma envelope_documents_thaw:
  "envelope_documents e m p \<Longrightarrow>
    thaw_canonical_value (de_workload_manifest e) = m \<and> thaw_canonical_value (de_policy_document e) = p
    \<and> is_json m \<and> is_json p \<and> canon m = m \<and> canon p = p"
  by (simp add: envelope_documents_def stored_object_def thaw_freeze)

interpretation dispatch_envelope:
  document_codec ProviderDispatchEnvelope_to_document ProviderDispatchEnvelope_from_document
    valid_ProviderDispatchEnvelope
proof
  fix x d
  show "plain_json (ProviderDispatchEnvelope_to_document x)" if "valid_ProviderDispatchEnvelope x"
    using valid_envelope_documents [OF that]
    by (auto simp: ProviderDispatchEnvelope_to_document_def is_json_plain dest!: envelope_documents_thaw)
  show "ProviderDispatchEnvelope_from_document (canon (ProviderDispatchEnvelope_to_document x)) = Inr x"
    if x: "valid_ProviderDispatchEnvelope x"
  proof -
    from valid_envelope_documents [OF x] obtain m p where d: "envelope_documents x m p" by blast
    note t = envelope_documents_thaw [OF d]
    have "frozen_canonical_mapping ''workload_manifest'' m = Inr (de_workload_manifest x)"
      "frozen_canonical_mapping ''policy_document'' p = Inr (de_policy_document x)"
      using d by (auto simp: envelope_documents_def refrozen)
    with x t show ?thesis
      unfolding ProviderDispatchEnvelope_from_document_def ProviderDispatchEnvelope_to_document_def
      by (simp add: require_keys_stored valid_ProviderDispatchEnvelope_def
          attempt_assignment.reads_stored assignment_permit.reads_stored)
  qed
  show "valid_ProviderDispatchEnvelope x" if "ProviderDispatchEnvelope_from_document d = Inr x"
  proof -
    from that obtain kvs a m p permit where
      "AttemptAssignment_from_document (dget kvs ''assignment'') = Inr a"
      "AssignmentPermit_from_document (dget kvs ''permit'') = Inr permit"
      and init: "ProviderDispatchEnvelope_init a m p permit = Inr x"
      unfolding ProviderDispatchEnvelope_from_document_def ok_simps by blast
    then have "valid_AttemptAssignment a" "valid_AssignmentPermit permit"
      by (blast dest: attempt_assignment.only_valid assignment_permit.only_valid)+
    then show ?thesis
      using envelope_init_result [OF init] envelope_init_again [OF init]
      by (simp add: valid_ProviderDispatchEnvelope_def)
  qed
  show "canon d = canon (ProviderDispatchEnvelope_to_document x)"
    if plain: "plain_json d" and ok: "ProviderDispatchEnvelope_from_document d = Inr x"
  proof -
    from ok obtain kvs a m p permit where items: "mapping_items d = Some kvs"
      and keys: "fst ` set kvs = set [''schema'', ''assignment'', ''workload_manifest'', ''policy_document'', ''permit'']"
      and schema: "dget kvs ''schema'' = PStr ''cathedral_provider_dispatch_envelope_v1''"
      and a: "AttemptAssignment_from_document (dget kvs ''assignment'') = Inr a"
      and m: "frozen_canonical_mapping ''workload_manifest'' (dget kvs ''workload_manifest'') = Inr m"
      and p: "frozen_canonical_mapping ''policy_document'' (dget kvs ''policy_document'') = Inr p"
      and permit: "AssignmentPermit_from_document (dget kvs ''permit'') = Inr permit"
      and init: "ProviderDispatchEnvelope_init a m p permit = Inr x"
      unfolding ProviderDispatchEnvelope_from_document_def ok_simps by blast
    note pl = mapping_items_plain_dget [OF plain items]
    from frozen_stored [OF m] frozen_stored [OF p] envelope_init_result(3,4) [OF init]
    have same: "de_workload_manifest x = m" "de_policy_document x = p" by (auto simp: refrozen)
    have docs: "thaw_canonical_value m = canon (dget kvs ''workload_manifest'')"
      "thaw_canonical_value p = canon (dget kvs ''policy_document'')"
      using frozen_plain [OF pl m] frozen_plain [OF pl p] by (simp_all add: thaw_freeze)
    have "plain_json (canon (dget kvs ''workload_manifest''))" "plain_json (canon (dget kvs ''policy_document''))"
      using frozen_plain(2) [OF pl m] frozen_plain(2) [OF pl p] by (simp_all add: is_json_plain)
    then show ?thesis
      using keys schema envelope_init_result(1,2) [OF init]
        attempt_assignment.reads_exactly [OF pl a] assignment_permit.reads_exactly [OF pl permit]
      unfolding ProviderDispatchEnvelope_to_document_def same docs
      by (intro reads_exactlyI [OF plain items]) (simp_all add: canon_idem)
  qed
qed

end
