(* ===== verification/Provider_Protocol.thy ===== *)
theory Provider_Protocol
  imports Provider_Sizes Provider_Dispatch
begin

text \<open>
  What validated transcripts guarantee.  The attempt state machine is an inductive run
  relation over the transition table; a validated attempt transcript is a run from
  \<open>DISPATCH_PENDING\<close> to its terminal state, and the table alone decides how long a run is
  and which states a successful one visits.  A validated Worker transcript settles
  exactly as its last attempt ended.
\<close>

section \<open>Runs of the attempt state machine\<close>

fun attempt_rank :: "AttemptState \<Rightarrow> nat" where
  "attempt_rank DISPATCH_PENDING = 0"
| "attempt_rank SLOT_CLAIMED = 1"
| "attempt_rank ASSIGNMENT_SENT = 2"
| "attempt_rank ACKNOWLEDGED = 3"
| "attempt_rank ATTESTING = 4"
| "attempt_rank RUNNING = 5"
| "attempt_rank RESULT_RECEIVED = 6"
| "attempt_rank EVIDENCE_VERIFIED = 7"
| "attempt_rank EVIDENCE_REJECTED = 7"
| "attempt_rank SUCCESS_CLEANUP_PENDING = 8"
| "attempt_rank FAILURE_CLEANUP_PENDING = 9"
| "attempt_rank CANCEL_CLEANUP_PENDING = 9"
| "attempt_rank INTERRUPT_CLEANUP_PENDING = 9"
| "attempt_rank SUCCEEDED = 10"
| "attempt_rank FAILED = 10"
| "attempt_rank CANCELLED = 10"
| "attempt_rank INTERRUPTED = 10"

inductive attempt_run :: "AttemptState \<Rightarrow> AttemptState list \<Rightarrow> AttemptState \<Rightarrow> bool" where
  run_end: "attempt_run s [] s"
| run_step: "t \<in> set (ALLOWED_ATTEMPT_TRANSITIONS s) \<Longrightarrow> attempt_run t ts u \<Longrightarrow> attempt_run s (t # ts) u"

inductive_cases attempt_runE: "attempt_run s (t # ts) u"
inductive_simps attempt_run_simps: "attempt_run s [] u" "attempt_run s (t # ts) u"

lemma allowed_transition_rank:
  "t \<in> set (ALLOWED_ATTEMPT_TRANSITIONS s) \<Longrightarrow> attempt_rank s < attempt_rank t"
  by (cases s) (auto simp: ALLOWED_ATTEMPT_TRANSITIONS_def ABORTABLE_BEFORE_RESULT_def)

lemma no_transition_iff_terminal:
  "ALLOWED_ATTEMPT_TRANSITIONS s = [] \<longleftrightarrow> s \<in> set TERMINAL_ATTEMPT_STATES"
  by (cases s) (simp_all add: ALLOWED_ATTEMPT_TRANSITIONS_def ABORTABLE_BEFORE_RESULT_def TERMINAL_ATTEMPT_STATES_def)

lemma attempt_run_rank: "attempt_run s ts u \<Longrightarrow> attempt_rank s + length ts \<le> attempt_rank u"
  by (induction rule: attempt_run.induct) (auto dest: allowed_transition_rank)

lemma attempt_rank_le: "attempt_rank s \<le> 10"
  by (cases s) simp_all

text \<open>The states on the way to success, from each state that can still succeed.\<close>

fun success_path :: "AttemptState \<Rightarrow> AttemptState list option" where
  "success_path DISPATCH_PENDING = Some [SLOT_CLAIMED, ASSIGNMENT_SENT, ACKNOWLEDGED, ATTESTING, RUNNING,
     RESULT_RECEIVED, EVIDENCE_VERIFIED, SUCCESS_CLEANUP_PENDING, SUCCEEDED]"
| "success_path SLOT_CLAIMED = Some [ASSIGNMENT_SENT, ACKNOWLEDGED, ATTESTING, RUNNING,
     RESULT_RECEIVED, EVIDENCE_VERIFIED, SUCCESS_CLEANUP_PENDING, SUCCEEDED]"
| "success_path ASSIGNMENT_SENT = Some [ACKNOWLEDGED, ATTESTING, RUNNING,
     RESULT_RECEIVED, EVIDENCE_VERIFIED, SUCCESS_CLEANUP_PENDING, SUCCEEDED]"
| "success_path ACKNOWLEDGED = Some [ATTESTING, RUNNING,
     RESULT_RECEIVED, EVIDENCE_VERIFIED, SUCCESS_CLEANUP_PENDING, SUCCEEDED]"
| "success_path ATTESTING = Some [RUNNING,
     RESULT_RECEIVED, EVIDENCE_VERIFIED, SUCCESS_CLEANUP_PENDING, SUCCEEDED]"
| "success_path RUNNING = Some [RESULT_RECEIVED, EVIDENCE_VERIFIED, SUCCESS_CLEANUP_PENDING, SUCCEEDED]"
| "success_path RESULT_RECEIVED = Some [EVIDENCE_VERIFIED, SUCCESS_CLEANUP_PENDING, SUCCEEDED]"
| "success_path EVIDENCE_VERIFIED = Some [SUCCESS_CLEANUP_PENDING, SUCCEEDED]"
| "success_path SUCCESS_CLEANUP_PENDING = Some [SUCCEEDED]"
| "success_path SUCCEEDED = Some []"
| "success_path _ = None"

lemma run_to_success: "attempt_run s ts SUCCEEDED \<Longrightarrow> success_path s = Some ts"
proof (induction s ts SUCCEEDED rule: attempt_run.induct)
  case (run_step t s ts)
  then show ?case
    by (cases s) (auto simp: ALLOWED_ATTEMPT_TRANSITIONS_def ABORTABLE_BEFORE_RESULT_def)
qed simp

section \<open>A validated attempt transcript is a run\<close>

lemma adjacent_Cons2: "adjacent (x # y # zs) = (x, y) # adjacent (y # zs)"
  by (simp add: adjacent_def)

lemma adjacent_single [simp]: "adjacent [x] = []" "adjacent [] = []"
  by (simp_all add: adjacent_def)

lemma chain_run:
  assumes "es \<noteq> []" "\<forall>e \<in> set es. te_target e \<in> set (ALLOWED_ATTEMPT_TRANSITIONS (te_current e))"
    and "\<forall>(p, n) \<in> set (adjacent es). te_current n = te_target p"
  shows "attempt_run (te_current (hd es)) (map te_target es) (te_target (last es))"
  using assms
proof (induction es rule: list_nonempty_induct)
  case (single e)
  then show ?case by (simp add: attempt_run_simps)
next
  case (cons e es)
  then obtain e' es' where es: "es = e' # es'" by (cases es) auto
  with cons show ?case by (auto simp: adjacent_Cons2 attempt_run_simps)
qed

lemma valid_event_allowed:
  "valid_AttemptTransitionEvent e \<Longrightarrow> te_target e \<in> set (ALLOWED_ATTEMPT_TRANSITIONS (te_current e))"
  by (auto simp: valid_AttemptTransitionEvent_def AttemptTransitionEvent_post_init_def ok_simps)

lemma attempt_validate_parts:
  "ProviderAttemptTranscript_validate t = Inr s \<longleftrightarrow>
     transcript_permits t = Inr () \<and> transcript_events t = Inr () \<and> transcript_dispatch_windows t = Inr ()
     \<and> transcript_renewals t = Inr () \<and> transcript_terminal t = Inr () \<and> transcript_result t = Inr ()
     \<and> transcript_interruption t = Inr () \<and> s = te_target (last_event t)"
  by (auto simp: ProviderAttemptTranscript_validate_def ok_simps)

lemma transcript_events_chain:
  "transcript_events t = Inr () \<Longrightarrow>
     pt_events t \<noteq> [] \<and> te_current (hd (pt_events t)) = DISPATCH_PENDING
     \<and> (\<forall>(p, n) \<in> set (adjacent (pt_events t)).
          te_current n = te_target p \<and> dt_le (te_occurred_at p) (te_occurred_at n))"
  by (fastforce simp: transcript_events_def ok_simps)

lemma validated_attempt_run:
  assumes "list_all valid_AttemptTransitionEvent (pt_events t)" "ProviderAttemptTranscript_validate t = Inr s"
  shows "attempt_run DISPATCH_PENDING (map te_target (pt_events t)) s"
proof -
  have ev: "transcript_events t = Inr ()" "s = te_target (last_event t)"
    using assms(2) by (simp_all add: attempt_validate_parts)
  note chain = transcript_events_chain [OF ev(1)]
  have "attempt_run (te_current (hd (pt_events t))) (map te_target (pt_events t)) (te_target (last (pt_events t)))"
    using chain assms(1) by (intro chain_run) (auto simp: list_all_iff valid_event_allowed)
  with chain ev(2) show ?thesis by (simp add: last_event_def)
qed

lemma validated_terminal:
  "ProviderAttemptTranscript_validate t = Inr s \<Longrightarrow> s \<in> set TERMINAL_ATTEMPT_STATES"
  by (auto simp: attempt_validate_parts transcript_terminal_def ok_simps)

lemma validated_success_path:
  assumes "list_all valid_AttemptTransitionEvent (pt_events t)" "ProviderAttemptTranscript_validate t = Inr SUCCEEDED"
  shows "map te_target (pt_events t) = [SLOT_CLAIMED, ASSIGNMENT_SENT, ACKNOWLEDGED, ATTESTING, RUNNING,
     RESULT_RECEIVED, EVIDENCE_VERIFIED, SUCCESS_CLEANUP_PENDING, SUCCEEDED]"
  using run_to_success [OF validated_attempt_run [OF assms]] by simp

lemma validated_events_bound:
  assumes "list_all valid_AttemptTransitionEvent (pt_events t)" "ProviderAttemptTranscript_validate t = Inr s"
  shows "length (pt_events t) \<le> 10"
  using attempt_run_rank [OF validated_attempt_run [OF assms]] attempt_rank_le [of s] by simp

lemma filter_target_nonempty:
  "r \<in> set (map te_target es) \<Longrightarrow> filter (\<lambda>e. te_target e = r) es \<noteq> []"
  by (auto simp: filter_empty_conv)

lemma validated_success_result:
  assumes "list_all valid_AttemptTransitionEvent (pt_events t)" "ProviderAttemptTranscript_validate t = Inr SUCCEEDED"
  obtains r where "pt_result t = Some r" "validate_result_assignment (pt_assignment t) r = Inr ()"
    "AttemptResult_digest r = Inr (te_detail_digest (hd (result_events t)))"
proof -
  have "result_events t \<noteq> []"
    unfolding result_events_def
    by (rule filter_target_nonempty) (simp add: validated_success_path [OF assms])
  moreover have "transcript_result t = Inr ()" using assms(2) by (simp add: attempt_validate_parts)
  ultimately show thesis
    using that by (auto simp: transcript_result_def ok_simps split: option.splits)
qed

lemma validated_success_absence:
  assumes "ProviderAttemptTranscript_validate t = Inr SUCCEEDED"
  shows "co_absence_status (pt_cleanup t) = PROVEN_ABSENT"
    and "te_terminal_basis (last_event t) = Some PROVIDER_ABSENCE"
    and "co_path (pt_cleanup t) = PATH_SUCCESS"
proof -
  have "transcript_terminal t = Inr ()" and s: "te_target (last_event t) = SUCCEEDED"
    using assms by (simp_all add: attempt_validate_parts)
  then have v: "validate_terminal_transition (last_event t) (pt_cleanup t) = Inr ()"
    by (simp add: transcript_terminal_def ok_simps)
  then show "co_absence_status (pt_cleanup t) = PROVEN_ABSENT"
    "te_terminal_basis (last_event t) = Some PROVIDER_ABSENCE"
    using s by (auto simp: validate_terminal_transition_def ok_simps split: option.splits TerminalBasis.splits)
  show "co_path (pt_cleanup t) = PATH_SUCCESS"
    using v s by (simp add: validate_terminal_transition_def ok_simps)
qed

section \<open>A validated Worker transcript\<close>

lemma worker_validate_parts:
  "WorkerExecutionTranscript_validate w = Inr a \<longleftrightarrow>
     (\<exists>states. worker_shape w = Inr () \<and> rmap ProviderAttemptTranscript_validate (wt_attempts w) = Inr states
       \<and> worker_attempt_identities w = Inr ()
       \<and> worker_bindings (wt_reservation w) 1 None (zip (wt_bindings w) (wt_attempts w)) = Inr ()
       \<and> worker_retry_order w = Inr () \<and> worker_success w states = Inr () \<and> worker_settlements w = Inr ()
       \<and> (case wt_unassigned_dispatch w of
            Some outcome \<Rightarrow> worker_unassigned w outcome = Inr ()
          | None \<Rightarrow> worker_assigned w states = Inr ())
       \<and> a = sd_action (final_settlement w))"
  by (auto simp: WorkerExecutionTranscript_validate_def ok_simps split: option.splits)

lemma worker_shape_settlements:
  "worker_shape w = Inr () \<Longrightarrow> wt_settlements w \<noteq> []"
  by (auto simp: worker_shape_def ok_simps)

lemma final_in_settlements:
  "worker_shape w = Inr () \<Longrightarrow> final_settlement w \<in> set (wt_settlements w)"
  by (simp add: final_settlement_def worker_shape_settlements)

lemma success_indexes_iff: "i \<in> set (success_indexes states) \<longleftrightarrow> i < length states \<and> states ! i = SUCCEEDED"
  by (auto simp: success_indexes_def)

lemma success_indexes_Nil_iff: "success_indexes states = [] \<longleftrightarrow> SUCCEEDED \<notin> set states"
proof -
  have "success_indexes states = [] \<longleftrightarrow> set (success_indexes states) = {}" by simp
  also have "\<dots> \<longleftrightarrow> SUCCEEDED \<notin> set states"
    using success_indexes_iff [of _ states] by (auto simp: in_set_conv_nth)
  finally show ?thesis .
qed

lemma worker_success_last:
  assumes "worker_success w states = Inr ()" "length states = length (wt_attempts w)" "states \<noteq> []"
  shows "success_indexes states = (if last states = SUCCEEDED then [length states - 1] else [])"
proof (cases "success_indexes states")
  case Nil
  then show ?thesis
    using assms(3) by (simp add: success_indexes_Nil_iff) (metis last_in_set)
next
  case (Cons i js)
  with assms have "js = []" "i = length states - 1" by (auto simp: worker_success_def ok_simps)
  moreover have "states ! i = SUCCEEDED" using Cons success_indexes_iff [of i states] by simp
  ultimately show ?thesis using Cons assms(3) by (simp add: last_conv_nth)
qed

lemma worker_success_butlast:
  assumes "worker_success w states = Inr ()" "length states = length (wt_attempts w)" "i < length states - 1"
  shows "states ! i \<noteq> SUCCEEDED"
proof
  assume "states ! i = SUCCEEDED"
  with assms(3) have i: "i \<in> set (success_indexes states)" by (simp add: success_indexes_iff)
  have "states \<noteq> []" using assms(3) by auto
  from worker_success_last [OF assms(1,2) this] i assms(3) show False by (auto split: if_splits)
qed

text \<open>The state of every attempt, and of the last one.\<close>

lemma worker_states:
  assumes "rmap ProviderAttemptTranscript_validate ts = Inr states"
  shows "length states = length ts"
    and "i < length ts \<Longrightarrow> ProviderAttemptTranscript_validate (ts ! i) = Inr (states ! i)"
    and "ts \<noteq> [] \<Longrightarrow> ProviderAttemptTranscript_validate (last ts) = Inr (last states)"
proof -
  show len: "length states = length ts" using assms by (rule rmap_ok_length)
  show nth: "ProviderAttemptTranscript_validate (ts ! i) = Inr (states ! i)" if "i < length ts" for i
    using assms that by (simp add: rmap_ok_list_all2 list_all2_conv_all_nth)
  assume ts: "ts \<noteq> []"
  then have "states \<noteq> []" using len by auto
  then show "ProviderAttemptTranscript_validate (last ts) = Inr (last states)"
    using nth [of "length ts - 1"] ts len by (simp add: last_conv_nth)
qed

text \<open>Charged exactly when the last attempt succeeded.\<close>

lemma worker_assigned_settles:
  assumes "WorkerExecutionTranscript_validate w = Inr a" "wt_attempts w \<noteq> []"
  shows "a = CHARGED \<longleftrightarrow> ProviderAttemptTranscript_validate (last (wt_attempts w)) = Inr SUCCEEDED"
proof -
  from assms(1) obtain states where shape: "worker_shape w = Inr ()"
    and st: "rmap ProviderAttemptTranscript_validate (wt_attempts w) = Inr states"
    and succ: "worker_success w states = Inr ()"
    and dispatch: "case wt_unassigned_dispatch w of Some u \<Rightarrow> worker_unassigned w u = Inr () | None \<Rightarrow> worker_assigned w states = Inr ()"
    and a: "a = sd_action (final_settlement w)"
    by (auto simp: worker_validate_parts)
  note states = worker_states [OF st]
  have ne: "states \<noteq> []" using states(1) assms(2) by auto
  have "wt_unassigned_dispatch w = None"
    using shape assms(2) by (auto simp: worker_shape_def ok_simps)
  with dispatch have "worker_assigned w states = Inr ()" by simp
  then show ?thesis
    using a worker_success_last [OF succ states(1) ne] states(3) [OF assms(2)]
    by (auto simp: worker_assigned_def ok_simps Let_def split: if_splits)
qed

lemma worker_unassigned_releases:
  assumes "WorkerExecutionTranscript_validate w = Inr a" "wt_attempts w = []"
  shows "a = RELEASED"
proof -
  from assms obtain u where "wt_unassigned_dispatch w = Some u"
    by (auto simp: worker_validate_parts worker_shape_def ok_simps)
  with assms(1) show ?thesis by (auto simp: worker_validate_parts worker_unassigned_def ok_simps)
qed

lemma valid_settlement_charge:
  "valid_WorkerSettlementDecision s \<Longrightarrow>
     (if sd_action s = CHARGED
      then sd_sequence s = 1 \<and> 0 < sd_charged_micros s \<and> sd_charged_micros s \<le> sd_reserved_micros s
      else sd_charged_micros s = 0 \<and> sd_winning_attempt_id s = None)"
  by (auto simp: valid_WorkerSettlementDecision_def WorkerSettlementDecision_post_init_def ok_simps)

lemma worker_final_settlement:
  assumes "valid_WorkerExecutionTranscript w" "WorkerExecutionTranscript_validate w = Inr a"
  shows "valid_WorkerSettlementDecision (final_settlement w)"
    and "validate_settlement (wt_reservation w) (final_settlement w) = Inr ()"
    and "a = sd_action (final_settlement w)"
proof -
  have shape: "worker_shape w = Inr ()" and s: "worker_settlements w = Inr ()"
    using assms(2) by (auto simp: worker_validate_parts)
  show "valid_WorkerSettlementDecision (final_settlement w)"
    using assms(1) final_in_settlements [OF shape] by (simp add: valid_WorkerExecutionTranscript_def list_all_iff)
  show "validate_settlement (wt_reservation w) (final_settlement w) = Inr ()"
    using s final_in_settlements [OF shape] by (simp add: worker_settlements_def ok_simps)
  show "a = sd_action (final_settlement w)"
    using assms(2) by (auto simp: worker_validate_parts)
qed

lemma charged_single_settlement:
  assumes "valid_WorkerExecutionTranscript w" "WorkerExecutionTranscript_validate w = Inr CHARGED"
  shows "wt_settlements w = [final_settlement w]"
proof -
  have shape: "worker_shape w = Inr ()" and s: "worker_settlements w = Inr ()"
    using assms(2) by (auto simp: worker_validate_parts)
  have one: "sd_sequence (final_settlement w) = 1"
    using valid_settlement_charge [OF worker_final_settlement(1) [OF assms]]
      worker_final_settlement(3) [OF assms] by simp
  have "length (wt_settlements w) \<noteq> 2"
  proof
    assume two: "length (wt_settlements w) = 2"
    then have last: "final_settlement w = wt_settlements w ! 1"
      by (cases "wt_settlements w") (auto simp: final_settlement_def length_Suc_conv)
    have "validate_settlement_supersession (wt_reservation w) (wt_settlements w ! 0) (wt_settlements w ! 1) = Inr ()"
      using s two by (simp add: worker_settlements_def ok_simps)
    then have "sd_sequence (wt_settlements w ! 1) = 2"
      by (auto simp: validate_settlement_supersession_def ok_simps split: if_splits)
    with one last show False by simp
  qed
  then have "length (wt_settlements w) = 1" using shape by (auto simp: worker_shape_def ok_simps)
  then show ?thesis by (auto simp: final_settlement_def length_Suc_conv)
qed

end
