(* ===== verification/Provider_Fixtures.thy ===== *)
theory Provider_Fixtures
  imports Provider_Protocol
begin

text \<open>
  One complete run of the provider protocol on concrete data: a seed provider, an
  assignment, its first permit, the nine events of a successful attempt, the cleanup and
  the result, the customer's reservation, the ledger binding and the charge.  Digests are
  the digests of the records themselves, kept as terms.  The lemmas show that every
  record is valid and that both transcripts are accepted; the witnesses instantiate the
  properties with them.
\<close>

definition ex_time :: "nat \<Rightarrow> datetime" where
  "ex_time n = Datetime 2026 1 1 0 0 n 0 (Some 0)"

definition ex_provider :: ProviderIdentity where
  "ex_provider = \<lparr>pi_kind = CATHEDRAL_SEED, pi_provider_id = ''seed-1'', pi_subnet_hotkey = None\<rparr>"

definition empty_digest :: string where
  "empty_digest = sha256_label (encode_ascii ''{}'')"

definition ex_assignment :: AttemptAssignment where
  "ex_assignment = \<lparr>aa_attempt_id = ''attempt-1'', aa_provider = ex_provider, aa_slot_id = ''slot-1'',
     aa_provider_nonce = replicate 64 (CHR ''a''), aa_workload_manifest_digest = empty_digest,
     aa_policy_digest = empty_digest, aa_image_digest = sha256_label []\<rparr>"

definition document_digest :: "pyval \<Rightarrow> string" where
  "document_digest d = sha256_label (encode_ascii (dumps d))"

definition ex_assignment_digest :: string where
  "ex_assignment_digest = document_digest (AttemptAssignment_to_document ex_assignment)"

definition ex_permit :: AssignmentPermit where
  "ex_permit = \<lparr>ap_assignment_digest = ex_assignment_digest, ap_sequence = 1, ap_issued_at = ex_time 2,
     ap_expires_at = ex_time 40, ap_key_id = ''key-1'', ap_authorization_digest = empty_digest\<rparr>"

definition ex_result :: AttemptResult where
  "ex_result = \<lparr>ar_attempt_id = ''attempt-1'', ar_assignment_digest = ex_assignment_digest,
     ar_quote_digest = empty_digest, ar_attested_nonce = replicate 64 (CHR ''a''),
     ar_measurement_digest = sha256_label [], ar_result_payload_digest = empty_digest,
     ar_produced_at = ex_time 7, ar_received_at = ex_time 8\<rparr>"

definition ex_cleanup :: CleanupOutcome where
  "ex_cleanup = \<lparr>co_attempt_id = ''attempt-1'', co_assignment_digest = ex_assignment_digest,
     co_provider = ex_provider, co_slot_id = ''slot-1'', co_path = PATH_SUCCESS,
     co_absence_status = PROVEN_ABSENT, co_requested_at = ex_time 11, co_observed_at = ex_time 11,
     co_observation_digest = Some empty_digest, co_customer_cleanup_deadline_at = None\<rparr>"

definition ex_event :: "string \<Rightarrow> AttemptState \<Rightarrow> AttemptState \<Rightarrow> nat \<Rightarrow> string \<Rightarrow> AttemptTransitionEvent" where
  "ex_event i s t n d = \<lparr>te_event_id = i, te_attempt_id = ''attempt-1'', te_assignment_digest = ex_assignment_digest,
     te_current = s, te_target = t, te_occurred_at = ex_time n, te_detail_digest = d,
     te_cleanup_outcome_digest = None, te_terminal_basis = None\<rparr>"

definition ex_last_event :: AttemptTransitionEvent where
  "ex_last_event = (ex_event ''e9'' SUCCESS_CLEANUP_PENDING SUCCEEDED 12 empty_digest)
     \<lparr>te_cleanup_outcome_digest := Some (document_digest (CleanupOutcome_to_document ex_cleanup)),
      te_terminal_basis := Some PROVIDER_ABSENCE\<rparr>"

definition ex_attempt :: ProviderAttemptTranscript where
  "ex_attempt = \<lparr>pt_assignment = ex_assignment, pt_permits = [ex_permit],
     pt_events =
       [ex_event ''e1'' DISPATCH_PENDING SLOT_CLAIMED 3 empty_digest,
        ex_event ''e2'' SLOT_CLAIMED ASSIGNMENT_SENT 4 empty_digest,
        ex_event ''e3'' ASSIGNMENT_SENT ACKNOWLEDGED 5 empty_digest,
        ex_event ''e4'' ACKNOWLEDGED ATTESTING 6 empty_digest,
        ex_event ''e5'' ATTESTING RUNNING 7 empty_digest,
        ex_event ''e6'' RUNNING RESULT_RECEIVED 8 (document_digest (AttemptResult_to_document ex_result)),
        ex_event ''e7'' RESULT_RECEIVED EVIDENCE_VERIFIED 9 empty_digest,
        ex_event ''e8'' EVIDENCE_VERIFIED SUCCESS_CLEANUP_PENDING 10 empty_digest,
        ex_last_event],
     pt_cleanup = ex_cleanup, pt_interruption = None, pt_result = Some ex_result\<rparr>"

definition ex_reservation :: CustomerCapReservation where
  "ex_reservation = \<lparr>cr_customer_id = ''customer-1'', cr_worker_id = ''worker-1'',
     cr_reservation_id = ''reservation-1'', cr_request_digest = empty_digest, cr_reserved_micros = 500,
     cr_reserved_at = ex_time 0, cr_expires_at = ex_time 50\<rparr>"

definition ex_binding :: AssignmentLedgerBinding where
  "ex_binding = \<lparr>ab_binding_id = ''binding-1'', ab_assignment_digest = ex_assignment_digest,
     ab_customer_id = ''customer-1'', ab_worker_id = ''worker-1'', ab_attempt_id = ''attempt-1'',
     ab_attempt_number = 1, ab_retry_parent_attempt_id = None, ab_reservation_id = ''reservation-1'',
     ab_request_digest = empty_digest, ab_reserved_micros = 500, ab_created_at = ex_time 1\<rparr>"

definition ex_charge :: WorkerSettlementDecision where
  "ex_charge = \<lparr>sd_decision_id = ''decision-1'', sd_sequence = 1, sd_supersedes_digest = None,
     sd_customer_id = ''customer-1'', sd_worker_id = ''worker-1'', sd_reservation_id = ''reservation-1'',
     sd_reserved_micros = 500, sd_charged_micros = 300, sd_action = CHARGED,
     sd_winning_attempt_id = Some ''attempt-1'',
     sd_worker_outcome_digest = document_digest (attempt_document ex_attempt), sd_decided_at = ex_time 20\<rparr>"

definition ex_worker :: WorkerExecutionTranscript where
  "ex_worker = \<lparr>wt_reservation = ex_reservation, wt_bindings = [ex_binding], wt_attempts = [ex_attempt],
     wt_unassigned_dispatch = None, wt_settlements = [ex_charge]\<rparr>"

section \<open>The records are valid\<close>

lemma ex_time_utc [simp]: "n \<le> 59 \<Longrightarrow> is_utc (ex_time n)"
  by (simp add: ex_time_def is_utc_def valid_datetime_def days_in_month_def)

lemma ex_time_order [simp]:
  "dt_less (ex_time m) (ex_time n) \<longleftrightarrow> m < n" "dt_le (ex_time m) (ex_time n) \<longleftrightarrow> m \<le> n"
  by (auto simp: dt_less_def dt_le_def dt_key_def ex_time_def less_prod_def less_eq_prod_def)

lemma ex_digests [simp]: "DIGEST_RE empty_digest" "DIGEST_RE ex_assignment_digest" "DIGEST_RE (document_digest d)"
  by (simp_all add: empty_digest_def ex_assignment_digest_def document_digest_def)

lemma ex_nonce [simp]: "NONCE_RE (replicate 64 (CHR ''a''))"
  by (simp add: text_simps list_all_iff)

lemma ex_provider_valid [simp]: "valid_ProviderIdentity ex_provider"
  by (simp add: valid_ProviderIdentity_def ProviderIdentity_post_init_def ex_provider_def ok_simps text_simps)

lemma ex_assignment_valid [simp]: "valid_AttemptAssignment ex_assignment"
  by (simp add: valid_AttemptAssignment_def AttemptAssignment_post_init_def ex_assignment_def ok_simps
      ID_RE_def is_alnum_def is_digit_def is_lower_def is_upper_def)

lemmas id_simps = ID_RE_def is_alnum_def is_digit_def is_lower_def is_upper_def

lemma ex_permit_valid [simp]: "valid_AssignmentPermit ex_permit"
  by (simp add: valid_AssignmentPermit_def AssignmentPermit_post_init_def ex_permit_def ok_simps id_simps)

lemma ex_result_valid [simp]: "valid_AttemptResult ex_result"
  by (simp add: valid_AttemptResult_def AttemptResult_post_init_def ex_result_def ok_simps id_simps)

lemma ex_cleanup_valid [simp]: "valid_CleanupOutcome ex_cleanup"
  by (simp add: valid_CleanupOutcome_def CleanupOutcome_post_init_def ex_cleanup_def ok_simps id_simps)

lemma attempt_id_ok: "ID_RE ''attempt-1''"
  by (simp add: id_simps)

lemma ex_event_valid:
  "ID_RE i \<Longrightarrow> t \<in> set (ALLOWED_ATTEMPT_TRANSITIONS s) \<Longrightarrow> t \<notin> set TERMINAL_ATTEMPT_STATES \<Longrightarrow>
     n \<le> 59 \<Longrightarrow> DIGEST_RE d \<Longrightarrow> valid_AttemptTransitionEvent (ex_event i s t n d)"
  by (simp add: valid_AttemptTransitionEvent_def AttemptTransitionEvent_post_init_def ex_event_def ok_simps
      attempt_id_ok)

lemma ex_last_event_valid: "valid_AttemptTransitionEvent ex_last_event"
  by (simp add: valid_AttemptTransitionEvent_def AttemptTransitionEvent_post_init_def ex_last_event_def
      ex_event_def ok_simps id_simps ALLOWED_ATTEMPT_TRANSITIONS_def ABORTABLE_BEFORE_RESULT_def
      TERMINAL_ATTEMPT_STATES_def)

lemma ex_events_valid: "list_all valid_AttemptTransitionEvent (pt_events ex_attempt)"
  by (simp add: ex_attempt_def ex_event_valid ex_last_event_valid id_simps ALLOWED_ATTEMPT_TRANSITIONS_def
      ABORTABLE_BEFORE_RESULT_def TERMINAL_ATTEMPT_STATES_def)

lemma ex_reservation_valid [simp]: "valid_CustomerCapReservation ex_reservation"
  by (simp add: valid_CustomerCapReservation_def CustomerCapReservation_post_init_def ex_reservation_def
      ok_simps id_simps MAX_MONEY_MICROS_def)

lemma ex_binding_valid [simp]: "valid_AssignmentLedgerBinding ex_binding"
  by (simp add: valid_AssignmentLedgerBinding_def AssignmentLedgerBinding_post_init_def ex_binding_def
      ok_simps id_simps MAX_MONEY_MICROS_def)

lemma ex_charge_valid [simp]: "valid_WorkerSettlementDecision ex_charge"
  by (simp add: valid_WorkerSettlementDecision_def WorkerSettlementDecision_post_init_def ex_charge_def
      ok_simps id_simps MAX_MONEY_MICROS_def)

section \<open>The transcripts are accepted\<close>

lemma ex_assignment_digest_eq: "AttemptAssignment_digest ex_assignment = Inr ex_assignment_digest"
  by (simp add: AttemptAssignment_digest_def canonical_sha256_def assignment_encodable
      ex_assignment_digest_def document_digest_def)

lemma ex_result_digest_eq:
  "AttemptResult_digest ex_result = Inr (document_digest (AttemptResult_to_document ex_result))"
  by (simp add: AttemptResult_digest_def canonical_sha256_def result_encodable document_digest_def)

lemma ex_cleanup_digest_eq:
  "CleanupOutcome_digest ex_cleanup = Inr (document_digest (CleanupOutcome_to_document ex_cleanup))"
  by (simp add: CleanupOutcome_digest_def canonical_sha256_def cleanup_encodable document_digest_def)

lemma ex_attempt_parts:
  "transcript_permits ex_attempt = Inr ()" "transcript_events ex_attempt = Inr ()"
  "transcript_dispatch_windows ex_attempt = Inr ()" "transcript_renewals ex_attempt = Inr ()"
  "transcript_terminal ex_attempt = Inr ()" "transcript_result ex_attempt = Inr ()"
  "transcript_interruption ex_attempt = Inr ()"
proof -
  note ev = ex_attempt_def ex_event_def ex_last_event_def last_event_def cleanup_entry_event_def
  show "transcript_permits ex_attempt = Inr ()"
    by (simp add: transcript_permits_def ex_attempt_def ex_permit_def validate_assignment_permit_def
        ex_assignment_digest_eq ok_simps adjacent_def)
  show "transcript_events ex_attempt = Inr ()"
    by (simp add: transcript_events_def ev MAX_TRANSCRIPT_EVENTS_def ex_permit_def
        validate_transition_assignment_def ex_assignment_digest_eq ok_simps adjacent_def)
      (simp add: ex_assignment_def)
  show "transcript_dispatch_windows ex_attempt = Inr ()"
    by (simp add: transcript_dispatch_windows_def ev ex_permit_def permit_covers_def)
  show "transcript_renewals ex_attempt = Inr ()"
    by (simp add: transcript_renewals_def ev)
  show "transcript_terminal ex_attempt = Inr ()"
    by (simp add: transcript_terminal_def ev TERMINAL_ATTEMPT_STATES_def ok_simps validate_cleanup_assignment_def
        ex_assignment_digest_eq validate_terminal_transition_def ex_cleanup_digest_eq)
      (simp add: ex_cleanup_def ex_assignment_def)
  show "transcript_result ex_attempt = Inr ()"
    by (simp add: transcript_result_def result_events_def ev ok_simps validate_result_assignment_def
        ex_assignment_digest_eq ex_result_digest_eq)
      (simp add: ex_result_def ex_assignment_def)
  show "transcript_interruption ex_attempt = Inr ()"
    by (simp add: transcript_interruption_def ev)
qed

lemma ex_attempt_succeeds: "ProviderAttemptTranscript_validate ex_attempt = Inr SUCCEEDED"
  by (simp add: attempt_validate_parts ex_attempt_parts)
    (simp add: ex_attempt_def last_event_def ex_last_event_def ex_event_def)

lemma ex_attempt_valid [simp]: "valid_ProviderAttemptTranscript ex_attempt"
  using ex_events_valid ex_attempt_succeeds
  by (simp add: valid_ProviderAttemptTranscript_def) (simp add: ex_attempt_def)

lemma ex_attempt_digest_eq:
  "ProviderAttemptTranscript_digest ex_attempt = Inr (document_digest (attempt_document ex_attempt))"
proof -
  have "canonical_json_bytes (attempt_document ex_attempt) = Inr (encode_ascii (dumps (attempt_document ex_attempt)))"
    by (intro attempt_document_encodable)
      (simp_all, simp_all add: ex_attempt_def ex_permit_def int_digits_def max_str_digits_def)
  then show ?thesis
    by (simp add: ProviderAttemptTranscript_digest_def ProviderAttemptTranscript_to_document_def
        ex_attempt_succeeds canonical_sha256_def document_digest_def)
qed

lemma ex_worker_charged: "WorkerExecutionTranscript_validate ex_worker = Inr CHARGED"
proof -
  have states: "rmap ProviderAttemptTranscript_validate (wt_attempts ex_worker) = Inr [SUCCEEDED]"
    by (simp add: ex_worker_def ex_attempt_succeeds)
  have shape: "worker_shape ex_worker = Inr ()"
    by (simp add: worker_shape_def ex_worker_def MAX_WORKER_ATTEMPTS_def ok_simps)
  have ids: "worker_attempt_identities ex_worker = Inr ()" "worker_retry_order ex_worker = Inr ()"
    by (simp_all add: worker_attempt_identities_def worker_retry_order_def ex_worker_def ok_simps)
  have bindings: "worker_bindings ex_reservation 1 None [(ex_binding, ex_attempt)] = Inr ()"
    by (simp add: ok_simps validate_assignment_reservation_def worker_permit_window_def ex_attempt_def
        ex_assignment_digest_eq)
      (simp add: ex_binding_def ex_reservation_def ex_permit_def ex_assignment_def)
  have success: "worker_success ex_worker [SUCCEEDED] = Inr ()" "success_indexes [SUCCEEDED] = [0]"
    by (simp_all add: worker_success_def success_indexes_def ex_worker_def ok_simps)
  have settlements: "worker_settlements ex_worker = Inr ()"
    by (simp add: worker_settlements_def final_settlement_def ex_worker_def validate_settlement_def ok_simps)
      (simp add: ex_charge_def ex_reservation_def)
  have assigned: "worker_assigned ex_worker [SUCCEEDED] = Inr ()"
    by (simp add: worker_assigned_def final_settlement_def ex_worker_def ok_simps success ex_attempt_digest_eq Let_def)
      (simp add: ex_charge_def ex_attempt_def ex_last_event_def ex_event_def last_event_def ex_assignment_def ex_cleanup_def)
  show ?thesis
    using states shape ids bindings success settlements assigned
    by (simp add: worker_validate_parts) (simp add: ex_worker_def final_settlement_def ex_charge_def)
qed

lemma ex_worker_valid [simp]: "valid_WorkerExecutionTranscript ex_worker"
  using ex_worker_charged by (simp add: valid_WorkerExecutionTranscript_def) (simp add: ex_worker_def)

lemma ex_binding_bounds:
  "text_bound (AssignmentLedgerBinding_to_document ex_binding) \<le> 20000"
  "d \<le> 60 \<Longrightarrow> canonical_shape d (AssignmentLedgerBinding_to_document ex_binding)"
  "digits_ok (AssignmentLedgerBinding_to_document ex_binding)"
  by (simp_all add: AssignmentLedgerBinding_to_document_def ex_binding_def int_digits_def max_str_digits_def
      pattern_lengths length_format_utc)

lemma ex_worker_bytes:
  "WorkerExecutionTranscript_canonical_bytes ex_worker = Inr (encode_ascii (dumps (worker_document ex_worker)))"
proof -
  have permits: "length (pt_permits ex_attempt) \<le> 10"
    "\<forall>p \<in> set (pt_permits ex_attempt). int_digits (ap_sequence p) \<le> max_str_digits"
    by (simp_all add: ex_attempt_def ex_permit_def int_digits_def max_str_digits_def)
  note bounds = attempt_document_bounds [OF ex_attempt_valid permits]
    reservation_document_bounds [OF ex_reservation_valid] settlement_document_bounds [OF ex_charge_valid]
    ex_binding_bounds
  have "canonical_json_bytes (PObject (worker_document ex_worker)) = Inr (encode_ascii (dumps (worker_document ex_worker)))"
    using bounds
    by (intro canonical_acceptsI worker_transcript.doc_plain ex_worker_valid)
      (simp_all add: worker_document_def ex_worker_def MAX_CANONICAL_BYTES_def)
  then show ?thesis
    by (auto simp: WorkerExecutionTranscript_canonical_bytes_def WorkerExecutionTranscript_to_document_def
        ex_worker_charged canonical_json_bytes_iff canonical_accepts_def intro: canonical_shape_mono)
qed

lemma ex_worker_received:
  "WorkerExecutionTranscript_from_bytes (DataBytes (encode_ascii (dumps (worker_document ex_worker)))) = Inr ex_worker"
proof -
  have "canonical_json_bytes (worker_document ex_worker) = Inr (encode_ascii (dumps (worker_document ex_worker)))"
    using ex_worker_bytes by (auto simp: WorkerExecutionTranscript_canonical_bytes_def
        WorkerExecutionTranscript_to_document_def ok_simps)
  from worker_transcript.bytes_round_trip [OF ex_worker_valid _ this] show ?thesis
    by (simp add: WorkerExecutionTranscript_from_bytes_def)
qed

section \<open>A held settlement and its release\<close>

definition ex_held :: WorkerSettlementDecision where
  "ex_held = ex_charge\<lparr>sd_decision_id := ''decision-h'', sd_charged_micros := 0,
     sd_action := HELD_PENDING_CLEANUP, sd_winning_attempt_id := None\<rparr>"

definition ex_release :: WorkerSettlementDecision where
  "ex_release = ex_held\<lparr>sd_decision_id := ''decision-r'', sd_sequence := 2,
     sd_supersedes_digest := Some (document_digest (WorkerSettlementDecision_to_document ex_held)),
     sd_action := RELEASED, sd_decided_at := ex_time 30\<rparr>"

lemma ex_held_valid [simp]: "valid_WorkerSettlementDecision ex_held"
  by (simp add: valid_WorkerSettlementDecision_def WorkerSettlementDecision_post_init_def ex_held_def ex_charge_def
      ok_simps id_simps MAX_MONEY_MICROS_def)

lemma ex_release_valid [simp]: "valid_WorkerSettlementDecision ex_release"
  by (simp add: valid_WorkerSettlementDecision_def WorkerSettlementDecision_post_init_def ex_release_def
      ok_simps id_simps MAX_MONEY_MICROS_def)
    (simp add: ex_held_def ex_charge_def MAX_MONEY_MICROS_def id_simps)

lemma ex_held_digest_eq:
  "WorkerSettlementDecision_digest ex_held = Inr (document_digest (WorkerSettlementDecision_to_document ex_held))"
  by (simp add: WorkerSettlementDecision_digest_def canonical_sha256_def settlement_encodable document_digest_def)

lemma ex_supersession: "validate_settlement_supersession ex_reservation ex_held ex_release = Inr ()"
  by (simp add: validate_settlement_supersession_def validate_settlement_def ok_simps ex_release_def ex_held_digest_eq)
    (simp add: ex_held_def ex_charge_def ex_reservation_def)

section \<open>A dispatch envelope\<close>

definition ex_envelope :: ProviderDispatchEnvelope where
  "ex_envelope = \<lparr>de_assignment = ex_assignment, de_workload_manifest = PProxy [],
     de_policy_document = PProxy [], de_permit = ex_permit\<rparr>"

lemma ex_envelope_document_encodable:
  "canonical_json_bytes (ProviderDispatchEnvelope_to_document ex_envelope)
    = Inr (encode_ascii (dumps (ProviderDispatchEnvelope_to_document ex_envelope)))"
proof -
  let ?d = "ProviderDispatchEnvelope_to_document ex_envelope"
  have permit: "int_digits (ap_sequence ex_permit) \<le> max_str_digits"
    by (simp add: ex_permit_def int_digits_def max_str_digits_def)
  have "canonical_json_bytes (PObject ?d) = Inr (encode_ascii (dumps ?d))"
    using assignment_document_bounds [OF ex_assignment_valid] permit_document_bounds [OF ex_permit_valid permit]
    by (intro canonical_acceptsI)
      (simp_all add: ProviderDispatchEnvelope_to_document_def ex_envelope_def MAX_CANONICAL_BYTES_def)
  then show ?thesis by (auto simp: canonical_json_bytes_iff canonical_accepts_def intro: canonical_shape_mono)
qed

lemma empty_document_digest: "canonical_sha256 (PProxy []) = Inr empty_digest"
proof -
  have "canonical_json_bytes (PProxy []) = Inr (encode_ascii ''{}'')"
    by (simp add: canonical_json_bytes_iff canonical_accepts_def MAX_CANONICAL_BYTES_def)
  then show ?thesis by (simp add: canonical_sha256_def empty_digest_def)
qed

lemma ex_envelope_init: "ProviderDispatchEnvelope_init ex_assignment (PProxy []) (PProxy []) ex_permit = Inr ex_envelope"
proof -
  have "stored_object (PDict [])"
    by (simp add: stored_object_def canonical_accepts_def MAX_CANONICAL_BYTES_def canon_PDict_items canon_items_def)
  from refrozen(1) [OF this] have frozen: "frozen_canonical_mapping l (PProxy []) = Inr (PProxy [])" for l by simp
  show ?thesis
    using ex_envelope_document_encodable
    by (simp add: ProviderDispatchEnvelope_init_def frozen empty_document_digest ex_assignment_digest_eq Let_def)
      (simp add: ex_envelope_def ex_assignment_def ex_permit_def)
qed

lemma ex_envelope_valid: "valid_ProviderDispatchEnvelope ex_envelope"
  using ex_envelope_init by (simp add: valid_ProviderDispatchEnvelope_def) (simp add: ex_envelope_def)

lemma ex_envelope_bytes:
  "ProviderDispatchEnvelope_from_bytes (DataBytes (encode_ascii (dumps (ProviderDispatchEnvelope_to_document ex_envelope))))
    = Inr ex_envelope"
  unfolding ProviderDispatchEnvelope_from_bytes_def
  by (rule dispatch_envelope.bytes_round_trip [OF ex_envelope_valid _ ex_envelope_document_encodable]) simp

end
