(* ===== verification/Provider_Properties.thy ===== *)
theory Provider_Properties
  imports Provider_Fixtures
begin

text \<open>
  The properties of the provider control plane (\<open>provider_contract.py\<close> and
  \<open>provider_transcript.py\<close>), each with a witness on the concrete run of
  \<open>Provider_Fixtures\<close> where it has a hypothesis.
\<close>

section \<open>Lemmas on sequences of permits, events and attempts\<close>

lemma adjacent_nth: "Suc i < length xs \<Longrightarrow> (xs ! i, xs ! Suc i) \<in> set (adjacent xs)"
  by (auto simp: adjacent_def in_set_zip nth_tl intro: exI [of _ i])

lemma adjacent_chain_le:
  assumes "\<And>x y. (x, y) \<in> set (adjacent xs) \<Longrightarrow> dt_le (f x) (f y)" "i \<le> j" "j < length xs"
  shows "dt_le (f (xs ! i)) (f (xs ! j))"
  using assms(2,3)
proof (induction j)
  case (Suc j)
  show ?case
  proof (cases "i = Suc j")
    case False
    with Suc have "dt_le (f (xs ! i)) (f (xs ! j))" by simp
    moreover have "dt_le (f (xs ! j)) (f (xs ! Suc j))" using Suc.prems by (intro assms(1) adjacent_nth)
    ultimately show ?thesis by (rule dt_le_trans)
  qed simp
qed simp

lemma validated_first_le_last:
  assumes "ProviderAttemptTranscript_validate t = Inr s"
  shows "dt_le (te_occurred_at (hd (pt_events t))) (te_occurred_at (last_event t))"
proof -
  have "transcript_events t = Inr ()" using assms by (simp add: attempt_validate_parts)
  note chain = transcript_events_chain [OF this]
  have "dt_le (te_occurred_at (pt_events t ! 0)) (te_occurred_at (pt_events t ! (length (pt_events t) - 1)))"
    using chain by (intro adjacent_chain_le) auto
  with chain show ?thesis by (simp add: hd_conv_nth last_event_def last_conv_nth)
qed

lemma validated_permits:
  assumes "ProviderAttemptTranscript_validate t = Inr s" "i < length (pt_permits t)"
  shows "ap_sequence (pt_permits t ! i) = int i + 1"
    and "AttemptAssignment_digest (pt_assignment t) = Inr (ap_assignment_digest (pt_permits t ! i))"
    and "Suc i < length (pt_permits t) \<Longrightarrow> dt_less (ap_issued_at (pt_permits t ! i)) (ap_issued_at (pt_permits t ! Suc i))"
proof -
  have p: "transcript_permits t = Inr ()" using assms(1) by (simp add: attempt_validate_parts)
  have renew: "validate_permit_renewal (pt_permits t ! j) (pt_permits t ! Suc j) (ap_issued_at (pt_permits t ! Suc j)) = Inr ()"
    if "Suc j < length (pt_permits t)" for j
    using p adjacent_nth [OF that] by (fastforce simp: transcript_permits_def ok_simps)
  show "ap_sequence (pt_permits t ! i) = int i + 1"
    using assms(2)
  proof (induction i)
    case 0
    then show ?case using p by (simp add: transcript_permits_def ok_simps hd_conv_nth)
  next
    case (Suc i)
    with renew [of i] show ?case by (simp add: validate_permit_renewal_def ok_simps)
  qed
  show "AttemptAssignment_digest (pt_assignment t) = Inr (ap_assignment_digest (pt_permits t ! i))"
    using p assms(2) nth_mem [of i "pt_permits t"]
    by (fastforce simp: transcript_permits_def ok_simps validate_assignment_permit_def)
  show "Suc i < length (pt_permits t) \<Longrightarrow> dt_less (ap_issued_at (pt_permits t ! i)) (ap_issued_at (pt_permits t ! Suc i))"
    using renew [of i] by (simp add: validate_permit_renewal_def ok_simps)
qed

lemma worker_attempt_order:
  assumes "WorkerExecutionTranscript_validate w = Inr a" "i < j" "j < length (wt_attempts w)"
  shows "dt_le (te_occurred_at (last_event (wt_attempts w ! i))) (te_occurred_at (hd (pt_events (wt_attempts w ! j))))"
  using assms(2,3)
proof (induction j)
  case (Suc j)
  have order: "dt_le (te_occurred_at (last_event (wt_attempts w ! j))) (te_occurred_at (hd (pt_events (wt_attempts w ! Suc j))))"
    using assms(1) adjacent_nth [OF Suc.prems(2)]
    by (fastforce simp: worker_validate_parts worker_retry_order_def ok_simps)
  show ?case
  proof (cases "i = j")
    case False
    with Suc have "dt_le (te_occurred_at (last_event (wt_attempts w ! i))) (te_occurred_at (hd (pt_events (wt_attempts w ! j))))"
      by simp
    also have "dt_le \<dots> (te_occurred_at (last_event (wt_attempts w ! j)))"
      using assms(1) Suc.prems worker_states(2) by (auto simp: worker_validate_parts intro: validated_first_le_last)
    also note order
    finally show ?thesis .
  qed (simp add: order)
qed simp

lemma worker_bindings_nth:
  assumes "worker_bindings r n parent (zip bs ts) = Inr ()" "i < length bs" "length bs = length ts"
  shows "ab_attempt_number (bs ! i) = n + int i
    \<and> ab_retry_parent_attempt_id (bs ! i)
        = (if i = 0 then parent else Some (aa_attempt_id (pt_assignment (ts ! (i - 1)))))
    \<and> ab_attempt_id (bs ! i) = aa_attempt_id (pt_assignment (ts ! i))
    \<and> (\<forall>p \<in> set (pt_permits (ts ! i)). dt_le (cr_reserved_at r) (ap_issued_at p) \<and> dt_le (ap_expires_at p) (cr_expires_at r))"
  using assms
proof (induction bs arbitrary: n parent ts i)
  case (Cons b bs)
  then obtain t ts' where ts: "ts = t # ts'" by (cases ts) auto
  show ?case
  proof (cases i)
    case 0
    with Cons.prems ts show ?thesis
      by (auto simp: ok_simps validate_assignment_reservation_def worker_permit_window_def)
  next
    case (Suc k)
    with Cons.prems ts have "worker_bindings r (n + 1) (Some (aa_attempt_id (pt_assignment t))) (zip bs ts') = Inr ()"
      by (simp add: ok_simps)
    from Cons.IH [OF this, of k] Suc Cons.prems ts show ?thesis by (cases k; cases ts') simp_all
  qed
qed simp

section \<open>Billing\<close>

text \<open>
  C1. A Worker is charged only for proven work: when a valid Worker transcript settles as
  charged, its last attempt, and no earlier one, succeeded; that attempt carries a result
  whose quote attests the nonce the assignment issued and the image it pinned; the
  provider's absence after cleanup is proven; the single settlement names that attempt,
  binds the digest of its transcript, is decided before the reservation expires, and
  charges a positive amount within the reserved cap.
\<close>

theorem charged_worker_is_proven:
  assumes "valid_WorkerExecutionTranscript w" "WorkerExecutionTranscript_validate w = Inr CHARGED"
  shows "\<exists>t r s. wt_attempts w \<noteq> [] \<and> t = last (wt_attempts w) \<and> wt_settlements w = [s]
    \<and> ProviderAttemptTranscript_validate t = Inr SUCCEEDED
    \<and> (\<forall>i < length (wt_attempts w) - 1. ProviderAttemptTranscript_validate (wt_attempts w ! i) \<noteq> Inr SUCCEEDED)
    \<and> pt_result t = Some r \<and> ar_attested_nonce r = aa_provider_nonce (pt_assignment t)
    \<and> ar_measurement_digest r = aa_image_digest (pt_assignment t)
    \<and> AttemptAssignment_digest (pt_assignment t) = Inr (ar_assignment_digest r)
    \<and> co_absence_status (pt_cleanup t) = PROVEN_ABSENT
    \<and> sd_winning_attempt_id s = Some (aa_attempt_id (pt_assignment t))
    \<and> ProviderAttemptTranscript_digest t = Inr (sd_worker_outcome_digest s)
    \<and> dt_less (sd_decided_at s) (cr_expires_at (wt_reservation w))
    \<and> 0 < sd_charged_micros s \<and> sd_charged_micros s \<le> cr_reserved_micros (wt_reservation w)"
proof -
  let ?t = "last (wt_attempts w)" and ?s = "final_settlement w"
  have attempts: "wt_attempts w \<noteq> []"
    using worker_unassigned_releases [OF assms(2)] by auto
  have ok: "ProviderAttemptTranscript_validate ?t = Inr SUCCEEDED"
    using worker_assigned_settles [OF assms(2) attempts] by simp
  have "valid_ProviderAttemptTranscript ?t"
    using assms(1) attempts by (simp add: valid_WorkerExecutionTranscript_def list_all_iff)
  then have "list_all valid_AttemptTransitionEvent (pt_events ?t)"
    by (simp add: valid_ProviderAttemptTranscript_def)
  from validated_success_result [OF this ok] obtain r where r: "pt_result ?t = Some r"
    "validate_result_assignment (pt_assignment ?t) r = Inr ()" .
  from assms(2) obtain states where st: "rmap ProviderAttemptTranscript_validate (wt_attempts w) = Inr states"
    and succ: "worker_success w states = Inr ()" and shape: "worker_shape w = Inr ()"
    and disp: "case wt_unassigned_dispatch w of Some u \<Rightarrow> worker_unassigned w u = Inr () | None \<Rightarrow> worker_assigned w states = Inr ()"
    by (auto simp: worker_validate_parts)
  have "wt_unassigned_dispatch w = None" using shape attempts by (auto simp: worker_shape_def ok_simps)
  with disp have assigned: "worker_assigned w states = Inr ()" by simp
  have earlier: "\<forall>i < length (wt_attempts w) - 1. ProviderAttemptTranscript_validate (wt_attempts w ! i) \<noteq> Inr SUCCEEDED"
    using worker_success_butlast [OF succ] worker_states(1,2) [OF st] by auto
  note final = worker_final_settlement [OF assms]
  have charge: "0 < sd_charged_micros ?s \<and> sd_charged_micros ?s \<le> cr_reserved_micros (wt_reservation w)
      \<and> dt_less (sd_decided_at ?s) (cr_expires_at (wt_reservation w))"
    using valid_settlement_charge [OF final(1)] final(2,3) by (auto simp: validate_settlement_def ok_simps)
  have winner: "sd_winning_attempt_id ?s = Some (aa_attempt_id (pt_assignment ?t))"
    "ProviderAttemptTranscript_digest ?t = Inr (sd_worker_outcome_digest ?s)"
    using assigned final(3) by (auto simp: worker_assigned_def Let_def ok_simps)
  show ?thesis
    using attempts ok earlier r charge winner validated_success_absence(1) [OF ok]
      charged_single_settlement [OF assms]
    by (intro exI [of _ ?t] exI [of _ r] exI [of _ ?s])
      (auto simp: validate_result_assignment_def ok_simps split: if_splits)
qed

theorem charged_worker_is_proven_witness:
  "\<exists>t r s. wt_attempts ex_worker \<noteq> [] \<and> t = last (wt_attempts ex_worker) \<and> wt_settlements ex_worker = [s]
    \<and> pt_result t = Some r \<and> ar_attested_nonce r = aa_provider_nonce (pt_assignment t)
    \<and> co_absence_status (pt_cleanup t) = PROVEN_ABSENT \<and> 0 < sd_charged_micros s"
  using charged_worker_is_proven [OF ex_worker_valid ex_worker_charged] by blast

text \<open>
  C2. A Worker settles as its attempts ended: a validated transcript with attempts is
  charged exactly when the last attempt succeeded and is released otherwise, and one
  without attempts is always released; in every case but the charge nothing is billed.
\<close>

theorem worker_settlement_follows_attempts:
  assumes "valid_WorkerExecutionTranscript w" "WorkerExecutionTranscript_validate w = Inr a"
  shows "a = (if wt_attempts w \<noteq> [] \<and> ProviderAttemptTranscript_validate (last (wt_attempts w)) = Inr SUCCEEDED
              then CHARGED else RELEASED)
    \<and> (a = RELEASED \<longrightarrow> sd_charged_micros (final_settlement w) = 0)"
proof -
  have "sd_action (final_settlement w) \<noteq> HELD_PENDING_CLEANUP"
    using assms(2) by (auto simp: worker_validate_parts worker_settlements_def ok_simps)
  then have two: "a = CHARGED \<or> a = RELEASED"
    using worker_final_settlement(3) [OF assms] by (cases a) auto
  show ?thesis
    using two worker_assigned_settles [OF assms(2)] worker_unassigned_releases [OF assms(2)]
      valid_settlement_charge [OF worker_final_settlement(1) [OF assms]] worker_final_settlement(3) [OF assms]
    by (auto split: if_splits)
qed

theorem worker_settlement_follows_attempts_witness:
  "CHARGED = (if wt_attempts ex_worker \<noteq> [] \<and> ProviderAttemptTranscript_validate (last (wt_attempts ex_worker)) = Inr SUCCEEDED
     then CHARGED else RELEASED)"
  using worker_settlement_follows_attempts [OF ex_worker_valid ex_worker_charged] by blast

text \<open>
  C3. A held settlement resolves at most once and never bills: whenever a resolution is
  accepted, both the held decision and the resolution charge nothing, the resolution
  releases the cap and binds the digest of the held decision, and it is new exactly when
  none was recorded; a recorded resolution is replayed only for the identical record.
\<close>

theorem held_settlement_resolves_once:
  assumes "valid_WorkerSettlementDecision held" "valid_WorkerSettlementDecision candidate"
    and "pred_option valid_WorkerSettlementDecision existing"
    and "resolve_held_settlement existing reservation held candidate = Inr decision"
  shows "sd_charged_micros held = 0 \<and> sd_charged_micros candidate = 0 \<and> sd_action candidate = RELEASED
    \<and> (\<exists>d. WorkerSettlementDecision_digest held = Inr d \<and> sd_supersedes_digest candidate = Some d)
    \<and> (case existing of None \<Rightarrow> decision = DUPLICATE_NEW
       | Some e \<Rightarrow> decision = DUPLICATE_REPLAY \<and> e = candidate)"
proof -
  from assms(4) have sup: "validate_settlement_supersession reservation held candidate = Inr ()"
    by (auto simp: resolve_held_settlement_def ok_simps)
  then have held: "sd_action held = HELD_PENDING_CLEANUP" and seq: "sd_sequence candidate = 2"
    and digest: "\<exists>d. WorkerSettlementDecision_digest held = Inr d \<and> sd_supersedes_digest candidate = Some d"
    by (auto simp: validate_settlement_supersession_def ok_simps split: if_splits)
  from seq assms(2) have released: "sd_action candidate = RELEASED"
    by (auto simp: valid_WorkerSettlementDecision_def WorkerSettlementDecision_post_init_def ok_simps)
  have "case existing of None \<Rightarrow> decision = DUPLICATE_NEW | Some e \<Rightarrow> decision = DUPLICATE_REPLAY \<and> e = candidate"
  proof (cases existing)
    case (Some e)
    with assms(4) obtain bs where
      "canonical_json_bytes (PObject (WorkerSettlementDecision_to_document e)) = Inr bs"
      "canonical_json_bytes (PObject (WorkerSettlementDecision_to_document candidate)) = Inr bs"
      and d: "decision = DUPLICATE_REPLAY"
      by (auto simp: resolve_held_settlement_def ok_simps split: if_splits)
    moreover have "valid_WorkerSettlementDecision e" using assms(3) Some by simp
    ultimately have "e = candidate"
      using assms(2) settlement_decision.bytes_inject by blast
    with Some d show ?thesis by simp
  qed (use assms(4) in \<open>auto simp: resolve_held_settlement_def ok_simps\<close>)
  then show ?thesis
    using valid_settlement_charge [OF assms(1)] valid_settlement_charge [OF assms(2)] held released digest by simp
qed

theorem held_settlement_resolves_once_witness:
  "sd_charged_micros ex_held = 0 \<and> sd_charged_micros ex_release = 0 \<and> sd_action ex_release = RELEASED"
proof -
  have "resolve_held_settlement None ex_reservation ex_held ex_release = Inr DUPLICATE_NEW"
    by (simp add: resolve_held_settlement_def ex_supersession)
  from held_settlement_resolves_once [OF ex_held_valid ex_release_valid _ this] show ?thesis by simp
qed

text \<open>
  Reporting a settlement decision again is harmless and changing it is impossible:
  against a recorded valid decision, a candidate is replayed exactly when it is the same
  record, refused with a conflict when it changes the record of the same decision, and
  refused when the decision id differs.
\<close>

lemma settlement_duplicate_exact:
  assumes "valid_WorkerSettlementDecision e" "valid_WorkerSettlementDecision c"
  shows "resolve_settlement_duplicate (Some e) c =
    (if e = c then Inr DUPLICATE_REPLAY
     else if sd_decision_id e = sd_decision_id c
     then Inl (ProviderContractError ''changed duplicate settlement decision conflicts'' WORKER_SETTLEMENT_CONFLICT)
     else Inl (contract_error ''settlement duplicate lookup used a different decision ID''))"
proof -
  have "encode_ascii (dumps (WorkerSettlementDecision_to_document e))
      = encode_ascii (dumps (WorkerSettlementDecision_to_document c)) \<Longrightarrow> e = c"
    using settlement_encodable [OF assms(1)] settlement_encodable [OF assms(2)]
      settlement_decision.bytes_inject [OF assms] by fastforce
  then show ?thesis
    using settlement_encodable [OF assms(1)] settlement_encodable [OF assms(2)]
    by (auto simp: resolve_settlement_duplicate_def)
qed



section \<open>Attempts\<close>

text \<open>
  The only way to succeed: a validated attempt transcript that ends in SUCCEEDED
  visited exactly the nine states of the main line, so the result was received and its
  evidence verified before the success cleanup, and the cleanup proves the provider absent.
\<close>

lemma success_visits_every_stage:
  assumes "valid_ProviderAttemptTranscript t" "ProviderAttemptTranscript_validate t = Inr SUCCEEDED"
  shows "map te_target (pt_events t) =
      [SLOT_CLAIMED, ASSIGNMENT_SENT, ACKNOWLEDGED, ATTESTING, RUNNING, RESULT_RECEIVED,
       EVIDENCE_VERIFIED, SUCCESS_CLEANUP_PENDING, SUCCEEDED]
    \<and> co_path (pt_cleanup t) = PATH_SUCCESS \<and> co_absence_status (pt_cleanup t) = PROVEN_ABSENT
    \<and> te_terminal_basis (last_event t) = Some PROVIDER_ABSENCE"
  using assms validated_success_path validated_success_absence
  by (auto simp: valid_ProviderAttemptTranscript_def)

text \<open>
  C15. Attempts always make progress: every allowed transition strictly raises the rank of
  the state, the states without a transition are exactly the terminal ones, and therefore
  a validated transcript is a run of the transition table from DISPATCH_PENDING to a
  terminal state of at most ten events, well inside the limit of 32.
\<close>

theorem attempt_transcript_is_bounded_run:
  assumes "valid_ProviderAttemptTranscript t" "ProviderAttemptTranscript_validate t = Inr s"
  shows "attempt_run DISPATCH_PENDING (map te_target (pt_events t)) s
    \<and> ALLOWED_ATTEMPT_TRANSITIONS s = [] \<and> length (pt_events t) \<le> 10"
  using assms validated_attempt_run validated_events_bound validated_terminal no_transition_iff_terminal
  by (auto simp: valid_ProviderAttemptTranscript_def)

theorem attempt_transcript_is_bounded_run_witness:
  "attempt_run DISPATCH_PENDING (map te_target (pt_events ex_attempt)) SUCCEEDED \<and> length (pt_events ex_attempt) \<le> 10"
  using attempt_transcript_is_bounded_run [OF ex_attempt_valid ex_attempt_succeeds] by blast

text \<open>
  Permits of an attempt form one renewal chain: in a validated transcript the permit at
  position i has sequence number i + 1, authorizes the attempt's own assignment digest, and
  was issued strictly after its predecessor.
\<close>

lemma permits_form_renewal_chain:
  assumes "ProviderAttemptTranscript_validate t = Inr s" "i < length (pt_permits t)"
  shows "ap_sequence (pt_permits t ! i) = int i + 1
    \<and> AttemptAssignment_digest (pt_assignment t) = Inr (ap_assignment_digest (pt_permits t ! i))
    \<and> (Suc i < length (pt_permits t) \<longrightarrow>
         dt_less (ap_issued_at (pt_permits t ! i)) (ap_issued_at (pt_permits t ! Suc i)))"
  using validated_permits [OF assms] by blast

section \<open>Dispatch\<close>

text \<open>
  C16. What a provider sees is bound and carries nothing private: an envelope read from
  bytes re-encodes to those bytes, its two documents have no field at any depth whose
  lower-cased name is on the private list, their digests are the ones the assignment pins,
  and its permit authorizes that assignment.
\<close>

theorem dispatched_envelope_is_bound:
  assumes "ProviderDispatchEnvelope_from_bytes (DataBytes bs) = Inr e"
  shows "ProviderDispatchEnvelope_canonical_bytes e = Inr bs
    \<and> (\<forall>f. has_field (de_workload_manifest e) f \<or> has_field (de_policy_document e) f
         \<longrightarrow> to_lower f \<notin> set PROVIDER_FORBIDDEN_FIELD_NAMES)
    \<and> canonical_sha256 (de_workload_manifest e) = Inr (aa_workload_manifest_digest (de_assignment e))
    \<and> canonical_sha256 (de_policy_document e) = Inr (aa_policy_digest (de_assignment e))
    \<and> AttemptAssignment_digest (de_assignment e) = Inr (ap_assignment_digest (de_permit e))"
proof -
  have rt: "rbind (parse_canonical_json (DataBytes bs)) ProviderDispatchEnvelope_from_document = Inr e"
    using assms by (simp add: ProviderDispatchEnvelope_from_bytes_def)
  then have "valid_ProviderDispatchEnvelope e"
    by (auto simp: rbind_ok_iff dest: dispatch_envelope.only_valid)
  then have "ProviderDispatchEnvelope_init (de_assignment e) (de_workload_manifest e) (de_policy_document e) (de_permit e) = Inr e"
    by (simp add: valid_ProviderDispatchEnvelope_def)
  from envelope_init_bound [OF this] show ?thesis
    using dispatch_envelope.bytes_canonical [OF rt]
    by (auto simp: ProviderDispatchEnvelope_canonical_bytes_def reject_private_ok_iff)
qed

theorem dispatched_envelope_is_bound_witness:
  "AttemptAssignment_digest (de_assignment ex_envelope) = Inr (ap_assignment_digest (de_permit ex_envelope))"
  using dispatched_envelope_is_bound [OF ex_envelope_bytes] by blast

text \<open>
  Encoding an envelope loses nothing: a valid envelope is read back from its own
  canonical bytes.
\<close>

lemma envelope_round_trip:
  assumes "valid_ProviderDispatchEnvelope e" "ProviderDispatchEnvelope_canonical_bytes e = Inr bs"
  shows "ProviderDispatchEnvelope_from_bytes (DataBytes bs) = Inr e"
  using assms dispatch_envelope.bytes_round_trip [OF assms(1) dispatch_envelope.encodes_intros(1)]
  by (simp add: ProviderDispatchEnvelope_canonical_bytes_def ProviderDispatchEnvelope_from_bytes_def)

section \<open>Records and digests\<close>

text \<open>
  C17. The Worker transcript is stored and read back exactly: decoding the canonical bytes
  of a valid transcript gives that transcript, with all its attempts, permits, events,
  outcomes and settlements.
\<close>

theorem worker_transcript_round_trip:
  assumes "valid_WorkerExecutionTranscript w" "WorkerExecutionTranscript_canonical_bytes w = Inr bs"
  shows "WorkerExecutionTranscript_from_bytes (DataBytes bs) = Inr w"
proof -
  have "canonical_json_bytes (worker_document w) = Inr bs"
    using assms(2) by (auto simp: WorkerExecutionTranscript_canonical_bytes_def
        WorkerExecutionTranscript_to_document_def ok_simps)
  from worker_transcript.bytes_round_trip [OF assms(1) _ this] show ?thesis
    by (simp add: WorkerExecutionTranscript_from_bytes_def)
qed

text \<open>
  Accepting a transcript is faithful to the bytes received: a Worker transcript read
  from bytes is valid and its canonical bytes are those bytes, so its digest is the digest
  of what was received.
\<close>

lemma worker_transcript_faithful:
  assumes "WorkerExecutionTranscript_from_bytes (DataBytes bs) = Inr w"
  shows "valid_WorkerExecutionTranscript w
    \<and> WorkerExecutionTranscript_canonical_bytes w = Inr bs
    \<and> WorkerExecutionTranscript_digest w = Inr (sha256_label bs)"
proof -
  have v: "valid_WorkerExecutionTranscript w"
    using assms by (auto simp: WorkerExecutionTranscript_from_bytes_def rbind_ok_iff dest: worker_transcript.only_valid)
  have bytes: "canonical_json_bytes (worker_document w) = Inr bs"
    using assms unfolding WorkerExecutionTranscript_from_bytes_def by (rule worker_transcript.bytes_canonical)
  with v show ?thesis
    by (auto simp: valid_WorkerExecutionTranscript_def WorkerExecutionTranscript_canonical_bytes_def
        WorkerExecutionTranscript_digest_def WorkerExecutionTranscript_to_document_def canonical_sha256_def)
qed

theorem worker_transcript_round_trip_witness:
  "WorkerExecutionTranscript_from_bytes (DataBytes (encode_ascii (dumps (worker_document ex_worker)))) = Inr ex_worker"
  using worker_transcript_round_trip [OF ex_worker_valid] ex_worker_bytes by simp

text \<open>
  An assignment digest identifies the assignment: two valid assignments always have a
  digest, and if the digests are equal the assignments are equal or their canonical bytes
  are an explicit SHA-256 collision.
\<close>

lemma assignment_digest_identifies:
  assumes "valid_AttemptAssignment x" "valid_AttemptAssignment y"
  shows "\<exists>c d. AttemptAssignment_digest x = Inr c \<and> AttemptAssignment_digest y = Inr d
    \<and> (c = d \<longrightarrow> x = y \<or> sha256_collision (encode_ascii (dumps (AttemptAssignment_to_document x)))
                                         (encode_ascii (dumps (AttemptAssignment_to_document y))))"
proof -
  note enc = assignment_encodable [OF assms(1)] assignment_encodable [OF assms(2)]
  then have d: "AttemptAssignment_digest x = Inr (sha256_label (encode_ascii (dumps (AttemptAssignment_to_document x))))"
    "AttemptAssignment_digest y = Inr (sha256_label (encode_ascii (dumps (AttemptAssignment_to_document y))))"
    by (simp_all add: AttemptAssignment_digest_def canonical_sha256_def)
  have "x = y" if "encode_ascii (dumps (AttemptAssignment_to_document x)) = encode_ascii (dumps (AttemptAssignment_to_document y))"
    using enc that attempt_assignment.bytes_inject [OF assms] by auto
  with d show ?thesis using sha256_label_inj by fastforce
qed

end
