(* ===== verification/Py_Text.thy ===== *)
theory Py_Text
  imports Py_Value Sha2
begin

text \<open>
  Text and byte conversions of the Python standard library that several components use:
  UTF-8, big-endian integers (\<open>int.from_bytes\<close>, \<open>struct.pack\<close>), base64, and
  \<open>json.dumps\<close> with its default separators.
\<close>

section \<open>Bytes\<close>

lemma of_nat_byte_inject [simp]:
  "m < 256 \<Longrightarrow> n < 256 \<Longrightarrow> (of_nat m :: 8 word) = of_nat n \<longleftrightarrow> m = n"
  by (simp add: word_unat_eq_iff unat_of_nat take_bit_nat_eq_self)

lemma unat_of_nat_byte [simp]: "n < 256 \<Longrightarrow> unat (of_nat n :: 8 word) = n"
  by (simp add: unat_of_nat take_bit_nat_eq_self)

lemma unat_byte_less [simp]: "unat (b :: 8 word) < 256"
  using unsigned_less [of b, where ?'a = nat] by simp

text \<open>\<open>int.from_bytes(b, "big")\<close> and \<open>struct.pack(">H", n)\<close>.\<close>

definition int_from_bytes_big :: "bytes \<Rightarrow> nat" where
  "int_from_bytes_big bs = foldl (\<lambda>acc b. 256 * acc + unat b) 0 bs"

definition pack_be16 :: "nat \<Rightarrow> bytes" where
  "pack_be16 n = [of_nat (n div 256), of_nat (n mod 256)]"

lemma int_from_bytes_big_snoc:
  "int_from_bytes_big (bs @ [b]) = 256 * int_from_bytes_big bs + unat b"
  by (simp add: int_from_bytes_big_def)

lemma int_from_bytes_big_less: "int_from_bytes_big bs < 256 ^ length bs"
proof (induction bs rule: rev_induct)
  case Nil
  show ?case by (simp add: int_from_bytes_big_def)
next
  case (snoc b bs)
  then have "256 * int_from_bytes_big bs + 256 \<le> 256 * 256 ^ length bs"
    by (metis Suc_leI mult_Suc_right mult_le_mono2 add.commute)
  moreover have "unat b < 256" by simp
  ultimately show ?case by (simp only: int_from_bytes_big_snoc length_append_singleton power_Suc)
qed

lemma length_pack_be16 [simp]: "length (pack_be16 n) = 2"
  by (simp add: pack_be16_def)

lemma pack_be16_inject: "m < 65536 \<Longrightarrow> n < 65536 \<Longrightarrow> pack_be16 m = pack_be16 n \<longleftrightarrow> m = n"
proof -
  assume mn: "m < 65536" "n < 65536"
  then have "m div 256 < 256" "n div 256 < 256" by simp_all
  then show ?thesis
    by (simp add: pack_be16_def) (metis div_mult_mod_eq)
qed

section \<open>UTF-8\<close>

text \<open>\<open>str.encode("utf-8")\<close> on the modelled code points 0 to 255.\<close>

definition utf8_char :: "char \<Rightarrow> bytes" where
  "utf8_char c =
    (let n = ord_c c in
     if n < 128 then [of_nat n] else [of_nat (192 + n div 64), of_nat (128 + n mod 64)])"

definition utf8 :: "string \<Rightarrow> bytes" where
  "utf8 s = concat (map utf8_char s)"

lemma utf8_simps [simp]: "utf8 [] = []" "utf8 (c # s) = utf8_char c @ utf8 s"
  by (simp_all add: utf8_def)

lemma length_utf8_le: "length (utf8 s) \<le> 2 * length s"
  by (induction s) (auto simp: utf8_char_def Let_def)

lemma ord_c_less_256 [simp]: "ord_c c < 256"
  by (cases c) (simp add: of_char_def horner_sum_simps split: if_splits)

lemma utf8_char_prefix:
  assumes eq: "utf8_char c @ s = utf8_char d @ t"
  shows "c = d \<and> s = t"
proof -
  have div64: "ord_c x div 64 < 64" for x
    by (rule less_mult_imp_div_less) (use ord_c_less_256 [of x] in linarith)
  have bytes: "192 + ord_c c div 64 < 256" "192 + ord_c d div 64 < 256"
    "128 + ord_c c mod 64 < 256" "128 + ord_c d mod 64 < 256"
    using div64 [of c] div64 [of d] by simp_all
  have "ord_c c = ord_c d \<and> s = t"
  proof (cases "ord_c c < 128"; cases "ord_c d < 128")
    assume "\<not> ord_c c < 128" "\<not> ord_c d < 128"
    with eq have "192 + ord_c c div 64 = 192 + ord_c d div 64"
      "128 + ord_c c mod 64 = 128 + ord_c d mod 64" "s = t"
      using bytes by (simp_all add: utf8_char_def Let_def del: add_left_cancel of_nat_add)
    then show ?thesis by (metis add_left_cancel div_mult_mod_eq)
  qed (use eq bytes in \<open>simp_all add: utf8_char_def Let_def del: of_nat_add\<close>)
  then show ?thesis by (simp add: char_eqI)
qed

lemma utf8_inject [simp]: "utf8 s = utf8 t \<longleftrightarrow> s = t"
proof
  show "utf8 s = utf8 t \<Longrightarrow> s = t"
  proof (induction s arbitrary: t)
    case Nil
    then show ?case by (cases t) (auto simp: utf8_char_def Let_def split: if_splits)
  next
    case (Cons c s)
    then obtain d t' where t: "t = d # t'"
      by (cases t) (auto simp: utf8_char_def Let_def split: if_splits)
    with Cons.prems have "utf8_char c @ utf8 s = utf8_char d @ utf8 t'" by simp
    then have "c = d" "utf8 s = utf8 t'" by (auto dest: utf8_char_prefix)
    with Cons.IH t show ?case by blast
  qed
qed simp

lemma utf8_ascii: "list_all is_ascii s \<Longrightarrow> utf8 s = encode_ascii s"
  by (induction s) (simp_all add: utf8_char_def Let_def is_ascii_def encode_ascii_def)

lemma utf8_Nil_iff [simp]: "utf8 s = [] \<longleftrightarrow> s = []"
  using utf8_inject [of s "[]"] by simp

section \<open>Base64\<close>

definition b64_char :: "nat \<Rightarrow> char" where
  "b64_char n = ''ABCDEFGHIJKLMNOPQRSTUVWXYZabcdefghijklmnopqrstuvwxyz0123456789+/'' ! n"

definition b64_val :: "char \<Rightarrow> nat option" where
  "b64_val c =
    (if is_upper c then Some (ord_c c - 65)
     else if is_lower c then Some (ord_c c - 71)
     else if is_digit c then Some (ord_c c + 4)
     else if c = CHR ''+'' then Some 62
     else if c = CHR ''/'' then Some 63
     else None)"

text \<open>\<open>base64.b64encode(b).decode("ascii")\<close>\<close>

fun b64encode :: "bytes \<Rightarrow> string" where
  "b64encode [] = []"
| "b64encode [a] =
    [b64_char (unat a div 4), b64_char (unat a mod 4 * 16), CHR ''='', CHR ''='']"
| "b64encode [a, b] =
    [b64_char (unat a div 4), b64_char (unat a mod 4 * 16 + unat b div 16),
     b64_char (unat b mod 16 * 4), CHR ''='']"
| "b64encode (a # b # c # rest) =
    b64_char (unat a div 4) # b64_char (unat a mod 4 * 16 + unat b div 16)
    # b64_char (unat b mod 16 * 4 + unat c div 64) # b64_char (unat c mod 64) # b64encode rest"

text \<open>
  \<open>base64.b64decode(s, validate=True)\<close>: groups of four alphabet characters, the last one
  possibly padded; the unused low bits of a padded group are ignored.
\<close>

fun b64decode :: "string \<Rightarrow> bytes option" where
  "b64decode [] = Some []"
| "b64decode [w, x, y, z] =
    (case (b64_val w, b64_val x) of
       (Some p, Some q) \<Rightarrow>
         if y = CHR ''='' then
           (if z = CHR ''='' then Some [of_nat (p * 4 + q div 16)] else None)
         else (case b64_val y of
             None \<Rightarrow> None
           | Some r \<Rightarrow>
               if z = CHR ''='' then
                 Some [of_nat (p * 4 + q div 16), of_nat (q mod 16 * 16 + r div 4)]
               else (case b64_val z of
                   None \<Rightarrow> None
                 | Some t \<Rightarrow> Some [of_nat (p * 4 + q div 16), of_nat (q mod 16 * 16 + r div 4),
                                  of_nat (r mod 4 * 64 + t)]))
     | _ \<Rightarrow> None)"
| "b64decode (w # x # y # z # rest) =
    (case (b64_val w, b64_val x, b64_val y, b64_val z, b64decode rest) of
       (Some p, Some q, Some r, Some t, Some bs) \<Rightarrow>
         Some (of_nat (p * 4 + q div 16) # of_nat (q mod 16 * 16 + r div 4)
               # of_nat (r mod 4 * 64 + t) # bs)
     | _ \<Rightarrow> None)"
| "b64decode _ = None"

lemma b64_val_char [simp]: "n < 64 \<Longrightarrow> b64_val (b64_char n) = Some n"
proof -
  have "list_all (\<lambda>n. b64_val (b64_char n) = Some n) [0..<64]" by code_simp
  then show "n < 64 \<Longrightarrow> ?thesis" by (simp add: list_all_iff)
qed

lemma b64_char_not_pad [simp]: "n < 64 \<Longrightarrow> b64_char n \<noteq> CHR ''=''"
proof
  assume "n < 64" "b64_char n = CHR ''=''"
  then have "b64_val (CHR ''='') = Some n" by (metis b64_val_char)
  then show False by (simp add: b64_val_def is_upper_def is_lower_def is_digit_def)
qed

lemma byte_div_bounds [simp]:
  fixes b :: "8 word"
  shows "unat b div 4 < 64" "unat b div 16 < 16" "unat b div 64 < 4"
  by (rule less_mult_imp_div_less; use unat_byte_less [of b] in linarith)+

lemma sextet_bounds [simp]:
  fixes b c :: "8 word"
  shows "unat b mod 4 * 16 < 64" "unat b mod 16 * 4 < 64"
    "unat b mod 4 * 16 + unat c div 16 < 64" "unat b mod 16 * 4 + unat c div 64 < 64"
proof -
  have "unat b mod 4 < 4" "unat b mod 16 < 16" by simp_all
  then show "unat b mod 4 * 16 < 64" "unat b mod 16 * 4 < 64"
    "unat b mod 4 * 16 + unat c div 16 < 64" "unat b mod 16 * 4 + unat c div 64 < 64"
    using byte_div_bounds [of c] by linarith+
qed

lemma byte_rebuild [simp]:
  fixes a b c :: "8 word"
  shows "unat a div 4 * 4 + (unat a mod 4 * 16 + unat b div 16) div 16 = unat a"
    "unat a div 4 * 4 + unat a mod 4 * 16 div 16 = unat a"
    "(unat a mod 4 * 16 + unat b div 16) mod 16 * 16 + (unat b mod 16 * 4 + unat c div 64) div 4
       = unat b"
    "(unat a mod 4 * 16 + unat b div 16) mod 16 * 16 + unat b mod 16 * 4 div 4 = unat b"
    "(unat b mod 16 * 4 + unat c div 64) mod 4 * 64 + unat c mod 64 = unat c"
  using byte_div_bounds [of b] byte_div_bounds [of c] by simp_all

lemma b64decode_encode [simp]: "b64decode (b64encode bs) = Some bs"
proof (induction bs rule: b64encode.induct)
  case (4 a b c rest)
  then show ?case by (cases rest rule: b64encode.cases) (simp_all del: of_nat_add of_nat_mult)
qed (simp_all del: of_nat_add of_nat_mult)

lemma b64encode_inject [simp]: "b64encode x = b64encode y \<longleftrightarrow> x = y"
  by (metis b64decode_encode option.inject)

section \<open>json.dumps with the default separators\<close>

text \<open>\<open>json.dumps(v, sort_keys=True)\<close>: a space follows every comma and colon.\<close>

fun join_comma_space :: "string list \<Rightarrow> string" where
  "join_comma_space [] = []"
| "join_comma_space [x] = x"
| "join_comma_space (x # y # zs) = x @ '', '' @ join_comma_space (y # zs)"

definition json_member_spaced :: "string \<times> string \<Rightarrow> string" where
  "json_member_spaced kt = json_string (fst kt) @ '': '' @ snd kt"

fun dumps_spaced :: "pyval \<Rightarrow> string" where
  "dumps_spaced (PList vs) = CHR ''['' # join_comma_space (map dumps_spaced vs) @ '']''"
| "dumps_spaced (PTuple vs) = CHR ''['' # join_comma_space (map dumps_spaced vs) @ '']''"
| "dumps_spaced (PDict kvs) =
     CHR ''{'' # join_comma_space (map json_member_spaced
       (sort_key fst (map (\<lambda>(k, v). (k, dumps_spaced v)) kvs))) @ ''}''"
| "dumps_spaced v = dumps v"

text \<open>Values none of whose own characters is a space: removing the spaces gives \<open>dumps\<close>.\<close>

abbreviation unspaced :: "string \<Rightarrow> string" where
  "unspaced s \<equiv> filter (\<lambda>c. c \<noteq> CHR '' '') s"

fun no_spaces :: "pyval \<Rightarrow> bool" where
  "no_spaces (PList vs) = list_all no_spaces vs"
| "no_spaces (PTuple vs) = list_all no_spaces vs"
| "no_spaces (PDict kvs) =
     list_all (\<lambda>(k, v). CHR '' '' \<notin> set (json_string k) \<and> no_spaces v) kvs"
| "no_spaces v = (CHR '' '' \<notin> set (dumps v))"

lemma unspaced_id: "CHR '' '' \<notin> set s \<Longrightarrow> unspaced s = s"
  by (induction s) auto

lemma unspaced_join: "unspaced (join_comma_space xs) = join_comma (map unspaced xs)"
  by (induction xs rule: join_comma_space.induct) auto

lemma unspaced_member:
  "CHR '' '' \<notin> set (json_string k) \<Longrightarrow>
     unspaced (json_member_spaced (k, t)) = json_member (k, unspaced t)"
  by (simp add: json_member_spaced_def json_member_def unspaced_id)

lemma unspaced_dumps: "no_spaces v \<Longrightarrow> unspaced (dumps_spaced v) = dumps v"
proof (induction v rule: dumps_spaced.induct)
  case (3 kvs)
  let ?sp = "map (\<lambda>(k, v). (k, dumps_spaced v))"
  have "map unspaced (map json_member_spaced (?sp (sort_key fst kvs)))
      = map json_member (map (\<lambda>(k, v). (k, dumps v)) (sort_key fst kvs))"
    using 3 by (force simp: list_all_iff unspaced_member)
  then show ?case
    by (simp only: dumps_spaced.simps dumps.simps sort_key_apsnd)
      (simp only: filter.simps filter_append unspaced_join, simp)
qed (simp_all add: unspaced_join unspaced_id list_all_iff cong: map_cong)

lemma dumps_spaced_inject:
  assumes "is_json v" "is_json w" "no_spaces v" "no_spaces w" "dumps_spaced v = dumps_spaced w"
  shows "canon v = canon w"
  using assms by (metis unspaced_dumps dumps_inject)

lemma digit_no_space: "is_digit c \<Longrightarrow> c \<noteq> CHR '' ''"
  by (auto simp: is_digit_def)

lemma show_int_no_space [simp]: "CHR '' '' \<notin> set (show_int i)"
  using show_nat_digits [of "nat i"] show_nat_digits [of "nat (- i)"]
  by (auto simp: show_int_def list_all_iff dest: digit_no_space)

lemma no_spaces_int [simp]: "no_spaces (PInt i)"
  by simp

end
