(* ===== verification/Sat_Solver.thy ===== *)
theory Sat_Solver
  imports Py_Text
begin

text \<open>
  The SAT lane's instances and its solver: \<open>lanes/sat_types.py\<close>, and from
  \<open>lanes/sat.py\<close> the validation of instances and the deterministic DPLL procedure
  \<open>solve_sat\<close>.  The solver is total: every unit propagation and every branch assigns a
  variable of the clauses that had none.  It is proved to decide satisfiability.
\<close>

section \<open>Instances\<close>

record SatInstance =
  n_vars :: int
  clauses :: "int list list"

text \<open>
  Semantics: a truth assignment satisfies a literal, a clause, an instance.
\<close>

definition lit_holds :: "(int \<Rightarrow> bool) \<Rightarrow> int \<Rightarrow> bool" where
  "lit_holds \<sigma> l \<longleftrightarrow> (0 < l) = \<sigma> \<bar>l\<bar>"

definition clause_holds :: "(int \<Rightarrow> bool) \<Rightarrow> int list \<Rightarrow> bool" where
  "clause_holds \<sigma> c \<longleftrightarrow> (\<exists>l \<in> set c. lit_holds \<sigma> l)"

definition cnf_holds :: "(int \<Rightarrow> bool) \<Rightarrow> int list list \<Rightarrow> bool" where
  "cnf_holds \<sigma> cs \<longleftrightarrow> (\<forall>c \<in> set cs. clause_holds \<sigma> c)"

definition satisfiable_cnf :: "int list list \<Rightarrow> bool" where
  "satisfiable_cnf cs \<longleftrightarrow> (\<exists>\<sigma>. cnf_holds \<sigma> cs)"

section \<open>Validation\<close>

definition MAX_N_VARS :: int where "MAX_N_VARS = 512"

definition MAX_CLAUSES :: nat where "MAX_CLAUSES = 8192"

definition MAX_LITERALS :: nat where "MAX_LITERALS = 65536"

definition MAX_LITERALS_PER_CLAUSE :: nat where "MAX_LITERALS_PER_CLAUSE = 1024"

text \<open>The \<open>ValueError\<close> messages of the lane.\<close>

datatype sat_error = SatValueError string

text \<open>
  \<open>validate_sat_instance\<close> on the two raw fields of an instance.  It returns the checked
  fields at their types; the literal counter runs through the clauses.
\<close>

fun validate_literal :: "int \<Rightarrow> pyval \<Rightarrow> sat_error + int" where
  "validate_literal n (PInt l) =
    (if l = 0 \<or> \<bar>l\<bar> > n then Inl (SatValueError ''invalid SAT literal'') else Inr l)"
| "validate_literal n _ = Inl (SatValueError ''invalid SAT literal'')"

fun validate_clauses :: "int \<Rightarrow> nat \<Rightarrow> pyval list \<Rightarrow> sat_error + int list list" where
  "validate_clauses n cnt [] = Inr []"
| "validate_clauses n cnt (PList c # cs) =
    (if length c > MAX_LITERALS_PER_CLAUSE then Inl (SatValueError ''invalid SAT clause'')
     else if cnt + length c > MAX_LITERALS
       then Inl (SatValueError ''SAT instance exceeds literal limit'')
     else rbind (rmap (validate_literal n) c) (\<lambda>ls.
          rbind (validate_clauses n (cnt + length c) cs) (\<lambda>rest. Inr (ls # rest))))"
| "validate_clauses n cnt (_ # cs) = Inl (SatValueError ''invalid SAT clause'')"

fun validate_sat_instance :: "pyval \<Rightarrow> pyval \<Rightarrow> sat_error + SatInstance" where
  "validate_sat_instance (PInt n) cs =
    (if \<not> (1 \<le> n \<and> n \<le> MAX_N_VARS) then Inl (SatValueError ''invalid SAT n_vars'')
     else case cs of
       PList cls \<Rightarrow>
         if cls = [] \<or> length cls > MAX_CLAUSES then Inl (SatValueError ''invalid SAT clauses'')
         else rbind (validate_clauses n 0 cls) (\<lambda>checked. Inr \<lparr>n_vars = n, clauses = checked\<rparr>)
     | _ \<Rightarrow> Inl (SatValueError ''invalid SAT clauses''))"
| "validate_sat_instance _ cs = Inl (SatValueError ''invalid SAT n_vars'')"

text \<open>The instances that pass.\<close>

definition valid_instance :: "SatInstance \<Rightarrow> bool" where
  "valid_instance i \<longleftrightarrow>
     1 \<le> n_vars i \<and> n_vars i \<le> MAX_N_VARS
     \<and> clauses i \<noteq> [] \<and> length (clauses i) \<le> MAX_CLAUSES
     \<and> list_all (\<lambda>c. length c \<le> MAX_LITERALS_PER_CLAUSE
           \<and> list_all (\<lambda>l. l \<noteq> 0 \<and> \<bar>l\<bar> \<le> n_vars i) c) (clauses i)
     \<and> sum_list (map length (clauses i)) \<le> MAX_LITERALS"

definition clauses_pyval :: "int list list \<Rightarrow> pyval" where
  "clauses_pyval cs = PList (map (\<lambda>c. PList (map PInt c)) cs)"

section \<open>The solver\<close>

type_synonym assignment = "int \<rightharpoonup> bool"

text \<open>
  The body of the \<open>for\<close> loop over one clause: the literal that satisfies it ends the
  scan, the unassigned literals are collected in order.
\<close>

datatype clause_status = Satisfied | Unresolved "int list"

fun scan_clause :: "assignment \<Rightarrow> int list \<Rightarrow> int list \<Rightarrow> clause_status" where
  "scan_clause a [] acc = Unresolved acc"
| "scan_clause a (l # ls) acc =
    (case a \<bar>l\<bar> of
       Some b \<Rightarrow> if (0 < l) = b then Satisfied else scan_clause a ls acc
     | None \<Rightarrow> scan_clause a ls (acc @ [l]))"

text \<open>One pass over the clauses: a conflict, a unit literal, or neither.\<close>

datatype pass_result = Conflict | UnitLit int | NoUnit

fun find_unit :: "assignment \<Rightarrow> int list list \<Rightarrow> pass_result" where
  "find_unit a [] = NoUnit"
| "find_unit a (c # cs) =
    (case scan_clause a c [] of
       Satisfied \<Rightarrow> find_unit a cs
     | Unresolved [] \<Rightarrow> Conflict
     | Unresolved [l] \<Rightarrow> UnitLit l
     | Unresolved _ \<Rightarrow> find_unit a cs)"

text \<open>The variables of the clauses that have no value yet.\<close>

definition open_vars :: "int list list \<Rightarrow> assignment \<Rightarrow> int set" where
  "open_vars cs a = {\<bar>l\<bar> | l c. c \<in> set cs \<and> l \<in> set c} - dom a"

lemma finite_open_vars [simp]: "finite (open_vars cs a)"
proof -
  have "{\<bar>l\<bar> | l c. c \<in> set cs \<and> l \<in> set c} = abs ` (\<Union> (set ` set cs))" by auto
  then show ?thesis by (simp add: open_vars_def)
qed

lemma scan_clause_unresolved:
  "scan_clause a c acc = Unresolved ls \<Longrightarrow> set ls = set acc \<union> {l \<in> set c. a \<bar>l\<bar> = None}"
proof (induction c arbitrary: acc)
  case (Cons l c)
  show ?case
  proof (cases "a \<bar>l\<bar>")
    case None
    with Cons.prems have "scan_clause a c (acc @ [l]) = Unresolved ls" by simp
    from Cons.IH [OF this] None show ?thesis by (simp only: set_append) auto
  next
    case (Some b)
    with Cons.prems have step: "scan_clause a c acc = Unresolved ls" by (simp split: if_splits)
    have "{x \<in> set (l # c). a \<bar>x\<bar> = None} = {x \<in> set c. a \<bar>x\<bar> = None}" using Some by fastforce
    then show ?thesis by (simp only: Cons.IH [OF step])
  qed
qed simp

lemma find_unit_source:
  "find_unit a cs = UnitLit l \<Longrightarrow> \<exists>c \<in> set cs. scan_clause a c [] = Unresolved [l]"
  by (induction cs) (auto split: clause_status.splits list.splits)

lemma find_unit_open: "find_unit a cs = UnitLit l \<Longrightarrow> \<bar>l\<bar> \<in> open_vars cs a"
proof -
  assume "find_unit a cs = UnitLit l"
  then obtain c where c: "c \<in> set cs" and "scan_clause a c [] = Unresolved [l]"
    by (blast dest: find_unit_source)
  then have "l \<in> set c" "a \<bar>l\<bar> = None" by (auto dest!: scan_clause_unresolved)
  with c show ?thesis by (auto simp: open_vars_def)
qed

lemma open_vars_update: "v \<in> open_vars cs a \<Longrightarrow> open_vars cs (a(v \<mapsto> b)) = open_vars cs a - {v}"
  by (auto simp: open_vars_def)

lemma open_vars_update_less:
  "v \<in> open_vars cs a \<Longrightarrow> card (open_vars cs (a(v \<mapsto> b))) < card (open_vars cs a)"
  using card_Diff1_less [OF finite_open_vars] by (simp only: open_vars_update)

text \<open>\<open>unit_propagate\<close>: \<open>None\<close> for a conflict, otherwise the extended assignment.\<close>

function unit_propagate :: "int list list \<Rightarrow> assignment \<Rightarrow> assignment option" where
  "unit_propagate cs a =
    (case find_unit a cs of
       Conflict \<Rightarrow> None
     | NoUnit \<Rightarrow> Some a
     | UnitLit l \<Rightarrow> unit_propagate cs (a(\<bar>l\<bar> \<mapsto> 0 < l)))"
  by pat_completeness auto
termination
  by (relation "measure (\<lambda>(cs, a). card (open_vars cs a))")
    (auto intro: open_vars_update_less find_unit_open)

declare unit_propagate.simps [simp del]

definition all_satisfied :: "int list list \<Rightarrow> assignment \<Rightarrow> bool" where
  "all_satisfied cs a \<longleftrightarrow> list_all (list_ex (\<lambda>l. a \<bar>l\<bar> = Some (0 < l))) cs"

text \<open>The first literal, in clause order, whose variable has no value.\<close>

definition first_unassigned :: "int list list \<Rightarrow> assignment \<Rightarrow> int option" where
  "first_unassigned cs a = map_option abs (find (\<lambda>l. a \<bar>l\<bar> = None) (concat cs))"

lemma first_unassigned_open: "first_unassigned cs a = Some v \<Longrightarrow> v \<in> open_vars cs a"
  by (auto simp: first_unassigned_def open_vars_def find_Some_iff) (metis nth_mem set_concat UN_E)

lemma unit_propagate_open:
  "unit_propagate cs a = Some a' \<Longrightarrow> open_vars cs a' \<subseteq> open_vars cs a"
proof (induction cs a rule: unit_propagate.induct)
  case (1 cs a)
  show ?case
  proof (cases "find_unit a cs")
    case (UnitLit l)
    then have "open_vars cs a' \<subseteq> open_vars cs (a(\<bar>l\<bar> \<mapsto> 0 < l))"
      using "1.IH" "1.prems" by (simp only: unit_propagate.simps [of cs a] pass_result.case)
    then show ?thesis by (auto simp: open_vars_def)
  qed (use 1 in \<open>simp_all add: unit_propagate.simps [of cs a]\<close>)
qed

lemma propagate_branch_less:
  assumes "unit_propagate cs a = Some a'" and "first_unassigned cs a' = Some v"
  shows "card (open_vars cs (a'(v \<mapsto> b))) < card (open_vars cs a)"
proof -
  have "card (open_vars cs (a'(v \<mapsto> b))) < card (open_vars cs a')"
    using assms(2) by (intro open_vars_update_less first_unassigned_open)
  also have "\<dots> \<le> card (open_vars cs a)"
    using assms(1) by (intro card_mono unit_propagate_open) simp_all
  finally show ?thesis .
qed

text \<open>
  \<open>backtrack\<close>: the assignment it leaves in its dictionary on success, \<open>None\<close> when it
  returns \<open>False\<close>.  The trial dictionaries of failed branches are discarded.
\<close>

function backtrack :: "int list list \<Rightarrow> assignment \<Rightarrow> assignment option" where
  "backtrack cs a =
    (case unit_propagate cs a of
       None \<Rightarrow> None
     | Some a' \<Rightarrow>
         if all_satisfied cs a' then Some a'
         else case first_unassigned cs a' of
             None \<Rightarrow> None
           | Some v \<Rightarrow>
               (case backtrack cs (a'(v \<mapsto> True)) of
                  Some r \<Rightarrow> Some r
                | None \<Rightarrow> backtrack cs (a'(v \<mapsto> False))))"
  by pat_completeness auto
termination
  by (relation "measure (\<lambda>(cs, a). card (open_vars cs a))") (auto intro: propagate_branch_less)

declare backtrack.simps [simp del]

text \<open>Variables without a value default to true.\<close>

definition solve_sat :: "SatInstance \<Rightarrow> int list option" where
  "solve_sat i =
    (case backtrack (clauses i) Map.empty of
       None \<Rightarrow> None
     | Some a \<Rightarrow>
         Some (map (\<lambda>v. case a v of Some False \<Rightarrow> - v | _ \<Rightarrow> v) [1..n_vars i]))"

section \<open>The solver decides satisfiability\<close>

text \<open>A total assignment that extends the dictionary.\<close>

definition agrees :: "(int \<Rightarrow> bool) \<Rightarrow> assignment \<Rightarrow> bool" where
  "agrees \<sigma> a \<longleftrightarrow> (\<forall>v b. a v = Some b \<longrightarrow> \<sigma> v = b)"

lemma agrees_update: "agrees \<sigma> a \<Longrightarrow> \<sigma> v = b \<Longrightarrow> agrees \<sigma> (a(v \<mapsto> b))"
  by (simp add: agrees_def)

lemma agrees_empty [simp]: "agrees \<sigma> Map.empty"
  by (simp add: agrees_def)

lemma agrees_lit: "agrees \<sigma> a \<Longrightarrow> a \<bar>l\<bar> = Some b \<Longrightarrow> lit_holds \<sigma> l \<longleftrightarrow> (0 < l) = b"
  by (simp add: agrees_def lit_holds_def)

lemma scan_clause_false:
  "scan_clause a c acc = Unresolved ls \<Longrightarrow> l \<in> set c \<Longrightarrow> a \<bar>l\<bar> = Some b \<Longrightarrow> (0 < l) \<noteq> b"
proof (induction c arbitrary: acc)
  case (Cons m c)
  then show ?case by (cases "a \<bar>m\<bar>") (auto split: if_splits)
qed simp

lemma unresolved_literals:
  assumes "scan_clause a c [] = Unresolved ls" "agrees \<sigma> a" "clause_holds \<sigma> c"
  shows "\<exists>l \<in> set ls. lit_holds \<sigma> l"
proof -
  from assms(3) obtain l where l: "l \<in> set c" "lit_holds \<sigma> l" by (auto simp: clause_holds_def)
  have "a \<bar>l\<bar> = None"
  proof (cases "a \<bar>l\<bar>")
    case (Some b)
    with assms(1) l(1) have "(0 < l) \<noteq> b" by (rule scan_clause_false)
    with agrees_lit [OF assms(2) Some] l(2) show ?thesis by simp
  qed simp
  with scan_clause_unresolved [OF assms(1)] l show ?thesis by blast
qed

lemma find_unit_conflict:
  "find_unit a cs = Conflict \<Longrightarrow> \<exists>c \<in> set cs. scan_clause a c [] = Unresolved []"
  by (induction cs) (auto split: clause_status.splits list.splits)

lemma unit_propagate_sound:
  assumes "agrees \<sigma> a" "cnf_holds \<sigma> cs"
  shows "\<exists>a'. unit_propagate cs a = Some a' \<and> agrees \<sigma> a'"
  using assms
proof (induction cs a rule: unit_propagate.induct)
  case (1 cs a)
  have forced: "\<exists>l \<in> set ls. lit_holds \<sigma> l"
    if "c \<in> set cs" "scan_clause a c [] = Unresolved ls" for c ls
    using that 1(2,3) by (intro unresolved_literals) (auto simp: cnf_holds_def)
  show ?case
  proof (cases "find_unit a cs")
    case Conflict
    then obtain c where "c \<in> set cs" "scan_clause a c [] = Unresolved []"
      by (blast dest: find_unit_conflict)
    from forced [OF this] show ?thesis by simp
  next
    case (UnitLit l)
    with forced have "lit_holds \<sigma> l" by (fastforce dest!: find_unit_source)
    then have "agrees \<sigma> (a(\<bar>l\<bar> \<mapsto> 0 < l))"
      using 1(2) by (intro agrees_update) (simp_all add: lit_holds_def)
    from "1.IH" [OF UnitLit this 1(3)] UnitLit show ?thesis
      by (simp only: unit_propagate.simps [of cs a] pass_result.case)
  next
    case NoUnit
    with 1(2) show ?thesis by (simp add: unit_propagate.simps [of cs a])
  qed
qed

lemma all_satisfied_holds: "all_satisfied cs a \<Longrightarrow> agrees \<sigma> a \<Longrightarrow> cnf_holds \<sigma> cs"
  unfolding all_satisfied_def cnf_holds_def clause_holds_def list_all_iff list_ex_iff
  by (metis agrees_lit)

lemma fully_assigned_holds:
  assumes "first_unassigned cs a = None" "agrees \<sigma> a" "cnf_holds \<sigma> cs"
  shows "all_satisfied cs a"
proof -
  have "a \<bar>l\<bar> = Some (0 < l)" if "c \<in> set cs" "l \<in> set c" "lit_holds \<sigma> l" for c l
  proof -
    from assms(1) that(1,2) obtain b where "a \<bar>l\<bar> = Some b"
      by (fastforce simp: first_unassigned_def find_None_iff)
    with agrees_lit [OF assms(2) this] that(3) show ?thesis by simp
  qed
  with assms(3) show ?thesis
    by (fastforce simp: all_satisfied_def cnf_holds_def clause_holds_def list_all_iff list_ex_iff)
qed

lemma backtrack_complete:
  assumes "agrees \<sigma> a" "cnf_holds \<sigma> cs"
  shows "backtrack cs a \<noteq> None"
  using assms
proof (induction cs a rule: backtrack.induct)
  case (1 cs a)
  obtain a' where a': "unit_propagate cs a = Some a'" "agrees \<sigma> a'"
    using unit_propagate_sound [OF 1(3,4)] by blast
  show ?case
  proof (cases "all_satisfied cs a'")
    case False
    with a' 1(4) obtain v where v: "first_unassigned cs a' = Some v"
      by (cases "first_unassigned cs a'") (blast dest: fully_assigned_holds)+
    have ext: "agrees \<sigma> (a'(v \<mapsto> b))" if "\<sigma> v = b" for b using a'(2) that by (rule agrees_update)
    show ?thesis
    proof (cases "backtrack cs (a'(v \<mapsto> True))")
      case None
      then have "\<sigma> v = False" using "1.IH"(1) [OF a'(1) False v ext 1(4)] by blast
      from "1.IH"(2) [OF a'(1) False v None ext [OF this] 1(4)] show ?thesis
        by (simp only: backtrack.simps [of cs a] a'(1) False v None option.case if_False not_False_eq_True)
    qed (use a'(1) False v in \<open>simp add: backtrack.simps [of cs a]\<close>)
  qed (simp add: backtrack.simps [of cs a] a')
qed

lemma backtrack_sound: "backtrack cs a = Some r \<Longrightarrow> all_satisfied cs r"
proof (induction cs a rule: backtrack.induct)
  case (1 cs a)
  from 1(3) obtain a' where a': "unit_propagate cs a = Some a'"
    by (auto simp: backtrack.simps [of cs a] split: option.splits)
  show ?case
  proof (cases "all_satisfied cs a'")
    case True
    with 1(3) a' show ?thesis by (simp add: backtrack.simps [of cs a])
  next
    case False
    with 1(3) a' obtain v where v: "first_unassigned cs a' = Some v"
      by (auto simp: backtrack.simps [of cs a] split: option.splits)
    with 1(3) a' False show ?thesis
      by (cases "backtrack cs (a'(v \<mapsto> True))")
        (auto simp: backtrack.simps [of cs a] dest: "1.IH" [OF a' False v])
  qed
qed

text \<open>
  What an accepted assignment has to be, as the verifier and the replayer check it: one
  literal for every variable, and a true literal in every clause.
\<close>

definition certifies :: "SatInstance \<Rightarrow> int list \<Rightarrow> bool" where
  "certifies i asg \<longleftrightarrow>
     int (length asg) = n_vars i
     \<and> set (map abs asg) = set [1..n_vars i]
     \<and> list_all (list_ex (\<lambda>l. l \<in> set asg)) (clauses i)"

lemma certifies_holds:
  assumes "certifies i asg"
  shows "cnf_holds (\<lambda>v. v \<in> set asg) (clauses i)"
proof -
  have len: "length asg = nat (n_vars i)" and vars: "abs ` set asg = {1..n_vars i}"
    using assms by (auto simp: certifies_def)
  have "card (set (map abs asg)) = length (map abs asg)"
    using len by (simp add: vars)
  then have inj: "inj_on abs (set asg)" by (metis card_distinct distinct_map)
  have "lit_holds (\<lambda>v. v \<in> set asg) l" if l: "l \<in> set asg" for l
  proof (cases "0 < l")
    case False
    have "\<bar>l\<bar> \<in> {1..n_vars i}" using vars l by blast
    with False have "l < 0" by simp
    then have "- l \<notin> set asg" using inj_onD [OF inj _ l, of "- l"] by auto
    with False \<open>l < 0\<close> show ?thesis by (simp add: lit_holds_def)
  qed (use l in \<open>simp add: lit_holds_def\<close>)
  with assms show ?thesis
    by (fastforce simp: certifies_def cnf_holds_def clause_holds_def list_all_iff list_ex_iff)
qed

lemma solve_sat_certifies:
  assumes valid: "valid_instance i" and solved: "solve_sat i = Some asg"
  shows "certifies i asg"
proof -
  obtain a where a: "backtrack (clauses i) Map.empty = Some a"
    and asg: "asg = map (\<lambda>v. case a v of Some False \<Rightarrow> - v | _ \<Rightarrow> v) [1..n_vars i]"
    using solved by (auto simp: solve_sat_def split: option.splits)
  let ?pick = "\<lambda>v. case a v of Some False \<Rightarrow> - v | _ \<Rightarrow> v"
  have abs_pick: "\<bar>?pick v\<bar> = \<bar>v\<bar>" for v by (simp split: option.splits bool.splits)
  have abs_asg: "map abs asg = [1..n_vars i]"
    unfolding asg map_map by (rule map_idI) (auto split: option.split bool.split)
  have "l \<in> set asg" if "c \<in> set (clauses i)" "l \<in> set c" "a \<bar>l\<bar> = Some (0 < l)" for c l
  proof -
    from valid that(1,2) have "l \<noteq> 0" "\<bar>l\<bar> \<le> n_vars i"
      by (auto simp: valid_instance_def list_all_iff)
    then have "\<bar>l\<bar> \<in> set [1..n_vars i]" by simp
    then have "?pick \<bar>l\<bar> \<in> set asg" unfolding asg set_map by (rule imageI)
    moreover have "?pick \<bar>l\<bar> = l"
      using that(3) by (cases "0 < l") simp_all
    ultimately show ?thesis by simp
  qed
  then have "list_all (list_ex (\<lambda>l. l \<in> set asg)) (clauses i)"
    using backtrack_sound [OF a] by (fastforce simp: all_satisfied_def list_all_iff list_ex_iff)
  moreover have "int (length asg) = n_vars i"
    using valid by (simp add: asg valid_instance_def)
  ultimately show ?thesis by (simp only: certifies_def abs_asg)
qed

lemma solve_sat_unsat: "solve_sat i = None \<Longrightarrow> \<not> satisfiable_cnf (clauses i)"
  using backtrack_complete [of _ Map.empty "clauses i"]
  by (auto simp: solve_sat_def satisfiable_cnf_def split: option.splits)

section \<open>Validation is exact\<close>

lemma validate_literal_ok_iff: "validate_literal n v = Inr l \<longleftrightarrow> v = PInt l \<and> l \<noteq> 0 \<and> \<bar>l\<bar> \<le> n"
  by (cases v) auto

lemma rmap_literals_ok_iff:
  "rmap (validate_literal n) vs = Inr ls
     \<longleftrightarrow> vs = map PInt ls \<and> list_all (\<lambda>l. l \<noteq> 0 \<and> \<bar>l\<bar> \<le> n) ls"
proof (induction vs arbitrary: ls)
  case (Cons v vs)
  then show ?case by (cases ls) (auto simp: rbind_ok_iff validate_literal_ok_iff)
qed auto

lemma validate_clauses_ok_iff:
  "validate_clauses n cnt vs = Inr cs
     \<longleftrightarrow> vs = map (\<lambda>c. PList (map PInt c)) cs
       \<and> list_all (\<lambda>c. length c \<le> MAX_LITERALS_PER_CLAUSE \<and> list_all (\<lambda>l. l \<noteq> 0 \<and> \<bar>l\<bar> \<le> n) c) cs
       \<and> (cs = [] \<or> cnt + sum_list (map length cs) \<le> MAX_LITERALS)"
proof (induction vs arbitrary: cnt cs)
  case (Cons v vs)
  show ?case
  proof (cases "\<exists>c d ds. v = PList c \<and> cs = d # ds")
    case True
    then obtain c d ds where v: "v = PList c" "cs = d # ds" by blast
    have "validate_clauses n cnt (PList c # vs) = Inr (d # ds)
      \<longleftrightarrow> \<not> length c > MAX_LITERALS_PER_CLAUSE \<and> \<not> cnt + length c > MAX_LITERALS
        \<and> rmap (validate_literal n) c = Inr d \<and> validate_clauses n (cnt + length c) vs = Inr ds"
      by (auto simp: rbind_ok_iff)
    then show ?thesis
      unfolding v Cons.IH rmap_literals_ok_iff by (auto simp: not_less)
  next
    case False
    then have "validate_clauses n cnt (v # vs) \<noteq> Inr cs"
      by (cases v; cases cs) (auto simp: rbind_ok_iff)
    with False show ?thesis by (cases cs) auto
  qed
qed auto

lemma validate_sat_instance_ok_iff:
  "validate_sat_instance n cs = Inr i
     \<longleftrightarrow> n = PInt (n_vars i) \<and> cs = clauses_pyval (clauses i) \<and> valid_instance i"
proof (cases n)
  case (PInt k)
  show ?thesis
  proof (cases cs)
    case (PList vs)
    with PInt show ?thesis
      by (cases i) (auto simp: rbind_ok_iff validate_clauses_ok_iff valid_instance_def
          clauses_pyval_def not_less)
  qed (auto simp: PInt clauses_pyval_def)
qed auto

end
