(* ===== verification/Sat_Lane.thy ===== *)
theory Sat_Lane
  imports Sat_Solver
begin

text \<open>
  The SAT lane of \<open>lanes/sat.py\<close>: work items and their challenge identifiers, canonical
  instances, and the lane's queue, dispatch, verification and scoring.

  \<open>random.Random(seed)\<close> is used only through \<open>choice\<close> and \<open>sample\<close>; both draw indices
  below a bound.  The generator is a parameter, a state per seed and a function that draws
  an index, and \<open>rng_ok\<close> is what the library documents of it: a draw below \<open>n\<close> is below
  \<open>n\<close>.  Work units are Python floats with integral values and are kept as \<open>nat\<close>.
\<close>

section \<open>Random draws\<close>

record 'r rng =
  rng_seed :: "int \<Rightarrow> 'r"
  rng_below :: "'r \<Rightarrow> nat \<Rightarrow> nat \<times> 'r"

definition rng_ok :: "'r rng \<Rightarrow> bool" where
  "rng_ok g \<longleftrightarrow> (\<forall>r n. 0 < n \<longrightarrow> fst (rng_below g r n) < n)"

definition rng_choice :: "'r rng \<Rightarrow> 'r \<Rightarrow> 'a list \<Rightarrow> 'a \<times> 'r" where
  "rng_choice g r xs = (let (k, r') = rng_below g r (length xs) in (xs ! k, r'))"

text \<open>\<open>sample\<close> on a population of at most 21: draw from a pool, refill the hole from its end.\<close>

fun rng_sample :: "'r rng \<Rightarrow> nat \<Rightarrow> nat \<Rightarrow> 'a list \<Rightarrow> 'r \<Rightarrow> 'a list \<times> 'r" where
  "rng_sample g 0 n pool r = ([], r)"
| "rng_sample g (Suc k) n pool r =
    (let (j, r1) = rng_below g r n;
         (rest, r2) = rng_sample g k (n - 1) (pool[j := pool ! (n - 1)]) r1
     in (pool ! j # rest, r2))"

section \<open>Canonical instances\<close>

fun draw_planted :: "'r rng \<Rightarrow> 'r \<Rightarrow> int list \<Rightarrow> (int \<times> bool) list \<times> 'r" where
  "draw_planted g r [] = ([], r)"
| "draw_planted g r (v # vs) =
    (let (b, r1) = rng_choice g r [True, False]; (rest, r2) = draw_planted g r1 vs
     in ((v, b) # rest, r2))"

definition signed_lit :: "int \<Rightarrow> bool \<Rightarrow> int" where
  "signed_lit v b = (if b then v else - v)"

fun draw_literals ::
  "'r rng \<Rightarrow> (int \<times> bool) list \<Rightarrow> int \<Rightarrow> 'r \<Rightarrow> int list \<Rightarrow> int list \<times> 'r" where
  "draw_literals g planted true_var r [] = ([], r)"
| "draw_literals g planted true_var r (v # vs) =
    (let (b, r1) = (if v = true_var then (map_of planted v = Some True, r)
                    else rng_choice g r [True, False]);
         (rest, r2) = draw_literals g planted true_var r1 vs
     in (signed_lit v b # rest, r2))"

fun draw_clauses :: "'r rng \<Rightarrow> (int \<times> bool) list \<Rightarrow> nat \<Rightarrow> 'r \<Rightarrow> int list list \<times> 'r" where
  "draw_clauses g planted 0 r = ([], r)"
| "draw_clauses g planted (Suc k) r =
    (let (vars_in_clause, r1) = rng_sample g 3 8 [1..8] r;
         (true_var, r2) = rng_choice g r1 vars_in_clause;
         (clause, r3) = draw_literals g planted true_var r2 vars_in_clause;
         (rest, r4) = draw_clauses g planted k r3
     in (clause # rest, r4))"

definition canonical_instance :: "'r rng \<Rightarrow> int \<Rightarrow> SatInstance" where
  "canonical_instance g seed =
    (let (planted, r) = draw_planted g (rng_seed g seed) [1..8]
     in \<lparr>n_vars = 8, clauses = fst (draw_clauses g planted 20 r)\<rparr>)"

definition MAX_NONNEGATIVE_SIGNED_I64 :: nat where
  "MAX_NONNEGATIVE_SIGNED_I64 = 2 ^ 63 - 1"

text \<open>The mask \<open>& (2**63 - 1)\<close> keeps the low 63 bits.\<close>

definition derive_canonical_seed :: "string \<Rightarrow> nat \<Rightarrow> int" where
  "derive_canonical_seed namespace counter =
    int (int_from_bytes_big (take 8 (hmac_sha256 (utf8 namespace) (utf8 (show_nat counter))))
         mod (MAX_NONNEGATIVE_SIGNED_I64 + 1))"

section \<open>Work items\<close>

record SatWorkItem =
  item_instance :: SatInstance
  item_seed :: int
  item_challenge_id :: string

record SatCertificate =
  satisfiable :: bool
  assignment :: "int list option"
  work_units :: pyval
  cert_challenge_id :: string
  assigned_hotkey :: string

definition challenge_payload :: "SatInstance \<Rightarrow> int \<Rightarrow> pyval" where
  "challenge_payload i seed = PDict
    [(''n_vars'', PInt (n_vars i)), (''clauses'', clauses_pyval (clauses i)), (''seed'', PInt seed)]"

definition compute_challenge_id :: "SatInstance \<Rightarrow> int \<Rightarrow> string" where
  "compute_challenge_id i seed = sha256_hexdigest (utf8 (dumps_spaced (challenge_payload i seed)))"

definition CUSTOMER_SAT_WORK_UNITS :: nat where "CUSTOMER_SAT_WORK_UNITS = 20"

definition derived_work_units :: "'r rng \<Rightarrow> SatWorkItem \<Rightarrow> nat" where
  "derived_work_units g item =
    (if item_instance item = canonical_instance g (item_seed item)
     then length (clauses (item_instance item)) else CUSTOMER_SAT_WORK_UNITS)"

definition MIN_SEED :: int where "MIN_SEED = - (2 ^ 63)"

definition MAX_SEED :: int where "MAX_SEED = 2 ^ 63 - 1"

definition MAX_CUSTOMER_WORK_BYTES :: nat where "MAX_CUSTOMER_WORK_BYTES = 60 * 1024"

text \<open>The fields of a \<open>SatWorkItem\<close> whose types nothing has checked yet.\<close>

record raw_work_item =
  raw_n_vars :: pyval
  raw_clauses :: pyval
  raw_seed :: pyval
  raw_challenge_id :: pyval

definition raw_item :: "SatWorkItem \<Rightarrow> raw_work_item" where
  "raw_item item =
    \<lparr>raw_n_vars = PInt (n_vars (item_instance item)),
     raw_clauses = clauses_pyval (clauses (item_instance item)),
     raw_seed = PInt (item_seed item), raw_challenge_id = PStr (item_challenge_id item)\<rparr>"

text \<open>The request a worker would receive, with the longest hotkey.\<close>

definition customer_work_bytes :: "SatWorkItem \<Rightarrow> bytes" where
  "customer_work_bytes item =
    utf8 (dumps (PDict
      [(''challenge_id'', PStr (item_challenge_id item)),
       (''assigned_hotkey'', PStr (replicate 256 (CHR ''x''))),
       (''seed'', PInt (item_seed item)),
       (''instance'', PDict
         [(''n_vars'', PInt (n_vars (item_instance item))),
          (''clauses'', clauses_pyval (clauses (item_instance item)))])]))"

fun check_challenge_id :: "pyval \<Rightarrow> sat_error + string" where
  "check_challenge_id (PStr s) =
    (if length s \<noteq> 64 \<or> \<not> list_all is_lower_hex s
     then Inl (SatValueError ''invalid SAT challenge_id'') else Inr s)"
| "check_challenge_id _ = Inl (SatValueError ''invalid SAT challenge_id'')"

fun check_seed :: "pyval \<Rightarrow> sat_error + int" where
  "check_seed (PInt s) =
    (if \<not> (MIN_SEED \<le> s \<and> s \<le> MAX_SEED) then Inl (SatValueError ''invalid SAT seed'') else Inr s)"
| "check_seed _ = Inl (SatValueError ''invalid SAT seed'')"

definition validate_sat_work_item :: "raw_work_item \<Rightarrow> sat_error + SatWorkItem" where
  "validate_sat_work_item raw =
    rbind (check_challenge_id (raw_challenge_id raw)) (\<lambda>cid.
    rbind (check_seed (raw_seed raw)) (\<lambda>seed.
    rbind (validate_sat_instance (raw_n_vars raw) (raw_clauses raw)) (\<lambda>inst.
      let item = \<lparr>item_instance = inst, item_seed = seed, item_challenge_id = cid\<rparr> in
      if compute_challenge_id inst seed \<noteq> cid then Inl (SatValueError ''challenge_id mismatch'')
      else if length (customer_work_bytes item) > MAX_CUSTOMER_WORK_BYTES
        then Inl (SatValueError ''SAT work item exceeds request size limit'')
      else Inr item)))"

section \<open>The lane\<close>

record SatLane =
  queue :: "SatWorkItem list"
  namespace :: string
  seed_counter :: nat
  issued_ids :: "string set"
  customer_ids :: "string set"
  challenge_owner :: "string \<rightharpoonup> string"
  verified_credits :: "string \<rightharpoonup> nat"

text \<open>
  \<open>fresh\<close> is \<open>hashlib.sha256(random.randbytes(16)).hexdigest()[:8]\<close>, used when no
  namespace is given.
\<close>

definition SatLane_init :: "string option \<Rightarrow> bytes \<Rightarrow> SatLane" where
  "SatLane_init ns randbytes =
    \<lparr>queue = [],
     namespace = (case ns of Some n \<Rightarrow> if n = [] then take 8 (sha256_hexdigest randbytes) else n
                  | None \<Rightarrow> take 8 (sha256_hexdigest randbytes)),
     seed_counter = 0, issued_ids = {}, customer_ids = {},
     challenge_owner = Map.empty, verified_credits = Map.empty\<rparr>"

definition enqueue :: "SatLane \<Rightarrow> raw_work_item \<Rightarrow> sat_error + SatLane" where
  "enqueue l raw =
    (case validate_sat_work_item raw of
       Inl (SatValueError m) \<Rightarrow> Inl (SatValueError (''enqueue: '' @ m))
     | Inr item \<Rightarrow>
         Inr (l\<lparr>customer_ids := insert (item_challenge_id item) (customer_ids l),
                queue := queue l @ [item]\<rparr>))"

definition issue :: "SatLane \<Rightarrow> string \<Rightarrow> SatWorkItem \<Rightarrow> SatLane" where
  "issue l miner item =
    l\<lparr>issued_ids := insert (item_challenge_id item) (issued_ids l),
      challenge_owner := (challenge_owner l)(item_challenge_id item \<mapsto> miner)\<rparr>"

definition dispatch :: "'r rng \<Rightarrow> SatLane \<Rightarrow> string \<Rightarrow> SatWorkItem \<times> SatLane" where
  "dispatch g l miner =
    (case queue l of
       item # rest \<Rightarrow> (item, issue (l\<lparr>queue := rest\<rparr>) miner item)
     | [] \<Rightarrow>
         (let seed = derive_canonical_seed (namespace l) (seed_counter l);
              inst = canonical_instance g seed;
              item = \<lparr>item_instance = inst, item_seed = seed,
                      item_challenge_id = compute_challenge_id inst seed\<rparr>
          in (item, issue (l\<lparr>seed_counter := seed_counter l + 1\<rparr>) miner item)))"

text \<open>\<open>verify\<close>; \<open>None\<close> for the result is an object that is not a \<open>SatCertificate\<close>.\<close>

definition float_text :: "nat \<Rightarrow> pyval" where
  "float_text n = PFloat (show_nat n @ ''.0'')"

definition verify ::
  "'r rng \<Rightarrow> SatLane \<Rightarrow> SatWorkItem \<Rightarrow> SatCertificate option \<Rightarrow> SatCertificate option \<times> SatLane" where
  "verify g l item result =
    (case result of
       None \<Rightarrow> (None, l)
     | Some c \<Rightarrow>
         if cert_challenge_id c \<noteq> item_challenge_id item then (None, l)
         else if cert_challenge_id c \<notin> issued_ids l then (None, l)
         else if verified_credits l (cert_challenge_id c) \<noteq> None then (None, l)
         else if assigned_hotkey c = [] \<or> challenge_owner l (cert_challenge_id c) \<noteq> Some (assigned_hotkey c)
           then (None, l)
         else (let units = derived_work_units g item; inst = item_instance item in
           if satisfiable c then
             (case assignment c of
                None \<Rightarrow> (None, l)
              | Some asg \<Rightarrow>
                  if int (length asg) \<noteq> n_vars inst then (None, l)
                  else if set (map abs asg) \<noteq> set [1..n_vars inst] then (None, l)
                  else if \<not> list_all (list_ex (\<lambda>lit. lit \<in> set asg)) (clauses inst) then (None, l)
                  else
                    (Some \<lparr>satisfiable = True, assignment = Some asg, work_units = float_text units,
                           cert_challenge_id = cert_challenge_id c,
                           assigned_hotkey = assigned_hotkey c\<rparr>,
                     l\<lparr>verified_credits := (verified_credits l)(cert_challenge_id c \<mapsto> units)\<rparr>))
           else (None, l)))"

text \<open>The loop of \<open>score\<close> over the challenge identifiers of the certificates.\<close>

fun score_loop :: "SatLane \<Rightarrow> string \<Rightarrow> nat \<Rightarrow> string set \<Rightarrow> string list \<Rightarrow> nat" where
  "score_loop l miner acc seen [] = acc"
| "score_loop l miner acc seen (cid # cids) =
    (case verified_credits l cid of
       Some u \<Rightarrow>
         if cid \<notin> seen \<and> challenge_owner l cid = Some miner
         then score_loop l miner (acc + u) (insert cid seen) cids
         else score_loop l miner acc seen cids
     | None \<Rightarrow> score_loop l miner acc seen cids)"

definition score :: "SatLane \<Rightarrow> string \<Rightarrow> SatCertificate list \<Rightarrow> nat" where
  "score l miner certs = score_loop l miner 0 {} (map cert_challenge_id certs)"

section \<open>Canonical instances are valid and satisfiable\<close>

lemma rng_below_less: "rng_ok g \<Longrightarrow> 0 < n \<Longrightarrow> rng_below g r n = (k, r') \<Longrightarrow> k < n"
  unfolding rng_ok_def by (metis fst_conv)

lemma rng_choice_in:
  "rng_ok g \<Longrightarrow> xs \<noteq> [] \<Longrightarrow> rng_choice g r xs = (x, r') \<Longrightarrow> x \<in> set xs"
  by (auto simp: rng_choice_def split: prod.splits dest!: rng_below_less [rotated 2])

lemma rng_sample_in:
  assumes "rng_ok g" "n \<le> length pool" "k \<le> n" "rng_sample g k n pool r = (xs, r')"
  shows "length xs = k \<and> set xs \<subseteq> set (take n pool)"
  using assms
proof (induction g k n pool r arbitrary: xs r' rule: rng_sample.induct)
  case (2 g k n pool r)
  obtain j r1 where j: "rng_below g r n = (j, r1)" by (cases "rng_below g r n")
  obtain rest r2 where rest: "rng_sample g k (n - 1) (pool[j := pool ! (n - 1)]) r1 = (rest, r2)"
    by (cases "rng_sample g k (n - 1) (pool[j := pool ! (n - 1)]) r1")
  have jn: "j < n" using rng_below_less [OF "2.prems"(1) _ j] "2.prems"(3) by simp
  have xs: "xs = pool ! j # rest" using "2.prems"(4) j rest by simp
  have nth_in: "pool ! i \<in> set (take n pool)" if "i < n" for i
    using that "2.prems"(2) nth_mem [of i "take n pool"] by simp
  have "length rest = k \<and> set rest \<subseteq> set (take (n - 1) (pool[j := pool ! (n - 1)]))"
    using "2.IH" [OF j [symmetric] refl] "2.prems" rest by simp
  moreover have "set (take (n - 1) (pool[j := pool ! (n - 1)])) \<subseteq> set (take n pool)"
  proof -
    have "pool ! (n - 1) \<in> set (take n pool)" using nth_in [of "n - 1"] jn by simp
    moreover have "set (take (n - 1) pool) \<subseteq> set (take n pool)" by (simp add: set_take_subset_set_take)
    ultimately show ?thesis
      unfolding take_update_swap using set_update_subset_insert by fastforce
  qed
  moreover have "pool ! j \<in> set (take n pool)" using jn by (rule nth_in)
  ultimately show ?case using xs by auto
qed simp

lemma draw_planted_dom:
  "draw_planted g r vs = (p, r') \<Longrightarrow> map fst p = vs"
  by (induction g r vs arbitrary: p r' rule: draw_planted.induct) (auto split: prod.splits)

lemma abs_signed_lit [simp]: "\<bar>signed_lit v b\<bar> = \<bar>v\<bar>"
  by (simp add: signed_lit_def)

lemma draw_literals_shape:
  assumes "draw_literals g planted t r vs = (ls, r')"
  shows "map abs ls = map abs vs
    \<and> (t \<in> set vs \<longrightarrow> signed_lit t (map_of planted t = Some True) \<in> set ls)"
  using assms
proof (induction g planted t r vs arbitrary: ls r' rule: draw_literals.induct)
  case (2 g planted t r v vs)
  then show ?case by (auto simp: signed_lit_def split: prod.splits if_splits)
qed simp

lemma signed_lit_holds: "0 < v \<Longrightarrow> lit_holds \<sigma> (signed_lit v (\<sigma> v))"
  by (simp add: lit_holds_def signed_lit_def)

lemma draw_clauses_shape:
  assumes "rng_ok g" "map fst planted = [1..8]" "draw_clauses g planted k r = (cs, r')"
  shows "length cs = k \<and> (\<forall>c \<in> set cs. length c = 3 \<and> (\<forall>l \<in> set c. l \<noteq> 0 \<and> \<bar>l\<bar> \<le> 8)
     \<and> clause_holds (\<lambda>v. map_of planted v = Some True) c)"
  using assms
proof (induction g planted k r arbitrary: cs r' rule: draw_clauses.induct)
  case (2 g planted k r)
  obtain vs r1 where vs: "rng_sample g 3 8 [1..8] r = (vs, r1)" by (cases "rng_sample g 3 8 [1..8::int] r")
  obtain t r2 where t: "rng_choice g r1 vs = (t, r2)" by (cases "rng_choice g r1 vs")
  obtain c r3 where c: "draw_literals g planted t r2 vs = (c, r3)"
    by (cases "draw_literals g planted t r2 vs")
  obtain rest r4 where rest: "draw_clauses g planted k r3 = (rest, r4)"
    by (cases "draw_clauses g planted k r3")
  have vs_in: "length vs = 3" "set vs \<subseteq> {1..8}"
    using rng_sample_in [OF "2.prems"(1) _ _ vs] by auto
  then have t_in: "t \<in> set vs" using "2.prems"(1) t by (intro rng_choice_in) auto
  have shape: "map abs c = map abs vs" "signed_lit t (map_of planted t = Some True) \<in> set c"
    using draw_literals_shape [OF c] t_in by auto
  have "abs ` set c = abs ` set vs" using shape(1) by (metis list.set_map)
  then have lits: "\<bar>l\<bar> \<in> {1..8}" if "l \<in> set c" for l
    using that vs_in(2) by force
  have "length c = 3" using shape(1) vs_in(1) by (metis length_map)
  moreover have "clause_holds (\<lambda>v. map_of planted v = Some True) c"
    unfolding clause_holds_def using shape(2)
    by (rule bexI [rotated]) (use t_in vs_in(2) in \<open>auto intro!: signed_lit_holds\<close>)
  moreover have "cs = c # rest" using "2.prems"(3) vs t c rest by simp
  ultimately show ?case
    using "2.IH" [OF vs [symmetric] refl t [symmetric] refl c [symmetric] refl] "2.prems" rest lits
    by fastforce
qed simp

lemma canonical_instance_facts:
  assumes "rng_ok g"
  shows "valid_instance (canonical_instance g seed)"
    and "length (clauses (canonical_instance g seed)) = 20"
    and "satisfiable_cnf (clauses (canonical_instance g seed))"
proof -
  obtain p r where p: "draw_planted g (rng_seed g seed) [1..8] = (p, r)"
    by (cases "draw_planted g (rng_seed g seed) [1..8]")
  obtain cs r' where cs: "draw_clauses g p 20 r = (cs, r')" by (cases "draw_clauses g p 20 r")
  have inst: "canonical_instance g seed = \<lparr>n_vars = 8, clauses = cs\<rparr>"
    by (simp add: canonical_instance_def p cs)
  have shape: "length cs = 20" "\<forall>c \<in> set cs. length c = 3 \<and> (\<forall>l \<in> set c. l \<noteq> 0 \<and> \<bar>l\<bar> \<le> 8)
     \<and> clause_holds (\<lambda>v. map_of p v = Some True) c"
    using draw_clauses_shape [OF assms draw_planted_dom [OF p] cs] by auto
  have "map length cs = replicate 20 3"
    by (rule nth_equalityI) (use shape in \<open>auto simp: nth_mem\<close>)
  then have "sum_list (map length cs) = 60" by (simp add: sum_list_replicate)
  then show "valid_instance (canonical_instance g seed)"
    using shape by (auto simp: inst valid_instance_def list_all_iff MAX_N_VARS_def MAX_CLAUSES_def
        MAX_LITERALS_def MAX_LITERALS_PER_CLAUSE_def)
  show "length (clauses (canonical_instance g seed)) = 20" using shape by (simp add: inst)
  show "satisfiable_cnf (clauses (canonical_instance g seed))"
    using shape by (auto simp: inst satisfiable_cnf_def cnf_holds_def)
qed

lemma canonical_instance_clauses:
  assumes "rng_ok g" "c \<in> set (clauses (canonical_instance g seed))"
  shows "length c = 3 \<and> (\<forall>l \<in> set c. \<bar>l\<bar> \<le> 8)"
proof -
  obtain p r where p: "draw_planted g (rng_seed g seed) [1..8] = (p, r)"
    by (cases "draw_planted g (rng_seed g seed) [1..8]")
  obtain cs r' where cs: "draw_clauses g p 20 r = (cs, r')" by (cases "draw_clauses g p 20 r")
  have "clauses (canonical_instance g seed) = cs" by (simp add: canonical_instance_def p cs)
  then show ?thesis
    using draw_clauses_shape [OF assms(1) draw_planted_dom [OF p] cs] assms(2) by auto
qed

lemma derived_work_units_20: "rng_ok g \<Longrightarrow> derived_work_units g item = 20"
  by (simp add: derived_work_units_def CUSTOMER_SAT_WORK_UNITS_def canonical_instance_facts)

section \<open>Challenge identifiers\<close>

lemma int_digits_small: "\<bar>i\<bar> < 10 ^ 30 \<Longrightarrow> int_digits i \<le> max_str_digits"
proof -
  assume "\<bar>i\<bar> < 10 ^ 30"
  then have "nat \<bar>i\<bar> < 10 ^ 30" by (simp add: nat_less_iff)
  then have "length (show_nat (nat \<bar>i\<bar>)) \<le> 30"
    using show_nat_length_le [of _ 29] by simp
  then show ?thesis by (simp add: int_digits_def max_str_digits_def)
qed

lemma valid_instance_digits:
  assumes "valid_instance i"
  shows "int_digits (n_vars i) \<le> max_str_digits"
    and "c \<in> set (clauses i) \<Longrightarrow> l \<in> set c \<Longrightarrow> int_digits l \<le> max_str_digits"
  using assms
  by (fastforce simp: valid_instance_def list_all_iff MAX_N_VARS_def intro!: int_digits_small)+

definition seed_ok :: "int \<Rightarrow> bool" where
  "seed_ok s \<longleftrightarrow> MIN_SEED \<le> s \<and> s \<le> MAX_SEED"

lemma seed_digits: "seed_ok s \<Longrightarrow> int_digits s \<le> max_str_digits"
  by (intro int_digits_small) (auto simp: seed_ok_def MIN_SEED_def MAX_SEED_def)

lemma challenge_payload_json:
  "valid_instance i \<Longrightarrow> seed_ok s \<Longrightarrow> is_json (challenge_payload i s)"
  by (simp add: challenge_payload_def clauses_pyval_def list_all_iff valid_instance_digits seed_digits)

lemma challenge_payload_no_spaces: "no_spaces (challenge_payload i s)"
  by (simp add: challenge_payload_def clauses_pyval_def list_all_iff json_string_def json_escape_def)

lemma clauses_pyval_inject [simp]: "clauses_pyval x = clauses_pyval y \<longleftrightarrow> x = y"
proof -
  have "inj (\<lambda>c. PList (map PInt c))" by (intro injI) (simp add: inj_map_eq_map inj_def)
  then show ?thesis by (simp add: clauses_pyval_def inj_map_eq_map)
qed

lemma canon_clauses_pyval [simp]: "canon (clauses_pyval cs) = clauses_pyval cs"
  by (simp add: clauses_pyval_def)

lemma challenge_id_binds:
  assumes "valid_instance i" "valid_instance j" "seed_ok s" "seed_ok t"
    and eq: "compute_challenge_id i s = compute_challenge_id j t"
  shows "i = j \<and> s = t
    \<or> sha256_collision (utf8 (dumps_spaced (challenge_payload i s)))
        (utf8 (dumps_spaced (challenge_payload j t)))"
proof (cases "dumps_spaced (challenge_payload i s) = dumps_spaced (challenge_payload j t)")
  case True
  with assms(1-4) have "canon (challenge_payload i s) = canon (challenge_payload j t)"
    by (intro dumps_spaced_inject) (simp_all add: challenge_payload_json challenge_payload_no_spaces)
  then have "PInt (n_vars i) = PInt (n_vars j)" "clauses_pyval (clauses i) = clauses_pyval (clauses j)"
    "PInt s = PInt t"
    by (simp_all add: challenge_payload_def canon_PDict_sorted)
  then show ?thesis by (cases i; cases j) simp
next
  case False
  with eq show ?thesis
    by (auto simp: compute_challenge_id_def sha256_hexdigest_def sha256_collision_def dest: hex_bytes_inj)
qed

lemma challenge_id_shape: "length (compute_challenge_id i s) = 64 \<and> list_all is_lower_hex (compute_challenge_id i s)"
  by (simp add: compute_challenge_id_def sha256_hexdigest_class)

lemma derive_canonical_seed_ok: "seed_ok (derive_canonical_seed ns k)"
proof -
  have "x mod 9223372036854775808 \<le> 9223372036854775807" for x :: nat
    using mod_less_divisor [of 9223372036854775808 x] by linarith
  then show ?thesis
    by (simp add: seed_ok_def derive_canonical_seed_def MAX_NONNEGATIVE_SIGNED_I64_def MIN_SEED_def
        MAX_SEED_def)
qed

text \<open>The work items that pass validation.\<close>

definition item_valid :: "SatWorkItem \<Rightarrow> bool" where
  "item_valid item \<longleftrightarrow> valid_instance (item_instance item) \<and> seed_ok (item_seed item)
     \<and> item_challenge_id item = compute_challenge_id (item_instance item) (item_seed item)
     \<and> length (customer_work_bytes item) \<le> MAX_CUSTOMER_WORK_BYTES"

lemma check_challenge_id_ok_iff:
  "check_challenge_id v = Inr s \<longleftrightarrow> v = PStr s \<and> length s = 64 \<and> list_all is_lower_hex s"
  by (cases v) auto

lemma check_seed_ok_iff: "check_seed v = Inr s \<longleftrightarrow> v = PInt s \<and> seed_ok s"
  by (cases v) (auto simp: seed_ok_def)

lemma validate_sat_work_item_ok_iff:
  "validate_sat_work_item raw = Inr item \<longleftrightarrow> raw = raw_item item \<and> item_valid item"
proof
  assume "validate_sat_work_item raw = Inr item"
  then show "raw = raw_item item \<and> item_valid item"
    by (cases raw) (auto simp: validate_sat_work_item_def Let_def ok_simps check_challenge_id_ok_iff
        check_seed_ok_iff validate_sat_instance_ok_iff item_valid_def raw_item_def split: if_splits)
next
  assume ok: "raw = raw_item item \<and> item_valid item"
  have "check_challenge_id (PStr (item_challenge_id item)) = Inr (item_challenge_id item)"
    using ok challenge_id_shape by (auto simp: item_valid_def check_challenge_id_ok_iff)
  moreover have "check_seed (PInt (item_seed item)) = Inr (item_seed item)"
    using ok by (simp only: check_seed_ok_iff item_valid_def)
  moreover have "validate_sat_instance (PInt (n_vars (item_instance item)))
      (clauses_pyval (clauses (item_instance item))) = Inr (item_instance item)"
    using ok by (simp only: validate_sat_instance_ok_iff item_valid_def)
  ultimately show "validate_sat_work_item raw = Inr item"
    using ok by (cases item) (simp add: validate_sat_work_item_def raw_item_def Let_def item_valid_def
        del: check_challenge_id.simps check_seed.simps validate_sat_instance.simps)
qed

section \<open>Verification and runs of the lane\<close>

lemma verify_accepts_iff:
  "(\<exists>l'. verify g l item (Some c) = (Some c', l')) \<longleftrightarrow>
     cert_challenge_id c = item_challenge_id item \<and> cert_challenge_id c \<in> issued_ids l
     \<and> verified_credits l (cert_challenge_id c) = None
     \<and> assigned_hotkey c \<noteq> [] \<and> challenge_owner l (cert_challenge_id c) = Some (assigned_hotkey c)
     \<and> satisfiable c
     \<and> (\<exists>asg. assignment c = Some asg \<and> certifies (item_instance item) asg
          \<and> c' = \<lparr>satisfiable = True, assignment = Some asg,
                  work_units = float_text (derived_work_units g item),
                  cert_challenge_id = cert_challenge_id c, assigned_hotkey = assigned_hotkey c\<rparr>)"
  by (auto simp: verify_def certifies_def Let_def split: option.splits)

lemma verify_state:
  "verify g l item r = (None, l') \<Longrightarrow> l' = l"
  "verify g l item r = (Some c, l') \<Longrightarrow>
     l' = l\<lparr>verified_credits := (verified_credits l)(cert_challenge_id c \<mapsto> derived_work_units g item)\<rparr>"
  by (auto simp: verify_def Let_def split: option.splits if_splits)

datatype lane_op =
    Enqueue raw_work_item
  | Dispatch string
  | Verify SatWorkItem "SatCertificate option"

text \<open>A call to the lane; an \<open>enqueue\<close> that raises leaves it as it was.\<close>

fun lane_step :: "'r rng \<Rightarrow> SatLane \<Rightarrow> lane_op \<Rightarrow> SatLane" where
  "lane_step g l (Enqueue raw) = (case enqueue l raw of Inl e \<Rightarrow> l | Inr l' \<Rightarrow> l')"
| "lane_step g l (Dispatch miner) = snd (dispatch g l miner)"
| "lane_step g l (Verify item r) = snd (verify g l item r)"

definition lane_run :: "'r rng \<Rightarrow> SatLane \<Rightarrow> lane_op list \<Rightarrow> SatLane" where
  "lane_run g l ops = foldl (lane_step g) l ops"

text \<open>The certificates a run accepts, with the items they were verified against.\<close>

fun accepted :: "'r rng \<Rightarrow> SatLane \<Rightarrow> lane_op list \<Rightarrow> (SatWorkItem \<times> SatCertificate) list" where
  "accepted g l [] = []"
| "accepted g l (op # ops) =
    (case op of
       Verify item r \<Rightarrow>
         (case fst (verify g l item r) of
            Some c \<Rightarrow> (item, c) # accepted g (lane_step g l op) ops
          | None \<Rightarrow> accepted g (lane_step g l op) ops)
     | _ \<Rightarrow> accepted g (lane_step g l op) ops)"

lemma lane_step_credits:
  "(case op of Verify item r \<Rightarrow> fst (verify g l item r) = None | _ \<Rightarrow> True)
     \<Longrightarrow> verified_credits (lane_step g l op) = verified_credits l"
proof (cases op)
  case (Verify item r)
  assume "case op of Verify item r \<Rightarrow> fst (verify g l item r) = None | _ \<Rightarrow> True"
  with Verify have "verify g l item r = (None, snd (verify g l item r))" by (simp add: prod_eq_iff)
  then have "snd (verify g l item r) = l" by (rule verify_state)
  with Verify show ?thesis by simp
qed (auto simp: enqueue_def dispatch_def issue_def Let_def
    split: sum.splits sat_error.splits list.splits)

lemma lane_step_accept:
  assumes "fst (verify g l item r) = Some c"
  shows "verified_credits (lane_step g l (Verify item r))
    = (verified_credits l)(cert_challenge_id c \<mapsto> derived_work_units g item)"
proof -
  have "verify g l item r = (Some c, snd (verify g l item r))" using assms by (simp add: prod_eq_iff)
  from verify_state(2) [OF this] show ?thesis by simp
qed

text \<open>What acceptance establishes, in the state it happens in.\<close>

lemma verify_accepted:
  assumes "fst (verify g l item r) = Some c"
  shows "cert_challenge_id c = item_challenge_id item"
    and "verified_credits l (cert_challenge_id c) = None"
    and "challenge_owner l (cert_challenge_id c) = Some (assigned_hotkey c)"
    and "\<exists>asg. assignment c = Some asg \<and> certifies (item_instance item) asg"
    and "work_units c = float_text (derived_work_units g item)"
proof -
  obtain d where r: "r = Some d" using assms by (cases r) (simp_all add: verify_def)
  have "\<exists>l'. verify g l item (Some d) = (Some c, l')"
    using assms r by (intro exI [of _ "snd (verify g l item r)"]) (simp add: prod_eq_iff)
  from iffD1 [OF verify_accepts_iff this]
  show "cert_challenge_id c = item_challenge_id item" "verified_credits l (cert_challenge_id c) = None"
    "challenge_owner l (cert_challenge_id c) = Some (assigned_hotkey c)"
    "\<exists>asg. assignment c = Some asg \<and> certifies (item_instance item) asg"
    "work_units c = float_text (derived_work_units g item)"
    by auto
qed

text \<open>A step of the run, split by whether it accepts a certificate.\<close>

lemma accepted_cases:
  obtains
    "accepted g l (op # ops) = accepted g (lane_step g l op) ops"
    "verified_credits (lane_step g l op) = verified_credits l"
  | item r c where "op = Verify item r" "fst (verify g l item r) = Some c"
    "accepted g l (op # ops) = (item, c) # accepted g (lane_step g l op) ops"
    "verified_credits (lane_step g l op)
      = (verified_credits l)(cert_challenge_id c \<mapsto> derived_work_units g item)"
proof (cases "\<exists>item r c. op = Verify item r \<and> fst (verify g l item r) = Some c")
  case True
  with that(2) lane_step_accept show thesis by fastforce
next
  case False
  then have quiet: "case op of Verify item r \<Rightarrow> fst (verify g l item r) = None | _ \<Rightarrow> True"
    by (cases op) auto
  then have "accepted g l (op # ops) = accepted g (lane_step g l op) ops"
    by (cases op) auto
  with that(1) lane_step_credits [OF quiet] show thesis by blast
qed

lemma accepted_uncredited:
  "(item, c) \<in> set (accepted g l ops) \<Longrightarrow> verified_credits l (cert_challenge_id c) = None"
proof (induction ops arbitrary: l)
  case (Cons op ops)
  show ?case
  proof (cases rule: accepted_cases [of g l op ops])
    case 1
    with Cons show ?thesis by metis
  next
    case (2 item' r c')
    show ?thesis
    proof (cases "(item, c) = (item', c')")
      case True
      with 2(2) show ?thesis by (auto dest: verify_accepted(2))
    next
      case False
      with 2(3) Cons.prems have "(item, c) \<in> set (accepted g (lane_step g l op) ops)" by auto
      from Cons.IH [OF this] show ?thesis by (simp only: 2(4)) (simp split: if_splits)
    qed
  qed
qed simp

lemma accepted_distinct: "distinct (map (\<lambda>(item, c). cert_challenge_id c) (accepted g l ops))"
proof (induction ops arbitrary: l)
  case (Cons op ops)
  show ?case
  proof (cases rule: accepted_cases [of g l op ops])
    case 1
    with Cons show ?thesis by simp
  next
    case (2 item r c)
    with Cons accepted_uncredited [of _ _ g "lane_step g l op" ops] show ?thesis by fastforce
  qed
qed simp

lemma accepted_credits:
  "verified_credits (lane_run g l ops)
     = verified_credits l ++ map_of (map (\<lambda>(item, c). (cert_challenge_id c, derived_work_units g item))
         (rev (accepted g l ops)))"
proof (induction ops arbitrary: l)
  case (Cons op ops)
  have step: "lane_run g l (op # ops) = lane_run g (lane_step g l op) ops"
    by (simp add: lane_run_def)
  show ?case
  proof (cases rule: accepted_cases [of g l op ops])
    case 1
    with Cons show ?thesis by (simp only: step)
  next
    case (2 item r c)
    have "verified_credits (lane_run g l (op # ops))
        = (verified_credits l)(cert_challenge_id c \<mapsto> derived_work_units g item)
          ++ map_of (map (\<lambda>(item, c). (cert_challenge_id c, derived_work_units g item))
               (rev (accepted g (lane_step g l op) ops)))"
      by (simp only: step Cons.IH 2(4))
    then show ?thesis by (simp only: 2(3) rev.simps map_append) simp
  qed
qed (simp add: lane_run_def)

text \<open>Owners are miners that work was dispatched to.\<close>

lemma lane_step_owner:
  "challenge_owner (lane_step g l op) cid = Some m \<Longrightarrow>
     challenge_owner l cid = Some m \<or> op = Dispatch m"
proof (cases op)
  case (Verify item r)
  then show "challenge_owner (lane_step g l op) cid = Some m \<Longrightarrow> ?thesis"
    by (cases "verify g l item r"; cases "fst (verify g l item r)") (auto dest: verify_state)
qed (auto simp: enqueue_def dispatch_def issue_def Let_def
    split: sum.splits sat_error.splits list.splits if_splits)

lemma accepted_sound:
  assumes "(item, c) \<in> set (accepted g l ops)" and "challenge_owner l = Map.empty"
  shows "cert_challenge_id c = item_challenge_id item
    \<and> (\<exists>asg. assignment c = Some asg \<and> certifies (item_instance item) asg)
    \<and> work_units c = float_text (derived_work_units g item)
    \<and> Dispatch (assigned_hotkey c) \<in> set ops"
proof -
  have "(\<forall>m. (\<exists>cid. challenge_owner l cid = Some m) \<longrightarrow> Dispatch m \<in> D) \<Longrightarrow>
      cert_challenge_id c = item_challenge_id item
    \<and> (\<exists>asg. assignment c = Some asg \<and> certifies (item_instance item) asg)
    \<and> work_units c = float_text (derived_work_units g item)
    \<and> Dispatch (assigned_hotkey c) \<in> D \<union> set ops" for D
    using assms(1)
  proof (induction ops arbitrary: l D)
    case (Cons op ops)
    have owners: "\<forall>m. (\<exists>cid. challenge_owner (lane_step g l op) cid = Some m)
        \<longrightarrow> Dispatch m \<in> insert op D"
      using Cons.prems(1) lane_step_owner by blast
    show ?case
    proof (cases rule: accepted_cases [of g l op ops])
      case 1
      with Cons.IH [OF owners] Cons.prems show ?thesis by simp
    next
      case (2 item' r c')
      show ?thesis
      proof (cases "(item, c) = (item', c')")
        case True
        with 2 Cons.prems(1) verify_accepted [of g l item r c] show ?thesis by blast
      next
        case False
        with 2 Cons.IH [OF owners] Cons.prems show ?thesis by auto
      qed
    qed
  qed simp
  from this [of "{}"] assms(2) show ?thesis by simp
qed

section \<open>Scores\<close>

definition credit :: "SatLane \<Rightarrow> string \<Rightarrow> nat" where
  "credit l cid = (case verified_credits l cid of Some u \<Rightarrow> u | None \<Rightarrow> 0)"

lemma score_loop_sum:
  "finite seen \<Longrightarrow> score_loop l m acc seen cids
     = acc + (\<Sum>cid \<in> {cid \<in> set cids - seen. challenge_owner l cid = Some m}. credit l cid)"
proof (induction l m acc seen cids rule: score_loop.induct)
  case (2 l m acc seen cid cids)
  let ?S = "\<lambda>seen cids. {c \<in> set cids - seen. challenge_owner l c = Some m}"
  show ?case
  proof (cases "verified_credits l cid \<noteq> None \<and> cid \<notin> seen \<and> challenge_owner l cid = Some m")
    case True
    then have "?S seen (cid # cids) = insert cid (?S (insert cid seen) cids)" by auto
    with True 2 show ?thesis by (auto simp: credit_def)
  next
    case False
    have "(\<Sum>c \<in> ?S seen (cid # cids). credit l c) = (\<Sum>c \<in> ?S seen cids. credit l c)"
      by (rule sum.mono_neutral_right) (use False in \<open>auto simp: credit_def\<close>)
    with False 2 show ?thesis by (auto split: option.splits)
  qed
qed simp

lemma score_sum:
  "score l m certs
     = (\<Sum>cid \<in> {cid \<in> cert_challenge_id ` set certs. challenge_owner l cid = Some m}. credit l cid)"
  by (simp add: score_def score_loop_sum)

end
