(* ===== verification/Sat_Properties.thy ===== *)
theory Sat_Properties
  imports Sat_Lane Provider_Sizes
begin

text \<open>
  What the SAT lane promises: the solver decides satisfiability, a run credits a challenge
  at most once and only against an assignment that really satisfies its instance, an
  honest miner is credited, scores add up the credits a miner owns, and a challenge
  identifier stands for one instance and seed.
\<close>

lemmas bounds_defs = MAX_N_VARS_def MAX_CLAUSES_def MAX_LITERALS_def MAX_LITERALS_PER_CLAUSE_def

section \<open>A concrete generator and a concrete run\<close>

text \<open>A generator that always draws 0: it meets the contract.\<close>

definition zero_rng :: "unit rng" where
  "zero_rng = \<lparr>rng_seed = (\<lambda>s. ()), rng_below = (\<lambda>r n. (0, r))\<rparr>"

lemma zero_rng_ok: "rng_ok zero_rng"
  by (simp add: rng_ok_def zero_rng_def)

lemma zero_canonical: "canonical_instance zero_rng s = \<lparr>n_vars = 8, clauses = replicate 20 [1, 8, 7]\<rparr>"
proof -
  have "canonical_instance zero_rng 0 = \<lparr>n_vars = 8, clauses = replicate 20 [1, 8, 7]\<rparr>"
    by code_simp
  moreover have "canonical_instance zero_rng s = canonical_instance zero_rng 0"
    by (simp add: canonical_instance_def zero_rng_def)
  ultimately show ?thesis by simp
qed

definition ex_lane :: SatLane where
  "ex_lane = SatLane_init (Some ''epoch'') []"

definition ex_item :: SatWorkItem where
  "ex_item = fst (dispatch zero_rng ex_lane ''miner'')"

definition ex_claim :: SatCertificate where
  "ex_claim = \<lparr>satisfiable = True, assignment = Some [1, 2, 3, 4, 5, 6, 7, 8], work_units = PFloat ''1e300'',
     cert_challenge_id = item_challenge_id ex_item, assigned_hotkey = ''miner''\<rparr>"

definition ex_ops :: "lane_op list" where
  "ex_ops = [Dispatch ''miner'', Verify ex_item (Some ex_claim), Verify ex_item (Some ex_claim)]"

lemma ex_item_instance: "item_instance ex_item = \<lparr>n_vars = 8, clauses = replicate 20 [1, 8, 7]\<rparr>"
  by (simp add: ex_item_def dispatch_def ex_lane_def SatLane_init_def Let_def zero_canonical)

lemma ex_certifies: "certifies (item_instance ex_item) [1, 2, 3, 4, 5, 6, 7, 8]"
  unfolding ex_item_instance by code_simp

lemma ex_accepted:
  "accepted zero_rng ex_lane ex_ops = [(ex_item, ex_claim\<lparr>work_units := float_text 20\<rparr>)]"
proof -
  let ?l = "snd (dispatch zero_rng ex_lane ''miner'')"
  have l: "issued_ids ?l = {item_challenge_id ex_item}" "verified_credits ?l = Map.empty"
    "challenge_owner ?l = [item_challenge_id ex_item \<mapsto> ''miner'']"
    by (simp_all add: dispatch_def ex_lane_def ex_item_def SatLane_init_def issue_def Let_def)
  let ?c = "ex_claim\<lparr>work_units := float_text 20\<rparr>"
  have "\<exists>l'. verify zero_rng ?l ex_item (Some ex_claim) = (Some ?c, l')"
    unfolding verify_accepts_iff derived_work_units_20 [OF zero_rng_ok]
    using ex_certifies by (simp add: l ex_claim_def)
  then obtain l' where v: "verify zero_rng ?l ex_item (Some ex_claim) = (Some ?c, l')" ..
  have "verified_credits l' (cert_challenge_id ex_claim) \<noteq> None"
    using verify_state(2) [OF v] by simp
  with v show ?thesis
    by (simp add: ex_ops_def) (simp add: verify_def ex_claim_def)
qed

text \<open>A customer item with its identifier left symbolic.\<close>

definition ex_customer :: SatWorkItem where
  "ex_customer =
    (let i = \<lparr>n_vars = 1, clauses = [[1]]\<rparr>
     in \<lparr>item_instance = i, item_seed = 0, item_challenge_id = compute_challenge_id i 0\<rparr>)"

lemma ex_customer_small: "length (customer_work_bytes ex_customer) \<le> MAX_CUSTOMER_WORK_BYTES"
proof -
  let ?d = "PDict
      [(''challenge_id'', PStr (item_challenge_id ex_customer)),
       (''assigned_hotkey'', PStr (replicate 256 (CHR ''x''))), (''seed'', PInt 0),
       (''instance'', PDict [(''n_vars'', PInt 1), (''clauses'', clauses_pyval [[1]])])]"
  have "length (item_challenge_id ex_customer) = 64"
    by (simp add: ex_customer_def challenge_id_shape Let_def)
  then have "text_bound ?d \<le> 3000" by (simp add: clauses_pyval_def int_digits_def)
  moreover have "plain_json ?d" by (simp add: clauses_pyval_def)
  ultimately have "length (dumps ?d) \<le> 3000" using dumps_text_bound [of ?d] by linarith
  moreover have "customer_work_bytes ex_customer = utf8 (dumps ?d)"
    by (simp only: customer_work_bytes_def ex_customer_def Let_def SatWorkItem.simps SatInstance.simps)
  ultimately show ?thesis
    using length_utf8_le [of "dumps ?d"] by (simp only: MAX_CUSTOMER_WORK_BYTES_def)
qed

lemma ex_customer_valid: "validate_sat_work_item (raw_item ex_customer) = Inr ex_customer"
proof -
  have "validate_sat_instance (PInt 1) (clauses_pyval [[1]]) = Inr \<lparr>n_vars = 1, clauses = [[1]]\<rparr>"
    by (simp add: clauses_pyval_def bounds_defs)
  then show ?thesis
    using ex_customer_small challenge_id_shape [of "\<lparr>n_vars = 1, clauses = [[1]]\<rparr>" 0]
    by (simp add: validate_sat_work_item_def raw_item_def ex_customer_def Let_def MIN_SEED_def MAX_SEED_def)
qed

section \<open>Properties\<close>

text \<open>
  C25. \<open>solve_sat\<close> decides every instance that passes validation: an answer gives each
  variable exactly one sign and satisfies every clause, so a truth assignment exists, and
  \<open>None\<close> means that no truth assignment exists.  The search always ends.
\<close>

theorem solve_sat_decides:
  assumes "validate_sat_instance n cs = Inr i"
  shows "case solve_sat i of
           Some asg \<Rightarrow> certifies i asg \<and> cnf_holds (\<lambda>v. v \<in> set asg) (clauses i)
         | None \<Rightarrow> \<not> satisfiable_cnf (clauses i)"
  using assms solve_sat_certifies [of i] certifies_holds [of i] solve_sat_unsat [of i]
  by (auto simp: validate_sat_instance_ok_iff split: option.split)

theorem solve_sat_decides_witness:
  "solve_sat \<lparr>n_vars = 2, clauses = [[1, 2], [- 1], [- 2]]\<rparr> = None
   \<and> \<not> satisfiable_cnf [[1, 2], [- 1], [- 2]]"
proof -
  have "validate_sat_instance (PInt 2) (PList [PList [PInt 1, PInt 2], PList [PInt (- 1)], PList [PInt (- 2)]])
      = Inr \<lparr>n_vars = 2, clauses = [[1, 2], [- 1], [- 2]]\<rparr>"
    by (simp add: validate_sat_instance_ok_iff clauses_pyval_def valid_instance_def bounds_defs)
  from solve_sat_decides [OF this]
  have "case solve_sat \<lparr>n_vars = 2, clauses = [[1, 2], [- 1], [- 2]]\<rparr> of
      Some asg \<Rightarrow> cnf_holds (\<lambda>v. v \<in> set asg) [[1, 2], [- 1], [- 2]]
    | None \<Rightarrow> \<not> satisfiable_cnf [[1, 2], [- 1], [- 2]]"
    by (simp split: option.splits)
  moreover have "solve_sat \<lparr>n_vars = 2, clauses = [[1, 2], [- 1], [- 2]]\<rparr> = None"
    by code_simp
  ultimately show ?thesis by simp
qed



text \<open>
  C26. An honest miner is paid.  When the queue is empty, the dispatched challenge is
  canonical, its instance is valid and satisfiable, \<open>solve_sat\<close> finds an assignment, and the
  certificate with that assignment is accepted, unless the same challenge was credited
  before.
\<close>

theorem honest_canonical_work_is_credited:
  assumes "rng_ok g" "queue l = []" "miner \<noteq> []"
    and "dispatch g l miner = (item, l')"
    and "verified_credits l (item_challenge_id item) = None"
  shows "\<exists>asg c l''. solve_sat (item_instance item) = Some asg
    \<and> verify g l' item (Some \<lparr>satisfiable = True, assignment = Some asg, work_units = units,
         cert_challenge_id = item_challenge_id item, assigned_hotkey = miner\<rparr>) = (Some c, l'')
    \<and> verified_credits l'' (item_challenge_id item) = Some 20"
proof -
  have inst: "item_instance item = canonical_instance g (item_seed item)"
    and l': "issued_ids l' = insert (item_challenge_id item) (issued_ids l)"
      "challenge_owner l' (item_challenge_id item) = Some miner"
      "verified_credits l' = verified_credits l"
    using assms(2,4) by (auto simp: dispatch_def issue_def Let_def)
  have canon: "valid_instance (item_instance item)" "satisfiable_cnf (clauses (item_instance item))"
    unfolding inst using assms(1) by (rule canonical_instance_facts)+
  then obtain asg where asg: "solve_sat (item_instance item) = Some asg"
    using solve_sat_unsat by (cases "solve_sat (item_instance item)") blast+
  then have "certifies (item_instance item) asg" using canon by (blast intro: solve_sat_certifies)
  then show ?thesis
    using asg assms l' by (simp add: verify_def certifies_def Let_def derived_work_units_20)
qed

theorem honest_canonical_work_is_credited_witness:
  "\<exists>asg c l''. solve_sat (item_instance ex_item) = Some asg
    \<and> verify zero_rng (snd (dispatch zero_rng ex_lane ''miner'')) ex_item
        (Some \<lparr>satisfiable = True, assignment = Some asg, work_units = PNone,
               cert_challenge_id = item_challenge_id ex_item, assigned_hotkey = ''miner''\<rparr>) = (Some c, l'')
    \<and> verified_credits l'' (item_challenge_id ex_item) = Some 20"
  by (rule honest_canonical_work_is_credited [OF zero_rng_ok, of ex_lane])
    (simp_all add: ex_lane_def SatLane_init_def ex_item_def)

text \<open>
  \<open>score\<close> is the sum of the credits of the distinct challenges, among the given
  certificates, that the miner owns; a certificate's own \<open>work_units\<close>, repeats, and
  challenges of other miners count nothing.
\<close>

lemma score_sums_owned_credits:
  "score l miner certs
     = (\<Sum>cid \<in> {cid \<in> cert_challenge_id ` set certs. challenge_owner l cid = Some miner}. credit l cid)"
  by (rule score_sum)

text \<open>
  A challenge identifier stands for one instance and one seed: two valid work items
  with the same identifier are equal, or their challenge texts are a SHA-256 collision.
\<close>

lemma challenge_id_identifies_work:
  assumes "validate_sat_work_item raw1 = Inr item1" "validate_sat_work_item raw2 = Inr item2"
    and "item_challenge_id item1 = item_challenge_id item2"
  shows "item1 = item2
    \<or> sha256_collision
        (utf8 (dumps_spaced (challenge_payload (item_instance item1) (item_seed item1))))
        (utf8 (dumps_spaced (challenge_payload (item_instance item2) (item_seed item2))))"
proof -
  have item: "valid_instance (item_instance item)" "seed_ok (item_seed item)"
    "item_challenge_id item = compute_challenge_id (item_instance item) (item_seed item)"
    if "validate_sat_work_item raw = Inr item" for raw item
    using that by (simp_all add: validate_sat_work_item_ok_iff item_valid_def)
  note i1 = item [OF assms(1)] and i2 = item [OF assms(2)]
  show ?thesis
    using challenge_id_binds [OF i1(1) i2(1) i1(2) i2(2)] i1(3) i2(3) assms(3)
    by (cases item1; cases item2) simp
qed

end
