(* ===== verification/Lifecycle.thy ===== *)
theory Lifecycle
  imports Provider_Canonical Py_Text
begin

text \<open>
  \<open>lifecycle.py\<close>, first half: the states of an enrolled worker, the reasons that may move
  it, the transition tables, the validated snapshot of a worker and the bounded retry
  delay.  An operation that raises \<open>LifecycleError\<close> returns \<open>Inl\<close> with its message;
  \<open>ExecutorShutdown\<close> is the plain \<open>RuntimeError\<close> of a thread pool that was shut down.
\<close>

datatype lifecycle_error = LifecycleError string | ExecutorShutdown

section \<open>States and reasons\<close>

datatype WorkerLifecycleState =
    PENDING
  | ATTESTED
  | STALE
  | FAILED
  | RETIRING
  | RETIRED
  | REVOKED

fun WorkerLifecycleState_value :: "WorkerLifecycleState \<Rightarrow> string" where
  "WorkerLifecycleState_value PENDING = ''pending''"
| "WorkerLifecycleState_value ATTESTED = ''attested''"
| "WorkerLifecycleState_value STALE = ''stale''"
| "WorkerLifecycleState_value FAILED = ''failed''"
| "WorkerLifecycleState_value RETIRING = ''retiring''"
| "WorkerLifecycleState_value RETIRED = ''retired''"
| "WorkerLifecycleState_value REVOKED = ''revoked''"

datatype LifecycleReason =
    ENROLLED
  | ENDPOINT_CHANGED
  | REENROLLED
  | ATTESTATION_VERIFIED
  | REFRESH_SCHEDULED
  | REFRESH_RETRY
  | EVIDENCE_EXPIRED
  | VERIFICATION_FAILED
  | RETRY_EXHAUSTED
  | POLICY_REVOKED
  | IDENTITY_CONFLICT
  | OPERATOR_RETIRING
  | OPERATOR_RETIRED
  | WORKER_REMOVED
  | REFRESH_CANCELLED
  | BACKFILL_PENDING
  | BACKFILL_STALE

fun LifecycleReason_value :: "LifecycleReason \<Rightarrow> string" where
  "LifecycleReason_value ENROLLED = ''enrolled''"
| "LifecycleReason_value ENDPOINT_CHANGED = ''endpoint_changed''"
| "LifecycleReason_value REENROLLED = ''reenrolled''"
| "LifecycleReason_value ATTESTATION_VERIFIED = ''attestation_verified''"
| "LifecycleReason_value REFRESH_SCHEDULED = ''refresh_scheduled''"
| "LifecycleReason_value REFRESH_RETRY = ''refresh_retry''"
| "LifecycleReason_value EVIDENCE_EXPIRED = ''evidence_expired''"
| "LifecycleReason_value VERIFICATION_FAILED = ''verification_failed''"
| "LifecycleReason_value RETRY_EXHAUSTED = ''retry_exhausted''"
| "LifecycleReason_value POLICY_REVOKED = ''policy_revoked''"
| "LifecycleReason_value IDENTITY_CONFLICT = ''identity_conflict''"
| "LifecycleReason_value OPERATOR_RETIRING = ''operator_retiring''"
| "LifecycleReason_value OPERATOR_RETIRED = ''operator_retired''"
| "LifecycleReason_value WORKER_REMOVED = ''worker_removed''"
| "LifecycleReason_value REFRESH_CANCELLED = ''refresh_cancelled''"
| "LifecycleReason_value BACKFILL_PENDING = ''backfill_pending''"
| "LifecycleReason_value BACKFILL_STALE = ''backfill_stale''"

definition TERMINAL_STATES :: "WorkerLifecycleState list" where
  "TERMINAL_STATES = [RETIRED, REVOKED]"

definition NETWORK_ELIGIBLE_STATES :: "WorkerLifecycleState list" where
  "NETWORK_ELIGIBLE_STATES = [PENDING, ATTESTED, STALE]"

definition CAPACITY_CONSUMING_STATES :: "WorkerLifecycleState list" where
  "CAPACITY_CONSUMING_STATES = NETWORK_ELIGIBLE_STATES @ [RETIRING, REVOKED]"

fun ALLOWED_TRANSITIONS :: "WorkerLifecycleState \<Rightarrow> WorkerLifecycleState list" where
  "ALLOWED_TRANSITIONS PENDING = [PENDING, ATTESTED, FAILED, RETIRING, REVOKED]"
| "ALLOWED_TRANSITIONS ATTESTED = [ATTESTED, STALE, FAILED, RETIRING, REVOKED]"
| "ALLOWED_TRANSITIONS STALE = [STALE, ATTESTED, FAILED, RETIRING, REVOKED]"
| "ALLOWED_TRANSITIONS FAILED = [FAILED, RETIRING, REVOKED]"
| "ALLOWED_TRANSITIONS RETIRING = [RETIRING, RETIRED, REVOKED]"
| "ALLOWED_TRANSITIONS RETIRED = [RETIRED]"
| "ALLOWED_TRANSITIONS REVOKED = [REVOKED]"

text \<open>\<open>REASON_TARGETS.get(reason, frozenset())\<close>\<close>

fun REASON_TARGETS :: "LifecycleReason \<Rightarrow> WorkerLifecycleState list" where
  "REASON_TARGETS ATTESTATION_VERIFIED = [ATTESTED]"
| "REASON_TARGETS REFRESH_SCHEDULED = [PENDING, ATTESTED, STALE]"
| "REASON_TARGETS REFRESH_RETRY = [PENDING, ATTESTED, STALE]"
| "REASON_TARGETS REFRESH_CANCELLED = [PENDING, ATTESTED, STALE]"
| "REASON_TARGETS EVIDENCE_EXPIRED = [STALE]"
| "REASON_TARGETS VERIFICATION_FAILED = [FAILED]"
| "REASON_TARGETS RETRY_EXHAUSTED = [FAILED]"
| "REASON_TARGETS POLICY_REVOKED = [REVOKED]"
| "REASON_TARGETS IDENTITY_CONFLICT = [REVOKED]"
| "REASON_TARGETS OPERATOR_RETIRING = [RETIRING]"
| "REASON_TARGETS OPERATOR_RETIRED = [RETIRED]"
| "REASON_TARGETS WORKER_REMOVED = [RETIRED]"
| "REASON_TARGETS _ = []"

fun SNAPSHOT_REASON_TARGETS :: "LifecycleReason \<Rightarrow> WorkerLifecycleState list" where
  "SNAPSHOT_REASON_TARGETS ENROLLED = [PENDING]"
| "SNAPSHOT_REASON_TARGETS ENDPOINT_CHANGED = [PENDING]"
| "SNAPSHOT_REASON_TARGETS REENROLLED = [PENDING]"
| "SNAPSHOT_REASON_TARGETS BACKFILL_PENDING = [PENDING]"
| "SNAPSHOT_REASON_TARGETS BACKFILL_STALE = [STALE]"
| "SNAPSHOT_REASON_TARGETS r = REASON_TARGETS r"

definition require_transition ::
  "WorkerLifecycleState \<Rightarrow> WorkerLifecycleState \<Rightarrow> lifecycle_error + unit" where
  "require_transition current target =
    require (target \<in> set (ALLOWED_TRANSITIONS current))
      (LifecycleError (''illegal worker lifecycle transition '' @ WorkerLifecycleState_value current
         @ '' -> '' @ WorkerLifecycleState_value target))"

definition reason_error :: "LifecycleReason \<Rightarrow> WorkerLifecycleState \<Rightarrow> lifecycle_error" where
  "reason_error r s =
    LifecycleError (''worker lifecycle reason '' @ LifecycleReason_value r @ '' is invalid for ''
      @ WorkerLifecycleState_value s)"

definition require_transition_reason ::
  "WorkerLifecycleState \<Rightarrow> LifecycleReason \<Rightarrow> lifecycle_error + unit" where
  "require_transition_reason target r =
    require (target \<in> set (REASON_TARGETS r)) (reason_error r target)"

definition require_snapshot_reason ::
  "WorkerLifecycleState \<Rightarrow> LifecycleReason \<Rightarrow> lifecycle_error + unit" where
  "require_snapshot_reason s r =
    require (s \<in> set (SNAPSHOT_REASON_TARGETS r)) (reason_error r s)"

section \<open>Times\<close>

definition lifecycle_canonical_utc :: "datetime \<Rightarrow> lifecycle_error + string" where
  "lifecycle_canonical_utc d =
    (if is_utc d then Inr (format_utc d) else Inl (LifecycleError ''worker lifecycle time must be UTC''))"

fun lifecycle_parse_utc :: "pyval \<Rightarrow> lifecycle_error + datetime" where
  "lifecycle_parse_utc (PStr s) =
    (case strptime_utc s of
       Some d \<Rightarrow> Inr d
     | None \<Rightarrow> Inl (LifecycleError ''persisted worker lifecycle time is invalid''))"
| "lifecycle_parse_utc _ = Inl (LifecycleError ''persisted worker lifecycle time is invalid'')"

section \<open>Snapshots\<close>

record LifecycleSnapshot =
  hotkey :: string
  ls_state :: WorkerLifecycleState
  generation :: int
  revision :: int
  event_id :: int
  reason :: LifecycleReason
  state_changed_at :: datetime
  evidence_verified_at :: "datetime option"
  evidence_expires_at :: "datetime option"
  measurement :: "string option"
  evidence_digest :: "string option"
  policy_digest :: "string option"
  policy_registry_release :: "int option"
  policy_registry_digest :: "string option"
  retry_count :: int
  next_retry_at :: "datetime option"

definition MAX_I64 :: int where "MAX_I64 = 2 ^ 63 - 1"

definition positive_i64 :: "int \<Rightarrow> bool" where
  "positive_i64 n \<longleftrightarrow> 0 < n \<and> n \<le> MAX_I64"

definition nonempty_text :: "string option \<Rightarrow> bool" where
  "nonempty_text t \<longleftrightarrow> (\<exists>s. t = Some s \<and> s \<noteq> [])"

text \<open>The conditions of \<open>__post_init__\<close>, in its order.\<close>

definition snapshot_fields_ok :: "LifecycleSnapshot \<Rightarrow> bool" where
  "snapshot_fields_ok s \<longleftrightarrow>
     hotkey s \<noteq> [] \<and> length (hotkey s) \<le> 512
     \<and> positive_i64 (generation s) \<and> positive_i64 (revision s) \<and> positive_i64 (event_id s)
     \<and> 0 \<le> retry_count s"

definition evidence_window_ok :: "LifecycleSnapshot \<Rightarrow> bool" where
  "evidence_window_ok s \<longleftrightarrow>
     (case (evidence_verified_at s, evidence_expires_at s) of
        (Some v, Some e) \<Rightarrow> dt_less v e
      | _ \<Rightarrow> True)"

definition attested_complete :: "LifecycleSnapshot \<Rightarrow> bool" where
  "attested_complete s \<longleftrightarrow>
     (case (evidence_verified_at s, evidence_expires_at s) of
        (Some v, Some e) \<Rightarrow> dt_le v (state_changed_at s) \<and> dt_less (state_changed_at s) e
      | _ \<Rightarrow> False)
     \<and> nonempty_text (measurement s) \<and> nonempty_text (evidence_digest s)
     \<and> nonempty_text (policy_digest s)"

definition registry_reference_ok :: "LifecycleSnapshot \<Rightarrow> bool" where
  "registry_reference_ok s \<longleftrightarrow>
     (case (policy_registry_release s, policy_registry_digest s) of
        (None, None) \<Rightarrow> True
      | (Some r, Some d) \<Rightarrow> positive_i64 r \<and> DIGEST_RE d
      | _ \<Rightarrow> False)"

definition optional_canonical_utc :: "datetime option \<Rightarrow> lifecycle_error + string option" where
  "optional_canonical_utc d = ropt lifecycle_canonical_utc d"

definition LifecycleSnapshot_post_init :: "LifecycleSnapshot \<Rightarrow> lifecycle_error + unit" where
  "LifecycleSnapshot_post_init s =
    rbind (require (snapshot_fields_ok s) (LifecycleError ''worker lifecycle snapshot is invalid'')) (\<lambda>_.
    rbind (lifecycle_canonical_utc (state_changed_at s)) (\<lambda>_.
    rbind (require_snapshot_reason (ls_state s) (reason s)) (\<lambda>_.
    rbind (optional_canonical_utc (evidence_verified_at s)) (\<lambda>_.
    rbind (optional_canonical_utc (evidence_expires_at s)) (\<lambda>_.
    rbind (optional_canonical_utc (next_retry_at s)) (\<lambda>_.
    checks
      [require (evidence_window_ok s) (LifecycleError ''worker lifecycle evidence window is invalid''),
       require (ls_state s \<noteq> ATTESTED \<or> attested_complete s)
         (LifecycleError ''attested worker lifecycle snapshot is incomplete''),
       require (registry_reference_ok s)
         (LifecycleError ''worker lifecycle policy registry reference is invalid'')]))))))"

definition eligible_at :: "LifecycleSnapshot \<Rightarrow> datetime \<Rightarrow> lifecycle_error + bool" where
  "eligible_at s w =
    rbind (lifecycle_canonical_utc w) (\<lambda>_.
      Inr (ls_state s = ATTESTED
           \<and> (case evidence_expires_at s of None \<Rightarrow> False | Some e \<Rightarrow> dt_less w e)))"

definition public_items :: "LifecycleSnapshot \<Rightarrow> lifecycle_error + (string \<times> pyval) list" where
  "public_items s =
    rbind (lifecycle_canonical_utc (state_changed_at s)) (\<lambda>changed.
    rbind (optional_canonical_utc (evidence_verified_at s)) (\<lambda>verified.
    rbind (optional_canonical_utc (evidence_expires_at s)) (\<lambda>expires.
      Inr [(''state'', PStr (WorkerLifecycleState_value (ls_state s))),
           (''reason'', PStr (LifecycleReason_value (reason s))),
           (''generation'', PInt (generation s)),
           (''state_changed_at'', PStr changed),
           (''evidence_verified_at'', opt_str verified),
           (''evidence_expires_at'', opt_str expires)])))"

definition public_dict :: "LifecycleSnapshot \<Rightarrow> lifecycle_error + pyval" where
  "public_dict s = rbind (public_items s) (\<lambda>kvs. Inr (PDict kvs))"

definition opt_int :: "int option \<Rightarrow> pyval" where
  "opt_int n = (case n of None \<Rightarrow> PNone | Some i \<Rightarrow> PInt i)"

definition operator_dict :: "LifecycleSnapshot \<Rightarrow> lifecycle_error + pyval" where
  "operator_dict s =
    rbind (public_items s) (\<lambda>kvs.
    rbind (optional_canonical_utc (next_retry_at s)) (\<lambda>retry_at.
      Inr (PDict (kvs @
        [(''revision'', PInt (revision s)), (''event_id'', PInt (event_id s)),
         (''measurement'', opt_str (measurement s)), (''evidence_digest'', opt_str (evidence_digest s)),
         (''policy_digest'', opt_str (policy_digest s)),
         (''policy_registry_release'', opt_int (policy_registry_release s)),
         (''policy_registry_digest'', opt_str (policy_registry_digest s)),
         (''retry_count'', PInt (retry_count s)), (''next_retry_at'', opt_str retry_at)]))))"

section \<open>Retry delay\<close>

definition retry_material :: "string \<Rightarrow> int \<Rightarrow> int \<Rightarrow> bytes" where
  "retry_material hk g attempt =
    utf8 (hk @ CHR 0x00 # show_int g @ CHR 0x00 # show_int attempt)"

definition retry_policy_ok :: "string \<Rightarrow> int \<Rightarrow> int \<Rightarrow> int \<Rightarrow> int \<Rightarrow> int \<Rightarrow> bool" where
  "retry_policy_ok hk g attempt base maximum jitter \<longleftrightarrow>
     hk \<noteq> [] \<and> 0 < g \<and> 0 < attempt \<and> 1 \<le> base \<and> base \<le> maximum \<and> maximum \<le> 86400
     \<and> 0 \<le> jitter \<and> jitter \<le> maximum"

definition retry_exponential :: "int \<Rightarrow> int \<Rightarrow> int \<Rightarrow> int" where
  "retry_exponential attempt base maximum = min maximum (base * 2 ^ nat (min (attempt - 1) 30))"

definition retry_delay_seconds ::
  "string \<Rightarrow> int \<Rightarrow> int \<Rightarrow> int \<Rightarrow> int \<Rightarrow> int \<Rightarrow> lifecycle_error + int" where
  "retry_delay_seconds hk g attempt base maximum jitter =
    (if \<not> retry_policy_ok hk g attempt base maximum jitter
     then Inl (LifecycleError ''worker lifecycle retry policy is invalid'')
     else (let j = (if jitter \<noteq> 0
                    then int (int_from_bytes_big (take 8 (sha256 (retry_material hk g attempt)))) mod (jitter + 1)
                    else 0)
           in Inr (min maximum (retry_exponential attempt base maximum + j))))"

section \<open>Runs of the state machine\<close>

text \<open>A recorded transition passes both guards.\<close>

inductive lifecycle_step :: "WorkerLifecycleState \<Rightarrow> LifecycleReason \<Rightarrow> WorkerLifecycleState \<Rightarrow> bool" where
  transition: "require_transition s t = Inr () \<Longrightarrow> require_transition_reason t r = Inr ()
    \<Longrightarrow> lifecycle_step s r t"

inductive lifecycle_run ::
  "WorkerLifecycleState \<Rightarrow> (LifecycleReason \<times> WorkerLifecycleState) list \<Rightarrow> WorkerLifecycleState \<Rightarrow> bool" where
  stop: "lifecycle_run s [] s"
| step: "lifecycle_step s r t \<Longrightarrow> lifecycle_run t evs u \<Longrightarrow> lifecycle_run s ((r, t) # evs) u"

inductive_simps lifecycle_step_iff: "lifecycle_step s r t"
inductive_cases lifecycle_run_NilE: "lifecycle_run s [] t"
inductive_cases lifecycle_run_ConsE: "lifecycle_run s (e # evs) t"

lemma lifecycle_step_tables:
  "lifecycle_step s r t \<longleftrightarrow> t \<in> set (ALLOWED_TRANSITIONS s) \<and> t \<in> set (REASON_TARGETS r)"
  by (simp add: lifecycle_step_iff require_transition_def require_transition_reason_def require_ok_iff)

text \<open>The states that no reason leads out of towards the network again.\<close>

lemma settled_step:
  "lifecycle_step s r t \<Longrightarrow> s \<in> {FAILED, RETIRING, RETIRED, REVOKED} \<Longrightarrow> t \<in> {FAILED, RETIRING, RETIRED, REVOKED}"
  by (cases s) (auto simp: lifecycle_step_tables)

lemma settled_run:
  "lifecycle_run s evs t \<Longrightarrow> s \<in> {FAILED, RETIRING, RETIRED, REVOKED} \<Longrightarrow> t \<in> {FAILED, RETIRING, RETIRED, REVOKED}"
  by (induction rule: lifecycle_run.induct) (blast dest: settled_step)+

lemma terminal_run: "lifecycle_run s evs t \<Longrightarrow> s \<in> set TERMINAL_STATES \<Longrightarrow> t = s"
  by (induction rule: lifecycle_run.induct) (auto simp: TERMINAL_STATES_def lifecycle_step_tables)

lemma lifecycle_run_append:
  "lifecycle_run s (xs @ ys) u \<Longrightarrow> \<exists>t. lifecycle_run s xs t \<and> lifecycle_run t ys u"
  by (induction xs arbitrary: s) (auto elim!: lifecycle_run_ConsE intro: lifecycle_run.intros)

lemma retry_exponential_bounds:
  assumes "1 \<le> base" "base \<le> maximum"
  shows "base \<le> retry_exponential attempt base maximum" "retry_exponential attempt base maximum \<le> maximum"
proof -
  have "base * 1 \<le> base * 2 ^ nat (min (attempt - 1) 30)"
    using assms(1) by (intro mult_left_mono) simp_all
  with assms show "base \<le> retry_exponential attempt base maximum"
    "retry_exponential attempt base maximum \<le> maximum"
    by (simp_all add: retry_exponential_def)
qed

lemma retry_exponential_mono:
  "1 \<le> base \<Longrightarrow> a \<le> b \<Longrightarrow> retry_exponential a base maximum \<le> retry_exponential b base maximum"
proof -
  assume base: "1 \<le> base" and ab: "a \<le> b"
  have "(2 :: int) ^ nat (min (a - 1) 30) \<le> 2 ^ nat (min (b - 1) 30)"
    using ab by (intro power_increasing nat_mono) auto
  then have "base * 2 ^ nat (min (a - 1) 30) \<le> base * 2 ^ nat (min (b - 1) 30)"
    using base by (intro mult_left_mono) auto
  then show ?thesis unfolding retry_exponential_def by linarith
qed

end
