(* ===== verification/Reattest.thy ===== *)
theory Reattest
  imports Complex_Main Lifecycle
begin

text \<open>
  \<open>lifecycle.py\<close>, second half: \<open>SingleFlightReattestor\<close>, which runs refreshes on a thread
  pool, shares one flight between concurrent callers of the same worker, and discards the
  result of a cancelled one.

  The store \<open>futures\<close> holds every flight ever submitted under a fresh address, so that a
  caller, the pool and the dictionary \<open>flights\<close> can share it.  Each block the code runs
  under its lock, and each event of the pool or of a waiting caller, is one function; the
  relation \<open>reattest_step\<close> interleaves them freely.
\<close>

section \<open>State\<close>

datatype 'r outcome = Returned 'r | RaisedCancelled | RaisedByOperation

text \<open>A \<open>concurrent.futures.Future\<close>: queued, running, finished, or cancelled while queued.\<close>

datatype 'r future_status = Queued | Running | Finished "'r outcome" | CancelledFuture

record 'r flight =
  f_hotkey :: string
  f_generation :: int
  f_cancel :: bool
  f_status :: "'r future_status"

record 'r reattestor =
  flights :: "string \<rightharpoonup> nat"
  futures :: "nat \<rightharpoonup> 'r flight"
  next_future :: nat
  shut_down :: bool

definition future_done :: "'r flight \<Rightarrow> bool" where
  "future_done f \<longleftrightarrow> f_status f \<noteq> Queued \<and> f_status f \<noteq> Running"

definition reattestor_init :: "int \<Rightarrow> string + 'r reattestor" where
  "reattestor_init max_workers =
    (if \<not> (1 \<le> max_workers \<and> max_workers \<le> 64) then Inl ''max_workers must be between 1 and 64''
     else Inr \<lparr>flights = Map.empty, futures = Map.empty, next_future = 0, shut_down = False\<rparr>)"

definition update_flight :: "nat \<Rightarrow> ('r flight \<Rightarrow> 'r flight) \<Rightarrow> 'r reattestor \<Rightarrow> 'r reattestor" where
  "update_flight i u r =
    (case futures r i of
       None \<Rightarrow> r
     | Some f \<Rightarrow> r\<lparr>futures := (futures r)(i \<mapsto> u f)\<rparr>)"

definition set_cancel :: "nat \<Rightarrow> 'r reattestor \<Rightarrow> 'r reattestor" where
  "set_cancel i r = update_flight i (\<lambda>f. f\<lparr>f_cancel := True\<rparr>) r"

text \<open>The flight of a worker that is still in progress.\<close>

definition active_flight :: "'r reattestor \<Rightarrow> string \<Rightarrow> (nat \<times> 'r flight) option" where
  "active_flight r hk =
    (case flights r hk of
       None \<Rightarrow> None
     | Some i \<Rightarrow>
         (case futures r i of
            None \<Rightarrow> None
          | Some f \<Rightarrow> if future_done f then None else Some (i, f)))"

section \<open>Operations\<close>

text \<open>The timeout argument: anything but a finite number is refused.\<close>

datatype timeout_arg = TimeoutNotNumber | TimeoutNotFinite | TimeoutSeconds rat

fun timeout_ok :: "timeout_arg \<Rightarrow> bool" where
  "timeout_ok (TimeoutSeconds t) = (0 < t)"
| "timeout_ok _ = False"

text \<open>
  \<open>run\<close> up to the point where it waits: the address of the flight to wait for.  A
  generation change cancels the flight in progress before it raises.
\<close>

definition run_enter ::
  "'r reattestor \<Rightarrow> string \<Rightarrow> int \<Rightarrow> timeout_arg \<Rightarrow> (lifecycle_error + nat) \<times> 'r reattestor" where
  "run_enter r hk g timeout =
    (if hk = [] then (Inl (LifecycleError ''refresh hotkey is invalid''), r)
     else if g \<le> 0 then (Inl (LifecycleError ''refresh generation is invalid''), r)
     else if \<not> timeout_ok timeout
       then (Inl (LifecycleError ''refresh timeout must be positive''), r)
     else case active_flight r hk of
         Some (i, f) \<Rightarrow>
           if f_generation f \<noteq> g
           then (Inl (LifecycleError ''worker generation changed during refresh''), set_cancel i r)
           else (Inr i, r)
       | None \<Rightarrow>
           if shut_down r
           then (Inl ExecutorShutdown, r)
           else (Inr (next_future r),
                 r\<lparr>futures := (futures r)(next_future r \<mapsto>
                      \<lparr>f_hotkey = hk, f_generation = g, f_cancel = False, f_status = Queued\<rparr>),
                   flights := (flights r)(hk \<mapsto> next_future r),
                   next_future := Suc (next_future r)\<rparr>))"

text \<open>The end of \<open>run\<close>: the outcome of the flight, or a timeout, which cancels it.\<close>

definition run_timeout :: "nat \<Rightarrow> 'r reattestor \<Rightarrow> 'r reattestor" where
  "run_timeout i r = set_cancel i r"

definition run_result :: "'r reattestor \<Rightarrow> nat \<Rightarrow> 'r outcome option" where
  "run_result r i =
    (case futures r i of
       Some f \<Rightarrow> (case f_status f of Finished out \<Rightarrow> Some out | _ \<Rightarrow> None)
     | None \<Rightarrow> None)"

text \<open>\<open>_invoke\<close> on a pool thread: the check before the operation, and the one after it.\<close>

definition invoke_start :: "nat \<Rightarrow> 'r reattestor \<Rightarrow> 'r reattestor" where
  "invoke_start i r =
    update_flight i (\<lambda>f.
      if f_status f = Queued
      then f\<lparr>f_status := (if f_cancel f then Finished RaisedCancelled else Running)\<rparr>
      else f) r"

definition invoke_finish :: "nat \<Rightarrow> 'r outcome \<Rightarrow> 'r reattestor \<Rightarrow> 'r reattestor" where
  "invoke_finish i out r =
    update_flight i (\<lambda>f.
      if f_status f = Running
      then f\<lparr>f_status := Finished (case out of
               Returned x \<Rightarrow> if f_cancel f then RaisedCancelled else Returned x
             | _ \<Rightarrow> out)\<rparr>
      else f) r"

text \<open>The callback \<open>_completed\<close>, at any time after the future is done.\<close>

definition completed :: "nat \<Rightarrow> 'r reattestor \<Rightarrow> 'r reattestor" where
  "completed i r =
    (case futures r i of
       None \<Rightarrow> r
     | Some f \<Rightarrow>
         if future_done f \<and> flights r (f_hotkey f) = Some i
         then r\<lparr>flights := (flights r)(f_hotkey f := None)\<rparr> else r)"

text \<open>\<open>Future.cancel()\<close> only stops a future that is still queued.\<close>

definition cancel_future :: "'r flight \<Rightarrow> 'r flight" where
  "cancel_future f = (if f_status f = Queued then f\<lparr>f_status := CancelledFuture\<rparr> else f)"

definition cancel :: "'r reattestor \<Rightarrow> string \<Rightarrow> bool \<times> 'r reattestor" where
  "cancel r hk =
    (case active_flight r hk of
       None \<Rightarrow> (False, r)
     | Some (i, f) \<Rightarrow> (True, update_flight i cancel_future (set_cancel i r)))"

definition active_count :: "'r reattestor \<Rightarrow> nat" where
  "active_count r =
    length (filter (\<lambda>i. case futures r i of
        Some f \<Rightarrow> \<not> future_done f \<and> flights r (f_hotkey f) = Some i
      | None \<Rightarrow> False) [0..<next_future r])"

text \<open>\<open>close\<close>: cancel every registered flight, then shut the pool down with its queue.\<close>

definition close :: "'r reattestor \<Rightarrow> 'r reattestor" where
  "close r =
    r\<lparr>futures := (\<lambda>i. map_option (\<lambda>f.
         cancel_future (if flights r (f_hotkey f) = Some i then f\<lparr>f_cancel := True\<rparr> else f))
         (futures r i)),
      shut_down := True\<rparr>"

section \<open>Interleavings\<close>

inductive reattest_step :: "'r reattestor \<Rightarrow> 'r reattestor \<Rightarrow> bool" where
  enter: "reattest_step r (snd (run_enter r hk g t))"
| timeout: "reattest_step r (run_timeout i r)"
| start: "reattest_step r (invoke_start i r)"
| finish: "reattest_step r (invoke_finish i out r)"
| callback: "reattest_step r (completed i r)"
| cancel: "reattest_step r (snd (cancel r hk))"
| close: "reattest_step r (close r)"

definition reattest_steps :: "'r reattestor \<Rightarrow> 'r reattestor \<Rightarrow> bool" where
  "reattest_steps = reattest_step\<^sup>*\<^sup>*"

definition reattest_inv :: "'r reattestor \<Rightarrow> bool" where
  "reattest_inv r \<longleftrightarrow>
     (\<forall>i f. futures r i = Some f \<longrightarrow> i < next_future r)
     \<and> (\<forall>hk i. flights r hk = Some i \<longrightarrow> (\<exists>f. futures r i = Some f \<and> f_hotkey f = hk))
     \<and> (\<forall>i f. futures r i = Some f \<longrightarrow> \<not> future_done f \<longrightarrow> flights r (f_hotkey f) = Some i)"

text \<open>
  An update of one flight that keeps its worker and generation and never revives a done
  future.
\<close>

definition tame :: "('r flight \<Rightarrow> 'r flight) \<Rightarrow> bool" where
  "tame u \<longleftrightarrow> (\<forall>f. f_hotkey (u f) = f_hotkey f \<and> (future_done f \<longrightarrow> future_done (u f)))"

lemma reattest_invI:
  assumes "\<And>i f. futures r i = Some f \<Longrightarrow> i < next_future r"
    and "\<And>hk i. flights r hk = Some i \<Longrightarrow> \<exists>f. futures r i = Some f \<and> f_hotkey f = hk"
    and "\<And>i f. futures r i = Some f \<Longrightarrow> \<not> future_done f \<Longrightarrow> flights r (f_hotkey f) = Some i"
  shows "reattest_inv r"
  unfolding reattest_inv_def using assms by blast

lemma reattest_invD:
  assumes "reattest_inv r"
  shows "futures r i = Some f \<Longrightarrow> i < next_future r"
    and "flights r hk = Some i \<Longrightarrow> \<exists>f. futures r i = Some f \<and> f_hotkey f = hk"
    and "futures r i = Some f \<Longrightarrow> \<not> future_done f \<Longrightarrow> flights r (f_hotkey f) = Some i"
  using assms unfolding reattest_inv_def by blast+

lemma tame_map:
  assumes inv: "reattest_inv r" and tame: "\<And>i. tame (u i)"
    and r': "flights r' = flights r" "next_future r' = next_future r"
      "\<And>i. futures r' i = map_option (u i) (futures r i)"
  shows "reattest_inv r'"
proof (rule reattest_invI)
  show "i < next_future r'" if "futures r' i = Some f" for i f
    using that reattest_invD(1) [OF inv] by (auto simp: r')
  show "\<exists>f. futures r' i = Some f \<and> f_hotkey f = hk" if fl: "flights r' hk = Some i" for hk i
    using reattest_invD(2) [OF inv, of hk i] fl tame [of i] by (auto simp: r' tame_def)
  show "flights r' (f_hotkey f) = Some i" if "futures r' i = Some f" "\<not> future_done f" for i f
  proof -
    from that(1) obtain z where z: "futures r i = Some z" "f = u i z" by (auto simp: r')
    with that(2) tame [of i] have "\<not> future_done z" "f_hotkey f = f_hotkey z" by (auto simp: tame_def)
    with reattest_invD(3) [OF inv z(1)] show ?thesis by (simp add: r')
  qed
qed

lemma tame_update: "reattest_inv r \<Longrightarrow> tame u \<Longrightarrow> reattest_inv (update_flight i u r)"
  by (rule tame_map [where u = "\<lambda>j. if j = i then u else id" and r = r])
    (auto simp: update_flight_def tame_def option.map_id split: option.split)

lemma tame_updates:
  "tame (\<lambda>f. f\<lparr>f_cancel := True\<rparr>)" "tame cancel_future"
  "tame (\<lambda>f. if f_status f = Queued
      then f\<lparr>f_status := (if f_cancel f then Finished RaisedCancelled else Running)\<rparr> else f)"
  "tame (\<lambda>f. if f_status f = Running
      then f\<lparr>f_status := Finished (case out of
               Returned x \<Rightarrow> if f_cancel f then RaisedCancelled else Returned x | _ \<Rightarrow> out)\<rparr>
      else f)"
  by (simp_all add: tame_def cancel_future_def future_done_def)

lemma active_flight_Some:
  "active_flight r hk = Some (i, f) \<longleftrightarrow> flights r hk = Some i \<and> futures r i = Some f \<and> \<not> future_done f"
  by (auto simp: active_flight_def split: option.splits)

lemma inv_set_cancel: "reattest_inv r \<Longrightarrow> reattest_inv (set_cancel i r)"
  unfolding set_cancel_def by (rule tame_update) (simp_all add: tame_updates)

lemma inv_run_enter:
  assumes inv: "reattest_inv r"
  shows "reattest_inv (snd (run_enter r hk g t))"
proof (cases "active_flight r hk")
  case None
  have free: "futures r (next_future r) = None"
    using inv unfolding reattest_inv_def by (meson less_irrefl not_Some_eq)
  have unused: "flights r hk' \<noteq> Some (next_future r)" for hk'
    using reattest_invD(2) [OF inv, of hk' "next_future r"] free by auto
  have quiet: "future_done f" if "futures r i = Some f" "f_hotkey f = hk" for i f
    using inv None that active_flight_Some [of r hk i f] unfolding reattest_inv_def by fastforce
  have fresh: "reattest_inv (r\<lparr>
      futures := (futures r)(next_future r \<mapsto>
        \<lparr>f_hotkey = hk, f_generation = g, f_cancel = False, f_status = Queued\<rparr>),
      flights := (flights r)(hk \<mapsto> next_future r), next_future := Suc (next_future r)\<rparr>)"
    by (rule reattest_invI)
      (use reattest_invD [OF inv] free unused quiet in \<open>auto simp: less_Suc_eq split: if_splits\<close>)
  then show ?thesis using None inv by (simp add: run_enter_def)
next
  case (Some p)
  with inv show ?thesis by (cases p) (simp add: run_enter_def inv_set_cancel)
qed

lemma inv_cancel: "reattest_inv r \<Longrightarrow> reattest_inv (snd (cancel r hk))"
  by (auto simp: cancel_def inv_set_cancel tame_updates intro!: tame_update split: option.splits)

lemma inv_close: "reattest_inv r \<Longrightarrow> reattest_inv (close r)"
  by (rule tame_map [where r = r and u = "\<lambda>i f.
        cancel_future (if flights r (f_hotkey f) = Some i then f\<lparr>f_cancel := True\<rparr> else f)"])
    (auto simp: close_def tame_def cancel_future_def future_done_def)

lemma inv_completed:
  assumes inv: "reattest_inv r"
  shows "reattest_inv (completed i r)"
proof (cases "\<exists>f. futures r i = Some f \<and> future_done f \<and> flights r (f_hotkey f) = Some i")
  case True
  then obtain f where f: "futures r i = Some f" "future_done f" "flights r (f_hotkey f) = Some i"
    by blast
  then have r': "completed i r = r\<lparr>flights := (flights r)(f_hotkey f := None)\<rparr>"
    by (simp add: completed_def)
  have other: "f_hotkey f' \<noteq> f_hotkey f" if "futures r j = Some f'" "\<not> future_done f'" for j f'
    using reattest_invD(3) [OF inv that] f that by auto
  show ?thesis
    unfolding r'
    by (rule reattest_invI) (use reattest_invD [OF inv] other in \<open>auto split: if_splits\<close>)
next
  case False
  then have "completed i r = r" by (auto simp: completed_def split: option.splits)
  with inv show ?thesis by simp
qed

lemma reattest_step_inv: "reattest_step r r' \<Longrightarrow> reattest_inv r \<Longrightarrow> reattest_inv r'"
  by (induction rule: reattest_step.induct)
    (simp_all add: inv_run_enter inv_set_cancel run_timeout_def invoke_start_def invoke_finish_def
      tame_update tame_updates inv_completed inv_cancel inv_close)

lemma reattest_steps_inv: "reattest_steps r r' \<Longrightarrow> reattest_inv r \<Longrightarrow> reattest_inv r'"
  unfolding reattest_steps_def by (induction rule: rtranclp_induct) (auto dest: reattest_step_inv)

lemma reattestor_init_inv: "reattestor_init n = Inr r \<Longrightarrow> reattest_inv r"
  by (auto simp: reattestor_init_def reattest_inv_def split: if_splits)

section \<open>Cancelled flights\<close>

text \<open>A flight cancelled in progress, or one that ended without a result.\<close>

definition resultless :: "'r flight \<Rightarrow> bool" where
  "resultless f \<longleftrightarrow>
     (if future_done f then \<forall>x. f_status f \<noteq> Finished (Returned x) else f_cancel f)"

definition discards :: "nat \<Rightarrow> 'r reattestor \<Rightarrow> bool" where
  "discards i r \<longleftrightarrow> (\<exists>f. futures r i = Some f \<and> resultless f)"

lemma resultless_updates:
  assumes "resultless f"
  shows "resultless (f\<lparr>f_cancel := True\<rparr>)" "resultless (cancel_future f)"
    "resultless (if f_status f = Queued
      then f\<lparr>f_status := (if f_cancel f then Finished RaisedCancelled else Running)\<rparr> else f)"
    "resultless (if f_status f = Running
      then f\<lparr>f_status := Finished (case out of
               Returned x \<Rightarrow> if f_cancel f then RaisedCancelled else Returned x | _ \<Rightarrow> out)\<rparr>
      else f)"
  using assms
  by (auto simp: resultless_def cancel_future_def future_done_def split: outcome.splits)

lemma discards_update:
  "discards i r \<Longrightarrow> (\<And>f. resultless f \<Longrightarrow> resultless (u f)) \<Longrightarrow> discards i (update_flight j u r)"
  by (auto simp: discards_def update_flight_def split: option.splits)

lemma discards_run_enter:
  assumes inv: "reattest_inv r" and d: "discards i r"
  shows "discards i (snd (run_enter r hk g t))"
proof -
  have "i \<noteq> next_future r" using d reattest_invD(1) [OF inv] by (fastforce simp: discards_def)
  then have "discards i (r\<lparr>futures := (futures r)(next_future r \<mapsto> f), flights := fl, next_future := n\<rparr>)"
    for f fl n using d by (simp add: discards_def)
  moreover have "discards i (set_cancel j r)" for j
    using d unfolding set_cancel_def by (rule discards_update) (rule resultless_updates)
  ultimately show ?thesis using d by (simp add: run_enter_def split: option.split prod.split)
qed

lemma discards_cancel: "discards i r \<Longrightarrow> discards i (snd (cancel r hk))"
  by (auto simp: cancel_def set_cancel_def resultless_updates intro!: discards_update split: option.split)

lemma discards_close: "discards i r \<Longrightarrow> discards i (close r)"
  by (auto simp: discards_def close_def intro!: resultless_updates)

lemma discards_step:
  "reattest_step r r' \<Longrightarrow> reattest_inv r \<Longrightarrow> discards i r \<Longrightarrow> discards i r'"
proof (induction rule: reattest_step.induct)
  case (callback r j)
  then show ?case by (auto simp: completed_def discards_def split: option.split)
qed (simp_all add: discards_run_enter discards_cancel discards_close run_timeout_def set_cancel_def
    invoke_start_def invoke_finish_def discards_update resultless_updates)

lemma discards_steps:
  assumes "reattest_steps r r'" "reattest_inv r" "discards i r"
  shows "discards i r'"
  using assms unfolding reattest_steps_def
proof (induction rule: rtranclp_induct)
  case (step y z)
  have "reattest_inv y" using step.hyps(1) step.prems(1) reattest_steps_inv unfolding reattest_steps_def by blast
  with step show ?case by (blast intro: discards_step)
qed

lemma discards_no_result: "discards i r \<Longrightarrow> run_result r i \<noteq> Some (Returned x)"
  by (auto simp: discards_def resultless_def future_done_def run_result_def split: future_status.splits)

end
