(* ===== verification/Py_Instant.thy ===== *)
theory Py_Instant
  imports Py_Time
begin

text \<open>
  \<open>timedelta\<close> arithmetic and whole-second timestamps.  \<open>dt_micros\<close> numbers the instants of
  the proleptic Gregorian calendar in microseconds, as \<open>datetime\<close> subtraction does, and
  orders valid times as \<open>datetime\<close> comparison does.  \<open>format_seconds\<close> and
  \<open>parse_seconds\<close> are \<open>strftime\<close> and the pattern-guarded \<open>strptime\<close> for
  \<open>YYYY-MM-DDTHH:MM:SSZ\<close>.
\<close>

section \<open>Instants\<close>

definition days_before_year :: "nat \<Rightarrow> nat" where
  "days_before_year y = (y - 1) * 365 + (y - 1) div 4 - (y - 1) div 100 + (y - 1) div 400"

definition days_before_month :: "nat \<Rightarrow> nat \<Rightarrow> nat" where
  "days_before_month y m = sum_list (map (days_in_month y) [1..<m])"

definition dt_ordinal :: "datetime \<Rightarrow> nat" where
  "dt_ordinal d = days_before_year (dt_year d) + days_before_month (dt_year d) (dt_month d) + dt_day d"

definition dt_micros :: "datetime \<Rightarrow> int" where
  "dt_micros d = int ((((dt_ordinal d * 24 + dt_hour d) * 60 + dt_minute d) * 60 + dt_second d) * 1000000
     + dt_microsecond d)"

lemma days_before_year_Suc:
  assumes "0 < y"
  shows "days_before_year (Suc y) = days_before_year y + (if leap_year y then 366 else 365)"
proof -
  obtain n where y: "y = Suc n" using assms by (cases y) auto
  have le: "n div 100 \<le> n div 4" by (simp add: div_le_mono2)
  have m100: "Suc n mod 4 = 0" if "Suc n mod 100 = 0"
    using that dvd_trans [of 4 100 "Suc n"] by (simp add: mod_eq_0_iff_dvd)
  have m400: "Suc n mod 100 = 0" if "Suc n mod 400 = 0"
    using that dvd_trans [of 100 400 "Suc n"] by (simp add: mod_eq_0_iff_dvd)
  let ?e = "\<lambda>k. if Suc n mod k = 0 then 1 else (0 :: nat)"
  have e: "Suc n div k = n div k + ?e k" for k by (simp add: div_Suc)
  have leap: "(if leap_year y then 366 else 365) + ?e 100 = 365 + ?e 4 + ?e 400"
    using m100 m400 by (auto simp: y leap_year_def)
  have count: "b \<le> a \<Longrightarrow> e1 \<le> 1 \<Longrightarrow> l + e1 = 365 + e4 + e2 \<Longrightarrow>
      (n * 365 + 365) + (a + e4) - (b + e1) + (c + e2) = n * 365 + a - b + c + l"
    for a b c l e1 e2 e4 :: nat
    by linarith
  have "?e 100 \<le> 1" by simp
  from count [OF le this leap, of "n div 400"] show ?thesis
    by (simp only: y days_before_year_def diff_Suc_1 e mult_Suc) (simp only: ac_simps)
qed

lemma days_before_month_less:
  "m < m' \<Longrightarrow> 1 \<le> m \<Longrightarrow> days_before_month y m + days_in_month y m \<le> days_before_month y m'"
proof -
  assume m: "m < m'" "1 \<le> m"
  then have "[1..<m'] = [1..<m] @ m # [Suc m..<m']" by (metis upt_add_eq_append upt_conv_Cons le_add_diff_inverse less_imp_le)
  then show ?thesis by (simp add: days_before_month_def)
qed

lemma days_before_month_13: "days_before_month y 13 = (if leap_year y then 366 else 365)"
proof -
  have "[1..<13] = [1, 2, 3, 4, 5, 6, 7, 8, 9, 10, 11, 12 :: nat]" by (simp add: upt_rec)
  then show ?thesis by (simp add: days_before_month_def days_in_month_def)
qed

lemma days_before_year_less:
  "1 \<le> y \<Longrightarrow> y < y' \<Longrightarrow> days_before_year y + (if leap_year y then 366 else 365) \<le> days_before_year y'"
proof (induction y')
  case (Suc n)
  show ?case
  proof (cases "y = n")
    case False
    with Suc have "days_before_year y + (if leap_year y then 366 else 365) \<le> days_before_year n" by simp
    also have "\<dots> \<le> days_before_year (Suc n)"
      using Suc.prems False by (simp add: days_before_year_Suc)
    finally show ?thesis .
  qed (use Suc.prems days_before_year_Suc [of n] in simp)
qed simp

lemma dt_ordinal_less:
  assumes "valid_datetime a" "valid_datetime b"
    and "(dt_year a, dt_month a, dt_day a) < (dt_year b, dt_month b, dt_day b)"
  shows "dt_ordinal a < dt_ordinal b"
proof -
  have end_of_year: "days_before_month (dt_year a) (dt_month a) + dt_day a
      \<le> (if leap_year (dt_year a) then 366 else 365)"
    using assms(1) days_before_month_less [of "dt_month a" 13 "dt_year a"]
    by (simp add: valid_datetime_def days_before_month_13 split: if_splits)
  consider (year) "dt_year a < dt_year b"
    | (month) "dt_year a = dt_year b" "dt_month a < dt_month b"
    | (day) "dt_year a = dt_year b" "dt_month a = dt_month b" "dt_day a < dt_day b"
    using assms(3) by (auto simp: less_prod_def')
  then show ?thesis
  proof cases
    case year
    then show ?thesis
      using assms(1,2) end_of_year days_before_year_less [of "dt_year a" "dt_year b"]
      by (simp add: dt_ordinal_def valid_datetime_def split: if_splits)
  next
    case month
    then show ?thesis
      using assms(1,2) days_before_month_less [of "dt_month a" "dt_month b" "dt_year a"]
      by (simp add: dt_ordinal_def valid_datetime_def)
  qed (simp add: dt_ordinal_def)
qed

lemma dt_micros_less:
  assumes "valid_datetime a" "valid_datetime b" "dt_less a b"
  shows "dt_micros a < dt_micros b"
proof -
  have fields: "dt_hour d \<le> 23" "dt_minute d \<le> 59" "dt_second d \<le> 59" "dt_microsecond d \<le> 999999"
    if "valid_datetime d" for d
    using that by (simp_all add: valid_datetime_def)
  consider (date) "(dt_year a, dt_month a, dt_day a) < (dt_year b, dt_month b, dt_day b)"
    | (time) "dt_year a = dt_year b" "dt_month a = dt_month b" "dt_day a = dt_day b"
      "(dt_hour a, dt_minute a, dt_second a, dt_microsecond a)
        < (dt_hour b, dt_minute b, dt_second b, dt_microsecond b)"
    using assms(3) by (auto simp: dt_less_def dt_key_def less_prod_def')
  then show ?thesis
  proof cases
    case date
    then have "dt_ordinal a < dt_ordinal b" by (rule dt_ordinal_less [OF assms(1,2)])
    then show ?thesis
      using fields [OF assms(1)]
      unfolding dt_micros_def of_nat_less_iff add_mult_distrib by linarith
  next
    case time
    then have "dt_ordinal a = dt_ordinal b" by (simp add: dt_ordinal_def)
    with time(4) show ?thesis
      using fields [OF assms(1)] unfolding dt_micros_def less_prod_def' by auto
  qed
qed

lemma dt_micros_less_iff:
  assumes "is_utc a" "is_utc b"
  shows "dt_micros a < dt_micros b \<longleftrightarrow> dt_less a b"
proof
  assume lt: "dt_micros a < dt_micros b"
  show "dt_less a b"
  proof (rule ccontr)
    assume "\<not> dt_less a b"
    then have le: "dt_le b a" by simp
    show False
    proof (cases "dt_less b a")
      case True
      with assms lt show False using dt_micros_less [of b a] by (simp add: is_utc_def)
    next
      case False
      then have "dt_le a b" by simp
      with le assms have "a = b" by (blast intro: utc_antisym)
      with lt show False by simp
    qed
  qed
qed (use assms in \<open>simp add: dt_micros_less is_utc_def\<close>)

lemma dt_micros_le_iff: "is_utc a \<Longrightarrow> is_utc b \<Longrightarrow> dt_micros a \<le> dt_micros b \<longleftrightarrow> dt_le a b"
  using dt_micros_less_iff [of b a] by (metis dt_not_less not_le)

section \<open>Whole-second timestamps\<close>

definition format_seconds :: "datetime \<Rightarrow> string" where
  "format_seconds d =
     pad_dec 4 (dt_year d) @ CHR ''-'' # pad_dec 2 (dt_month d) @ CHR ''-'' # pad_dec 2 (dt_day d)
     @ CHR ''T'' # pad_dec 2 (dt_hour d) @ CHR '':'' # pad_dec 2 (dt_minute d)
     @ CHR '':'' # pad_dec 2 (dt_second d) @ ''Z''"

text \<open>
  The pattern \<open>\d{4}-\d{2}-\d{2}T\d{2}:\d{2}:\d{2}Z\<close> fixes every position, so the
  fields are read at their places; \<open>strptime\<close> then refuses values out of range.
\<close>

definition seconds_pattern :: "string \<Rightarrow> bool" where
  "seconds_pattern s \<longleftrightarrow> length s = 20
     \<and> (\<forall>i \<in> set [0..<20].
          case map_of [(4, CHR ''-''), (7, CHR ''-''), (10, CHR ''T''), (13, CHR '':''), (16, CHR '':''), (19, CHR ''Z'')] i of
            Some c \<Rightarrow> s ! i = c
          | None \<Rightarrow> is_digit (s ! i))"

definition text_field :: "string \<Rightarrow> nat \<Rightarrow> nat \<Rightarrow> nat" where
  "text_field s i k = read_nat (take k (drop i s))"

definition parse_seconds :: "string \<Rightarrow> datetime option" where
  "parse_seconds s =
    (if seconds_pattern s then
       (let d = Datetime (text_field s 0 4) (text_field s 5 2) (text_field s 8 2)
                  (text_field s 11 2) (text_field s 14 2) (text_field s 17 2) 0 (Some 0)
        in if valid_datetime d then Some d else None)
     else None)"

definition whole_seconds :: "datetime \<Rightarrow> bool" where
  "whole_seconds d \<longleftrightarrow> is_utc d \<and> dt_microsecond d = 0"

lemma parse_seconds_utc: "parse_seconds s = Some d \<Longrightarrow> whole_seconds d"
  by (auto simp: parse_seconds_def whole_seconds_def is_utc_def Let_def split: if_splits)

lemma digit_text:
  assumes "length t = k" "list_all is_digit t" "i < k"
  shows "is_digit (t ! i)"
  using assms by (simp add: list_all_length)

lemma parse_format_seconds:
  assumes "whole_seconds d"
  shows "parse_seconds (format_seconds d) = Some d"
proof -
  have utc: "is_utc d" "dt_microsecond d = 0" using assms by (simp_all add: whole_seconds_def)
  note b = utc_field_bounds [OF utc(1)]
  let ?y = "pad_dec 4 (dt_year d)" and ?mo = "pad_dec 2 (dt_month d)" and ?d = "pad_dec 2 (dt_day d)"
    and ?h = "pad_dec 2 (dt_hour d)" and ?mi = "pad_dec 2 (dt_minute d)" and ?s = "pad_dec 2 (dt_second d)"
  have "dt_day d < 10 ^ 2" using b by simp
  then have len: "length ?y = 4" "length ?mo = 2" "length ?d = 2" "length ?h = 2" "length ?mi = 2" "length ?s = 2"
    using b by (simp_all only: length_pad_dec zero_less_numeral)
  have dig: "is_digit (?y ! 0)" "is_digit (?y ! 1)" "is_digit (?y ! 2)" "is_digit (?y ! 3)"
    "is_digit (?mo ! 0)" "is_digit (?mo ! 1)" "is_digit (?d ! 0)" "is_digit (?d ! 1)"
    "is_digit (?h ! 0)" "is_digit (?h ! 1)" "is_digit (?mi ! 0)" "is_digit (?mi ! 1)"
    "is_digit (?s ! 0)" "is_digit (?s ! 1)"
    using len pad_dec_digits by (simp_all add: digit_text)
  have "seconds_pattern (format_seconds d)"
    using len dig by (simp add: seconds_pattern_def format_seconds_def upt_rec nth_append
        numeral_2_eq_2 numeral_3_eq_3)
  moreover have "text_field (format_seconds d) 0 4 = dt_year d" "text_field (format_seconds d) 5 2 = dt_month d"
    "text_field (format_seconds d) 8 2 = dt_day d" "text_field (format_seconds d) 11 2 = dt_hour d"
    "text_field (format_seconds d) 14 2 = dt_minute d" "text_field (format_seconds d) 17 2 = dt_second d"
    using len by (simp_all add: text_field_def format_seconds_def read_pad_dec)
  ultimately show ?thesis
    using utc by (cases d) (simp add: parse_seconds_def is_utc_def)
qed

lemma format_seconds_inject:
  "whole_seconds a \<Longrightarrow> whole_seconds b \<Longrightarrow> format_seconds a = format_seconds b \<Longrightarrow> a = b"
  using parse_format_seconds by (metis option.inject)

end
