(* ===== verification/Attest_Policy.thy ===== *)
theory Attest_Policy
  imports Py_Instant Provider_Canonical
begin

text \<open>
  The measurement policy of \<open>common.py\<close>: the frozen \<open>Policy\<close> a verifier enforces, its
  validated construction, and when signed registry authority stands behind it.  The two
  private validity bounds are kept as instants in microseconds (\<open>dt_micros\<close>), because a
  maximum age adds a \<open>timedelta\<close> to one of them.
\<close>

definition TDX_TCB_STATUSES :: "string list" where
  "TDX_TCB_STATUSES =
    [''UpToDate'', ''OutOfDate'', ''ConfigurationNeeded'', ''OutOfDateConfigurationNeeded'',
     ''SWHardeningNeeded'', ''ConfigurationAndSWHardeningNeeded'', ''Revoked'']"

definition TDX_POLICY_TOKEN :: "string \<Rightarrow> bool" where
  "TDX_POLICY_TOKEN s \<longleftrightarrow>
     s \<noteq> [] \<and> is_alnum (hd s) \<and> length s \<le> 128
     \<and> list_all (\<lambda>c. is_alnum c \<or> c \<in> {CHR ''.'', CHR ''_'', CHR '':'', CHR ''-''}) (tl s)"

definition MAX_SQLITE_INTEGER :: int where "MAX_SQLITE_INTEGER = 2 ^ 63 - 1"

text \<open>The sets of the policy are kept as lists; only membership is ever asked.\<close>

record Policy =
  allowed_measurements :: "string list"
  min_tcb :: int
  allowed_firmware :: "string list"
  tdx_strict :: bool
  tdx_allowed_tcb_statuses :: "string list"
  tdx_allowed_advisories :: "string list"
  registry_release :: "int option"
  registry_digest :: "string option"
  registry_profile_ids :: "string list"
  registry_verified :: bool
  registry_valid_from :: "int option"
  registry_valid_until :: "int option"

text \<open>The \<open>ValueError\<close>s of \<open>__post_init__\<close>, in its order.\<close>

definition Policy_post_init :: "Policy \<Rightarrow> string + unit" where
  "Policy_post_init p = checks
    [require (list_all TDX_POLICY_TOKEN (tdx_allowed_tcb_statuses p))
       ''tdx_allowed_tcb_statuses must be a set of bounded policy tokens'',
     require (list_all TDX_POLICY_TOKEN (tdx_allowed_advisories p))
       ''tdx_allowed_advisories must be a set of bounded policy tokens'',
     require (set (tdx_allowed_tcb_statuses p) \<subseteq> set TDX_TCB_STATUSES)
       ''tdx_allowed_tcb_statuses contains an unknown TCB status'',
     require (''Revoked'' \<notin> set (tdx_allowed_tcb_statuses p))
       ''Revoked TDX platforms cannot be allowlisted'',
     require (\<not> (tdx_strict p \<and> tdx_allowed_tcb_statuses p = []))
       ''strict TDX policy requires at least one allowed TCB status'',
     require ((registry_release p = None) = (registry_digest p = None))
       ''registry release and digest must be supplied together'',
     require (case (registry_release p, registry_digest p) of
         (Some r, Some d) \<Rightarrow> 0 < r \<and> r \<le> MAX_SQLITE_INTEGER \<and> DIGEST_RE d
       | _ \<Rightarrow> True)
       ''registry policy metadata is invalid'',
     require (distinct (registry_profile_ids p) \<and> list_all (\<lambda>i. i \<noteq> []) (registry_profile_ids p))
       ''registry profile ids must be unique strings'']"

definition production_ready_at :: "Policy \<Rightarrow> datetime \<Rightarrow> bool" where
  "production_ready_at p w \<longleftrightarrow>
     is_utc w \<and> tdx_strict p \<and> allowed_measurements p \<noteq> [] \<and> registry_verified p
     \<and> registry_release p \<noteq> None \<and> registry_digest p \<noteq> None \<and> registry_profile_ids p \<noteq> []
     \<and> (case (registry_valid_from p, registry_valid_until p) of
          (Some a, Some b) \<Rightarrow> a \<le> dt_micros w \<and> dt_micros w < b
        | _ \<Rightarrow> False)"

text \<open>A constructed policy never allows a revoked platform, and names its registry fully or not at all.\<close>

lemma Policy_post_init_ok:
  assumes "Policy_post_init p = Inr ()"
  shows "''Revoked'' \<notin> set (tdx_allowed_tcb_statuses p)"
    and "set (tdx_allowed_tcb_statuses p) \<subseteq> set TDX_TCB_STATUSES"
    and "tdx_strict p \<Longrightarrow> tdx_allowed_tcb_statuses p \<noteq> []"
    and "distinct (registry_profile_ids p)"
  using assms by (auto simp: Policy_post_init_def ok_simps)

end
