(* ===== verification/Registry_Document.thy ===== *)
theory Registry_Document
  imports Attest_Policy Py_Text
begin

text \<open>
  \<open>policy_registry.py\<close>, first part: strict JSON, canonical bytes, the validation of
  profiles, receipt keys and metadata, and \<open>verify_registry\<close>, which turns a signed document
  into a snapshot.

  The Ed25519 primitive belongs to the \<open>cryptography\<close> package: \<open>verify_registry\<close> takes its
  verification function as an argument, key first, then signature and message.  The
  document is given as text; a size bound on its UTF-8 encoding comes first.
\<close>

section \<open>Errors and constants\<close>

text \<open>
  \<open>PolicyRegistryError\<close> with its message; the other values are a repeated key, whose name
  the message would quote, an unhashable value tested for membership in a frozen set, which
  raises \<open>TypeError\<close>, a \<open>ValueError\<close> of the \<open>Policy\<close> constructor, and text outside the
  modelled code points.
\<close>

datatype registry_error =
    PolicyRegistryError string
  | RegistryDuplicateKey
  | RegistryTypeError
  | RegistryValueError string
  | RegistryOutsideModel

definition REGISTRY_SCHEMA :: string where "REGISTRY_SCHEMA = ''cathedral_policy_registry_v1''"

definition MAX_REGISTRY_BYTES :: nat where "MAX_REGISTRY_BYTES = 1024 * 1024"

definition MAX_REGISTRY_PROFILES :: nat where "MAX_REGISTRY_PROFILES = 1024"

definition MAX_POLICY_LIST_ITEMS :: nat where "MAX_POLICY_LIST_ITEMS = 4096"

definition MAX_METADATA_DEPTH :: nat where "MAX_METADATA_DEPTH = 32"

definition MAX_METADATA_NODES :: nat where "MAX_METADATA_NODES = 10000"

definition MAX_METADATA_STRING_BYTES :: nat where "MAX_METADATA_STRING_BYTES = 16384"

definition MAX_METADATA_KEY_BYTES :: nat where "MAX_METADATA_KEY_BYTES = 256"

definition REGISTRY_ID_RE :: "string \<Rightarrow> bool" where
  "REGISTRY_ID_RE s \<longleftrightarrow>
     s \<noteq> [] \<and> (is_lower (hd s) \<or> is_digit (hd s)) \<and> length s \<le> 128
     \<and> list_all (\<lambda>c. is_lower c \<or> is_digit c \<or> c \<in> {CHR ''.'', CHR ''_'', CHR ''-''}) (tl s)"

definition TOP_LEVEL_KEYS :: "string list" where
  "TOP_LEVEL_KEYS =
    [''schema'', ''release'', ''generated_at'', ''valid_from'', ''valid_until'', ''signing_key_id'',
     ''receipt_signing_keys'', ''profiles'', ''metadata'', ''signature'']"

definition PROFILE_KEYS :: "string list" where
  "PROFILE_KEYS =
    [''id'', ''kind'', ''status'', ''status_changed_at'', ''valid_from'', ''valid_until'', ''retire_at'',
     ''measurements'', ''runtime_measurements'', ''allowed_firmware'', ''min_tcb'',
     ''tdx_allowed_tcb_statuses'', ''tdx_allowed_advisories'', ''metadata'']"

definition SIGNATURE_KEYS :: "string list" where
  "SIGNATURE_KEYS = [''algorithm'', ''value_base64'']"

definition RECEIPT_KEY_KEYS :: "string list" where
  "RECEIPT_KEY_KEYS =
    [''id'', ''algorithm'', ''public_key_base64'', ''purpose'', ''status'', ''status_changed_at'',
     ''valid_from'', ''valid_until'', ''revoked_at'', ''replacement_key_id'', ''metadata'']"

definition PROFILE_KINDS :: "string list" where
  "PROFILE_KINDS = [''cpu_tdx'', ''cpu_snp'', ''gpu_cc'']"

definition PROFILE_STATUSES :: "string list" where
  "PROFILE_STATUSES = [''active'', ''retiring'', ''retired'', ''revoked'']"

definition RECEIPT_KEY_STATUSES :: "string list" where
  "RECEIPT_KEY_STATUSES = [''active'', ''retired'', ''revoked'']"

section \<open>JSON\<close>

fun registry_json_error :: "json_error \<Rightarrow> registry_error" where
  "registry_json_error JsonFloat = PolicyRegistryError ''floating-point JSON is not canonical''"
| "registry_json_error JsonConstant = PolicyRegistryError ''non-finite JSON is not canonical''"
| "registry_json_error JsonDuplicateKey = RegistryDuplicateKey"
| "registry_json_error JsonOutsideModel = RegistryOutsideModel"
| "registry_json_error _ = PolicyRegistryError ''registry is not valid UTF-8 JSON''"

definition parse_registry_json :: "string \<Rightarrow> registry_error + (string \<times> pyval) list" where
  "parse_registry_json text =
    (if length (utf8 text) > MAX_REGISTRY_BYTES
     then Inl (PolicyRegistryError ''registry exceeds the maximum encoded size'')
     else case json_loads False text of
         Inl e \<Rightarrow> Inl (registry_json_error e)
       | Inr (PDict kvs) \<Rightarrow> Inr kvs
       | Inr _ \<Rightarrow> Inl (PolicyRegistryError ''registry must be a JSON object''))"

definition canonical_json :: "pyval \<Rightarrow> registry_error + bytes" where
  "canonical_json v =
    (if is_json v then Inr (encode_ascii (dumps v))
     else Inl (PolicyRegistryError ''registry contains a non-canonical value''))"

definition canonical_signed_bytes :: "(string \<times> pyval) list \<Rightarrow> registry_error + bytes" where
  "canonical_signed_bytes kvs = canonical_json (PDict (filter (\<lambda>(k, v). k \<noteq> ''signature'') kvs))"

text \<open>\<open>frozenset(document) == keys\<close>\<close>

definition same_keys :: "(string \<times> pyval) list \<Rightarrow> string list \<Rightarrow> bool" where
  "same_keys kvs ks \<longleftrightarrow> set (map fst kvs) = set ks"

section \<open>Field validators\<close>

fun timestamp :: "pyval \<Rightarrow> string \<Rightarrow> registry_error + datetime" where
  "timestamp (PStr s) name =
    (case parse_seconds s of
       Some d \<Rightarrow> Inr d
     | None \<Rightarrow> Inl (PolicyRegistryError (name @ '' must be canonical UTC time'')))"
| "timestamp _ name = Inl (PolicyRegistryError (name @ '' must be canonical UTC time''))"

fun bounded_item :: "pyval \<Rightarrow> string option" where
  "bounded_item (PStr s) = (if s = [] \<or> length s > 512 then None else Some s)"
| "bounded_item _ = None"

fun all_some :: "'a option list \<Rightarrow> 'a list option" where
  "all_some [] = Some []"
| "all_some (x # xs) =
    (case (x, all_some xs) of (Some y, Some ys) \<Rightarrow> Some (y # ys) | _ \<Rightarrow> None)"

definition string_list :: "pyval \<Rightarrow> string \<Rightarrow> bool \<Rightarrow> registry_error + string list" where
  "string_list v name allow_empty =
    (case v of
       PList vs \<Rightarrow>
         (case all_some (map bounded_item vs) of
            None \<Rightarrow> Inl (PolicyRegistryError (name @ '' must be a list of bounded strings''))
          | Some ss \<Rightarrow>
              if length ss > MAX_POLICY_LIST_ITEMS
                then Inl (PolicyRegistryError (name @ '' contains too many entries''))
              else if \<not> allow_empty \<and> ss = []
                then Inl (PolicyRegistryError (name @ '' cannot be empty''))
              else if \<not> distinct ss
                then Inl (PolicyRegistryError (name @ '' cannot contain duplicates''))
              else Inr ss)
     | _ \<Rightarrow> Inl (PolicyRegistryError (name @ '' must be a list of bounded strings'')))"

text \<open>
  \<open>_validate_metadata\<close>: the node counter is threaded through the traversal; lists become
  tuples and objects read-only mappings.
\<close>

fun freeze_item :: "string \<Rightarrow> nat \<Rightarrow> nat \<Rightarrow> pyval \<Rightarrow> registry_error + (nat \<times> pyval)"
  and freeze_list :: "string \<Rightarrow> nat \<Rightarrow> nat \<Rightarrow> pyval list \<Rightarrow> registry_error + (nat \<times> pyval list)"
  and freeze_dict ::
    "string \<Rightarrow> nat \<Rightarrow> nat \<Rightarrow> (string \<times> pyval) list \<Rightarrow> registry_error + (nat \<times> (string \<times> pyval) list)"
where
  "freeze_item name depth nodes v =
    (if nodes + 1 > MAX_METADATA_NODES \<or> depth > MAX_METADATA_DEPTH
     then Inl (PolicyRegistryError (name @ '' is too deeply nested or complex''))
     else case v of
         PNone \<Rightarrow> Inr (nodes + 1, v)
       | PBool b \<Rightarrow> Inr (nodes + 1, v)
       | PStr s \<Rightarrow>
           if length (utf8 s) > MAX_METADATA_STRING_BYTES
           then Inl (PolicyRegistryError (name @ '' contains an oversized string''))
           else Inr (nodes + 1, v)
       | PInt i \<Rightarrow> Inr (nodes + 1, v)
       | PList vs \<Rightarrow>
           rbind (freeze_list name (depth + 1) (nodes + 1) vs) (\<lambda>(n, ws). Inr (n, PTuple ws))
       | PDict kvs \<Rightarrow>
           if list_ex (\<lambda>(k, v). length (utf8 k) > MAX_METADATA_KEY_BYTES) kvs
           then Inl (PolicyRegistryError (name @ '' contains an oversized key''))
           else rbind (freeze_dict name (depth + 1) (nodes + 1) kvs) (\<lambda>(n, kws). Inr (n, PProxy kws))
       | _ \<Rightarrow> Inl (PolicyRegistryError (name @ '' contains a non-canonical value'')))"
| "freeze_list name depth nodes [] = Inr (nodes, [])"
| "freeze_list name depth nodes (v # vs) =
    rbind (freeze_item name depth nodes v) (\<lambda>(n, w).
    rbind (freeze_list name depth n vs) (\<lambda>(n', ws). Inr (n', w # ws)))"
| "freeze_dict name depth nodes [] = Inr (nodes, [])"
| "freeze_dict name depth nodes ((k, v) # kvs) =
    rbind (freeze_item name depth nodes v) (\<lambda>(n, w).
    rbind (freeze_dict name depth n kvs) (\<lambda>(n', kws). Inr (n', (k, w) # kws)))"

definition validate_metadata :: "pyval \<Rightarrow> string \<Rightarrow> registry_error + pyval" where
  "validate_metadata v name =
    (case v of
       PDict kvs \<Rightarrow> rbind (freeze_item name 0 0 v) (\<lambda>(n, w). Inr w)
     | _ \<Rightarrow> Inl (PolicyRegistryError (name @ '' must be an object'')))"

text \<open>\<open>value in frozenset(strings)\<close>: lists and objects cannot be hashed.\<close>

fun member_of :: "pyval \<Rightarrow> string list \<Rightarrow> string \<Rightarrow> registry_error + string" where
  "member_of (PStr s) ss message =
    (if s \<in> set ss then Inr s else Inl (PolicyRegistryError message))"
| "member_of (PList vs) ss message = Inl RegistryTypeError"
| "member_of (PDict kvs) ss message = Inl RegistryTypeError"
| "member_of _ ss message = Inl (PolicyRegistryError message)"

fun check_registry_id :: "pyval \<Rightarrow> string \<Rightarrow> registry_error + string" where
  "check_registry_id (PStr s) message =
    (if REGISTRY_ID_RE s then Inr s else Inl (PolicyRegistryError message))"
| "check_registry_id _ message = Inl (PolicyRegistryError message)"

text \<open>A base64 field of an exact length in its one canonical spelling.\<close>

definition exact_base64 :: "pyval \<Rightarrow> nat \<Rightarrow> string \<Rightarrow> string \<Rightarrow> registry_error + bytes" where
  "exact_base64 v n undecodable wrong =
    (case v of
       PStr s \<Rightarrow>
         (case b64decode s of
            None \<Rightarrow> Inl (PolicyRegistryError undecodable)
          | Some bs \<Rightarrow>
              if length bs \<noteq> n \<or> b64encode bs \<noteq> s then Inl (PolicyRegistryError wrong) else Inr bs)
     | _ \<Rightarrow> Inl (PolicyRegistryError undecodable))"

definition optional_timestamp :: "pyval \<Rightarrow> string \<Rightarrow> registry_error + datetime option" where
  "optional_timestamp v name =
    (if v = PNone then Inr None else rbind (timestamp v name) (\<lambda>d. Inr (Some d)))"

section \<open>Profiles\<close>

record PolicyProfile =
  profile_id :: string
  pp_kind :: string
  pp_status :: string
  pp_status_changed_at :: datetime
  pp_valid_from :: datetime
  pp_valid_until :: datetime
  pp_retire_at :: "datetime option"
  pp_measurements :: "string list"
  pp_runtime_measurements :: "string list"
  pp_allowed_firmware :: "string list"
  pp_min_tcb :: int
  pp_tdx_allowed_tcb_statuses :: "string list"
  pp_tdx_allowed_advisories :: "string list"
  pp_metadata :: pyval

definition profile_eligible_at :: "PolicyProfile \<Rightarrow> datetime \<Rightarrow> bool" where
  "profile_eligible_at p w \<longleftrightarrow>
     pp_status p \<in> {''active'', ''retiring''}
     \<and> dt_le (pp_valid_from p) (pp_status_changed_at p) \<and> dt_le (pp_status_changed_at p) w
     \<and> dt_less w (pp_valid_until p)
     \<and> \<not> (pp_status p = ''retiring''
          \<and> (case pp_retire_at p of Some r \<Rightarrow> dt_le r w | None \<Rightarrow> False))"

text \<open>The rule that ties \<open>retire_at\<close> to the status.\<close>

definition check_retire ::
  "string \<Rightarrow> datetime option \<Rightarrow> datetime \<Rightarrow> datetime \<Rightarrow> registry_error + unit" where
  "check_retire status retire changed valid_until =
    (if status = ''retiring'' then
       require (case retire of Some r \<Rightarrow> dt_le changed r \<and> dt_le r valid_until | None \<Rightarrow> False)
         (PolicyRegistryError ''retiring profile requires a bounded retire_at'')
     else if status = ''active'' \<and> retire \<noteq> None then
       Inl (PolicyRegistryError ''active profile cannot set retire_at'')
     else if status \<in> {''retired'', ''revoked''} \<and> retire \<noteq> Some changed then
       Inl (PolicyRegistryError ''terminal profile retire_at must equal its status transition time'')
     else Inr ())"

fun check_min_tcb :: "pyval \<Rightarrow> registry_error + int" where
  "check_min_tcb (PInt n) =
    (if 0 \<le> n \<and> n \<le> MAX_SQLITE_INTEGER then Inr n
     else Inl (PolicyRegistryError ''profile min_tcb must be a bounded nonnegative integer''))"
| "check_min_tcb _ =
    Inl (PolicyRegistryError ''profile min_tcb must be a bounded nonnegative integer'')"

definition parse_profile :: "datetime \<Rightarrow> datetime \<Rightarrow> pyval \<Rightarrow> registry_error + PolicyProfile" where
  "parse_profile registry_from registry_until raw =
    (case raw of
       PDict kvs \<Rightarrow>
         if \<not> same_keys kvs PROFILE_KEYS
         then Inl (PolicyRegistryError ''profile contains missing or unknown critical fields'')
         else
           rbind (check_registry_id (dget kvs ''id'') ''profile id is invalid'') (\<lambda>pid.
           rbind (member_of (dget kvs ''kind'') PROFILE_KINDS ''profile kind is unsupported'') (\<lambda>kind.
           rbind (member_of (dget kvs ''status'') PROFILE_STATUSES ''profile status is unsupported'') (\<lambda>status.
           rbind (timestamp (dget kvs ''status_changed_at'') ''profile status_changed_at'') (\<lambda>changed.
           rbind (timestamp (dget kvs ''valid_from'') ''profile valid_from'') (\<lambda>valid_from.
           rbind (timestamp (dget kvs ''valid_until'') ''profile valid_until'') (\<lambda>valid_until.
           rbind (checks
             [require (dt_le registry_from valid_from \<and> dt_less valid_from valid_until
                       \<and> dt_le valid_until registry_until)
                (PolicyRegistryError ''profile validity must fit inside registry validity''),
              require (dt_le valid_from changed \<and> dt_less changed valid_until)
                (PolicyRegistryError ''profile status change must fall inside its validity'')]) (\<lambda>_.
           rbind (optional_timestamp (dget kvs ''retire_at'') ''profile retire_at'') (\<lambda>retire.
           rbind (check_retire status retire changed valid_until) (\<lambda>_.
           rbind (check_min_tcb (dget kvs ''min_tcb'')) (\<lambda>min_tcb.
           rbind (string_list (dget kvs ''measurements'') ''profile measurements'' (kind = ''gpu_cc'')) (\<lambda>ms.
           rbind (string_list (dget kvs ''runtime_measurements'') ''profile runtime_measurements'' True) (\<lambda>rms.
           rbind (string_list (dget kvs ''allowed_firmware'') ''profile allowed_firmware'' True) (\<lambda>fw.
           rbind (string_list (dget kvs ''tdx_allowed_tcb_statuses'') ''profile tdx_allowed_tcb_statuses''
                    (kind \<noteq> ''cpu_tdx'')) (\<lambda>sts.
           rbind (string_list (dget kvs ''tdx_allowed_advisories'') ''profile tdx_allowed_advisories'' True) (\<lambda>advs.
           rbind (require (kind = ''cpu_tdx'' \<or> (sts = [] \<and> advs = []))
                    (PolicyRegistryError ''non-TDX profile cannot set TDX controls'')) (\<lambda>_.
           rbind (validate_metadata (dget kvs ''metadata'') ''profile metadata'') (\<lambda>meta.
             Inr \<lparr>profile_id = pid, pp_kind = kind, pp_status = status, pp_status_changed_at = changed,
                  pp_valid_from = valid_from, pp_valid_until = valid_until, pp_retire_at = retire,
                  pp_measurements = ms, pp_runtime_measurements = rms, pp_allowed_firmware = fw,
                  pp_min_tcb = min_tcb, pp_tdx_allowed_tcb_statuses = sts,
                  pp_tdx_allowed_advisories = advs, pp_metadata = meta\<rparr>)))))))))))))))))
     | _ \<Rightarrow> Inl (PolicyRegistryError ''profile contains missing or unknown critical fields''))"

section \<open>Receipt keys\<close>

record ReceiptVerificationKey =
  key_id :: string
  public_key :: bytes
  rk_status :: string
  rk_status_changed_at :: datetime
  rk_valid_from :: datetime
  rk_valid_until :: datetime
  rk_revoked_at :: "datetime option"
  replacement_key_id :: "string option"
  rk_metadata :: pyval

definition can_sign_at :: "ReceiptVerificationKey \<Rightarrow> datetime \<Rightarrow> bool" where
  "can_sign_at k w \<longleftrightarrow>
     rk_status k = ''active'' \<and> dt_le (rk_valid_from k) (rk_status_changed_at k)
     \<and> dt_le (rk_status_changed_at k) w \<and> dt_less w (rk_valid_until k)"

definition dt_min :: "datetime \<Rightarrow> datetime \<Rightarrow> datetime" where
  "dt_min a b = (if dt_less b a then b else a)"

definition can_verify_at :: "ReceiptVerificationKey \<Rightarrow> datetime \<Rightarrow> bool" where
  "can_verify_at k w \<longleftrightarrow>
     rk_status k \<noteq> ''revoked''
     \<and> (let cutoff = (if rk_status k = ''retired'' then rk_status_changed_at k else rk_valid_until k)
        in dt_le (rk_valid_from k) w \<and> dt_less w (dt_min cutoff (rk_valid_until k)))"

definition check_replacement :: "pyval \<Rightarrow> string \<Rightarrow> registry_error + string option" where
  "check_replacement v kid =
    (case v of
       PNone \<Rightarrow> Inr None
     | PStr s \<Rightarrow>
         if REGISTRY_ID_RE s \<and> s \<noteq> kid then Inr (Some s)
         else Inl (PolicyRegistryError ''receipt key replacement id is invalid'')
     | _ \<Rightarrow> Inl (PolicyRegistryError ''receipt key replacement id is invalid''))"

definition parse_receipt_key ::
  "datetime \<Rightarrow> datetime \<Rightarrow> pyval \<Rightarrow> registry_error + ReceiptVerificationKey" where
  "parse_receipt_key registry_from registry_until raw =
    (case raw of
       PDict kvs \<Rightarrow>
         if \<not> same_keys kvs RECEIPT_KEY_KEYS
         then Inl (PolicyRegistryError ''receipt signing key contains missing or unknown critical fields'')
         else
           rbind (check_registry_id (dget kvs ''id'') ''receipt signing key id is invalid'') (\<lambda>kid.
           rbind (require (dget kvs ''algorithm'' = PStr ''ed25519'' \<and> dget kvs ''purpose'' = PStr ''assurance_receipt'')
                    (PolicyRegistryError ''receipt signing key algorithm or purpose is unsupported'')) (\<lambda>_.
           rbind (exact_base64 (dget kvs ''public_key_base64'') 32
                    ''receipt signing key is not canonical base64'' ''receipt signing key must be 32 bytes'') (\<lambda>pub.
           rbind (member_of (dget kvs ''status'') RECEIPT_KEY_STATUSES ''receipt signing key status is unsupported'') (\<lambda>status.
           rbind (timestamp (dget kvs ''status_changed_at'') ''receipt key status_changed_at'') (\<lambda>changed.
           rbind (timestamp (dget kvs ''valid_from'') ''receipt key valid_from'') (\<lambda>valid_from.
           rbind (timestamp (dget kvs ''valid_until'') ''receipt key valid_until'') (\<lambda>valid_until.
           rbind (checks
             [require (dt_le registry_from valid_from \<and> dt_less valid_from valid_until
                       \<and> dt_le valid_until registry_until)
                (PolicyRegistryError ''receipt key validity must fit inside registry validity''),
              require (dt_le valid_from changed \<and> dt_less changed valid_until)
                (PolicyRegistryError ''receipt key status change must fall inside its validity'')]) (\<lambda>_.
           rbind (optional_timestamp (dget kvs ''revoked_at'') ''receipt key revoked_at'') (\<lambda>revoked.
           rbind (if status = ''revoked''
                  then require (revoked = Some changed)
                    (PolicyRegistryError ''revoked receipt key time must equal its status transition time'')
                  else require (revoked = None)
                    (PolicyRegistryError ''non-revoked receipt key cannot set revoked_at'')) (\<lambda>_.
           rbind (check_replacement (dget kvs ''replacement_key_id'') kid) (\<lambda>replacement.
           rbind (validate_metadata (dget kvs ''metadata'') ''receipt key metadata'') (\<lambda>meta.
             Inr \<lparr>key_id = kid, public_key = pub, rk_status = status, rk_status_changed_at = changed,
                  rk_valid_from = valid_from, rk_valid_until = valid_until, rk_revoked_at = revoked,
                  replacement_key_id = replacement, rk_metadata = meta\<rparr>))))))))))))
     | _ \<Rightarrow> Inl (PolicyRegistryError ''receipt signing key contains missing or unknown critical fields''))"

section \<open>The registry\<close>

record PolicyRegistrySnapshot =
  ps_release :: int
  ps_generated_at :: datetime
  ps_valid_from :: datetime
  ps_valid_until :: datetime
  ps_signing_key_id :: string
  ps_digest :: string
  ps_profiles :: "PolicyProfile list"
  ps_receipt_signing_keys :: "ReceiptVerificationKey list"
  ps_metadata :: pyval
  canonical_document :: bytes
  signature_verified :: bool

definition receipt_key :: "PolicyRegistrySnapshot \<Rightarrow> string \<Rightarrow> ReceiptVerificationKey option" where
  "receipt_key s kid = find (\<lambda>k. key_id k = kid) (ps_receipt_signing_keys s)"

fun check_release :: "pyval \<Rightarrow> registry_error + int" where
  "check_release (PInt n) =
    (if 0 < n \<and> n \<le> MAX_SQLITE_INTEGER then Inr n
     else Inl (PolicyRegistryError ''registry release must be a bounded positive integer''))"
| "check_release _ = Inl (PolicyRegistryError ''registry release must be a bounded positive integer'')"

text \<open>The signature object and the signed bytes, up to the cryptographic check.\<close>

definition check_signature ::
  "(bytes \<Rightarrow> bytes \<Rightarrow> bytes \<Rightarrow> bool) \<Rightarrow> bytes \<Rightarrow> (string \<times> pyval) list \<Rightarrow> registry_error + unit" where
  "check_signature ed25519 key document =
    (case dget document ''signature'' of
       PDict sig \<Rightarrow>
         if \<not> same_keys sig SIGNATURE_KEYS
         then Inl (PolicyRegistryError ''registry signature object is invalid'')
         else
           rbind (require (dget sig ''algorithm'' = PStr ''ed25519'')
                    (PolicyRegistryError ''registry signature algorithm is unsupported'')) (\<lambda>_.
           rbind (exact_base64 (dget sig ''value_base64'') 64
                    ''registry signature is not canonical base64'' ''registry signature must be 64 bytes'') (\<lambda>sb.
           rbind (canonical_signed_bytes document) (\<lambda>signed.
             require (ed25519 key sb signed)
               (PolicyRegistryError ''registry signature verification failed''))))
     | _ \<Rightarrow> Inl (PolicyRegistryError ''registry signature object is invalid''))"

text \<open>
  The validity and freshness rules: \<open>check_time\<close> is the historical instant, the given time or
  the clock; the wall clock bounds the publication time in every mode.
\<close>

definition check_window ::
  "datetime \<Rightarrow> datetime \<Rightarrow> datetime \<Rightarrow> datetime \<Rightarrow> datetime \<Rightarrow> bool \<Rightarrow> int \<Rightarrow> registry_error + unit" where
  "check_window generated valid_from valid_until check_time wall_clock historical max_age = checks
    [require (dt_less valid_from valid_until)
       (PolicyRegistryError ''registry validity window is invalid''),
     require (dt_less generated valid_until)
       (PolicyRegistryError ''registry publication time must precede expiry''),
     require (is_utc check_time)
       (PolicyRegistryError ''registry verification time must be UTC''),
     require (dt_le valid_from check_time \<and> dt_less check_time valid_until)
       (PolicyRegistryError ''registry is outside its validity window''),
     require (dt_micros generated \<le> dt_micros wall_clock + 300 * 1000000)
       (PolicyRegistryError ''registry generation time is in the future''),
     require (historical \<or> 0 < max_age)
       (PolicyRegistryError ''registry maximum age must be positive''),
     require (historical \<or> dt_micros check_time - dt_micros generated \<le> max_age * 1000000)
       (PolicyRegistryError ''registry is too stale for admission'')]"

definition profile_not_effective :: "datetime \<Rightarrow> PolicyProfile \<Rightarrow> bool" where
  "profile_not_effective check_time p \<longleftrightarrow>
     dt_less check_time (pp_status_changed_at p)
     \<and> \<not> (pp_status p = ''active'' \<and> pp_status_changed_at p = pp_valid_from p)"

definition key_not_effective :: "datetime \<Rightarrow> ReceiptVerificationKey \<Rightarrow> bool" where
  "key_not_effective check_time k \<longleftrightarrow>
     dt_less check_time (rk_status_changed_at k)
     \<and> \<not> (rk_status k = ''active'' \<and> rk_status_changed_at k = rk_valid_from k)"

definition parse_profiles ::
  "datetime \<Rightarrow> datetime \<Rightarrow> datetime \<Rightarrow> pyval \<Rightarrow> registry_error + PolicyProfile list" where
  "parse_profiles valid_from valid_until check_time v =
    (case v of
       PList raws \<Rightarrow>
         if raws = [] \<or> length raws > MAX_REGISTRY_PROFILES
         then Inl (PolicyRegistryError ''registry profiles must be a nonempty list'')
         else
           rbind (rmap (parse_profile valid_from valid_until) raws) (\<lambda>ps.
           rbind (checks
             [require (\<not> list_ex (profile_not_effective check_time) ps)
                (PolicyRegistryError ''profile status transition is not yet effective''),
              require (distinct (map profile_id ps))
                (PolicyRegistryError ''registry profile ids must be unique'')]) (\<lambda>_. Inr ps))
     | _ \<Rightarrow> Inl (PolicyRegistryError ''registry profiles must be a nonempty list''))"

definition parse_receipt_keys ::
  "datetime \<Rightarrow> datetime \<Rightarrow> datetime \<Rightarrow> pyval \<Rightarrow> registry_error + ReceiptVerificationKey list" where
  "parse_receipt_keys valid_from valid_until check_time v =
    (case v of
       PList raws \<Rightarrow>
         if length raws > 128
         then Inl (PolicyRegistryError ''receipt signing keys must be a bounded list'')
         else
           rbind (rmap (parse_receipt_key valid_from valid_until) raws) (\<lambda>ks.
           rbind (checks
             [require (\<not> list_ex (key_not_effective check_time) ks)
                (PolicyRegistryError ''receipt signing key status transition is not yet effective''),
              require (distinct (map key_id ks))
                (PolicyRegistryError ''receipt signing key ids must be unique''),
              require (list_all (\<lambda>k. case replacement_key_id k of
                     None \<Rightarrow> True | Some r \<Rightarrow> r \<in> set (map key_id ks)) ks)
                (PolicyRegistryError ''receipt replacement key must exist in the registry'')]) (\<lambda>_. Inr ks))
     | _ \<Rightarrow> Inl (PolicyRegistryError ''receipt signing keys must be a bounded list''))"

definition verify_registry ::
  "(bytes \<Rightarrow> bytes \<Rightarrow> bytes \<Rightarrow> bool) \<Rightarrow> datetime \<Rightarrow> (string \<rightharpoonup> bytes) \<Rightarrow> datetime option \<Rightarrow> int
    \<Rightarrow> datetime option \<Rightarrow> string \<Rightarrow> registry_error + PolicyRegistrySnapshot" where
  "verify_registry ed25519 clock trusted_keys now max_age historical_at text =
    rbind (parse_registry_json text) (\<lambda>document.
    rbind (require (same_keys document TOP_LEVEL_KEYS)
             (PolicyRegistryError ''registry contains missing or unknown critical fields'')) (\<lambda>_.
    rbind (require (dget document ''schema'' = PStr REGISTRY_SCHEMA)
             (PolicyRegistryError ''registry schema is unsupported'')) (\<lambda>_.
    rbind (check_release (dget document ''release'')) (\<lambda>release.
    rbind (check_registry_id (dget document ''signing_key_id'') ''registry signing key id is invalid'') (\<lambda>kid.
    rbind (case trusted_keys kid of
             Some key \<Rightarrow> if length key = 32 then Inr key
                         else Inl (PolicyRegistryError ''registry signing key is not trusted'')
           | None \<Rightarrow> Inl (PolicyRegistryError ''registry signing key is not trusted'')) (\<lambda>key.
    rbind (check_signature ed25519 key document) (\<lambda>_.
    rbind (timestamp (dget document ''generated_at'') ''registry generated_at'') (\<lambda>generated.
    rbind (timestamp (dget document ''valid_from'') ''registry valid_from'') (\<lambda>valid_from.
    rbind (timestamp (dget document ''valid_until'') ''registry valid_until'') (\<lambda>valid_until.
    let check_time = (case historical_at of Some h \<Rightarrow> h
                      | None \<Rightarrow> (case now of Some n \<Rightarrow> n | None \<Rightarrow> clock));
        wall_clock = (case now of Some n \<Rightarrow> n | None \<Rightarrow> clock) in
    rbind (check_window generated valid_from valid_until check_time wall_clock (historical_at \<noteq> None) max_age) (\<lambda>_.
    rbind (parse_profiles valid_from valid_until check_time (dget document ''profiles'')) (\<lambda>profiles.
    rbind (parse_receipt_keys valid_from valid_until check_time (dget document ''receipt_signing_keys'')) (\<lambda>keys.
    rbind (canonical_json (PDict document)) (\<lambda>canonical.
    rbind (validate_metadata (dget document ''metadata'') ''registry metadata'') (\<lambda>meta.
      Inr \<lparr>ps_release = release, ps_generated_at = generated, ps_valid_from = valid_from,
           ps_valid_until = valid_until, ps_signing_key_id = kid, ps_digest = sha256_label canonical,
           ps_profiles = profiles, ps_receipt_signing_keys = keys, ps_metadata = meta,
           canonical_document = canonical, signature_verified = True\<rparr>)))))))))))))))"

text \<open>\<open>sign_registry\<close>, with the signing function of the package as an argument.\<close>

definition sign_registry ::
  "(bytes \<Rightarrow> bytes \<Rightarrow> bytes) \<Rightarrow> (string \<times> pyval) list \<Rightarrow> bytes \<Rightarrow> registry_error + (string \<times> pyval) list" where
  "sign_registry ed25519_sign document private_key =
    (if ''signature'' \<in> set (map fst document)
     then Inl (PolicyRegistryError ''unsigned registry must not contain signature'')
     else if length private_key \<noteq> 32
       then Inl (PolicyRegistryError ''Ed25519 private key seed must be 32 bytes'')
     else rbind (canonical_json (PDict document)) (\<lambda>message.
       Inr (document @ [(''signature'', PDict
         [(''algorithm'', PStr ''ed25519''),
          (''value_base64'', PStr (b64encode (ed25519_sign private_key message)))])])))"

end
