(* ===== verification/Registry_Policy.thy ===== *)
theory Registry_Policy
  imports Registry_Document
begin

text \<open>
  \<open>PolicyRegistrySnapshot.to_policy\<close>: the policy that the eligible CPU TDX profiles of a
  verified snapshot grant, and the window in which the snapshot's authority stands.
\<close>

definition profile_states :: "PolicyRegistrySnapshot \<Rightarrow> (string \<times> string) list" where
  "profile_states s = map (\<lambda>p. (profile_id p, pp_status p)) (ps_profiles s)"

definition eligible_profiles :: "PolicyRegistrySnapshot \<Rightarrow> datetime \<Rightarrow> PolicyProfile list" where
  "eligible_profiles s w =
    filter (\<lambda>p. pp_kind p = ''cpu_tdx'' \<and> profile_eligible_at p w) (ps_profiles s)"

definition profile_controls ::
  "PolicyProfile \<Rightarrow> int \<times> string set \<times> string set \<times> string set" where
  "profile_controls p =
    (pp_min_tcb p, set (pp_tdx_allowed_tcb_statuses p), set (pp_tdx_allowed_advisories p),
     set (pp_allowed_firmware p))"

definition authority_from :: "PolicyRegistrySnapshot \<Rightarrow> PolicyProfile list \<Rightarrow> int" where
  "authority_from s eligible =
    foldl max (dt_micros (ps_valid_from s))
      (map (\<lambda>p. max (dt_micros (pp_valid_from p)) (dt_micros (pp_status_changed_at p))) eligible)"

definition authority_until :: "PolicyRegistrySnapshot \<Rightarrow> PolicyProfile list \<Rightarrow> int option \<Rightarrow> int" where
  "authority_until s eligible max_age =
    (let u = foldl min (dt_micros (ps_valid_until s))
       (map (\<lambda>p. min (dt_micros (pp_valid_until p))
          (dt_micros (case pp_retire_at p of Some r \<Rightarrow> r | None \<Rightarrow> pp_valid_until p))) eligible)
     in case max_age of
          None \<Rightarrow> u
        | Some age \<Rightarrow> min u (dt_micros (ps_generated_at s) + age * 1000000))"

text \<open>The \<open>Policy\<close> that the eligible profiles grant, with its private fields set.\<close>

definition granted_policy ::
  "PolicyRegistrySnapshot \<Rightarrow> PolicyProfile list \<Rightarrow> int option \<Rightarrow> Policy" where
  "granted_policy s eligible max_age =
    \<lparr>allowed_measurements = remdups (concat (map pp_measurements eligible)),
     min_tcb = pp_min_tcb (hd eligible), allowed_firmware = pp_allowed_firmware (hd eligible),
     tdx_strict = True,
     tdx_allowed_tcb_statuses = pp_tdx_allowed_tcb_statuses (hd eligible),
     tdx_allowed_advisories = pp_tdx_allowed_advisories (hd eligible),
     registry_release = Some (ps_release s), registry_digest = Some (ps_digest s),
     registry_profile_ids = sort (map profile_id eligible),
     registry_verified = True,
     registry_valid_from = Some (authority_from s eligible),
     registry_valid_until = Some (authority_until s eligible max_age)\<rparr>"

text \<open>\<open>clock\<close> is \<open>datetime.now(UTC)\<close>, used when no evaluation time is given.\<close>

definition evaluation_time :: "datetime \<Rightarrow> datetime option \<Rightarrow> datetime" where
  "evaluation_time clock at = (case at of Some t \<Rightarrow> t | None \<Rightarrow> clock)"

definition to_policy ::
  "datetime \<Rightarrow> PolicyRegistrySnapshot \<Rightarrow> datetime option \<Rightarrow> int option \<Rightarrow> registry_error + Policy" where
  "to_policy clock s at max_age =
    (let w = evaluation_time clock at; eligible = eligible_profiles s w in
     rbind (checks
       [require (signature_verified s)
          (PolicyRegistryError ''policy cannot be derived without verified registry signature provenance''),
        require (is_utc w) (PolicyRegistryError ''policy evaluation time must be UTC''),
        require (case max_age of Some age \<Rightarrow> 0 < age | None \<Rightarrow> True)
          (PolicyRegistryError ''policy maximum age must be positive''),
        require (eligible \<noteq> []) (PolicyRegistryError ''registry has no eligible CPU TDX profile''),
        require (list_all (\<lambda>p. profile_controls p = profile_controls (hd eligible)) eligible)
          (PolicyRegistryError ''overlapping CPU TDX profiles must share security controls'')]) (\<lambda>_.
     let p = granted_policy s eligible max_age in
     case Policy_post_init p of
       Inl m \<Rightarrow> Inl (RegistryValueError m)
     | Inr _ \<Rightarrow> Inr p))"

section \<open>The authority window\<close>

lemma foldl_max_ge: "foldl max (a :: int) xs \<le> b \<longleftrightarrow> a \<le> b \<and> (\<forall>x \<in> set xs. x \<le> b)"
  by (induction xs arbitrary: a) auto

lemma less_foldl_min: "b < foldl min (a :: int) xs \<longleftrightarrow> b < a \<and> (\<forall>x \<in> set xs. b < x)"
  by (induction xs arbitrary: a) auto

text \<open>Every time of a profile is UTC.\<close>

definition profile_times_ok :: "PolicyProfile \<Rightarrow> bool" where
  "profile_times_ok p \<longleftrightarrow>
     is_utc (pp_status_changed_at p) \<and> is_utc (pp_valid_from p) \<and> is_utc (pp_valid_until p)
     \<and> pred_option is_utc (pp_retire_at p)
     \<and> dt_le (pp_valid_from p) (pp_status_changed_at p)"

lemma eligible_throughout:
  assumes p: "profile_times_ok p" "profile_eligible_at p t" and w: "is_utc w"
    and from_w: "dt_micros (pp_status_changed_at p) \<le> dt_micros w"
    and until_w: "dt_micros w < dt_micros (pp_valid_until p)"
      "dt_micros w < dt_micros (case pp_retire_at p of Some r \<Rightarrow> r | None \<Rightarrow> pp_valid_until p)"
  shows "profile_eligible_at p w"
proof -
  have "dt_le (pp_status_changed_at p) w" "dt_less w (pp_valid_until p)"
    using from_w until_w(1) p(1) w by (simp_all add: profile_times_ok_def dt_micros_le_iff dt_micros_less_iff)
  moreover have "\<not> dt_le r w" if "pp_retire_at p = Some r" for r
    using until_w(2) that p(1) w by (simp add: profile_times_ok_def dt_micros_less_iff)
  ultimately show ?thesis
    using p(2) by (auto simp: profile_eligible_at_def split: option.splits)
qed

lemma policy_window_eligible:
  assumes ok: "list_all profile_times_ok eligible" "is_utc w" "p \<in> set eligible"
    and el: "profile_eligible_at p t"
    and window: "authority_from s eligible \<le> dt_micros w" "dt_micros w < authority_until s eligible age"
  shows "profile_eligible_at p w"
proof (rule eligible_throughout [OF _ el ok(2)])
  show "profile_times_ok p" using ok(1,3) by (simp add: list_all_iff)
  show "dt_micros (pp_status_changed_at p) \<le> dt_micros w"
    using window(1) ok(3) by (fastforce simp: authority_from_def foldl_max_ge)
  have "\<forall>x \<in> set (map (\<lambda>p. min (dt_micros (pp_valid_until p))
      (dt_micros (case pp_retire_at p of Some r \<Rightarrow> r | None \<Rightarrow> pp_valid_until p))) eligible). dt_micros w < x"
    using window(2) by (auto simp: authority_until_def Let_def less_foldl_min split: option.splits)
  then show "dt_micros w < dt_micros (pp_valid_until p)"
    "dt_micros w < dt_micros (case pp_retire_at p of Some r \<Rightarrow> r | None \<Rightarrow> pp_valid_until p)"
    using ok(3) by auto
qed

lemma authority_registry_window:
  assumes "is_utc w" "is_utc (ps_valid_from s)" "is_utc (ps_valid_until s)"
    and "authority_from s eligible \<le> dt_micros w" "dt_micros w < authority_until s eligible age"
  shows "dt_le (ps_valid_from s) w" "dt_less w (ps_valid_until s)"
  using assms
  by (auto simp: authority_from_def authority_until_def Let_def foldl_max_ge less_foldl_min
      dt_micros_le_iff dt_micros_less_iff split: option.splits)

lemma to_policy_ok:
  assumes "to_policy clock s at age = Inr p"
  shows "p = granted_policy s (eligible_profiles s (evaluation_time clock at)) age"
    and "Policy_post_init p = Inr ()" and "signature_verified s"
    and "list_all (\<lambda>q. profile_controls q = profile_controls (hd (eligible_profiles s (evaluation_time clock at))))
          (eligible_profiles s (evaluation_time clock at))"
    and "eligible_profiles s (evaluation_time clock at) \<noteq> []"
proof -
  let ?e = "eligible_profiles s (evaluation_time clock at)"
  have "signature_verified s \<and> ?e \<noteq> [] \<and> list_all (\<lambda>q. profile_controls q = profile_controls (hd ?e)) ?e
      \<and> (case Policy_post_init (granted_policy s ?e age) of
           Inl m \<Rightarrow> Inl (RegistryValueError m) | Inr _ \<Rightarrow> Inr (granted_policy s ?e age)) = Inr p"
    using assms by (simp add: to_policy_def Let_def ok_simps)
  then show "p = granted_policy s ?e age" "Policy_post_init p = Inr ()" "signature_verified s"
    "list_all (\<lambda>q. profile_controls q = profile_controls (hd ?e)) ?e" "?e \<noteq> []"
    by (auto split: sum.splits)
qed

end
