(* ===== verification/Registry_Store.thy ===== *)
theory Registry_Store
  imports Registry_Document
begin

text \<open>
  \<open>PolicyRegistryState\<close>: the one-row table that holds the highest accepted release and the
  last status of every profile and receipt key, and \<open>accept\<close>, the transaction that advances
  it.  A raised error rolls the transaction back, so an error leaves the row as it was.

  The row keeps the status maps as JSON text, exactly as the table does.  \<open>registry_view\<close>
  abstracts a row to maps, and \<open>registry_advances\<close> is the contract every transaction
  refines: releases only grow, nothing is forgotten, statuses only move along their tables.
\<close>

section \<open>Configuration and row\<close>

record registry_config =
  minimum_release :: "int option"
  pinned_release :: "int option"
  pinned_digest :: "string option"

record registry_row =
  row_release :: int
  row_digest :: string
  profile_states_json :: string
  receipt_key_states_json :: string
  accepted_at :: string
  row_generated_at :: string

definition PolicyRegistryState_init ::
  "bool \<Rightarrow> int option \<Rightarrow> int option \<Rightarrow> string option \<Rightarrow> registry_error + registry_config" where
  "PolicyRegistryState_init production_mode minimum pinned digest =
    rbind (checks
      [require (\<not> (production_mode \<and> minimum = None \<and> pinned = None))
         (PolicyRegistryError ''production registry bootstrap requires a minimum or pinned release''),
       require (case minimum of Some m \<Rightarrow> 0 < m \<and> m \<le> MAX_SQLITE_INTEGER | None \<Rightarrow> True)
         (PolicyRegistryError ''minimum release must be positive''),
       require ((pinned = None) = (digest = None))
         (PolicyRegistryError ''pinned release and digest must be supplied together''),
       require (case (pinned, digest) of
           (Some r, Some d) \<Rightarrow> 0 < r \<and> r \<le> MAX_SQLITE_INTEGER \<and> DIGEST_RE d
         | _ \<Rightarrow> True)
         (PolicyRegistryError ''pinned checkpoint is invalid'')]) (\<lambda>_.
      Inr \<lparr>minimum_release = minimum, pinned_release = pinned, pinned_digest = digest\<rparr>)"

section \<open>Stored states\<close>

text \<open>A dict comprehension: a repeated key keeps its place and takes the last value.\<close>

fun dict_set :: "(string \<times> 'a) list \<Rightarrow> string \<Rightarrow> 'a \<Rightarrow> (string \<times> 'a) list" where
  "dict_set [] k v = [(k, v)]"
| "dict_set ((k', v') # kvs) k v = (if k' = k then (k, v) # kvs else (k', v') # dict_set kvs k v)"

definition py_dict :: "(string \<times> 'a) list \<Rightarrow> (string \<times> 'a) list" where
  "py_dict kvs = foldl (\<lambda>d (k, v). dict_set d k v) [] kvs"

definition snapshot_profile_states :: "PolicyRegistrySnapshot \<Rightarrow> (string \<times> pyval) list" where
  "snapshot_profile_states s = py_dict
    (map (\<lambda>p. (profile_id p, PDict
       [(''status'', PStr (pp_status p)),
        (''status_changed_at'', PStr (format_seconds (pp_status_changed_at p)))])) (ps_profiles s))"

definition snapshot_key_states :: "PolicyRegistrySnapshot \<Rightarrow> (string \<times> pyval) list" where
  "snapshot_key_states s = py_dict
    (map (\<lambda>k. (key_id k, PDict
       [(''status'', PStr (rk_status k)),
        (''status_changed_at'', PStr (format_seconds (rk_status_changed_at k))),
        (''public_key_base64'', PStr (b64encode (public_key k))),
        (''valid_from'', PStr (format_seconds (rk_valid_from k))),
        (''valid_until'', PStr (format_seconds (rk_valid_until k)))])) (ps_receipt_signing_keys s))"

definition PERSISTED_PROFILE_ERROR :: registry_error where
  "PERSISTED_PROFILE_ERROR = PolicyRegistryError ''persisted registry profile state is invalid''"

definition PERSISTED_KEY_ERROR :: registry_error where
  "PERSISTED_KEY_ERROR = PolicyRegistryError ''persisted receipt key state is invalid''"

text \<open>The strings of a persisted object.\<close>

fun str_field :: "(string \<times> pyval) list \<Rightarrow> string \<Rightarrow> string" where
  "str_field kvs k = (case dget kvs k of PStr s \<Rightarrow> s | _ \<Rightarrow> [])"

definition decode_states :: "registry_error \<Rightarrow> string \<Rightarrow> registry_error + (string \<times> pyval) list" where
  "decode_states err text =
    (if length (utf8 text) > MAX_REGISTRY_BYTES then Inl err
     else case json_loads True text of
         Inr (PDict kvs) \<Rightarrow> Inr kvs
       | Inr _ \<Rightarrow> Inl err
       | Inl e \<Rightarrow> if e \<in> {JsonOutsideModel, JsonConstant} then Inl RegistryOutsideModel else Inl err)"

definition check_profile_state :: "string \<times> pyval \<Rightarrow> registry_error + unit" where
  "check_profile_state kv =
    (case kv of
       (pid, PDict st) \<Rightarrow>
         if \<not> REGISTRY_ID_RE pid \<or> \<not> same_keys st [''status'', ''status_changed_at'']
            \<or> (\<forall>s \<in> set PROFILE_STATUSES. dget st ''status'' \<noteq> PStr s)
         then Inl PERSISTED_PROFILE_ERROR
         else rbind (timestamp (dget st ''status_changed_at'') ''persisted profile status_changed_at'') (\<lambda>_. Inr ())
     | _ \<Rightarrow> Inl PERSISTED_PROFILE_ERROR)"

definition decode_profile_states :: "string \<Rightarrow> registry_error + (string \<times> pyval) list" where
  "decode_profile_states text =
    rbind (decode_states PERSISTED_PROFILE_ERROR text) (\<lambda>kvs.
    rbind (checks (map check_profile_state kvs)) (\<lambda>_. Inr kvs))"

definition check_key_state :: "string \<times> pyval \<Rightarrow> registry_error + unit" where
  "check_key_state kv =
    (case kv of
       (kid, PDict st) \<Rightarrow>
         if \<not> REGISTRY_ID_RE kid
            \<or> \<not> same_keys st [''status'', ''status_changed_at'', ''public_key_base64'', ''valid_from'', ''valid_until'']
            \<or> (\<forall>s \<in> set RECEIPT_KEY_STATUSES. dget st ''status'' \<noteq> PStr s)
         then Inl PERSISTED_KEY_ERROR
         else
           rbind (case exact_base64 (dget st ''public_key_base64'') 32 [] [] of
                    Inl _ \<Rightarrow> Inl PERSISTED_KEY_ERROR | Inr _ \<Rightarrow> Inr ()) (\<lambda>_.
           rbind (timestamp (dget st ''status_changed_at'') ''persisted receipt key status_changed_at'') (\<lambda>_.
           rbind (timestamp (dget st ''valid_from'') ''persisted receipt key valid_from'') (\<lambda>f.
           rbind (timestamp (dget st ''valid_until'') ''persisted receipt key valid_until'') (\<lambda>u.
             require (dt_less f u) PERSISTED_KEY_ERROR))))
     | _ \<Rightarrow> Inl PERSISTED_KEY_ERROR)"

definition decode_receipt_key_states :: "string \<Rightarrow> registry_error + (string \<times> pyval) list" where
  "decode_receipt_key_states text =
    rbind (decode_states PERSISTED_KEY_ERROR text) (\<lambda>kvs.
    rbind (checks (map check_key_state kvs)) (\<lambda>_. Inr kvs))"

section \<open>Transitions\<close>

definition PROFILE_TRANSITIONS :: "string \<Rightarrow> string list" where
  "PROFILE_TRANSITIONS s =
    (case map_of
       [(''active'', [''active'', ''retiring'', ''revoked'']),
        (''retiring'', [''retiring'', ''retired'', ''revoked'']),
        (''retired'', [''retired'']), (''revoked'', [''revoked''])] s of
       Some ts \<Rightarrow> ts | None \<Rightarrow> [])"

definition RECEIPT_KEY_TRANSITIONS :: "string \<Rightarrow> string list" where
  "RECEIPT_KEY_TRANSITIONS s =
    (case map_of
       [(''active'', [''active'', ''retired'', ''revoked'']),
        (''retired'', [''retired'', ''revoked'']), (''revoked'', [''revoked''])] s of
       Some ts \<Rightarrow> ts | None \<Rightarrow> [])"

fun dict_fields :: "pyval \<Rightarrow> (string \<times> pyval) list" where
  "dict_fields (PDict kvs) = kvs"
| "dict_fields _ = []"

definition state_field :: "pyval \<Rightarrow> string \<Rightarrow> string" where
  "state_field v k = str_field (dict_fields v) k"

text \<open>One entry of the loop over the historical profiles.\<close>

definition check_profile_transition ::
  "(string \<times> pyval) list \<Rightarrow> string \<times> pyval \<Rightarrow> registry_error + unit" where
  "check_profile_transition states prior =
    (case map_of states (fst prior) of
       None \<Rightarrow> Inl (PolicyRegistryError ''registry cannot remove a historical profile'')
     | Some current \<Rightarrow>
         (let ps = state_field (snd prior) ''status''; cs = state_field current ''status'';
              pc = state_field (snd prior) ''status_changed_at'';
              cc = state_field current ''status_changed_at'' in
          checks
            [require (cs \<in> set (PROFILE_TRANSITIONS ps))
               (PolicyRegistryError (''invalid profile transition for '' @ fst prior)),
             require (\<not> (cs = ps \<and> cc \<noteq> pc))
               (PolicyRegistryError (''unchanged profile rewrote transition time for '' @ fst prior)),
             require (\<not> (cs \<noteq> ps \<and> cc \<le> pc))
               (PolicyRegistryError (''profile transition time did not advance for '' @ fst prior))]))"

definition check_key_transition ::
  "(string \<times> pyval) list \<Rightarrow> string \<times> pyval \<Rightarrow> registry_error + unit" where
  "check_key_transition states prior =
    (case map_of states (fst prior) of
       None \<Rightarrow> Inl (PolicyRegistryError ''registry cannot remove a historical receipt key'')
     | Some current \<Rightarrow>
         (let ps = state_field (snd prior) ''status''; cs = state_field current ''status'';
              pc = state_field (snd prior) ''status_changed_at'';
              cc = state_field current ''status_changed_at'' in
          checks
            [require (state_field current ''public_key_base64'' = state_field (snd prior) ''public_key_base64'')
               (PolicyRegistryError (''receipt key material changed for '' @ fst prior)),
             require (state_field current ''valid_from'' = state_field (snd prior) ''valid_from''
                      \<and> state_field current ''valid_until'' = state_field (snd prior) ''valid_until'')
               (PolicyRegistryError (''receipt key validity window changed for '' @ fst prior)),
             require (cs \<in> set (RECEIPT_KEY_TRANSITIONS ps))
               (PolicyRegistryError (''invalid receipt key transition for '' @ fst prior)),
             require (\<not> (cs = ps \<and> cc \<noteq> pc))
               (PolicyRegistryError (''unchanged receipt key rewrote transition time for '' @ fst prior)),
             require (\<not> (cs \<noteq> ps \<and> cc \<le> pc))
               (PolicyRegistryError (''receipt key transition time did not advance for '' @ fst prior))]))"

definition check_new_active ::
  "string \<Rightarrow> (string \<times> pyval) list \<Rightarrow> (string \<times> pyval) list \<Rightarrow> registry_error + unit" where
  "check_new_active message prior states = checks
    (map (\<lambda>(k, v). require (k \<in> set (map fst prior) \<or> state_field v ''status'' = ''active'')
       (PolicyRegistryError message)) states)"

section \<open>accept\<close>

definition check_generated :: "registry_row \<Rightarrow> PolicyRegistrySnapshot \<Rightarrow> registry_error + unit" where
  "check_generated row s =
    (if row_generated_at row = [] then Inr ()
     else rbind (timestamp (PStr (row_generated_at row)) ''persisted registry generated_at'') (\<lambda>prior.
       require (dt_le prior (ps_generated_at s))
         (PolicyRegistryError ''registry publication time moved backwards'')))"

definition new_row ::
  "string \<Rightarrow> PolicyRegistrySnapshot \<Rightarrow> registry_error + registry_row" where
  "new_row now_text s =
    rbind (canonical_json (PDict (snapshot_profile_states s))) (\<lambda>_.
    rbind (canonical_json (PDict (snapshot_key_states s))) (\<lambda>_.
      Inr \<lparr>row_release = ps_release s, row_digest = ps_digest s,
           profile_states_json = dumps (PDict (snapshot_profile_states s)),
           receipt_key_states_json = dumps (PDict (snapshot_key_states s)),
           accepted_at = now_text, row_generated_at = format_seconds (ps_generated_at s)\<rparr>))"

text \<open>A later release against the stored row.\<close>

definition check_advance :: "registry_row \<Rightarrow> PolicyRegistrySnapshot
    \<Rightarrow> (string \<times> pyval) list \<Rightarrow> (string \<times> pyval) list \<Rightarrow> registry_error + unit" where
  "check_advance row s prior_states prior_keys =
    rbind (require (row_release row \<le> ps_release s) (PolicyRegistryError ''registry rollback rejected'')) (\<lambda>_.
    rbind (check_generated row s) (\<lambda>_.
    rbind (checks (map (check_profile_transition (snapshot_profile_states s)) prior_states)) (\<lambda>_.
    rbind (check_new_active ''new registry profile must begin active'' prior_states
             (snapshot_profile_states s)) (\<lambda>_.
    rbind (checks (map (check_key_transition (snapshot_key_states s)) prior_keys)) (\<lambda>_.
      check_new_active ''new receipt signing key must begin active'' prior_keys
        (snapshot_key_states s))))))"

definition accept ::
  "registry_config \<Rightarrow> string \<Rightarrow> registry_row option \<Rightarrow> PolicyRegistrySnapshot \<Rightarrow> registry_error + registry_row" where
  "accept cfg now_text row s =
    (if (case minimum_release cfg of Some m \<Rightarrow> ps_release s < m | None \<Rightarrow> False)
     then Inl (PolicyRegistryError ''registry release is below the configured minimum'')
     else case row of
         None \<Rightarrow>
           if pinned_release cfg \<noteq> None
              \<and> (pinned_release cfg \<noteq> Some (ps_release s) \<or> pinned_digest cfg \<noteq> Some (ps_digest s))
           then Inl (PolicyRegistryError ''fresh state must bootstrap from the pinned checkpoint'')
           else new_row now_text s
       | Some r \<Rightarrow>
           rbind (decode_profile_states (profile_states_json r)) (\<lambda>prior_states.
           rbind (decode_receipt_key_states (receipt_key_states_json r)) (\<lambda>prior_keys.
             if ps_release s = row_release r then
               (if ps_digest s = row_digest r
                then Inr (if row_generated_at r = []
                          then r\<lparr>row_generated_at := format_seconds (ps_generated_at s)\<rparr> else r)
                else Inl (PolicyRegistryError ''registry release was equivocated''))
             else rbind (check_advance r s prior_states prior_keys) (\<lambda>_. new_row now_text s))))"

section \<open>The abstract registry\<close>

record registry_view =
  view_release :: int
  view_digest :: string
  view_profiles :: "string \<rightharpoonup> string \<times> string"
  view_keys :: "string \<rightharpoonup> string \<times> string \<times> string \<times> string \<times> string"

text \<open>Status and transition time of a profile; status, transition time, key and window of a receipt key.\<close>

definition profile_view :: "pyval \<Rightarrow> string \<times> string" where
  "profile_view v = (state_field v ''status'', state_field v ''status_changed_at'')"

definition key_view :: "pyval \<Rightarrow> string \<times> string \<times> string \<times> string \<times> string" where
  "key_view v = (state_field v ''status'', state_field v ''status_changed_at'',
     state_field v ''public_key_base64'', state_field v ''valid_from'', state_field v ''valid_until'')"

definition stored_map :: "string \<Rightarrow> string \<rightharpoonup> pyval" where
  "stored_map text = (case json_loads True text of Inr (PDict kvs) \<Rightarrow> map_of kvs | _ \<Rightarrow> Map.empty)"

definition abs_row :: "registry_row \<Rightarrow> registry_view" where
  "abs_row r =
    \<lparr>view_release = row_release r, view_digest = row_digest r,
     view_profiles = map_option profile_view \<circ> stored_map (profile_states_json r),
     view_keys = map_option key_view \<circ> stored_map (receipt_key_states_json r)\<rparr>"

text \<open>
  The contract: either nothing changes, or a strictly later release keeps every profile and
  every receipt key, moves their statuses along the tables with an advancing transition
  time, leaves unchanged statuses and key material alone, and starts new entries active.
\<close>

definition registry_advances :: "registry_view \<Rightarrow> registry_view \<Rightarrow> bool" where
  "registry_advances a b \<longleftrightarrow> a = b \<or>
     view_release a < view_release b
     \<and> (\<forall>pid st ch. view_profiles a pid = Some (st, ch) \<longrightarrow>
          (\<exists>st' ch'. view_profiles b pid = Some (st', ch') \<and> st' \<in> set (PROFILE_TRANSITIONS st)
             \<and> (if st' = st then ch' = ch else ch < ch')))
     \<and> (\<forall>pid st ch. view_profiles a pid = None \<longrightarrow> view_profiles b pid = Some (st, ch) \<longrightarrow> st = ''active'')
     \<and> (\<forall>kid st ch pk f u. view_keys a kid = Some (st, ch, pk, f, u) \<longrightarrow>
          (\<exists>st' ch'. view_keys b kid = Some (st', ch', pk, f, u) \<and> st' \<in> set (RECEIPT_KEY_TRANSITIONS st)
             \<and> (if st' = st then ch' = ch else ch < ch')))
     \<and> (\<forall>kid st rest. view_keys a kid = None \<longrightarrow> view_keys b kid = Some (st, rest) \<longrightarrow> st = ''active'')"

text \<open>Retired and revoked profiles have no transition left.\<close>

lemma terminal_profile_statuses:
  "PROFILE_TRANSITIONS ''revoked'' = [''revoked'']" "PROFILE_TRANSITIONS ''retired'' = [''retired'']"
  by (simp_all add: PROFILE_TRANSITIONS_def)

section \<open>Dictionaries\<close>

lemma map_of_dict_set: "map_of (dict_set kvs k v) = (map_of kvs)(k \<mapsto> v)"
  by (induction kvs k v rule: dict_set.induct) (auto simp: fun_upd_def)

lemma keys_dict_set:
  "map fst (dict_set kvs k v) = (if k \<in> fst ` set kvs then map fst kvs else map fst kvs @ [k])"
  by (induction kvs k v rule: dict_set.induct) auto

lemma distinct_py_dict: "distinct (map fst (py_dict kvs))"
proof -
  have "distinct (map fst d) \<Longrightarrow> distinct (map fst (foldl (\<lambda>d (k, v). dict_set d k v) d kvs))"
    for d :: "(string \<times> 'a) list"
    by (induction kvs arbitrary: d) (auto simp: keys_dict_set)
  then show ?thesis by (simp add: py_dict_def)
qed

lemma set_dict_set: "set (dict_set kvs k v) \<subseteq> insert (k, v) (set kvs)"
  by (induction kvs k v rule: dict_set.induct) auto

lemma set_py_dict: "set (py_dict kvs) \<subseteq> set kvs"
proof -
  have "set (foldl (\<lambda>d (k, v). dict_set d k v) d kvs) \<subseteq> set d \<union> set kvs"
    for d :: "(string \<times> 'a) list"
  proof (induction kvs arbitrary: d)
    case (Cons kv kvs)
    obtain k v where kv: "kv = (k, v)" by (cases kv)
    show ?case using Cons [of "dict_set d k v"] set_dict_set [of d k v] by (auto simp: kv)
  qed simp
  from this [of "[]"] show ?thesis by (simp add: py_dict_def)
qed

section \<open>Reading back what was stored\<close>

text \<open>The objects a snapshot stores: strings only.\<close>

definition text_object :: "pyval \<Rightarrow> bool" where
  "text_object v \<longleftrightarrow> (\<exists>kvs. v = PDict kvs \<and> distinct (map fst kvs) \<and> (\<forall>(k, w) \<in> set kvs. \<exists>s. w = PStr s))"

lemma text_object_json: "text_object v \<Longrightarrow> is_json v"
  by (fastforce simp: text_object_def list_all_iff)

lemma text_object_field:
  assumes "text_object v"
  shows "state_field (canon v) k = state_field v k"
proof -
  obtain kvs where v: "v = PDict kvs" and s: "\<forall>(k, w) \<in> set kvs. \<exists>s. w = PStr s"
    using assms by (auto simp: text_object_def)
  have "map (\<lambda>(k, v). (k, canon v)) kvs = kvs"
    by (rule map_idI) (use s in fastforce)
  then show ?thesis by (simp add: v state_field_def del: canon.simps(2)) (simp add: canon_PDict_sorted)
qed

lemma snapshot_states_text:
  "\<forall>(k, v) \<in> set (snapshot_profile_states s). text_object v"
  "\<forall>(k, v) \<in> set (snapshot_key_states s). text_object v"
  using set_py_dict [of "map (\<lambda>p. (profile_id p, PDict
       [(''status'', PStr (pp_status p)),
        (''status_changed_at'', PStr (format_seconds (pp_status_changed_at p)))])) (ps_profiles s)"]
    set_py_dict [of "map (\<lambda>k. (key_id k, PDict
       [(''status'', PStr (rk_status k)),
        (''status_changed_at'', PStr (format_seconds (rk_status_changed_at k))),
        (''public_key_base64'', PStr (b64encode (public_key k))),
        (''valid_from'', PStr (format_seconds (rk_valid_from k))),
        (''valid_until'', PStr (format_seconds (rk_valid_until k)))])) (ps_receipt_signing_keys s)"]
  by (force simp: snapshot_profile_states_def snapshot_key_states_def text_object_def)+

lemma distinct_snapshot_states:
  "distinct (map fst (snapshot_profile_states s))" "distinct (map fst (snapshot_key_states s))"
  by (simp_all add: snapshot_profile_states_def snapshot_key_states_def distinct_py_dict)

lemma stored_map_dumps:
  assumes "distinct (map fst kvs)" "\<forall>(k, v) \<in> set kvs. text_object v"
  shows "stored_map (dumps (PDict kvs)) = map_option canon \<circ> map_of kvs"
proof -
  have "is_json (PDict kvs)" using assms by (force simp: list_all_iff intro: text_object_json)
  then have "json_loads True (dumps (PDict kvs)) = Inr (canon (PDict kvs))" by (rule loads_dumps)
  then show ?thesis
    by (simp only: stored_map_def canon_PDict_sorted sum.case pyval.case)
      (simp add: map_of_map comp_def)
qed

section \<open>accept refines the contract\<close>

lemma decode_states_map: "decode_states e text = Inr kvs \<Longrightarrow> stored_map text = map_of kvs"
  by (auto simp: decode_states_def stored_map_def split: if_splits sum.splits pyval.splits)

lemma decoded_profiles: "decode_profile_states text = Inr kvs \<Longrightarrow> stored_map text = map_of kvs"
  unfolding decode_profile_states_def ok_simps by (elim exE conjE) (simp add: decode_states_map)

lemma decoded_keys: "decode_receipt_key_states text = Inr kvs \<Longrightarrow> stored_map text = map_of kvs"
  unfolding decode_receipt_key_states_def ok_simps by (elim exE conjE) (simp add: decode_states_map)

lemma views_canon:
  assumes "text_object v"
  shows "profile_view (canon v) = profile_view v" "key_view (canon v) = key_view v"
  using assms by (simp_all add: profile_view_def key_view_def text_object_field)

lemma new_row_view:
  assumes "new_row t s = Inr r"
  shows "abs_row r =
    \<lparr>view_release = ps_release s, view_digest = ps_digest s,
     view_profiles = map_option profile_view \<circ> map_of (snapshot_profile_states s),
     view_keys = map_option key_view \<circ> map_of (snapshot_key_states s)\<rparr>"
proof -
  have r: "row_release r = ps_release s" "row_digest r = ps_digest s"
    "profile_states_json r = dumps (PDict (snapshot_profile_states s))"
    "receipt_key_states_json r = dumps (PDict (snapshot_key_states s))"
    using assms unfolding new_row_def ok_simps by auto
  have canon_view: "map_option f (map_option canon (map_of kvs k)) = map_option f (map_of kvs k)"
    if "\<forall>(k, v) \<in> set kvs. text_object v" "\<And>v. text_object v \<Longrightarrow> f (canon v) = f v" for f :: "pyval \<Rightarrow> 'b" and kvs k
    using that by (cases "map_of kvs k") (auto dest!: map_of_SomeD)
  show ?thesis
    unfolding abs_row_def r
    by (simp add: stored_map_dumps distinct_snapshot_states snapshot_states_text comp_def del: dumps.simps)
      (auto intro!: ext canon_view [OF snapshot_states_text(1)] canon_view [OF snapshot_states_text(2)]
        simp: views_canon)
qed

lemma profile_transition_view:
  assumes "check_profile_transition states (pid, v) = Inr ()" "profile_view v = (st, ch)"
  shows "\<exists>st' ch'. map_option profile_view (map_of states pid) = Some (st', ch')
    \<and> st' \<in> set (PROFILE_TRANSITIONS st) \<and> (if st' = st then ch' = ch else ch < ch')"
  using assms
  by (cases "map_of states pid")
    (auto simp: check_profile_transition_def Let_def ok_simps profile_view_def not_le)

lemma key_transition_view:
  assumes "check_key_transition states (kid, v) = Inr ()" "key_view v = (st, ch, pk, f, u)"
  shows "\<exists>st' ch'. map_option key_view (map_of states kid) = Some (st', ch', pk, f, u)
    \<and> st' \<in> set (RECEIPT_KEY_TRANSITIONS st) \<and> (if st' = st then ch' = ch else ch < ch')"
  using assms
  by (cases "map_of states kid")
    (auto simp: check_key_transition_def Let_def ok_simps key_view_def not_le)

lemma new_active_view:
  assumes "check_new_active m prior states = Inr ()" "map_of prior k = None" "map_of states k = Some v"
  shows "state_field v ''status'' = ''active''"
proof -
  have "(k, v) \<in> set states" using assms(3) by (rule map_of_SomeD)
  moreover have "k \<notin> fst ` set prior" using assms(2) by (simp add: map_of_eq_None_iff)
  ultimately show ?thesis using assms(1) unfolding check_new_active_def ok_simps by fastforce
qed

lemma check_advance_parts:
  assumes "check_advance r s prior_states prior_keys = Inr ()"
  shows "row_release r \<le> ps_release s"
    and "(pid, v) \<in> set prior_states \<Longrightarrow> check_profile_transition (snapshot_profile_states s) (pid, v) = Inr ()"
    and "(kid, w) \<in> set prior_keys \<Longrightarrow> check_key_transition (snapshot_key_states s) (kid, w) = Inr ()"
    and "check_new_active ''new registry profile must begin active'' prior_states (snapshot_profile_states s) = Inr ()"
    and "check_new_active ''new receipt signing key must begin active'' prior_keys (snapshot_key_states s) = Inr ()"
  using assms unfolding check_advance_def ok_simps by auto

lemma advance_refines:
  assumes p: "stored_map (profile_states_json r) = map_of prior_states"
    and k: "stored_map (receipt_key_states_json r) = map_of prior_keys"
    and adv: "check_advance r s prior_states prior_keys = Inr ()"
    and ne: "ps_release s \<noteq> row_release r" and row: "new_row t s = Inr r'"
  shows "registry_advances (abs_row r) (abs_row r')"
  unfolding registry_advances_def new_row_view [OF row]
proof (rule disjI2, intro conjI allI impI)
  note parts = check_advance_parts [OF adv]
  show "view_release (abs_row r) < view_release \<lparr>view_release = ps_release s, view_digest = ps_digest s,
      view_profiles = map_option profile_view \<circ> map_of (snapshot_profile_states s),
      view_keys = map_option key_view \<circ> map_of (snapshot_key_states s)\<rparr>"
    using parts(1) ne by (simp add: abs_row_def)
  fix pid st ch
  {
    assume "view_profiles (abs_row r) pid = Some (st, ch)"
    then obtain v where v: "map_of prior_states pid = Some v" "profile_view v = (st, ch)"
      by (auto simp: abs_row_def p)
    from profile_transition_view [OF parts(2) [OF map_of_SomeD [OF v(1)]] v(2)]
    show "\<exists>st' ch'. view_profiles \<lparr>view_release = ps_release s, view_digest = ps_digest s,
        view_profiles = map_option profile_view \<circ> map_of (snapshot_profile_states s),
        view_keys = map_option key_view \<circ> map_of (snapshot_key_states s)\<rparr> pid = Some (st', ch')
      \<and> st' \<in> set (PROFILE_TRANSITIONS st) \<and> (if st' = st then ch' = ch else ch < ch')"
      by simp
  next
    assume "view_profiles (abs_row r) pid = None"
      and "view_profiles \<lparr>view_release = ps_release s, view_digest = ps_digest s,
        view_profiles = map_option profile_view \<circ> map_of (snapshot_profile_states s),
        view_keys = map_option key_view \<circ> map_of (snapshot_key_states s)\<rparr> pid = Some (st, ch)"
    then show "st = ''active''"
      using new_active_view [OF parts(4)] by (auto simp: abs_row_def p profile_view_def)
  }
next
  note parts = check_advance_parts [OF adv]
  fix kid st ch pk f u
  assume "view_keys (abs_row r) kid = Some (st, ch, pk, f, u)"
  then obtain v where v: "map_of prior_keys kid = Some v" "key_view v = (st, ch, pk, f, u)"
    by (auto simp: abs_row_def k)
  from key_transition_view [OF parts(3) [OF map_of_SomeD [OF v(1)]] v(2)]
  show "\<exists>st' ch'. view_keys \<lparr>view_release = ps_release s, view_digest = ps_digest s,
      view_profiles = map_option profile_view \<circ> map_of (snapshot_profile_states s),
      view_keys = map_option key_view \<circ> map_of (snapshot_key_states s)\<rparr> kid = Some (st', ch', pk, f, u)
    \<and> st' \<in> set (RECEIPT_KEY_TRANSITIONS st) \<and> (if st' = st then ch' = ch else ch < ch')"
    by simp
next
  note parts = check_advance_parts [OF adv]
  fix kid st rest
  assume "view_keys (abs_row r) kid = None"
    and "view_keys \<lparr>view_release = ps_release s, view_digest = ps_digest s,
      view_profiles = map_option profile_view \<circ> map_of (snapshot_profile_states s),
      view_keys = map_option key_view \<circ> map_of (snapshot_key_states s)\<rparr> kid = Some (st, rest)"
  then show "st = ''active''"
    using new_active_view [OF parts(5)] by (auto simp: abs_row_def k key_view_def)
qed

lemma accept_advances:
  assumes "accept cfg t (Some r) s = Inr r'"
  shows "registry_advances (abs_row r) (abs_row r')"
proof -
  obtain prior_states prior_keys where
    p: "decode_profile_states (profile_states_json r) = Inr prior_states"
    and k: "decode_receipt_key_states (receipt_key_states_json r) = Inr prior_keys"
    using assms unfolding accept_def by (auto simp: ok_simps split: if_splits)
  show ?thesis
  proof (cases "ps_release s = row_release r")
    case True
    with assms p k have "abs_row r' = abs_row r"
      by (auto simp: accept_def abs_row_def split: if_splits)
    then show ?thesis by (simp add: registry_advances_def)
  next
    case False
    with assms p k have "check_advance r s prior_states prior_keys = Inr ()" "new_row t s = Inr r'"
      by (auto simp: accept_def ok_simps split: if_splits)
    with False show ?thesis
      by (intro advance_refines [OF decoded_profiles [OF p] decoded_keys [OF k]])
  qed
qed

section \<open>What the contract gives over any number of transactions\<close>

locale registry_contract =
  fixes transact :: "'a \<Rightarrow> 'a \<Rightarrow> bool"
    and view :: "'a \<Rightarrow> registry_view"
  assumes advances: "transact a b \<Longrightarrow> registry_advances (view a) (view b)"
begin

lemma release_grows:
  "transact\<^sup>*\<^sup>* a b \<Longrightarrow> view a = view b \<or> view_release (view a) < view_release (view b)"
  by (induction rule: rtranclp_induct) (auto dest!: advances simp: registry_advances_def)

lemma revoked_profile_stays:
  "transact\<^sup>*\<^sup>* a b \<Longrightarrow> view_profiles (view a) pid = Some (''revoked'', ch)
     \<Longrightarrow> view_profiles (view b) pid = Some (''revoked'', ch)"
proof (induction rule: rtranclp_induct)
  case (step y z)
  then show ?case
    using advances [OF step.hyps(2)]
    by (fastforce simp: registry_advances_def terminal_profile_statuses)
qed

lemma retired_profile_stays:
  "transact\<^sup>*\<^sup>* a b \<Longrightarrow> view_profiles (view a) pid = Some (''retired'', ch)
     \<Longrightarrow> view_profiles (view b) pid = Some (''retired'', ch)"
proof (induction rule: rtranclp_induct)
  case (step y z)
  then show ?case
    using advances [OF step.hyps(2)]
    by (fastforce simp: registry_advances_def terminal_profile_statuses)
qed

lemma key_material_stays:
  "transact\<^sup>*\<^sup>* a b \<Longrightarrow> view_keys (view a) kid = Some (st, ch, pk, f, u)
     \<Longrightarrow> \<exists>st' ch'. view_keys (view b) kid = Some (st', ch', pk, f, u) \<and> (st = ''revoked'' \<longrightarrow> st' = ''revoked'')"
proof (induction rule: rtranclp_induct)
  case (step y z)
  then obtain st1 ch1 where y: "view_keys (view y) kid = Some (st1, ch1, pk, f, u)"
    "st = ''revoked'' \<longrightarrow> st1 = ''revoked''" by blast
  show ?case
  proof (cases "view y = view z")
    case False
    then obtain st2 ch2 where "view_keys (view z) kid = Some (st2, ch2, pk, f, u)"
      "st2 \<in> set (RECEIPT_KEY_TRANSITIONS st1)"
      using advances [OF step.hyps(2)] y(1) unfolding registry_advances_def by blast
    with y(2) show ?thesis by (auto simp: RECEIPT_KEY_TRANSITIONS_def)
  qed (use y in auto)
qed auto

end

text \<open>One transaction on the table, under any configuration.\<close>

definition store_transact :: "registry_row \<Rightarrow> registry_row \<Rightarrow> bool" where
  "store_transact r r' \<longleftrightarrow> (\<exists>cfg t s. accept cfg t (Some r) s = Inr r')"

interpretation registry_store: registry_contract store_transact abs_row
  by unfold_locales (auto simp: store_transact_def intro: accept_advances)

end
