(* ===== verification/Registry_Snapshot.thy ===== *)
theory Registry_Snapshot
  imports Registry_Policy Registry_Store Provider_Sizes
begin

text \<open>
  What \<open>verify_registry\<close> establishes about a snapshot, and that the row a verified snapshot
  leaves in the table can always be read back: its status texts decode, within the size
  bound, to the states that were stored.
\<close>

section \<open>The invariant of a verified snapshot\<close>

definition profile_ok :: "PolicyRegistrySnapshot \<Rightarrow> PolicyProfile \<Rightarrow> bool" where
  "profile_ok s p \<longleftrightarrow>
     REGISTRY_ID_RE (profile_id p) \<and> pp_kind p \<in> set PROFILE_KINDS \<and> pp_status p \<in> set PROFILE_STATUSES
     \<and> whole_seconds (pp_status_changed_at p) \<and> whole_seconds (pp_valid_from p)
     \<and> whole_seconds (pp_valid_until p) \<and> pred_option whole_seconds (pp_retire_at p)
     \<and> dt_le (ps_valid_from s) (pp_valid_from p) \<and> dt_le (pp_valid_until p) (ps_valid_until s)
     \<and> dt_le (pp_valid_from p) (pp_status_changed_at p) \<and> dt_less (pp_status_changed_at p) (pp_valid_until p)"

definition receipt_key_ok :: "PolicyRegistrySnapshot \<Rightarrow> ReceiptVerificationKey \<Rightarrow> bool" where
  "receipt_key_ok s k \<longleftrightarrow>
     REGISTRY_ID_RE (key_id k) \<and> length (public_key k) = 32 \<and> rk_status k \<in> set RECEIPT_KEY_STATUSES
     \<and> whole_seconds (rk_status_changed_at k) \<and> whole_seconds (rk_valid_from k) \<and> whole_seconds (rk_valid_until k)
     \<and> dt_le (ps_valid_from s) (rk_valid_from k) \<and> dt_less (rk_valid_from k) (rk_valid_until k)
     \<and> dt_le (rk_valid_until k) (ps_valid_until s)
     \<and> dt_le (rk_valid_from k) (rk_status_changed_at k) \<and> dt_less (rk_status_changed_at k) (rk_valid_until k)"

definition snapshot_ok :: "PolicyRegistrySnapshot \<Rightarrow> bool" where
  "snapshot_ok s \<longleftrightarrow>
     0 < ps_release s \<and> ps_release s \<le> MAX_SQLITE_INTEGER
     \<and> whole_seconds (ps_generated_at s) \<and> whole_seconds (ps_valid_from s) \<and> whole_seconds (ps_valid_until s)
     \<and> ps_profiles s \<noteq> [] \<and> length (ps_profiles s) \<le> MAX_REGISTRY_PROFILES
     \<and> length (ps_receipt_signing_keys s) \<le> 128
     \<and> distinct (map profile_id (ps_profiles s)) \<and> distinct (map key_id (ps_receipt_signing_keys s))
     \<and> (\<forall>p \<in> set (ps_profiles s). profile_ok s p)
     \<and> (\<forall>k \<in> set (ps_receipt_signing_keys s). receipt_key_ok s k)
     \<and> ps_digest s = sha256_label (canonical_document s)"

lemma guard_ok_iff [ok_simps]: "(if c then Inl e else m) = Inr y \<longleftrightarrow> \<not> c \<and> m = Inr y"
  by auto

lemma timestamp_ok: "timestamp v name = Inr d \<Longrightarrow> whole_seconds d"
  by (cases v) (auto split: option.splits intro: parse_seconds_utc)

lemma optional_timestamp_ok: "optional_timestamp v name = Inr d \<Longrightarrow> pred_option whole_seconds d"
  by (auto simp: optional_timestamp_def ok_simps split: if_splits intro: timestamp_ok)

lemma member_of_ok: "member_of v ss m = Inr s \<Longrightarrow> s \<in> set ss"
  by (cases v) (auto split: if_splits)

lemma check_registry_id_ok: "check_registry_id v m = Inr s \<Longrightarrow> REGISTRY_ID_RE s"
  by (cases v) (auto split: if_splits)

lemma exact_base64_ok: "exact_base64 v n a b = Inr bs \<Longrightarrow> length bs = n"
  by (cases v) (auto simp: exact_base64_def split: option.splits if_splits)

lemma check_release_ok: "check_release v = Inr n \<Longrightarrow> 0 < n \<and> n \<le> MAX_SQLITE_INTEGER"
  by (cases v) (auto split: if_splits)

lemmas validators_ok = timestamp_ok optional_timestamp_ok member_of_ok check_registry_id_ok exact_base64_ok

lemma parse_profile_ok:
  assumes "parse_profile (ps_valid_from s) (ps_valid_until s) raw = Inr p"
  shows "profile_ok s p"
proof (cases raw)
  case (PDict kvs)
  show ?thesis
    using assms unfolding parse_profile_def PDict pyval.case ok_simps
    by (elim conjE exE) (auto simp: profile_ok_def dest: validators_ok)
qed (use assms in \<open>simp_all add: parse_profile_def\<close>)

lemma parse_receipt_key_ok:
  assumes "parse_receipt_key (ps_valid_from s) (ps_valid_until s) raw = Inr k"
  shows "receipt_key_ok s k"
proof (cases raw)
  case (PDict kvs)
  show ?thesis
    using assms unfolding parse_receipt_key_def PDict pyval.case ok_simps
    by (elim conjE exE) (auto simp: receipt_key_ok_def dest: validators_ok)
qed (use assms in \<open>simp_all add: parse_receipt_key_def\<close>)


lemma parse_profiles_ok:
  assumes "parse_profiles (ps_valid_from s) (ps_valid_until s) w v = Inr ps"
  shows "ps \<noteq> []" "length ps \<le> MAX_REGISTRY_PROFILES" "distinct (map profile_id ps)"
    "\<forall>p \<in> set ps. profile_ok s p \<and> \<not> profile_not_effective w p"
proof -
  obtain raws where v: "v = PList raws" using assms by (cases v) (auto simp: parse_profiles_def)
  have p: "\<not> (raws = [] \<or> MAX_REGISTRY_PROFILES < length raws)"
    and m: "rmap (parse_profile (ps_valid_from s) (ps_valid_until s)) raws = Inr ps"
    and d: "distinct (map profile_id ps)" and e: "\<not> list_ex (profile_not_effective w) ps"
    using assms unfolding parse_profiles_def v pyval.case ok_simps by auto
  show "ps \<noteq> []" "length ps \<le> MAX_REGISTRY_PROFILES" using p rmap_ok_length [OF m] by auto
  show "distinct (map profile_id ps)" by (rule d)
  show "\<forall>p \<in> set ps. profile_ok s p \<and> \<not> profile_not_effective w p"
    using rmap_ok_set [OF m] parse_profile_ok e by (metis list_ex_iff)
qed

lemma parse_receipt_keys_ok:
  assumes "parse_receipt_keys (ps_valid_from s) (ps_valid_until s) w v = Inr ks"
  shows "length ks \<le> 128" "distinct (map key_id ks)" "\<forall>k \<in> set ks. receipt_key_ok s k"
proof -
  obtain raws where v: "v = PList raws" using assms by (cases v) (auto simp: parse_receipt_keys_def)
  have p: "\<not> 128 < length raws" and d: "distinct (map key_id ks)"
    and m: "rmap (parse_receipt_key (ps_valid_from s) (ps_valid_until s)) raws = Inr ks"
    using assms unfolding parse_receipt_keys_def v pyval.case ok_simps by auto
  show "length ks \<le> 128" using p rmap_ok_length [OF m] by auto
  show "distinct (map key_id ks)" by (rule d)
  show "\<forall>k \<in> set ks. receipt_key_ok s k"
    using rmap_ok_set [OF m] parse_receipt_key_ok by metis
qed

text \<open>The invariant reads only these fields of the snapshot.\<close>

lemma ok_window_cong:
  assumes "ps_valid_from s = ps_valid_from t" "ps_valid_until s = ps_valid_until t"
  shows "profile_ok s = profile_ok t" "receipt_key_ok s = receipt_key_ok t"
  using assms by (auto simp: profile_ok_def receipt_key_ok_def fun_eq_iff)

lemma parse_registry_json_ok:
  assumes "parse_registry_json text = Inr document"
  shows "json_loads False text = Inr (PDict document)"
  using assms by (auto simp: parse_registry_json_def split: if_splits sum.splits pyval.splits)

lemma check_signature_ok:
  assumes "check_signature ed25519 key document = Inr ()"
  shows "\<exists>sb. length sb = 64 \<and> is_json (PDict (filter (\<lambda>(k, v). k \<noteq> ''signature'') document))
    \<and> ed25519 key sb (encode_ascii (dumps (PDict (filter (\<lambda>(k, v). k \<noteq> ''signature'') document))))"
proof -
  obtain sig where sig: "dget document ''signature'' = PDict sig"
    using assms by (cases "dget document ''signature''") (auto simp: check_signature_def)
  have j: "canonical_json v = Inr bs \<Longrightarrow> is_json v \<and> bs = encode_ascii (dumps v)" for v bs
    by (auto simp: canonical_json_def split: if_splits)
  show ?thesis
    using assms unfolding check_signature_def sig pyval.case ok_simps canonical_signed_bytes_def
    by (elim exE conjE) (drule j, auto dest: exact_base64_ok)
qed

text \<open>The steps of \<open>verify_registry\<close> that accepted a document.\<close>

lemma verify_registry_steps:
  assumes "verify_registry ed25519 clock trusted now age hist text = Inr s"
  obtains document key where
    "json_loads False text = Inr (PDict document)"
    "dget document ''schema'' = PStr REGISTRY_SCHEMA" "same_keys document TOP_LEVEL_KEYS"
    "trusted (ps_signing_key_id s) = Some key" "length key = 32"
    "dget document ''signing_key_id'' = PStr (ps_signing_key_id s)"
    "check_signature ed25519 key document = Inr ()"
    "check_release (dget document ''release'') = Inr (ps_release s)"
    "whole_seconds (ps_generated_at s)" "whole_seconds (ps_valid_from s)" "whole_seconds (ps_valid_until s)"
    "check_window (ps_generated_at s) (ps_valid_from s) (ps_valid_until s)
       (case hist of Some h \<Rightarrow> h | None \<Rightarrow> (case now of Some n \<Rightarrow> n | None \<Rightarrow> clock))
       (case now of Some n \<Rightarrow> n | None \<Rightarrow> clock) (hist \<noteq> None) age = Inr ()"
    "parse_profiles (ps_valid_from s) (ps_valid_until s)
       (case hist of Some h \<Rightarrow> h | None \<Rightarrow> (case now of Some n \<Rightarrow> n | None \<Rightarrow> clock))
       (dget document ''profiles'') = Inr (ps_profiles s)"
    "parse_receipt_keys (ps_valid_from s) (ps_valid_until s)
       (case hist of Some h \<Rightarrow> h | None \<Rightarrow> (case now of Some n \<Rightarrow> n | None \<Rightarrow> clock))
       (dget document ''receipt_signing_keys'') = Inr (ps_receipt_signing_keys s)"
    "canonical_json (PDict document) = Inr (canonical_document s)"
    "ps_digest s = sha256_label (canonical_document s)" "signature_verified s"
proof -
  have kid: "check_registry_id v m = Inr kid \<Longrightarrow> v = PStr kid" for v m kid
    by (cases v) (auto split: if_splits)
  have trust: "(case trusted kid of
             Some key \<Rightarrow> if length key = 32 then Inr key else Inl e | None \<Rightarrow> Inl e) = Inr key
      \<Longrightarrow> trusted kid = Some key \<and> length key = 32" for kid key and e :: registry_error
    by (auto split: option.splits if_splits)
  show thesis
    using assms unfolding verify_registry_def Let_def ok_simps
    apply (elim exE conjE)
    apply (frule kid, drule trust, drule parse_registry_json_ok)
    apply (rule that)
    apply (auto intro: timestamp_ok)
    done
qed

lemma verify_registry_snapshot_ok:
  assumes "verify_registry ed25519 clock trusted now age hist text = Inr s"
  shows "snapshot_ok s"
  using assms
  by (rule verify_registry_steps)
    (simp add: snapshot_ok_def check_release_ok parse_profiles_ok parse_receipt_keys_ok)

lemma whole_seconds_utc: "whole_seconds d \<Longrightarrow> is_utc d"
  by (simp add: whole_seconds_def)

lemma profile_ok_times:
  assumes "profile_ok s p"
  shows "profile_times_ok p"
  using assms
  by (cases "pp_retire_at p") (simp_all add: profile_ok_def profile_times_ok_def whole_seconds_utc)

lemma snapshot_times_ok:
  "snapshot_ok s \<Longrightarrow> list_all profile_times_ok (eligible_profiles s w)"
  by (auto simp: snapshot_ok_def eligible_profiles_def list_all_iff intro: profile_ok_times)

section \<open>The stored texts can be read back\<close>

lemma py_dict_distinct:
  assumes "distinct (map fst kvs)"
  shows "py_dict kvs = kvs"
proof -
  have step: "k \<notin> fst ` set d \<Longrightarrow> dict_set d k v = d @ [(k, v)]" for d :: "(string \<times> 'a) list" and k v
    by (induction d k v rule: dict_set.induct) auto
  have "distinct (map fst (d @ kvs)) \<Longrightarrow> foldl (\<lambda>d (k, v). dict_set d k v) d kvs = d @ kvs"
    for d :: "(string \<times> 'a) list"
  proof (induction kvs arbitrary: d)
    case (Cons kv kvs)
    obtain k v where kv: "kv = (k, v)" by (cases kv)
    with Cons.prems have "k \<notin> fst ` set d" by auto
    then show ?case using Cons.IH [of "d @ [(k, v)]"] Cons.prems by (simp add: kv step)
  qed simp
  from this [of "[]"] assms show ?thesis by (simp add: py_dict_def)
qed

definition profile_state :: "PolicyProfile \<Rightarrow> string \<times> pyval" where
  "profile_state p = (profile_id p, PDict
       [(''status'', PStr (pp_status p)),
        (''status_changed_at'', PStr (format_seconds (pp_status_changed_at p)))])"

definition key_state :: "ReceiptVerificationKey \<Rightarrow> string \<times> pyval" where
  "key_state k = (key_id k, PDict
       [(''status'', PStr (rk_status k)),
        (''status_changed_at'', PStr (format_seconds (rk_status_changed_at k))),
        (''public_key_base64'', PStr (b64encode (public_key k))),
        (''valid_from'', PStr (format_seconds (rk_valid_from k))),
        (''valid_until'', PStr (format_seconds (rk_valid_until k)))])"

lemma snapshot_states:
  assumes "snapshot_ok s"
  shows "snapshot_profile_states s = map profile_state (ps_profiles s)"
    and "snapshot_key_states s = map key_state (ps_receipt_signing_keys s)"
proof -
  have d: "distinct (map fst (map profile_state (ps_profiles s)))"
    "distinct (map fst (map key_state (ps_receipt_signing_keys s)))"
    using assms by (simp_all add: snapshot_ok_def profile_state_def key_state_def comp_def)
  show "snapshot_profile_states s = map profile_state (ps_profiles s)"
    using py_dict_distinct [OF d(1)] unfolding snapshot_profile_states_def profile_state_def .
  show "snapshot_key_states s = map key_state (ps_receipt_signing_keys s)"
    using py_dict_distinct [OF d(2)] unfolding snapshot_key_states_def key_state_def .
qed

text \<open>Registry identifiers are written without escapes.\<close>

lemma id_char_plain:
  assumes "is_lower c \<or> is_digit c \<or> c \<in> {CHR ''.'', CHR ''_'', CHR ''-''}"
  shows "json_escape c = [c]"
  using assms by (auto simp: json_escape_def is_lower_def is_digit_def Let_def)

lemma registry_id_text:
  assumes "REGISTRY_ID_RE s"
  shows "length (json_string s) \<le> 130" "length s \<le> 128"
proof -
  have len: "length s \<le> 128" and ne: "s \<noteq> []"
    and c: "is_lower (hd s) \<or> is_digit (hd s)"
      "\<forall>c \<in> set (tl s). is_lower c \<or> is_digit c \<or> c \<in> {CHR ''.'', CHR ''_'', CHR ''-''}"
    using assms by (auto simp: REGISTRY_ID_RE_def list_all_iff)
  have "\<forall>c \<in> set s. json_escape c = [c]"
    using ne c by (cases s) (auto intro: id_char_plain)
  then have "concat (map json_escape s) = s" by (induction s) auto
  then show "length (json_string s) \<le> 130" using len by (simp add: json_string_def)
  show "length s \<le> 128" by (rule len)
qed

lemma length_format_seconds:
  assumes "whole_seconds d"
  shows "length (format_seconds d) = 20"
proof -
  have "seconds_pattern (format_seconds d)"
    using parse_format_seconds [OF assms] by (auto simp: parse_seconds_def split: if_splits)
  then show ?thesis by (simp add: seconds_pattern_def)
qed

lemma length_b64encode: "length (b64encode bs) \<le> 4 * ((length bs + 2) div 3)"
proof (induction bs rule: b64encode.induct)
  case (4 a b c rest)
  then have "length (b64encode (a # b # c # rest)) \<le> 4 * (1 + (length rest + 2) div 3)" by simp
  also have "1 + (length rest + 2) div 3 = (length (a # b # c # rest) + 2) div 3" by simp
  finally show ?case .
qed simp_all

lemma length_dumps_dict:
  assumes "\<forall>(k, v) \<in> set kvs. length (json_member (k, dumps v)) + 1 \<le> b" "length kvs \<le> n"
  shows "length (dumps (PDict kvs)) \<le> 2 + n * b"
proof -
  let ?ts = "map (\<lambda>(k, v). json_member (k, dumps v)) (sort_key fst kvs)"
  have "(\<Sum>t\<leftarrow>?ts. length t + 1) \<le> (\<Sum>t\<leftarrow>?ts. b)"
    using assms(1) by (intro sum_list_mono) auto
  also have "\<dots> = length kvs * b" by (simp add: sum_list_triv comp_def)
  also have "\<dots> \<le> n * b" using assms(2) by simp
  finally show ?thesis
    using length_join_comma_le [of ?ts] by (simp add: dumps_PDict_sorted del: dumps.simps)
qed

lemma status_lengths:
  "t \<in> set PROFILE_STATUSES \<Longrightarrow> length t \<le> 8" "t \<in> set RECEIPT_KEY_STATUSES \<Longrightarrow> length t \<le> 8"
  by (auto simp: PROFILE_STATUSES_def RECEIPT_KEY_STATUSES_def)

lemma profile_state_size:
  assumes "profile_ok s p"
  shows "length (json_member (fst (profile_state p), dumps (snd (profile_state p)))) + 1 \<le> 500"
proof -
  have "length (dumps (snd (profile_state p))) \<le> text_bound (snd (profile_state p))"
    by (rule dumps_text_bound) (simp add: profile_state_def)
  also have "\<dots> \<le> 340"
    using assms status_lengths(1) [of "pp_status p"]
    by (simp add: profile_state_def profile_ok_def length_format_seconds)
  finally show ?thesis
    using registry_id_text(1) [of "profile_id p"] assms
    by (simp add: json_member_def profile_ok_def profile_state_def del: dumps.simps)
qed

lemma key_state_size:
  assumes "receipt_key_ok s k"
  shows "length (json_member (fst (key_state k), dumps (snd (key_state k)))) + 1 \<le> 1500"
proof -
  have "length (dumps (snd (key_state k))) \<le> text_bound (snd (key_state k))"
    by (rule dumps_text_bound) (simp add: key_state_def)
  also have "\<dots> \<le> 1300"
    using assms status_lengths(2) [of "rk_status k"] length_b64encode [of "public_key k"]
    by (simp add: key_state_def receipt_key_ok_def length_format_seconds)
  finally show ?thesis
    using registry_id_text(1) [of "key_id k"] assms
    by (simp add: json_member_def receipt_key_ok_def key_state_def del: dumps.simps)
qed

lemma canon_text_object:
  assumes "\<forall>(k, w) \<in> set kvs. \<exists>s. w = PStr s"
  shows "canon (PDict kvs) = PDict (sort_key fst kvs)"
proof -
  have "map (\<lambda>(k, v). (k, canon v)) (sort_key fst kvs) = sort_key fst kvs"
    by (rule map_idI) (use assms in fastforce)
  then show ?thesis by (simp only: canon_PDict_sorted)
qed

lemma same_keys_sort_key [simp]: "same_keys (sort_key fst kvs) ks = same_keys kvs ks"
  by (simp add: same_keys_def)

lemma check_state_sorted:
  "check_profile_state (k, PDict (sort_key fst st)) = check_profile_state (k, PDict st)"
  "check_key_state (k, PDict (sort_key fst st)) = check_key_state (k, PDict st)"
  by (simp_all add: check_profile_state_def check_key_state_def)

lemma check_profile_state_canon:
  assumes "profile_ok s p"
  shows "check_profile_state (fst (profile_state p), canon (snd (profile_state p))) = Inr ()"
proof -
  have "canon (snd (profile_state p)) = PDict (sort_key fst
      [(''status'', PStr (pp_status p)),
       (''status_changed_at'', PStr (format_seconds (pp_status_changed_at p)))])"
    unfolding profile_state_def snd_conv by (rule canon_text_object) simp
  then show ?thesis
    using assms
    by (simp only: check_state_sorted)
      (simp add: check_profile_state_def profile_state_def profile_ok_def same_keys_def parse_format_seconds)
qed

lemma check_key_state_canon:
  assumes "receipt_key_ok s k"
  shows "check_key_state (fst (key_state k), canon (snd (key_state k))) = Inr ()"
proof -
  have "canon (snd (key_state k)) = PDict (sort_key fst
       [(''status'', PStr (rk_status k)),
        (''status_changed_at'', PStr (format_seconds (rk_status_changed_at k))),
        (''public_key_base64'', PStr (b64encode (public_key k))),
        (''valid_from'', PStr (format_seconds (rk_valid_from k))),
        (''valid_until'', PStr (format_seconds (rk_valid_until k)))])"
    unfolding key_state_def snd_conv by (rule canon_text_object) simp
  then show ?thesis
    using assms
    by (simp only: check_state_sorted)
      (simp add: check_key_state_def key_state_def receipt_key_ok_def same_keys_def parse_format_seconds
        exact_base64_def)
qed

lemma decode_states_dumps:
  assumes "is_json (PDict kvs)" "2 * length (dumps (PDict kvs)) \<le> MAX_REGISTRY_BYTES"
  shows "decode_states e (dumps (PDict kvs)) = Inr (map (\<lambda>(k, v). (k, canon v)) (sort_key fst kvs))"
proof -
  have "json_loads True (dumps (PDict kvs)) = Inr (PDict (map (\<lambda>(k, v). (k, canon v)) (sort_key fst kvs)))"
    using loads_dumps [OF assms(1)] by (simp only: canon_PDict_sorted)
  then show ?thesis
    using assms(2) length_utf8_le [of "dumps (PDict kvs)"] by (simp only: decode_states_def) simp
qed

lemma snapshot_states_json:
  "is_json (PDict (snapshot_profile_states s))" "is_json (PDict (snapshot_key_states s))"
  using snapshot_states_text [of s] distinct_snapshot_states [of s]
  by (auto simp: list_all_iff intro: text_object_json)

lemma stored_profiles_decode:
  assumes ok: "snapshot_ok s"
  shows "decode_profile_states (dumps (PDict (snapshot_profile_states s)))
    = Inr (map (\<lambda>(k, v). (k, canon v)) (sort_key fst (snapshot_profile_states s)))"
proof -
  let ?st = "snapshot_profile_states s"
  have p: "\<forall>p \<in> set (ps_profiles s). profile_ok s p" and n: "length (ps_profiles s) \<le> 1024"
    using ok by (simp_all add: snapshot_ok_def MAX_REGISTRY_PROFILES_def)
  have "\<forall>(k, v) \<in> set ?st. length (json_member (k, dumps v)) + 1 \<le> 500"
    using p profile_state_size [of s] by (auto simp only: snapshot_states(1) [OF ok] set_map ball_simps split_beta)
  then have "length (dumps (PDict ?st)) \<le> 2 + 1024 * 500"
    by (rule length_dumps_dict) (simp add: snapshot_states(1) [OF ok] n)
  then have "decode_states PERSISTED_PROFILE_ERROR (dumps (PDict ?st))
      = Inr (map (\<lambda>(k, v). (k, canon v)) (sort_key fst ?st))"
    by (intro decode_states_dumps snapshot_states_json) (simp add: MAX_REGISTRY_BYTES_def)
  moreover have "\<forall>kv \<in> set (map (\<lambda>(k, v). (k, canon v)) (sort_key fst ?st)). check_profile_state kv = Inr ()"
    using p check_profile_state_canon [of s]
    by (auto simp only: snapshot_states(1) [OF ok] set_map set_sort ball_simps split_beta fst_conv snd_conv)
  ultimately show ?thesis by (simp add: decode_profile_states_def ok_simps)
qed

lemma stored_keys_decode:
  assumes ok: "snapshot_ok s"
  shows "decode_receipt_key_states (dumps (PDict (snapshot_key_states s)))
    = Inr (map (\<lambda>(k, v). (k, canon v)) (sort_key fst (snapshot_key_states s)))"
proof -
  let ?st = "snapshot_key_states s"
  have p: "\<forall>k \<in> set (ps_receipt_signing_keys s). receipt_key_ok s k"
    and n: "length (ps_receipt_signing_keys s) \<le> 128"
    using ok by (simp_all add: snapshot_ok_def)
  have "\<forall>(k, v) \<in> set ?st. length (json_member (k, dumps v)) + 1 \<le> 1500"
    using p key_state_size [of s] by (auto simp only: snapshot_states(2) [OF ok] set_map ball_simps split_beta)
  then have "length (dumps (PDict ?st)) \<le> 2 + 128 * 1500"
    by (rule length_dumps_dict) (simp add: snapshot_states(2) [OF ok] n)
  then have "decode_states PERSISTED_KEY_ERROR (dumps (PDict ?st))
      = Inr (map (\<lambda>(k, v). (k, canon v)) (sort_key fst ?st))"
    by (intro decode_states_dumps snapshot_states_json) (simp add: MAX_REGISTRY_BYTES_def)
  moreover have "\<forall>kv \<in> set (map (\<lambda>(k, v). (k, canon v)) (sort_key fst ?st)). check_key_state kv = Inr ()"
    using p check_key_state_canon [of s]
    by (auto simp only: snapshot_states(2) [OF ok] set_map set_sort ball_simps split_beta fst_conv snd_conv)
  ultimately show ?thesis by (simp add: decode_receipt_key_states_def ok_simps)
qed

section \<open>A row written by a verified snapshot\<close>

lemma new_row_total:
  "\<exists>r. new_row t s = Inr r"
  using snapshot_states_json [of s] by (simp add: new_row_def canonical_json_def del: is_json.simps)

lemma new_row_fields:
  assumes "new_row t s = Inr r"
  shows "row_release r = ps_release s" "row_digest r = ps_digest s"
    "profile_states_json r = dumps (PDict (snapshot_profile_states s))"
    "receipt_key_states_json r = dumps (PDict (snapshot_key_states s))"
    "row_generated_at r = format_seconds (ps_generated_at s)"
  using assms unfolding new_row_def ok_simps by auto

text \<open>What \<open>accept\<close> does on a row written by a verified snapshot, by release.\<close>

lemma accept_on_stored:
  assumes ok: "snapshot_ok s0" and row: "new_row t0 s0 = Inr r"
    and floor: "\<forall>m. minimum_release cfg = Some m \<longrightarrow> m \<le> ps_release s"
  shows "accept cfg t (Some r) s =
    (if ps_release s = ps_release s0
     then (if ps_digest s = ps_digest s0 then Inr r
           else Inl (PolicyRegistryError ''registry release was equivocated''))
     else rbind (check_advance r s
        (map (\<lambda>(k, v). (k, canon v)) (sort_key fst (snapshot_profile_states s0)))
        (map (\<lambda>(k, v). (k, canon v)) (sort_key fst (snapshot_key_states s0)))) (\<lambda>_. new_row t s))"
proof -
  note f = new_row_fields [OF row]
  have "row_generated_at r \<noteq> []"
    using ok length_format_seconds [of "ps_generated_at s0"] by (auto simp: f snapshot_ok_def)
  moreover have "\<not> (case minimum_release cfg of Some m \<Rightarrow> ps_release s < m | None \<Rightarrow> False)"
    using floor by (auto split: option.splits)
  moreover have "decode_profile_states (profile_states_json r)
      = Inr (map (\<lambda>(k, v). (k, canon v)) (sort_key fst (snapshot_profile_states s0)))"
    by (simp only: f stored_profiles_decode [OF ok])
  moreover have "decode_receipt_key_states (receipt_key_states_json r)
      = Inr (map (\<lambda>(k, v). (k, canon v)) (sort_key fst (snapshot_key_states s0)))"
    by (simp only: f stored_keys_decode [OF ok])
  ultimately show ?thesis
    by (simp only: accept_def if_False option.case rbind.simps f)
qed

lemma rollback_error:
  "ps_release s < row_release r \<Longrightarrow>
   check_advance r s ps ks = Inl (PolicyRegistryError ''registry rollback rejected'')"
  by (simp add: check_advance_def)

section \<open>Canonical order does not matter to the readers\<close>

lemma dget_canon: "dget (map (\<lambda>(k, v). (k, canon v)) kvs) k = canon (dget kvs k)"
  by (simp add: dget_def map_of_map comp_def split: option.splits)

lemma loads_object:
  assumes "is_json (PDict kvs)"
  shows "json_loads fl (dumps (PDict kvs)) = Inr (PDict (map (\<lambda>(k, v). (k, canon v)) (sort_key fst kvs)))"
  using loads_dumps [OF assms] by (simp only: canon_PDict_sorted)

lemma signed_part_canon:
  "dumps (PDict (filter (\<lambda>(k, v). k \<noteq> c) (map (\<lambda>(k, v). (k, canon v)) (sort_key fst kvs))))
   = dumps (PDict (filter (\<lambda>(k, v). k \<noteq> c) kvs))"
proof -
  have "filter (\<lambda>(k, v). k \<noteq> c) (map (\<lambda>(k, v). (k, canon v)) (sort_key fst kvs))
      = map (\<lambda>(k, v). (k, canon v)) (sort_key fst (filter (\<lambda>(k, v). k \<noteq> c) kvs))"
    by (simp add: filter_map comp_def split_beta' filter_sort)
  then have "PDict (filter (\<lambda>(k, v). k \<noteq> c) (map (\<lambda>(k, v). (k, canon v)) (sort_key fst kvs)))
      = canon (PDict (filter (\<lambda>(k, v). k \<noteq> c) kvs))"
    by (simp only: canon_PDict_sorted)
  then show ?thesis by (simp only: dumps_canon)
qed

lemma is_json_filter: "is_json (PDict kvs) \<Longrightarrow> is_json (PDict (filter P kvs))"
  by (auto simp: list_all_iff distinct_map_filter)

text \<open>A document signed by \<open>sign_registry\<close> and written out passes the signature check when read.\<close>

lemma signed_document_checks:
  assumes sign: "sign_registry ed25519_sign document private_key = Inr sdoc"
    and law: "\<And>m. length (ed25519_sign private_key m) = 64 \<and> ed25519 key (ed25519_sign private_key m) m"
  shows "json_loads fl (dumps (PDict sdoc)) = Inr (PDict (map (\<lambda>(k, v). (k, canon v)) (sort_key fst sdoc)))"
    and "check_signature ed25519 key (map (\<lambda>(k, v). (k, canon v)) (sort_key fst sdoc)) = Inr ()"
proof -
  let ?m = "encode_ascii (dumps (PDict document))"
  let ?sig = "[(''algorithm'', PStr ''ed25519''), (''value_base64'', PStr (b64encode (ed25519_sign private_key ?m)))]"
  let ?read = "map (\<lambda>(k, v). (k, canon v)) (sort_key fst sdoc)"
  have d: "sdoc = document @ [(''signature'', PDict ?sig)]" and new: "''signature'' \<notin> set (map fst document)"
    and j: "is_json (PDict document)"
    using sign by (auto simp: sign_registry_def canonical_json_def ok_simps split: if_splits)
  have js: "is_json (PDict sdoc)" using j new by (auto simp: d list_all_iff)
  then show "json_loads fl (dumps (PDict sdoc)) = Inr (PDict ?read)" by (rule loads_object)
  have "filter (\<lambda>(k, v). k \<noteq> ''signature'') sdoc = document"
    using new by (force simp: d filter_id_conv)
  then have bytes: "canonical_signed_bytes ?read = Inr ?m"
    using is_json_filter [OF is_json_canon [OF js, unfolded canon_PDict_sorted]] signed_part_canon [of "''signature''" sdoc]
    by (simp add: canonical_signed_bytes_def canonical_json_def del: dumps.simps is_json.simps)
  have "map_of document ''signature'' = None" using new by (simp add: map_of_eq_None_iff)
  then have "dget sdoc ''signature'' = PDict ?sig" by (simp add: d dget_def map_add_def)
  then have "dget ?read ''signature'' = PDict (sort_key fst ?sig)"
    by (simp only: dget_canon dget_sort_key) (rule canon_text_object, simp)
  then show "check_signature ed25519 key ?read = Inr ()"
    using law [of ?m] bytes
    by (simp add: check_signature_def SIGNATURE_KEYS_def same_keys_def exact_base64_def del: sort_key_simps)
qed

end
