(* ===== verification/Registry_Fixtures.thy ===== *)
theory Registry_Fixtures
  imports Registry_Snapshot
begin

text \<open>
  Concrete registries for the witnesses: two snapshots, the rows they leave, and a signed
  document that verifies, with a stand-in for the signature scheme.
\<close>

section \<open>A concrete registry\<close>

definition ex_time :: "nat \<Rightarrow> datetime" where
  "ex_time day = Datetime 2026 1 day 0 0 0 0 (Some 0)"

definition ex_profile :: "string \<Rightarrow> nat \<Rightarrow> PolicyProfile" where
  "ex_profile status day =
    \<lparr>profile_id = ''tdx-a'', pp_kind = ''cpu_tdx'', pp_status = status, pp_status_changed_at = ex_time day,
     pp_valid_from = ex_time 1, pp_valid_until = ex_time 30,
     pp_retire_at = (if status = ''active'' then None else Some (ex_time day)),
     pp_measurements = [''m''], pp_runtime_measurements = [], pp_allowed_firmware = [], pp_min_tcb = 0,
     pp_tdx_allowed_tcb_statuses = [''UpToDate''], pp_tdx_allowed_advisories = [], pp_metadata = PProxy []\<rparr>"

definition ex_key :: ReceiptVerificationKey where
  "ex_key =
    \<lparr>key_id = ''key-a'', public_key = replicate 32 7, rk_status = ''active'', rk_status_changed_at = ex_time 1,
     rk_valid_from = ex_time 1, rk_valid_until = ex_time 30, rk_revoked_at = None,
     replacement_key_id = None, rk_metadata = PProxy []\<rparr>"

definition ex_snapshot :: "int \<Rightarrow> string \<Rightarrow> nat \<Rightarrow> bytes \<Rightarrow> PolicyRegistrySnapshot" where
  "ex_snapshot release status day document =
    \<lparr>ps_release = release, ps_generated_at = ex_time 1, ps_valid_from = ex_time 1,
     ps_valid_until = ex_time 31, ps_signing_key_id = ''root'', ps_digest = sha256_label document,
     ps_profiles = [ex_profile status day], ps_receipt_signing_keys = [ex_key],
     ps_metadata = PProxy [], canonical_document = document, signature_verified = True\<rparr>"

lemma ex_time_facts:
  "whole_seconds (ex_time 1)" "whole_seconds (ex_time 2)" "whole_seconds (ex_time 30)"
  "whole_seconds (ex_time 31)"
  "dt_le (ex_time 1) (ex_time 1)" "dt_le (ex_time 1) (ex_time 2)" "dt_less (ex_time 1) (ex_time 30)"
  "dt_less (ex_time 2) (ex_time 30)" "dt_le (ex_time 30) (ex_time 31)"
  by (simp_all add: ex_time_def whole_seconds_def is_utc_def valid_datetime_def days_in_month_def
      dt_le_def dt_less_def dt_key_def)

lemma ex_time_texts:
  "format_seconds (ex_time 1) = ''2026-01-01T00:00:00Z''"
  "format_seconds (ex_time 2) = ''2026-01-02T00:00:00Z''"
  by (simp_all add: ex_time_def format_seconds_def pad_dec_def show_nat.simps dec_digit_def)

lemma ex_snapshot_ok:
  assumes "release \<in> {1, 2}" "(status, day) \<in> {(''active'', 1), (''revoked'', 2)}"
  shows "snapshot_ok (ex_snapshot release status day document)"
proof -
  have "REGISTRY_ID_RE ''tdx-a''" "REGISTRY_ID_RE ''key-a''"
    by (simp_all add: REGISTRY_ID_RE_def text_simps)
  then show ?thesis
    using assms
    by (elim insertE emptyE; simp add: snapshot_ok_def ex_snapshot_def profile_ok_def ex_profile_def
        receipt_key_ok_def ex_key_def ex_time_facts PROFILE_KINDS_def PROFILE_STATUSES_def RECEIPT_KEY_STATUSES_def
        MAX_REGISTRY_PROFILES_def MAX_SQLITE_INTEGER_def del: One_nat_def)
qed

text \<open>Release 1 with an active profile, then release 2 that revokes it.\<close>

definition ex_config :: registry_config where
  "ex_config = \<lparr>minimum_release = Some 1, pinned_release = None, pinned_digest = None\<rparr>"

definition ex_row :: "PolicyRegistrySnapshot \<Rightarrow> registry_row" where
  "ex_row s = \<lparr>row_release = ps_release s, row_digest = ps_digest s,
     profile_states_json = dumps (PDict (snapshot_profile_states s)),
     receipt_key_states_json = dumps (PDict (snapshot_key_states s)),
     accepted_at = ''t'', row_generated_at = format_seconds (ps_generated_at s)\<rparr>"

lemma ex_new_row: "new_row ''t'' s = Inr (ex_row s)"
  using snapshot_states_json [of s]
  by (simp add: new_row_def canonical_json_def ex_row_def del: is_json.simps dumps.simps)

definition ex_s1 :: PolicyRegistrySnapshot where "ex_s1 = ex_snapshot 1 ''active'' 1 []"

definition ex_s2 :: PolicyRegistrySnapshot where "ex_s2 = ex_snapshot 2 ''revoked'' 2 [1]"

lemma ex_snapshots_ok: "snapshot_ok ex_s1" "snapshot_ok ex_s2"
  by (simp_all add: ex_s1_def ex_s2_def ex_snapshot_ok)

lemma ex_states:
  "snapshot_profile_states ex_s1 = [profile_state (ex_profile ''active'' 1)]"
  "snapshot_profile_states ex_s2 = [profile_state (ex_profile ''revoked'' 2)]"
  "snapshot_key_states ex_s1 = [key_state ex_key]" "snapshot_key_states ex_s2 = [key_state ex_key]"
  by (simp_all add: snapshot_states ex_snapshots_ok) (simp_all add: ex_s1_def ex_s2_def ex_snapshot_def)

lemma ex_state_fields:
  "state_field (canon (snd (profile_state (ex_profile st d)))) ''status'' = st"
  "state_field (canon (snd (profile_state (ex_profile st d)))) ''status_changed_at'' = format_seconds (ex_time d)"
  "state_field (snd (profile_state (ex_profile st d))) ''status'' = st"
  "state_field (snd (profile_state (ex_profile st d))) ''status_changed_at'' = format_seconds (ex_time d)"
  "fst (profile_state (ex_profile st d)) = ''tdx-a''"
  "state_field (canon (snd (key_state k))) f = state_field (snd (key_state k)) f"
  "state_field (snd (key_state ex_key)) ''status'' = ''active''"
  "fst (key_state ex_key) = ''key-a''"
proof -
  have t: "text_object (snd (profile_state p))" "text_object (snd (key_state k))" for p k
    by (simp_all add: text_object_def profile_state_def key_state_def)
  show "state_field (canon (snd (profile_state (ex_profile st d)))) ''status'' = st"
    "state_field (canon (snd (profile_state (ex_profile st d)))) ''status_changed_at'' = format_seconds (ex_time d)"
    "state_field (canon (snd (key_state k))) f = state_field (snd (key_state k)) f"
    by (simp_all only: text_object_field [OF t(1)] text_object_field [OF t(2)])
      (simp_all add: profile_state_def ex_profile_def state_field_def)
qed (simp_all add: profile_state_def ex_profile_def key_state_def ex_key_def state_field_def)

lemma ex_transitions:
  "check_profile_transition [profile_state (ex_profile ''revoked'' 2)]
     (''tdx-a'', canon (snd (profile_state (ex_profile ''active'' 1)))) = Inr ()"
  "check_key_transition [key_state ex_key] (''key-a'', canon (snd (key_state ex_key))) = Inr ()"
  "check_new_active m [(''tdx-a'', v)] [profile_state (ex_profile ''revoked'' 2)] = Inr ()"
  "check_new_active m [(''key-a'', v)] [key_state ex_key] = Inr ()"
proof -
  have m: "map_of [profile_state (ex_profile ''revoked'' 2)] ''tdx-a'' = Some (snd (profile_state (ex_profile ''revoked'' 2)))"
    "map_of [key_state ex_key] ''key-a'' = Some (snd (key_state ex_key))"
    by (simp_all add: profile_state_def ex_profile_def key_state_def ex_key_def)
  show "check_profile_transition [profile_state (ex_profile ''revoked'' 2)]
     (''tdx-a'', canon (snd (profile_state (ex_profile ''active'' 1)))) = Inr ()"
    unfolding check_profile_transition_def fst_conv snd_conv m option.case Let_def ex_state_fields ex_time_texts
    by (simp add: PROFILE_TRANSITIONS_def)
  show "check_key_transition [key_state ex_key] (''key-a'', canon (snd (key_state ex_key))) = Inr ()"
    unfolding check_key_transition_def fst_conv snd_conv m option.case Let_def ex_state_fields
    by (simp add: RECEIPT_KEY_TRANSITIONS_def)
qed (simp_all add: check_new_active_def split_beta ex_state_fields)

lemma ex_check_advance:
  "check_advance (ex_row ex_s1) ex_s2
     (map (\<lambda>(k, v). (k, canon v)) (sort_key fst (snapshot_profile_states ex_s1)))
     (map (\<lambda>(k, v). (k, canon v)) (sort_key fst (snapshot_key_states ex_s1))) = Inr ()"
proof -
  have g: "check_generated (ex_row ex_s1) ex_s2 = Inr ()"
    by (simp add: check_generated_def ex_row_def ex_s1_def ex_s2_def ex_snapshot_def parse_format_seconds ex_time_facts
        del: One_nat_def)
  have r: "row_release (ex_row ex_s1) \<le> ps_release ex_s2"
    by (simp add: ex_row_def ex_s1_def ex_s2_def ex_snapshot_def)
  have s: "map (\<lambda>(k, v). (k, canon v)) (sort_key fst [kv]) = [(fst kv, canon (snd kv))]" for kv
    by (cases kv) simp
  show ?thesis
    unfolding check_advance_def ex_states s ex_state_fields using r g
    by (simp only: ex_transitions list.map checks.simps rbind.simps require_True)
qed

lemma ex_releases [simp]: "ps_release ex_s1 = 1" "ps_release ex_s2 = 2"
  by (simp_all add: ex_s1_def ex_s2_def ex_snapshot_def)

lemma ex_accept: "accept ex_config ''t'' (Some (ex_row ex_s1)) ex_s2 = Inr (ex_row ex_s2)"
  using accept_on_stored [OF ex_snapshots_ok(1) ex_new_row, of ex_config ex_s2 "''t''"]
  by (simp add: ex_check_advance ex_new_row ex_releases ex_config_def)

lemma ex_transact: "store_transact\<^sup>*\<^sup>* (ex_row ex_s1) (ex_row ex_s2)"
  using ex_accept by (intro r_into_rtranclp) (auto simp: store_transact_def)

lemma ex_views:
  "view_profiles (abs_row (ex_row ex_s2)) ''tdx-a'' = Some (''revoked'', format_seconds (ex_time 2))"
  "view_keys (abs_row (ex_row ex_s1)) ''key-a'' = Some (''active'', format_seconds (ex_time 1),
     b64encode (replicate 32 7), format_seconds (ex_time 1), format_seconds (ex_time 30))"
  by (simp_all add: new_row_view [OF ex_new_row] ex_states profile_state_def key_state_def ex_profile_def
      ex_key_def profile_view_def key_view_def state_field_def)

section \<open>A concrete document\<close>

definition ex_profile_document :: "(string \<times> pyval) list" where
  "ex_profile_document =
    [(''id'', PStr ''tdx-a''), (''kind'', PStr ''cpu_tdx''), (''status'', PStr ''active''),
     (''status_changed_at'', PStr (format_seconds (ex_time 1))),
     (''valid_from'', PStr (format_seconds (ex_time 1))), (''valid_until'', PStr (format_seconds (ex_time 30))),
     (''retire_at'', PNone), (''measurements'', PList [PStr ''m'']), (''runtime_measurements'', PList []),
     (''allowed_firmware'', PList []), (''min_tcb'', PInt 0),
     (''tdx_allowed_tcb_statuses'', PList [PStr ''UpToDate'']), (''tdx_allowed_advisories'', PList []),
     (''metadata'', PDict [])]"

definition ex_unsigned :: "(string \<times> pyval) list" where
  "ex_unsigned =
    [(''schema'', PStr REGISTRY_SCHEMA), (''release'', PInt 1),
     (''generated_at'', PStr (format_seconds (ex_time 1))), (''valid_from'', PStr (format_seconds (ex_time 1))),
     (''valid_until'', PStr (format_seconds (ex_time 31))), (''signing_key_id'', PStr ''root''),
     (''receipt_signing_keys'', PList []), (''profiles'', PList [PDict ex_profile_document]),
     (''metadata'', PDict [])]"

text \<open>A stand-in for the package: a signature is the message padded or cut to 64 bytes.\<close>

definition toy_sign :: "bytes \<Rightarrow> bytes \<Rightarrow> bytes" where
  "toy_sign key message = take 64 (message @ replicate 64 0)"

definition toy_verify :: "bytes \<Rightarrow> bytes \<Rightarrow> bytes \<Rightarrow> bool" where
  "toy_verify key signature message \<longleftrightarrow> signature = toy_sign key message"

definition ex_document :: "(string \<times> pyval) list" where
  "ex_document = ex_unsigned @ [(''signature'', PDict
     [(''algorithm'', PStr ''ed25519''),
      (''value_base64'', PStr (b64encode (toy_sign [] (encode_ascii (dumps (PDict ex_unsigned))))))])]"

definition ex_text :: string where "ex_text = dumps (PDict ex_document)"

lemma ex_sign: "sign_registry toy_sign ex_unsigned (replicate 32 0) = Inr ex_document"
proof -
  have "is_json (PDict ex_unsigned)"
    by (simp add: ex_unsigned_def ex_profile_document_def int_digits_def max_str_digits_def)
  moreover have "''signature'' \<notin> set (map fst ex_unsigned)" by (simp add: ex_unsigned_def)
  ultimately show ?thesis
    by (simp add: sign_registry_def canonical_json_def ex_document_def toy_sign_def del: dumps.simps is_json.simps)
qed

lemma toy_law:
  "length (toy_sign key m) = 64 \<and> toy_verify pub (toy_sign key m) m"
  by (simp add: toy_sign_def toy_verify_def)

lemmas ex_signed = signed_document_checks [of toy_sign ex_unsigned "replicate 32 0" ex_document toy_verify, OF ex_sign toy_law]

lemma ex_profile_reads:
  "parse_profile (ex_time 1) (ex_time 31) (canon (PDict ex_profile_document)) = Inr (ex_profile ''active'' 1)"
proof -
  have keys: "same_keys (map (\<lambda>(k, v). (k, canon v)) (sort_key fst ex_profile_document)) PROFILE_KEYS"
    by (simp add: same_keys_def image_image split_beta PROFILE_KEYS_def) (auto simp: ex_profile_document_def)
  have id: "REGISTRY_ID_RE ''tdx-a''" by (simp add: REGISTRY_ID_RE_def text_simps)
  show ?thesis
    unfolding canon_PDict_sorted parse_profile_def pyval.case dget_canon dget_sort_key
    using keys id
    by (simp add: ex_profile_document_def PROFILE_KINDS_def PROFILE_STATUSES_def parse_format_seconds
        ex_time_facts optional_timestamp_def check_retire_def MAX_SQLITE_INTEGER_def string_list_def
        MAX_POLICY_LIST_ITEMS_def validate_metadata_def MAX_METADATA_NODES_def ex_profile_def
        del: One_nat_def)
qed

definition ex_verified :: PolicyRegistrySnapshot where
  "ex_verified =
    \<lparr>ps_release = 1, ps_generated_at = ex_time 1, ps_valid_from = ex_time 1,
     ps_valid_until = ex_time 31, ps_signing_key_id = ''root'',
     ps_digest = sha256_label (encode_ascii ex_text),
     ps_profiles = [ex_profile ''active'' 1], ps_receipt_signing_keys = [],
     ps_metadata = PProxy [], canonical_document = encode_ascii ex_text, signature_verified = True\<rparr>"

definition ex_trusted :: "string \<rightharpoonup> bytes" where
  "ex_trusted = [''root'' \<mapsto> replicate 32 0]"

lemma ex_document_read:
  "parse_registry_json ex_text = Inr (map (\<lambda>(k, v). (k, canon v)) (sort_key fst ex_document))"
proof -
  have "plain_json (PDict ex_document)"
    by (simp add: ex_document_def ex_unsigned_def ex_profile_document_def)
  then have "length ex_text \<le> text_bound (PDict ex_document)" unfolding ex_text_def by (rule dumps_text_bound)
  also have "\<dots> \<le> 20000"
    using length_b64encode [of "toy_sign [] (encode_ascii (dumps (PDict ex_unsigned)))"] toy_law [of "[]"]
    by (simp add: ex_document_def ex_unsigned_def ex_profile_document_def REGISTRY_SCHEMA_def
        int_digits_def length_format_seconds ex_time_facts del: dumps.simps One_nat_def)
  finally have "length (utf8 ex_text) \<le> 40000" using length_utf8_le [of ex_text] by linarith
  moreover have "json_loads False ex_text = Inr (PDict (map (\<lambda>(k, v). (k, canon v)) (sort_key fst ex_document)))"
    unfolding ex_text_def by (rule ex_signed(1))
  ultimately show ?thesis by (simp add: parse_registry_json_def MAX_REGISTRY_BYTES_def)
qed

lemma ex_fields:
  "dget ex_document ''schema'' = PStr REGISTRY_SCHEMA" "dget ex_document ''release'' = PInt 1"
  "dget ex_document ''generated_at'' = PStr (format_seconds (ex_time 1))"
  "dget ex_document ''valid_from'' = PStr (format_seconds (ex_time 1))"
  "dget ex_document ''valid_until'' = PStr (format_seconds (ex_time 31))"
  "dget ex_document ''signing_key_id'' = PStr ''root''"
  "dget ex_document ''receipt_signing_keys'' = PList []"
  "dget ex_document ''profiles'' = PList [PDict ex_profile_document]"
  "dget ex_document ''metadata'' = PDict []"
  by (simp_all add: ex_document_def ex_unsigned_def)

lemma ex_verify:
  "verify_registry toy_verify clock ex_trusted (Some (ex_time 2)) 86400 None ex_text = Inr ex_verified"
proof -
  let ?read = "map (\<lambda>(k, v). (k, canon v)) (sort_key fst ex_document)"
  have keys: "same_keys ?read TOP_LEVEL_KEYS"
    by (simp add: same_keys_def image_image split_beta TOP_LEVEL_KEYS_def)
      (auto simp: ex_document_def ex_unsigned_def)
  have id: "REGISTRY_ID_RE ''root''" by (simp add: REGISTRY_ID_RE_def text_simps)
  have sig: "check_signature toy_verify (replicate 32 0) ?read = Inr ()"
    by (rule ex_signed(2))
  have json: "canonical_json (PDict ?read) = Inr (encode_ascii ex_text)"
  proof -
    have j: "is_json (PDict ex_document)"
      by (simp add: ex_document_def ex_unsigned_def ex_profile_document_def int_digits_def max_str_digits_def)
    have "canonical_json (canon (PDict ex_document)) = Inr (encode_ascii ex_text)"
      using is_json_canon [OF j] by (simp only: canonical_json_def if_True dumps_canon ex_text_def)
    then show ?thesis by (simp only: canon_PDict_sorted)
  qed
  have window: "check_window (ex_time 1) (ex_time 1) (ex_time 31) (ex_time 2) (ex_time 2) False 86400 = Inr ()"
  proof -
    have "dt_micros (ex_time 2) = dt_micros (ex_time 1) + 86400 * 1000000"
      by (simp add: dt_micros_def dt_ordinal_def ex_time_def)
    moreover have "dt_less (ex_time 1) (ex_time 31)" "dt_less (ex_time 2) (ex_time 31)"
      by (simp_all add: ex_time_def dt_less_def dt_key_def)
    ultimately show ?thesis
      using ex_time_facts whole_seconds_utc by (simp add: check_window_def)
  qed
  have eff: "\<not> profile_not_effective (ex_time 2) (ex_profile ''active'' 1)"
    by (simp add: profile_not_effective_def ex_profile_def)
  have profiles: "parse_profiles (ex_time 1) (ex_time 31) (ex_time 2) (PList [canon (PDict ex_profile_document)])
      = Inr [ex_profile ''active'' 1]"
    using eff by (simp add: parse_profiles_def ex_profile_reads MAX_REGISTRY_PROFILES_def
        del: canon.simps One_nat_def)
  have ks: "parse_receipt_keys (ex_time 1) (ex_time 31) (ex_time 2) (PList []) = Inr []"
    by (simp add: parse_receipt_keys_def)
  have stamps: "timestamp (PStr (format_seconds (ex_time 1))) n = Inr (ex_time 1)"
    "timestamp (PStr (format_seconds (ex_time 31))) n = Inr (ex_time 31)" for n
    using ex_time_facts by (simp_all add: parse_format_seconds)
  have cs: "canon (PStr t) = PStr t" "canon (PInt i) = PInt i" "canon (PDict []) = PDict []"
    "canon (PList [v]) = PList [canon v]" "canon (PList []) = PList []" for t i v
    by simp_all
  have meta: "validate_metadata (PDict []) n = Inr (PProxy [])" for n
    by (simp add: validate_metadata_def MAX_METADATA_NODES_def)
  have rel: "check_release (PInt 1) = Inr 1" by (simp add: MAX_SQLITE_INTEGER_def)
  have kid: "check_registry_id (PStr ''root'') n = Inr ''root''" for n by (simp add: id)
  have tr: "ex_trusted ''root'' = Some (replicate 32 0)" by (simp add: ex_trusted_def)
  show ?thesis
    unfolding verify_registry_def ex_document_read rbind.simps dget_canon dget_sort_key ex_fields cs
      rel kid tr option.case length_replicate stamps Let_def
    using keys by (simp add: sig window profiles ks json meta ex_verified_def del: canon.simps One_nat_def)
qed

lemma ex_policy:
  "to_policy clock ex_verified (Some (ex_time 2)) None = Inr (granted_policy ex_verified [ex_profile ''active'' 1] None)"
  "production_ready_at (granted_policy ex_verified [ex_profile ''active'' 1] None) (ex_time 2)"
proof -
  have e: "profile_eligible_at (ex_profile ''active'' 1) (ex_time 2)"
    by (simp add: profile_eligible_at_def ex_profile_def ex_time_facts del: One_nat_def)
  have el: "eligible_profiles ex_verified (ex_time 2) = [ex_profile ''active'' 1]"
    using e by (simp add: eligible_profiles_def ex_verified_def ex_profile_def)
  have post: "Policy_post_init (granted_policy ex_verified [ex_profile ''active'' 1] None) = Inr ()"
    by (simp add: Policy_post_init_def granted_policy_def ex_profile_def TDX_POLICY_TOKEN_def text_simps
        TDX_TCB_STATUSES_def ex_verified_def MAX_SQLITE_INTEGER_def)
  have "signature_verified ex_verified" by (simp add: ex_verified_def)
  then show "to_policy clock ex_verified (Some (ex_time 2)) None = Inr (granted_policy ex_verified [ex_profile ''active'' 1] None)"
    using whole_seconds_utc [OF ex_time_facts(2)]
    by (simp add: to_policy_def evaluation_time_def el post Let_def del: One_nat_def)
  have "dt_micros (ex_time 1) \<le> dt_micros (ex_time 2)" "dt_micros (ex_time 2) < dt_micros (ex_time 30)"
    "dt_micros (ex_time 2) < dt_micros (ex_time 31)"
    by (simp_all add: dt_micros_def dt_ordinal_def ex_time_def)
  then show "production_ready_at (granted_policy ex_verified [ex_profile ''active'' 1] None) (ex_time 2)"
    using whole_seconds_utc [OF ex_time_facts(2)]
    by (simp add: production_ready_at_def granted_policy_def authority_from_def authority_until_def
        ex_profile_def ex_verified_def)
qed

end
