(* ===== verification/Registry_Properties.thy ===== *)
theory Registry_Properties
  imports Registry_Fixtures
begin

text \<open>
  What the policy registry promises: only documents signed by a trusted key become
  snapshots, a policy is ready only while every profile behind it is eligible, the stored
  release never goes back, revocation is permanent and receipt keys never change.
\<close>

section \<open>The store\<close>

text \<open>
  The table never rolls back: after any number of accepted transactions, under any
  configuration, the row still says the same about releases, profiles and keys, or its
  release has strictly grown.
\<close>

lemma registry_never_rolls_back:
  assumes "store_transact\<^sup>*\<^sup>* r r'"
  shows "abs_row r = abs_row r' \<or> row_release r < row_release r'"
  using registry_store.release_grows [OF assms] by (auto simp: abs_row_def)

text \<open>
  C19. Retirement and revocation are permanent.  Once a stored profile is retired or
  revoked, it keeps that status and its time through every later transaction, and no later
  release that the store accepts contains an eligible profile with its identifier.
\<close>

theorem revocation_is_permanent:
  assumes "store_transact\<^sup>*\<^sup>* r r'"
    and "view_profiles (abs_row r) pid = Some (st, ch)" "st \<in> {''retired'', ''revoked''}"
  shows "view_profiles (abs_row r') pid = Some (st, ch) \<and>
    (\<forall>cfg t s r'' p w. accept cfg t (Some r') s = Inr r'' \<longrightarrow> snapshot_ok s \<longrightarrow> row_release r' \<noteq> ps_release s
       \<longrightarrow> p \<in> set (ps_profiles s) \<longrightarrow> profile_id p = pid \<longrightarrow> \<not> profile_eligible_at p w)"
proof (intro conjI allI impI)
  have stays: "view_profiles (abs_row b) pid = Some (st, ch)" if "store_transact\<^sup>*\<^sup>* r b" for b
    using registry_store.retired_profile_stays [OF that] registry_store.revoked_profile_stays [OF that] assms(2,3)
    by auto
  then show "view_profiles (abs_row r') pid = Some (st, ch)" using assms(1) .
  fix cfg t s r'' p w
  assume acc: "accept cfg t (Some r') s = Inr r''" and ok: "snapshot_ok s"
    and ne: "row_release r' \<noteq> ps_release s" and p: "p \<in> set (ps_profiles s)" "profile_id p = pid"
  have row: "new_row t s = Inr r''"
    using acc ne unfolding accept_def option.case ok_simps by (auto simp: ok_simps)
  have "view_profiles (abs_row r'') pid = Some (st, ch)"
  proof (rule stays, rule rtranclp.rtrancl_into_rtrancl [OF assms(1)])
    show "store_transact r' r''" unfolding store_transact_def using acc by blast
  qed
  then have "map_option profile_view (map_of (snapshot_profile_states s) pid) = Some (st, ch)"
    by (simp add: new_row_view [OF row])
  moreover have "map_of (snapshot_profile_states s) pid = Some (snd (profile_state p))"
    unfolding snapshot_states(1) [OF ok]
  proof (rule map_of_is_SomeI)
    show "distinct (map fst (map profile_state (ps_profiles s)))"
      using ok by (simp add: snapshot_ok_def profile_state_def comp_def)
    show "(pid, snd (profile_state p)) \<in> set (map profile_state (ps_profiles s))"
      using p by (force simp: profile_state_def)
  qed
  ultimately have "pp_status p = st" by (simp add: profile_state_def profile_view_def state_field_def)
  then show "\<not> profile_eligible_at p w" using assms(3) by (auto simp: profile_eligible_at_def)
qed

theorem revocation_is_permanent_witness:
  "view_profiles (abs_row (ex_row ex_s2)) ''tdx-a'' = Some (''revoked'', format_seconds (ex_time 2))
   \<and> \<not> (\<exists>cfg t r'' s. accept cfg t (Some (ex_row ex_s2)) s = Inr r'' \<and> snapshot_ok s \<and> ps_release s = 3
          \<and> ex_profile ''active'' 1 \<in> set (ps_profiles s))"
proof -
  have "profile_eligible_at (ex_profile ''active'' 1) (ex_time 2)"
    by (simp add: profile_eligible_at_def ex_profile_def ex_time_facts del: One_nat_def)
  moreover have "profile_id (ex_profile ''active'' 1) = ''tdx-a''" "row_release (ex_row ex_s2) \<noteq> 3"
    by (simp_all add: ex_profile_def ex_row_def)
  ultimately show ?thesis
    using revocation_is_permanent [OF rtranclp.rtrancl_refl ex_views(1)] ex_views(1) by fastforce
qed

text \<open>
  Receipt keys never change under an identifier: through any number of transactions a
  stored key keeps its public key and its validity window, and a revoked key stays revoked.
\<close>

lemma receipt_key_material_is_fixed:
  assumes "store_transact\<^sup>*\<^sup>* r r'" "view_keys (abs_row r) kid = Some (st, ch, pk, f, u)"
  shows "\<exists>st' ch'. view_keys (abs_row r') kid = Some (st', ch', pk, f, u) \<and> (st = ''revoked'' \<longrightarrow> st' = ''revoked'')"
  by (rule registry_store.key_material_stays [OF assms])

text \<open>
  C22. Every transaction refines the contract of an append-only registry: it changes nothing
  that the abstract view shows, or it installs a strictly later release that keeps every
  profile and key, moves statuses only along the tables with advancing transition times,
  and starts new entries as active.
\<close>

theorem accept_refines_contract:
  assumes "accept cfg t (Some r) s = Inr r'"
  shows "registry_advances (abs_row r) (abs_row r')"
  by (rule accept_advances [OF assms])

theorem accept_refines_contract_witness:
  "accept ex_config ''t'' (Some (ex_row ex_s1)) ex_s2 = Inr (ex_row ex_s2)
   \<and> registry_advances (abs_row (ex_row ex_s1)) (abs_row (ex_row ex_s2))"
  using accept_refines_contract [OF ex_accept] ex_accept by simp



text \<open>
  A production store is anchored: it opens only with a minimum or a pinned release, and
  whatever it bootstraps from and reaches afterwards is at or above that release.  With a
  pin, the first document is exactly the pinned one.
\<close>

lemma production_store_is_anchored:
  assumes "PolicyRegistryState_init True minimum pinned digest = Inr cfg"
    and "accept cfg t None s = Inr r" "store_transact\<^sup>*\<^sup>* r r'"
  shows "(\<exists>m. (minimum = Some m \<or> pinned = Some m) \<and> 0 < m)
    \<and> (\<forall>m. minimum = Some m \<longrightarrow> m \<le> row_release r')
    \<and> (\<forall>m. pinned = Some m \<longrightarrow> m \<le> row_release r' \<and> row_release r = m \<and> digest = Some (row_digest r))"
proof -
  have cfg: "cfg = \<lparr>minimum_release = minimum, pinned_release = pinned, pinned_digest = digest\<rparr>"
    and some: "\<exists>m. (minimum = Some m \<or> pinned = Some m) \<and> 0 < m"
    using assms(1) unfolding PolicyRegistryState_init_def ok_simps by (auto split: option.splits)
  have row: "new_row t s = Inr r" and low: "\<forall>m. minimum = Some m \<longrightarrow> m \<le> ps_release s"
    and pin: "\<forall>m. pinned = Some m \<longrightarrow> ps_release s = m \<and> digest = Some (ps_digest s)"
    using assms(2) by (auto simp: accept_def cfg split: if_splits option.splits)
  have "row_release r \<le> row_release r'"
    using registry_store.release_grows [OF assms(3)] by (auto simp: abs_row_def)
  with some low pin show ?thesis by (auto simp: new_row_fields [OF row])
qed

section \<open>The document and the policy\<close>





text \<open>
  Signing and checking agree.  A document signed by \<open>sign_registry\<close>, written as
  canonical JSON and read again passes the signature check, given a signature scheme whose
  64-byte signatures verify under the public key of the private key.
\<close>

lemma signed_registry_checks:
  assumes "sign_registry ed25519_sign document private_key = Inr sdoc"
    and "\<And>m. length (ed25519_sign private_key m) = 64 \<and> ed25519 key (ed25519_sign private_key m) m"
  shows "\<exists>read. json_loads False (dumps (PDict sdoc)) = Inr (PDict read) \<and> check_signature ed25519 key read = Inr ()"
  using signed_document_checks [of ed25519_sign document private_key sdoc ed25519 key, OF assms] by blast

end
