(* ===== verification/Assurance.thy ===== *)
theory Assurance
  imports Lifecycle Attest_Policy
begin

text \<open>
  \<open>assurance.py\<close>: four independent claims about a worker (hardware, software, channel,
  work), the validated construction of a claim, eligibility policies that name the claims
  they require, the digest of a measurement policy, and the document form of the claims.

  A claim is built from Python values, because a document may put any JSON value in its
  fields; a built claim has typed fields.
\<close>

section \<open>Enumerations\<close>

datatype AssuranceDimension = HARDWARE | SOFTWARE | CHANNEL | WORK

fun AssuranceDimension_value :: "AssuranceDimension \<Rightarrow> string" where
  "AssuranceDimension_value HARDWARE = ''hardware''"
| "AssuranceDimension_value SOFTWARE = ''software''"
| "AssuranceDimension_value CHANNEL = ''channel''"
| "AssuranceDimension_value WORK = ''work''"

definition all_dimensions :: "AssuranceDimension list" where
  "all_dimensions = [HARDWARE, SOFTWARE, CHANNEL, WORK]"

datatype ClaimStatus = NOT_EVALUATED | CLAIM_PASSED | CLAIM_FAILED | CLAIM_STALE | CLAIM_REVOKED

fun ClaimStatus_value :: "ClaimStatus \<Rightarrow> string" where
  "ClaimStatus_value NOT_EVALUATED = ''not_evaluated''"
| "ClaimStatus_value CLAIM_PASSED = ''passed''"
| "ClaimStatus_value CLAIM_FAILED = ''failed''"
| "ClaimStatus_value CLAIM_STALE = ''stale''"
| "ClaimStatus_value CLAIM_REVOKED = ''revoked''"

definition ClaimStatus_table :: "(string \<times> ClaimStatus) list" where
  "ClaimStatus_table = map (\<lambda>c. (ClaimStatus_value c, c))
     [NOT_EVALUATED, CLAIM_PASSED, CLAIM_FAILED, CLAIM_STALE, CLAIM_REVOKED]"

datatype ReasonCategory =
    EVIDENCE_INVALID
  | POLICY_REJECTED
  | CHANNEL_MISMATCH
  | WORK_INVALID
  | EVIDENCE_STALE
  | POLICY_REVOKED
  | IDENTITY_CONFLICT
  | INTERNAL_ERROR

fun ReasonCategory_value :: "ReasonCategory \<Rightarrow> string" where
  "ReasonCategory_value EVIDENCE_INVALID = ''evidence_invalid''"
| "ReasonCategory_value POLICY_REJECTED = ''policy_rejected''"
| "ReasonCategory_value CHANNEL_MISMATCH = ''channel_mismatch''"
| "ReasonCategory_value WORK_INVALID = ''work_invalid''"
| "ReasonCategory_value EVIDENCE_STALE = ''evidence_stale''"
| "ReasonCategory_value POLICY_REVOKED = ''policy_revoked''"
| "ReasonCategory_value IDENTITY_CONFLICT = ''identity_conflict''"
| "ReasonCategory_value INTERNAL_ERROR = ''internal_error''"

definition ReasonCategory_table :: "(string \<times> ReasonCategory) list" where
  "ReasonCategory_table = map (\<lambda>c. (ReasonCategory_value c, c))
     [EVIDENCE_INVALID, POLICY_REJECTED, CHANNEL_MISMATCH, WORK_INVALID, EVIDENCE_STALE, POLICY_REVOKED,
      IDENTITY_CONFLICT, INTERNAL_ERROR]"

lemma ClaimStatus_table_iff [ok_simps]:
  "map_of ClaimStatus_table s = Some c \<longleftrightarrow> s = ClaimStatus_value c"
  by (cases c) (auto simp: ClaimStatus_table_def)

lemma ReasonCategory_table_iff [ok_simps]:
  "map_of ReasonCategory_table s = Some c \<longleftrightarrow> s = ReasonCategory_value c"
  by (cases c) (auto simp: ReasonCategory_table_def)

section \<open>Claims\<close>

text \<open>
  \<open>ValueError\<close> with its message; the other value marks a time in an ISO spelling outside
  the model (see \<open>valid_utc_timestamp\<close>).
\<close>

datatype assurance_error = AssuranceValueError string | AssuranceOutsideModel

definition ASSURANCE_SCHEMA :: string where "ASSURANCE_SCHEMA = ''assurance_claims_v1''"

definition CHANNEL_BINDING_POLICY_DIGEST :: string where
  "CHANNEL_BINDING_POLICY_DIGEST = sha256_label (encode_ascii ''cathedral-channel-binding-policy-v2'')"

text \<open>
  \<open>datetime.fromisoformat\<close> accepts many ISO spellings.  The model decides the one the
  program writes, microseconds and a final \<open>Z\<close>, and text without a final \<open>Z\<close>; any other
  spelling is outside the model (\<open>None\<close>).
\<close>

definition micros_pattern :: "string \<Rightarrow> bool" where
  "micros_pattern s \<longleftrightarrow> length s = 27
     \<and> (\<forall>i \<in> set [0..<27].
          case map_of [(4, CHR ''-''), (7, CHR ''-''), (10, CHR ''T''), (13, CHR '':''), (16, CHR '':''),
              (19, CHR ''.''), (26, CHR ''Z'')] i of
            Some c \<Rightarrow> s ! i = c
          | None \<Rightarrow> is_digit (s ! i))"

definition valid_utc_timestamp :: "string \<Rightarrow> bool option" where
  "valid_utc_timestamp s =
    (if s = [] \<or> last s \<noteq> CHR ''Z'' then Some False
     else if micros_pattern s then
       Some (valid_datetime (Datetime (text_field s 0 4) (text_field s 5 2) (text_field s 8 2)
               (text_field s 11 2) (text_field s 14 2) (text_field s 17 2) (text_field s 20 6) (Some 0)))
     else None)"

record AssuranceClaim =
  ac_status :: ClaimStatus
  ac_evidence_digest :: "string option"
  ac_policy_digest :: "string option"
  ac_verified_at :: "string option"
  ac_reason :: "ReasonCategory option"

definition not_evaluated_claim :: AssuranceClaim where
  "not_evaluated_claim = \<lparr>ac_status = NOT_EVALUATED, ac_evidence_digest = None, ac_policy_digest = None,
     ac_verified_at = None, ac_reason = None\<rparr>"

text \<open>A string that matches a predicate, or the error.\<close>

fun text_where :: "(string \<Rightarrow> bool) \<Rightarrow> assurance_error \<Rightarrow> pyval \<Rightarrow> assurance_error + string" where
  "text_where P e (PStr s) = (if P s then Inr s else Inl e)"
| "text_where P e _ = Inl e"

definition claim_time :: "pyval \<Rightarrow> assurance_error + string" where
  "claim_time v =
    (case v of
       PStr s \<Rightarrow>
         (case valid_utc_timestamp s of
            Some True \<Rightarrow> Inr s
          | Some False \<Rightarrow> Inl (AssuranceValueError ''evaluated claims require a UTC verification timestamp'')
          | None \<Rightarrow> Inl AssuranceOutsideModel)
     | _ \<Rightarrow> Inl (AssuranceValueError ''evaluated claims require a UTC verification timestamp''))"

definition AssuranceClaim_init ::
  "ClaimStatus \<Rightarrow> pyval \<Rightarrow> pyval \<Rightarrow> pyval \<Rightarrow> ReasonCategory option \<Rightarrow> assurance_error + AssuranceClaim" where
  "AssuranceClaim_init status evidence policy verified_at rsn =
    (if status = NOT_EVALUATED then
       (if evidence \<noteq> PNone \<or> policy \<noteq> PNone \<or> verified_at \<noteq> PNone \<or> rsn \<noteq> None
        then Inl (AssuranceValueError ''not_evaluated claims must carry only null audit fields'')
        else Inr not_evaluated_claim)
     else
       rbind (text_where DIGEST_RE
                (AssuranceValueError ''evaluated claims require a canonical evidence digest'') evidence) (\<lambda>ev.
       rbind (text_where DIGEST_RE
                (AssuranceValueError ''evaluated claims require a canonical policy digest'') policy) (\<lambda>pol.
       rbind (claim_time verified_at) (\<lambda>at.
       rbind (checks
         [require (\<not> (status = CLAIM_PASSED \<and> rsn \<noteq> None))
            (AssuranceValueError ''passed claims cannot carry a failure reason''),
          require (\<not> (status \<noteq> CLAIM_PASSED \<and> rsn = None))
            (AssuranceValueError ''failed, stale, and revoked claims require a safe reason'')]) (\<lambda>_.
         Inr \<lparr>ac_status = status, ac_evidence_digest = Some ev, ac_policy_digest = Some pol,
              ac_verified_at = Some at, ac_reason = rsn\<rparr>)))))"

definition claim_to_dict :: "bool \<Rightarrow> AssuranceClaim \<Rightarrow> pyval" where
  "claim_to_dict include_digests c = PDict
    ([(''status'', PStr (ClaimStatus_value (ac_status c))),
      (''verified_at'', opt_str (ac_verified_at c)),
      (''reason'', opt_str (map_option ReasonCategory_value (ac_reason c)))]
     @ (if include_digests
        then [(''evidence_digest'', opt_str (ac_evidence_digest c)),
              (''policy_digest'', opt_str (ac_policy_digest c))]
        else []))"

record AssuranceClaims =
  hardware :: AssuranceClaim
  software :: AssuranceClaim
  channel :: AssuranceClaim
  work :: AssuranceClaim

fun claim :: "AssuranceClaims \<Rightarrow> AssuranceDimension \<Rightarrow> AssuranceClaim" where
  "claim cs HARDWARE = hardware cs"
| "claim cs SOFTWARE = software cs"
| "claim cs CHANNEL = channel cs"
| "claim cs WORK = work cs"

fun with_claim :: "AssuranceClaims \<Rightarrow> AssuranceDimension \<Rightarrow> AssuranceClaim \<Rightarrow> AssuranceClaims" where
  "with_claim cs HARDWARE c = cs\<lparr>hardware := c\<rparr>"
| "with_claim cs SOFTWARE c = cs\<lparr>software := c\<rparr>"
| "with_claim cs CHANNEL c = cs\<lparr>channel := c\<rparr>"
| "with_claim cs WORK c = cs\<lparr>work := c\<rparr>"

definition claims_to_dict :: "bool \<Rightarrow> AssuranceClaims \<Rightarrow> pyval" where
  "claims_to_dict include_digests cs = PDict
    [(''schema'', PStr ASSURANCE_SCHEMA),
     (''claims'', PDict (map (\<lambda>d. (AssuranceDimension_value d, claim_to_dict include_digests (claim cs d)))
        all_dimensions))]"

definition empty_assurance_claims :: AssuranceClaims where
  "empty_assurance_claims = \<lparr>hardware = not_evaluated_claim, software = not_evaluated_claim,
     channel = not_evaluated_claim, work = not_evaluated_claim\<rparr>"

section \<open>Eligibility\<close>

record EligibilityDecision =
  eligible :: bool
  required :: "AssuranceDimension list"
  unsatisfied :: "AssuranceDimension list"

record EligibilityPolicy =
  ep_name :: string
  required_passed :: "AssuranceDimension list"

definition EligibilityPolicy_post_init :: "EligibilityPolicy \<Rightarrow> assurance_error + unit" where
  "EligibilityPolicy_post_init p = checks
    [require (ep_name p \<noteq> [] \<and> length (ep_name p) \<le> 128)
       (AssuranceValueError ''eligibility policy name must be bounded and nonempty''),
     require (distinct (required_passed p))
       (AssuranceValueError ''eligibility policy cannot repeat a dimension'')]"

definition evaluate :: "EligibilityPolicy \<Rightarrow> AssuranceClaims option \<Rightarrow> EligibilityDecision" where
  "evaluate p claims =
    (let uns = filter (\<lambda>d. case claims of None \<Rightarrow> True | Some cs \<Rightarrow> ac_status (claim cs d) \<noteq> CLAIM_PASSED)
                 (required_passed p)
     in \<lparr>eligible = (uns = []), required = required_passed p, unsatisfied = uns\<rparr>)"

definition allows :: "EligibilityPolicy \<Rightarrow> AssuranceClaims option \<Rightarrow> bool" where
  "allows p claims = eligible (evaluate p claims)"

definition ATTESTATION_ADMISSION_POLICY :: EligibilityPolicy where
  "ATTESTATION_ADMISSION_POLICY =
    \<lparr>ep_name = ''attestation_admission_v1'', required_passed = [HARDWARE, SOFTWARE]\<rparr>"

definition KEY_RELEASE_POLICY :: EligibilityPolicy where
  "KEY_RELEASE_POLICY = \<lparr>ep_name = ''key_release_v1'', required_passed = [HARDWARE, SOFTWARE, CHANNEL]\<rparr>"

definition WORK_DISPATCH_POLICY :: EligibilityPolicy where
  "WORK_DISPATCH_POLICY = \<lparr>ep_name = ''work_dispatch_v1'', required_passed = [HARDWARE, SOFTWARE, CHANNEL]\<rparr>"

definition SCORE_ELIGIBILITY_POLICY :: EligibilityPolicy where
  "SCORE_ELIGIBILITY_POLICY =
    \<lparr>ep_name = ''score_eligibility_v1'', required_passed = [HARDWARE, SOFTWARE, WORK]\<rparr>"

definition RECEIPT_ISSUANCE_POLICY :: EligibilityPolicy where
  "RECEIPT_ISSUANCE_POLICY = \<lparr>ep_name = ''receipt_issuance_v1'', required_passed = []\<rparr>"

section \<open>Building claims\<close>

text \<open>\<open>policy_digest\<close>: the sets of the policy are sorted, so their order does not matter.\<close>

definition sorted_texts :: "string list \<Rightarrow> pyval" where
  "sorted_texts ss = PList (map PStr (sort (remdups ss)))"

definition policy_body :: "Policy \<Rightarrow> pyval" where
  "policy_body p = PDict
    [(''allowed_firmware'', sorted_texts (allowed_firmware p)),
     (''allowed_measurements'', sorted_texts (allowed_measurements p)),
     (''min_tcb'', PInt (min_tcb p)),
     (''registry_digest'', opt_str (registry_digest p)),
     (''registry_profile_ids'', PList (map PStr (registry_profile_ids p))),
     (''registry_release'', opt_int (registry_release p)),
     (''tdx_allowed_advisories'', sorted_texts (tdx_allowed_advisories p)),
     (''tdx_allowed_tcb_statuses'', sorted_texts (tdx_allowed_tcb_statuses p)),
     (''tdx_strict'', PBool (tdx_strict p)),
     (''version'', PInt 1)]"

definition assurance_policy_digest :: "Policy \<Rightarrow> string" where
  "assurance_policy_digest p = sha256_label (encode_ascii (dumps (policy_body p)))"

text \<open>\<open>verified_at or verified_at_now()\<close>, the text of the clock being an argument.\<close>

definition claim_when :: "string \<Rightarrow> string option \<Rightarrow> string" where
  "claim_when now_text verified_at =
    (case verified_at of Some t \<Rightarrow> if t = [] then now_text else t | None \<Rightarrow> now_text)"

definition attestation_claims ::
  "string \<Rightarrow> bytes \<Rightarrow> Policy \<Rightarrow> string option \<Rightarrow> ClaimStatus \<Rightarrow> ReasonCategory option
    \<Rightarrow> ClaimStatus \<Rightarrow> ReasonCategory option \<Rightarrow> assurance_error + AssuranceClaims" where
  "attestation_claims now_text evidence policy verified_at hs hr ss sr =
    (let w = PStr (claim_when now_text verified_at); e = PStr (sha256_label evidence);
         p = PStr (assurance_policy_digest policy) in
     rbind (AssuranceClaim_init hs e p w hr) (\<lambda>h.
     rbind (if ss = NOT_EVALUATED then Inr not_evaluated_claim else AssuranceClaim_init ss e p w sr) (\<lambda>s.
       Inr \<lparr>hardware = h, software = s, channel = not_evaluated_claim, work = not_evaluated_claim\<rparr>)))"

definition evaluated_claim ::
  "string \<Rightarrow> ClaimStatus \<Rightarrow> bytes \<Rightarrow> string \<Rightarrow> string option \<Rightarrow> ReasonCategory option
    \<Rightarrow> assurance_error + AssuranceClaim" where
  "evaluated_claim now_text status evidence policy_id verified_at rsn =
    AssuranceClaim_init status (PStr (sha256_label evidence)) (PStr policy_id)
      (PStr (claim_when now_text verified_at)) rsn"

definition with_verified_channel ::
  "string \<Rightarrow> AssuranceClaims \<Rightarrow> bytes \<Rightarrow> string option \<Rightarrow> assurance_error + AssuranceClaims" where
  "with_verified_channel now_text claims material verified_at =
    rbind (evaluated_claim now_text CLAIM_PASSED material CHANNEL_BINDING_POLICY_DIGEST verified_at None)
      (\<lambda>c. Inr (with_claim claims CHANNEL c))"

section \<open>Reading claims\<close>

fun claim_status_of :: "pyval \<Rightarrow> ClaimStatus option" where
  "claim_status_of (PStr s) = map_of ClaimStatus_table s"
| "claim_status_of _ = None"

fun claim_reason_of :: "pyval \<Rightarrow> ReasonCategory option option" where
  "claim_reason_of PNone = Some None"
| "claim_reason_of (PStr s) = map_option Some (map_of ReasonCategory_table s)"
| "claim_reason_of _ = None"

definition parse_claim :: "(string \<times> pyval) list \<Rightarrow> AssuranceDimension \<Rightarrow> assurance_error + AssuranceClaim" where
  "parse_claim raw_claims d =
    (case mapping_items (dget raw_claims (AssuranceDimension_value d)) of
       None \<Rightarrow> Inl (AssuranceValueError ''assurance document must contain all four claims'')
     | Some raw \<Rightarrow>
         (case (claim_status_of (dget raw ''status''), claim_reason_of (dget raw ''reason'')) of
            (Some status, Some rsn) \<Rightarrow>
              AssuranceClaim_init status (dget raw ''evidence_digest'') (dget raw ''policy_digest'')
                (dget raw ''verified_at'') rsn
          | _ \<Rightarrow> Inl (AssuranceValueError ''assurance document contains an unknown status or reason'')))"

definition assurance_from_dict :: "(string \<times> pyval) list \<Rightarrow> assurance_error + AssuranceClaims" where
  "assurance_from_dict doc =
    (case mapping_items (dget doc ''claims'') of
       Some raw_claims \<Rightarrow>
         if dget doc ''schema'' \<noteq> PStr ASSURANCE_SCHEMA
         then Inl (AssuranceValueError ''invalid assurance claims document'')
         else
           rbind (parse_claim raw_claims HARDWARE) (\<lambda>h.
           rbind (parse_claim raw_claims SOFTWARE) (\<lambda>s.
           rbind (parse_claim raw_claims CHANNEL) (\<lambda>c.
           rbind (parse_claim raw_claims WORK) (\<lambda>w.
             Inr \<lparr>hardware = h, software = s, channel = c, work = w\<rparr>))))
     | None \<Rightarrow> Inl (AssuranceValueError ''invalid assurance claims document''))"

section \<open>Well-formed claims\<close>

text \<open>The claims the constructor can build; a record of them stays well formed under every operation.\<close>

definition claim_ok :: "AssuranceClaim \<Rightarrow> bool" where
  "claim_ok c \<longleftrightarrow>
     (if ac_status c = NOT_EVALUATED then c = not_evaluated_claim
      else (\<exists>e p t. ac_evidence_digest c = Some e \<and> DIGEST_RE e \<and> ac_policy_digest c = Some p \<and> DIGEST_RE p
              \<and> ac_verified_at c = Some t \<and> valid_utc_timestamp t = Some True)
        \<and> (ac_reason c = None \<longleftrightarrow> ac_status c = CLAIM_PASSED))"

definition claims_ok :: "AssuranceClaims \<Rightarrow> bool" where
  "claims_ok cs \<longleftrightarrow> (\<forall>d. claim_ok (claim cs d))"

lemma text_where_ok: "text_where P e v = Inr s \<longleftrightarrow> v = PStr s \<and> P s"
  by (cases v) auto

lemma claim_time_ok: "claim_time v = Inr s \<longleftrightarrow> v = PStr s \<and> valid_utc_timestamp s = Some True"
  by (cases v) (auto simp: claim_time_def split: option.splits bool.splits)

lemma AssuranceClaim_init_ok_iff:
  "AssuranceClaim_init status ev pol at rsn = Inr c \<longleftrightarrow>
     claim_ok c \<and> ac_status c = status \<and> ev = opt_str (ac_evidence_digest c) \<and> pol = opt_str (ac_policy_digest c)
     \<and> at = opt_str (ac_verified_at c) \<and> rsn = ac_reason c"
proof (cases "status = NOT_EVALUATED")
  case True
  then show ?thesis
    by (auto simp: AssuranceClaim_init_def claim_ok_def not_evaluated_claim_def)
next
  case False
  then show ?thesis
    by (cases c) (auto simp: AssuranceClaim_init_def claim_ok_def ok_simps text_where_ok claim_time_ok)
qed

lemma not_evaluated_claim_ok [simp]: "claim_ok not_evaluated_claim"
  by (simp add: claim_ok_def not_evaluated_claim_def)

lemma claim_with_claim: "claim (with_claim cs d c) e = (if e = d then c else claim cs e)"
  by (cases d; cases e) simp_all

lemma with_claim_ok: "claims_ok cs \<Longrightarrow> claim_ok c \<Longrightarrow> claims_ok (with_claim cs d c)"
  by (simp add: claims_ok_def claim_with_claim)

lemma all_dimensions_complete: "set all_dimensions = UNIV"
proof -
  have "d \<in> set all_dimensions" for d by (cases d) (simp_all add: all_dimensions_def)
  then show ?thesis by auto
qed

lemma claims_okI:
  "claim_ok (hardware cs) \<Longrightarrow> claim_ok (software cs) \<Longrightarrow> claim_ok (channel cs) \<Longrightarrow> claim_ok (work cs)
     \<Longrightarrow> claims_ok cs"
  unfolding claims_ok_def
proof
  fix d assume "claim_ok (hardware cs)" "claim_ok (software cs)" "claim_ok (channel cs)" "claim_ok (work cs)"
  then show "claim_ok (claim cs d)" by (cases d) simp_all
qed

lemma claims_okD:
  assumes "claims_ok cs"
  shows "claim_ok (hardware cs)" "claim_ok (software cs)" "claim_ok (channel cs)" "claim_ok (work cs)"
  using assms claim.simps unfolding claims_ok_def by metis+

lemma empty_claims_ok: "claims_ok empty_assurance_claims"
  by (rule claims_okI) (simp_all add: empty_assurance_claims_def)

lemma attestation_claims_ok:
  assumes "attestation_claims now e p at hs hr ss sr = Inr cs"
  shows "claims_ok cs"
  using assms unfolding attestation_claims_def Let_def ok_simps
  by (elim exE conjE) (auto intro!: claims_okI simp: AssuranceClaim_init_ok_iff split: if_splits)

lemma with_verified_channel_ok:
  assumes "with_verified_channel now cs m at = Inr cs'" "claims_ok cs"
  shows "claims_ok cs'" "ac_status (channel cs') = CLAIM_PASSED"
  using assms unfolding with_verified_channel_def evaluated_claim_def ok_simps AssuranceClaim_init_ok_iff
  by (auto intro: with_claim_ok [where d = CHANNEL, simplified])

section \<open>The document form\<close>

lemma claim_fields_read:
  "claim_status_of (PStr (ClaimStatus_value c)) = Some c"
  "claim_reason_of (opt_str (map_option ReasonCategory_value r)) = Some r"
  by (simp add: ok_simps) (cases r, simp_all add: ok_simps)

lemma parse_claim_reads:
  assumes "claim_ok c" "dget raw (AssuranceDimension_value d) = canon (claim_to_dict True c)"
  shows "parse_claim raw d = Inr c"
proof -
  let ?kvs = "[(''status'', PStr (ClaimStatus_value (ac_status c))),
      (''verified_at'', opt_str (ac_verified_at c)),
      (''reason'', opt_str (map_option ReasonCategory_value (ac_reason c))),
      (''evidence_digest'', opt_str (ac_evidence_digest c)), (''policy_digest'', opt_str (ac_policy_digest c))]"
  have c: "canon (opt_str t) = opt_str t" for t by (cases t) simp_all
  have "canon (claim_to_dict True c) = PDict (map (\<lambda>(k, v). (k, canon v)) (sort_key fst ?kvs))"
    by (simp only: claim_to_dict_def if_True append.simps canon_PDict_sorted)
  also have "map (\<lambda>(k, v). (k, canon v)) (sort_key fst ?kvs) = sort_key fst ?kvs"
    by (rule map_idI) (auto simp: c)
  finally have r: "mapping_items (dget raw (AssuranceDimension_value d)) = Some (sort_key fst ?kvs)"
    using assms(2) by simp
  have f: "dget (sort_key fst ?kvs) ''status'' = PStr (ClaimStatus_value (ac_status c))"
    "dget (sort_key fst ?kvs) ''reason'' = opt_str (map_option ReasonCategory_value (ac_reason c))"
    "dget (sort_key fst ?kvs) ''verified_at'' = opt_str (ac_verified_at c)"
    "dget (sort_key fst ?kvs) ''evidence_digest'' = opt_str (ac_evidence_digest c)"
    "dget (sort_key fst ?kvs) ''policy_digest'' = opt_str (ac_policy_digest c)"
    by (simp_all only: dget_sort_key) simp_all
  show ?thesis
    unfolding parse_claim_def r f option.case claim_fields_read prod.case AssuranceClaim_init_ok_iff
    using assms(1) by simp
qed

lemma assurance_from_dict_ok:
  assumes "assurance_from_dict doc = Inr cs"
  shows "claims_ok cs"
proof -
  have parse: "claim_ok c" if "parse_claim raw d = Inr c" for raw d c
    using that by (auto simp: parse_claim_def AssuranceClaim_init_ok_iff split: option.splits)
  show ?thesis
    using assms unfolding assurance_from_dict_def
    by (auto simp: ok_simps split: option.splits if_splits intro!: claims_okI dest: parse)
qed

section \<open>Eligibility is exactly the named claims\<close>

lemma allows_iff:
  "allows p claims \<longleftrightarrow>
     (case claims of None \<Rightarrow> required_passed p = []
      | Some cs \<Rightarrow> \<forall>d \<in> set (required_passed p). ac_status (claim cs d) = CLAIM_PASSED)"
  by (auto simp: allows_def evaluate_def Let_def filter_empty_conv split: option.splits)

lemma policy_order:
  "allows WORK_DISPATCH_POLICY cs \<Longrightarrow> allows ATTESTATION_ADMISSION_POLICY cs"
  "allows SCORE_ELIGIBILITY_POLICY cs \<Longrightarrow> allows ATTESTATION_ADMISSION_POLICY cs"
  "allows KEY_RELEASE_POLICY cs \<longleftrightarrow> allows WORK_DISPATCH_POLICY cs"
  by (auto simp: allows_iff WORK_DISPATCH_POLICY_def ATTESTATION_ADMISSION_POLICY_def
      SCORE_ELIGIBILITY_POLICY_def KEY_RELEASE_POLICY_def split: option.splits)

section \<open>The policy digest\<close>

text \<open>Policies that agree on their compared fields, sets as sets, have one digest.\<close>

definition policy_eq :: "Policy \<Rightarrow> Policy \<Rightarrow> bool" where
  "policy_eq p q \<longleftrightarrow>
     set (allowed_measurements p) = set (allowed_measurements q) \<and> min_tcb p = min_tcb q
     \<and> set (allowed_firmware p) = set (allowed_firmware q) \<and> tdx_strict p = tdx_strict q
     \<and> set (tdx_allowed_tcb_statuses p) = set (tdx_allowed_tcb_statuses q)
     \<and> set (tdx_allowed_advisories p) = set (tdx_allowed_advisories q)
     \<and> registry_release p = registry_release q \<and> registry_digest p = registry_digest q
     \<and> registry_profile_ids p = registry_profile_ids q"

lemma sorted_texts_cong: "set xs = set ys \<Longrightarrow> sorted_texts xs = sorted_texts ys"
  unfolding sorted_texts_def
  by (metis sorted_list_of_set_sort_remdups)

lemma policy_eq_digest: "policy_eq p q \<Longrightarrow> assurance_policy_digest p = assurance_policy_digest q"
  unfolding policy_eq_def assurance_policy_digest_def policy_body_def
  by (elim conjE) (simp only: sorted_texts_cong [of "allowed_measurements p" "allowed_measurements q"]
      sorted_texts_cong [of "allowed_firmware p" "allowed_firmware q"]
      sorted_texts_cong [of "tdx_allowed_tcb_statuses p" "tdx_allowed_tcb_statuses q"]
      sorted_texts_cong [of "tdx_allowed_advisories p" "tdx_allowed_advisories q"])

end
