(* ===== verification/Py_Decimal.thy ===== *)
theory Py_Decimal
  imports Py_Text
begin

text \<open>
  The part of \<open>decimal\<close> the receipts use: \<open>Decimal(text)\<close>, a sign, a coefficient and an
  exponent, \<open>format(number, "f")\<close>, the text without an exponent, and equality.  The constructor is
  exact; it strips white space, drops underscores and refuses an exponent beyond the
  limits of the 64-bit implementation.
\<close>

datatype decimal = DecFinite bool string int | DecInfinite bool | DecNaN

text \<open>\<open>DecFinite negative digits exponent\<close>: the digits of the coefficient, without leading zeros.\<close>

definition is_space :: "char \<Rightarrow> bool" where
  "is_space c \<longleftrightarrow> ord_c c \<in> {9, 10, 11, 12, 13, 28, 29, 30, 31, 32, 133, 160}"

definition strip :: "string \<Rightarrow> string" where
  "strip s = rev (dropWhile is_space (rev (dropWhile is_space s)))"

definition lower_text :: "string \<Rightarrow> string" where
  "lower_text s = to_lower s"

definition drop_zeros :: "string \<Rightarrow> string" where
  "drop_zeros ds = (case dropWhile (\<lambda>c. c = CHR ''0'') ds of [] \<Rightarrow> ''0'' | r \<Rightarrow> r)"

definition MAX_EMAX :: int where "MAX_EMAX = 999999999999999999"

definition MIN_ETINY :: int where "MIN_ETINY = - 1999999999999999997"

text \<open>The exponent part: nothing, or \<open>e\<close>, an optional sign and digits.\<close>

definition decimal_exponent :: "string \<Rightarrow> int option" where
  "decimal_exponent s =
    (case s of
       [] \<Rightarrow> Some 0
     | c # cs \<Rightarrow>
         if c \<noteq> CHR ''e'' \<and> c \<noteq> CHR ''E'' then None
         else
           (let neg = (cs \<noteq> [] \<and> hd cs = CHR ''-'');
                ds = (if cs \<noteq> [] \<and> (hd cs = CHR ''-'' \<or> hd cs = CHR ''+'') then tl cs else cs)
            in if ds \<noteq> [] \<and> list_all is_digit ds
               then Some (if neg then - int (read_nat ds) else int (read_nat ds)) else None))"

definition decimal_number :: "bool \<Rightarrow> string \<Rightarrow> decimal option" where
  "decimal_number neg s =
    (let ip = takeWhile is_digit s; r = dropWhile is_digit s;
         dot = (r \<noteq> [] \<and> hd r = CHR ''.'');
         fp = (if dot then takeWhile is_digit (tl r) else []);
         r' = (if dot then dropWhile is_digit (tl r) else r)
     in if ip = [] \<and> fp = [] then None
        else case decimal_exponent r' of
            None \<Rightarrow> None
          | Some e \<Rightarrow>
              (let ds = drop_zeros (ip @ fp); ex = e - int (length fp) in
               if ex < MIN_ETINY \<or> ex + int (length ds) - 1 > MAX_EMAX then None
               else Some (DecFinite neg ds ex)))"

definition decimal_special :: "bool \<Rightarrow> string \<Rightarrow> decimal option" where
  "decimal_special neg s =
    (let t = lower_text s in
     if t = ''inf'' \<or> t = ''infinity'' then Some (DecInfinite neg)
     else if take 3 t = ''nan'' \<and> list_all is_digit (drop 3 t) then Some DecNaN
     else if take 4 t = ''snan'' \<and> list_all is_digit (drop 4 t) then Some DecNaN
     else None)"

definition decimal_of_text :: "string \<Rightarrow> decimal option" where
  "decimal_of_text text =
    (let s = filter (\<lambda>c. c \<noteq> CHR ''_'') (strip text);
         neg = (s \<noteq> [] \<and> hd s = CHR ''-'');
         body = (if s \<noteq> [] \<and> (hd s = CHR ''-'' \<or> hd s = CHR ''+'') then tl s else s)
     in case decimal_number neg body of
          Some d \<Rightarrow> Some d
        | None \<Rightarrow> decimal_special neg body)"

text \<open>\<open>format(d, "f")\<close> of a finite number.\<close>

definition format_fixed :: "bool \<Rightarrow> string \<Rightarrow> int \<Rightarrow> string" where
  "format_fixed neg ds e =
    (if neg then ''-'' else [])
    @ (if 0 \<le> e then (if ds = ''0'' then ''0'' else ds @ replicate (nat e) (CHR ''0''))
       else
         (let k = nat (- e); full = replicate (Suc k - length ds) (CHR ''0'') @ ds
          in take (length full - k) full @ CHR ''.'' # drop (length full - k) full))"

text \<open>Equality with a whole number compares values: \<open>20.0\<close> is 20, a negative zero is 0, a NaN is nothing.\<close>

fun decimal_is_nat :: "decimal \<Rightarrow> nat \<Rightarrow> bool" where
  "decimal_is_nat (DecFinite neg ds e) n =
    (if neg then read_nat ds = 0 \<and> n = 0
     else if 0 \<le> e then read_nat ds * 10 ^ nat e = n
     else read_nat ds = n * 10 ^ nat (- e))"
| "decimal_is_nat _ n = False"

end
