(* ===== verification/Receipt_Fields.thy ===== *)
theory Receipt_Fields
  imports Assurance Py_Decimal Registry_Policy
begin

text \<open>
  \<open>receipt.py\<close>, first part: reading a receipt, its field validators, and the parts of its
  document.  Errors carry the machine-readable category and the message.
\<close>

section \<open>Errors and constants\<close>

text \<open>
  \<open>ReceiptError category message\<close>; \<open>ReceiptParseError\<close> is any schema error raised while
  the JSON is read, whose message depends on the first offence in the text;
  \<open>ReceiptValueError\<close> is a \<open>ValueError\<close> of the \<open>Policy\<close> constructor that passes through; the
  last value marks text outside the model.
\<close>

datatype receipt_error =
    ReceiptError string string
  | ReceiptParseError
  | ReceiptValueError string
  | ReceiptOutsideModel

definition RECEIPT_SCHEMA :: string where "RECEIPT_SCHEMA = ''cathedral_assurance_receipt_v2''"

definition LEGACY_RECEIPT_SCHEMA :: string where
  "LEGACY_RECEIPT_SCHEMA = ''cathedral_assurance_receipt_v1''"

definition MAX_RECEIPT_BYTES :: nat where "MAX_RECEIPT_BYTES = 256 * 1024"

definition MAX_TCB_ADVISORIES :: nat where "MAX_TCB_ADVISORIES = 256"

definition MAX_RECEIPT_DEPTH :: nat where "MAX_RECEIPT_DEPTH = 32"

definition MAX_RECEIPT_NODES :: nat where "MAX_RECEIPT_NODES = 4096"

text \<open>A label and 64 lower-case hexadecimal characters.\<close>

definition hex64_after :: "string \<Rightarrow> string \<Rightarrow> bool" where
  "hex64_after label s \<longleftrightarrow>
     take (length label) s = label \<and> length s = length label + 64 \<and> list_all is_lower_hex (drop (length label) s)"

definition RECEIPT_ID_RE :: "string \<Rightarrow> bool" where "RECEIPT_ID_RE = hex64_after ''receipt-sha256:''"

definition PLATFORM_RE :: "string \<Rightarrow> bool" where "PLATFORM_RE = hex64_after ''platform-sha256:''"

definition CHALLENGE_RE :: "string \<Rightarrow> bool" where "CHALLENGE_RE = hex64_after []"

definition TCB_SVN_RE :: "string \<Rightarrow> bool" where
  "TCB_SVN_RE s \<longleftrightarrow> length s = 32 \<and> list_all is_lower_hex s"

definition DECIMAL_RE :: "string \<Rightarrow> bool" where
  "DECIMAL_RE s \<longleftrightarrow>
    (let ip = takeWhile is_digit s; r = dropWhile is_digit s in
     ip \<noteq> [] \<and> (ip = ''0'' \<or> hd ip \<noteq> CHR ''0'')
     \<and> (r = [] \<or> (hd r = CHR ''.'' \<and> tl r \<noteq> [] \<and> list_all is_digit (tl r) \<and> last r \<noteq> CHR ''0'')))"

definition TOP_KEYS :: "string list" where
  "TOP_KEYS =
    [''schema'', ''receipt_id'', ''epoch_id'', ''source_epoch'', ''subject_hotkey'', ''platform_pseudonym'',
     ''policy_registry_release'', ''policy_registry_digest'', ''policy_profile_ids'', ''measurement'', ''tcb'',
     ''channel'', ''work'', ''assurance'', ''lifecycle'', ''issued_at'', ''signing_key_id'', ''signature'']"

definition OPTIONAL_TOP_KEYS :: "string list" where "OPTIONAL_TOP_KEYS = [''platform'']"

definition PLATFORM_CLASS_CPU :: string where "PLATFORM_CLASS_CPU = ''confidential_cpu''"

definition CPU_TEE_TDX :: string where "CPU_TEE_TDX = ''intel_tdx''"

definition CPU_TEE_SEV_SNP :: string where "CPU_TEE_SEV_SNP = ''amd_sev_snp''"

definition ATTESTABLE_CPU_TEES :: "string list" where
  "ATTESTABLE_CPU_TEES = [CPU_TEE_TDX, CPU_TEE_SEV_SNP]"

definition ACCEPTED_PLATFORM_CLASSES :: "string list" where
  "ACCEPTED_PLATFORM_CLASSES = [PLATFORM_CLASS_CPU]"

definition ACCEPTED_CPU_TEES :: "string list" where "ACCEPTED_CPU_TEES = [CPU_TEE_TDX]"

definition PLATFORM_CPU_KEYS :: "string list" where "PLATFORM_CPU_KEYS = [''class'', ''cpu_tee'']"

definition TCB_KEYS :: "string list" where
  "TCB_KEYS = [''status'', ''version'', ''svn'', ''advisory_ids'', ''debug_enabled'', ''collateral_current'']"

definition CHANNEL_KEYS :: "string list" where "CHANNEL_KEYS = [''status'', ''binding_digest'']"

definition WORK_KEYS :: "string list" where
  "WORK_KEYS = [''status'', ''challenge_id'', ''manifest_digest'', ''result_digest'', ''work_units'']"

definition LIFECYCLE_KEYS_V1 :: "string list" where
  "LIFECYCLE_KEYS_V1 = [''state'', ''revocation_reference'']"

definition LIFECYCLE_KEYS_V2 :: "string list" where
  "LIFECYCLE_KEYS_V2 =
    [''state'', ''revocation_reference'', ''worker_state'', ''worker_generation'', ''worker_revision'',
     ''worker_event_id'', ''worker_reason'', ''worker_evidence_expires_at'']"

definition ASSURANCE_KEYS :: "string list" where "ASSURANCE_KEYS = [''schema'', ''claims'']"

definition CLAIM_KEYS :: "string list" where
  "CLAIM_KEYS = [''status'', ''evidence_digest'', ''policy_digest'', ''verified_at'', ''reason'']"

section \<open>Reading JSON\<close>

text \<open>\<open>_json_integer\<close> on every integer of the text.\<close>

fun ints_in_range :: "pyval \<Rightarrow> bool" where
  "ints_in_range (PInt i) = (\<bar>i\<bar> \<le> MAX_SQLITE_INTEGER)"
| "ints_in_range (PList vs) = list_all ints_in_range vs"
| "ints_in_range (PDict kvs) = list_all (\<lambda>(k, v). ints_in_range v) kvs"
| "ints_in_range _ = True"

text \<open>
  \<open>_validate_json_shape\<close>: an explicit stack of values with their depths, the last pushed
  first.  Every modelled string can be encoded, so only the bounds can fail.
\<close>

function shape_loop :: "nat \<Rightarrow> (pyval \<times> nat) list \<Rightarrow> bool" where
  "shape_loop nodes [] = True"
| "shape_loop nodes ((v, depth) # stack) =
    (if nodes + 1 > MAX_RECEIPT_NODES \<or> depth > MAX_RECEIPT_DEPTH then False
     else shape_loop (nodes + 1)
       (rev (map (\<lambda>w. (w, depth + 1)) (case v of PDict kvs \<Rightarrow> map snd kvs | PList vs \<Rightarrow> vs | _ \<Rightarrow> [])) @ stack))"
  by pat_completeness auto
termination
  by (relation "measure (\<lambda>(nodes, stack). MAX_RECEIPT_NODES - nodes)") auto

declare shape_loop.simps(2) [simp del]

definition validate_json_shape :: "pyval \<Rightarrow> bool" where
  "validate_json_shape v = shape_loop 0 [(v, 0)]"

definition parse_receipt_json :: "string \<Rightarrow> receipt_error + (string \<times> pyval) list" where
  "parse_receipt_json text =
    (if length (utf8 text) > MAX_RECEIPT_BYTES
     then Inl (ReceiptError ''schema'' ''receipt exceeds the maximum encoded size'')
     else case json_loads False text of
         Inl JsonOutsideModel \<Rightarrow> Inl ReceiptOutsideModel
       | Inl e \<Rightarrow> Inl ReceiptParseError
       | Inr v \<Rightarrow>
           if \<not> ints_in_range v then Inl ReceiptParseError
           else (case v of
               PDict kvs \<Rightarrow>
                 if validate_json_shape v then Inr kvs
                 else Inl (ReceiptError ''schema'' ''receipt JSON structure is too complex'')
             | _ \<Rightarrow> Inl (ReceiptError ''schema'' ''receipt must be a JSON object'')))"

section \<open>Field validators\<close>

definition receipt_timestamp :: "pyval \<Rightarrow> string \<Rightarrow> receipt_error + datetime" where
  "receipt_timestamp v label =
    (case v of
       PStr s \<Rightarrow>
         if \<not> micros_pattern s then Inl (ReceiptError ''schema'' (label @ '' must be canonical UTC time''))
         else (case strptime_utc s of
             Some d \<Rightarrow> Inr d
           | None \<Rightarrow> Inl (ReceiptError ''schema'' (label @ '' must be canonical UTC time'')))
     | _ \<Rightarrow> Inl (ReceiptError ''schema'' (label @ '' must be canonical UTC time'')))"

definition format_time :: "datetime \<Rightarrow> receipt_error + string" where
  "format_time d =
    (if is_utc d then Inr (format_utc d)
     else Inl (ReceiptError ''schema'' ''receipt issue time must be UTC''))"

definition receipt_bounded_text :: "pyval \<Rightarrow> nat \<Rightarrow> bool \<Rightarrow> bool" where
  "receipt_bounded_text v maximum_bytes allow_none =
    (case v of
       PNone \<Rightarrow> allow_none
     | PStr s \<Rightarrow> s \<noteq> [] \<and> length (utf8 s) \<le> maximum_bytes
     | _ \<Rightarrow> False)"

definition rstrip_char :: "char \<Rightarrow> string \<Rightarrow> string" where
  "rstrip_char c s = rev (dropWhile (\<lambda>d. d = c) (rev s))"

text \<open>\<open>_work_units\<close> on \<open>str(value)\<close>; a boolean is refused before.\<close>

definition work_units_text :: "string \<Rightarrow> receipt_error + string" where
  "work_units_text t =
    (case decimal_of_text t of
       Some (DecFinite neg ds e) \<Rightarrow>
         if neg \<and> ds \<noteq> ''0'' then Inl (ReceiptError ''schema'' ''receipt work units must be nonnegative'')
         else
           (let encoded = format_fixed neg ds e;
                encoded = (if CHR ''.'' \<in> set encoded
                           then rstrip_char (CHR ''.'') (rstrip_char (CHR ''0'') encoded) else encoded);
                encoded = (if encoded = [] \<or> encoded = ''-0'' then ''0'' else encoded)
            in if length encoded > 64 \<or> \<not> DECIMAL_RE encoded
               then Inl (ReceiptError ''schema'' ''receipt work units are not canonical decimal'')
               else Inr encoded)
     | _ \<Rightarrow> Inl (ReceiptError ''schema'' ''receipt work units must be nonnegative''))"

definition strict_assurance :: "pyval \<Rightarrow> receipt_error + AssuranceClaims" where
  "strict_assurance raw =
    (case raw of
       PDict kvs \<Rightarrow>
         if \<not> same_keys kvs ASSURANCE_KEYS
         then Inl (ReceiptError ''schema'' ''receipt assurance object is invalid'')
         else (case dget kvs ''claims'' of
             PDict claims \<Rightarrow>
               if dget kvs ''schema'' \<noteq> PStr ASSURANCE_SCHEMA
               then Inl (ReceiptError ''schema'' ''receipt assurance schema is invalid'')
               else if \<not> same_keys claims (map AssuranceDimension_value all_dimensions)
               then Inl (ReceiptError ''schema'' ''receipt must contain all assurance dimensions'')
               else if list_ex (\<lambda>(k, v). case v of PDict c \<Rightarrow> \<not> same_keys c CLAIM_KEYS | _ \<Rightarrow> True) claims
               then Inl (ReceiptError ''schema'' ''receipt assurance claim fields are invalid'')
               else (case assurance_from_dict kvs of
                   Inr cs \<Rightarrow> Inr cs
                 | Inl AssuranceOutsideModel \<Rightarrow> Inl ReceiptOutsideModel
                 | Inl (AssuranceValueError m) \<Rightarrow>
                     Inl (ReceiptError ''schema'' ''receipt assurance claims are invalid''))
           | _ \<Rightarrow> Inl (ReceiptError ''schema'' ''receipt assurance schema is invalid''))
     | _ \<Rightarrow> Inl (ReceiptError ''schema'' ''receipt assurance object is invalid''))"

text \<open>One claim of \<open>_validate_claim_times_and_policy\<close>, and the whole function.\<close>

definition check_claim_time ::
  "AssuranceClaims \<Rightarrow> datetime \<Rightarrow> AssuranceDimension \<Rightarrow> receipt_error + unit" where
  "check_claim_time claims issued_at d =
    (let c = claim claims d in
     if ac_status c = NOT_EVALUATED then Inr ()
     else
       rbind (receipt_timestamp (opt_str (ac_verified_at c))
                (''receipt '' @ AssuranceDimension_value d @ '' claim verified_at'')) (\<lambda>v.
         require (dt_le v issued_at)
           (ReceiptError ''schema''
              (''receipt '' @ AssuranceDimension_value d @ '' claim is later than receipt issuance''))))"

definition check_claim_policy ::
  "AssuranceClaims \<Rightarrow> string \<Rightarrow> AssuranceDimension \<Rightarrow> receipt_error + unit" where
  "check_claim_policy claims expected d =
    require (ac_status (claim claims d) = NOT_EVALUATED \<or> ac_policy_digest (claim claims d) = Some expected)
      (ReceiptError ''policy''
         (''receipt '' @ AssuranceDimension_value d @ '' claim does not match registry policy''))"

definition validate_claim_times_and_policy ::
  "AssuranceClaims \<Rightarrow> datetime \<Rightarrow> string \<Rightarrow> receipt_error + unit" where
  "validate_claim_times_and_policy claims issued_at expected = checks
    (map (check_claim_time claims issued_at) all_dimensions
     @ map (check_claim_policy claims expected) [HARDWARE, SOFTWARE]
     @ [require (ac_status (channel claims) = NOT_EVALUATED
                 \<or> ac_policy_digest (channel claims) = Some CHANNEL_BINDING_POLICY_DIGEST)
          (ReceiptError ''policy'' ''receipt channel claim policy is unsupported'')])"

definition validate_platform :: "(string \<times> pyval) list \<Rightarrow> receipt_error + unit" where
  "validate_platform document =
    (case dget document ''platform'' of
       PDict platform \<Rightarrow> checks
         [require (same_keys platform PLATFORM_CPU_KEYS)
            (ReceiptError ''schema'' ''receipt platform keys are invalid''),
          require (\<exists>c \<in> set ACCEPTED_PLATFORM_CLASSES. dget platform ''class'' = PStr c)
            (ReceiptError ''schema'' ''receipt platform class is unsupported''),
          require (\<exists>c \<in> set ATTESTABLE_CPU_TEES. dget platform ''cpu_tee'' = PStr c)
            (ReceiptError ''policy'' ''receipt platform cpu_tee is not in the attestable set''),
          require (\<exists>c \<in> set ACCEPTED_CPU_TEES. dget platform ''cpu_tee'' = PStr c)
            (ReceiptError ''policy''
               ''receipt platform cpu_tee names a TEE whose evidence grammar this verifier does not validate'')]
     | _ \<Rightarrow> Inl (ReceiptError ''schema'' ''receipt platform block must be an object''))"

section \<open>Identity and signed bytes\<close>

definition without_keys :: "string list \<Rightarrow> (string \<times> pyval) list \<Rightarrow> (string \<times> pyval) list" where
  "without_keys ks document = filter (\<lambda>(k, v). k \<notin> set ks) document"

definition receipt_canonical :: "pyval \<Rightarrow> receipt_error + bytes" where
  "receipt_canonical v =
    (case canonical_json v of
       Inr bs \<Rightarrow> Inr bs
     | Inl e \<Rightarrow> Inl (ReceiptError ''schema'' ''receipt contains a non-canonical value''))"

definition id_material :: "(string \<times> pyval) list \<Rightarrow> receipt_error + bytes" where
  "id_material document = receipt_canonical (PDict (without_keys [''receipt_id'', ''signature''] document))"

definition unsigned_bytes :: "(string \<times> pyval) list \<Rightarrow> receipt_error + bytes" where
  "unsigned_bytes document = receipt_canonical (PDict (without_keys [''signature''] document))"

definition platform_pseudonym :: "string \<Rightarrow> int \<Rightarrow> string" where
  "platform_pseudonym chip_id source_epoch =
    ''platform-sha256:'' @ sha256_hexdigest
      (encode_ascii ''cathedral.public-platform-pseudonym.v1'' @ [0] @ encode_ascii (show_int source_epoch)
       @ [0] @ utf8 chip_id)"

record AssuranceReceipt =
  receipt_id :: string
  receipt_bytes :: bytes
  receipt_digest :: string
  receipt_document :: "(string \<times> pyval) list"

end
