(* ===== verification/Receipt_Verify.thy ===== *)
theory Receipt_Verify
  imports Receipt_Fields
begin

text \<open>
  \<open>verify_receipt\<close>: a receipt against the policy registry it names, and optionally a newer
  registry for its signing key.  The checks keep the order of the code; groups of checks
  that the code writes in one block are one definition each.
\<close>

section \<open>Parts of a receipt\<close>

definition receipt_integer :: "string \<Rightarrow> pyval \<Rightarrow> receipt_error + int" where
  "receipt_integer name v =
    (case v of
       PInt i \<Rightarrow>
         if 0 \<le> i \<and> i \<le> MAX_SQLITE_INTEGER then Inr i
         else Inl (ReceiptError ''schema'' (''receipt '' @ name @ '' is invalid''))
     | _ \<Rightarrow> Inl (ReceiptError ''schema'' (''receipt '' @ name @ '' is invalid'')))"

definition check_top :: "(string \<times> pyval) list \<Rightarrow> receipt_error + string" where
  "check_top document =
    (case dget document ''schema'' of
       PStr schema \<Rightarrow>
         if same_keys (without_keys OPTIONAL_TOP_KEYS document) TOP_KEYS
            \<and> schema \<in> {LEGACY_RECEIPT_SCHEMA, RECEIPT_SCHEMA}
         then Inr schema
         else Inl (ReceiptError ''schema'' ''receipt has missing, unknown, or unsupported fields'')
     | _ \<Rightarrow> Inl (ReceiptError ''schema'' ''receipt has missing, unknown, or unsupported fields''))"

definition check_platform :: "string \<Rightarrow> (string \<times> pyval) list \<Rightarrow> receipt_error + unit" where
  "check_platform schema document =
    (if ''platform'' \<in> set (map fst document) then
       (if schema \<noteq> RECEIPT_SCHEMA
        then Inl (ReceiptError ''schema'' ''receipt platform extension requires schema version 2'')
        else validate_platform document)
     else Inr ())"

definition check_receipt_id :: "(string \<times> pyval) list \<Rightarrow> receipt_error + string" where
  "check_receipt_id document =
    rbind (id_material document) (\<lambda>material.
      case dget document ''receipt_id'' of
        PStr rid \<Rightarrow>
          if RECEIPT_ID_RE rid \<and> rid = ''receipt-sha256:'' @ sha256_hexdigest material then Inr rid
          else Inl (ReceiptError ''schema'' ''receipt id does not match its canonical body'')
      | _ \<Rightarrow> Inl (ReceiptError ''schema'' ''receipt id does not match its canonical body''))"

fun text_items :: "pyval list \<Rightarrow> string list option" where
  "text_items [] = Some []"
| "text_items (PStr s # vs) = map_option ((#) s) (text_items vs)"
| "text_items (v # vs) = None"

definition check_profile_ids :: "pyval \<Rightarrow> receipt_error + string list" where
  "check_profile_ids v =
    (case v of
       PList vs \<Rightarrow>
         (case text_items vs of
            Some ids \<Rightarrow>
              if ids \<noteq> [] \<and> ids = sort (remdups ids) then Inr ids
              else Inl (ReceiptError ''schema'' ''receipt policy profile ids are invalid'')
          | None \<Rightarrow> Inl (ReceiptError ''schema'' ''receipt policy profile ids are invalid''))
     | _ \<Rightarrow> Inl (ReceiptError ''schema'' ''receipt policy profile ids are invalid''))"

text \<open>\<open>known_profiles\<close>: a dict comprehension, so a repeated identifier means its last profile.\<close>

definition known_profiles :: "PolicyRegistrySnapshot \<Rightarrow> string \<rightharpoonup> PolicyProfile" where
  "known_profiles s = map_of (rev (map (\<lambda>p. (profile_id p, p)) (ps_profiles s)))"

definition check_measurement ::
  "PolicyRegistrySnapshot \<Rightarrow> string list \<Rightarrow> pyval \<Rightarrow> receipt_error + string" where
  "check_measurement s ids v =
    (if list_ex (\<lambda>i. known_profiles s i = None) ids
     then Inl (ReceiptError ''policy'' ''receipt refers to an unknown policy profile'')
     else case v of
         PStr m \<Rightarrow>
           if list_ex (\<lambda>i. case known_profiles s i of
                Some p \<Rightarrow> m \<in> set (pp_measurements p) | None \<Rightarrow> False) ids
           then Inr m
           else Inl (ReceiptError ''policy'' ''receipt measurement is not in its policy profiles'')
       | _ \<Rightarrow> Inl (ReceiptError ''policy'' ''receipt measurement is not in its policy profiles''))"

text \<open>\<open>to_policy\<close> as the receipt code calls it: only registry errors are translated.\<close>

definition receipt_policy :: "datetime \<Rightarrow> PolicyRegistrySnapshot \<Rightarrow> datetime \<Rightarrow> receipt_error + Policy" where
  "receipt_policy clock s at =
    (case to_policy clock s (Some at) None of
       Inr p \<Rightarrow> Inr p
     | Inl (RegistryValueError m) \<Rightarrow> Inl (ReceiptValueError m)
     | Inl e \<Rightarrow> Inl (ReceiptError ''policy'' ''receipt registry has no eligible CPU policy''))"

definition optional_bool :: "pyval \<Rightarrow> bool" where
  "optional_bool v = (case v of PNone \<Rightarrow> True | PBool b \<Rightarrow> True | _ \<Rightarrow> False)"

text \<open>The shape of the TCB result, then the policy it must satisfy.\<close>

definition tcb_shape_ok :: "(string \<times> pyval) list \<Rightarrow> bool" where
  "tcb_shape_ok tcb \<longleftrightarrow>
     (case dget tcb ''version'' of PInt i \<Rightarrow> 0 \<le> i \<and> i \<le> MAX_SQLITE_INTEGER | _ \<Rightarrow> False)
     \<and> receipt_bounded_text (dget tcb ''status'') 128 True
     \<and> receipt_bounded_text (dget tcb ''svn'') 256 True
     \<and> (case dget tcb ''advisory_ids'' of
          PList vs \<Rightarrow> length vs \<le> MAX_TCB_ADVISORIES \<and> list_all (\<lambda>v. receipt_bounded_text v 128 False) vs
        | _ \<Rightarrow> False)
     \<and> optional_bool (dget tcb ''debug_enabled'') \<and> optional_bool (dget tcb ''collateral_current'')"

definition tcb_policy_ok :: "Policy \<Rightarrow> (string \<times> pyval) list \<Rightarrow> bool" where
  "tcb_policy_ok p tcb \<longleftrightarrow>
     (case dget tcb ''status'' of PStr s \<Rightarrow> s \<in> set (tdx_allowed_tcb_statuses p) | _ \<Rightarrow> False)
     \<and> (case dget tcb ''advisory_ids'' of
          PList vs \<Rightarrow> set vs \<subseteq> PStr ` set (tdx_allowed_advisories p) | _ \<Rightarrow> False)
     \<and> (case dget tcb ''svn'' of PStr s \<Rightarrow> TCB_SVN_RE s | _ \<Rightarrow> False)
     \<and> dget tcb ''debug_enabled'' = PBool False \<and> dget tcb ''collateral_current'' = PBool True"

definition check_tcb :: "Policy \<Rightarrow> pyval \<Rightarrow> receipt_error + unit" where
  "check_tcb p v =
    (case v of
       PDict tcb \<Rightarrow> checks
         [require (same_keys tcb TCB_KEYS \<and> tcb_shape_ok tcb)
            (ReceiptError ''schema'' ''receipt TCB result is invalid''),
          require (tcb_policy_ok p tcb)
            (ReceiptError ''policy'' ''receipt TCB result does not satisfy policy'')]
     | _ \<Rightarrow> Inl (ReceiptError ''schema'' ''receipt TCB result is invalid''))"

text \<open>An object with exactly the given keys.\<close>

definition exact_object :: "string list \<Rightarrow> string \<Rightarrow> pyval \<Rightarrow> receipt_error + (string \<times> pyval) list" where
  "exact_object ks message v =
    (case v of
       PDict kvs \<Rightarrow> if same_keys kvs ks then Inr kvs else Inl (ReceiptError ''schema'' message)
     | _ \<Rightarrow> Inl (ReceiptError ''schema'' message))"

definition worker_id_ok :: "pyval \<Rightarrow> bool" where
  "worker_id_ok v = (case v of PInt i \<Rightarrow> 0 < i \<and> i \<le> MAX_SQLITE_INTEGER | _ \<Rightarrow> False)"

definition worker_state_of :: "pyval \<Rightarrow> WorkerLifecycleState option" where
  "worker_state_of v =
    (case v of
       PStr s \<Rightarrow> find (\<lambda>w. WorkerLifecycleState_value w = s)
         [PENDING, ATTESTED, STALE, WorkerLifecycleState.FAILED, RETIRING, RETIRED, REVOKED]
     | _ \<Rightarrow> None)"

definition all_reasons :: "LifecycleReason list" where
  "all_reasons = 
    [ENROLLED, ENDPOINT_CHANGED, REENROLLED, ATTESTATION_VERIFIED, REFRESH_SCHEDULED, REFRESH_RETRY,
     EVIDENCE_EXPIRED, VERIFICATION_FAILED, RETRY_EXHAUSTED, LifecycleReason.POLICY_REVOKED, LifecycleReason.IDENTITY_CONFLICT,
     OPERATOR_RETIRING, OPERATOR_RETIRED, WORKER_REMOVED, REFRESH_CANCELLED, BACKFILL_PENDING, BACKFILL_STALE]"

definition worker_reason_of :: "pyval \<Rightarrow> LifecycleReason option" where
  "worker_reason_of v =
    (case v of PStr s \<Rightarrow> find (\<lambda>r. LifecycleReason_value r = s) all_reasons | _ \<Rightarrow> None)"

definition check_worker_lifecycle ::
  "(string \<times> pyval) list \<Rightarrow> datetime \<Rightarrow> receipt_error + unit" where
  "check_worker_lifecycle lifecycle issued_at =
    rbind (require (\<forall>n \<in> set [''worker_generation'', ''worker_revision'', ''worker_event_id'']. worker_id_ok (dget lifecycle n))
             (ReceiptError ''lifecycle'' ''receipt worker lifecycle id is invalid'')) (\<lambda>_.
    rbind (case (worker_state_of (dget lifecycle ''worker_state''), worker_reason_of (dget lifecycle ''worker_reason'')) of
             (Some st, Some r) \<Rightarrow>
               (case require_snapshot_reason st r of
                  Inr _ \<Rightarrow> Inr st
                | Inl e \<Rightarrow> Inl (ReceiptError ''lifecycle'' ''receipt worker lifecycle state is invalid''))
           | _ \<Rightarrow> Inl (ReceiptError ''lifecycle'' ''receipt worker lifecycle state is invalid'')) (\<lambda>st.
    rbind (receipt_timestamp (dget lifecycle ''worker_evidence_expires_at'')
             ''receipt worker lifecycle evidence expiry'') (\<lambda>expires.
      require (st = ATTESTED \<and> dt_less issued_at expires)
        (ReceiptError ''lifecycle'' ''receipt worker lifecycle is not eligible''))))"

definition check_work ::
  "AssuranceClaims \<Rightarrow> (string \<times> pyval) list \<Rightarrow> receipt_error + unit" where
  "check_work claims wk =
    rbind (case dget wk ''work_units'' of
             PStr u \<Rightarrow>
               rbind (work_units_text u) (\<lambda>u'.
                 require (u' = u) (ReceiptError ''schema'' ''receipt work units are not canonical''))
           | _ \<Rightarrow> Inl (ReceiptError ''schema'' ''receipt work units are not canonical'')) (\<lambda>_.
    checks
      [if ac_status (work claims) = NOT_EVALUATED
       then require (\<forall>n \<in> set [''challenge_id'', ''manifest_digest'', ''result_digest'']. dget wk n = PNone)
         (ReceiptError ''schema'' ''unevaluated work must carry null digests'')
       else require
         ((case dget wk ''challenge_id'' of PStr s \<Rightarrow> CHALLENGE_RE s | _ \<Rightarrow> False)
          \<and> (case dget wk ''manifest_digest'' of PStr s \<Rightarrow> DIGEST_RE s | _ \<Rightarrow> False))
         (ReceiptError ''schema'' ''evaluated work requires canonical digests''),
       require (ac_status (work claims) = CLAIM_PASSED \<or> dget wk ''work_units'' = PStr ''0'')
         (ReceiptError ''schema'' ''non-passing work receipt must record zero units'')])"

section \<open>Signature\<close>

definition check_signature_object :: "pyval \<Rightarrow> receipt_error + bytes" where
  "check_signature_object v =
    rbind (exact_object SIGNATURE_KEYS ''receipt signature object is invalid'' v) (\<lambda>sig.
    rbind (require (dget sig ''algorithm'' = PStr ''ed25519'')
             (ReceiptError ''signature'' ''receipt signature algorithm is unsupported'')) (\<lambda>_.
      case dget sig ''value_base64'' of
        PStr t \<Rightarrow>
          (case b64decode t of
             None \<Rightarrow> Inl (ReceiptError ''signature'' ''receipt signature is not canonical base64'')
           | Some bs \<Rightarrow>
               if length bs = 64 \<and> b64encode bs = t then Inr bs
               else Inl (ReceiptError ''signature'' ''receipt signature must be 64 bytes''))
      | _ \<Rightarrow> Inl (ReceiptError ''signature'' ''receipt signature is not canonical base64'')))"

definition check_signing_key ::
  "PolicyRegistrySnapshot \<Rightarrow> PolicyRegistrySnapshot option \<Rightarrow> datetime \<Rightarrow> pyval
    \<Rightarrow> receipt_error + ReceiptVerificationKey" where
  "check_signing_key s key_registry issued_at v =
    (case v of
       PStr kid \<Rightarrow>
         (let trust = (case key_registry of Some t \<Rightarrow> t | None \<Rightarrow> s) in
          if ps_release trust < ps_release s
          then Inl (ReceiptError ''key'' ''receipt key registry predates its policy registry'')
          else (case (receipt_key s kid, receipt_key trust kid) of
              (Some pk, Some tk) \<Rightarrow>
                if public_key pk \<noteq> public_key tk
                then Inl (ReceiptError ''key'' ''receipt signing key is not consistently anchored'')
                else if \<not> can_verify_at tk issued_at
                then Inl (ReceiptError ''key'' ''receipt signing key is retired, revoked, or out of window'')
                else Inr tk
            | _ \<Rightarrow> Inl (ReceiptError ''key'' ''receipt signing key is not consistently anchored'')))
     | _ \<Rightarrow> Inl (ReceiptError ''key'' ''receipt signing key id is invalid''))"

section \<open>The verifier\<close>

definition check_header ::
  "PolicyRegistrySnapshot \<Rightarrow> (string \<times> pyval) list \<Rightarrow> receipt_error + (string \<times> datetime \<times> string)" where
  "check_header s document =
    rbind (check_top document) (\<lambda>schema.
    rbind (check_platform schema document) (\<lambda>_.
    rbind (receipt_timestamp (dget document ''issued_at'') ''receipt issued_at'') (\<lambda>issued_at.
    rbind (receipt_integer ''epoch_id'' (dget document ''epoch_id'')) (\<lambda>_.
    rbind (receipt_integer ''source_epoch'' (dget document ''source_epoch'')) (\<lambda>_.
    rbind (receipt_integer ''policy_registry_release'' (dget document ''policy_registry_release'')) (\<lambda>rel.
    rbind (checks
      [require (0 < rel) (ReceiptError ''schema'' ''receipt registry release is invalid''),
       require (rel = ps_release s \<and> dget document ''policy_registry_digest'' = PStr (ps_digest s))
         (ReceiptError ''policy'' ''receipt does not match the supplied policy registry''),
       require (dt_le (ps_valid_from s) issued_at \<and> dt_less issued_at (ps_valid_until s))
         (ReceiptError ''policy'' ''receipt time is outside policy registry validity'')]) (\<lambda>_.
    rbind (check_receipt_id document) (\<lambda>rid.
    rbind (checks
      [require (receipt_bounded_text (dget document ''subject_hotkey'') 512 False)
         (ReceiptError ''schema'' ''receipt subject hotkey is invalid''),
       require (case dget document ''platform_pseudonym'' of PStr t \<Rightarrow> PLATFORM_RE t | _ \<Rightarrow> False)
         (ReceiptError ''schema'' ''receipt platform pseudonym is invalid'')]) (\<lambda>_.
      Inr (schema, issued_at, rid))))))))))"

definition check_policy ::
  "datetime \<Rightarrow> PolicyRegistrySnapshot \<Rightarrow> datetime \<Rightarrow> (string \<times> pyval) list \<Rightarrow> receipt_error + AssuranceClaims" where
  "check_policy clock s issued_at document =
    rbind (check_profile_ids (dget document ''policy_profile_ids'')) (\<lambda>ids.
    rbind (check_measurement s ids (dget document ''measurement'')) (\<lambda>_.
    rbind (strict_assurance (dget document ''assurance'')) (\<lambda>claims.
    rbind (receipt_timestamp (opt_str (ac_verified_at (hardware claims)))
             ''receipt hardware claim verified_at'') (\<lambda>policy_at.
    rbind (receipt_policy clock s policy_at) (\<lambda>policy.
    rbind (require (ids = registry_profile_ids policy)
             (ReceiptError ''policy'' ''receipt profile ids do not match registry policy'')) (\<lambda>_.
    rbind (check_tcb policy (dget document ''tcb'')) (\<lambda>_.
    rbind (validate_claim_times_and_policy claims issued_at (assurance_policy_digest policy)) (\<lambda>_.
      Inr claims))))))))"

definition check_results ::
  "string \<Rightarrow> datetime \<Rightarrow> AssuranceClaims \<Rightarrow> (string \<times> pyval) list \<Rightarrow> receipt_error + unit" where
  "check_results schema issued_at claims document =
    rbind (exact_object CHANNEL_KEYS ''receipt channel result is invalid'' (dget document ''channel'')) (\<lambda>ch.
    rbind (exact_object WORK_KEYS ''receipt work result is invalid'' (dget document ''work'')) (\<lambda>wk.
    rbind (exact_object (if schema = RECEIPT_SCHEMA then LIFECYCLE_KEYS_V2 else LIFECYCLE_KEYS_V1)
             ''receipt lifecycle is invalid'' (dget document ''lifecycle'')) (\<lambda>lc.
    rbind (require (dget lc ''state'' = PStr ''issued'' \<and> dget lc ''revocation_reference'' = PNone)
             (ReceiptError ''lifecycle'' ''receipt lifecycle state is unsupported'')) (\<lambda>_.
    rbind (if schema = RECEIPT_SCHEMA then check_worker_lifecycle lc issued_at else Inr ()) (\<lambda>_.
    rbind (checks
      [require (dget ch ''status'' = PStr (ClaimStatus_value (ac_status (channel claims)))
                \<and> dget ch ''binding_digest'' = opt_str (ac_evidence_digest (channel claims)))
         (ReceiptError ''schema'' ''receipt channel result contradicts its claim''),
       require (dget wk ''status'' = PStr (ClaimStatus_value (ac_status (work claims)))
                \<and> dget wk ''result_digest'' = opt_str (ac_evidence_digest (work claims)))
         (ReceiptError ''schema'' ''receipt work result contradicts its claim'')]) (\<lambda>_.
      check_work claims wk))))))"

definition check_seal ::
  "(bytes \<Rightarrow> bytes \<Rightarrow> bytes \<Rightarrow> bool) \<Rightarrow> PolicyRegistrySnapshot \<Rightarrow> PolicyRegistrySnapshot option \<Rightarrow> datetime
    \<Rightarrow> (string \<times> pyval) list \<Rightarrow> receipt_error + unit" where
  "check_seal ed25519 s key_registry issued_at document =
    rbind (check_signature_object (dget document ''signature'')) (\<lambda>sb.
    rbind (check_signing_key s key_registry issued_at (dget document ''signing_key_id'')) (\<lambda>tk.
    rbind (unsigned_bytes document) (\<lambda>message.
      require (ed25519 (public_key tk) sb message)
        (ReceiptError ''signature'' ''receipt signature verification failed''))))"

definition verify_receipt ::
  "(bytes \<Rightarrow> bytes \<Rightarrow> bytes \<Rightarrow> bool) \<Rightarrow> datetime \<Rightarrow> PolicyRegistrySnapshot \<Rightarrow> PolicyRegistrySnapshot option
    \<Rightarrow> string \<Rightarrow> receipt_error + AssuranceReceipt" where
  "verify_receipt ed25519 clock s key_registry text =
    rbind (parse_receipt_json text) (\<lambda>document.
    rbind (receipt_canonical (PDict document)) (\<lambda>canonical.
    rbind (require (utf8 text = canonical)
             (ReceiptError ''schema'' ''receipt JSON is not canonical'')) (\<lambda>_.
    rbind (check_header s document) (\<lambda>(schema, issued_at, rid).
    rbind (check_policy clock s issued_at document) (\<lambda>claims.
    rbind (check_results schema issued_at claims document) (\<lambda>_.
    rbind (check_seal ed25519 s key_registry issued_at document) (\<lambda>_.
      Inr \<lparr>receipt_id = rid, receipt_bytes = canonical, receipt_digest = sha256_label canonical,
           receipt_document = document\<rparr>)))))))"

end
