(* ===== verification/Receipt_Issue.thy ===== *)
theory Receipt_Issue
  imports Receipt_Verify
begin

text \<open>
  \<open>ReceiptIssuer\<close>: its construction from a registry and a private key, and \<open>issue\<close>, which
  builds, numbers and signs one receipt.  The Ed25519 functions of the package are
  arguments: the public key of a seed and the signature of a message under a seed.
\<close>

datatype Tier = CC_CPU_SNP | CC_CPU_TDX | CC_GPU

record Attested =
  at_tier :: Tier
  chip_id :: string
  at_measurement :: string
  at_tcb :: int
  verification_status :: string
  chain_verified :: bool
  tcb_status :: "string option"
  advisory_ids :: "string list"
  debug_enabled :: "bool option"
  collateral_current :: "bool option"
  platform_identity_kind :: "string option"
  tcb_svn :: "string option"
  pck_cert_id :: "string option"
  attestation_key_id :: "string option"
  policy_mode :: "string option"
  at_assurance :: "AssuranceClaims option"

record ReceiptIssuer =
  ri_registry :: PolicyRegistrySnapshot
  ri_signing_key_id :: string
  ri_seed :: bytes

definition ReceiptIssuer_init ::
  "(bytes \<Rightarrow> bytes) \<Rightarrow> PolicyRegistrySnapshot \<Rightarrow> string \<Rightarrow> bytes \<Rightarrow> receipt_error + ReceiptIssuer" where
  "ReceiptIssuer_init ed25519_public s kid seed =
    (if length seed \<noteq> 32 then Inl (ReceiptError ''key'' ''receipt private key seed must be 32 bytes'')
     else case receipt_key s kid of
         None \<Rightarrow> Inl (ReceiptError ''key'' ''receipt signing key is absent from the registry'')
       | Some key \<Rightarrow>
           if ed25519_public seed \<noteq> public_key key
           then Inl (ReceiptError ''key'' ''receipt private key does not match the registry'')
           else Inr \<lparr>ri_registry = s, ri_signing_key_id = kid, ri_seed = seed\<rparr>)"

text \<open>The arguments of \<open>issue\<close>; \<open>rq_work_units\<close> is \<open>str(work_units)\<close>.\<close>

record issue_request =
  rq_epoch_id :: int
  rq_source_epoch :: int
  rq_subject_hotkey :: string
  rq_attested :: Attested
  rq_policy :: Policy
  rq_assurance :: AssuranceClaims
  rq_lifecycle :: LifecycleSnapshot
  rq_challenge_id :: "string option"
  rq_manifest_digest :: "string option"
  rq_work_units :: string
  rq_platform :: "(string \<times> pyval) list option"
  rq_issued_at :: "datetime option"

section \<open>The checks of issue\<close>

definition issue_window :: "ReceiptIssuer \<Rightarrow> datetime \<Rightarrow> receipt_error + unit" where
  "issue_window ri w =
    (case receipt_key (ri_registry ri) (ri_signing_key_id ri) of
       None \<Rightarrow> Inl (ReceiptError ''key'' ''receipt signing key is not active at issue time'')
     | Some key \<Rightarrow> checks
         [require (can_sign_at key w)
            (ReceiptError ''key'' ''receipt signing key is not active at issue time''),
          require (dt_le (ps_valid_from (ri_registry ri)) w \<and> dt_less w (ps_valid_until (ri_registry ri)))
            (ReceiptError ''policy'' ''receipt issue time is outside registry validity'')])"

definition issue_subject :: "issue_request \<Rightarrow> receipt_error + unit" where
  "issue_subject rq = checks
    [require (0 \<le> rq_epoch_id rq \<and> rq_epoch_id rq \<le> MAX_SQLITE_INTEGER
              \<and> 0 \<le> rq_source_epoch rq \<and> rq_source_epoch rq \<le> MAX_SQLITE_INTEGER)
       (ReceiptError ''schema'' ''receipt epoch identifiers are invalid''),
     require (receipt_bounded_text (PStr (rq_subject_hotkey rq)) 512 False)
       (ReceiptError ''schema'' ''receipt subject hotkey is invalid''),
     require (receipt_bounded_text (PStr (at_measurement (rq_attested rq))) 512 False)
       (ReceiptError ''schema'' ''receipt measurement is invalid''),
     require (at_measurement (rq_attested rq) \<in> set (allowed_measurements (rq_policy rq)))
       (ReceiptError ''policy'' ''receipt measurement is well-formed but not approved by the current policy; the machine's measurement has changed or its approval was retired, and the receipt itself is not at fault''),
     require (receipt_bounded_text (PStr (chip_id (rq_attested rq))) 512 False)
       (ReceiptError ''schema'' ''receipt platform identity is invalid''),
     require (case at_assurance (rq_attested rq) of
                None \<Rightarrow> False
              | Some a \<Rightarrow> \<forall>d \<in> set [HARDWARE, SOFTWARE, CHANNEL]. claim a d = claim (rq_assurance rq) d)
       (ReceiptError ''schema'' ''receipt assurance differs from attested assurance'')]"

definition issue_lifecycle :: "issue_request \<Rightarrow> datetime \<Rightarrow> receipt_error + datetime" where
  "issue_lifecycle rq w =
    (let l = rq_lifecycle rq; a = rq_assurance rq in
     case evidence_expires_at l of
       Some expires \<Rightarrow>
         if hotkey l = rq_subject_hotkey rq \<and> ls_state l = ATTESTED \<and> eligible_at l w = Inr True
            \<and> evidence_digest l = ac_evidence_digest (hardware a)
            \<and> policy_digest l = ac_policy_digest (software a)
            \<and> policy_registry_release l = registry_release (rq_policy rq)
            \<and> policy_registry_digest l = registry_digest (rq_policy rq)
         then Inr expires
         else Inl (ReceiptError ''lifecycle'' ''receipt worker lifecycle snapshot is not eligible'')
     | None \<Rightarrow> Inl (ReceiptError ''lifecycle'' ''receipt worker lifecycle snapshot is not eligible''))"

definition opt_bool :: "bool option \<Rightarrow> pyval" where
  "opt_bool b = (case b of None \<Rightarrow> PNone | Some x \<Rightarrow> PBool x)"

definition tcb_object :: "Attested \<Rightarrow> (string \<times> pyval) list" where
  "tcb_object a =
    [(''status'', opt_str (tcb_status a)), (''version'', PInt (at_tcb a)), (''svn'', opt_str (tcb_svn a)),
     (''advisory_ids'', PList (map PStr (advisory_ids a))), (''debug_enabled'', opt_bool (debug_enabled a)),
     (''collateral_current'', opt_bool (collateral_current a))]"

definition issue_tcb :: "issue_request \<Rightarrow> receipt_error + unit" where
  "issue_tcb rq = checks
    [require (tcb_shape_ok (tcb_object (rq_attested rq)))
       (ReceiptError ''schema'' ''receipt TCB result is invalid''),
     require (tcb_policy_ok (rq_policy rq) (tcb_object (rq_attested rq)))
       (ReceiptError ''policy'' ''receipt TCB result does not satisfy policy'')]"

definition issue_work :: "issue_request \<Rightarrow> receipt_error + string" where
  "issue_work rq =
    rbind (if ac_status (work (rq_assurance rq)) = NOT_EVALUATED
           then require (rq_challenge_id rq = None \<and> rq_manifest_digest rq = None)
             (ReceiptError ''schema'' ''unevaluated work must carry null work digests'')
           else require
             ((case rq_challenge_id rq of Some c \<Rightarrow> CHALLENGE_RE c | None \<Rightarrow> False)
              \<and> (case rq_manifest_digest rq of Some d \<Rightarrow> DIGEST_RE d | None \<Rightarrow> False))
             (ReceiptError ''schema'' ''evaluated work requires challenge and manifest'')) (\<lambda>_.
    rbind (work_units_text (rq_work_units rq)) (\<lambda>units.
    rbind (require (ac_status (work (rq_assurance rq)) = CLAIM_PASSED \<or> units = ''0'')
             (ReceiptError ''schema'' ''non-passing work receipt must record zero units'')) (\<lambda>_.
      Inr units)))"

section \<open>The document\<close>

definition lifecycle_object :: "LifecycleSnapshot \<Rightarrow> string \<Rightarrow> (string \<times> pyval) list" where
  "lifecycle_object l expires =
    [(''state'', PStr ''issued''), (''revocation_reference'', PNone),
     (''worker_state'', PStr (WorkerLifecycleState_value (ls_state l))),
     (''worker_generation'', PInt (generation l)), (''worker_revision'', PInt (revision l)),
     (''worker_event_id'', PInt (event_id l)), (''worker_reason'', PStr (LifecycleReason_value (reason l))),
     (''worker_evidence_expires_at'', PStr expires)]"

definition receipt_body ::
  "ReceiptIssuer \<Rightarrow> issue_request \<Rightarrow> string \<Rightarrow> string \<Rightarrow> string \<Rightarrow> (string \<times> pyval) list" where
  "receipt_body ri rq when_text expires units =
    [(''schema'', PStr RECEIPT_SCHEMA), (''epoch_id'', PInt (rq_epoch_id rq)),
     (''source_epoch'', PInt (rq_source_epoch rq)), (''subject_hotkey'', PStr (rq_subject_hotkey rq)),
     (''platform_pseudonym'', PStr (platform_pseudonym (chip_id (rq_attested rq)) (rq_source_epoch rq))),
     (''policy_registry_release'', PInt (ps_release (ri_registry ri))),
     (''policy_registry_digest'', PStr (ps_digest (ri_registry ri))),
     (''policy_profile_ids'', PList (map PStr (registry_profile_ids (rq_policy rq)))),
     (''measurement'', PStr (at_measurement (rq_attested rq))),
     (''tcb'', PDict (tcb_object (rq_attested rq))),
     (''channel'', PDict
        [(''status'', PStr (ClaimStatus_value (ac_status (channel (rq_assurance rq))))),
         (''binding_digest'', opt_str (ac_evidence_digest (channel (rq_assurance rq))))]),
     (''work'', PDict
        [(''status'', PStr (ClaimStatus_value (ac_status (work (rq_assurance rq))))),
         (''challenge_id'', opt_str (rq_challenge_id rq)),
         (''manifest_digest'', opt_str (rq_manifest_digest rq)),
         (''result_digest'', opt_str (ac_evidence_digest (work (rq_assurance rq)))),
         (''work_units'', PStr units)]),
     (''assurance'', claims_to_dict True (rq_assurance rq)),
     (''lifecycle'', PDict (lifecycle_object (rq_lifecycle rq) expires)),
     (''issued_at'', PStr when_text), (''signing_key_id'', PStr (ri_signing_key_id ri))]"

text \<open>The optional platform block, checked by the verifier's own function.\<close>

definition add_platform ::
  "issue_request \<Rightarrow> (string \<times> pyval) list \<Rightarrow> receipt_error + (string \<times> pyval) list" where
  "add_platform rq body =
    (case rq_platform rq of
       None \<Rightarrow> Inr body
     | Some p \<Rightarrow>
         (let document = body @ [(''platform'', PDict p)] in
          rbind (validate_platform document) (\<lambda>_.
          rbind (require (at_tier (rq_attested rq) = CC_CPU_TDX)
                   (ReceiptError ''policy'' ''receipt platform cpu_tee does not match the attested hardware'')) (\<lambda>_.
            Inr document))))"

definition seal_receipt ::
  "(bytes \<Rightarrow> bytes \<Rightarrow> bytes) \<Rightarrow> bytes \<Rightarrow> (string \<times> pyval) list \<Rightarrow> receipt_error + AssuranceReceipt" where
  "seal_receipt ed25519_sign seed document =
    rbind (id_material document) (\<lambda>material.
      let rid = ''receipt-sha256:'' @ sha256_hexdigest material;
          numbered = document @ [(''receipt_id'', PStr rid)] in
      rbind (unsigned_bytes numbered) (\<lambda>message.
        let sdoc = numbered @ [(''signature'', PDict
              [(''algorithm'', PStr ''ed25519''), (''value_base64'', PStr (b64encode (ed25519_sign seed message)))])] in
        rbind (receipt_canonical (PDict sdoc)) (\<lambda>bs.
          Inr \<lparr>receipt_id = rid, receipt_bytes = bs, receipt_digest = sha256_label bs, receipt_document = sdoc\<rparr>)))"

text \<open>\<open>clock\<close> is the issuer's clock, used when no time is given and by \<open>to_policy\<close>.\<close>

definition issue_receipt ::
  "(bytes \<Rightarrow> bytes \<Rightarrow> bytes) \<Rightarrow> datetime \<Rightarrow> ReceiptIssuer \<Rightarrow> issue_request \<Rightarrow> receipt_error + AssuranceReceipt" where
  "issue_receipt ed25519_sign clock ri rq =
    rbind (format_time (case rq_issued_at rq of Some t \<Rightarrow> t | None \<Rightarrow> clock)) (\<lambda>when_text.
    rbind (receipt_timestamp (PStr when_text) ''receipt issued_at'') (\<lambda>w.
    rbind (issue_window ri w) (\<lambda>_.
    rbind (receipt_timestamp (opt_str (ac_verified_at (hardware (rq_assurance rq))))
             ''receipt hardware claim verified_at'') (\<lambda>policy_at.
    rbind (receipt_policy clock (ri_registry ri) policy_at) (\<lambda>expected.
    rbind (require (policy_eq (rq_policy rq) expected)
             (ReceiptError ''policy'' ''receipt policy does not match its registry'')) (\<lambda>_.
    rbind (issue_subject rq) (\<lambda>_.
    rbind (validate_claim_times_and_policy (rq_assurance rq) w (assurance_policy_digest (rq_policy rq))) (\<lambda>_.
    rbind (issue_lifecycle rq w) (\<lambda>expires.
    rbind (issue_tcb rq) (\<lambda>_.
    rbind (issue_work rq) (\<lambda>units.
    rbind (case lifecycle_canonical_utc expires of
             Inr t \<Rightarrow> Inr t
           | Inl e \<Rightarrow> Inl (ReceiptValueError ''worker lifecycle time must be UTC'')) (\<lambda>expires_text.
    rbind (add_platform rq (receipt_body ri rq when_text expires_text units)) (\<lambda>document.
      seal_receipt ed25519_sign (ri_seed ri) document)))))))))))))"

end
