(* ===== verification/Receipt_Checks.thy ===== *)
theory Receipt_Checks
  imports Receipt_Issue Registry_Snapshot
begin

text \<open>
  When each check of \<open>verify_receipt\<close> succeeds, and what the checks give together: the parts
  of the receipt, the policy behind its profiles, its key and its worker.
\<close>

lemma parse_receipt_json_ok:
  assumes "parse_receipt_json text = Inr kvs"
  shows "json_loads False text = Inr (PDict kvs)" "length (utf8 text) \<le> MAX_RECEIPT_BYTES"
    "ints_in_range (PDict kvs)" "validate_json_shape (PDict kvs)"
  using assms unfolding parse_receipt_json_def
  by (auto split: if_splits sum.splits pyval.splits json_error.splits)

lemma receipt_canonical_ok_iff [ok_simps]:
  "receipt_canonical v = Inr bs \<longleftrightarrow> is_json v \<and> bs = encode_ascii (dumps v)"
  by (auto simp: receipt_canonical_def canonical_json_def)

lemma signature_text_ok:
  "(case b64decode t of None \<Rightarrow> Inl e
    | Some bs \<Rightarrow> if length bs = 64 \<and> b64encode bs = t then Inr bs else Inl e') = Inr sb
   \<longleftrightarrow> t = b64encode sb \<and> length sb = 64"
proof (cases "t = b64encode sb")
  case True
  then show ?thesis by simp
next
  case False
  then have "b64encode bs \<noteq> t \<or> bs \<noteq> sb" for bs by blast
  with False show ?thesis by (auto split: option.splits simp del: b64encode.simps b64decode.simps)
qed

lemma check_signature_object_ok:
  "check_signature_object v = Inr sb \<longleftrightarrow>
     (\<exists>sig. v = PDict sig \<and> same_keys sig SIGNATURE_KEYS \<and> dget sig ''algorithm'' = PStr ''ed25519''
        \<and> dget sig ''value_base64'' = PStr (b64encode sb) \<and> length sb = 64)"
proof (cases v)
  case (PDict sig)
  then show ?thesis
    by (cases "dget sig ''value_base64''")
      (simp_all add: check_signature_object_def exact_object_def ok_simps signature_text_ok conj_ac)
qed (simp_all add: check_signature_object_def exact_object_def)

lemma check_signing_key_ok:
  "check_signing_key s kr at v = Inr tk \<longleftrightarrow>
     (\<exists>kid pk. v = PStr kid \<and> ps_release s \<le> ps_release (case kr of Some t \<Rightarrow> t | None \<Rightarrow> s)
        \<and> receipt_key s kid = Some pk \<and> receipt_key (case kr of Some t \<Rightarrow> t | None \<Rightarrow> s) kid = Some tk
        \<and> public_key pk = public_key tk \<and> can_verify_at tk at)"
  unfolding check_signing_key_def Let_def
  by (cases v; cases kr) (auto split: option.splits if_splits)

lemma receipt_policy_ok: "receipt_policy clock s at = Inr p \<longleftrightarrow> to_policy clock s (Some at) None = Inr p"
  by (auto simp: receipt_policy_def split: sum.splits registry_error.splits)

lemma check_top_ok:
  "check_top d = Inr schema \<Longrightarrow>
     dget d ''schema'' = PStr schema \<and> (schema = LEGACY_RECEIPT_SCHEMA \<or> schema = RECEIPT_SCHEMA)"
  by (cases "dget d ''schema''") (auto simp: check_top_def split: if_splits)

lemma receipt_integer_ok: "receipt_integer name v = Inr i \<Longrightarrow> v = PInt i"
  by (cases v) (auto simp: receipt_integer_def split: if_splits)

lemma check_header_ok:
  assumes "check_header s d = Inr (schema, issued_at, rid)"
  shows "dget d ''schema'' = PStr schema" "schema = LEGACY_RECEIPT_SCHEMA \<or> schema = RECEIPT_SCHEMA"
    "receipt_timestamp (dget d ''issued_at'') ''receipt issued_at'' = Inr issued_at"
    "dget d ''policy_registry_release'' = PInt (ps_release s)" "0 < ps_release s"
    "dget d ''policy_registry_digest'' = PStr (ps_digest s)"
    "dt_le (ps_valid_from s) issued_at" "dt_less issued_at (ps_valid_until s)"
    "check_receipt_id d = Inr rid"
  using assms unfolding check_header_def ok_simps
  by (elim exE conjE; simp add: ok_simps; use check_top_ok receipt_integer_ok in blast)+

lemma check_receipt_id_ok:
  "check_receipt_id d = Inr rid \<longleftrightarrow>
     (\<exists>m. id_material d = Inr m \<and> RECEIPT_ID_RE rid \<and> rid = ''receipt-sha256:'' @ sha256_hexdigest m
        \<and> dget d ''receipt_id'' = PStr rid)"
  by (cases "dget d ''receipt_id''") (auto simp: check_receipt_id_def ok_simps)

lemma check_policy_ok:
  assumes "check_policy clock s issued_at d = Inr cs"
  shows "\<exists>ids m policy_at p.
      check_profile_ids (dget d ''policy_profile_ids'') = Inr ids
      \<and> check_measurement s ids (dget d ''measurement'') = Inr m
      \<and> strict_assurance (dget d ''assurance'') = Inr cs
      \<and> receipt_timestamp (opt_str (ac_verified_at (hardware cs))) ''receipt hardware claim verified_at'' = Inr policy_at
      \<and> to_policy clock s (Some policy_at) None = Inr p \<and> ids = registry_profile_ids p
      \<and> check_tcb p (dget d ''tcb'') = Inr ()
      \<and> validate_claim_times_and_policy cs issued_at (assurance_policy_digest p) = Inr ()"
  using assms unfolding check_policy_def ok_simps receipt_policy_ok by auto

lemma verify_receipt_ok:
  assumes "verify_receipt ed25519 clock s kr text = Inr r"
  shows "\<exists>schema issued_at cs.
      json_loads False text = Inr (PDict (receipt_document r)) \<and> utf8 text = encode_ascii (dumps (PDict (receipt_document r)))
      \<and> receipt_bytes r = utf8 text \<and> receipt_digest r = sha256_label (utf8 text)
      \<and> check_header s (receipt_document r) = Inr (schema, issued_at, receipt_id r)
      \<and> check_policy clock s issued_at (receipt_document r) = Inr cs
      \<and> check_results schema issued_at cs (receipt_document r) = Inr ()
      \<and> check_seal ed25519 s kr issued_at (receipt_document r) = Inr ()"
  using assms unfolding verify_receipt_def ok_simps
  by (auto dest!: parse_receipt_json_ok(1) simp: ok_simps simp del: dumps.simps is_json.simps)

lemma verified_text:
  assumes "json_loads False text = Inr (PDict d)" "utf8 text = encode_ascii (dumps (PDict d))"
  shows "text = dumps (PDict d)"
  using assms(2) utf8_ascii [OF ascii_dumps [OF loads_is_json [OF assms(1)]]] utf8_inject by metis

lemma known_profile:
  assumes "distinct (map profile_id (ps_profiles s))" "p \<in> set (ps_profiles s)"
  shows "known_profiles s (profile_id p) = Some p"
  unfolding known_profiles_def using assms
  by (intro map_of_is_SomeI) (auto simp: rev_map [symmetric] comp_def)

lemma known_profile_in: "known_profiles s i = Some p \<Longrightarrow> p \<in> set (ps_profiles s) \<and> profile_id p = i"
  unfolding known_profiles_def by (auto dest: map_of_SomeD)

lemma check_measurement_ok:
  assumes "check_measurement s ids v = Inr m"
  shows "v = PStr m" "\<exists>i \<in> set ids. \<exists>p. known_profiles s i = Some p \<and> m \<in> set (pp_measurements p)"
proof -
  have known: "\<forall>i \<in> set ids. known_profiles s i \<noteq> None"
    and m: "v = PStr m" "\<exists>i \<in> set ids. case known_profiles s i of Some p \<Rightarrow> m \<in> set (pp_measurements p) | None \<Rightarrow> False"
    using assms by (auto simp: check_measurement_def list_ex_iff split: if_splits pyval.splits)
  then show "v = PStr m" "\<exists>i \<in> set ids. \<exists>p. known_profiles s i = Some p \<and> m \<in> set (pp_measurements p)"
    by (simp, metis option.case(2) not_None_eq)
qed

lemma measurement_allowed:
  assumes s: "distinct (map profile_id (ps_profiles s))"
    and p: "to_policy clock s at age = Inr p" and m: "check_measurement s (registry_profile_ids p) v = Inr m"
  shows "m \<in> set (allowed_measurements p)"
proof -
  let ?e = "eligible_profiles s (evaluation_time clock at)"
  note g = to_policy_ok(1) [OF p]
  obtain i q where q: "i \<in> set (registry_profile_ids p)" "known_profiles s i = Some q" "m \<in> set (pp_measurements q)"
    using check_measurement_ok(2) [OF m] by blast
  obtain q' where q': "q' \<in> set ?e" "profile_id q' = i" using q(1) by (auto simp: g granted_policy_def)
  then have "q' = q" using known_profile [OF s, of q'] q(2) by (simp add: eligible_profiles_def)
  with q' q(3) show ?thesis by (auto simp: g granted_policy_def)
qed

lemma check_tcb_ok:
  "check_tcb p v = Inr () \<longleftrightarrow>
     (\<exists>tcb. v = PDict tcb \<and> same_keys tcb TCB_KEYS \<and> tcb_shape_ok tcb \<and> tcb_policy_ok p tcb)"
  by (auto simp: check_tcb_def ok_simps split: pyval.splits)

lemma strict_assurance_claims_ok: "strict_assurance raw = Inr cs \<Longrightarrow> claims_ok cs"
  unfolding strict_assurance_def
  by (auto split: pyval.splits if_splits sum.splits assurance_error.splits intro: assurance_from_dict_ok)

lemma check_worker_lifecycle_ok:
  "check_worker_lifecycle l at = Inr () \<longleftrightarrow>
     (\<forall>n \<in> set [''worker_generation'', ''worker_revision'', ''worker_event_id'']. worker_id_ok (dget l n))
     \<and> (\<exists>r expires. worker_state_of (dget l ''worker_state'') = Some ATTESTED
          \<and> worker_reason_of (dget l ''worker_reason'') = Some r \<and> require_snapshot_reason ATTESTED r = Inr ()
          \<and> receipt_timestamp (dget l ''worker_evidence_expires_at'') ''receipt worker lifecycle evidence expiry'' = Inr expires
          \<and> dt_less at expires)"
  unfolding check_worker_lifecycle_def ok_simps
  by (auto split: option.splits sum.splits)

lemma tcb_policy_status:
  "tcb_policy_ok p tcb \<Longrightarrow> \<exists>st. dget tcb ''status'' = PStr st \<and> st \<in> set (tdx_allowed_tcb_statuses p)"
  unfolding tcb_policy_ok_def by (auto split: pyval.splits)

lemma check_profile_ids_ok: "check_profile_ids v = Inr ids \<Longrightarrow> v = PList (map PStr ids)"
proof -
  have t: "text_items vs = Some ss \<Longrightarrow> vs = map PStr ss" for vs ss
    by (induction vs arbitrary: ss rule: text_items.induct) auto
  show "check_profile_ids v = Inr ids \<Longrightarrow> v = PList (map PStr ids)"
    by (auto simp: check_profile_ids_def split: pyval.splits option.splits if_splits dest: t)
qed

lemma hardware_claim_bound:
  assumes ok: "claims_ok cs"
    and at: "receipt_timestamp (opt_str (ac_verified_at (hardware cs))) l = Inr policy_at"
    and v: "validate_claim_times_and_policy cs issued_at expected = Inr ()"
  shows "ac_status (hardware cs) \<noteq> NOT_EVALUATED" "dt_le policy_at issued_at"
    "ac_policy_digest (hardware cs) = Some expected"
proof -
  show ev: "ac_status (hardware cs) \<noteq> NOT_EVALUATED"
    using claims_okD(1) [OF ok] at by (auto simp: claim_ok_def receipt_timestamp_def not_evaluated_claim_def)
  have "check_claim_time cs issued_at HARDWARE = Inr ()" and p: "check_claim_policy cs expected HARDWARE = Inr ()"
    using v unfolding validate_claim_times_and_policy_def checks_ok_iff by (auto simp: all_dimensions_def)
  then obtain a where a: "receipt_timestamp (opt_str (ac_verified_at (hardware cs)))
      (''receipt '' @ AssuranceDimension_value HARDWARE @ '' claim verified_at'') = Inr a" "dt_le a issued_at"
    using ev unfolding check_claim_time_def Let_def claim.simps
    by (simp only: if_False ok_simps) blast
  then have "a = policy_at"
    using at by (auto simp: receipt_timestamp_def split: pyval.splits option.splits if_splits)
  with a show "dt_le policy_at issued_at" by simp
  show "ac_policy_digest (hardware cs) = Some expected"
    using p ev by (simp add: check_claim_policy_def ok_simps)
qed

lemma check_results_ok:
  assumes "check_results schema issued_at cs d = Inr ()"
  shows "schema = RECEIPT_SCHEMA \<Longrightarrow> \<exists>lc. dget d ''lifecycle'' = PDict lc \<and> check_worker_lifecycle lc issued_at = Inr ()"
    and "\<exists>wk. dget d ''work'' = PDict wk \<and> check_work cs wk = Inr ()"
  using assms unfolding check_results_def ok_simps exact_object_def
  by (auto split: pyval.splits if_splits)

lemma check_work_units:
  "check_work cs wk = Inr () \<Longrightarrow> ac_status (work cs) = CLAIM_PASSED \<or> dget wk ''work_units'' = PStr ''0''"
  unfolding check_work_def ok_simps by blast

end
