(* ===== verification/Receipt_Text.thy ===== *)
theory Receipt_Text
  imports Receipt_Issue Registry_Snapshot
begin

text \<open>
  Facts about the parts of a receipt: its times are read back, its work units are a normal
  form, the shape check on an explicit stack decides the number and depth of the values, and
  bounds on the length of canonical text.
\<close>

section \<open>Times\<close>

lemma micros_pattern_format:
  assumes utc: "is_utc d"
  shows "micros_pattern (format_utc d)"
proof -
  note b = utc_field_bounds [OF utc]
  let ?y = "pad_dec 4 (dt_year d)" and ?mo = "pad_dec 2 (dt_month d)" and ?d = "pad_dec 2 (dt_day d)"
    and ?h = "pad_dec 2 (dt_hour d)" and ?mi = "pad_dec 2 (dt_minute d)" and ?s = "pad_dec 2 (dt_second d)"
    and ?us = "pad_dec 6 (dt_microsecond d)"
  have "dt_day d < 10 ^ 2" using b by simp
  then have len: "length ?y = 4" "length ?mo = 2" "length ?d = 2" "length ?h = 2" "length ?mi = 2" "length ?s = 2"
    "length ?us = 6"
    using b by (simp_all only: length_pad_dec zero_less_numeral)
  have dig: "is_digit (?y ! i)" if "i < 4" for i using that len(1) pad_dec_digits by (simp add: digit_text)
  have dig2: "is_digit (?mo ! i)" "is_digit (?d ! i)" "is_digit (?h ! i)" "is_digit (?mi ! i)" "is_digit (?s ! i)"
    if "i < 2" for i using that len pad_dec_digits by (simp_all add: digit_text)
  have dig6: "is_digit (?us ! i)" if "i < 6" for i using that len(7) pad_dec_digits by (simp add: digit_text)
  have "set [0..<27] = {0, 1, 2, 3, 4, 5, 6, 7, 8, 9, 10, 11, 12, 13, 14, 15, 16, 17, 18, 19, 20, 21, 22, 23, 24, 25, 26 :: nat}"
    by code_simp
  then show ?thesis
    unfolding micros_pattern_def
    using len by (simp add: format_utc_def nth_append dig dig2 dig6 del: One_nat_def set_upt)
qed

lemma valid_utc_format:
  assumes utc: "is_utc d"
  shows "valid_utc_timestamp (format_utc d) = Some True"
proof -
  note b = utc_field_bounds [OF utc]
  have "dt_day d < 10 ^ 2" using b by simp
  then have len: "length (pad_dec 4 (dt_year d)) = 4" "length (pad_dec 2 (dt_month d)) = 2" "length (pad_dec 2 (dt_day d)) = 2"
    "length (pad_dec 2 (dt_hour d)) = 2" "length (pad_dec 2 (dt_minute d)) = 2" "length (pad_dec 2 (dt_second d)) = 2"
    "length (pad_dec 6 (dt_microsecond d)) = 6"
    using b by (simp_all only: length_pad_dec zero_less_numeral)
  have f: "text_field (format_utc d) 0 4 = dt_year d" "text_field (format_utc d) 5 2 = dt_month d"
    "text_field (format_utc d) 8 2 = dt_day d" "text_field (format_utc d) 11 2 = dt_hour d"
    "text_field (format_utc d) 14 2 = dt_minute d" "text_field (format_utc d) 17 2 = dt_second d"
    "text_field (format_utc d) 20 6 = dt_microsecond d"
    using len by (simp_all add: text_field_def format_utc_def)
  have "last (format_utc d) = CHR ''Z''" "format_utc d \<noteq> []" by (simp_all add: format_utc_def)
  then show ?thesis
    using micros_pattern_format [OF utc] utc utc_rebuild [OF utc] by (simp add: valid_utc_timestamp_def f is_utc_def)
qed

lemma receipt_timestamp_format [simp]:
  "is_utc d \<Longrightarrow> receipt_timestamp (PStr (format_utc d)) l = Inr d"
  by (simp add: receipt_timestamp_def micros_pattern_format strptime_format)

lemma receipt_timestamp_utc: "receipt_timestamp v l = Inr d \<Longrightarrow> \<exists>s. v = PStr s \<and> micros_pattern s"
  by (auto simp: receipt_timestamp_def split: pyval.splits if_splits)

section \<open>Work units\<close>

lemma strip_id: "s \<noteq> [] \<Longrightarrow> \<not> is_space (hd s) \<Longrightarrow> \<not> is_space (last s) \<Longrightarrow> strip s = s"
proof -
  assume a: "s \<noteq> []" "\<not> is_space (hd s)" "\<not> is_space (last s)"
  have "dropWhile is_space s = s" using a(1,2) by (cases s) auto
  moreover have "dropWhile is_space (rev s) = rev s" using a(1,3) by (cases s rule: rev_cases) auto
  ultimately show ?thesis by (simp add: strip_def)
qed

lemma digit_not_special: "is_digit c \<Longrightarrow> \<not> is_space c \<and> c \<notin> {CHR ''_'', CHR ''-'', CHR ''+'', CHR ''.''}"
  by (auto simp: is_digit_def is_space_def)

lemma rstrip_id: "s \<noteq> [] \<Longrightarrow> last s \<noteq> c \<Longrightarrow> rstrip_char c s = s"
  by (cases s rule: rev_cases) (auto simp: rstrip_char_def)

definition int_text :: "string \<Rightarrow> bool" where
  "int_text ip \<longleftrightarrow> ip \<noteq> [] \<and> list_all is_digit ip \<and> (ip = ''0'' \<or> hd ip \<noteq> CHR ''0'')"

definition fraction_text :: "string \<Rightarrow> bool" where
  "fraction_text fp \<longleftrightarrow> fp \<noteq> [] \<and> list_all is_digit fp \<and> last fp \<noteq> CHR ''0''"

lemma DECIMAL_RE_cases:
  assumes "DECIMAL_RE s"
  obtains (whole) "int_text s" | (fraction) ip fp where "s = ip @ CHR ''.'' # fp" "int_text ip" "fraction_text fp"
proof -
  let ?ip = "takeWhile is_digit s" and ?r = "dropWhile is_digit s"
  have ip: "int_text ?ip" and r: "?r = [] \<or> (hd ?r = CHR ''.'' \<and> tl ?r \<noteq> [] \<and> list_all is_digit (tl ?r) \<and> last ?r \<noteq> CHR ''0'')"
    using assms by (auto simp: DECIMAL_RE_def Let_def int_text_def list_all_iff dest: set_takeWhileD)
  have s: "s = ?ip @ ?r" by simp
  show thesis
  proof (cases "?r = []")
    case True
    then have "?ip = s" using s by (metis append_Nil2)
    then show thesis using ip whole by metis
  next
    case False
    then have "s = ?ip @ CHR ''.'' # tl ?r" "fraction_text (tl ?r)"
      using r s unfolding fraction_text_def by (metis list.collapse) (use False r in \<open>cases ?r, auto\<close>)
    then show thesis using ip fraction by blast
  qed
qed

lemma takeWhile_digits [simp]:
  "list_all is_digit ip \<Longrightarrow> takeWhile is_digit (ip @ CHR ''.'' # fp) = ip"
  "list_all is_digit ip \<Longrightarrow> dropWhile is_digit (ip @ CHR ''.'' # fp) = CHR ''.'' # fp"
  "list_all is_digit ip \<Longrightarrow> takeWhile is_digit ip = ip" "list_all is_digit ip \<Longrightarrow> dropWhile is_digit ip = []"
  by (auto simp: list_all_iff is_digit_def takeWhile_append dropWhile_append takeWhile_eq_all_conv)

lemma drop_zeros_int: "int_text ip \<Longrightarrow> drop_zeros ip = ip"
  by (cases ip) (auto simp: int_text_def drop_zeros_def)

lemma length_drop_zeros: "length (drop_zeros ds) \<le> max 1 (length ds)"
proof (cases "dropWhile (\<lambda>c. c = CHR ''0'') ds")
  case (Cons c r)
  then have "length (c # r) \<le> length ds" by (metis length_dropWhile_le)
  then show ?thesis using Cons by (simp add: drop_zeros_def)
next
  case Nil
  show ?thesis unfolding drop_zeros_def Nil by simp
qed

lemma takeWhile_same: "takeWhile (\<lambda>c. c = a) xs = replicate (length (takeWhile (\<lambda>c. c = a) xs)) a"
  by (induction xs) simp_all

lemma zeros_restored:
  assumes "int_text ip" "fraction_text fp"
  shows "replicate (Suc (length fp) - length (drop_zeros (ip @ fp))) (CHR ''0'') @ drop_zeros (ip @ fp) = ip @ fp"
proof (cases "ip = ''0''")
  case True
  let ?z = "takeWhile (\<lambda>c. c = CHR ''0'') fp" and ?r = "dropWhile (\<lambda>c. c = CHR ''0'') fp"
  have "last fp \<in> set fp" "last fp \<noteq> CHR ''0''" using assms(2) by (simp_all add: fraction_text_def)
  then have "?r \<noteq> []" unfolding dropWhile_eq_Nil_conv by blast
  moreover have "dropWhile (\<lambda>c. c = CHR ''0'') (ip @ fp) = ?r" using True by simp
  ultimately have d: "drop_zeros (ip @ fp) = ?r" unfolding drop_zeros_def by (metis list.exhaust list.case(2))
  have z: "?z = replicate (length ?z) (CHR ''0'')"
    by (rule takeWhile_same)
  have "length ?z + length ?r = length fp" by (metis length_append takeWhile_dropWhile_id)
  then have "Suc (length fp) - length ?r = Suc (length ?z)" by simp
  then have "replicate (Suc (length fp) - length ?r) (CHR ''0'') = CHR ''0'' # ?z"
    using z by (metis replicate_Suc)
  then show ?thesis unfolding d using True by simp
next
  case False
  then have "drop_zeros (ip @ fp) = ip @ fp" using assms(1) by (cases ip) (auto simp: int_text_def drop_zeros_def)
  moreover have "Suc (length fp) - length (ip @ fp) = 0" using assms(1) by (cases ip) (auto simp: int_text_def)
  ultimately show ?thesis by simp
qed

lemma decimal_of_plain:
  assumes "s \<noteq> []" "is_digit (hd s)" "is_digit (last s)" "CHR ''_'' \<notin> set s"
  shows "decimal_of_text s = (case decimal_number False s of Some d \<Rightarrow> Some d | None \<Rightarrow> decimal_special False s)"
proof -
  have "strip s = s" using assms(1-3) digit_not_special by (intro strip_id) blast+
  moreover have "filter (\<lambda>c. c \<noteq> CHR ''_'') s = s" using assms(4) by (auto simp: filter_id_conv)
  moreover have "hd s \<noteq> CHR ''-'' \<and> hd s \<noteq> CHR ''+''" using digit_not_special [OF assms(2)] by auto
  ultimately show ?thesis by (simp add: decimal_of_text_def)
qed

lemma digits_hd_last: "list_all is_digit s \<Longrightarrow> s \<noteq> [] \<Longrightarrow> is_digit (hd s) \<and> is_digit (last s)"
  by (simp add: list_all_iff)

lemma digits_no_char: "list_all is_digit s \<Longrightarrow> \<not> is_digit c \<Longrightarrow> c \<notin> set s"
  by (auto simp: list_all_iff)

lemma work_units_text_whole:
  assumes "int_text s" "length s \<le> 64" "DECIMAL_RE s"
  shows "work_units_text s = Inr s"
proof -
  have d: "list_all is_digit s" "s \<noteq> []" using assms(1) by (simp_all add: int_text_def)
  have n: "decimal_number False s = Some (DecFinite False s 0)"
    using d assms(2) drop_zeros_int [OF assms(1)]
    by (simp add: decimal_number_def decimal_exponent_def MIN_ETINY_def MAX_EMAX_def)
  have "decimal_of_text s = Some (DecFinite False s 0)"
    using decimal_of_plain [OF d(2)] digits_hd_last [OF d] digits_no_char [OF d(1), of "CHR ''_''"] n
    by (simp add: is_digit_def)
  moreover have "CHR ''.'' \<notin> set s" using digits_no_char [OF d(1)] by (simp add: is_digit_def)
  moreover have "s \<noteq> ''-0''" using d by (auto simp: is_digit_def)
  ultimately show ?thesis
    using assms d(2) by (auto simp: work_units_text_def format_fixed_def Let_def)
qed

lemma work_units_text_fraction:
  assumes s: "s = ip @ CHR ''.'' # fp" and ip: "int_text ip" and fp: "fraction_text fp"
    and len: "length s \<le> 64" and re: "DECIMAL_RE s"
  shows "work_units_text s = Inr s"
proof -
  have d: "list_all is_digit ip" "ip \<noteq> []" "list_all is_digit fp" "fp \<noteq> []"
    using ip fp by (simp_all add: int_text_def fraction_text_def)
  let ?ds = "drop_zeros (ip @ fp)"
  have l: "length ?ds \<le> 64" using length_drop_zeros [of "ip @ fp"] len by (simp add: s)
  have n: "decimal_number False s = Some (DecFinite False ?ds (- int (length fp)))"
    using d l len by (simp add: s decimal_number_def Let_def decimal_exponent_def MIN_ETINY_def MAX_EMAX_def)
  have hl: "is_digit (hd s)" "is_digit (last s)" "CHR ''_'' \<notin> set s" "s \<noteq> []"
    using digits_hd_last [OF d(1,2)] digits_hd_last [OF d(3,4)] digits_no_char [OF d(1), of "CHR ''_''"]
      digits_no_char [OF d(3), of "CHR ''_''"] d
    by (simp_all add: s is_digit_def)
  then have o: "decimal_of_text s = Some (DecFinite False ?ds (- int (length fp)))"
    using decimal_of_plain n by simp
  have f: "format_fixed False ?ds (- int (length fp)) = s"
    using d(4)
    by (simp add: format_fixed_def Let_def zeros_restored [OF ip fp] s del: take_append drop_append length_append)
      (simp only: length_append add_diff_cancel_right' append_take_drop_id append_eq_conv_conj, simp)
  have "last s \<noteq> CHR ''0''" "last s \<noteq> CHR ''.''"
    using fp d hl(2) by (auto simp: s fraction_text_def is_digit_def)
  then have "rstrip_char (CHR ''.'') (rstrip_char (CHR ''0'') s) = s" using hl(4) by (simp add: rstrip_id)
  moreover have "CHR ''.'' \<in> set s" "s \<noteq> ''-0''" using hl(1) by (auto simp: s is_digit_def)
  ultimately show ?thesis
    using o f len re hl(4) by (simp add: work_units_text_def Let_def)
qed

lemma work_units_text_canonical: "work_units_text t = Inr u \<Longrightarrow> DECIMAL_RE u \<and> length u \<le> 64"
  by (auto simp: work_units_text_def Let_def split: option.splits decimal.splits if_splits)

lemma work_units_text_idem:
  assumes "work_units_text t = Inr u"
  shows "work_units_text u = Inr u"
proof -
  have u: "DECIMAL_RE u" "length u \<le> 64" using work_units_text_canonical [OF assms] by auto
  from u(1) show ?thesis
    by (cases rule: DECIMAL_RE_cases) (use u in \<open>auto intro: work_units_text_whole work_units_text_fraction\<close>)
qed

section \<open>The shape check\<close>

text \<open>What the loop decides: the number of values and the depth of each.\<close>

fun node_count :: "pyval \<Rightarrow> nat" where
  "node_count (PList vs) = 1 + (\<Sum>v\<leftarrow>vs. node_count v)"
| "node_count (PDict kvs) = 1 + (\<Sum>(k, v)\<leftarrow>kvs. node_count v)"
| "node_count v = 1"

fun depth_within :: "nat \<Rightarrow> pyval \<Rightarrow> bool" where
  "depth_within d (PList vs) \<longleftrightarrow> d \<le> MAX_RECEIPT_DEPTH \<and> list_all (depth_within (d + 1)) vs"
| "depth_within d (PDict kvs) \<longleftrightarrow> d \<le> MAX_RECEIPT_DEPTH \<and> list_all (\<lambda>(k, v). depth_within (d + 1) v) kvs"
| "depth_within d v \<longleftrightarrow> d \<le> MAX_RECEIPT_DEPTH"

lemma node_count_children:
  "node_count v = 1 + (\<Sum>w\<leftarrow>(case v of PDict kvs \<Rightarrow> map snd kvs | PList vs \<Rightarrow> vs | _ \<Rightarrow> []). node_count w)"
  by (cases v) (simp_all add: comp_def case_prod_unfold)

lemma depth_within_children:
  "depth_within d v \<longleftrightarrow> d \<le> MAX_RECEIPT_DEPTH
     \<and> (\<forall>w \<in> set (case v of PDict kvs \<Rightarrow> map snd kvs | PList vs \<Rightarrow> vs | _ \<Rightarrow> []). depth_within (d + 1) w)"
  by (cases v) (auto simp: list_all_iff)

lemma pushed_count: "(\<Sum>(w, e)\<leftarrow>rev (map (\<lambda>w. (w, n)) ws). node_count w) = (\<Sum>w\<leftarrow>ws. node_count w)"
  by (induction ws) simp_all

lemma shape_loop_iff:
  "nodes \<le> MAX_RECEIPT_NODES \<Longrightarrow>
   shape_loop nodes stack \<longleftrightarrow>
     nodes + (\<Sum>(v, d)\<leftarrow>stack. node_count v) \<le> MAX_RECEIPT_NODES \<and> (\<forall>(v, d) \<in> set stack. depth_within d v)"
proof (induction nodes stack rule: shape_loop.induct)
  case (2 nodes v d stack)
  let ?ch = "case v of PDict kvs \<Rightarrow> map snd kvs | PList vs \<Rightarrow> vs | _ \<Rightarrow> []"
  show ?case
  proof (cases "nodes + 1 > MAX_RECEIPT_NODES \<or> d > MAX_RECEIPT_DEPTH")
    case True
    then show ?thesis
      using node_count_children [of v] depth_within_children [of d v] by (auto simp: shape_loop.simps(2))
  next
    case False
    let ?push = "rev (map (\<lambda>w. (w, d + 1)) ?ch)"
    have "shape_loop nodes ((v, d) # stack) = shape_loop (nodes + 1) (?push @ stack)"
      using False by (simp only: shape_loop.simps(2) if_False)
    also have "\<dots> \<longleftrightarrow> nodes + 1 + ((\<Sum>w\<leftarrow>?ch. node_count w) + (\<Sum>(v, d)\<leftarrow>stack. node_count v)) \<le> MAX_RECEIPT_NODES
        \<and> (\<forall>(v, d) \<in> set (?push @ stack). depth_within d v)"
      using 2(1) [OF False] False by (simp only: map_append sum_list_append pushed_count) simp
    also have "(\<forall>(v, d) \<in> set (?push @ stack). depth_within d v) \<longleftrightarrow> (\<forall>(v, d) \<in> set ((v, d) # stack). depth_within d v)"
      using depth_within_children [of d v] False by auto
    finally show ?thesis using node_count_children [of v] by (simp add: add_ac)
  qed
qed simp

lemma validate_json_shape_iff:
  "validate_json_shape v \<longleftrightarrow> node_count v \<le> MAX_RECEIPT_NODES \<and> depth_within 0 v"
  by (simp add: validate_json_shape_def shape_loop_iff)

text \<open>Sorting the keys keeps the shape and the integers.\<close>

lemma node_count_canon [simp]: "node_count (canon v) = node_count v"
proof (induction v)
  case (PDict kvs)
  have "(\<Sum>(k, v)\<leftarrow>canon_items kvs. node_count v) = (\<Sum>(k, v)\<leftarrow>kvs. node_count (canon v))"
    by (simp add: canon_items_def case_prod_unfold sum_list_sort_key comp_def)
  also have "\<dots> = (\<Sum>(k, v)\<leftarrow>kvs. node_count v)"
    using PDict by (intro arg_cong [of _ _ sum_list] map_cong) (fastforce+)
  finally show ?case by (simp only: canon_PDict_items node_count.simps)
next
  case (PList vs)
  then show ?case by (simp add: comp_def cong: map_cong)
qed simp_all

lemma set_canon_items: "set (canon_items kvs) = (\<lambda>(k, v). (k, canon v)) ` set kvs"
  by (simp add: canon_items_def)

lemma depth_within_canon [simp]: "depth_within d (canon v) = depth_within d v"
proof (induction v arbitrary: d)
  case (PDict kvs)
  then show ?case by (simp only: canon_PDict_items) (fastforce simp: list_all_iff set_canon_items)
qed (simp_all add: list_all_iff)

lemma ints_in_range_canon [simp]: "ints_in_range (canon v) = ints_in_range v"
proof (induction v)
  case (PDict kvs)
  then show ?case by (simp only: canon_PDict_items) (fastforce simp: list_all_iff set_canon_items)
qed (simp_all add: list_all_iff)

section \<open>Size\<close>

lemma length_dumps_fields:
  "length (dumps (PDict kvs)) \<le> 2 + (\<Sum>(k, v)\<leftarrow>kvs. length (json_string k) + 2 + length (dumps v))"
proof -
  let ?ts = "map (\<lambda>(k, v). json_member (k, dumps v)) (sort_key fst kvs)"
  have "(\<Sum>t\<leftarrow>?ts. length t + 1) = (\<Sum>(k, v)\<leftarrow>kvs. length (json_member (k, dumps v)) + 1)"
    by (simp add: comp_def case_prod_unfold sum_list_sort_key)
  also have "\<dots> = (\<Sum>(k, v)\<leftarrow>kvs. length (json_string k) + 2 + length (dumps v))"
    by (simp add: json_member_def add_ac)
  finally show ?thesis
    using length_join_comma_le [of ?ts] by (simp add: dumps_PDict_sorted del: dumps.simps)
qed

lemma length_dumps_list: "length (dumps (PList vs)) \<le> 2 + (\<Sum>v\<leftarrow>vs. length (dumps v) + 1)"
  using length_join_comma_le [of "map dumps vs"] by (simp add: comp_def)

text \<open>Text that JSON writes as it is.\<close>

definition unescaped :: "char \<Rightarrow> bool" where
  "unescaped c \<longleftrightarrow> json_escape c = [c]"

lemma length_unescaped: "list_all unescaped s \<Longrightarrow> length (json_string s) = length s + 2"
  by (induction s) (simp_all add: json_string_def unescaped_def)

lemma unescaped_plain: "32 \<le> ord_c c \<Longrightarrow> ord_c c < 127 \<Longrightarrow> ord_c c \<noteq> 34 \<Longrightarrow> ord_c c \<noteq> 92 \<Longrightarrow> unescaped c"
  by (auto simp: unescaped_def json_escape_def Let_def)

end
