(* ===== verification/Receipt_Roundtrip.thy ===== *)
theory Receipt_Roundtrip
  imports Receipt_Checks Receipt_Text
begin

text \<open>
  An issued receipt passes every check of the verifier: what \<open>issue\<close> establishes, how the
  sealed document reads after it was written with sorted keys, and each group of checks on it.
\<close>

section \<open>Sealing\<close>

lemma without_keys_canon: "without_keys ks (canon_items kvs) = canon_items (without_keys ks kvs)"
  unfolding without_keys_def canon_items_def
  by (simp add: filter_sort filter_map comp_def split_beta')

lemma dumps_canon_items: "dumps (PDict (canon_items kvs)) = dumps (PDict kvs)"
  using dumps_canon [of "PDict kvs"] by (simp only: canon_PDict_items)

lemma is_json_canon_items: "is_json (PDict (canon_items kvs)) = is_json (PDict kvs)"
  using is_json_canon_iff [of "PDict kvs"] by (simp only: canon_PDict_items)

lemma receipt_canonical_canon: "receipt_canonical (PDict (canon_items kvs)) = receipt_canonical (PDict kvs)"
  by (simp only: receipt_canonical_def canonical_json_def dumps_canon_items is_json_canon_items)

lemma dget_append:
  "dget (xs @ ys) k = (if k \<in> set (map fst xs) then dget xs k else dget ys k)"
proof (induction xs)
  case (Cons x xs)
  then show ?case by (cases x) simp
qed simp

lemma dget_empty: "dget [] k = PNone"
  by (simp add: dget_def)

lemma dget_absent: "k \<notin> set (map fst kvs) \<Longrightarrow> dget kvs k = PNone"
  by (induction kvs) (auto simp: dget_empty)

lemma without_keys_disjoint: "set ks \<inter> set (map fst kvs) = {} \<Longrightarrow> without_keys ks kvs = kvs"
  by (force simp: without_keys_def filter_id_conv)

lemma hex64_label: "hex64_after label (label @ sha256_hexdigest m)"
  by (simp add: hex64_after_def sha256_hexdigest_class)

definition receipt_id_of :: "(string \<times> pyval) list \<Rightarrow> string" where
  "receipt_id_of document = ''receipt-sha256:'' @ sha256_hexdigest (encode_ascii (dumps (PDict document)))"

definition receipt_message :: "(string \<times> pyval) list \<Rightarrow> bytes" where
  "receipt_message document = encode_ascii (dumps (PDict (document @ [(''receipt_id'', PStr (receipt_id_of document))])))"

definition sealed_items :: "string \<Rightarrow> bytes \<Rightarrow> (string \<times> pyval) list \<Rightarrow> (string \<times> pyval) list" where
  "sealed_items rid sb document =
     document @ [(''receipt_id'', PStr rid),
       (''signature'', PDict [(''algorithm'', PStr ''ed25519''), (''value_base64'', PStr (b64encode sb))])]"

lemma seal_receipt_ok:
  assumes fresh: "set [''receipt_id'', ''signature''] \<inter> set (map fst document) = {}"
    and r: "seal_receipt sign seed document = Inr r"
  shows "receipt_id r = receipt_id_of document"
    and "receipt_document r = sealed_items (receipt_id_of document) (sign seed (receipt_message document)) document"
    and "is_json (PDict (receipt_document r))"
    and "receipt_bytes r = encode_ascii (dumps (PDict (receipt_document r)))"
    and "receipt_digest r = sha256_label (receipt_bytes r)"
proof -
  have w: "without_keys [''receipt_id'', ''signature''] document = document"
    using fresh by (rule without_keys_disjoint)
  have n: "without_keys [''signature''] (document @ [(''receipt_id'', PStr t)]) = document @ [(''receipt_id'', PStr t)]" for t
    using fresh by (intro without_keys_disjoint) auto
  show "receipt_id r = receipt_id_of document"
    "receipt_document r = sealed_items (receipt_id_of document) (sign seed (receipt_message document)) document"
    "is_json (PDict (receipt_document r))" "receipt_bytes r = encode_ascii (dumps (PDict (receipt_document r)))"
    "receipt_digest r = sha256_label (receipt_bytes r)"
    using r unfolding seal_receipt_def id_material_def unsigned_bytes_def w n Let_def ok_simps
    by (auto simp: sealed_items_def receipt_message_def receipt_id_of_def simp del: dumps.simps is_json.simps)
qed

lemma sealed_reads:
  assumes fresh: "set [''receipt_id'', ''signature''] \<inter> set (map fst document) = {}"
    and j: "is_json (PDict (sealed_items (receipt_id_of document) sb document))" and len: "length sb = 64"
  defines "d \<equiv> canon_items (sealed_items (receipt_id_of document) sb document)"
  shows "check_receipt_id d = Inr (receipt_id_of document)"
    and "check_signature_object (dget d ''signature'') = Inr sb"
    and "unsigned_bytes d = Inr (receipt_message document)"
    and "\<And>k. k \<notin> {''receipt_id'', ''signature''} \<Longrightarrow> dget d k = canon (dget document k)"
    and "set (map fst d) = set (map fst document) \<union> {''receipt_id'', ''signature''}"
proof -
  let ?s = "sealed_items (receipt_id_of document) sb document"
  have w: "without_keys [''receipt_id'', ''signature''] ?s = document"
    using without_keys_disjoint [OF fresh] by (simp add: sealed_items_def without_keys_def)
  have u: "without_keys [''signature''] ?s = document @ [(''receipt_id'', PStr (receipt_id_of document))]"
    using without_keys_disjoint [of "[''signature'']" document] fresh by (simp add: sealed_items_def without_keys_def)
  have jd: "is_json (PDict document)" "is_json (PDict (document @ [(''receipt_id'', PStr (receipt_id_of document))]))"
    using j by (auto simp: sealed_items_def)
  show keys: "dget d k = canon (dget document k)" if "k \<notin> {''receipt_id'', ''signature''}" for k
    using that dget_absent [of k document] by (auto simp: d_def sealed_items_def dget_append dget_empty)
  have rid: "dget d ''receipt_id'' = PStr (receipt_id_of document)"
    and sg: "dget ?s ''signature'' = PDict [(''algorithm'', PStr ''ed25519''), (''value_base64'', PStr (b64encode sb))]"
    using fresh by (auto simp: d_def sealed_items_def dget_append)
  show "check_receipt_id d = Inr (receipt_id_of document)"
    unfolding check_receipt_id_ok id_material_def d_def without_keys_canon w receipt_canonical_canon receipt_canonical_ok_iff
    using jd(1) rid hex64_label by (metis RECEIPT_ID_RE_def d_def receipt_id_of_def)
  show "unsigned_bytes d = Inr (receipt_message document)"
    unfolding unsigned_bytes_def d_def without_keys_canon u receipt_canonical_canon receipt_canonical_ok_iff
    using jd(2) by (simp add: receipt_message_def del: is_json.simps dumps.simps)
  show "check_signature_object (dget d ''signature'') = Inr sb"
    unfolding check_signature_object_ok d_def dget_canon_items sg canon_PDict_items
    using len by (simp add: same_keys_def SIGNATURE_KEYS_def)
  show "set (map fst d) = set (map fst document) \<union> {''receipt_id'', ''signature''}"
    by (auto simp: d_def sealed_items_def)
qed

section \<open>What issue establishes\<close>

definition platform_items :: "issue_request \<Rightarrow> (string \<times> pyval) list" where
  "platform_items rq = (case rq_platform rq of None \<Rightarrow> [] | Some p \<Rightarrow> [(''platform'', PDict p)])"

definition issued_document ::
  "ReceiptIssuer \<Rightarrow> issue_request \<Rightarrow> datetime \<Rightarrow> datetime \<Rightarrow> string \<Rightarrow> (string \<times> pyval) list" where
  "issued_document ri rq w expires units =
     receipt_body ri rq (format_utc w) (format_utc expires) units @ platform_items rq"

lemma format_time_ok_iff [ok_simps]: "format_time d = Inr t \<longleftrightarrow> is_utc d \<and> t = format_utc d"
  by (auto simp: format_time_def)

lemma add_platform_ok:
  "add_platform rq body = Inr document \<Longrightarrow>
     document = body @ platform_items rq \<and> (rq_platform rq \<noteq> None \<longrightarrow> validate_platform document = Inr ())"
  by (auto simp: add_platform_def platform_items_def Let_def ok_simps split: option.splits)

lemma issue_lifecycle_ok:
  "issue_lifecycle rq w = Inr expires \<longleftrightarrow>
     evidence_expires_at (rq_lifecycle rq) = Some expires \<and> hotkey (rq_lifecycle rq) = rq_subject_hotkey rq
     \<and> ls_state (rq_lifecycle rq) = ATTESTED \<and> eligible_at (rq_lifecycle rq) w = Inr True
     \<and> evidence_digest (rq_lifecycle rq) = ac_evidence_digest (hardware (rq_assurance rq))
     \<and> policy_digest (rq_lifecycle rq) = ac_policy_digest (software (rq_assurance rq))
     \<and> policy_registry_release (rq_lifecycle rq) = registry_release (rq_policy rq)
     \<and> policy_registry_digest (rq_lifecycle rq) = registry_digest (rq_policy rq)"
  by (auto simp: issue_lifecycle_def Let_def split: option.splits)

lemma issue_receipt_ok:
  assumes "issue_receipt sign clock ri rq = Inr r"
  obtains w policy_at expected expires units where
    "is_utc w" "issue_window ri w = Inr ()"
    "receipt_timestamp (opt_str (ac_verified_at (hardware (rq_assurance rq)))) ''receipt hardware claim verified_at'' = Inr policy_at"
    "to_policy clock (ri_registry ri) (Some policy_at) None = Inr expected" "policy_eq (rq_policy rq) expected"
    "issue_subject rq = Inr ()"
    "validate_claim_times_and_policy (rq_assurance rq) w (assurance_policy_digest (rq_policy rq)) = Inr ()"
    "issue_lifecycle rq w = Inr expires" "issue_tcb rq = Inr ()" "issue_work rq = Inr units" "is_utc expires"
    "rq_platform rq \<noteq> None \<Longrightarrow> validate_platform (issued_document ri rq w expires units) = Inr ()"
    "seal_receipt sign (ri_seed ri) (issued_document ri rq w expires units) = Inr r"
proof -
  have cu: "(case lifecycle_canonical_utc e of Inr t \<Rightarrow> Inr t | Inl e \<Rightarrow> Inl m) = Inr t \<longleftrightarrow> is_utc e \<and> t = format_utc e"
    for e t and m :: receipt_error by (auto simp: lifecycle_canonical_utc_def)
  show thesis
    using assms unfolding issue_receipt_def ok_simps receipt_policy_ok cu
    by (elim exE conjE, clarsimp dest!: add_platform_ok) (erule that [unfolded issued_document_def], auto)
qed

declare canon.simps(2) [simp del]

lemma issued_fields:
  fixes ri rq w expires units
  defines "doc \<equiv> issued_document ri rq w expires units"
  shows "dget doc ''schema'' = PStr RECEIPT_SCHEMA" "dget doc ''epoch_id'' = PInt (rq_epoch_id rq)"
    "dget doc ''source_epoch'' = PInt (rq_source_epoch rq)" "dget doc ''subject_hotkey'' = PStr (rq_subject_hotkey rq)"
    "dget doc ''platform_pseudonym'' = PStr (platform_pseudonym (chip_id (rq_attested rq)) (rq_source_epoch rq))"
    "dget doc ''policy_registry_release'' = PInt (ps_release (ri_registry ri))"
    "dget doc ''policy_registry_digest'' = PStr (ps_digest (ri_registry ri))"
    "dget doc ''policy_profile_ids'' = PList (map PStr (registry_profile_ids (rq_policy rq)))"
    "dget doc ''measurement'' = PStr (at_measurement (rq_attested rq))"
    "dget doc ''tcb'' = PDict (tcb_object (rq_attested rq))"
    "dget doc ''channel'' = PDict
        [(''status'', PStr (ClaimStatus_value (ac_status (channel (rq_assurance rq))))),
         (''binding_digest'', opt_str (ac_evidence_digest (channel (rq_assurance rq))))]"
    "dget doc ''work'' = PDict
        [(''status'', PStr (ClaimStatus_value (ac_status (work (rq_assurance rq))))),
         (''challenge_id'', opt_str (rq_challenge_id rq)), (''manifest_digest'', opt_str (rq_manifest_digest rq)),
         (''result_digest'', opt_str (ac_evidence_digest (work (rq_assurance rq)))), (''work_units'', PStr units)]"
    "dget doc ''assurance'' = claims_to_dict True (rq_assurance rq)"
    "dget doc ''lifecycle'' = PDict (lifecycle_object (rq_lifecycle rq) (format_utc expires))"
    "dget doc ''issued_at'' = PStr (format_utc w)" "dget doc ''signing_key_id'' = PStr (ri_signing_key_id ri)"
  by (simp_all add: doc_def issued_document_def receipt_body_def)

lemma issued_keys:
  "set (map fst (issued_document ri rq w expires units)) \<union> {''receipt_id'', ''signature''} =
     set TOP_KEYS \<union> (if rq_platform rq = None then {} else {''platform''})"
  by (cases "rq_platform rq")
    (simp_all add: issued_document_def receipt_body_def platform_items_def TOP_KEYS_def insert_commute)

lemma issued_platform:
  "rq_platform rq = Some p \<Longrightarrow> dget (issued_document ri rq w expires units) ''platform'' = PDict p"
  by (simp add: issued_document_def receipt_body_def platform_items_def)

lemma issued_fresh: "set [''receipt_id'', ''signature''] \<inter> set (map fst (issued_document ri rq w expires units)) = {}"
  by (cases "rq_platform rq") (simp_all add: issued_document_def receipt_body_def platform_items_def)

lemma canon_texts [simp]: "map (canon \<circ> PStr) ss = map PStr ss"
  by (induction ss) simp_all

text \<open>A document \<open>d\<close> that reads as the issued one.\<close>

definition reads_issued :: "(string \<times> pyval) list \<Rightarrow> (string \<times> pyval) list \<Rightarrow> bool" where
  "reads_issued d doc \<longleftrightarrow>
     (\<forall>k. k \<notin> {''receipt_id'', ''signature''} \<longrightarrow> dget d k = canon (dget doc k))
     \<and> set (map fst d) = set (map fst doc) \<union> {''receipt_id'', ''signature''}"

lemma validate_platform_reads:
  assumes d: "reads_issued d doc" and v: "validate_platform doc = Inr ()"
  shows "validate_platform d = Inr ()"
proof (cases "dget doc ''platform''")
  case (PDict p)
  have "dget d ''platform'' = PDict (canon_items p)"
    using d PDict by (simp add: reads_issued_def canon_PDict_items)
  with PDict v show ?thesis
    by (auto simp: validate_platform_def ok_simps same_keys_def)
qed (use v in \<open>simp_all add: validate_platform_def\<close>)

lemma issued_header:
  fixes ri rq w expires units
  defines "doc \<equiv> issued_document ri rq w expires units"
  assumes d: "reads_issued d doc" and rid: "check_receipt_id d = Inr rid"
    and s: "snapshot_ok (ri_registry ri)" and w: "is_utc w" "issue_window ri w = Inr ()"
    and sub: "issue_subject rq = Inr ()"
    and plat: "rq_platform rq \<noteq> None \<Longrightarrow> validate_platform doc = Inr ()"
  shows "check_header (ri_registry ri) d = Inr (RECEIPT_SCHEMA, w, rid)"
proof -
  note f = issued_fields [of ri rq w expires units, folded doc_def]
  have g: "dget d ''schema'' = PStr RECEIPT_SCHEMA" "dget d ''epoch_id'' = PInt (rq_epoch_id rq)"
    "dget d ''source_epoch'' = PInt (rq_source_epoch rq)" "dget d ''subject_hotkey'' = PStr (rq_subject_hotkey rq)"
    "dget d ''platform_pseudonym'' = PStr (platform_pseudonym (chip_id (rq_attested rq)) (rq_source_epoch rq))"
    "dget d ''policy_registry_release'' = PInt (ps_release (ri_registry ri))"
    "dget d ''policy_registry_digest'' = PStr (ps_digest (ri_registry ri))"
    "dget d ''issued_at'' = PStr (format_utc w)"
    using d f by (simp_all add: reads_issued_def)
  have keys: "set (map fst d) = set TOP_KEYS \<union> (if rq_platform rq = None then {} else {''platform''})"
    using d issued_keys [of ri rq w expires units] by (simp add: reads_issued_def doc_def)
  have "set (map fst (without_keys OPTIONAL_TOP_KEYS d)) = set (map fst d) - {''platform''}"
    by (auto simp: without_keys_def OPTIONAL_TOP_KEYS_def)
  then have "check_top d = Inr RECEIPT_SCHEMA"
    unfolding check_top_def g same_keys_def using keys by (auto simp: TOP_KEYS_def)
  moreover have "check_platform RECEIPT_SCHEMA d = Inr ()"
    using keys plat validate_platform_reads [OF d] by (auto simp: check_platform_def TOP_KEYS_def split: if_splits)
  moreover have "receipt_integer n (PInt (rq_epoch_id rq)) = Inr (rq_epoch_id rq)"
    "receipt_integer n (PInt (rq_source_epoch rq)) = Inr (rq_source_epoch rq)"
    "receipt_integer n (PInt (ps_release (ri_registry ri))) = Inr (ps_release (ri_registry ri))"
    "receipt_bounded_text (PStr (rq_subject_hotkey rq)) 512 False" for n
    using sub s by (simp_all add: receipt_integer_def issue_subject_def ok_simps snapshot_ok_def)
  moreover have "PLATFORM_RE (platform_pseudonym (chip_id (rq_attested rq)) (rq_source_epoch rq))"
    unfolding PLATFORM_RE_def platform_pseudonym_def by (rule hex64_label)
  moreover have "dt_le (ps_valid_from (ri_registry ri)) w" "dt_less w (ps_valid_until (ri_registry ri))"
    "0 < ps_release (ri_registry ri)"
    using w(2) s by (auto simp: issue_window_def ok_simps snapshot_ok_def split: option.splits)
  ultimately show ?thesis
    unfolding check_header_def g using w(1) rid by simp
qed

lemma policy_profile_ids:
  assumes "to_policy clock s at None = Inr p"
  shows "registry_profile_ids p \<noteq> []" "registry_profile_ids p = sort (remdups (registry_profile_ids p))"
proof -
  note t = to_policy_ok [OF assms]
  show "registry_profile_ids p \<noteq> []" using t(1,5) by (simp add: granted_policy_def) (metis length_0_conv length_map length_sort)
  show "registry_profile_ids p = sort (remdups (registry_profile_ids p))"
    using Policy_post_init_ok(4) [OF t(2)] by (simp add: distinct_remdups_id t(1) granted_policy_def sorted_sort_id)
qed

lemma text_items_texts: "text_items (map PStr ss) = Some ss"
  by (induction ss) simp_all

lemma measurement_known:
  assumes s: "distinct (map profile_id (ps_profiles s))" and p: "to_policy clock s at None = Inr p"
    and m: "m \<in> set (allowed_measurements p)"
  shows "check_measurement s (registry_profile_ids p) (PStr m) = Inr m"
proof -
  let ?e = "eligible_profiles s (evaluation_time clock at)"
  note g = to_policy_ok(1) [OF p]
  have known: "known_profiles s (profile_id q) = Some q" if "q \<in> set ?e" for q
    using that by (intro known_profile [OF s]) (simp add: eligible_profiles_def)
  have ids: "set (registry_profile_ids p) = profile_id ` set ?e" by (simp add: g granted_policy_def)
  obtain q where "q \<in> set ?e" "m \<in> set (pp_measurements q)" using m by (auto simp: g granted_policy_def)
  then show ?thesis using known by (fastforce simp: check_measurement_def list_ex_iff ids)
qed

lemma canon_claim_keys:
  "canon (claim_to_dict True c) = PDict (canon_items (case claim_to_dict True c of PDict kvs \<Rightarrow> kvs))"
  by (simp only: claim_to_dict_def pyval.case canon_PDict_items)

lemma strict_assurance_reads:
  assumes "claims_ok cs"
  shows "strict_assurance (canon (claims_to_dict True cs)) = Inr cs"
proof -
  let ?cl = "map (\<lambda>d. (AssuranceDimension_value d, claim_to_dict True (claim cs d))) all_dimensions"
  let ?kvs = "[(''schema'', PStr ASSURANCE_SCHEMA), (''claims'', PDict ?cl)]"
  have c: "canon (claims_to_dict True cs) = PDict (canon_items ?kvs)"
    by (simp only: claims_to_dict_def canon_PDict_items)
  have cl: "dget (canon_items ?kvs) ''claims'' = PDict (canon_items ?cl)"
    by (simp add: canon_PDict_items)
  have sch: "dget (canon_items ?kvs) ''schema'' = PStr ASSURANCE_SCHEMA" by simp
  have keys: "same_keys (canon_items ?kvs) ASSURANCE_KEYS"
    "same_keys (canon_items ?cl) (map AssuranceDimension_value all_dimensions)"
    by (simp_all add: same_keys_def ASSURANCE_KEYS_def) (auto simp: image_image)
  have item: "\<exists>c'. v = PDict c' \<and> same_keys c' CLAIM_KEYS" if "(k, v) \<in> set (canon_items ?cl)" for k v
    using that unfolding set_canon_items
    by (auto simp: canon_claim_keys) (auto simp: claim_to_dict_def same_keys_def CLAIM_KEYS_def)
  have get: "dget (canon_items ?cl) (AssuranceDimension_value dm) = canon (claim_to_dict True (claim cs dm))" for dm
    by (cases dm) (simp_all add: all_dimensions_def)
  have parse: "parse_claim (canon_items ?cl) dm = Inr (claim cs dm)" for dm
    using assms by (intro parse_claim_reads get) (simp add: claims_ok_def)
  have a: "assurance_from_dict (canon_items ?kvs) = Inr cs"
    unfolding assurance_from_dict_def cl mapping_items.simps option.case sch
    using parse [of HARDWARE] parse [of SOFTWARE] parse [of CHANNEL] parse [of WORK] by simp
  have n: "\<not> list_ex (\<lambda>(k, v). case v of PDict c \<Rightarrow> \<not> same_keys c CLAIM_KEYS | _ \<Rightarrow> True) (canon_items ?cl)"
    unfolding list_ex_iff using item by fastforce
  show ?thesis
    unfolding strict_assurance_def c pyval.case cl sch a using keys n by simp
qed

lemma tcb_reads:
  assumes "tcb_shape_ok (tcb_object a)" "tcb_policy_ok p (tcb_object a)"
    and eq: "set (tdx_allowed_tcb_statuses p) = set (tdx_allowed_tcb_statuses q)"
      "set (tdx_allowed_advisories p) = set (tdx_allowed_advisories q)"
  shows "check_tcb q (canon (PDict (tcb_object a))) = Inr ()"
proof -
  have b: "canon (opt_bool x) = opt_bool x" for x by (cases x) (simp_all add: opt_bool_def)
  have f: "canon (dget (tcb_object a) k) = dget (tcb_object a) k" for k
    by (simp add: tcb_object_def dget_empty b)
  have k: "same_keys (canon_items (tcb_object a)) TCB_KEYS"
    by (auto simp: same_keys_def TCB_KEYS_def tcb_object_def)
  have "tcb_policy_ok q (tcb_object a)" using assms(2) unfolding tcb_policy_ok_def eq .
  then show ?thesis
    unfolding canon_PDict_items check_tcb_ok
    using assms(1) k by (simp add: tcb_shape_ok_def tcb_policy_ok_def f)
qed

lemma issued_policy:
  fixes ri rq w expires units
  defines "doc \<equiv> issued_document ri rq w expires units"
  assumes d: "reads_issued d doc" and s: "snapshot_ok (ri_registry ri)"
    and at: "receipt_timestamp (opt_str (ac_verified_at (hardware (rq_assurance rq)))) ''receipt hardware claim verified_at'' = Inr policy_at"
    and p: "to_policy clock (ri_registry ri) (Some policy_at) None = Inr expected" and eq: "policy_eq (rq_policy rq) expected"
    and sub: "issue_subject rq = Inr ()"
    and v: "validate_claim_times_and_policy (rq_assurance rq) w (assurance_policy_digest (rq_policy rq)) = Inr ()"
    and tcb: "issue_tcb rq = Inr ()" and ok: "claims_ok (rq_assurance rq)"
  shows "check_policy clock' (ri_registry ri) w d = Inr (rq_assurance rq)"
proof -
  note f = issued_fields [of ri rq w expires units, folded doc_def]
  have g: "dget d ''policy_profile_ids'' = PList (map PStr (registry_profile_ids expected))"
    "dget d ''measurement'' = PStr (at_measurement (rq_attested rq))"
    "dget d ''tcb'' = canon (PDict (tcb_object (rq_attested rq)))"
    "dget d ''assurance'' = canon (claims_to_dict True (rq_assurance rq))"
    using d f eq by (simp_all add: reads_issued_def policy_eq_def)
  have p': "to_policy clock' (ri_registry ri) (Some policy_at) None = Inr expected"
    using p by (simp add: to_policy_def evaluation_time_def)
  have "check_profile_ids (PList (map PStr (registry_profile_ids expected))) = Inr (registry_profile_ids expected)"
    using policy_profile_ids [OF p] by (simp add: check_profile_ids_def text_items_texts)
  moreover have "at_measurement (rq_attested rq) \<in> set (allowed_measurements expected)"
    using sub eq by (simp add: issue_subject_def ok_simps policy_eq_def)
  then have "check_measurement (ri_registry ri) (registry_profile_ids expected) (PStr (at_measurement (rq_attested rq)))
      = Inr (at_measurement (rq_attested rq))"
    using s p by (intro measurement_known) (simp_all add: snapshot_ok_def)
  moreover have "check_tcb expected (canon (PDict (tcb_object (rq_attested rq)))) = Inr ()"
    using tcb eq by (intro tcb_reads [of _ "rq_policy rq"]) (simp_all add: issue_tcb_def ok_simps policy_eq_def)
  moreover have "receipt_policy clock' (ri_registry ri) policy_at = Inr expected" using p' by (simp add: receipt_policy_ok)
  ultimately show ?thesis
    unfolding check_policy_def g strict_assurance_reads [OF ok]
    using at v policy_eq_digest [OF eq] by simp
qed

lemma worker_state_reads: "worker_state_of (PStr (WorkerLifecycleState_value st)) = Some st"
  by (cases st) (simp_all add: worker_state_of_def)

lemma worker_reason_reads: "worker_reason_of (PStr (LifecycleReason_value r)) = Some r"
  by (cases r) (simp_all add: worker_reason_of_def all_reasons_def)

lemma lifecycle_reads:
  assumes l: "LifecycleSnapshot_post_init l = Inr ()" and st: "ls_state l = ATTESTED" and e: "is_utc expires" "dt_less w expires"
  shows "check_worker_lifecycle (canon_items (lifecycle_object l (format_utc expires))) w = Inr ()"
proof -
  have i: "positive_i64 (generation l)" "positive_i64 (revision l)" "positive_i64 (event_id l)"
    and r: "require_snapshot_reason ATTESTED (reason l) = Inr ()"
    using l st by (auto simp: LifecycleSnapshot_post_init_def ok_simps snapshot_fields_ok_def)
  show ?thesis
    unfolding check_worker_lifecycle_ok
    using i r e st worker_state_reads [of ATTESTED] worker_reason_reads [of "reason l"]
    by (simp add: lifecycle_object_def worker_id_ok_def positive_i64_def MAX_I64_def MAX_SQLITE_INTEGER_def)
qed

lemma work_reads:
  assumes "issue_work rq = Inr units" "claims_ok (rq_assurance rq)"
  shows "check_work (rq_assurance rq) (canon_items
      [(''status'', PStr (ClaimStatus_value (ac_status (work (rq_assurance rq))))),
       (''challenge_id'', opt_str (rq_challenge_id rq)), (''manifest_digest'', opt_str (rq_manifest_digest rq)),
       (''result_digest'', opt_str (ac_evidence_digest (work (rq_assurance rq)))), (''work_units'', PStr units)]) = Inr ()"
proof -
  have u: "work_units_text units = Inr units"
    using assms(1) by (auto simp: issue_work_def ok_simps intro: work_units_text_idem)
  have z: "ac_status (work (rq_assurance rq)) = CLAIM_PASSED \<or> units = ''0''"
    using assms(1) by (auto simp: issue_work_def ok_simps)
  have n: "ac_evidence_digest (work (rq_assurance rq)) = None" if "ac_status (work (rq_assurance rq)) = NOT_EVALUATED"
    using claims_okD(4) [OF assms(2)] that by (simp add: claim_ok_def not_evaluated_claim_def)
  show ?thesis
  proof (cases "ac_status (work (rq_assurance rq)) = NOT_EVALUATED")
    case True
    then show ?thesis using assms(1) u z n by (simp add: check_work_def issue_work_def ok_simps)
  next
    case False
    then obtain c m where "rq_challenge_id rq = Some c" "CHALLENGE_RE c" "rq_manifest_digest rq = Some m" "DIGEST_RE m"
      using assms(1) by (auto simp: issue_work_def ok_simps split: option.splits)
    with False u z show ?thesis by (auto simp: check_work_def ok_simps)
  qed
qed

lemma issued_results:
  fixes ri rq w expires units
  defines "doc \<equiv> issued_document ri rq w expires units"
  assumes d: "reads_issued d doc" and l: "LifecycleSnapshot_post_init (rq_lifecycle rq) = Inr ()"
    and el: "issue_lifecycle rq w = Inr expires" and e: "is_utc expires"
    and wk: "issue_work rq = Inr units" and ok: "claims_ok (rq_assurance rq)"
  shows "check_results RECEIPT_SCHEMA w (rq_assurance rq) d = Inr ()"
proof -
  note f = issued_fields [of ri rq w expires units, folded doc_def]
  have st: "ls_state (rq_lifecycle rq) = ATTESTED" "dt_less w expires"
    using el unfolding issue_lifecycle_ok by (auto simp: eligible_at_def ok_simps)
  have g: "dget d ''lifecycle'' = PDict (canon_items (lifecycle_object (rq_lifecycle rq) (format_utc expires)))"
    using d f by (simp add: reads_issued_def canon_PDict_items)
  have c: "dget d ''channel'' = PDict (canon_items
        [(''status'', PStr (ClaimStatus_value (ac_status (channel (rq_assurance rq))))),
         (''binding_digest'', opt_str (ac_evidence_digest (channel (rq_assurance rq))))])"
    using d f by (simp add: reads_issued_def canon_PDict_items)
  have wd: "dget d ''work'' = PDict (canon_items
      [(''status'', PStr (ClaimStatus_value (ac_status (work (rq_assurance rq))))),
       (''challenge_id'', opt_str (rq_challenge_id rq)), (''manifest_digest'', opt_str (rq_manifest_digest rq)),
       (''result_digest'', opt_str (ac_evidence_digest (work (rq_assurance rq)))), (''work_units'', PStr units)])"
    using d f by (simp add: reads_issued_def canon_PDict_items)
  show ?thesis
    unfolding check_results_def g c wd
    using lifecycle_reads [OF l st(1) e st(2)] work_reads [OF wk ok]
    by (simp add: exact_object_def same_keys_def CHANNEL_KEYS_def WORK_KEYS_def LIFECYCLE_KEYS_V2_def
        lifecycle_object_def insert_commute)
qed

lemma signing_key_verifies: "can_sign_at k w \<Longrightarrow> can_verify_at k w"
  using dt_le_trans by (auto simp: can_sign_at_def can_verify_at_def dt_min_def)

lemma issued_seal:
  assumes init: "ReceiptIssuer_init ed25519_public s kid seed = Inr ri" and w: "issue_window ri w = Inr ()"
    and law: "ed25519 (ed25519_public seed) (sign seed m) m"
    and sg: "check_signature_object (dget d ''signature'') = Inr (sign seed m)" "unsigned_bytes d = Inr m"
    and kid: "dget d ''signing_key_id'' = PStr kid"
  shows "check_seal ed25519 s None w d = Inr ()"
proof -
  obtain key where k: "receipt_key s kid = Some key" "ed25519_public seed = public_key key"
      and ri: "ri = \<lparr>ri_registry = s, ri_signing_key_id = kid, ri_seed = seed\<rparr>"
    using init by (auto simp: ReceiptIssuer_init_def split: if_splits option.splits)
  have "can_verify_at key w"
    using w k(1) by (auto simp: issue_window_def ri ok_simps intro: signing_key_verifies)
  then have "check_signing_key s None w (PStr kid) = Inr key" using k by (simp add: check_signing_key_ok)
  then show ?thesis using sg law k(2) by (simp add: check_seal_def kid)
qed

end
