(* ===== verification/Receipt_Sizes.thy ===== *)
theory Receipt_Sizes
  imports Receipt_Roundtrip
begin

text \<open>
  An issued receipt is always within the verifier's limits: at most 256 KiB, 4096 values, 32
  levels and integers of 64 bits.  With the previous theory this gives that it verifies.
\<close>

section \<open>An issued receipt can be read\<close>

lemma simple_values [simp]:
  "node_count (opt_str t) = 1" "node_count (opt_bool b) = 1"
  "depth_within d (opt_str t) \<longleftrightarrow> d \<le> MAX_RECEIPT_DEPTH" "depth_within d (opt_bool b) \<longleftrightarrow> d \<le> MAX_RECEIPT_DEPTH"
  "ints_in_range (opt_str t)" "ints_in_range (opt_bool b)"
  by (cases t; simp; fail | cases b; simp add: opt_bool_def)+

lemma text_list_shape [simp]:
  "node_count (PList (map PStr ss)) = 1 + length ss"
  "depth_within d (PList (map PStr ss)) \<longleftrightarrow> d \<le> MAX_RECEIPT_DEPTH \<and> (ss = [] \<or> d < MAX_RECEIPT_DEPTH)"
  "ints_in_range (PList (map PStr ss))"
  by (induction ss) (auto simp: list_all_iff)

lemma sum_text_nodes [simp]: "sum_list (map (node_count \<circ> PStr) ss) = length ss"
  by (induction ss) simp_all

lemma text_depth [simp]: "list_all (depth_within d) (map PStr ss) \<longleftrightarrow> ss = [] \<or> d \<le> MAX_RECEIPT_DEPTH"
  by (induction ss) auto

lemma text_ints [simp]: "list_all ints_in_range (map PStr ss)"
  by (induction ss) auto

lemma claims_shape:
  "node_count (claims_to_dict True cs) = 27" "depth_within 1 (claims_to_dict True cs)"
  "ints_in_range (claims_to_dict True cs)"
  by (simp_all add: claims_to_dict_def claim_to_dict_def all_dimensions_def MAX_RECEIPT_DEPTH_def)

text \<open>The platform block has one form.\<close>

definition PLATFORM_BLOCK :: pyval where
  "PLATFORM_BLOCK = PDict [(''class'', PStr PLATFORM_CLASS_CPU), (''cpu_tee'', PStr CPU_TEE_TDX)]"

lemma platform_form:
  assumes "validate_platform doc = Inr ()" "dget doc ''platform'' = PDict p" "is_json (PDict p)"
  shows "canon (PDict p) = canon PLATFORM_BLOCK"
  unfolding PLATFORM_BLOCK_def
proof (rule canon_PDict_eqI)
  have v: "fst ` set p = {''class'', ''cpu_tee''}" "dget p ''class'' = PStr PLATFORM_CLASS_CPU" "dget p ''cpu_tee'' = PStr CPU_TEE_TDX"
    using assms(1,2)
    by (auto simp: validate_platform_def ok_simps same_keys_def PLATFORM_CPU_KEYS_def ACCEPTED_PLATFORM_CLASSES_def
        ACCEPTED_CPU_TEES_def)
  then show "fst ` set p = fst ` set [(''class'', PStr PLATFORM_CLASS_CPU), (''cpu_tee'', PStr CPU_TEE_TDX)]" by simp
  show "canon (dget p k) = canon (dget [(''class'', PStr PLATFORM_CLASS_CPU), (''cpu_tee'', PStr CPU_TEE_TDX)] k)"
    if "k \<in> fst ` set [(''class'', PStr PLATFORM_CLASS_CPU), (''cpu_tee'', PStr CPU_TEE_TDX)]" for k
    using that by (auto simp: v(2,3))
qed (use assms(3) in simp_all)

lemma platform_shape:
  assumes "canon (PDict p) = canon PLATFORM_BLOCK"
  shows "node_count (PDict p) = 3" "depth_within 1 (PDict p)" "ints_in_range (PDict p)" "length (dumps (PDict p)) \<le> 300"
proof -
  have "dumps (PDict p) = dumps PLATFORM_BLOCK" using assms dumps_canon by metis
  moreover have "length (dumps PLATFORM_BLOCK) \<le> text_bound PLATFORM_BLOCK"
    by (rule dumps_text_bound) (simp add: PLATFORM_BLOCK_def)
  moreover have "text_bound PLATFORM_BLOCK \<le> 300" by (simp add: PLATFORM_BLOCK_def PLATFORM_CLASS_CPU_def CPU_TEE_TDX_def)
  ultimately show "length (dumps (PDict p)) \<le> 300" by (metis order.trans)
  show "node_count (PDict p) = 3" "depth_within 1 (PDict p)" "ints_in_range (PDict p)"
    unfolding node_count_canon [symmetric, of "PDict p"] depth_within_canon [symmetric, of _ "PDict p"]
      ints_in_range_canon [symmetric, of "PDict p"] assms
    by (simp_all add: PLATFORM_BLOCK_def MAX_RECEIPT_DEPTH_def)
qed

lemma platform_items_shape:
  assumes "\<And>p. rq_platform rq = Some p \<Longrightarrow> canon (PDict p) = canon PLATFORM_BLOCK"
  shows "(\<Sum>(k, v)\<leftarrow>platform_items rq. node_count v) \<le> 3"
    "list_all (\<lambda>(k, v). depth_within 1 v) (platform_items rq)" "list_all (\<lambda>(k, v). ints_in_range v) (platform_items rq)"
    "(\<Sum>(k, v)\<leftarrow>platform_items rq. length (json_string k) + 2 + length (dumps v)) \<le> 400"
proof -
  consider (none) "platform_items rq = []"
    | (some) p where "platform_items rq = [(''platform'', PDict p)]" "canon (PDict p) = canon PLATFORM_BLOCK"
    using assms by (cases "rq_platform rq") (auto simp: platform_items_def simp del: canon.simps)
  note form = this
  have key: "length (json_string ''platform'') \<le> 50" using length_json_string_le [of "''platform''"] by simp
  show "(\<Sum>(k, v)\<leftarrow>platform_items rq. node_count v) \<le> 3"
    by (cases rule: form) (simp_all add: platform_shape del: node_count.simps)
  show "list_all (\<lambda>(k, v). depth_within 1 v) (platform_items rq)"
    by (cases rule: form) (use platform_shape(2) in \<open>simp_all del: depth_within.simps\<close>)
  show "list_all (\<lambda>(k, v). ints_in_range v) (platform_items rq)"
    by (cases rule: form) (simp_all add: platform_shape del: ints_in_range.simps)
  show "(\<Sum>(k, v)\<leftarrow>platform_items rq. length (json_string k) + 2 + length (dumps v)) \<le> 400"
    by (cases rule: form) (use key platform_shape(4) in \<open>fastforce simp del: dumps.simps\<close>)+
qed

lemma policy_limits:
  assumes s: "snapshot_ok s" and p: "to_policy clock s at None = Inr p"
  shows "length (registry_profile_ids p) \<le> 1024" "list_all REGISTRY_ID_RE (registry_profile_ids p)"
    "list_all TDX_POLICY_TOKEN (tdx_allowed_advisories p)"
proof -
  let ?e = "eligible_profiles s (evaluation_time clock at)"
  note t = to_policy_ok [OF p]
  have "length ?e \<le> length (ps_profiles s)" by (simp add: eligible_profiles_def)
  then show "length (registry_profile_ids p) \<le> 1024"
    using s by (simp add: t(1) granted_policy_def snapshot_ok_def MAX_REGISTRY_PROFILES_def)
  show "list_all REGISTRY_ID_RE (registry_profile_ids p)"
    using s by (auto simp: t(1) granted_policy_def list_all_iff snapshot_ok_def profile_ok_def eligible_profiles_def)
  show "list_all TDX_POLICY_TOKEN (tdx_allowed_advisories p)"
    using t(2) by (simp add: Policy_post_init_def ok_simps)
qed

lemma issued_shape:
  fixes ri rq w expires units rid sb
  defines "sdoc \<equiv> sealed_items rid sb (issued_document ri rq w expires units)"
  assumes ids: "length (registry_profile_ids (rq_policy rq)) \<le> 1024"
    and adv: "length (advisory_ids (rq_attested rq)) \<le> 256"
    and plat: "\<And>p. rq_platform rq = Some p \<Longrightarrow> canon (PDict p) = canon PLATFORM_BLOCK"
    and ints: "0 \<le> rq_epoch_id rq" "rq_epoch_id rq \<le> MAX_SQLITE_INTEGER"
      "0 \<le> rq_source_epoch rq" "rq_source_epoch rq \<le> MAX_SQLITE_INTEGER"
      "0 < ps_release (ri_registry ri)" "ps_release (ri_registry ri) \<le> MAX_SQLITE_INTEGER"
      "0 \<le> at_tcb (rq_attested rq)" "at_tcb (rq_attested rq) \<le> MAX_SQLITE_INTEGER"
      "positive_i64 (generation (rq_lifecycle rq))" "positive_i64 (revision (rq_lifecycle rq))"
      "positive_i64 (event_id (rq_lifecycle rq))"
  shows "validate_json_shape (PDict sdoc)" "ints_in_range (PDict sdoc)"
proof -
  note p = platform_items_shape [of rq, OF plat]
  have "node_count (PDict sdoc) \<le> MAX_RECEIPT_NODES"
    using p(1) ids adv
    by (simp add: sdoc_def sealed_items_def issued_document_def receipt_body_def tcb_object_def lifecycle_object_def
        claims_shape MAX_RECEIPT_NODES_def)
  moreover have "depth_within 0 (PDict sdoc)"
    using p(2) claims_shape(2)
    by (simp add: sdoc_def sealed_items_def issued_document_def receipt_body_def tcb_object_def lifecycle_object_def
        MAX_RECEIPT_DEPTH_def)
  ultimately show "validate_json_shape (PDict sdoc)" by (simp only: validate_json_shape_iff)
  show "ints_in_range (PDict sdoc)"
    using p(3) ints
    by (simp add: sdoc_def sealed_items_def issued_document_def receipt_body_def tcb_object_def lifecycle_object_def
        claims_shape positive_i64_def MAX_I64_def MAX_SQLITE_INTEGER_def)
qed

section \<open>Its size\<close>

lemma length_dumps_items: "length (dumps (PDict kvs)) \<le> 2 + (\<Sum>(k, v)\<leftarrow>kvs. 6 * length k + 4 + length (dumps v))"
proof -
  have "(\<Sum>(k, v)\<leftarrow>kvs. length (json_string k) + 2 + length (dumps v)) \<le> (\<Sum>(k, v)\<leftarrow>kvs. 6 * length k + 4 + length (dumps v))"
  proof (intro sum_list_mono, clarify)
    fix k v
    show "length (json_string k) + 2 + length (dumps v) \<le> 6 * length k + 4 + length (dumps v)"
      using length_json_string_le [of k] by simp
  qed
  then show ?thesis using length_dumps_fields [of kvs] by linarith
qed

lemma length_dumps_text: "length s \<le> n \<Longrightarrow> length (dumps (PStr s)) \<le> 6 * n + 2"
  using length_json_string_le [of s] by simp

lemma length_dumps_opt: "pred_option (\<lambda>s. length s \<le> n) so \<Longrightarrow> length (dumps (opt_str so)) \<le> 6 * n + 5"
proof (cases so)
  case (Some s)
  assume "pred_option (\<lambda>s. length s \<le> n) so"
  then show ?thesis using Some length_json_string_le [of s] by simp
qed simp

lemma length_dumps_int: "0 \<le> i \<Longrightarrow> i \<le> MAX_SQLITE_INTEGER \<Longrightarrow> length (dumps (PInt i)) \<le> 20"
proof -
  assume i: "0 \<le> i" "i \<le> MAX_SQLITE_INTEGER"
  have "length (show_nat (nat i)) \<le> Suc 19"
    by (rule show_nat_length_le) (use i in \<open>simp add: MAX_SQLITE_INTEGER_def\<close>)
  with i show ?thesis by (simp add: show_int_def)
qed

lemma unescaped_class: "is_alnum c \<or> c \<in> {CHR ''.'', CHR ''_'', CHR ''-'', CHR '':''} \<Longrightarrow> unescaped c"
  by (intro unescaped_plain) (auto simp: text_simps)

lemma token_length: "TDX_POLICY_TOKEN s \<Longrightarrow> length (dumps (PStr s)) \<le> 130" "REGISTRY_ID_RE s \<Longrightarrow> length (dumps (PStr s)) \<le> 130"
proof -
  have a: "list_all unescaped s \<Longrightarrow> length s \<le> 128 \<Longrightarrow> length (dumps (PStr s)) \<le> 130"
    by (simp add: length_unescaped)
  show "TDX_POLICY_TOKEN s \<Longrightarrow> length (dumps (PStr s)) \<le> 130"
    by (rule a; cases s) (auto simp: TDX_POLICY_TOKEN_def list_all_iff intro!: unescaped_class)
  show "REGISTRY_ID_RE s \<Longrightarrow> length (dumps (PStr s)) \<le> 130"
    by (rule a; cases s) (auto simp: REGISTRY_ID_RE_def list_all_iff is_alnum_def intro!: unescaped_class)
qed

lemma length_dumps_texts:
  assumes "\<And>s. s \<in> set ss \<Longrightarrow> length (dumps (PStr s)) \<le> 130" "length ss \<le> n"
  shows "length (dumps (PList (map PStr ss))) \<le> 2 + n * 131"
proof -
  have "(\<Sum>v\<leftarrow>map PStr ss. length (dumps v) + 1) \<le> length (map PStr ss) * 131"
    by (rule sum_bounds) (use assms(1) in auto)
  also have "\<dots> \<le> n * 131" using assms(2) by simp
  finally show ?thesis using length_dumps_list [of "map PStr ss"] by linarith
qed

lemma length_le_utf8: "length s \<le> length (utf8 s)"
  by (induction s) (auto simp: utf8_char_def Let_def)

lemma bounded_text_length: "receipt_bounded_text (opt_str t) n True \<Longrightarrow> pred_option (\<lambda>s. length s \<le> n) t"
  using length_le_utf8 order.trans by (cases t) (fastforce simp: receipt_bounded_text_def)+

lemma claim_field_lengths:
  assumes "claim_ok c"
  shows "pred_option (\<lambda>s. length s \<le> 71) (ac_evidence_digest c)" "pred_option (\<lambda>s. length s \<le> 71) (ac_policy_digest c)"
    "pred_option (\<lambda>s. length s \<le> 27) (ac_verified_at c)"
proof -
  have "length t = 27" if "valid_utc_timestamp t = Some True" for t
    using that by (auto simp: valid_utc_timestamp_def micros_pattern_def split: if_splits)
  then show "pred_option (\<lambda>s. length s \<le> 71) (ac_evidence_digest c)" "pred_option (\<lambda>s. length s \<le> 71) (ac_policy_digest c)"
    "pred_option (\<lambda>s. length s \<le> 27) (ac_verified_at c)"
    using assms pattern_lengths(4) by (auto simp: claim_ok_def not_evaluated_claim_def split: if_splits)
qed

lemma status_length: "length (ClaimStatus_value st) \<le> 13"
  by (cases st) simp_all

lemma claim_size:
  assumes "claim_ok c"
  shows "text_bound (claim_to_dict True c) \<le> 1600"
proof -
  have "length (ReasonCategory_value r) \<le> 17" for r by (cases r) simp_all
  then have "pred_option (\<lambda>s. length s \<le> 17) (map_option ReasonCategory_value (ac_reason c))"
    by (cases "ac_reason c") simp_all
  note b = text_bound_opt_str [OF this] claim_field_lengths [OF assms, THEN text_bound_opt_str] status_length [of "ac_status c"]
  show ?thesis using b by (simp add: claim_to_dict_def)
qed

lemma claims_size:
  assumes "claims_ok cs"
  shows "length (dumps (claims_to_dict True cs)) \<le> 7000"
proof -
  note b = claims_okD [OF assms, THEN claim_size]
  have "text_bound (claims_to_dict True cs) \<le> 7000"
    using b by (simp add: claims_to_dict_def all_dimensions_def ASSURANCE_SCHEMA_def)
  moreover have "plain_json (claims_to_dict True cs)"
    by (simp add: claims_to_dict_def claim_to_dict_def all_dimensions_def)
  ultimately show ?thesis using dumps_text_bound order.trans by blast
qed

lemma lifecycle_size:
  assumes "LifecycleSnapshot_post_init l = Inr ()" "is_utc e"
  shows "length (dumps (PDict (lifecycle_object l (format_utc e)))) \<le> 2000"
proof -
  have v: "length (LifecycleReason_value (reason l)) \<le> 20" "length (WorkerLifecycleState_value (ls_state l)) \<le> 8"
    by (cases "reason l"; simp) (cases "ls_state l"; simp)
  have "positive_i64 (generation l)" "positive_i64 (revision l)" "positive_i64 (event_id l)"
    using assms(1) by (auto simp: LifecycleSnapshot_post_init_def ok_simps snapshot_fields_ok_def)
  then have i: "length (dumps (PInt (generation l))) \<le> 20" "length (dumps (PInt (revision l))) \<le> 20"
    "length (dumps (PInt (event_id l))) \<le> 20"
    by (intro length_dumps_int; simp add: positive_i64_def MAX_I64_def MAX_SQLITE_INTEGER_def)+
  have t: "length (dumps (PStr (LifecycleReason_value (reason l)))) \<le> 122"
    "length (dumps (PStr (WorkerLifecycleState_value (ls_state l)))) \<le> 50"
    "length (dumps (PStr (format_utc e))) \<le> 164" "length (dumps (PStr ''issued'')) \<le> 38" "length (dumps PNone) \<le> 5"
    using length_dumps_text [OF v(1)] length_dumps_text [OF v(2)] length_dumps_text [of "format_utc e" 27]
      length_dumps_text [of "''issued''" 6] length_format_utc [OF assms(2)]
    by simp_all
  show ?thesis
    using length_dumps_items [of "lifecycle_object l (format_utc e)"] i t
    unfolding lifecycle_object_def by (simp del: dumps.simps)
qed

lemma tcb_size:
  assumes "tcb_shape_ok (tcb_object a)" "tcb_policy_ok p (tcb_object a)" "list_all TDX_POLICY_TOKEN (tdx_allowed_advisories p)"
  shows "length (dumps (PDict (tcb_object a))) \<le> 40000" "length (advisory_ids a) \<le> 256"
    "0 \<le> at_tcb a" "at_tcb a \<le> MAX_SQLITE_INTEGER"
proof -
  show n: "length (advisory_ids a) \<le> 256" and v: "0 \<le> at_tcb a" "at_tcb a \<le> MAX_SQLITE_INTEGER"
    using assms(1) by (simp_all add: tcb_shape_ok_def tcb_object_def MAX_TCB_ADVISORIES_def)
  have adv: "set (advisory_ids a) \<subseteq> set (tdx_allowed_advisories p)"
    using assms(2) by (auto simp: tcb_policy_ok_def tcb_object_def)
  have st: "pred_option (\<lambda>s. length s \<le> 128) (tcb_status a)" "pred_option (\<lambda>s. length s \<le> 256) (tcb_svn a)"
    using assms(1) by (intro bounded_text_length; simp add: tcb_shape_ok_def tcb_object_def)+
  have b: "length (dumps (opt_bool x)) \<le> 5" for x by (cases x) (auto simp: opt_bool_def)
  have l: "length (dumps (PList (map PStr (advisory_ids a)))) \<le> 2 + 256 * 131"
    by (rule length_dumps_texts [OF token_length(1) n]) (use adv assms(3) in \<open>auto simp: list_all_iff\<close>)
  show "length (dumps (PDict (tcb_object a))) \<le> 40000"
    using length_dumps_items [of "tcb_object a"] length_dumps_opt [OF st(1)] length_dumps_opt [OF st(2)]
      length_dumps_int [OF v] b [of "debug_enabled a"] b [of "collateral_current a"] l
    unfolding tcb_object_def by (simp del: dumps.simps)
qed

lemma issued_size:
  fixes ri rq w expires units rid sb
  defines "sdoc \<equiv> sealed_items rid sb (issued_document ri rq w expires units)"
  assumes ids: "length (registry_profile_ids (rq_policy rq)) \<le> 1024" "list_all REGISTRY_ID_RE (registry_profile_ids (rq_policy rq))"
    and adv: "list_all TDX_POLICY_TOKEN (tdx_allowed_advisories (rq_policy rq))"
    and plat: "\<And>p. rq_platform rq = Some p \<Longrightarrow> canon (PDict p) = canon PLATFORM_BLOCK"
    and sub: "issue_subject rq = Inr ()" and tcb: "issue_tcb rq = Inr ()" and wk: "issue_work rq = Inr units"
    and ok: "claims_ok (rq_assurance rq)" and lc: "LifecycleSnapshot_post_init (rq_lifecycle rq) = Inr ()"
    and t: "is_utc w" "is_utc expires" and rel: "0 < ps_release (ri_registry ri)" "ps_release (ri_registry ri) \<le> MAX_SQLITE_INTEGER"
    and dig: "length (ps_digest (ri_registry ri)) \<le> 71" and kid: "length (ri_signing_key_id ri) \<le> 128"
    and rid: "length rid \<le> 79" and sb: "length (b64encode sb) \<le> 88"
  shows "length (dumps (PDict sdoc)) \<le> MAX_RECEIPT_BYTES"
proof -
  have s: "length (rq_subject_hotkey rq) \<le> 512" "length (at_measurement (rq_attested rq)) \<le> 512"
    "0 \<le> rq_epoch_id rq" "rq_epoch_id rq \<le> MAX_SQLITE_INTEGER" "0 \<le> rq_source_epoch rq" "rq_source_epoch rq \<le> MAX_SQLITE_INTEGER"
    using sub length_le_utf8 order.trans by (fastforce simp: issue_subject_def ok_simps receipt_bounded_text_def)+
  have tc: "length (dumps (PDict (tcb_object (rq_attested rq)))) \<le> 40000"
    using tcb adv by (intro tcb_size(1) [of _ "rq_policy rq"]) (simp_all add: issue_tcb_def ok_simps)
  have l: "length (dumps (PList (map PStr (registry_profile_ids (rq_policy rq))))) \<le> 2 + 1024 * 131"
    by (rule length_dumps_texts [OF token_length(2) ids(1)]) (use ids(2) in \<open>auto simp: list_all_iff\<close>)
  have pp: "length (platform_pseudonym c e) = 80" for c e by (simp add: platform_pseudonym_def)
  have u: "length units \<le> 64" using wk work_units_text_canonical by (auto simp: issue_work_def ok_simps)
  have wf: "pred_option (\<lambda>s. length s \<le> 71) (rq_challenge_id rq)" "pred_option (\<lambda>s. length s \<le> 71) (rq_manifest_digest rq)"
    using wk pattern_lengths(4)
    by (auto simp: issue_work_def ok_simps CHALLENGE_RE_def hex64_after_def split: if_splits option.splits)
  let ?ch = "[(''status'', PStr (ClaimStatus_value (ac_status (channel (rq_assurance rq))))),
         (''binding_digest'', opt_str (ac_evidence_digest (channel (rq_assurance rq))))]"
  let ?wk = "[(''status'', PStr (ClaimStatus_value (ac_status (work (rq_assurance rq))))),
         (''challenge_id'', opt_str (rq_challenge_id rq)), (''manifest_digest'', opt_str (rq_manifest_digest rq)),
         (''result_digest'', opt_str (ac_evidence_digest (work (rq_assurance rq)))), (''work_units'', PStr units)]"
  let ?sg = "[(''algorithm'', PStr ''ed25519''), (''value_base64'', PStr (b64encode sb))]"
  have ch: "length (dumps (PDict ?ch)) \<le> 1000"
    using length_dumps_items [of ?ch] length_dumps_text [OF status_length [of "ac_status (channel (rq_assurance rq))"]]
      length_dumps_opt [OF claim_field_lengths(1) [OF claims_okD(3) [OF ok]]]
    by (simp del: dumps.simps)
  have wl: "length (dumps (PDict ?wk)) \<le> 4000"
    using length_dumps_items [of ?wk] length_dumps_text [OF status_length [of "ac_status (work (rq_assurance rq))"]]
      length_dumps_opt [OF claim_field_lengths(1) [OF claims_okD(4) [OF ok]]] length_dumps_opt [OF wf(1)]
      length_dumps_opt [OF wf(2)] length_dumps_text [OF u]
    by (simp del: dumps.simps)
  have sg: "length (dumps (PDict ?sg)) \<le> 1000"
    using length_dumps_items [of ?sg] length_dumps_text [of "''ed25519''" 7] length_dumps_text [OF sb]
    by (simp del: dumps.simps)
  have "(\<Sum>(k, v)\<leftarrow>platform_items rq. 6 * length k + 4 + length (dumps v)) \<le> 400"
    using platform_shape(4) plat by (cases "rq_platform rq") (auto simp: platform_items_def simp del: dumps.simps canon.simps, force)
  moreover have "length (dumps (PStr RECEIPT_SCHEMA)) \<le> 188"
    using length_dumps_text [of RECEIPT_SCHEMA 31] by (simp add: RECEIPT_SCHEMA_def)
  ultimately show ?thesis
    using length_dumps_items [of sdoc] tc l ch wl sg claims_size [OF ok] lifecycle_size [OF lc t(2)]
      length_dumps_text [OF s(1)] length_dumps_text [OF s(2)] length_dumps_int [OF s(3,4)] length_dumps_int [OF s(5,6)]
      length_dumps_int [OF less_imp_le [OF rel(1)] rel(2)] length_dumps_text [OF dig] length_dumps_text [OF kid]
      length_dumps_text [OF rid] length_dumps_text [of "format_utc w" 27]
      length_dumps_text [OF eq_imp_le [OF pp [of "chip_id (rq_attested rq)" "rq_source_epoch rq"]]]
    unfolding sdoc_def sealed_items_def issued_document_def receipt_body_def MAX_RECEIPT_BYTES_def
    by (simp add: length_format_utc [OF t(1)] del: dumps.simps)
qed

section \<open>The round trip\<close>

lemma issued_is_read:
  assumes init: "ReceiptIssuer_init ed25519_public s kid seed = Inr ri" and s: "snapshot_ok s"
    and p: "to_policy clock s (Some policy_at) None = Inr expected" "policy_eq (rq_policy rq) expected"
    and sub: "issue_subject rq = Inr ()" and tcb: "issue_tcb rq = Inr ()" and wk: "issue_work rq = Inr units"
    and ok: "claims_ok (rq_assurance rq)" and lc: "LifecycleSnapshot_post_init (rq_lifecycle rq) = Inr ()"
    and t: "is_utc w" "is_utc expires" and len: "length sb = 64"
    and plat: "rq_platform rq \<noteq> None \<Longrightarrow> validate_platform (issued_document ri rq w expires units) = Inr ()"
    and doc: "sdoc = sealed_items (receipt_id_of document) sb (issued_document ri rq w expires units)"
    and j: "is_json (PDict sdoc)"
  shows "parse_receipt_json (dumps (PDict sdoc)) = Inr (canon_items sdoc)"
proof -
  have ri: "ri_registry ri = s" "ri_signing_key_id ri = kid" "receipt_key s kid \<noteq> None"
    using init by (auto simp: ReceiptIssuer_init_def split: if_splits option.splits)
  note lim = policy_limits [OF s p(1)]
  have ids: "length (registry_profile_ids (rq_policy rq)) \<le> 1024" "list_all REGISTRY_ID_RE (registry_profile_ids (rq_policy rq))"
    and adv: "list_all TDX_POLICY_TOKEN (tdx_allowed_advisories (rq_policy rq))"
    using lim p(2) by (simp_all add: policy_eq_def list_all_iff)
  have block: "canon (PDict p) = canon PLATFORM_BLOCK" if "rq_platform rq = Some p" for p
  proof (rule platform_form)
    show "validate_platform (issued_document ri rq w expires units) = Inr ()" using plat that by simp
    show "dget (issued_document ri rq w expires units) ''platform'' = PDict p" using that by (rule issued_platform)
    show "is_json (PDict p)" using j that by (simp add: doc sealed_items_def issued_document_def platform_items_def)
  qed
  have rel: "0 < ps_release (ri_registry ri)" "ps_release (ri_registry ri) \<le> MAX_SQLITE_INTEGER" "length (ps_digest (ri_registry ri)) \<le> 71"
    using s pattern_lengths(4) [OF DIGEST_RE_label] by (simp_all add: ri snapshot_ok_def)
  have "\<exists>k \<in> set (ps_receipt_signing_keys s). key_id k = kid"
    using ri(3) by (auto simp: receipt_key_def find_None_iff)
  then have kid: "length (ri_signing_key_id ri) \<le> 128"
    using s by (auto simp: ri snapshot_ok_def receipt_key_ok_def REGISTRY_ID_RE_def)
  have rid: "length (receipt_id_of document) \<le> 79" by (simp add: receipt_id_of_def)
  have b64: "length (b64encode sb) \<le> 88" using length_b64encode [of sb] len by simp
  have i: "0 \<le> rq_epoch_id rq" "rq_epoch_id rq \<le> MAX_SQLITE_INTEGER" "0 \<le> rq_source_epoch rq" "rq_source_epoch rq \<le> MAX_SQLITE_INTEGER"
    using sub by (simp_all add: issue_subject_def ok_simps)
  have pos: "positive_i64 (generation (rq_lifecycle rq))" "positive_i64 (revision (rq_lifecycle rq))"
    "positive_i64 (event_id (rq_lifecycle rq))"
    using lc by (auto simp: LifecycleSnapshot_post_init_def ok_simps snapshot_fields_ok_def)
  have tc: "length (advisory_ids (rq_attested rq)) \<le> 256" "0 \<le> at_tcb (rq_attested rq)" "at_tcb (rq_attested rq) \<le> MAX_SQLITE_INTEGER"
    using tcb adv by (auto intro!: tcb_size [of _ "rq_policy rq"] simp: issue_tcb_def ok_simps)
  have size: "length (dumps (PDict sdoc)) \<le> MAX_RECEIPT_BYTES"
    unfolding doc by (rule issued_size [OF ids adv block sub tcb wk ok lc t rel(1,2,3) kid rid b64])
  have shape: "validate_json_shape (PDict sdoc)" "ints_in_range (PDict sdoc)"
    unfolding doc by (rule issued_shape [OF ids(1) tc(1) block i rel(1,2) tc(2,3) pos]; assumption)+
  have "utf8 (dumps (PDict sdoc)) = encode_ascii (dumps (PDict sdoc))" using ascii_dumps [OF j] by (rule utf8_ascii)
  then have u: "length (utf8 (dumps (PDict sdoc))) \<le> MAX_RECEIPT_BYTES" using size by simp
  have "json_loads False (dumps (PDict sdoc)) = Inr (PDict (canon_items sdoc))"
    using loads_dumps [OF j] by (simp only: canon_PDict_items)
  moreover have "ints_in_range (PDict (canon_items sdoc))" "validate_json_shape (PDict (canon_items sdoc))"
    using shape by (simp_all only: canon_PDict_items [symmetric] ints_in_range_canon validate_json_shape_iff
        node_count_canon depth_within_canon)
  ultimately show ?thesis
    unfolding parse_receipt_json_def using u by (simp del: dumps.simps ints_in_range.simps)
qed

lemma issued_text:
  assumes "issue_receipt sign clock ri rq = Inr r"
  obtains t where "utf8 t = receipt_bytes r"
proof -
  from assms obtain w expires units where
    "seal_receipt sign (ri_seed ri) (issued_document ri rq w expires units) = Inr r"
    by (rule issue_receipt_ok)
  note sl = seal_receipt_ok [OF issued_fresh this]
  have "utf8 (dumps (PDict (receipt_document r))) = receipt_bytes r"
    unfolding sl(4) by (rule utf8_ascii [OF ascii_dumps [OF sl(3)]])
  then show thesis by (rule that)
qed

lemma issued_verifies:
  assumes s: "snapshot_ok s" and init: "ReceiptIssuer_init ed25519_public s kid seed = Inr ri"
    and law: "\<And>m. length (ed25519_sign seed m) = 64 \<and> ed25519 (ed25519_public seed) (ed25519_sign seed m) m"
    and ok: "claims_ok (rq_assurance rq)" and lc: "LifecycleSnapshot_post_init (rq_lifecycle rq) = Inr ()"
    and r: "issue_receipt ed25519_sign clock ri rq = Inr r" and tx: "utf8 text = receipt_bytes r"
  shows "verify_receipt ed25519 clock' s None text = Inr (r\<lparr>receipt_document := canon_items (receipt_document r)\<rparr>)"
proof -
  have ri: "ri_registry ri = s" "ri_seed ri = seed" "ri_signing_key_id ri = kid"
    using init by (auto simp: ReceiptIssuer_init_def split: if_splits option.splits)
  from r obtain w policy_at expected expires units where i: "is_utc w" "issue_window ri w = Inr ()"
    "receipt_timestamp (opt_str (ac_verified_at (hardware (rq_assurance rq)))) ''receipt hardware claim verified_at'' = Inr policy_at"
    "to_policy clock (ri_registry ri) (Some policy_at) None = Inr expected" "policy_eq (rq_policy rq) expected"
    "issue_subject rq = Inr ()"
    "validate_claim_times_and_policy (rq_assurance rq) w (assurance_policy_digest (rq_policy rq)) = Inr ()"
    "issue_lifecycle rq w = Inr expires" "issue_tcb rq = Inr ()" "issue_work rq = Inr units" "is_utc expires"
    and plat: "rq_platform rq \<noteq> None \<Longrightarrow> validate_platform (issued_document ri rq w expires units) = Inr ()"
    and seal: "seal_receipt ed25519_sign (ri_seed ri) (issued_document ri rq w expires units) = Inr r"
    by (rule issue_receipt_ok) blast
  let ?doc = "issued_document ri rq w expires units" and ?d = "canon_items (receipt_document r)"
  let ?m = "receipt_message ?doc" and ?sb = "ed25519_sign seed (receipt_message (issued_document ri rq w expires units))"
  note sl = seal_receipt_ok [OF issued_fresh seal, unfolded ri]
  have len: "length ?sb = 64" and sig: "ed25519 (ed25519_public seed) ?sb ?m" using law by auto
  have written: "text = dumps (PDict (receipt_document r))"
    using tx sl(3,4) utf8_ascii [OF ascii_dumps] utf8_inject by metis
  have parse: "parse_receipt_json text = Inr ?d"
    unfolding written by (rule issued_is_read [OF init s i(4)[unfolded ri] i(5,6,9,10) ok lc i(1,11) len plat sl(2,3)])
  note rd = sealed_reads [OF issued_fresh, of ri rq w expires units ?sb, folded sl(2), OF sl(3) len]
  have reads: "reads_issued ?d ?doc" using rd(4,5) by (simp add: reads_issued_def)
  have kid: "dget ?d ''signing_key_id'' = PStr kid" using rd(4) by (simp add: issued_fields ri)
  have "check_header s ?d = Inr (RECEIPT_SCHEMA, w, receipt_id r)"
    using issued_header [OF reads rd(1) _ i(1,2,6) plat] s by (simp add: ri sl(1))
  moreover have "check_policy clock' s w ?d = Inr (rq_assurance rq)"
    using issued_policy [OF reads _ i(3-7,9) ok] s by (simp add: ri)
  moreover have "check_results RECEIPT_SCHEMA w (rq_assurance rq) ?d = Inr ()"
    by (rule issued_results [OF reads lc i(8,11,10) ok])
  moreover have "check_seal ed25519 s None w ?d = Inr ()"
    using init i(2) sig rd(2,3) kid by (rule issued_seal)
  moreover have "receipt_canonical (PDict ?d) = Inr (receipt_bytes r)"
    using sl(3,4) by (simp only: receipt_canonical_canon receipt_canonical_ok_iff)
  ultimately show ?thesis
    unfolding verify_receipt_def parse using tx sl(5) by simp
qed

end
