(* ===== verification/Receipt_Fixtures.thy ===== *)
theory Receipt_Fixtures
  imports Receipt_Sizes Registry_Fixtures
begin

text \<open>
  A concrete request whose receipt is issued and verifies, for the witnesses.
\<close>

section \<open>A concrete receipt\<close>

definition rx_policy :: Policy where
  "rx_policy = granted_policy ex_s1 [ex_profile ''active'' 1] None"

definition rx_claim :: AssuranceClaim where
  "rx_claim = \<lparr>ac_status = CLAIM_PASSED, ac_evidence_digest = Some (sha256_label []),
     ac_policy_digest = Some (assurance_policy_digest rx_policy), ac_verified_at = Some (format_utc (ex_time 2)),
     ac_reason = None\<rparr>"

definition rx_claims :: AssuranceClaims where
  "rx_claims = \<lparr>hardware = rx_claim, software = rx_claim, channel = not_evaluated_claim, work = not_evaluated_claim\<rparr>"

definition rx_lifecycle :: LifecycleSnapshot where
  "rx_lifecycle = \<lparr>hotkey = ''hot'', ls_state = ATTESTED, generation = 1, revision = 1,
     event_id = 1, reason = ATTESTATION_VERIFIED, state_changed_at = ex_time 2, evidence_verified_at = Some (ex_time 2),
     evidence_expires_at = Some (ex_time 30), measurement = Some ''m'', evidence_digest = Some (sha256_label []),
     policy_digest = Some (assurance_policy_digest rx_policy), policy_registry_release = Some 1,
     policy_registry_digest = Some (ps_digest ex_s1), retry_count = 0, next_retry_at = None\<rparr>"

definition rx_request :: issue_request where
  "rx_request = \<lparr>rq_epoch_id = 5, rq_source_epoch = 4, rq_subject_hotkey = ''hot'',
     rq_attested = \<lparr>at_tier = CC_CPU_TDX, chip_id = ''chip'', at_measurement = ''m'', at_tcb = 3,
       verification_status = ''VERIFIED'', chain_verified = True, tcb_status = Some ''UpToDate'', advisory_ids = [],
       debug_enabled = Some False, collateral_current = Some True, platform_identity_kind = None,
       tcb_svn = Some (replicate 32 (CHR ''0'')), pck_cert_id = None, attestation_key_id = None, policy_mode = None,
       at_assurance = Some rx_claims\<rparr>,
     rq_policy = rx_policy, rq_assurance = rx_claims, rq_lifecycle = rx_lifecycle, rq_challenge_id = None,
     rq_manifest_digest = None, rq_work_units = ''0'',
     rq_platform = Some [(''class'', PStr ''confidential_cpu''), (''cpu_tee'', PStr ''intel_tdx'')],
     rq_issued_at = Some (ex_time 2)\<rparr>"

definition rx_issuer :: ReceiptIssuer where
  "rx_issuer = \<lparr>ri_registry = ex_s1, ri_signing_key_id = ''key-a'', ri_seed = replicate 32 0\<rparr>"

definition toy_public :: "bytes \<Rightarrow> bytes" where "toy_public seed = replicate 32 7"

lemma rx_init: "ReceiptIssuer_init toy_public ex_s1 ''key-a'' (replicate 32 0) = Inr rx_issuer"
  by (simp add: ReceiptIssuer_init_def receipt_key_def ex_s1_def ex_snapshot_def ex_key_def toy_public_def rx_issuer_def)

lemma rx_utc: "is_utc (ex_time 2)" "is_utc (ex_time 30)" "dt_less (ex_time 2) (ex_time 31)"
  by (simp_all add: ex_time_def is_utc_def valid_datetime_def days_in_month_def dt_less_def dt_key_def)

lemma rx_to_policy: "to_policy clock ex_s1 (Some (ex_time 2)) None = Inr rx_policy"
proof -
  have e: "profile_eligible_at (ex_profile ''active'' 1) (ex_time 2)"
    by (simp add: profile_eligible_at_def ex_profile_def ex_time_facts del: One_nat_def)
  have el: "eligible_profiles ex_s1 (ex_time 2) = [ex_profile ''active'' 1]"
    using e by (simp add: eligible_profiles_def ex_s1_def ex_snapshot_def ex_profile_def)
  have post: "Policy_post_init rx_policy = Inr ()"
    by (simp add: rx_policy_def Policy_post_init_def granted_policy_def ex_profile_def TDX_POLICY_TOKEN_def text_simps
        TDX_TCB_STATUSES_def ex_s1_def ex_snapshot_def MAX_SQLITE_INTEGER_def)
  have "signature_verified ex_s1" by (simp add: ex_s1_def ex_snapshot_def)
  then show ?thesis
    using rx_utc(1) post
    by (simp add: to_policy_def evaluation_time_def el rx_policy_def Let_def del: One_nat_def)
qed

lemma rx_claims_ok: "claims_ok rx_claims"
proof (rule claims_okI)
  show "claim_ok (hardware rx_claims)" "claim_ok (software rx_claims)"
    using valid_utc_format [OF rx_utc(1)] by (simp_all add: rx_claims_def claim_ok_def rx_claim_def assurance_policy_digest_def)
qed (simp_all add: rx_claims_def)

lemma label_nonempty: "sha256_label m \<noteq> []"
  by (simp add: sha256_label_def)

lemma rx_lifecycle_ok: "LifecycleSnapshot_post_init rx_lifecycle = Inr ()"
  using rx_utc ex_time_facts(8)
  by (simp add: LifecycleSnapshot_post_init_def rx_lifecycle_def snapshot_fields_ok_def positive_i64_def MAX_I64_def
      lifecycle_canonical_utc_def require_snapshot_reason_def optional_canonical_utc_def evidence_window_ok_def
      attested_complete_def nonempty_text_def registry_reference_ok_def ex_s1_def ex_snapshot_def
      assurance_policy_digest_def label_nonempty)

lemma rx_policy_eq: "policy_eq rx_policy rx_policy"
  by (simp add: policy_eq_def)

lemma seal_receipt_succeeds:
  assumes fresh: "set [''receipt_id'', ''signature''] \<inter> set (map fst document) = {}" and j: "is_json (PDict document)"
  shows "\<exists>r. seal_receipt sign seed document = Inr r"
proof -
  have w: "without_keys [''receipt_id'', ''signature''] document = document"
    using fresh by (rule without_keys_disjoint)
  have n: "without_keys [''signature''] (document @ [(''receipt_id'', PStr t)]) = document @ [(''receipt_id'', PStr t)]"
    and s: "without_keys [''signature''] document = document" for t
    using fresh by (auto intro!: without_keys_disjoint)
  have "is_json (PDict (document @ [(''receipt_id'', PStr t)]))"
    "is_json (PDict ((document @ [(''receipt_id'', PStr t)]) @ [(''signature'', PDict [(''algorithm'', PStr a), (''value_base64'', PStr b)])]))" for t a b
    using j fresh by auto
  then show ?thesis
    using j unfolding seal_receipt_def id_material_def unsigned_bytes_def w n s Let_def ok_simps by blast
qed

lemma rx_document_json: "is_json (PDict (issued_document rx_issuer rx_request w e ''0''))"
proof -
  have "is_json (opt_str t)" for t by (cases t) simp_all
  then show ?thesis
    by (simp add: issued_document_def receipt_body_def platform_items_def rx_request_def tcb_object_def opt_bool_def
        rx_lifecycle_def lifecycle_object_def claims_to_dict_def claim_to_dict_def all_dimensions_def int_digits_def
        max_str_digits_def rx_issuer_def ex_s1_def ex_snapshot_def rx_policy_def granted_policy_def ex_profile_def)
qed

lemma rx_issue: "\<exists>r. issue_receipt toy_sign clock rx_issuer rx_request = Inr r"
proof -
  have w: "issue_window rx_issuer (ex_time 2) = Inr ()"
    using ex_time_facts rx_utc
    by (simp add: issue_window_def rx_issuer_def receipt_key_def ex_s1_def ex_snapshot_def ex_key_def can_sign_at_def
        del: One_nat_def)
  have sub: "issue_subject rx_request = Inr ()"
    by (simp add: issue_subject_def rx_request_def receipt_bounded_text_def MAX_SQLITE_INTEGER_def utf8_char_def rx_policy_def
        granted_policy_def ex_profile_def)
  have times: "validate_claim_times_and_policy rx_claims (ex_time 2) (assurance_policy_digest rx_policy) = Inr ()"
    using rx_utc(1)
    by (simp add: validate_claim_times_and_policy_def all_dimensions_def check_claim_time_def check_claim_policy_def
        rx_claims_def rx_claim_def not_evaluated_claim_def)
  have life: "issue_lifecycle rx_request (ex_time 2) = Inr (ex_time 30)"
    using ex_time_facts(8) rx_utc
    by (simp add: issue_lifecycle_ok rx_request_def rx_lifecycle_def eligible_at_def lifecycle_canonical_utc_def rx_claims_def
        rx_claim_def rx_policy_def granted_policy_def ex_s1_def ex_snapshot_def)
  have svn: "utf8 (replicate n (CHR ''0'')) = replicate n 48" "list_all is_lower_hex (replicate n (CHR ''0''))" for n
    by (induction n) (simp_all add: utf8_char_def text_simps)
  have tcb: "issue_tcb rx_request = Inr ()"
    by (simp add: svn issue_tcb_def tcb_shape_ok_def tcb_policy_ok_def tcb_object_def rx_request_def receipt_bounded_text_def
        MAX_SQLITE_INTEGER_def utf8_char_def MAX_TCB_ADVISORIES_def optional_bool_def opt_bool_def rx_policy_def granted_policy_def
        ex_profile_def TCB_SVN_RE_def text_simps)
  have wk: "issue_work rx_request = Inr ''0''"
    using work_units_text_whole [of "''0''"]
    by (simp add: issue_work_def rx_request_def rx_claims_def not_evaluated_claim_def int_text_def is_digit_def DECIMAL_RE_def)
  have plat: "add_platform rx_request (receipt_body rx_issuer rx_request a b ''0'')
      = Inr (receipt_body rx_issuer rx_request a b ''0'' @ platform_items rx_request)" for a b
    by (simp add: add_platform_def rx_request_def platform_items_def validate_platform_def receipt_body_def same_keys_def
        PLATFORM_CPU_KEYS_def ACCEPTED_PLATFORM_CLASSES_def PLATFORM_CLASS_CPU_def ATTESTABLE_CPU_TEES_def CPU_TEE_TDX_def
        CPU_TEE_SEV_SNP_def ACCEPTED_CPU_TEES_def)
  have at: "receipt_timestamp (opt_str (ac_verified_at (hardware rx_claims))) l = Inr (ex_time 2)" for l
    using rx_utc(1) by (simp add: rx_claims_def rx_claim_def)
  have f: "rq_issued_at rx_request = Some (ex_time 2)" "rq_assurance rx_request = rx_claims" "rq_policy rx_request = rx_policy"
    "ri_registry rx_issuer = ex_s1"
    by (simp_all add: rx_request_def rx_issuer_def)
  obtain r where "seal_receipt toy_sign (ri_seed rx_issuer) (issued_document rx_issuer rx_request (ex_time 2) (ex_time 30) ''0'') = Inr r"
    using seal_receipt_succeeds [OF issued_fresh rx_document_json] by blast
  then have "issue_receipt toy_sign clock rx_issuer rx_request = Inr r"
    unfolding issue_receipt_def f option.case at
    using w sub times life tcb wk rx_utc rx_to_policy rx_policy_eq plat
    by (simp add: format_time_def lifecycle_canonical_utc_def receipt_policy_def issued_document_def)
  then show ?thesis by blast
qed

lemma rx_request_parts: "rq_assurance rx_request = rx_claims" "rq_lifecycle rx_request = rx_lifecycle"
  by (simp_all add: rx_request_def)

lemmas rx_hypotheses = ex_snapshots_ok(1) rx_init toy_law rx_claims_ok [folded rx_request_parts(1)]
  rx_lifecycle_ok [folded rx_request_parts(2)]

text \<open>The receipt is issued, and its text verifies.\<close>

lemma rx_receipt:
  obtains r t where "issue_receipt toy_sign (ex_time 2) rx_issuer rx_request = Inr r" "utf8 t = receipt_bytes r"
    "verify_receipt toy_verify (ex_time 2) ex_s1 None t = Inr (r\<lparr>receipt_document := canon_items (receipt_document r)\<rparr>)"
proof -
  obtain r where r: "issue_receipt toy_sign (ex_time 2) rx_issuer rx_request = Inr r" using rx_issue by blast
  then obtain t where t: "utf8 t = receipt_bytes r" by (rule issued_text)
  have "verify_receipt toy_verify (ex_time 2) ex_s1 None t = Inr (r\<lparr>receipt_document := canon_items (receipt_document r)\<rparr>)"
    by (rule issued_verifies [of ex_s1 toy_public "''key-a''" "replicate 32 0" rx_issuer toy_sign toy_verify rx_request])
      (rule rx_hypotheses r t)+
  with r t show thesis by (rule that)
qed

end
