(* ===== verification/Receipt_Properties.thy ===== *)
theory Receipt_Properties
  imports Receipt_Fixtures
begin

text \<open>
  What assurance claims and receipts guarantee.
\<close>

section \<open>Assurance claims\<close>

text \<open>The claims records the program can build: from nothing, by an operation, or by reading a document.\<close>

inductive claims_built :: "AssuranceClaims \<Rightarrow> bool" where
  built_empty: "claims_built empty_assurance_claims"
| built_attested: "attestation_claims now e p at hs hr ss sr = Inr cs \<Longrightarrow> claims_built cs"
| built_channel: "claims_built cs \<Longrightarrow> with_verified_channel now cs m at = Inr cs' \<Longrightarrow> claims_built cs'"
| built_claim: "claims_built cs \<Longrightarrow> evaluated_claim now st e pol at rsn = Inr c \<Longrightarrow> claims_built (with_claim cs d c)"
| built_read: "assurance_from_dict doc = Inr cs \<Longrightarrow> claims_built cs"

lemma claims_built_ok: "claims_built cs \<Longrightarrow> claims_ok cs"
  by (induction rule: claims_built.induct)
    (auto simp: evaluated_claim_def AssuranceClaim_init_ok_iff
      intro: empty_claims_ok attestation_claims_ok with_verified_channel_ok(1) with_claim_ok assurance_from_dict_ok)

text \<open>
  C34. Claims are well formed, whatever operations built them: an evaluated claim has both
  digests and a canonical time, and a reason exactly when it did not pass; a claim that was
  not evaluated has nothing else.  The document of well-formed claims, with its keys sorted
  as JSON writes them, is read back by the receipt verifier as the same claims.
\<close>

theorem built_claims_are_typed:
  assumes "claims_built cs"
  shows "(\<forall>d. if ac_status (claim cs d) = NOT_EVALUATED then claim cs d = not_evaluated_claim
       else (\<exists>e p t. claim cs d = \<lparr>ac_status = ac_status (claim cs d), ac_evidence_digest = Some e,
               ac_policy_digest = Some p, ac_verified_at = Some t, ac_reason = ac_reason (claim cs d)\<rparr>
             \<and> DIGEST_RE e \<and> DIGEST_RE p \<and> valid_utc_timestamp t = Some True)
         \<and> (ac_reason (claim cs d) = None \<longleftrightarrow> ac_status (claim cs d) = CLAIM_PASSED))
    \<and> strict_assurance (canon (claims_to_dict True cs)) = Inr cs"
proof -
  have ok: "claims_ok cs" using assms by (rule claims_built_ok)
  have "if ac_status c = NOT_EVALUATED then c = not_evaluated_claim
       else (\<exists>e p t. c = \<lparr>ac_status = ac_status c, ac_evidence_digest = Some e,
               ac_policy_digest = Some p, ac_verified_at = Some t, ac_reason = ac_reason c\<rparr>
             \<and> DIGEST_RE e \<and> DIGEST_RE p \<and> valid_utc_timestamp t = Some True)
         \<and> (ac_reason c = None \<longleftrightarrow> ac_status c = CLAIM_PASSED)" if "claim_ok c" for c
    using that by (cases c) (auto simp: claim_ok_def split: if_splits)
  with ok strict_assurance_reads [OF ok] show ?thesis by (simp add: claims_ok_def)
qed

theorem built_claims_are_typed_witness:
  "claims_built rx_claims \<and> strict_assurance (canon (claims_to_dict True rx_claims)) = Inr rx_claims"
proof -
  have "claim_ok rx_claim" using claims_okD(1) [OF rx_claims_ok] by (simp add: rx_claims_def)
  then have "AssuranceClaim_init CLAIM_PASSED (PStr (sha256_label [])) (PStr (assurance_policy_digest rx_policy))
      (PStr (format_utc (ex_time 2))) None = Inr rx_claim"
    by (simp add: AssuranceClaim_init_ok_iff rx_claim_def)
  moreover have "claim_when a (Some (format_utc (ex_time 2))) = format_utc (ex_time 2)" for a
    by (simp add: claim_when_def format_utc_def)
  ultimately have "attestation_claims [] [] rx_policy (Some (format_utc (ex_time 2))) CLAIM_PASSED None CLAIM_PASSED None = Inr rx_claims"
    by (simp add: attestation_claims_def rx_claims_def)
  then have "claims_built rx_claims" by (rule built_attested)
  then show ?thesis using built_claims_are_typed by blast
qed

section \<open>Reading\<close>

text \<open>
  The shape check decides the size of a receipt: the loop over an explicit stack ends, and
  accepts exactly the values with at most 4096 parts, none nested deeper than 32.
\<close>

lemma validate_json_shape_exact:
  "validate_json_shape v \<longleftrightarrow> node_count v \<le> MAX_RECEIPT_NODES \<and> depth_within 0 v"
  by (rule validate_json_shape_iff)

section \<open>Verification\<close>

text \<open>
  C33. A verified receipt is authentic: its bytes are the canonical JSON of its document, its
  identifier is the digest of everything but identifier and signature, and a key that both
  registries anchor, that is not revoked and may verify at the time of issue, signed
  everything but the signature.
\<close>

theorem verified_receipt_is_authentic:
  assumes "verify_receipt ed25519 clock s key_registry text = Inr r"
  shows "text = dumps (PDict (receipt_document r)) \<and> receipt_bytes r = utf8 text
    \<and> receipt_digest r = sha256_label (utf8 text)
    \<and> dget (receipt_document r) ''receipt_id'' = PStr (receipt_id r)
    \<and> receipt_id r = ''receipt-sha256:''
        @ sha256_hexdigest (encode_ascii (dumps (PDict (without_keys [''receipt_id'', ''signature''] (receipt_document r)))))
    \<and> (\<exists>issued_at kid pk tk sig sb.
         receipt_timestamp (dget (receipt_document r) ''issued_at'') ''receipt issued_at'' = Inr issued_at
         \<and> dget (receipt_document r) ''signing_key_id'' = PStr kid \<and> receipt_key s kid = Some pk
         \<and> receipt_key (case key_registry of Some t \<Rightarrow> t | None \<Rightarrow> s) kid = Some tk
         \<and> public_key tk = public_key pk \<and> rk_status tk \<noteq> ''revoked'' \<and> can_verify_at tk issued_at
         \<and> dget (receipt_document r) ''signature'' = PDict sig
         \<and> dget sig ''value_base64'' = PStr (b64encode sb) \<and> length sb = 64
         \<and> ed25519 (public_key tk) sb
             (encode_ascii (dumps (PDict (without_keys [''signature''] (receipt_document r))))))"
proof -
  let ?d = "receipt_document r"
  obtain schema issued_at cs where v: "json_loads False text = Inr (PDict ?d)"
      "utf8 text = encode_ascii (dumps (PDict ?d))" "receipt_bytes r = utf8 text"
      "receipt_digest r = sha256_label (utf8 text)" "check_header s ?d = Inr (schema, issued_at, receipt_id r)"
      and seal: "check_seal ed25519 s key_registry issued_at ?d = Inr ()"
    using verify_receipt_ok [OF assms] by blast
  note h = check_header_ok [OF v(5)]
  have rid: "receipt_id r = ''receipt-sha256:'' @ sha256_hexdigest (encode_ascii (dumps (PDict (without_keys [''receipt_id'', ''signature''] ?d))))"
    "dget ?d ''receipt_id'' = PStr (receipt_id r)"
    using h(9) unfolding check_receipt_id_ok id_material_def receipt_canonical_ok_iff by auto
  obtain sb tk where s: "check_signature_object (dget ?d ''signature'') = Inr sb"
      "check_signing_key s key_registry issued_at (dget ?d ''signing_key_id'') = Inr tk"
      "ed25519 (public_key tk) sb (encode_ascii (dumps (PDict (without_keys [''signature''] ?d))))"
    using seal unfolding check_seal_def unsigned_bytes_def ok_simps by blast
  have "rk_status tk \<noteq> ''revoked''" using s(2) by (auto simp: check_signing_key_ok can_verify_at_def)
  with v rid s h(3) show ?thesis
    unfolding check_signature_object_ok check_signing_key_ok
    using verified_text [OF v(1,2)] by metis
qed

theorem verified_receipt_is_authentic_witness:
  "\<exists>r text. verify_receipt toy_verify (ex_time 2) ex_s1 None text = Inr r
     \<and> text = dumps (PDict (receipt_document r))"
proof -
  obtain r t where "verify_receipt toy_verify (ex_time 2) ex_s1 None t = Inr r" by (rule rx_receipt)
  with verified_receipt_is_authentic show ?thesis by blast
qed



section \<open>Issuing\<close>

text \<open>
  C31. Every issued receipt verifies.  For a verified registry, an issuer constructed with a
  key of that registry, a signature scheme whose 64-byte signatures verify, claims the
  program can build and a valid lifecycle snapshot, the bytes of the receipt that \<open>issue\<close>
  returns, read as text, pass \<open>verify_receipt\<close> at any later time and give the same receipt.
\<close>

theorem issued_receipt_verifies:
  assumes "snapshot_ok s" and "ReceiptIssuer_init ed25519_public s kid seed = Inr ri"
    and "\<And>m. length (ed25519_sign seed m) = 64 \<and> ed25519 (ed25519_public seed) (ed25519_sign seed m) m"
    and "claims_ok (rq_assurance rq)" and "LifecycleSnapshot_post_init (rq_lifecycle rq) = Inr ()"
    and "issue_receipt ed25519_sign clock ri rq = Inr r" and "utf8 text = receipt_bytes r"
  shows "verify_receipt ed25519 clock' s None text = Inr (r\<lparr>receipt_document := canon_items (receipt_document r)\<rparr>)"
  using assms by (rule issued_verifies)

theorem issued_receipt_verifies_witness:
  "\<exists>r text. issue_receipt toy_sign (ex_time 2) rx_issuer rx_request = Inr r \<and> utf8 text = receipt_bytes r
     \<and> verify_receipt toy_verify (ex_time 2) ex_s1 None text
         = Inr (r\<lparr>receipt_document := canon_items (receipt_document r)\<rparr>)"
proof -
  obtain r t where r: "issue_receipt toy_sign (ex_time 2) rx_issuer rx_request = Inr r" "utf8 t = receipt_bytes r"
    by (rule rx_receipt)
  have "verify_receipt toy_verify (ex_time 2) ex_s1 None t = Inr (r\<lparr>receipt_document := canon_items (receipt_document r)\<rparr>)"
    by (rule issued_receipt_verifies [of ex_s1 toy_public "''key-a''" "replicate 32 0" rx_issuer toy_sign toy_verify rx_request])
      (rule rx_hypotheses r)+
  with r show ?thesis by blast
qed

end
