(* ===== verification/Workproof.thy ===== *)
theory Workproof
  imports Sat_Lane Provider_Sizes Receipt_Issue
begin

text \<open>
  The published artifacts of SAT work and their replay: \<open>_sat_manifest_bytes\<close>,
  \<open>_sat_result_bytes\<close> and \<open>_work_assurance\<close> of \<open>runtime.py\<close>, which write the bytes a receipt
  signs the digests of, and \<open>workproof.py\<close>, which checks the work again from these bytes.

  A float of a document is the text it was read from.  Whether \<open>json.dumps\<close> prints it back
  the same way is known for whole numbers \<open>n.0\<close> of at most 15 digits, the only floats the
  runtime writes; another float is an error value of its own, as is text beyond code point
  255.  Messages leave out the text of the exception they chain.
\<close>

section \<open>Artifacts the runtime writes\<close>

definition SAT_WORK_POLICY_DIGEST :: string where
  "SAT_WORK_POLICY_DIGEST = sha256_label (encode_ascii ''cathedral-sat-work-verification-policy-v1'')"

definition sat_manifest :: "SatWorkItem \<Rightarrow> pyval" where
  "sat_manifest item = PDict
    [(''schema'', PStr ''cathedral_sat_manifest_v1''),
     (''challenge_id'', PStr (item_challenge_id item)),
     (''seed'', PInt (item_seed item)),
     (''instance'', PDict
       [(''n_vars'', PInt (n_vars (item_instance item))),
        (''clauses'', clauses_pyval (clauses (item_instance item)))])]"

definition sat_manifest_bytes :: "SatWorkItem \<Rightarrow> bytes" where
  "sat_manifest_bytes item = encode_ascii (dumps (sat_manifest item))"

definition sat_manifest_digest :: "SatWorkItem \<Rightarrow> string" where
  "sat_manifest_digest item = sha256_label (sat_manifest_bytes item)"

text \<open>The material of the result; \<open>None\<close> for the certificate leaves only the challenge.\<close>

definition result_material :: "SatWorkItem \<Rightarrow> SatCertificate option \<Rightarrow> pyval" where
  "result_material item certificate = PDict
    [(''assigned_hotkey'', case certificate of Some c \<Rightarrow> PStr (assigned_hotkey c) | None \<Rightarrow> PNone),
     (''assignment'', case certificate of
        Some c \<Rightarrow> (case assignment c of Some asg \<Rightarrow> PList (map PInt asg) | None \<Rightarrow> PNone)
      | None \<Rightarrow> PNone),
     (''challenge_id'', PStr (item_challenge_id item)),
     (''satisfiable'', case certificate of Some c \<Rightarrow> PBool (satisfiable c) | None \<Rightarrow> PNone),
     (''work_units'', case certificate of Some c \<Rightarrow> work_units c | None \<Rightarrow> PNone)]"

text \<open>
  What \<open>json.dumps(..., allow_nan=False)\<close> encodes: no non-finite float (\<open>ValueError\<close>), no
  integer beyond the digit limit (\<open>ValueError\<close>), no object of another class (\<open>TypeError\<close>).
\<close>

fun json_encodable :: "pyval \<Rightarrow> bool" where
  "json_encodable (PFloat t) = (t \<notin> {''nan'', ''inf'', ''-inf''})"
| "json_encodable (PInt i) = (int_digits i \<le> max_str_digits)"
| "json_encodable (PList vs) = list_all json_encodable vs"
| "json_encodable (PTuple vs) = list_all json_encodable vs"
| "json_encodable (PDict kvs) = list_all (\<lambda>(k, v). json_encodable v) kvs"
| "json_encodable (PProxy kvs) = False"
| "json_encodable (PObject d) = False"
| "json_encodable (POther t) = False"
| "json_encodable _ = True"

text \<open>\<open>None\<close> when the encoder raises.\<close>

definition sat_result_bytes :: "SatWorkItem \<Rightarrow> SatCertificate option \<Rightarrow> bytes option" where
  "sat_result_bytes item certificate =
    (if json_encodable (result_material item certificate)
     then Some (encode_ascii (dumps (result_material item certificate))) else None)"

datatype runtime_error = RuntimeError string | RuntimeAssurance assurance_error

definition invalid_certificate_bytes :: "SatWorkItem \<Rightarrow> bytes" where
  "invalid_certificate_bytes item = encode_ascii (dumps (PDict
    [(''challenge_id'', PStr (item_challenge_id item)), (''invalid_certificate'', PBool True)]))"

definition work_assurance ::
  "string \<Rightarrow> Attested \<Rightarrow> SatWorkItem \<Rightarrow> SatCertificate option \<Rightarrow> bool \<Rightarrow> runtime_error + AssuranceClaims" where
  "work_assurance now_text attested item certificate passed =
    (case at_assurance attested of
       None \<Rightarrow> Inl (RuntimeError ''attested verdict is missing typed assurance claims'')
     | Some claims \<Rightarrow>
         if ac_policy_digest (software claims) = None
         then Inl (RuntimeError ''attested verdict is missing typed assurance claims'')
         else
           (let encoded = (case sat_result_bytes item certificate of
                             Some bs \<Rightarrow> bs | None \<Rightarrow> invalid_certificate_bytes item)
            in case evaluated_claim now_text (if passed then CLAIM_PASSED else CLAIM_FAILED) encoded
                      SAT_WORK_POLICY_DIGEST None (if passed then None else Some WORK_INVALID) of
                 Inl e \<Rightarrow> Inl (RuntimeAssurance e)
               | Inr w \<Rightarrow> Inr (with_claim claims WORK w)))"

section \<open>Replay\<close>

definition WORK_ITEM_SCHEMA :: string where "WORK_ITEM_SCHEMA = ''cathedral_sat_manifest_v1''"

definition MAX_WORK_ARTIFACT_BYTES :: nat where "MAX_WORK_ARTIFACT_BYTES = 4 * 1024 * 1024"

datatype workproof_error = WorkProofError string | WorkProofOutsideModel

text \<open>The texts of floats that \<open>repr\<close> gives back unchanged: whole numbers \<open>n.0\<close>.\<close>

definition whole_float :: "string \<Rightarrow> bool" where
  "whole_float t \<longleftrightarrow>
    (let ds = take (length t - 2) t in
     t = ds @ ''.0'' \<and> ds \<noteq> [] \<and> length ds \<le> 15 \<and> list_all is_digit ds
     \<and> (hd ds = CHR ''0'' \<longrightarrow> ds = ''0''))"

fun floats_known :: "pyval \<Rightarrow> bool" where
  "floats_known (PFloat t) = whole_float t"
| "floats_known (PList vs) = list_all floats_known vs"
| "floats_known (PDict kvs) = list_all (\<lambda>(k, v). floats_known v) kvs"
| "floats_known _ = True"

definition strict_canonical_json ::
  "bytes \<Rightarrow> string \<Rightarrow> workproof_error + (string \<times> pyval) list" where
  "strict_canonical_json data label =
    (if length data > MAX_WORK_ARTIFACT_BYTES then Inl (WorkProofError (label @ '' is oversized''))
     else case decode_ascii data of
         None \<Rightarrow> Inl (WorkProofError (label @ '' is not strict ASCII JSON''))
       | Some text \<Rightarrow>
           (case json_loads True text of
              Inl e \<Rightarrow>
                if e = JsonOutsideModel \<or> e = JsonFuel then Inl WorkProofOutsideModel
                else Inl (WorkProofError (label @ '' is not strict ASCII JSON''))
            | Inr document \<Rightarrow>
                (case document of
                   PDict kvs \<Rightarrow>
                     if \<not> floats_known document then Inl WorkProofOutsideModel
                     else if encode_ascii (dumps document) \<noteq> data
                       then Inl (WorkProofError (label @ '' bytes are not canonical JSON''))
                     else Inr kvs
                 | _ \<Rightarrow> Inl (WorkProofError (label @ '' is not a JSON object'')))))"

definition replay_item :: "bytes \<Rightarrow> string \<Rightarrow> workproof_error + SatWorkItem" where
  "replay_item work_item_bytes expected_challenge_id =
    rbind (strict_canonical_json work_item_bytes ''work item'') (\<lambda>item.
    rbind (checks
      [require (set (map fst item) = {''schema'', ''challenge_id'', ''seed'', ''instance''})
         (WorkProofError ''work item has missing or unknown fields''),
       require (dget item ''schema'' = PStr WORK_ITEM_SCHEMA)
         (WorkProofError ''work item schema is unsupported''),
       require (dget item ''challenge_id'' = PStr expected_challenge_id)
         (WorkProofError ''work item challenge does not match the receipt's challenge binding'')]) (\<lambda>_.
    case dget item ''instance'' of
      PDict inst \<Rightarrow>
        if set (map fst inst) \<noteq> {''n_vars'', ''clauses''}
        then Inl (WorkProofError ''work item instance is malformed'')
        else
          (case validate_sat_work_item
                  \<lparr>raw_n_vars = dget inst ''n_vars'', raw_clauses = dget inst ''clauses'',
                   raw_seed = dget item ''seed'', raw_challenge_id = dget item ''challenge_id''\<rparr> of
             Inl (SatValueError m) \<Rightarrow> Inl (WorkProofError (''work item fails the producer contract: '' @ m))
           | Inr work_item \<Rightarrow>
               if clauses (item_instance work_item) = []
               then Inl (WorkProofError ''work item instance bounds are invalid'')
               else Inr work_item)
    | _ \<Rightarrow> Inl (WorkProofError ''work item instance is malformed'')))"

text \<open>A list whose elements are all integers and no booleans.\<close>

fun int_elements :: "pyval \<Rightarrow> int list option" where
  "int_elements (PList []) = Some []"
| "int_elements (PList (PInt i # vs)) = map_option ((#) i) (int_elements (PList vs))"
| "int_elements _ = None"

fun is_number :: "pyval \<Rightarrow> bool" where
  "is_number (PInt i) = True"
| "is_number (PFloat t) = True"
| "is_number _ = False"

definition replay_assignment :: "SatInstance \<Rightarrow> pyval \<Rightarrow> workproof_error + unit" where
  "replay_assignment i v =
    (case int_elements v of
       None \<Rightarrow> Inl (WorkProofError ''work result assignment is malformed'')
     | Some asg \<Rightarrow> checks
         [require (int (length asg) = n_vars i)
            (WorkProofError ''work result assignment is malformed''),
          require (set (map abs asg) = set [1..n_vars i])
            (WorkProofError ''work result assignment does not cover the variables''),
          require (list_all (list_ex (\<lambda>l. l \<in> set asg)) (clauses i))
            (WorkProofError ''work result assignment does not satisfy every clause'')])"

definition replay_result ::
  "SatInstance \<Rightarrow> bytes \<Rightarrow> string \<Rightarrow> string \<Rightarrow> workproof_error + pyval" where
  "replay_result i result_bytes expected_challenge_id expected_hotkey =
    rbind (strict_canonical_json result_bytes ''work result'') (\<lambda>res.
    rbind (checks
      [require (set (map fst res)
           = {''assigned_hotkey'', ''assignment'', ''challenge_id'', ''satisfiable'', ''work_units''})
         (WorkProofError ''work result has missing or unknown fields''),
       require (dget res ''challenge_id'' = PStr expected_challenge_id)
         (WorkProofError ''work result challenge does not match the receipt's challenge binding''),
       require (dget res ''assigned_hotkey'' = PStr expected_hotkey)
         (WorkProofError ''work result is assigned to a different hotkey than the receipt subject''),
       require (dget res ''satisfiable'' = PBool True)
         (WorkProofError ''only satisfiable certificates with checkable witnesses can earn''),
       replay_assignment i (dget res ''assignment'')]) (\<lambda>_.
      Inr (dget res ''work_units'')))"

definition verify_work_artifacts ::
  "'r rng \<Rightarrow> bytes \<Rightarrow> bytes \<Rightarrow> string \<Rightarrow> string \<Rightarrow> string \<Rightarrow> string \<Rightarrow> decimal \<Rightarrow> workproof_error + unit" where
  "verify_work_artifacts g work_item_bytes result_bytes expected_manifest_digest expected_result_digest
     expected_challenge_id expected_hotkey expected_units =
    rbind (checks
      [require (sha256_label work_item_bytes = expected_manifest_digest)
         (WorkProofError ''work-item bytes do not match the receipt's signed manifest digest''),
       require (sha256_label result_bytes = expected_result_digest)
         (WorkProofError ''result bytes do not match the receipt's signed result digest'')]) (\<lambda>_.
    rbind (replay_item work_item_bytes expected_challenge_id) (\<lambda>work_item.
    rbind (replay_result (item_instance work_item) result_bytes expected_challenge_id expected_hotkey)
      (\<lambda>certificate_units. checks
        [require (is_number certificate_units) (WorkProofError ''work result units are malformed''),
         require (decimal_is_nat expected_units (derived_work_units g work_item))
           (WorkProofError ''receipt-signed units are not the independently derived units'')])))"

end
