(* ===== verification/Workproof_Properties.thy ===== *)
theory Workproof_Properties
  imports Workproof Sat_Properties Receipt_Fixtures
begin

text \<open>
  Replaying published SAT work.  Accepted artifacts are the bytes of a valid work item and of
  a certificate that solves it, and work the lane dispatched and credited replays.
\<close>

section \<open>Canonical documents\<close>

lemma strict_canonical_json_ok:
  assumes "strict_canonical_json data label = Inr kvs"
  shows "json_tree True (PDict kvs) \<and> data = encode_ascii (dumps (PDict kvs))"
proof -
  obtain t where t: "json_loads True t = Inr (PDict kvs)" "data = encode_ascii (dumps (PDict kvs))"
    using assms by (auto simp: strict_canonical_json_def split: if_splits option.splits sum.splits pyval.splits)
  with loads_json_tree [OF t(1)] show ?thesis by simp
qed

lemma strict_canonical_json_accepts:
  assumes "reads_back True v" "list_all is_ascii (dumps v)" "length (dumps v) \<le> MAX_WORK_ARTIFACT_BYTES"
    and kws: "canon v = PDict kws" "floats_known (canon v)"
  shows "strict_canonical_json (encode_ascii (dumps v)) label = Inr kws"
proof -
  from kws(1) have "has_head v" by (cases v) (simp_all add: has_head_def opens_value_def)
  with assms(1) have "json_loads True (dumps v) = Inr (PDict kws)"
    using loads_reads_back kws(1) by metis
  moreover have "dumps (PDict kws) = dumps v" using dumps_canon kws(1) by metis
  ultimately show ?thesis
    using assms(2-5) by (simp add: strict_canonical_json_def decode_encode_ascii del: dumps.simps floats_known.simps)
qed

section \<open>Accepted artifacts\<close>

lemma replay_item_ok:
  assumes "replay_item wb cid = Inr item"
  shows "item_valid item" "item_challenge_id item = cid" "wb = sat_manifest_bytes item"
proof -
  obtain kvs where doc: "strict_canonical_json wb ''work item'' = Inr kvs"
    using assms by (auto simp: replay_item_def ok_simps)
  obtain inst where keys: "set (map fst kvs) = {''schema'', ''challenge_id'', ''seed'', ''instance''}"
    and vals: "dget kvs ''schema'' = PStr WORK_ITEM_SCHEMA" "dget kvs ''challenge_id'' = PStr cid"
      "dget kvs ''instance'' = PDict inst"
    and ikeys: "set (map fst inst) = {''n_vars'', ''clauses''}"
    and item: "validate_sat_work_item
        \<lparr>raw_n_vars = dget inst ''n_vars'', raw_clauses = dget inst ''clauses'',
         raw_seed = dget kvs ''seed'', raw_challenge_id = dget kvs ''challenge_id''\<rparr> = Inr item"
    using assms doc unfolding replay_item_def
    by (cases "dget kvs ''instance''") (auto simp: ok_simps split: if_splits sum.splits sat_error.splits)
  from item show valid: "item_valid item" and cid: "item_challenge_id item = cid"
    using vals(2) by (auto simp: validate_sat_work_item_ok_iff raw_item_def)
  have raw: "dget inst ''n_vars'' = PInt (n_vars (item_instance item))"
    "dget inst ''clauses'' = clauses_pyval (clauses (item_instance item))"
    "dget kvs ''seed'' = PInt (item_seed item)"
    using item by (auto simp: validate_sat_work_item_ok_iff raw_item_def)
  note tree = strict_canonical_json_ok [OF doc]
  have "''instance'' \<in> set (map fst kvs)" using keys by simp
  then have "(''instance'', PDict inst) \<in> set kvs"
    using vals(3) by (auto simp: dget_def split: option.splits dest: map_of_SomeD weak_map_of_SomeI)
  then have "distinct (map fst inst)" using tree by (auto simp: list_all_iff)
  then have "dumps (PDict inst) = dumps (PDict
      [(''n_vars'', PInt (n_vars (item_instance item))), (''clauses'', clauses_pyval (clauses (item_instance item)))])"
    using ikeys raw by (intro dumps_same_items) (simp_all del: dumps.simps set_map)
  then have "dumps (PDict kvs) = dumps (sat_manifest item)"
    unfolding sat_manifest_def using tree keys vals raw cid
    by (intro dumps_same_items) (simp_all add: WORK_ITEM_SCHEMA_def insert_commute del: dumps.simps set_map)
  with tree show "wb = sat_manifest_bytes item" by (simp add: sat_manifest_bytes_def)
qed

lemma int_elements_iff: "int_elements v = Some asg \<longleftrightarrow> v = PList (map PInt asg)"
proof (induction v arbitrary: asg rule: int_elements.induct)
  case (2 i vs)
  then show ?case by (cases asg) auto
qed auto

lemma replay_assignment_ok_iff:
  "replay_assignment i v = Inr u \<longleftrightarrow> (\<exists>asg. v = PList (map PInt asg) \<and> certifies i asg)"
  unfolding int_elements_iff [symmetric]
  by (auto simp: replay_assignment_def certifies_def ok_simps split: option.splits)

text \<open>The result document of a satisfiable certificate.\<close>

definition result_items :: "string \<Rightarrow> int list \<Rightarrow> string \<Rightarrow> pyval \<Rightarrow> (string \<times> pyval) list" where
  "result_items hk asg cid u =
    [(''assigned_hotkey'', PStr hk), (''assignment'', PList (map PInt asg)), (''challenge_id'', PStr cid),
     (''satisfiable'', PBool True), (''work_units'', u)]"

lemma result_material_items:
  "satisfiable c \<Longrightarrow> assignment c = Some asg \<Longrightarrow> result_material item (Some c)
    = PDict (result_items (assigned_hotkey c) asg (item_challenge_id item) (work_units c))"
  by (simp add: result_material_def result_items_def)

lemma replay_result_ok:
  assumes "replay_result i rb cid hk = Inr u"
  shows "\<exists>asg. certifies i asg \<and> rb = encode_ascii (dumps (PDict (result_items hk asg cid u)))"
proof -
  obtain kvs asg where doc: "strict_canonical_json rb ''work result'' = Inr kvs"
    and keys: "set (map fst kvs)
      = {''assigned_hotkey'', ''assignment'', ''challenge_id'', ''satisfiable'', ''work_units''}"
    and vals: "dget kvs ''challenge_id'' = PStr cid" "dget kvs ''assigned_hotkey'' = PStr hk"
      "dget kvs ''satisfiable'' = PBool True" "dget kvs ''assignment'' = PList (map PInt asg)"
      "dget kvs ''work_units'' = u"
    and asg: "certifies i asg"
    using assms by (auto simp: replay_result_def ok_simps replay_assignment_ok_iff)
  note tree = strict_canonical_json_ok [OF doc]
  have "dumps (PDict kvs) = dumps (PDict (result_items hk asg cid u))"
    unfolding result_items_def using tree keys vals by (intro dumps_same_items) (simp_all del: dumps.simps set_map)
  with tree asg show ?thesis by auto
qed


section \<open>Sizes\<close>

lemma int_digits_3: "\<bar>l\<bar> \<le> 512 \<Longrightarrow> int_digits l \<le> 3"
  using show_nat_length_le [of "nat \<bar>l\<bar>" 2] by (simp add: int_digits_def nat_less_iff)

lemma text_bound_literals:
  assumes "\<forall>l \<in> set ls. \<bar>l\<bar> \<le> 512"
  shows "text_bound (PList (map PInt ls)) \<le> 2 + 5 * length ls"
proof -
  have "(\<Sum>l\<leftarrow>ls. int_digits l + 1 + 1) \<le> (\<Sum>l\<leftarrow>ls. 5)"
    using assms int_digits_3 by (intro sum_list_mono) fastforce
  then show ?thesis by (simp add: comp_def sum_list_triv)
qed

lemma text_bound_clauses:
  assumes "\<forall>c \<in> set cs. \<forall>l \<in> set c. \<bar>l\<bar> \<le> 512"
  shows "text_bound (clauses_pyval cs) \<le> 2 + 3 * length cs + 5 * sum_list (map length cs)"
  using assms
proof (induction cs)
  case (Cons c cs)
  then have "text_bound (clauses_pyval cs) \<le> 2 + 3 * length cs + 5 * sum_list (map length cs)" by simp
  moreover have "text_bound (PList (map PInt c)) \<le> 2 + 5 * length c"
    using Cons.prems by (intro text_bound_literals) simp
  ultimately show ?case by (simp add: clauses_pyval_def)
qed (simp add: clauses_pyval_def)

lemma valid_literals: "valid_instance i \<Longrightarrow> c \<in> set (clauses i) \<Longrightarrow> l \<in> set c \<Longrightarrow> \<bar>l\<bar> \<le> 512"
  by (fastforce simp: valid_instance_def list_all_iff MAX_N_VARS_def)

lemma plain_clauses: "plain_json (clauses_pyval cs)"
  by (simp add: clauses_pyval_def list_all_iff)

lemma seed_digits_19: "seed_ok s \<Longrightarrow> int_digits s \<le> 19"
  unfolding int_digits_def seed_ok_def MIN_SEED_def MAX_SEED_def
  by (rule show_nat_length_le [of _ 18, simplified]) (simp add: nat_less_iff abs_if)

section \<open>Written artifacts are read back\<close>

lemma sat_manifest_json:
  assumes "item_valid item"
  shows "is_json (sat_manifest item)"
  using assms valid_instance_digits [of "item_instance item"] seed_digits [of "item_seed item"]
  by (simp add: item_valid_def sat_manifest_def clauses_pyval_def list_all_iff)

lemma sat_manifest_length:
  assumes "item_valid item"
  shows "length (dumps (sat_manifest item)) \<le> MAX_WORK_ARTIFACT_BYTES"
proof -
  let ?i = "item_instance item"
  have i: "valid_instance ?i" "seed_ok (item_seed item)" "length (item_challenge_id item) = 64"
    using assms challenge_id_shape by (simp_all add: item_valid_def)
  then have "text_bound (clauses_pyval (clauses ?i)) \<le> 2 + 3 * length (clauses ?i) + 5 * sum_list (map length (clauses ?i))"
    using valid_literals by (intro text_bound_clauses) blast
  also have "\<dots> \<le> 2 + 3 * 8192 + 5 * 65536"
    using i(1) by (simp add: valid_instance_def MAX_CLAUSES_def MAX_LITERALS_def)
  finally have "text_bound (clauses_pyval (clauses ?i)) \<le> 352258" by simp
  moreover have "int_digits (n_vars ?i) \<le> 3"
    using i(1) by (intro int_digits_3) (simp add: valid_instance_def MAX_N_VARS_def)
  ultimately have "text_bound (sat_manifest item) \<le> 4194304"
    using i(3) seed_digits_19 [OF i(2)] by (simp add: sat_manifest_def)
  moreover have "plain_json (sat_manifest item)" by (simp add: sat_manifest_def plain_clauses)
  ultimately show ?thesis
    using dumps_text_bound [of "sat_manifest item"] by (simp add: MAX_WORK_ARTIFACT_BYTES_def)
qed

lemma floats_known_json: "is_json v \<Longrightarrow> floats_known v"
  by (induction v rule: pyval.induct) (auto simp: list_all_iff)

lemma replay_manifest:
  assumes "item_valid item"
  shows "replay_item (sat_manifest_bytes item) (item_challenge_id item) = Inr item"
proof -
  let ?kws = "[(''challenge_id'', PStr (item_challenge_id item)),
     (''instance'', PDict
       [(''clauses'', clauses_pyval (clauses (item_instance item))), (''n_vars'', PInt (n_vars (item_instance item)))]),
     (''schema'', PStr ''cathedral_sat_manifest_v1''), (''seed'', PInt (item_seed item))]"
  have c: "canon (sat_manifest item) = PDict ?kws" by (simp add: sat_manifest_def)
  have j: "is_json (sat_manifest item)" using assms by (rule sat_manifest_json)
  have "strict_canonical_json (sat_manifest_bytes item) ''work item'' = Inr ?kws"
    unfolding sat_manifest_bytes_def
    using parse_value_dumps [OF j] ascii_dumps [OF j] sat_manifest_length [OF assms] c
      floats_known_json [OF is_json_canon [OF j]] by (rule strict_canonical_json_accepts)
  moreover have "validate_sat_work_item (raw_item item) = Inr item"
    using assms by (simp add: validate_sat_work_item_ok_iff)
  moreover have "clauses (item_instance item) \<noteq> []"
    using assms by (simp add: item_valid_def valid_instance_def)
  ultimately show ?thesis
    by (simp add: replay_item_def WORK_ITEM_SCHEMA_def raw_item_def insert_commute)
qed


lemma whole_float_show: "k < 10 ^ 15 \<Longrightarrow> whole_float (show_nat k @ ''.0'')"
  using show_nat_length_le [of k 14] show_nat_digits [of k] show_nat_no_leading_zero [of k]
  by (auto simp: whole_float_def dec_digit_def)

lemma certified_literals: "certifies i asg \<Longrightarrow> l \<in> set asg \<Longrightarrow> 1 \<le> \<bar>l\<bar> \<and> \<bar>l\<bar> \<le> n_vars i"
  by (auto simp: certifies_def)

lemma result_items_short:
  assumes "valid_instance i" "certifies i asg" "length hk \<le> 512" "length cid = 64" "k < 10 ^ 15"
  shows "length (dumps (PDict (result_items hk asg cid (float_text k)))) \<le> 2 + 5 * 4000"
proof -
  have n: "n_vars i \<le> 512" "length asg \<le> 512" "length (show_nat k) \<le> 15"
    using assms(1,2) show_nat_length_le [of k 14] assms(5)
    by (auto simp: valid_instance_def certifies_def MAX_N_VARS_def)
  have "text_bound (PList (map PInt asg)) \<le> 2 + 5 * length asg"
    using certified_literals [OF assms(2)] n(1) by (intro text_bound_literals) fastforce
  moreover have "plain_json (PList (map PInt asg))" by (simp add: list_all_iff)
  ultimately have "length (dumps (PList (map PInt asg))) \<le> 2562"
    using dumps_text_bound [of "PList (map PInt asg)"] n(2) by linarith
  then have "\<forall>(k, v) \<in> set (result_items hk asg cid (float_text k)). length (json_member (k, dumps v)) + 1 \<le> 4000"
    using n(3) assms(3,4) length_json_string_le [of hk] length_json_string_le [of cid]
      length_json_string_le [of "''assigned_hotkey''"] length_json_string_le [of "''assignment''"]
      length_json_string_le [of "''challenge_id''"] length_json_string_le [of "''satisfiable''"]
      length_json_string_le [of "''work_units''"]
    by (simp add: result_items_def json_member_def float_text_def)
  then show ?thesis by (rule length_dumps_dict) (simp add: result_items_def)
qed

lemma result_items_length:
  assumes "valid_instance i" "certifies i asg" "length hk \<le> 512" "length cid = 64" "k < 10 ^ 15"
  shows "length (dumps (PDict (result_items hk asg cid (float_text k)))) \<le> MAX_WORK_ARTIFACT_BYTES"
  using result_items_short [OF assms] by (simp only: MAX_WORK_ARTIFACT_BYTES_def)

lemma result_items_values:
  assumes "valid_instance i" "certifies i asg" "(key, v) \<in> set (result_items hk asg cid (float_text k))"
  shows "reads_back True v" "has_head v" "list_all is_ascii (dumps v)" "json_encodable v"
proof -
  have "int_digits l \<le> max_str_digits" if "l \<in> set asg" for l
    using certified_literals [OF assms(2) that] assms(1)
    by (intro int_digits_small) (simp add: valid_instance_def MAX_N_VARS_def)
  then have j: "is_json (PList (map PInt asg))" and e: "json_encodable (PList (map PInt asg))"
    by (simp_all add: list_all_iff)
  obtain c cs where sh: "show_nat k = c # cs" by (cases "show_nat k") auto
  then have c: "is_digit c" by (rule show_nat_head)
  then have f: "reads_back True (float_text k)" "has_head (float_text k)" "json_encodable (float_text k)"
    using reads_back_whole_float [of k] by (auto simp: float_text_def has_head_def sh opens_value_def is_digit_def)
  have a: "list_all is_ascii (dumps (float_text k))"
    using ascii_show_nat [of k] by (simp add: float_text_def is_ascii_def)
  from assms(3) consider "is_json v" "json_encodable v" | "v = float_text k"
    using j e by (auto simp: result_items_def simp del: is_json.simps(5) json_encodable.simps(3))
  then show "reads_back True v" "has_head v" "list_all is_ascii (dumps v)" "json_encodable v"
    using f a by (cases; simp add: parse_value_dumps has_head_json ascii_dumps)+
qed

lemma replay_result_accepts:
  assumes "valid_instance i" "certifies i asg" "length hk \<le> 512" "length cid = 64" "k < 10 ^ 15"
  shows "replay_result i (encode_ascii (dumps (PDict (result_items hk asg cid (float_text k))))) cid hk
    = Inr (float_text k)"
proof -
  let ?d = "result_items hk asg cid (float_text k)"
  have c: "canon (PDict ?d) = PDict ?d" by (simp add: result_items_def float_text_def)
  have "floats_known (PDict ?d)"
    using whole_float_show [OF assms(5)] by (simp add: result_items_def float_text_def list_all_iff)
  moreover have "reads_back True (PDict ?d)"
    using result_items_values(1,2) [OF assms(1,2)] by (intro reads_back_dict) (auto simp: result_items_def)
  moreover have "list_all is_ascii (dumps (PDict ?d))"
    using result_items_values(3) [OF assms(1,2)] by (rule ascii_dumps_dict)
  ultimately have "strict_canonical_json (encode_ascii (dumps (PDict ?d))) ''work result'' = Inr ?d"
    using result_items_length [OF assms] c by (intro strict_canonical_json_accepts) (simp_all only: c)
  moreover have "replay_assignment i (PList (map PInt asg)) = Inr ()"
    using assms(2) by (auto simp: replay_assignment_ok_iff)
  ultimately show ?thesis
    by (simp add: replay_result_def result_items_def del: dumps.simps)
qed

lemma artifacts_replay:
  assumes "item_valid item" "certifies (item_instance item) asg" "length hk \<le> 512" "k < 10 ^ 15"
    and "decimal_is_nat units (derived_work_units g item)"
    and "rb = encode_ascii (dumps (PDict (result_items hk asg (item_challenge_id item) (float_text k))))"
  shows "verify_work_artifacts g (sat_manifest_bytes item) rb (sat_manifest_digest item) (sha256_label rb)
    (item_challenge_id item) hk units = Inr ()"
proof -
  have "valid_instance (item_instance item)" "length (item_challenge_id item) = 64"
    using assms(1) challenge_id_shape by (simp_all add: item_valid_def)
  note replay_result_accepts [OF this(1) assms(2,3) this(2) assms(4)]
  moreover have "is_number (float_text k)" by (simp add: float_text_def)
  ultimately show ?thesis
    using assms(5) by (simp add: verify_work_artifacts_def sat_manifest_digest_def replay_manifest [OF assms(1)]
        assms(6) del: dumps.simps)
qed

section \<open>Work the lane hands out\<close>

lemma lane_step_queue:
  assumes "\<forall>item \<in> set (queue l). item_valid item"
  shows "\<forall>item \<in> set (queue (lane_step g l op)). item_valid item"
proof (cases op)
  case (Enqueue raw)
  with assms show ?thesis
    by (auto simp: enqueue_def validate_sat_work_item_ok_iff split: sum.splits sat_error.splits)
next
  case (Dispatch m)
  with assms show ?thesis by (auto simp: dispatch_def issue_def Let_def split: list.splits)
next
  case (Verify item r)
  then show ?thesis
    using assms verify_state [of g l item r] by (cases "verify g l item r"; cases "fst (verify g l item r)") auto
qed

lemma lane_run_queue:
  "\<forall>item \<in> set (queue (lane_run g (SatLane_init ns rb) ops)). item_valid item"
proof (induction ops rule: rev_induct)
  case (snoc op ops)
  have "lane_run g (SatLane_init ns rb) (ops @ [op]) = lane_step g (lane_run g (SatLane_init ns rb) ops) op"
    by (simp add: lane_run_def)
  with lane_step_queue [OF snoc] show ?case by metis
qed (simp add: lane_run_def SatLane_init_def)

text \<open>A canonical item fits the request limit.\<close>

lemma canonical_item_valid:
  assumes g: "rng_ok g" and s: "seed_ok s"
  defines "i \<equiv> canonical_instance g s"
  shows "item_valid \<lparr>item_instance = i, item_seed = s, item_challenge_id = compute_challenge_id i s\<rparr>"
proof -
  let ?item = "\<lparr>item_instance = i, item_seed = s, item_challenge_id = compute_challenge_id i s\<rparr>"
  let ?d = "PDict
      [(''challenge_id'', PStr (compute_challenge_id i s)),
       (''assigned_hotkey'', PStr (replicate 256 (CHR ''x''))), (''seed'', PInt s),
       (''instance'', PDict [(''n_vars'', PInt (n_vars i)), (''clauses'', clauses_pyval (clauses i))])]"
  have v: "valid_instance i" and n: "length (clauses i) = 20" "n_vars i = 8"
    using canonical_instance_facts [OF g] by (simp_all add: i_def canonical_instance_def split: prod.splits)
  have "\<forall>c \<in> set (clauses i). length c = 3"
    using canonical_instance_clauses [OF g] by (simp add: i_def)
  then have "map length (clauses i) = replicate 20 3"
    using n(1) by (intro nth_equalityI) auto
  then have "sum_list (map length (clauses i)) = 60" by (simp add: sum_list_replicate)
  moreover have "text_bound (clauses_pyval (clauses i)) \<le> 2 + 3 * length (clauses i) + 5 * sum_list (map length (clauses i))"
    using valid_literals [OF v] by (intro text_bound_clauses) blast
  ultimately have "text_bound (clauses_pyval (clauses i)) \<le> 362" using n(1) by simp
  then have "text_bound ?d \<le> 4000"
    using challenge_id_shape [of i s] seed_digits_19 [OF s] int_digits_3 [of "n_vars i"] n(2) by simp
  moreover have "plain_json ?d" by (simp add: plain_clauses)
  ultimately have "length (dumps ?d) \<le> 4000" using dumps_text_bound [of ?d] by linarith
  moreover have "customer_work_bytes ?item = utf8 (dumps ?d)"
    by (simp only: customer_work_bytes_def SatWorkItem.simps)
  ultimately have "length (customer_work_bytes ?item) \<le> MAX_CUSTOMER_WORK_BYTES"
    using length_utf8_le [of "dumps ?d"] by (simp only: MAX_CUSTOMER_WORK_BYTES_def)
  then show ?thesis using v s by (simp add: item_valid_def)
qed

lemma dispatched_item_valid:
  assumes "rng_ok g" "\<forall>item \<in> set (queue l). item_valid item" "dispatch g l miner = (item, l')"
  shows "item_valid item"
  using assms canonical_item_valid [OF assms(1) derive_canonical_seed_ok]
  by (auto simp: dispatch_def Let_def split: list.splits)

lemma work_assurance_evidence:
  assumes "work_assurance now_text attested item (Some c) True = Inr claims" "sat_result_bytes item (Some c) = Some rb"
  shows "ac_evidence_digest (work claims) = Some (sha256_label rb)"
  using assms
  by (auto simp: work_assurance_def evaluated_claim_def AssuranceClaim_init_def ok_simps
      split: option.splits if_splits sum.splits)


text \<open>The text of the units a receipt carries, \<open>str(20.0)\<close>.\<close>

lemma decimal_of_units: "decimal_of_text (show_nat 20 @ ''.0'') = Some (DecFinite False ''200'' (- 1))"
  by code_simp

section \<open>Concrete artifacts\<close>

definition wx_result :: bytes where
  "wx_result = encode_ascii (dumps (PDict (result_items ''miner'' [1] (item_challenge_id ex_customer) (float_text 1))))"

lemma wx_replays:
  "verify_work_artifacts zero_rng (sat_manifest_bytes ex_customer) wx_result (sat_manifest_digest ex_customer)
     (sha256_label wx_result) (item_challenge_id ex_customer) ''miner'' (DecFinite False ''20'' 0) = Inr ()"
proof (rule artifacts_replay [of _ "[1]" _ 1])
  show "item_valid ex_customer" using ex_customer_valid by (simp add: validate_sat_work_item_ok_iff)
  show "certifies (item_instance ex_customer) [1]" by (simp add: ex_customer_def Let_def certifies_def)
  show "decimal_is_nat (DecFinite False ''20'' 0) (derived_work_units zero_rng ex_customer)"
    by (simp add: derived_work_units_20 [OF zero_rng_ok] read_nat_def digit_val_def)
qed (simp_all add: wx_result_def)

definition wx_certificate :: SatCertificate where
  "wx_certificate = ex_claim\<lparr>work_units := float_text 20\<rparr>"

lemma wx_credited:
  "\<exists>c' l''. verify zero_rng (snd (dispatch zero_rng ex_lane ''miner'')) ex_item (Some wx_certificate) = (Some c', l'')"
proof -
  let ?l = "snd (dispatch zero_rng ex_lane ''miner'')"
  have "\<exists>l'. verify zero_rng ?l ex_item (Some wx_certificate) = (Some wx_certificate, l')"
    unfolding verify_accepts_iff derived_work_units_20 [OF zero_rng_ok] wx_certificate_def
    using ex_certifies
    by (simp add: ex_claim_def dispatch_def ex_lane_def ex_item_def SatLane_init_def issue_def Let_def)
  then show ?thesis by blast
qed

lemma wx_assurance:
  "\<exists>claims. work_assurance (format_utc (ex_time 2)) (rq_attested rx_request) ex_item (Some wx_certificate) True = Inr claims"
proof -
  have "format_utc (ex_time 2) \<noteq> []" "claim_time (PStr (format_utc (ex_time 2))) = Inr (format_utc (ex_time 2))"
    using valid_utc_format [OF rx_utc(1)] by (auto simp: claim_time_def valid_utc_timestamp_def)
  then show ?thesis
    by (simp add: work_assurance_def rx_request_def rx_claims_def rx_claim_def Let_def evaluated_claim_def
        AssuranceClaim_init_def claim_when_def SAT_WORK_POLICY_DIGEST_def)
qed

section \<open>Properties\<close>

text \<open>
  C35. Work that replays is real.  When \<open>verify_work_artifacts\<close> accepts, the first artifact is
  exactly the manifest of a work item that meets the producer's contract, its challenge
  identifier is the hash of its own instance and seed, the second artifact is exactly the
  result of a certificate of the expected miner whose assignment satisfies every clause,
  both digests are the signed ones, and the signed units are the validator's own.
\<close>

theorem replayed_work_is_real:
  assumes "verify_work_artifacts g wb rb md rd cid hk units = Inr ()"
  shows "\<exists>item asg u.
      validate_sat_work_item (raw_item item) = Inr item
    \<and> wb = sat_manifest_bytes item \<and> md = sat_manifest_digest item
    \<and> cid = compute_challenge_id (item_instance item) (item_seed item)
    \<and> rb = encode_ascii (dumps (result_material item
        (Some \<lparr>satisfiable = True, assignment = Some asg, work_units = u, cert_challenge_id = cid, assigned_hotkey = hk\<rparr>)))
    \<and> rd = sha256_label rb
    \<and> cnf_holds (\<lambda>v. v \<in> set asg) (clauses (item_instance item))
    \<and> decimal_is_nat units (derived_work_units g item)"
proof -
  obtain item u where item: "replay_item wb cid = Inr item" "replay_result (item_instance item) rb cid hk = Inr u"
    and d: "md = sha256_label wb" "rd = sha256_label rb" "decimal_is_nat units (derived_work_units g item)"
    using assms by (auto simp: verify_work_artifacts_def ok_simps)
  note i = replay_item_ok [OF item(1)]
  obtain asg where asg: "certifies (item_instance item) asg"
    "rb = encode_ascii (dumps (PDict (result_items hk asg cid u)))"
    using replay_result_ok [OF item(2)] by blast
  have "validate_sat_work_item (raw_item item) = Inr item"
    using i(1) by (simp add: validate_sat_work_item_ok_iff)
  moreover have "cid = compute_challenge_id (item_instance item) (item_seed item)"
    using i(1,2) by (simp add: item_valid_def)
  ultimately show ?thesis
    using i asg d certifies_holds [OF asg(1)]
    by (intro exI [of _ item] exI [of _ asg] exI [of _ u])
      (simp add: result_material_items sat_manifest_digest_def del: dumps.simps)
qed

theorem replayed_work_is_real_witness:
  "\<exists>item asg. sat_manifest_bytes ex_customer = sat_manifest_bytes item
     \<and> validate_sat_work_item (raw_item item) = Inr item
     \<and> cnf_holds (\<lambda>v. v \<in> set asg) (clauses (item_instance item))"
  using replayed_work_is_real [OF wx_replays] by blast

text \<open>
  C36. Credited work replays.  An item that any run of the lane dispatched, once \<open>verify\<close>
  credits a certificate with the units the client fills in, has artifacts that
  \<open>verify_work_artifacts\<close> accepts under the digests the receipt signs: that of the manifest, and
  the evidence digest of the work claim, for the miner's hotkey and the derived units.
\<close>

theorem credited_work_replays:
  assumes "rng_ok g" "dispatch g (lane_run g (SatLane_init ns seed) ops) miner = (item, l)"
    and "verify g l' item (Some c) = (Some c', l'')"
    and "work_units c = float_text (length (clauses (item_instance item)))" "length (assigned_hotkey c) \<le> 512"
    and "work_assurance now_text attested item (Some c) True = Inr claims"
    and "decimal_of_text (show_nat (derived_work_units g item) @ ''.0'') = Some units"
  shows "\<exists>rb rd. sat_result_bytes item (Some c) = Some rb \<and> ac_evidence_digest (work claims) = Some rd
    \<and> verify_work_artifacts g (sat_manifest_bytes item) rb (sat_manifest_digest item) rd
        (item_challenge_id item) (assigned_hotkey c) units = Inr ()"
proof -
  let ?k = "length (clauses (item_instance item))"
  have valid: "item_valid item" using assms(1) lane_run_queue assms(2) by (rule dispatched_item_valid)
  then have inst: "valid_instance (item_instance item)" by (simp add: item_valid_def)
  then have k: "?k < 10 ^ 15" by (simp add: valid_instance_def MAX_CLAUSES_def)
  obtain asg where c: "satisfiable c" "assignment c = Some asg" and asg: "certifies (item_instance item) asg"
    using iffD1 [OF verify_accepts_iff exI, OF assms(3)] by blast
  let ?d = "PDict (result_items (assigned_hotkey c) asg (item_challenge_id item) (float_text ?k))"
  let ?rb = "encode_ascii (dumps ?d)"
  have "json_encodable ?d"
    using result_items_values(4) [OF inst asg] by (fastforce simp: list_all_iff)
  then have rb: "sat_result_bytes item (Some c) = Some ?rb"
    by (simp add: sat_result_bytes_def result_material_items [OF c] assms(4) del: dumps.simps json_encodable.simps)
  have "units = DecFinite False ''200'' (- 1)"
    using assms(7) unfolding derived_work_units_20 [OF assms(1)] decimal_of_units by simp
  then have "decimal_is_nat units (derived_work_units g item)"
    by (simp add: derived_work_units_20 [OF assms(1)] read_nat_def digit_val_def)
  from artifacts_replay [OF valid asg assms(5) k this refl]
  show ?thesis using rb work_assurance_evidence [OF assms(6) rb] by blast
qed

theorem credited_work_replays_witness:
  "\<exists>rb rd. sat_result_bytes ex_item (Some wx_certificate) = Some rb
     \<and> verify_work_artifacts zero_rng (sat_manifest_bytes ex_item) rb (sat_manifest_digest ex_item) rd
         (item_challenge_id ex_item) ''miner'' (DecFinite False ''200'' (- 1)) = Inr ()"
proof -
  obtain c' l'' where v: "verify zero_rng (snd (dispatch zero_rng ex_lane ''miner'')) ex_item (Some wx_certificate) = (Some c', l'')"
    using wx_credited by blast
  obtain claims where a: "work_assurance (format_utc (ex_time 2)) (rq_attested rx_request) ex_item (Some wx_certificate) True = Inr claims"
    using wx_assurance by blast
  have d: "dispatch zero_rng (lane_run zero_rng (SatLane_init (Some ''epoch'') []) []) ''miner''
      = (ex_item, snd (dispatch zero_rng ex_lane ''miner''))"
    by (simp add: lane_run_def ex_lane_def ex_item_def)
  have u: "work_units wx_certificate = float_text (length (clauses (item_instance ex_item)))"
    by (simp add: wx_certificate_def ex_item_instance)
  have t: "decimal_of_text (show_nat (derived_work_units zero_rng ex_item) @ ''.0'')
      = Some (DecFinite False ''200'' (- 1))"
    unfolding derived_work_units_20 [OF zero_rng_ok] by (rule decimal_of_units)
  have h: "assigned_hotkey wx_certificate = ''miner''" by (simp add: wx_certificate_def ex_claim_def)
  show ?thesis
    using credited_work_replays [OF zero_rng_ok d v u _ a t] by (auto simp: h)
qed

end
