(* ===== verification/Challenge.thy ===== *)
theory Challenge
  imports Provider_Canonical Py_Decimal
begin

text \<open>
  The challenge nonces of \<open>challenge.py\<close>: 32 bytes derived from finalized chain state, the
  audience, the epoch and the miner's hotkey.  The arguments are values whose types nothing
  has checked.
\<close>

definition CHALLENGE_DOMAIN :: bytes where
  "CHALLENGE_DOMAIN = encode_ascii ''cathedral-tdx-challenge-v2'' @ [0]"

text \<open>\<open>ChallengeIntDigits\<close>: \<open>json.dumps\<close> raises on an integer beyond the interpreter's digit limit.\<close>

datatype challenge_error = ChallengeError string | ChallengeIntDigits

definition removeprefix :: "string \<Rightarrow> string \<Rightarrow> string" where
  "removeprefix p s = (if starts_with p s then drop (length p) s else s)"

text \<open>\<open>^(0x)?[0-9a-f]{64}$\<close>\<close>

definition BLOCK_HASH_RE :: "string \<Rightarrow> bool" where
  "BLOCK_HASH_RE s \<longleftrightarrow> length (removeprefix ''0x'' s) = 64 \<and> list_all is_lower_hex (removeprefix ''0x'' s)"

fun normalize_block_hash :: "pyval \<Rightarrow> challenge_error + string" where
  "normalize_block_hash (PStr s) =
    (let text = lower_text (strip s) in
     if \<not> BLOCK_HASH_RE text then Inl (ChallengeError ''block hash must be a 32-byte hex value'')
     else Inr (removeprefix ''0x'' text))"
| "normalize_block_hash _ = Inl (ChallengeError ''block hash must be a string'')"

record challenge_anchor =
  ca_block :: pyval
  ca_block_hash :: pyval
  ca_network :: pyval
  ca_netuid :: pyval
  ca_source_epoch :: pyval
  ca_miner_hotkey :: pyval

fun nonnegative_int :: "pyval \<Rightarrow> bool" where
  "nonnegative_int (PInt i) = (0 \<le> i)"
| "nonnegative_int _ = False"

fun nonempty_str :: "pyval \<Rightarrow> bool" where
  "nonempty_str (PStr s) = (s \<noteq> [])"
| "nonempty_str _ = False"

definition anchor_document :: "challenge_anchor \<Rightarrow> string \<Rightarrow> pyval" where
  "anchor_document a block_hash = PDict
    [(''block'', ca_block a), (''block_hash'', PStr block_hash), (''miner_hotkey'', ca_miner_hotkey a),
     (''netuid'', ca_netuid a), (''network'', ca_network a), (''source_epoch'', ca_source_epoch a)]"

definition challenge_material :: "challenge_anchor \<Rightarrow> challenge_error + bytes" where
  "challenge_material a =
    rbind (checks
      [require (nonnegative_int (ca_block a)) (ChallengeError ''block height is invalid''),
       require (nonempty_str (ca_network a)) (ChallengeError ''network is invalid''),
       require (nonnegative_int (ca_netuid a)) (ChallengeError ''netuid is invalid''),
       require (nonnegative_int (ca_source_epoch a)) (ChallengeError ''source epoch is invalid''),
       require (nonempty_str (ca_miner_hotkey a)) (ChallengeError ''miner hotkey is invalid'')]) (\<lambda>_.
    rbind (normalize_block_hash (ca_block_hash a)) (\<lambda>h.
      if is_json (anchor_document a h) then Inr (encode_ascii (dumps (anchor_document a h)))
      else Inl ChallengeIntDigits))"

definition derive_challenge_nonce :: "challenge_anchor \<Rightarrow> challenge_error + bytes" where
  "derive_challenge_nonce a =
    rbind (challenge_material a) (\<lambda>material. Inr (sha256 (CHALLENGE_DOMAIN @ material)))"

definition expected_challenge_digest :: "challenge_anchor \<Rightarrow> challenge_error + string" where
  "expected_challenge_digest a =
    rbind (derive_challenge_nonce a) (\<lambda>nonce. Inr (sha256_label nonce))"

section \<open>What a nonce stands for\<close>

text \<open>The same slot: equal fields, the block hash up to its spelling.\<close>

definition same_anchor :: "challenge_anchor \<Rightarrow> challenge_anchor \<Rightarrow> bool" where
  "same_anchor a b \<longleftrightarrow> ca_block a = ca_block b
     \<and> normalize_block_hash (ca_block_hash a) = normalize_block_hash (ca_block_hash b)
     \<and> ca_network a = ca_network b \<and> ca_netuid a = ca_netuid b
     \<and> ca_source_epoch a = ca_source_epoch b \<and> ca_miner_hotkey a = ca_miner_hotkey b"

lemma checked_values_canon:
  "nonnegative_int v \<Longrightarrow> canon v = v" "nonempty_str v \<Longrightarrow> canon v = v"
  by (cases v; simp)+

lemma challenge_material_inject:
  assumes "challenge_material a = Inr m" "challenge_material b = Inr m"
  shows "same_anchor a b"
proof -
  have fields: "nonnegative_int (ca_block x)" "nonempty_str (ca_network x)" "nonnegative_int (ca_netuid x)"
    "nonnegative_int (ca_source_epoch x)" "nonempty_str (ca_miner_hotkey x)"
    "\<exists>h. normalize_block_hash (ca_block_hash x) = Inr h \<and> is_json (anchor_document x h)
       \<and> m = encode_ascii (dumps (anchor_document x h))"
    if "challenge_material x = Inr m" for x
    using that by (auto simp: challenge_material_def ok_simps split: if_splits)
  note fa = fields [OF assms(1)] and fb = fields [OF assms(2)]
  obtain h k where h: "normalize_block_hash (ca_block_hash a) = Inr h" "is_json (anchor_document a h)"
      "m = encode_ascii (dumps (anchor_document a h))"
    and k: "normalize_block_hash (ca_block_hash b) = Inr k" "is_json (anchor_document b k)"
      "m = encode_ascii (dumps (anchor_document b k))"
    using fa(6) fb(6) by blast
  have "dumps (anchor_document a h) = dumps (anchor_document b k)"
    using h(3) k(3) by (metis inj_encode_ascii)
  then have "canon (anchor_document a h) = canon (anchor_document b k)"
    using h(2) k(2) by (blast intro: dumps_inject)
  then show ?thesis
    using fa(1-5) fb(1-5) h(1) k(1) by (simp add: anchor_document_def same_anchor_def checked_values_canon)
qed

lemma nonce_length: "derive_challenge_nonce a = Inr n \<Longrightarrow> length n = 32"
  by (auto simp: derive_challenge_nonce_def ok_simps length_sha256)

text \<open>
  C37. An expected challenge digest stands for one slot: when two anchors have the same
  digest, they agree on block, block hash, network, netuid, epoch and hotkey, or their
  nonces, or the texts the nonces are derived from, are a SHA-256 collision.  So evidence
  for one epoch or miner never passes as evidence for another.
\<close>

theorem challenge_digest_binds_slot:
  assumes "expected_challenge_digest a = Inr d" "expected_challenge_digest b = Inr d"
  shows "same_anchor a b
    \<or> (\<exists>na nb. derive_challenge_nonce a = Inr na \<and> derive_challenge_nonce b = Inr nb \<and> sha256_collision na nb)
    \<or> (\<exists>ma mb. challenge_material a = Inr ma \<and> challenge_material b = Inr mb
         \<and> sha256_collision (CHALLENGE_DOMAIN @ ma) (CHALLENGE_DOMAIN @ mb))"
proof -
  obtain ma mb where m: "challenge_material a = Inr ma" "challenge_material b = Inr mb"
    and eq: "sha256_label (sha256 (CHALLENGE_DOMAIN @ ma)) = sha256_label (sha256 (CHALLENGE_DOMAIN @ mb))"
    using assms by (auto simp: expected_challenge_digest_def derive_challenge_nonce_def ok_simps dest: sym)
  have n: "derive_challenge_nonce a = Inr (sha256 (CHALLENGE_DOMAIN @ ma))"
    "derive_challenge_nonce b = Inr (sha256 (CHALLENGE_DOMAIN @ mb))"
    by (simp_all add: derive_challenge_nonce_def m)
  show ?thesis
  proof (cases "ma = mb")
    case True
    with m challenge_material_inject show ?thesis by blast
  next
    case False
    with sha256_label_inj [OF eq] n m show ?thesis by (auto simp: sha256_collision_def)
  qed
qed

definition ex_anchor :: "string \<Rightarrow> challenge_anchor" where
  "ex_anchor h = \<lparr>ca_block = PInt 7, ca_block_hash = PStr h, ca_network = PStr ''finney'', ca_netuid = PInt 39,
     ca_source_epoch = PInt 4, ca_miner_hotkey = PStr ''hot''\<rparr>"

lemma ex_anchor_hash:
  "normalize_block_hash (PStr (''0x'' @ replicate 64 (CHR ''A''))) = Inr (replicate 64 (CHR ''a''))"
  "normalize_block_hash (PStr (replicate 64 (CHR ''a''))) = Inr (replicate 64 (CHR ''a''))"
  by code_simp+

lemma ex_anchor_digest:
  assumes "normalize_block_hash (PStr h) = Inr k"
  shows "expected_challenge_digest (ex_anchor h)
    = Inr (sha256_label (sha256 (CHALLENGE_DOMAIN @ encode_ascii (dumps (anchor_document (ex_anchor []) k)))))"
  using assms by (simp add: expected_challenge_digest_def derive_challenge_nonce_def challenge_material_def ex_anchor_def
      anchor_document_def int_digits_def max_str_digits_def del: dumps.simps)

theorem challenge_digest_binds_slot_witness:
  "\<exists>d. expected_challenge_digest (ex_anchor (''0x'' @ replicate 64 (CHR ''A''))) = Inr d
     \<and> expected_challenge_digest (ex_anchor (replicate 64 (CHR ''a''))) = Inr d
     \<and> (same_anchor (ex_anchor (''0x'' @ replicate 64 (CHR ''A''))) (ex_anchor (replicate 64 (CHR ''a'')))
        \<or> (\<exists>x y. sha256_collision x y))"
  using challenge_digest_binds_slot [OF ex_anchor_digest [OF ex_anchor_hash(1)] ex_anchor_digest [OF ex_anchor_hash(2)]]
    ex_anchor_digest [OF ex_anchor_hash(1)] ex_anchor_digest [OF ex_anchor_hash(2)] by blast

end
