(* ===== verification/Admission.thy ===== *)
theory Admission
  imports Registry_Document Py_Decimal
begin

text \<open>
  The two signed artifacts at the enrollment door: the coldkey allowlist of
  \<open>coldkey_allowlist.py\<close> and the admission policy of \<open>admission_policy.py\<close>.  Both modules repeat
  the same steps over the parser of \<open>policy_registry.py\<close>; a step they share is one definition
  here, with the module's word (\<open>allowlist\<close>, \<open>policy\<close>) as an argument.

  The Ed25519 functions and the clock are arguments, a file is its text, \<open>None\<close> when it cannot be
  read.  The high-water file of the admission policy is a list of bytes that a process
  replaces in one step; where an operating-system call fails is an argument.
\<close>

section \<open>Errors and constants\<close>

text \<open>
  \<open>AdmissionPolicyError\<close> or \<open>ColdkeyAllowlistError\<close> with its message, an error of the shared
  parser, the \<open>TypeError\<close> of a membership test on an unhashable value, and the
  \<open>OverflowError\<close> of \<open>timedelta\<close>.
\<close>

datatype artifact_error =
    ArtifactError string
  | ArtifactParser registry_error
  | ArtifactTypeError
  | ArtifactOverflow

text \<open>What \<open>except ValueError\<close> catches.\<close>

fun is_value_error :: "artifact_error \<Rightarrow> bool" where
  "is_value_error (ArtifactError m) = True"
| "is_value_error (ArtifactParser e) = (e \<noteq> RegistryTypeError \<and> e \<noteq> RegistryOutsideModel)"
| "is_value_error ArtifactTypeError = False"
| "is_value_error ArtifactOverflow = False"

fun from_parser :: "registry_error + 'a \<Rightarrow> artifact_error + 'a" where
  "from_parser (Inl e) = Inl (ArtifactParser e)"
| "from_parser (Inr x) = Inr x"

definition ALLOWLIST_SCHEMA :: string where "ALLOWLIST_SCHEMA = ''cathedral_coldkey_allowlist_v1''"

definition MAX_ALLOWLIST_BYTES :: nat where "MAX_ALLOWLIST_BYTES = 1024 * 1024"

definition MAX_ALLOWLIST_COLDKEYS :: nat where "MAX_ALLOWLIST_COLDKEYS = 4096"

definition ALLOWLIST_TOP_LEVEL_KEYS :: "string list" where
  "ALLOWLIST_TOP_LEVEL_KEYS =
    [''schema'', ''release'', ''generated_at'', ''valid_from'', ''valid_until'', ''signing_key_id'', ''coldkeys'',
     ''signature'']"

definition ADMISSION_POLICY_SCHEMA :: string where
  "ADMISSION_POLICY_SCHEMA = ''cathedral_admission_policy_v1''"

definition MODE_SELECTED :: string where "MODE_SELECTED = ''selected''"

definition MODE_ALL_REGISTERED :: string where "MODE_ALL_REGISTERED = ''all_registered''"

definition ADMISSION_MODES :: "string list" where
  "ADMISSION_MODES = [MODE_SELECTED, MODE_ALL_REGISTERED]"

definition MAX_POLICY_BYTES :: nat where "MAX_POLICY_BYTES = 1024 * 1024"

definition MAX_POLICY_COLDKEYS :: nat where "MAX_POLICY_COLDKEYS = 4096"

definition MAX_REQUIRED_PROFILE_IDS :: nat where "MAX_REQUIRED_PROFILE_IDS = 32"

definition MAX_LAUNCH_CANDIDATES :: int where "MAX_LAUNCH_CANDIDATES = 4096"

definition MAX_CAP_VALUE :: int where "MAX_CAP_VALUE = MAX_LAUNCH_CANDIDATES"

definition MAX_NETUID :: int where "MAX_NETUID = 65535"

definition POLICY_TOP_LEVEL_KEYS :: "string list" where
  "POLICY_TOP_LEVEL_KEYS =
    [''schema'', ''mode'', ''coldkeys'', ''network'', ''netuid'', ''required_profile_ids'',
     ''max_enrolled_endpoints_per_coldkey'', ''max_admitted_workers_total'', ''config_version'', ''issued_at'',
     ''expires_at'', ''signing_key_id'', ''signature'']"

text \<open>\<open>^[1-9A-HJ-NP-Za-km-z]{32,128}$\<close>\<close>

definition SS58_RE :: "string \<Rightarrow> bool" where
  "SS58_RE s \<longleftrightarrow> 32 \<le> length s \<and> length s \<le> 128
     \<and> list_all (\<lambda>c. is_alnum c \<and> c \<notin> {CHR ''0'', CHR ''O'', CHR ''I'', CHR ''l''}) s"

definition PROFILE_ID_RE :: "string \<Rightarrow> bool" where
  "PROFILE_ID_RE s \<longleftrightarrow> s \<noteq> [] \<and> length s \<le> 128 \<and> is_alnum (hd s)
     \<and> list_all (\<lambda>c. is_alnum c \<or> c \<in> {CHR ''.'', CHR ''_'', CHR '':'', CHR ''-''}) (tl s)"

definition NETWORK_RE :: "string \<Rightarrow> bool" where
  "NETWORK_RE s \<longleftrightarrow> s \<noteq> [] \<and> length s \<le> 32 \<and> is_lower (hd s)
     \<and> list_all (\<lambda>c. is_lower c \<or> is_digit c \<or> c \<in> {CHR ''_'', CHR ''-''}) (tl s)"

section \<open>Steps both modules take\<close>

fun artifact_timestamp :: "pyval \<Rightarrow> string \<Rightarrow> artifact_error + datetime" where
  "artifact_timestamp (PStr s) name =
    (case parse_seconds s of
       Some d \<Rightarrow> Inr d
     | None \<Rightarrow> Inl (ArtifactError (name @ '' must be canonical UTC time'')))"
| "artifact_timestamp _ name = Inl (ArtifactError (name @ '' must be canonical UTC time''))"

fun artifact_release :: "pyval \<Rightarrow> string \<Rightarrow> artifact_error + int" where
  "artifact_release (PInt n) name =
    (if 0 < n \<and> n \<le> MAX_SQLITE_INTEGER then Inr n
     else Inl (ArtifactError (name @ '' must be a bounded positive integer'')))"
| "artifact_release _ name = Inl (ArtifactError (name @ '' must be a bounded positive integer''))"

definition artifact_signer ::
  "string \<Rightarrow> (string \<rightharpoonup> bytes) \<Rightarrow> pyval \<Rightarrow> artifact_error + (string \<times> bytes)" where
  "artifact_signer label trusted_keys v =
    (case v of
       PStr kid \<Rightarrow>
         if \<not> REGISTRY_ID_RE kid then Inl (ArtifactError (label @ '' signing key id is invalid''))
         else (case trusted_keys kid of
                 Some key \<Rightarrow> if length key = 32 then Inr (kid, key)
                             else Inl (ArtifactError (label @ '' signing key is not trusted''))
               | None \<Rightarrow> Inl (ArtifactError (label @ '' signing key is not trusted'')))
     | _ \<Rightarrow> Inl (ArtifactError (label @ '' signing key id is invalid'')))"

text \<open>The signature bytes: a dictionary with two keys, the algorithm, canonical base64.\<close>

definition artifact_signature :: "string \<Rightarrow> pyval \<Rightarrow> artifact_error + bytes" where
  "artifact_signature label v =
    (case v of
       PDict sig \<Rightarrow>
         if \<not> same_keys sig SIGNATURE_KEYS then Inl (ArtifactError (label @ '' signature object is invalid''))
         else if dget sig ''algorithm'' \<noteq> PStr ''ed25519''
           then Inl (ArtifactError (label @ '' signature algorithm is unsupported''))
         else (case dget sig ''value_base64'' of
             PStr s \<Rightarrow>
               (case b64decode s of
                  None \<Rightarrow> Inl (ArtifactError (label @ '' signature is not canonical base64''))
                | Some bs \<Rightarrow>
                    if length bs \<noteq> 64 \<or> b64encode bs \<noteq> s
                    then Inl (ArtifactError (label @ '' signature must be 64 bytes'')) else Inr bs)
           | _ \<Rightarrow> Inl (ArtifactError (label @ '' signature is not canonical base64'')))
     | _ \<Rightarrow> Inl (ArtifactError (label @ '' signature object is invalid'')))"

fun string_items :: "pyval \<Rightarrow> string list option" where
  "string_items (PList []) = Some []"
| "string_items (PList (PStr s # vs)) = map_option ((#) s) (string_items (PList vs))"
| "string_items _ = None"

text \<open>A bounded list of distinct strings of one shape.\<close>

definition checked_strings ::
  "(string \<Rightarrow> bool) \<Rightarrow> nat \<Rightarrow> bool \<Rightarrow> artifact_error \<Rightarrow> artifact_error \<Rightarrow> artifact_error \<Rightarrow> pyval
    \<Rightarrow> artifact_error + string list" where
  "checked_strings shape maximum allow_empty unbounded malformed duplicates v =
    (case v of
       PList vs \<Rightarrow>
         if length vs > maximum \<or> (\<not> allow_empty \<and> vs = []) then Inl unbounded
         else (case string_items v of
             None \<Rightarrow> Inl malformed
           | Some ss \<Rightarrow>
               if \<not> list_all shape ss then Inl malformed
               else if \<not> distinct ss then Inl duplicates
               else Inr ss)
     | _ \<Rightarrow> Inl unbounded)"

definition coldkey_list :: "string \<Rightarrow> nat \<Rightarrow> pyval \<Rightarrow> artifact_error + string list" where
  "coldkey_list label maximum = checked_strings SS58_RE maximum True
    (ArtifactError (label @ '' coldkeys must be a bounded list''))
    (ArtifactError (label @ '' coldkeys must be ss58-like strings''))
    (ArtifactError (label @ '' coldkeys cannot contain duplicates''))"

text \<open>
  The freshness rules at the check time.  \<open>check_time + timedelta(minutes=5)\<close> overflows in
  the last minutes of the year 9999, \<open>timedelta(seconds=n)\<close> from 1000000000 days on.
\<close>

definition DATETIME_MAX :: datetime where
  "DATETIME_MAX = Datetime 9999 12 31 23 59 59 999999 (Some 0)"

definition freshness ::
  "string \<Rightarrow> string \<Rightarrow> datetime \<Rightarrow> datetime \<Rightarrow> datetime \<Rightarrow> datetime \<Rightarrow> int \<Rightarrow> artifact_error + unit" where
  "freshness label published_name valid_from valid_until published check_time max_age = checks
    [require (is_utc check_time) (ArtifactError (label @ '' verification time must be UTC'')),
     require (dt_le valid_from check_time \<and> dt_less check_time valid_until)
       (ArtifactError (label @ '' is outside its validity window'')),
     require (dt_micros check_time + 300 * 1000000 \<le> dt_micros DATETIME_MAX) ArtifactOverflow,
     require (dt_micros published \<le> dt_micros check_time + 300 * 1000000)
       (ArtifactError (label @ published_name @ '' time is in the future'')),
     require (0 < max_age) (ArtifactError (label @ '' maximum age must be positive'')),
     require (max_age < 86400 * 1000000000) ArtifactOverflow,
     require (dt_micros check_time - dt_micros published \<le> max_age * 1000000)
       (ArtifactError (label @ '' is too stale for admission''))]"

definition sign_artifact ::
  "string \<Rightarrow> (bytes \<Rightarrow> bytes \<Rightarrow> bytes) \<Rightarrow> (string \<times> pyval) list \<Rightarrow> bytes \<Rightarrow> artifact_error + (string \<times> pyval) list" where
  "sign_artifact label ed25519_sign unsigned_document private_key =
    (if ''signature'' \<in> set (map fst unsigned_document)
     then Inl (ArtifactError (''unsigned '' @ label @ '' must not contain signature''))
     else if length private_key \<noteq> 32
       then Inl (ArtifactError ''Ed25519 private key seed must be 32 bytes'')
     else rbind (from_parser (canonical_json (PDict unsigned_document))) (\<lambda>message.
       Inr (unsigned_document @ [(''signature'', PDict
         [(''algorithm'', PStr ''ed25519''),
          (''value_base64'', PStr (b64encode (ed25519_sign private_key message)))])])))"

text \<open>One entry of a key file.\<close>

fun key_entry :: "string \<times> pyval \<Rightarrow> (string \<times> bytes) option" where
  "key_entry (kid, PStr encoded_key) =
    (if kid = [] then None
     else case b64decode encoded_key of
         Some key \<Rightarrow> if length key = 32 then Some (kid, key) else None
       | None \<Rightarrow> None)"
| "key_entry _ = None"

definition load_keys ::
  "string \<Rightarrow> nat \<Rightarrow> string option \<Rightarrow> bool \<Rightarrow> string option \<Rightarrow> artifact_error + (string \<times> bytes) list" where
  "load_keys label maximum file production_mode pinned =
    (case file of
       None \<Rightarrow> Inl (ArtifactError (''unable to load '' @ label @ '' key file''))
     | Some text \<Rightarrow>
         rbind (checks
           [require (length (utf8 text) \<le> maximum)
              (ArtifactError (label @ '' key file exceeds the maximum encoded size'')),
            require (\<not> (production_mode \<and> pinned = None))
              (ArtifactError (''production '' @ label @ '' keys require a pinned digest'')),
            require (case pinned of Some d \<Rightarrow> DIGEST_RE d | None \<Rightarrow> True)
              (ArtifactError (label @ '' key digest is invalid'')),
            require (case pinned of Some d \<Rightarrow> sha256_label (utf8 text) = d | None \<Rightarrow> True)
              (ArtifactError (label @ '' key digest does not match''))]) (\<lambda>_.
         rbind (from_parser (parse_registry_json text)) (\<lambda>raw.
         case all_some (map key_entry raw) of
           None \<Rightarrow> Inl (ArtifactError (label @ '' keys must be 32-byte base64 values''))
         | Some keys \<Rightarrow>
             if keys = [] then Inl (ArtifactError (label @ '' key file cannot be empty'')) else Inr keys)))"

section \<open>The coldkey allowlist\<close>

record ColdkeyAllowlistSnapshot =
  al_release :: int
  al_generated_at :: datetime
  al_valid_from :: datetime
  al_valid_until :: datetime
  al_signing_key_id :: string
  al_digest :: string
  al_coldkeys :: "string set"

definition verify_allowlist ::
  "(bytes \<Rightarrow> bytes \<Rightarrow> bytes \<Rightarrow> bool) \<Rightarrow> (string \<rightharpoonup> bytes) \<Rightarrow> datetime \<Rightarrow> int \<Rightarrow> string
    \<Rightarrow> artifact_error + ColdkeyAllowlistSnapshot" where
  "verify_allowlist ed25519 trusted_keys check_time max_age text =
    rbind (from_parser (parse_registry_json text)) (\<lambda>document.
    rbind (checks
      [require (same_keys document ALLOWLIST_TOP_LEVEL_KEYS)
         (ArtifactError ''allowlist contains missing or unknown critical fields''),
       require (dget document ''schema'' = PStr ALLOWLIST_SCHEMA)
         (ArtifactError ''allowlist schema is unsupported'')]) (\<lambda>_.
    rbind (artifact_release (dget document ''release'') ''allowlist release'') (\<lambda>release.
    rbind (artifact_signer ''allowlist'' trusted_keys (dget document ''signing_key_id'')) (\<lambda>(kid, key).
    rbind (artifact_signature ''allowlist'' (dget document ''signature'')) (\<lambda>signature_bytes.
    rbind (from_parser (canonical_signed_bytes document)) (\<lambda>signed_bytes.
    rbind (require (ed25519 key signature_bytes signed_bytes)
             (ArtifactError ''allowlist signature verification failed'')) (\<lambda>_.
    rbind (artifact_timestamp (dget document ''generated_at'') ''allowlist generated_at'') (\<lambda>generated.
    rbind (artifact_timestamp (dget document ''valid_from'') ''allowlist valid_from'') (\<lambda>valid_from.
    rbind (artifact_timestamp (dget document ''valid_until'') ''allowlist valid_until'') (\<lambda>valid_until.
    rbind (checks
      [require (dt_less valid_from valid_until) (ArtifactError ''allowlist validity window is invalid''),
       require (dt_less generated valid_until)
         (ArtifactError ''allowlist publication time must precede expiry''),
       freshness ''allowlist'' '' generation'' valid_from valid_until generated check_time max_age]) (\<lambda>_.
    rbind (coldkey_list ''allowlist'' MAX_ALLOWLIST_COLDKEYS (dget document ''coldkeys'')) (\<lambda>coldkeys.
    rbind (from_parser (canonical_json (PDict document))) (\<lambda>canonical.
      Inr \<lparr>al_release = release, al_generated_at = generated, al_valid_from = valid_from,
           al_valid_until = valid_until, al_signing_key_id = kid, al_digest = sha256_label canonical,
           al_coldkeys = set coldkeys\<rparr>)))))))))))))"

definition sign_allowlist ::
  "(bytes \<Rightarrow> bytes \<Rightarrow> bytes) \<Rightarrow> (string \<times> pyval) list \<Rightarrow> bytes \<Rightarrow> artifact_error + (string \<times> pyval) list" where
  "sign_allowlist = sign_artifact ''allowlist''"

definition load_allowlist_keys ::
  "string option \<Rightarrow> bool \<Rightarrow> string option \<Rightarrow> artifact_error + (string \<times> bytes) list" where
  "load_allowlist_keys = load_keys ''allowlist'' MAX_ALLOWLIST_BYTES"

text \<open>What one call of \<open>load\<close> does: a snapshot, \<open>None\<close>, or an exception that is not a \<open>ValueError\<close>.\<close>

datatype 's load_result = Loaded 's | Refused | Raised artifact_error

fun loaded :: "'s load_result \<Rightarrow> 's option" where
  "loaded (Loaded s) = Some s"
| "loaded _ = None"

record allowlist_provider =
  alp_trusted_keys :: "string \<rightharpoonup> bytes"
  alp_max_age_seconds :: int
  alp_pinned_digest :: "string option"

definition allowlist_provider_init ::
  "(string \<times> bytes) list \<Rightarrow> int \<Rightarrow> string option \<Rightarrow> artifact_error + (allowlist_provider \<times> int)" where
  "allowlist_provider_init trusted_keys max_age pinned =
    rbind (checks
      [require (0 < max_age) (ArtifactError ''max_age_seconds must be a positive integer''),
       require (case pinned of Some d \<Rightarrow> DIGEST_RE d | None \<Rightarrow> True)
         (ArtifactError ''pinned allowlist digest is invalid'')]) (\<lambda>_.
      Inr (\<lparr>alp_trusted_keys = map_of trusted_keys, alp_max_age_seconds = max_age, alp_pinned_digest = pinned\<rparr>, 0))"

text \<open>\<open>highest\<close> is \<open>_highest_release\<close>; the comparison and the update are one critical section.\<close>

definition allowlist_load ::
  "(bytes \<Rightarrow> bytes \<Rightarrow> bytes \<Rightarrow> bool) \<Rightarrow> allowlist_provider \<Rightarrow> datetime \<times> string option \<Rightarrow> int
    \<Rightarrow> ColdkeyAllowlistSnapshot load_result \<times> int" where
  "allowlist_load ed25519 p env highest =
    (case env of (clock, file) \<Rightarrow>
     (case file of
        None \<Rightarrow> (Refused, highest)
      | Some text \<Rightarrow>
          if length (utf8 text) > MAX_ALLOWLIST_BYTES then (Refused, highest)
          else (case verify_allowlist ed25519 (alp_trusted_keys p) clock (alp_max_age_seconds p) text of
              Inl e \<Rightarrow> (if is_value_error e then Refused else Raised e, highest)
            | Inr s \<Rightarrow>
                if alp_pinned_digest p \<noteq> None \<and> alp_pinned_digest p \<noteq> Some (al_digest s) then (Refused, highest)
                else if al_release s < highest then (Refused, highest)
                else (Loaded s, al_release s))))"

definition is_allowed ::
  "(bytes \<Rightarrow> bytes \<Rightarrow> bytes \<Rightarrow> bool) \<Rightarrow> allowlist_provider \<Rightarrow> datetime \<times> string option \<Rightarrow> int \<Rightarrow> string
    \<Rightarrow> bool load_result \<times> int" where
  "is_allowed ed25519 p env highest coldkey =
    (case allowlist_load ed25519 p env highest of
       (Loaded s, h) \<Rightarrow> (Loaded (coldkey \<in> al_coldkeys s), h)
     | (Refused, h) \<Rightarrow> (Refused, h)
     | (Raised e, h) \<Rightarrow> (Raised e, h))"

section \<open>The admission policy\<close>

record AdmissionPolicySnapshot =
  config_version :: int
  ad_mode :: string
  ad_coldkeys :: "string set"
  ad_network :: string
  ad_netuid :: int
  required_profile_ids :: "string list"
  max_enrolled_endpoints_per_coldkey :: int
  max_admitted_workers_total :: int
  ad_issued_at :: datetime
  ad_expires_at :: datetime
  ad_signing_key_id :: string
  ad_digest :: string

definition admits_coldkey :: "AdmissionPolicySnapshot \<Rightarrow> string \<Rightarrow> bool" where
  "admits_coldkey s coldkey = (ad_mode s = MODE_ALL_REGISTERED \<or> coldkey \<in> ad_coldkeys s)"

definition admits_profile :: "AdmissionPolicySnapshot \<Rightarrow> string \<Rightarrow> bool" where
  "admits_profile s profile = (profile \<in> set (required_profile_ids s))"

fun bounded_cap :: "pyval \<Rightarrow> string \<Rightarrow> artifact_error + int" where
  "bounded_cap (PInt n) name =
    (if 0 < n \<and> n \<le> MAX_CAP_VALUE then Inr n
     else Inl (ArtifactError (name @ '' must be between 1 and 4096'')))"
| "bounded_cap _ name = Inl (ArtifactError (name @ '' must be an integer''))"

definition netuid_ok :: "int \<Rightarrow> bool" where
  "netuid_ok n \<longleftrightarrow> 0 \<le> n \<and> n \<le> MAX_NETUID"

fun policy_network :: "pyval \<Rightarrow> artifact_error + string" where
  "policy_network (PStr s) =
    (if NETWORK_RE s then Inr s else Inl (ArtifactError ''policy network is invalid''))"
| "policy_network _ = Inl (ArtifactError ''policy network is invalid'')"

fun policy_netuid :: "pyval \<Rightarrow> artifact_error + int" where
  "policy_netuid (PInt n) = (if netuid_ok n then Inr n else Inl (ArtifactError ''policy netuid is invalid''))"
| "policy_netuid _ = Inl (ArtifactError ''policy netuid is invalid'')"

fun policy_mode_of :: "pyval \<Rightarrow> artifact_error + string" where
  "policy_mode_of (PStr s) =
    (if s \<in> set ADMISSION_MODES then Inr s else Inl (ArtifactError ''policy mode is unsupported''))"
| "policy_mode_of (PList vs) = Inl ArtifactTypeError"
| "policy_mode_of (PDict kvs) = Inl ArtifactTypeError"
| "policy_mode_of _ = Inl (ArtifactError ''policy mode is unsupported'')"

text \<open>The signature step: \<open>except (InvalidSignature, ValueError)\<close> covers the canonical bytes too.\<close>

definition policy_signature_ok ::
  "(bytes \<Rightarrow> bytes \<Rightarrow> bytes \<Rightarrow> bool) \<Rightarrow> bytes \<Rightarrow> bytes \<Rightarrow> (string \<times> pyval) list \<Rightarrow> bool" where
  "policy_signature_ok ed25519 key signature_bytes document =
    (case canonical_signed_bytes document of Inr signed_bytes \<Rightarrow> ed25519 key signature_bytes signed_bytes
     | Inl e \<Rightarrow> False)"

definition verify_admission_policy ::
  "(bytes \<Rightarrow> bytes \<Rightarrow> bytes \<Rightarrow> bool) \<Rightarrow> (string \<rightharpoonup> bytes) \<Rightarrow> string \<Rightarrow> int \<Rightarrow> datetime \<Rightarrow> int \<Rightarrow> string
    \<Rightarrow> artifact_error + AdmissionPolicySnapshot" where
  "verify_admission_policy ed25519 trusted_keys network netuid check_time max_age text =
    rbind (checks
      [require (NETWORK_RE network) (ArtifactError ''expected network is invalid''),
       require (netuid_ok netuid) (ArtifactError ''expected netuid is invalid'')]) (\<lambda>_.
    rbind (from_parser (parse_registry_json text)) (\<lambda>document.
    rbind (checks
      [require (same_keys document POLICY_TOP_LEVEL_KEYS)
         (ArtifactError ''policy contains missing or unknown critical fields''),
       require (dget document ''schema'' = PStr ADMISSION_POLICY_SCHEMA)
         (ArtifactError ''policy schema is unsupported'')]) (\<lambda>_.
    rbind (artifact_release (dget document ''config_version'') ''policy config_version'') (\<lambda>version.
    rbind (artifact_signer ''policy'' trusted_keys (dget document ''signing_key_id'')) (\<lambda>(kid, key).
    rbind (artifact_signature ''policy'' (dget document ''signature'')) (\<lambda>signature_bytes.
    rbind (require (policy_signature_ok ed25519 key signature_bytes document)
             (ArtifactError ''policy signature verification failed'')) (\<lambda>_.
    rbind (policy_network (dget document ''network'')) (\<lambda>pnetwork.
    rbind (policy_netuid (dget document ''netuid'')) (\<lambda>pnetuid.
    rbind (require (pnetwork = network \<and> pnetuid = netuid)
             (ArtifactError ''policy is bound to a different network or netuid than this service'')) (\<lambda>_.
    rbind (policy_mode_of (dget document ''mode'')) (\<lambda>mode.
    rbind (coldkey_list ''policy'' MAX_POLICY_COLDKEYS (dget document ''coldkeys'')) (\<lambda>coldkeys.
    rbind (require (\<not> (mode = MODE_ALL_REGISTERED \<and> coldkeys \<noteq> []))
             (ArtifactError ''open mode must carry an empty coldkey list; a populated list would read as a gate that this mode does not apply'')) (\<lambda>_.
    rbind (checked_strings PROFILE_ID_RE MAX_REQUIRED_PROFILE_IDS False
             (ArtifactError ''policy required_profile_ids must be a bounded non-empty list'')
             (ArtifactError ''policy required_profile_ids must be identifiers'')
             (ArtifactError ''policy required_profile_ids cannot contain duplicates'')
             (dget document ''required_profile_ids'')) (\<lambda>profiles.
    rbind (bounded_cap (dget document ''max_enrolled_endpoints_per_coldkey'')
             ''max_enrolled_endpoints_per_coldkey'') (\<lambda>per_coldkey.
    rbind (bounded_cap (dget document ''max_admitted_workers_total'') ''max_admitted_workers_total'') (\<lambda>total.
    rbind (artifact_timestamp (dget document ''issued_at'') ''policy issued_at'') (\<lambda>issued_at.
    rbind (artifact_timestamp (dget document ''expires_at'') ''policy expires_at'') (\<lambda>expires_at.
    rbind (checks
      [require (dt_less issued_at expires_at) (ArtifactError ''policy validity window is invalid''),
       freshness ''policy'' '' issue'' issued_at expires_at issued_at check_time max_age]) (\<lambda>_.
    rbind (from_parser (canonical_json (PDict document))) (\<lambda>canonical.
      Inr \<lparr>config_version = version, ad_mode = mode, ad_coldkeys = set coldkeys, ad_network = pnetwork,
           ad_netuid = pnetuid, required_profile_ids = profiles,
           max_enrolled_endpoints_per_coldkey = per_coldkey, max_admitted_workers_total = total,
           ad_issued_at = issued_at, ad_expires_at = expires_at, ad_signing_key_id = kid,
           ad_digest = sha256_label canonical\<rparr>))))))))))))))))))))"

definition sign_admission_policy ::
  "(bytes \<Rightarrow> bytes \<Rightarrow> bytes) \<Rightarrow> (string \<times> pyval) list \<Rightarrow> bytes \<Rightarrow> artifact_error + (string \<times> pyval) list" where
  "sign_admission_policy = sign_artifact ''policy''"

definition load_policy_keys ::
  "string option \<Rightarrow> bool \<Rightarrow> string option \<Rightarrow> artifact_error + (string \<times> bytes) list" where
  "load_policy_keys = load_keys ''admission policy'' MAX_POLICY_BYTES"

section \<open>The provider and its high-water mark\<close>

text \<open>\<open>adp_durable\<close>: a state path is given.\<close>

record admission_provider =
  adp_trusted_keys :: "string \<rightharpoonup> bytes"
  adp_network :: string
  adp_netuid :: int
  adp_max_age_seconds :: int
  adp_pinned_digest :: "string option"
  adp_durable :: bool

datatype file_read = FileMissing | FileError | FileBytes bytes

definition load_high_water :: "bool \<Rightarrow> file_read \<Rightarrow> int" where
  "load_high_water durable r =
    (if \<not> durable then 0
     else case r of
         FileMissing \<Rightarrow> 0
       | FileError \<Rightarrow> MAX_SQLITE_INTEGER
       | FileBytes bs \<Rightarrow>
           (case decode_ascii (take 64 bs) of
              None \<Rightarrow> MAX_SQLITE_INTEGER
            | Some t \<Rightarrow>
                (let raw = strip t in
                 if raw = [] \<or> \<not> list_all is_digit raw then MAX_SQLITE_INTEGER else int (read_nat raw))))"

definition admission_provider_init ::
  "(string \<times> bytes) list \<Rightarrow> string \<Rightarrow> int \<Rightarrow> int \<Rightarrow> string option \<Rightarrow> bool \<Rightarrow> file_read
    \<Rightarrow> artifact_error + (admission_provider \<times> int)" where
  "admission_provider_init trusted_keys network netuid max_age pinned durable r =
    rbind (checks
      [require (0 < max_age) (ArtifactError ''max_age_seconds must be a positive integer''),
       require (case pinned of Some d \<Rightarrow> DIGEST_RE d | None \<Rightarrow> True)
         (ArtifactError ''pinned admission policy digest is invalid''),
       require (NETWORK_RE network) (ArtifactError ''network must be a bounded lowercase identifier''),
       require (netuid_ok netuid) (ArtifactError ''netuid must be an integer within the subnet range'')]) (\<lambda>_.
      Inr (\<lparr>adp_trusted_keys = map_of trusted_keys, adp_network = network, adp_netuid = netuid,
            adp_max_age_seconds = max_age, adp_pinned_digest = pinned, adp_durable = durable\<rparr>,
           load_high_water durable r))"

text \<open>
  \<open>_persist_high_water\<close> writes a scratch file, renames it over the state file and syncs the
  directory.  An \<open>OSError\<close> before the rename leaves the state file as it was; one after it leaves
  the new contents, and the call still reports failure.
\<close>

datatype persist_outcome = PersistDone | FailsBeforeRename | FailsAfterRename

definition high_water_bytes :: "int \<Rightarrow> bytes" where
  "high_water_bytes version = encode_ascii (show_int version)"

definition persist_high_water ::
  "bool \<Rightarrow> persist_outcome \<Rightarrow> int \<Rightarrow> bytes option \<Rightarrow> bool \<times> bytes option" where
  "persist_high_water durable outcome version file =
    (if \<not> durable then (True, file)
     else case outcome of
         PersistDone \<Rightarrow> (True, Some (high_water_bytes version))
       | FailsBeforeRename \<Rightarrow> (False, file)
       | FailsAfterRename \<Rightarrow> (False, Some (high_water_bytes version)))"

text \<open>The part of \<open>load\<close> before the lock: a verified snapshot that meets the pin.\<close>

definition read_policy ::
  "(bytes \<Rightarrow> bytes \<Rightarrow> bytes \<Rightarrow> bool) \<Rightarrow> admission_provider \<Rightarrow> datetime \<Rightarrow> string option
    \<Rightarrow> AdmissionPolicySnapshot load_result" where
  "read_policy ed25519 p clock file =
    (case file of
       None \<Rightarrow> Refused
     | Some text \<Rightarrow>
         if length (utf8 text) > MAX_POLICY_BYTES then Refused
         else (case verify_admission_policy ed25519 (adp_trusted_keys p) (adp_network p) (adp_netuid p) clock
                      (adp_max_age_seconds p) text of
             Inl e \<Rightarrow> if is_value_error e then Refused else Raised e
           | Inr s \<Rightarrow>
               if adp_pinned_digest p \<noteq> None \<and> adp_pinned_digest p \<noteq> Some (ad_digest s) then Refused
               else Loaded s))"

text \<open>\<open>load\<close>: the mark of the process, the contents of the state file, and the result.\<close>

definition admission_load ::
  "(bytes \<Rightarrow> bytes \<Rightarrow> bytes \<Rightarrow> bool) \<Rightarrow> admission_provider \<Rightarrow> datetime \<times> string option \<times> persist_outcome
    \<Rightarrow> int \<times> bytes option \<Rightarrow> AdmissionPolicySnapshot load_result \<times> (int \<times> bytes option)" where
  "admission_load ed25519 p env st =
    (case (env, st) of ((clock, file, outcome), (highest, state_file)) \<Rightarrow>
     (case read_policy ed25519 p clock file of
        Loaded s \<Rightarrow>
          if config_version s < highest then (Refused, (highest, state_file))
          else if config_version s > highest then
            (case persist_high_water (adp_durable p) outcome (config_version s) state_file of
               (True, f) \<Rightarrow> (Loaded s, (config_version s, f))
             | (False, f) \<Rightarrow> (Refused, (highest, f)))
          else (Loaded s, (highest, state_file))
      | other \<Rightarrow> (other, (highest, state_file))))"

end
