(* ===== verification/Admission_Properties.thy ===== *)
theory Admission_Properties
  imports Admission Registry_Fixtures
begin

text \<open>
  The properties of the admission artifacts: what a verified policy promises, and the rollback
  guard, first as the interface both providers implement, then for the admission policy across
  restarts, crashes and failing writes.
\<close>

section \<open>Verified artifacts\<close>

lemma from_parser_ok [ok_simps]: "from_parser m = Inr x \<longleftrightarrow> m = Inr x"
  by (cases m) auto

lemma artifact_signature_iff:
  "(\<exists>sb. artifact_signature label (dget document ''signature'') = Inr sb
      \<and> policy_signature_ok ed25519 key sb document) \<longleftrightarrow> check_signature ed25519 key document = Inr ()"
proof (cases "dget document ''signature''")
  case (PDict sig)
  show ?thesis
    unfolding artifact_signature_def check_signature_def PDict pyval.case policy_signature_ok_def
      exact_base64_def canonical_signed_bytes_def canonical_json_def
    by (cases "dget sig ''value_base64''") (auto simp: ok_simps split: option.splits if_splits)
qed (simp_all add: artifact_signature_def check_signature_def)

lemma artifact_timestamp_ok: "artifact_timestamp v name = Inr d \<Longrightarrow> whole_seconds d"
  by (cases v) (auto split: option.splits dest: parse_seconds_utc)

lemma artifact_release_ok:
  "artifact_release v name = Inr n \<Longrightarrow> v = PInt n \<and> 0 < n \<and> n \<le> MAX_SQLITE_INTEGER"
  by (cases v) (auto split: if_splits)

lemma artifact_signer_ok:
  "artifact_signer label trusted v = Inr x \<Longrightarrow> trusted (fst x) = Some (snd x) \<and> length (snd x) = 32"
  by (cases v) (auto simp: artifact_signer_def split: if_splits option.splits)

lemma bounded_cap_ok: "bounded_cap v name = Inr n \<Longrightarrow> v = PInt n \<and> 1 \<le> n \<and> n \<le> 4096"
  by (cases v) (auto simp: MAX_CAP_VALUE_def MAX_LAUNCH_CANDIDATES_def split: if_splits)

lemma string_items_ok: "string_items (PList vs) = Some ss \<Longrightarrow> vs = map PStr ss"
  by (induction "PList vs" arbitrary: vs ss rule: string_items.induct) auto

lemma checked_strings_ok:
  "checked_strings shape n ae a b c v = Inr ss \<Longrightarrow>
    v = PList (map PStr ss) \<and> list_all shape ss \<and> distinct ss \<and> length ss \<le> n \<and> (ae \<or> ss \<noteq> [])"
  by (cases v) (auto simp: checked_strings_def split: if_splits option.splits dest: string_items_ok)

lemma freshness_ok:
  "freshness label name vf vu pub now age = Inr () \<longleftrightarrow>
    is_utc now \<and> dt_le vf now \<and> dt_less now vu \<and> dt_micros now + 300 * 1000000 \<le> dt_micros DATETIME_MAX
    \<and> dt_micros pub \<le> dt_micros now + 300 * 1000000 \<and> 0 < age \<and> age < 86400 * 1000000000
    \<and> dt_micros now - dt_micros pub \<le> age * 1000000"
  by (auto simp: freshness_def ok_simps)

lemma policy_mode_ok: "policy_mode_of v = Inr mode \<Longrightarrow> v = PStr mode \<and> mode \<in> set ADMISSION_MODES"
  by (cases v) (auto split: if_splits)

lemmas artifact_ok = artifact_timestamp_ok artifact_release_ok artifact_signer_ok bounded_cap_ok checked_strings_ok policy_mode_ok

lemma coldkey_list_ok:
  "coldkey_list label n v = Inr ss \<Longrightarrow> v = PList (map PStr ss) \<and> list_all SS58_RE ss \<and> distinct ss \<and> length ss \<le> n"
  unfolding coldkey_list_def by (drule checked_strings_ok) blast

text \<open>The steps of \<open>verify_admission_policy\<close> that accepted a document.\<close>

lemma verify_admission_policy_steps:
  assumes "verify_admission_policy ed25519 trusted network netuid now age text = Inr s"
  obtains document key coldkeys canonical where
    "json_loads False text = Inr (PDict document)" "dget document ''schema'' = PStr ADMISSION_POLICY_SCHEMA"
    "trusted (ad_signing_key_id s) = Some key" "length key = 32"
    "check_signature ed25519 key document = Inr ()"
    "dget document ''config_version'' = PInt (config_version s)"
    "0 < config_version s" "config_version s \<le> MAX_SQLITE_INTEGER"
    "ad_network s = network" "ad_netuid s = netuid"
    "dget document ''mode'' = PStr (ad_mode s)" "ad_mode s \<in> set ADMISSION_MODES"
    "dget document ''coldkeys'' = PList (map PStr coldkeys)" "ad_coldkeys s = set coldkeys"
    "list_all SS58_RE coldkeys" "distinct coldkeys" "ad_mode s = MODE_ALL_REGISTERED \<longrightarrow> coldkeys = []"
    "dget document ''required_profile_ids'' = PList (map PStr (required_profile_ids s))"
    "distinct (required_profile_ids s)" "required_profile_ids s \<noteq> []"
    "dget document ''max_enrolled_endpoints_per_coldkey'' = PInt (max_enrolled_endpoints_per_coldkey s)"
    "dget document ''max_admitted_workers_total'' = PInt (max_admitted_workers_total s)"
    "1 \<le> max_enrolled_endpoints_per_coldkey s" "max_enrolled_endpoints_per_coldkey s \<le> 4096"
    "1 \<le> max_admitted_workers_total s" "max_admitted_workers_total s \<le> 4096"
    "freshness ''policy'' '' issue'' (ad_issued_at s) (ad_expires_at s) (ad_issued_at s) now age = Inr ()"
    "canonical_json (PDict document) = Inr canonical" "ad_digest s = sha256_label canonical"
proof -
  have sig: "check_signature ed25519 key document = Inr ()"
    if "artifact_signature ''policy'' (dget document ''signature'') = Inr sb" "policy_signature_ok ed25519 key sb document"
    for key sb document
    using that artifact_signature_iff by blast
  show thesis
    using assms unfolding verify_admission_policy_def ok_simps split_beta
    apply (elim exE conjE)
    apply (drule artifact_release_ok, drule artifact_signer_ok, drule sig, assumption, drule policy_mode_ok,
      drule coldkey_list_ok, drule checked_strings_ok, drule bounded_cap_ok, drule bounded_cap_ok,
      drule parse_registry_json_ok)
    apply (elim conjE)
    apply hypsubst
    apply (simp only: sum.inject)
    apply hypsubst
    apply (erule that)
    apply (simp_all del: One_nat_def)
    apply blast
    done
qed


lemma read_policy_loaded:
  assumes "read_policy ed25519 p now file = Loaded s"
  obtains t where "file = Some t"
    "verify_admission_policy ed25519 (adp_trusted_keys p) (adp_network p) (adp_netuid p) now
       (adp_max_age_seconds p) t = Inr s"
    "adp_pinned_digest p \<in> {None, Some (ad_digest s)}"
  using assms by (auto simp: read_policy_def split: option.splits if_splits sum.splits)

lemma read_policy_version:
  assumes "read_policy ed25519 p now file = Loaded s"
  shows "0 < config_version s" "config_version s \<le> MAX_SQLITE_INTEGER"
  using assms by (auto elim!: read_policy_loaded verify_admission_policy_steps)

section \<open>The rollback guard\<close>

text \<open>
  The interface both providers implement: one call reads the artifact and the mark; an accepted
  version is at least the mark and becomes the mark, a refusal leaves the mark.
\<close>

locale version_gate =
  fixes load :: "'env \<Rightarrow> 'st \<Rightarrow> 's load_result \<times> 'st"
    and version :: "'s \<Rightarrow> int"
    and mark :: "'st \<Rightarrow> int"
  assumes accepted: "load env st = (Loaded s, st') \<Longrightarrow> mark st \<le> version s \<and> mark st' = version s"
    and refused: "load env st = (r, st') \<Longrightarrow> loaded r = None \<Longrightarrow> mark st' = mark st"
begin

lemma mark_mono: "load env st = (r, st') \<Longrightarrow> mark st \<le> mark st'"
  using accepted [of env st _ st'] refused [of env st r st'] by (cases r) auto

end

text \<open>The calls of one process, with the artifacts it accepted.\<close>

fun gate_run :: "('env \<Rightarrow> 'st \<Rightarrow> 's load_result \<times> 'st) \<Rightarrow> 'env list \<Rightarrow> 'st \<Rightarrow> 's list \<times> 'st" where
  "gate_run load [] st = ([], st)"
| "gate_run load (env # envs) st =
    (case load env st of (r, st') \<Rightarrow>
     (case gate_run load envs st' of (ss, st'') \<Rightarrow>
       (case loaded r of None \<Rightarrow> ss | Some s \<Rightarrow> s # ss, st'')))"

context version_gate
begin

lemma run_above_mark:
  "gate_run load envs st = (ss, st') \<Longrightarrow> (\<forall>s \<in> set ss. mark st \<le> version s) \<and> mark st \<le> mark st'"
proof (induction envs arbitrary: st ss)
  case (Cons env envs)
  obtain r st1 where l: "load env st = (r, st1)" by (cases "load env st")
  obtain ts where g: "gate_run load envs st1 = (ts, st')" using Cons.prems l by (auto split: prod.splits)
  have "mark st \<le> mark st1" by (rule mark_mono [OF l])
  moreover have "r = Loaded s \<Longrightarrow> mark st \<le> version s" for s using l accepted by blast
  ultimately show ?case using Cons.IH [OF g] Cons.prems l g by (cases r) fastforce+
qed simp

lemma run_sorted: "gate_run load envs st = (ss, st') \<Longrightarrow> sorted (map version ss)"
proof (induction envs arbitrary: st ss)
  case (Cons env envs)
  obtain r st1 where l: "load env st = (r, st1)" by (cases "load env st")
  obtain ts where g: "gate_run load envs st1 = (ts, st')" using Cons.prems l by (auto split: prod.splits)
  have "r = Loaded s \<Longrightarrow> mark st1 = version s" for s using l accepted by blast
  then show ?case using Cons.IH [OF g] run_above_mark [OF g] Cons.prems l g by (cases r) fastforce+
qed simp

end

lemma allowlist_load_cases:
  "allowlist_load ed25519 p env highest = (r, h) \<Longrightarrow>
    (\<forall>s. r = Loaded s \<longrightarrow> highest \<le> al_release s \<and> h = al_release s) \<and> (loaded r = None \<longrightarrow> h = highest)"
  by (auto simp: allowlist_load_def split: prod.splits option.splits if_splits sum.splits)

interpretation allowlist_gate: version_gate "allowlist_load ed25519 p" al_release "\<lambda>h. h" for ed25519 p
  by unfold_locales (auto dest: allowlist_load_cases)

lemma admission_load_cases:
  assumes "admission_load ed25519 p (now, file, out) (m, f) = (r, m', f')"
  obtains
    (refused) "loaded r = None" "m' = m" "f' = f"
  | (unwritten) s where "r = Refused" "m' = m" "read_policy ed25519 p now file = Loaded s" "m < config_version s"
      "(False, f') = persist_high_water (adp_durable p) out (config_version s) f"
  | (same) s where "r = Loaded s" "read_policy ed25519 p now file = Loaded s" "config_version s = m" "m' = m" "f' = f"
  | (advanced) s where "r = Loaded s" "read_policy ed25519 p now file = Loaded s" "m < config_version s"
      "m' = config_version s" "(True, f') = persist_high_water (adp_durable p) out (config_version s) f"
proof (cases "read_policy ed25519 p now file")
  case (Loaded s)
  obtain ok f2 where w: "persist_high_water (adp_durable p) out (config_version s) f = (ok, f2)"
    by (cases "persist_high_water (adp_durable p) out (config_version s) f")
  consider "config_version s < m" | "config_version s = m" | "m < config_version s" by linarith
  then show thesis
  proof cases
    case 1
    with assms Loaded show thesis by (intro refused) (auto simp: admission_load_def)
  next
    case 2
    with assms Loaded show thesis by (intro same) (auto simp: admission_load_def)
  next
    case 3
    with assms Loaded w have "(r, m', f') = (if ok then (Loaded s, config_version s, f2) else (Refused, m, f2))"
      by (simp add: admission_load_def split: bool.splits)
    with 3 Loaded w show thesis by (cases ok) (auto intro: advanced unwritten)
  qed
next
  case Refused
  with assms show thesis by (intro refused) (auto simp: admission_load_def)
next
  case (Raised e)
  with assms have "r = Raised e" "m' = m" "f' = f" by (simp_all add: admission_load_def)
  then show thesis by (intro refused) simp_all
qed

interpretation admission_gate: version_gate "admission_load ed25519 p" config_version fst for ed25519 p
proof
  show "fst st \<le> config_version s \<and> fst st' = config_version s"
    if "admission_load ed25519 p env st = (Loaded s, st')" for env st s st'
    using that by (cases env; cases st; cases st') (auto elim!: admission_load_cases)
  show "fst st' = fst st"
    if "admission_load ed25519 p env st = (r, st')" "loaded r = None" for env st r st'
    using that by (cases env; cases st; cases st') (auto elim!: admission_load_cases)
qed

text \<open>
  A service with one state file: the mark of the running process, the contents of the file and
  the policies accepted so far.  A process starts from what it reads, possibly an operating-system
  error; it may stop between calls, or right after the new mark reached the file.
\<close>

record door =
  door_mark :: "int option"
  door_file :: "bytes option"
  door_accepted :: "AdmissionPolicySnapshot list"

fun state_read :: "bytes option \<Rightarrow> file_read" where
  "state_read None = FileMissing"
| "state_read (Some bs) = FileBytes bs"

inductive door_step :: "(bytes \<Rightarrow> bytes \<Rightarrow> bytes \<Rightarrow> bool) \<Rightarrow> door \<Rightarrow> door \<Rightarrow> bool" for ed25519 where
  starts: "door_mark d = None \<Longrightarrow> r \<in> {FileError, state_read (door_file d)} \<Longrightarrow>
    door_step ed25519 d (d\<lparr>door_mark := Some (load_high_water True r)\<rparr>)"
| loads: "door_mark d = Some m \<Longrightarrow> adp_durable p \<Longrightarrow>
    admission_load ed25519 p (now, file, out) (m, door_file d) = (r, m', f') \<Longrightarrow>
    door_step ed25519 d (d\<lparr>door_mark := Some m', door_file := f',
      door_accepted := door_accepted d @ (case loaded r of None \<Rightarrow> [] | Some s \<Rightarrow> [s])\<rparr>)"
| stops: "door_step ed25519 d (d\<lparr>door_mark := None\<rparr>)"
| stops_writing: "door_mark d = Some m \<Longrightarrow> read_policy ed25519 p now file = Loaded s \<Longrightarrow> m < config_version s \<Longrightarrow>
    door_step ed25519 d (d\<lparr>door_mark := None, door_file := Some (high_water_bytes (config_version s))\<rparr>)"

lemma strip_digits:
  assumes "list_all is_digit s"
  shows "strip s = s"
proof -
  have "\<not> is_space c" if "is_digit c" for c using that by (auto simp: is_digit_def is_space_def)
  then have "dropWhile is_space t = t" if "list_all is_digit t" for t using that by (cases t) auto
  then show ?thesis using assms by (simp add: strip_def)
qed

lemma high_water_round_trip:
  assumes "0 < v" "v \<le> MAX_SQLITE_INTEGER"
  shows "load_high_water True (FileBytes (high_water_bytes v)) = v"
proof -
  have "nat v < 10 ^ Suc 18" using assms by (simp add: MAX_SQLITE_INTEGER_def)
  from show_nat_length_le [OF this] have "length (show_nat (nat v)) \<le> 64" by simp
  then show ?thesis
    using assms by (simp add: load_high_water_def high_water_bytes_def show_int_def decode_encode_ascii
        ascii_show_nat strip_digits show_nat_digits Let_def)
qed

text \<open>What the state file says to the next process.\<close>

definition file_mark :: "bytes option \<Rightarrow> int" where
  "file_mark f = load_high_water True (state_read f)"

definition door_inv :: "door \<Rightarrow> bool" where
  "door_inv d \<longleftrightarrow>
    sorted_wrt (\<lambda>s t. config_version s \<le> config_version t \<or> config_version s = MAX_SQLITE_INTEGER) (door_accepted d)
    \<and> (\<forall>s \<in> set (door_accepted d). config_version s \<le> MAX_SQLITE_INTEGER)
    \<and> (\<forall>s \<in> set (door_accepted d). config_version s = MAX_SQLITE_INTEGER
         \<or> config_version s \<le> file_mark (door_file d) \<and> (\<forall>m. door_mark d = Some m \<longrightarrow> config_version s \<le> m))
    \<and> (\<forall>m. door_mark d = Some m \<longrightarrow> m \<le> file_mark (door_file d) \<or> m = MAX_SQLITE_INTEGER)"

lemma file_mark_written [simp]:
  assumes "read_policy ed25519 p now file = Loaded s"
  shows "file_mark (Some (high_water_bytes (config_version s))) = config_version s"
  using high_water_round_trip [OF read_policy_version [OF assms]] by (simp add: file_mark_def)

lemma door_inv_cases:
  assumes "door_inv d" "s \<in> set (door_accepted d)" "config_version s \<noteq> MAX_SQLITE_INTEGER"
  shows "config_version s \<le> file_mark (door_file d)" "door_mark d = Some m \<Longrightarrow> config_version s \<le> m"
  using assms by (auto simp: door_inv_def)

lemma persist_durable:
  assumes "(ok, f') = persist_high_water True out v f"
  shows "f' = f \<and> \<not> ok \<or> f' = Some (high_water_bytes v)"
  using assms by (auto simp: persist_high_water_def split: persist_outcome.splits)

text \<open>The file may rise to the version of a verified policy above the mark.\<close>

lemma door_inv_write:
  assumes inv: "door_inv d" and m: "door_mark d = Some m" and v: "read_policy ed25519 p now file = Loaded s"
    "m < config_version s" and k: "k \<in> {None, Some m}"
  shows "door_inv (d\<lparr>door_mark := k, door_file := Some (high_water_bytes (config_version s))\<rparr>)"
proof -
  have "t \<in> set (door_accepted d) \<Longrightarrow> config_version t = MAX_SQLITE_INTEGER \<or> config_version t \<le> m" for t
    using door_inv_cases(2) [OF inv _ _ m] by blast
  then show ?thesis
    using inv v k m by (fastforce simp: door_inv_def)
qed

text \<open>An accepted version is at or above everything accepted before.\<close>

lemma door_inv_accept:
  assumes inv: "door_inv d" and m: "door_mark d = Some m"
    and v: "m \<le> config_version s" "config_version s \<le> MAX_SQLITE_INTEGER"
    and f: "f' = door_file d \<and> config_version s = m \<or> file_mark f' = config_version s"
  shows "door_inv (d\<lparr>door_mark := Some (config_version s), door_file := f', door_accepted := door_accepted d @ [s]\<rparr>)"
proof -
  have "t \<in> set (door_accepted d) \<Longrightarrow> config_version t = MAX_SQLITE_INTEGER \<or> config_version t \<le> config_version s" for t
    using door_inv_cases(2) [OF inv _ _ m] v by force
  moreover have "t \<in> set (door_accepted d) \<Longrightarrow> config_version t = MAX_SQLITE_INTEGER \<or> config_version t \<le> file_mark f'" for t
    using calculation [of t] f door_inv_cases(1) [OF inv, of t] by auto
  moreover have "config_version s \<le> file_mark f' \<or> config_version s = MAX_SQLITE_INTEGER"
    using f m inv by (auto simp: door_inv_def)
  ultimately show ?thesis
    using inv v(2) by (auto simp: door_inv_def sorted_wrt_append)
qed

lemma door_step_inv:
  assumes "door_step ed25519 d d'" "door_inv d"
  shows "door_inv d'"
  using assms
proof cases
  case (starts r)
  then show ?thesis
    using \<open>door_inv d\<close> by (auto simp: door_inv_def file_mark_def load_high_water_def [of True FileError])
next
  case (loads m p now x out r m' f')
  have stay: "d\<lparr>door_mark := Some m\<rparr> = d" "d\<lparr>door_mark := Some m, door_file := g\<rparr> = d\<lparr>door_file := g\<rparr>" for g
    using loads(2) by simp_all
  from loads(4) show ?thesis
  proof (cases rule: admission_load_cases)
    case refused
    then show ?thesis using loads stay \<open>door_inv d\<close> by simp
  next
    case (unwritten s)
    from persist_durable [of False f' out "config_version s" "door_file d"] unwritten(5) loads(3)
    have "f' = door_file d \<or> f' = Some (high_water_bytes (config_version s))" by auto
    moreover have "door_inv (d\<lparr>door_file := Some (high_water_bytes (config_version s))\<rparr>)"
      using door_inv_write [OF \<open>door_inv d\<close> loads(2) unwritten(3,4), of "Some m"] unfolding stay(2) by simp
    ultimately show ?thesis using loads(1) unwritten(1,2) stay \<open>door_inv d\<close> by auto
  next
    case (same s)
    with read_policy_version(2) [OF same(2)] show ?thesis
      using loads door_inv_accept [OF \<open>door_inv d\<close> loads(2), of s "door_file d"] by simp
  next
    case (advanced s)
    from persist_durable [of True f' out "config_version s" "door_file d"] advanced(5) loads(3)
    have "f' = Some (high_water_bytes (config_version s))" by auto
    with read_policy_version(2) [OF advanced(2)] show ?thesis
      using loads advanced door_inv_accept [OF \<open>door_inv d\<close> loads(2), of s f'] by simp
  qed
next
  case stops
  then show ?thesis using \<open>door_inv d\<close> by (auto simp: door_inv_def)
next
  case (stops_writing m p now x s)
  then show ?thesis using door_inv_write [OF \<open>door_inv d\<close> stops_writing(2,3,4), of None] by simp
qed

lemma door_reachable_inv:
  assumes "(door_step ed25519)\<^sup>*\<^sup>* \<lparr>door_mark = None, door_file = f, door_accepted = []\<rparr> d"
  shows "door_inv d"
  using assms by induction (auto simp: door_inv_def [of "\<lparr>door_mark = None, door_file = f, door_accepted = []\<rparr>"] dest: door_step_inv)

section \<open>Signing and verifying\<close>

text \<open>The unsigned document of a policy, as an operator writes it.\<close>

definition policy_document :: "string list \<Rightarrow> AdmissionPolicySnapshot \<Rightarrow> (string \<times> pyval) list" where
  "policy_document coldkeys s =
    [(''schema'', PStr ADMISSION_POLICY_SCHEMA), (''mode'', PStr (ad_mode s)),
     (''coldkeys'', PList (map PStr coldkeys)), (''network'', PStr (ad_network s)),
     (''netuid'', PInt (ad_netuid s)), (''required_profile_ids'', PList (map PStr (required_profile_ids s))),
     (''max_enrolled_endpoints_per_coldkey'', PInt (max_enrolled_endpoints_per_coldkey s)),
     (''max_admitted_workers_total'', PInt (max_admitted_workers_total s)),
     (''config_version'', PInt (config_version s)),
     (''issued_at'', PStr (format_seconds (ad_issued_at s))),
     (''expires_at'', PStr (format_seconds (ad_expires_at s))),
     (''signing_key_id'', PStr (ad_signing_key_id s))]"

text \<open>The values a policy may hold.\<close>

definition policy_values_ok :: "string list \<Rightarrow> AdmissionPolicySnapshot \<Rightarrow> bool" where
  "policy_values_ok coldkeys s \<longleftrightarrow>
    0 < config_version s \<and> config_version s \<le> MAX_SQLITE_INTEGER
    \<and> REGISTRY_ID_RE (ad_signing_key_id s) \<and> NETWORK_RE (ad_network s) \<and> netuid_ok (ad_netuid s)
    \<and> ad_mode s \<in> set ADMISSION_MODES \<and> (ad_mode s = MODE_ALL_REGISTERED \<longrightarrow> coldkeys = [])
    \<and> list_all SS58_RE coldkeys \<and> distinct coldkeys \<and> length coldkeys \<le> MAX_POLICY_COLDKEYS
    \<and> ad_coldkeys s = set coldkeys
    \<and> list_all PROFILE_ID_RE (required_profile_ids s) \<and> distinct (required_profile_ids s)
    \<and> required_profile_ids s \<noteq> [] \<and> length (required_profile_ids s) \<le> MAX_REQUIRED_PROFILE_IDS
    \<and> 0 < max_enrolled_endpoints_per_coldkey s \<and> max_enrolled_endpoints_per_coldkey s \<le> MAX_CAP_VALUE
    \<and> 0 < max_admitted_workers_total s \<and> max_admitted_workers_total s \<le> MAX_CAP_VALUE
    \<and> whole_seconds (ad_issued_at s) \<and> whole_seconds (ad_expires_at s)
    \<and> dt_less (ad_issued_at s) (ad_expires_at s)"

lemma sign_artifact_registry:
  "sign_artifact label ed25519_sign document sk = Inr sdoc \<longleftrightarrow> sign_registry ed25519_sign document sk = Inr sdoc"
  by (simp add: sign_artifact_def sign_registry_def ok_simps)

lemma sign_artifact_fields:
  assumes "sign_artifact label ed25519_sign document sk = Inr sdoc" "k \<noteq> ''signature''"
  shows "dget sdoc k = dget document k"
  using assms by (auto simp: sign_artifact_def ok_simps dget_def map_add_def split: if_splits option.splits)

lemma canon_strings: "canon (PList (map PStr ss)) = PList (map PStr ss)"
  by (induction ss) auto

lemma string_items_strings [simp]: "string_items (PList (map PStr ss)) = Some ss"
  by (induction ss) auto

lemma sign_policy_read:
  assumes sign: "sign_admission_policy ed25519_sign document sk = Inr sdoc"
    and law: "\<And>m. length (ed25519_sign sk m) = 64 \<and> ed25519 key (ed25519_sign sk m) m"
    and size: "length (utf8 (dumps (PDict sdoc))) \<le> MAX_REGISTRY_BYTES"
  obtains read where "parse_registry_json (dumps (PDict sdoc)) = Inr read"
    "check_signature ed25519 key read = Inr ()"
    "canonical_json (PDict read) = Inr (encode_ascii (dumps (PDict sdoc)))"
    "set (map fst read) = insert ''signature'' (set (map fst document))"
    "\<And>k. k \<noteq> ''signature'' \<Longrightarrow> dget read k = canon (dget document k)"
proof
  let ?read = "map (\<lambda>(k, v). (k, canon v)) (sort_key fst sdoc)"
  have r: "sign_registry ed25519_sign document sk = Inr sdoc"
    using sign by (simp add: sign_admission_policy_def sign_artifact_registry)
  note signed = signed_document_checks [of ed25519_sign document sk sdoc ed25519 key, OF r law]
  show "parse_registry_json (dumps (PDict sdoc)) = Inr ?read"
    using size signed(1) by (simp add: parse_registry_json_def)
  show "check_signature ed25519 key ?read = Inr ()" by (rule signed(2))
  obtain sig where sdoc: "sdoc = document @ [(''signature'', sig)]" "is_json (PDict sdoc)"
    using r by (auto simp: sign_registry_def canonical_json_def ok_simps list_all_iff split: if_splits)
  show "set (map fst ?read) = insert ''signature'' (set (map fst document))"
    by (auto simp: sdoc(1) image_image split_beta)
  have "canonical_json (canon (PDict sdoc)) = Inr (encode_ascii (dumps (PDict sdoc)))"
    using is_json_canon [OF sdoc(2)] by (simp only: canonical_json_def if_True dumps_canon)
  then show "canonical_json (PDict ?read) = Inr (encode_ascii (dumps (PDict sdoc)))"
    by (simp only: canon_PDict_sorted)
  show "dget ?read k = canon (dget document k)" if "k \<noteq> ''signature''" for k
    using sign_artifact_fields [OF sign [unfolded sign_admission_policy_def] that]
    by (simp only: dget_canon dget_sort_key)
qed

lemma checked_strings_accepts:
  assumes "list_all shape ss" "distinct ss" "length ss \<le> n" "ae \<or> ss \<noteq> []"
  shows "checked_strings shape n ae a b c (PList (map PStr ss)) = Inr ss"
  using assms by (auto simp: checked_strings_def)

lemma policy_document_reads:
  assumes "\<And>k. k \<noteq> ''signature'' \<Longrightarrow> dget read k = canon (dget (policy_document coldkeys s) k)"
  shows "dget read ''schema'' = PStr ADMISSION_POLICY_SCHEMA" "dget read ''mode'' = PStr (ad_mode s)"
    "dget read ''coldkeys'' = PList (map PStr coldkeys)" "dget read ''network'' = PStr (ad_network s)"
    "dget read ''netuid'' = PInt (ad_netuid s)"
    "dget read ''required_profile_ids'' = PList (map PStr (required_profile_ids s))"
    "dget read ''max_enrolled_endpoints_per_coldkey'' = PInt (max_enrolled_endpoints_per_coldkey s)"
    "dget read ''max_admitted_workers_total'' = PInt (max_admitted_workers_total s)"
    "dget read ''config_version'' = PInt (config_version s)"
    "dget read ''issued_at'' = PStr (format_seconds (ad_issued_at s))"
    "dget read ''expires_at'' = PStr (format_seconds (ad_expires_at s))"
    "dget read ''signing_key_id'' = PStr (ad_signing_key_id s)"
  by (simp_all add: assms canon_strings policy_document_def)

lemma policy_round_trip:
  assumes sign: "sign_admission_policy ed25519_sign (policy_document coldkeys s) sk = Inr sdoc"
    and law: "\<And>m. length (ed25519_sign sk m) = 64 \<and> ed25519 key (ed25519_sign sk m) m"
    and size: "length (utf8 (dumps (PDict sdoc))) \<le> MAX_REGISTRY_BYTES"
    and key: "trusted (ad_signing_key_id s) = Some key" "length key = 32"
    and ok: "policy_values_ok coldkeys s"
    and fresh: "freshness ''policy'' '' issue'' (ad_issued_at s) (ad_expires_at s) (ad_issued_at s) now age = Inr ()"
  shows "verify_admission_policy ed25519 trusted (ad_network s) (ad_netuid s) now age (dumps (PDict sdoc))
    = Inr (s\<lparr>ad_digest := sha256_label (encode_ascii (dumps (PDict sdoc)))\<rparr>)"
proof -
  obtain read where r: "parse_registry_json (dumps (PDict sdoc)) = Inr read"
    "check_signature ed25519 key read = Inr ()"
    "canonical_json (PDict read) = Inr (encode_ascii (dumps (PDict sdoc)))"
    "set (map fst read) = insert ''signature'' (set (map fst (policy_document coldkeys s)))"
    "\<And>k. k \<noteq> ''signature'' \<Longrightarrow> dget read k = canon (dget (policy_document coldkeys s) k)"
    by (rule sign_policy_read [of ed25519_sign _ sk sdoc ed25519 key, OF sign law size]) blast
  obtain sb where sb: "artifact_signature ''policy'' (dget read ''signature'') = Inr sb"
    "policy_signature_ok ed25519 key sb read" using r(2) artifact_signature_iff by blast
  have keys: "same_keys read POLICY_TOP_LEVEL_KEYS"
    unfolding same_keys_def r(4) by (auto simp: policy_document_def POLICY_TOP_LEVEL_KEYS_def)
  have signer: "artifact_signer ''policy'' trusted (PStr (ad_signing_key_id s)) = Inr (ad_signing_key_id s, key)"
    using key ok by (simp add: artifact_signer_def policy_values_ok_def)
  have stamps: "artifact_timestamp (PStr (format_seconds (ad_issued_at s))) n = Inr (ad_issued_at s)"
    "artifact_timestamp (PStr (format_seconds (ad_expires_at s))) n = Inr (ad_expires_at s)" for n
    using ok by (simp_all add: policy_values_ok_def parse_format_seconds)
  have lists: "coldkey_list ''policy'' MAX_POLICY_COLDKEYS (PList (map PStr coldkeys)) = Inr coldkeys"
    "checked_strings PROFILE_ID_RE MAX_REQUIRED_PROFILE_IDS False a b c (PList (map PStr (required_profile_ids s)))
       = Inr (required_profile_ids s)" for a b c
    using ok by (auto simp: policy_values_ok_def coldkey_list_def intro!: checked_strings_accepts)
  show ?thesis
    using ok fresh
    by (simp add: verify_admission_policy_def policy_values_ok_def r(1,3) policy_document_reads [OF r(5)] keys
        sb signer stamps lists del: artifact_timestamp.simps dumps.simps)
qed

section \<open>A concrete policy\<close>

definition ex_coldkey :: string where "ex_coldkey = replicate 40 (CHR ''5'')"

definition ex_admission :: "int \<Rightarrow> AdmissionPolicySnapshot" where
  "ex_admission version =
    \<lparr>config_version = version, ad_mode = MODE_SELECTED, ad_coldkeys = {ex_coldkey}, ad_network = ''finney'',
     ad_netuid = 39, required_profile_ids = [''tdx''], max_enrolled_endpoints_per_coldkey = 1,
     max_admitted_workers_total = 16, ad_issued_at = ex_time 1, ad_expires_at = ex_time 31,
     ad_signing_key_id = ''root'', ad_digest = []\<rparr>"

definition ex_admission_document :: "int \<Rightarrow> (string \<times> pyval) list" where
  "ex_admission_document version = policy_document [ex_coldkey] (ex_admission version) @ [(''signature'', PDict
     [(''algorithm'', PStr ''ed25519''), (''value_base64'', PStr (b64encode (toy_sign (replicate 32 0)
        (encode_ascii (dumps (PDict (policy_document [ex_coldkey] (ex_admission version))))))))])]"

definition ex_admission_text :: "int \<Rightarrow> string" where
  "ex_admission_text version = dumps (PDict (ex_admission_document version))"

definition ex_admission_verified :: "int \<Rightarrow> AdmissionPolicySnapshot" where
  "ex_admission_verified version =
    (ex_admission version)\<lparr>ad_digest := sha256_label (encode_ascii (ex_admission_text version))\<rparr>"

definition ex_door :: admission_provider where
  "ex_door = \<lparr>adp_trusted_keys = ex_trusted, adp_network = ''finney'', adp_netuid = 39, adp_max_age_seconds = 86400,
     adp_pinned_digest = None, adp_durable = True\<rparr>"

lemma ex_admission_sign:
  assumes "version \<in> {1, 2}"
  shows "sign_admission_policy toy_sign (policy_document [ex_coldkey] (ex_admission version)) (replicate 32 0)
    = Inr (ex_admission_document version)"
proof -
  have "is_json (PDict (policy_document [ex_coldkey] (ex_admission version)))"
    using assms by (auto simp: policy_document_def ex_admission_def int_digits_def max_str_digits_def)
  moreover have "''signature'' \<notin> set (map fst (policy_document [ex_coldkey] (ex_admission version)))"
    by (simp add: policy_document_def)
  ultimately show ?thesis
    by (simp add: sign_admission_policy_def sign_artifact_def canonical_json_def ex_admission_document_def
        del: dumps.simps is_json.simps)
qed

lemma ex_admission_values: "version \<in> {1, 2} \<Longrightarrow> policy_values_ok [ex_coldkey] (ex_admission version)"
proof -
  assume "version \<in> {1, 2}"
  moreover have "dt_less (ex_time 1) (ex_time 31)" by (simp add: ex_time_def dt_less_def dt_key_def)
  moreover have "SS58_RE ex_coldkey" by (simp add: SS58_RE_def ex_coldkey_def text_simps list_all_length)
  moreover have "PROFILE_ID_RE ''tdx''" by (simp add: PROFILE_ID_RE_def text_simps)
  moreover have "NETWORK_RE ''finney''" by (simp add: NETWORK_RE_def text_simps)
  moreover have "REGISTRY_ID_RE ''root''" by (simp add: REGISTRY_ID_RE_def text_simps)
  ultimately show ?thesis
    by (auto simp: policy_values_ok_def ex_admission_def MAX_SQLITE_INTEGER_def netuid_ok_def MAX_NETUID_def
        ADMISSION_MODES_def MODE_SELECTED_def MODE_ALL_REGISTERED_def MAX_POLICY_COLDKEYS_def
        MAX_REQUIRED_PROFILE_IDS_def MAX_CAP_VALUE_def MAX_LAUNCH_CANDIDATES_def ex_time_facts simp del: One_nat_def)
qed

lemma ex_admission_fresh: "freshness label name (ex_time 1) (ex_time 31) (ex_time 1) (ex_time 2) 86400 = Inr ()"
proof -
  have "dt_micros (ex_time 2) = dt_micros (ex_time 1) + 86400 * 1000000"
    "dt_micros (ex_time 2) + 300 * 1000000 \<le> dt_micros DATETIME_MAX"
    by (simp_all add: dt_micros_def dt_ordinal_def ex_time_def DATETIME_MAX_def days_before_year_def days_before_month_def)
  moreover have "dt_less (ex_time 2) (ex_time 31)" by (simp add: ex_time_def dt_less_def dt_key_def)
  ultimately show ?thesis using ex_time_facts whole_seconds_utc by (simp add: freshness_ok)
qed

lemma ex_admission_size: "version \<in> {1, 2} \<Longrightarrow> length (utf8 (ex_admission_text version)) \<le> 40000"
proof -
  assume v: "version \<in> {1, 2}"
  have "plain_json (PDict (ex_admission_document version))"
    by (simp add: ex_admission_document_def policy_document_def ex_admission_def)
  then have "length (ex_admission_text version) \<le> text_bound (PDict (ex_admission_document version))"
    unfolding ex_admission_text_def by (rule dumps_text_bound)
  also have "\<dots> \<le> 20000"
    using v length_b64encode [of "toy_sign (replicate 32 0) (encode_ascii (dumps (PDict
        (policy_document [ex_coldkey] (ex_admission version)))))"] toy_law [of "replicate 32 0"]
    by (auto simp: ex_admission_document_def policy_document_def ex_admission_def ADMISSION_POLICY_SCHEMA_def
        ex_coldkey_def MODE_SELECTED_def int_digits_def length_format_seconds ex_time_facts simp del: dumps.simps One_nat_def)
  finally show ?thesis using length_utf8_le [of "ex_admission_text version"] by linarith
qed

lemma ex_admission_verify:
  assumes "version \<in> {1, 2}"
  shows "verify_admission_policy toy_verify ex_trusted ''finney'' 39 (ex_time 2) 86400 (ex_admission_text version)
    = Inr (ex_admission_verified version)"
  using policy_round_trip [OF ex_admission_sign [OF assms], of toy_verify "replicate 32 0" ex_trusted "ex_time 2" 86400]
    toy_law ex_admission_size [OF assms] ex_admission_values [OF assms] ex_admission_fresh
  by (simp add: ex_admission_text_def ex_admission_verified_def ex_admission_def ex_trusted_def MAX_REGISTRY_BYTES_def
      del: dumps.simps One_nat_def)

lemma ex_admission_read:
  "version \<in> {1, 2} \<Longrightarrow> read_policy toy_verify ex_door (ex_time 2) (Some (ex_admission_text version))
    = Loaded (ex_admission_verified version)"
  using ex_admission_verify [of version] ex_admission_size [of version]
  by (simp add: read_policy_def ex_door_def MAX_POLICY_BYTES_def del: insert_iff)

lemma ex_admission_version [simp]: "config_version (ex_admission_verified version) = version"
  by (simp add: ex_admission_verified_def ex_admission_def)

section \<open>Properties\<close>

text \<open>
  C39. A policy the service loads is authentic and bound to the service.  It is read from a
  JSON object whose canonical bytes without the signature verify under a trusted 32-byte key;
  it names the network and the subnet of the provider, lies in its validity window at the
  check time and is no older than the maximum age, meets the pinned digest, holds caps between
  1 and 4096 and, in open mode, no coldkey; its version is at least the mark, and is the new
  mark.
\<close>

theorem loaded_policy_is_bound:
  assumes "admission_load ed25519 p (now, file, out) (m, f) = (Loaded s, m', f')"
  shows "(\<exists>t document key signature. file = Some t \<and> json_loads False t = Inr (PDict document)
      \<and> adp_trusted_keys p (ad_signing_key_id s) = Some key \<and> length key = 32 \<and> length signature = 64
      \<and> ed25519 key signature (encode_ascii (dumps (PDict (filter (\<lambda>(k, v). k \<noteq> ''signature'') document))))
      \<and> ad_digest s = sha256_label (encode_ascii (dumps (PDict document))))
    \<and> ad_network s = adp_network p \<and> ad_netuid s = adp_netuid p
    \<and> dt_le (ad_issued_at s) now \<and> dt_less now (ad_expires_at s)
    \<and> dt_micros now - dt_micros (ad_issued_at s) \<le> adp_max_age_seconds p * 1000000
    \<and> adp_pinned_digest p \<in> {None, Some (ad_digest s)}
    \<and> max_enrolled_endpoints_per_coldkey s \<in> {1..4096} \<and> max_admitted_workers_total s \<in> {1..4096}
    \<and> (ad_mode s = MODE_ALL_REGISTERED \<longrightarrow> ad_coldkeys s = {})
    \<and> m \<le> config_version s \<and> m' = config_version s"
proof -
  have "read_policy ed25519 p now file = Loaded s" using assms by (cases rule: admission_load_cases) simp_all
  then obtain t where t: "file = Some t" "adp_pinned_digest p \<in> {None, Some (ad_digest s)}"
    "verify_admission_policy ed25519 (adp_trusted_keys p) (adp_network p) (adp_netuid p) now (adp_max_age_seconds p) t = Inr s"
    by (rule read_policy_loaded)
  have j: "canonical_json v = Inr bs \<Longrightarrow> bs = encode_ascii (dumps v)" for v bs
    by (auto simp: canonical_json_def split: if_splits)
  from t(3) show ?thesis
  proof (rule verify_admission_policy_steps)
    fix document key coldkeys canonical
    assume d: "json_loads False t = Inr (PDict document)" "adp_trusted_keys p (ad_signing_key_id s) = Some key"
      "length key = 32" "canonical_json (PDict document) = Inr canonical" "ad_digest s = sha256_label canonical"
      and "check_signature ed25519 key document = Inr ()"
    then obtain signature where "length signature = 64"
      "ed25519 key signature (encode_ascii (dumps (PDict (filter (\<lambda>(k, v). k \<noteq> ''signature'') document))))"
      using check_signature_ok by blast
    with d t(1) j [OF d(4)] have authentic: "\<exists>t document key signature. file = Some t \<and> json_loads False t = Inr (PDict document)
      \<and> adp_trusted_keys p (ad_signing_key_id s) = Some key \<and> length key = 32 \<and> length signature = 64
      \<and> ed25519 key signature (encode_ascii (dumps (PDict (filter (\<lambda>(k, v). k \<noteq> ''signature'') document))))
      \<and> ad_digest s = sha256_label (encode_ascii (dumps (PDict document)))" by blast
    assume "freshness ''policy'' '' issue'' (ad_issued_at s) (ad_expires_at s) (ad_issued_at s) now (adp_max_age_seconds p) = Inr ()"
      "ad_coldkeys s = set coldkeys" "ad_mode s = MODE_ALL_REGISTERED \<longrightarrow> coldkeys = []"
      "ad_network s = adp_network p" "ad_netuid s = adp_netuid p"
      "1 \<le> max_enrolled_endpoints_per_coldkey s" "max_enrolled_endpoints_per_coldkey s \<le> 4096"
      "1 \<le> max_admitted_workers_total s" "max_admitted_workers_total s \<le> 4096"
    then show ?thesis
      using authentic t(2) admission_gate.accepted [OF assms] by (simp add: freshness_ok)
  qed
qed

theorem loaded_policy_is_bound_witness:
  "ad_netuid (ex_admission_verified 2) = 39 \<and> dt_less (ex_time 2) (ad_expires_at (ex_admission_verified 2))"
proof -
  have "admission_load toy_verify ex_door (ex_time 2, Some (ex_admission_text 2), PersistDone) (1, None)
      = (Loaded (ex_admission_verified 2), 2, Some (high_water_bytes 2))"
    by (simp add: admission_load_def ex_admission_read persist_high_water_def) (simp add: ex_door_def)
  from loaded_policy_is_bound [OF this] show ?thesis by (simp add: ex_door_def)
qed

text \<open>
  C38. An accepted policy version is never undercut.  A service keeps its mark in a state file;
  through any sequence of starts (with a readable file or a read error), calls of \<open>load\<close> under any
  durable provider and any failure of the writes, stops between calls and stops right after the
  file was replaced, each accepted version is at least every version accepted before it.  The one
  exception is the largest version itself: with an unreadable file it is accepted without a write.
\<close>

theorem admission_never_rolls_back:
  assumes "(door_step ed25519)\<^sup>*\<^sup>* \<lparr>door_mark = None, door_file = f, door_accepted = []\<rparr> d"
    and "i < j" "j < length (door_accepted d)" "config_version (door_accepted d ! i) \<noteq> MAX_SQLITE_INTEGER"
  shows "config_version (door_accepted d ! i) \<le> config_version (door_accepted d ! j)"
  using door_reachable_inv [OF assms(1)] assms(2-) by (auto simp: door_inv_def sorted_wrt_iff_nth_less)

theorem admission_never_rolls_back_witness:
  "\<exists>d :: door. length (door_accepted d) = 2 \<and> config_version (door_accepted d ! 0) \<le> config_version (door_accepted d ! 1)"
proof -
  let ?new = "\<lparr>door_mark = None, door_file = None, door_accepted = []\<rparr>"
  let ?load = "\<lambda>v. (ex_time 2, Some (ex_admission_text v), PersistDone)"
  let ?last = "\<lparr>door_mark = Some 2, door_file = Some (high_water_bytes 2),
    door_accepted = [ex_admission_verified 1, ex_admission_verified 2]\<rparr>"
  have l: "admission_load toy_verify ex_door (?load 1) (0, None) = (Loaded (ex_admission_verified 1), 1, Some (high_water_bytes 1))"
    "admission_load toy_verify ex_door (?load 2) (1, Some (high_water_bytes 1)) = (Loaded (ex_admission_verified 2), 2, Some (high_water_bytes 2))"
    by (simp_all add: admission_load_def ex_admission_read persist_high_water_def) (simp_all add: ex_door_def)
  have du: "adp_durable ex_door" by (simp add: ex_door_def)
  let ?started = "\<lparr>door_mark = Some 0, door_file = None, door_accepted = []\<rparr>"
  let ?first = "\<lparr>door_mark = Some 1, door_file = Some (high_water_bytes 1), door_accepted = [ex_admission_verified 1]\<rparr>"
  have "door_step toy_verify ?new ?started"
    using starts [of ?new FileMissing toy_verify] by (simp add: load_high_water_def)
  moreover have "door_step toy_verify ?started ?first"
    using loads [OF _ du, of ?started 0 toy_verify "ex_time 2"] l(1) by fastforce
  moreover have "door_step toy_verify ?first ?last"
    using loads [OF _ du, of ?first 1 toy_verify "ex_time 2"] l(2) by fastforce
  ultimately have "(door_step toy_verify)\<^sup>*\<^sup>* ?new ?last" by (blast intro: converse_rtranclp_into_rtranclp)
  then have le: "config_version (door_accepted ?last ! 0) \<le> config_version (door_accepted ?last ! 1)"
    by (rule admission_never_rolls_back) (simp_all add: MAX_SQLITE_INTEGER_def)
  have "length (door_accepted ?last) = 2" by simp
  then show ?thesis using le by blast
qed



end
