(* ===== verification/Ledger.thy ===== *)
theory Ledger
  imports Complex_Main Workproof Challenge Lifecycle
begin

text \<open>
  The durable ledger of \<open>ledger.py\<close>: its tables as lists of rows in insertion order, its epochs,
  challenges, work artifacts and timings.  A method runs under the ledger's lock in one
  transaction, so it is a function from the ledger to an error or to its result and the new
  ledger; an error rolls back.

  A stored time is the instant in microseconds: the code compares the texts \<open>isoformat\<close> writes for
  UTC times, which order as the instants do (a text without a fraction comes first because
  \<open>+\<close> sorts before the point).  Where the code reads the clock or draws a random token, the
  value is an argument.  Arguments have the types the signatures declare.  Messages leave
  out the \<open>repr\<close> of an identifier.
\<close>

section \<open>Tables\<close>

text \<open>
  \<open>LedgerError\<close> with its message; a constraint violation, an \<open>OverflowError\<close> of the SQLite binding
  or a \<open>ValueError\<close> that the code does not catch; and what the model does not decide.
\<close>

datatype ledger_error =
    LedgerError string
  | LedgerIntegrity
  | LedgerOverflow
  | LedgerValueError
  | LedgerOutsideModel

type_synonym instant = int

datatype epoch_status = Running | Aborted | Complete | Published | Abandoned

fun epoch_status_text :: "epoch_status \<Rightarrow> string" where
  "epoch_status_text Running = ''running''"
| "epoch_status_text Aborted = ''aborted''"
| "epoch_status_text Complete = ''complete''"
| "epoch_status_text Published = ''published''"
| "epoch_status_text Abandoned = ''abandoned''"

record epoch_row =
  ep_id :: nat
  ep_source_epoch :: int
  ep_status :: epoch_status
  ep_started_at :: instant
  ep_completed_at :: "instant option"
  ep_published_at :: "instant option"
  ep_generated_at :: "string option"
  ep_report_body :: "bytes option"
  ep_report_digest :: "string option"
  ep_registry_release :: "int option"
  ep_registry_digest :: "string option"
  ep_abandoned_at :: "instant option"
  ep_abandon_reason :: "string option"
  ep_anchor_network :: "string option"
  ep_anchor_netuid :: "int option"
  ep_anchor_block :: "int option"
  ep_anchor_hash :: "string option"

datatype challenge_status = Issued | Verified | FailedWork | AbandonedWork

record challenge_row =
  ch_id :: string
  ch_epoch :: nat
  ch_hotkey :: string
  ch_status :: challenge_status
  ch_units :: nat
  ch_issued_at :: instant
  ch_resolved_at :: "instant option"

datatype job_status = Queued | Leased | Succeeded | FailedJob

record job_row =
  jb_id :: string
  jb_customer :: string
  jb_idempotency_key :: "string option"
  jb_payload_body :: bytes
  jb_payload_digest :: string
  jb_status :: job_status
  jb_submitted_at :: instant
  jb_available_at :: instant
  jb_attempts :: nat
  jb_token :: "string option"
  jb_owner :: "string option"
  jb_epoch :: "nat option"
  jb_challenge :: "string option"
  jb_expires_at :: "instant option"
  jb_result_body :: "bytes option"
  jb_result_digest :: "string option"
  jb_last_error :: "string option"
  jb_resolved_at :: "instant option"

record attestation_row =
  att_epoch :: nat
  att_hotkey :: string
  att_tee_type :: string
  att_workload :: string
  att_evidence :: string
  att_policy_mode :: string
  att_score_eligible :: bool
  att_at :: instant
  att_envelope :: "string option"
  att_challenge :: "string option"

record lifecycle_row =
  wl_epoch :: nat
  wl_hotkey :: string
  wl_state :: string
  wl_generation :: int
  wl_revision :: int
  wl_event_id :: int
  wl_reason :: string
  wl_evidence_expires_at :: "string option"
  wl_evidence_digest :: "string option"
  wl_policy_digest :: "string option"
  wl_snapshot_at :: string

record score_row =
  sr_epoch :: nat
  sr_hotkey :: string
  sr_units :: nat
  sr_score :: rat

record receipt_row =
  rr_id :: string
  rr_epoch :: nat
  rr_hotkey :: string
  rr_challenge :: string
  rr_status :: challenge_status
  rr_body :: bytes
  rr_digest :: string
  rr_issued_at :: string

record artifact_row =
  wa_challenge :: string
  wa_item_body :: bytes
  wa_result_body :: bytes

record timing_row =
  tm_challenge :: string
  tm_dispatch :: int
  tm_verified :: int
  tm_job_class :: string
  tm_boot_id :: string

record export_row =
  ex_epoch :: nat
  ex_source_epoch :: int
  ex_stream :: "string \<times> int \<times> string \<times> string"
  ex_report_id :: string
  ex_body :: bytes
  ex_body_digest :: string

record ledger =
  epochs :: "epoch_row list"
  challenges :: "challenge_row list"
  jobs :: "job_row list"
  attestations :: "attestation_row list"
  lifecycles :: "lifecycle_row list"
  score_rows :: "score_row list"
  receipts :: "receipt_row list"
  artifacts :: "artifact_row list"
  timings :: "timing_row list"
  exports :: "export_row list"
  next_epoch :: nat

definition empty_ledger :: ledger where
  "empty_ledger = \<lparr>epochs = [], challenges = [], jobs = [], attestations = [], lifecycles = [],
     score_rows = [], receipts = [], artifacts = [], timings = [], exports = [], next_epoch = 1\<rparr>"

text \<open>\<open>UPDATE ... WHERE\<close>: every row that meets the condition.\<close>

definition update_where :: "('r \<Rightarrow> bool) \<Rightarrow> ('r \<Rightarrow> 'r) \<Rightarrow> 'r list \<Rightarrow> 'r list" where
  "update_where P f rows = map (\<lambda>r. if P r then f r else r) rows"

definition at_epoch :: "nat \<Rightarrow> epoch_row \<Rightarrow> bool" where
  "at_epoch e r \<longleftrightarrow> ep_id r = e"

definition is_status :: "epoch_status list \<Rightarrow> epoch_row \<Rightarrow> bool" where
  "is_status ss r \<longleftrightarrow> ep_status r \<in> set ss"

definition LEDGER_MAX_INTEGER :: int where "LEDGER_MAX_INTEGER = 2 ^ 63 - 1"

section \<open>Epochs\<close>

definition epoch_of :: "ledger \<Rightarrow> nat \<Rightarrow> ledger_error + epoch_row" where
  "epoch_of l e =
    (case find (at_epoch e) (epochs l) of
       None \<Rightarrow> Inl (LedgerError (''epoch '' @ show_nat e @ '' not found''))
     | Some r \<Rightarrow> Inr r)"

definition require_running :: "ledger \<Rightarrow> nat \<Rightarrow> string \<Rightarrow> ledger_error + unit" where
  "require_running l e action =
    rbind (epoch_of l e) (\<lambda>r.
      require (ep_status r = Running)
        (LedgerError (''epoch '' @ show_nat e @ '' is '' @ epoch_status_text (ep_status r) @ ''; cannot '' @ action)))"

definition visible_ascii :: "string \<Rightarrow> bool" where
  "visible_ascii s \<longleftrightarrow> list_all (\<lambda>c. 33 \<le> ord_c c \<and> ord_c c \<le> 126) s"

definition MAX_SCORE_NETWORK_LENGTH :: nat where "MAX_SCORE_NETWORK_LENGTH = 128"

definition MAX_SCORE_NETUID :: int where "MAX_SCORE_NETUID = 2 ^ 16 - 1"

definition validate_score_audience :: "string option \<Rightarrow> int option \<Rightarrow> ledger_error + (string \<times> int)" where
  "validate_score_audience network netuid =
    (case network of
       None \<Rightarrow> Inl (LedgerError ''score network must be a nonempty visible-ASCII string'')
     | Some n \<Rightarrow>
         if \<not> (1 \<le> length n \<and> length n \<le> MAX_SCORE_NETWORK_LENGTH) \<or> strip n \<noteq> n \<or> \<not> visible_ascii n
         then Inl (LedgerError ''score network must be a nonempty visible-ASCII string'')
         else (case netuid of
             Some u \<Rightarrow>
               if 0 \<le> u \<and> u \<le> MAX_SCORE_NETUID then Inr (n, u)
               else Inl (LedgerError ''score netuid must be an integer between 0 and 65535'')
           | None \<Rightarrow> Inl (LedgerError ''score netuid must be an integer between 0 and 65535'')))"

record begin_request =
  bg_source_epoch :: int
  bg_release :: "int option"
  bg_digest :: "string option"
  bg_network :: "string option"
  bg_netuid :: "int option"
  bg_block :: "int option"
  bg_hash :: "string option"

text \<open>The validated hash of the challenge anchor, if there is one.\<close>

definition begin_anchor :: "begin_request \<Rightarrow> ledger_error + string option" where
  "begin_anchor q =
    (case bg_block q of
       None \<Rightarrow> Inr None
     | Some b \<Rightarrow>
         if \<not> (0 \<le> b \<and> b \<le> LEDGER_MAX_INTEGER) then Inl (LedgerError ''challenge anchor block is invalid'')
         else (case normalize_block_hash (opt_str (bg_hash q)) of
             Inl e \<Rightarrow> Inl (LedgerError ''challenge anchor hash is invalid'')
           | Inr h \<Rightarrow>
               if bg_network q = None \<or> bg_netuid q = None
               then Inl (LedgerError ''a challenge anchor requires its audience (network and netuid)'')
               else Inr (Some h)))"

definition begin_registry_ok :: "begin_request \<Rightarrow> bool" where
  "begin_registry_ok q \<longleftrightarrow>
    (case (bg_release q, bg_digest q) of
       (Some r, Some d) \<Rightarrow> 0 < r \<and> r \<le> LEDGER_MAX_INTEGER \<and> DIGEST_RE d
     | (Some r, None) \<Rightarrow> False
     | _ \<Rightarrow> True)"

text \<open>\<open>SELECT MAX(source_epoch) ... WHERE status IN ('complete', 'published')\<close>\<close>

definition last_final :: "ledger \<Rightarrow> int option" where
  "last_final l =
    (case map ep_source_epoch (filter (is_status [Complete, Published]) (epochs l)) of
       [] \<Rightarrow> None
     | s # ss \<Rightarrow> Some (foldl max s ss))"

text \<open>The newest aborted epoch above the last final one: \<open>ORDER BY epoch_id DESC LIMIT 1\<close>.\<close>

fun newest :: "epoch_row list \<Rightarrow> epoch_row option" where
  "newest [] = None"
| "newest (r # rs) =
    (case newest rs of None \<Rightarrow> Some r | Some t \<Rightarrow> Some (if ep_id t < ep_id r then r else t))"

definition retry_source :: "ledger \<Rightarrow> int option" where
  "retry_source l = map_option ep_source_epoch (newest (filter
     (\<lambda>r. ep_status r = Aborted \<and> (case last_final l of None \<Rightarrow> True | Some f \<Rightarrow> f < ep_source_epoch r)) (epochs l)))"

definition new_epoch :: "instant \<Rightarrow> begin_request \<Rightarrow> string option \<Rightarrow> nat \<Rightarrow> epoch_row" where
  "new_epoch now q anchor_hash e =
    \<lparr>ep_id = e, ep_source_epoch = bg_source_epoch q, ep_status = Running, ep_started_at = now,
     ep_completed_at = None, ep_published_at = None, ep_generated_at = None, ep_report_body = None,
     ep_report_digest = None, ep_registry_release = bg_release q, ep_registry_digest = bg_digest q,
     ep_abandoned_at = None, ep_abandon_reason = None, ep_anchor_network = bg_network q,
     ep_anchor_netuid = bg_netuid q, ep_anchor_block = bg_block q, ep_anchor_hash = anchor_hash\<rparr>"

definition begin_epoch :: "instant \<Rightarrow> begin_request \<Rightarrow> ledger \<Rightarrow> ledger_error + (nat \<times> ledger)" where
  "begin_epoch now q l =
    rbind (checks
      [require (0 \<le> bg_source_epoch q) (LedgerError ''source_epoch must be a nonnegative integer''),
       require ((bg_release q = None) = (bg_digest q = None))
         (LedgerError ''policy registry release and digest must be supplied together''),
       require ((bg_block q = None) = (bg_hash q = None))
         (LedgerError ''challenge anchor block and hash must be supplied together as a validated pair'')]) (\<lambda>_.
    rbind (begin_anchor q) (\<lambda>anchor_hash.
    rbind (require ((bg_network q = None) = (bg_netuid q = None))
             (LedgerError ''network and netuid must be supplied together'')) (\<lambda>_.
    rbind (if bg_network q = None then Inr ()
           else rbind (validate_score_audience (bg_network q) (bg_netuid q)) (\<lambda>_. Inr ())) (\<lambda>_.
    rbind (require (begin_registry_ok q) (LedgerError ''policy registry metadata is invalid'')) (\<lambda>_.
    case find (is_status [Running, Complete]) (epochs l) of
      Some r \<Rightarrow>
        Inl (LedgerError (''epoch '' @ show_nat (ep_id r) @ '' is '' @ epoch_status_text (ep_status r) @ ''; ''
          @ (if ep_status r = Running then ''finish'' else ''publish'') @ '' it before beginning''))
    | None \<Rightarrow>
        rbind (checks
          [case retry_source l of
             Some s \<Rightarrow> require (bg_source_epoch q = s)
               (LedgerError (''aborted source_epoch '' @ show_int s @ '' must be retried before advancing''))
           | None \<Rightarrow> Inr (),
           case last_final l of
             Some f \<Rightarrow> require (f < bg_source_epoch q)
               (LedgerError (''source_epoch must be greater than finalized epoch '' @ show_int f))
           | None \<Rightarrow> Inr (),
           require (bg_source_epoch q \<le> LEDGER_MAX_INTEGER) LedgerOverflow]) (\<lambda>_.
          Inr (next_epoch l, l\<lparr>epochs := epochs l @ [new_epoch now q anchor_hash (next_epoch l)],
                               next_epoch := next_epoch l + 1\<rparr>)))))))"

definition epoch_challenge_anchor :: "ledger \<Rightarrow> nat \<Rightarrow> ledger_error + (string option \<times> int option \<times> int \<times> string option) option" where
  "epoch_challenge_anchor l e =
    rbind (epoch_of l e) (\<lambda>r. Inr (case ep_anchor_block r of
       None \<Rightarrow> None
     | Some b \<Rightarrow> Some (ep_anchor_network r, ep_anchor_netuid r, b, ep_anchor_hash r)))"

text \<open>\<open>UPDATE challenges SET status = 'abandoned' ... WHERE challenge_id = ? AND status = 'issued'\<close>\<close>

definition abandon_challenge :: "instant \<Rightarrow> string option \<Rightarrow> challenge_row list \<Rightarrow> challenge_row list" where
  "abandon_challenge now cid = update_where (\<lambda>c. Some (ch_id c) = cid \<and> ch_status c = Issued)
     (\<lambda>c. c\<lparr>ch_status := AbandonedWork, ch_units := 0, ch_resolved_at := Some now\<rparr>)"

definition clear_lease :: "job_row \<Rightarrow> job_row" where
  "clear_lease j = j\<lparr>jb_token := None, jb_owner := None, jb_epoch := None, jb_challenge := None, jb_expires_at := None\<rparr>"

definition set_epoch :: "nat \<Rightarrow> (epoch_row \<Rightarrow> epoch_row) \<Rightarrow> ledger \<Rightarrow> ledger" where
  "set_epoch e f l = l\<lparr>epochs := update_where (at_epoch e) f (epochs l)\<rparr>"

definition abort_epoch :: "instant \<Rightarrow> nat \<Rightarrow> ledger \<Rightarrow> ledger_error + ledger" where
  "abort_epoch now e l =
    rbind (epoch_of l e) (\<lambda>r.
      if ep_status r = Aborted then Inr l
      else if ep_status r \<noteq> Running
        then Inl (LedgerError (''epoch '' @ show_nat e @ '' is '' @ epoch_status_text (ep_status r) @ ''; cannot abort''))
      else
        (let leased = filter (\<lambda>j. jb_status j = Leased \<and> jb_epoch j = Some e) (jobs l) in
         Inr (set_epoch e (\<lambda>r. r\<lparr>ep_status := Aborted\<rparr>)
           (l\<lparr>challenges := fold (\<lambda>j. abandon_challenge now (jb_challenge j)) leased (challenges l),
              jobs := fold (\<lambda>j. update_where (\<lambda>k. jb_id k = jb_id j)
                (\<lambda>k. clear_lease (k\<lparr>jb_status := Queued, jb_available_at := now,
                    jb_last_error := Some ''customer job epoch aborted''\<rparr>))) leased (jobs l)\<rparr>))))"

definition abandon_completed_epoch :: "instant \<Rightarrow> nat \<Rightarrow> string \<Rightarrow> ledger \<Rightarrow> ledger_error + ledger" where
  "abandon_completed_epoch now e why l =
    (if strip why = [] then Inl (LedgerError ''abandon reason must be a nonempty operator-supplied string'')
     else rbind (epoch_of l e) (\<lambda>r.
       if ep_status r \<noteq> Complete
       then Inl (LedgerError (''epoch '' @ show_nat e @ '' is '' @ epoch_status_text (ep_status r)
              @ ''; only a complete epoch can be abandoned''))
       else Inr (set_epoch e (\<lambda>r. r\<lparr>ep_status := Abandoned, ep_abandoned_at := Some now,
              ep_abandon_reason := Some (strip why)\<rparr>) l)))"

definition report_bytes :: "ledger \<Rightarrow> nat \<Rightarrow> ledger_error + bytes" where
  "report_bytes l e =
    rbind (epoch_of l e) (\<lambda>r.
      case ep_report_body r of
        Some b \<Rightarrow> if is_status [Complete, Published, Abandoned] r then Inr b
                  else Inl (LedgerError (''epoch '' @ show_nat e @ '' has no completed report''))
      | None \<Rightarrow> Inl (LedgerError (''epoch '' @ show_nat e @ '' has no completed report'')))"

definition report_digest :: "ledger \<Rightarrow> nat \<Rightarrow> ledger_error + string" where
  "report_digest l e =
    rbind (epoch_of l e) (\<lambda>r.
      case ep_report_digest r of
        Some d \<Rightarrow> Inr d
      | None \<Rightarrow> Inl (LedgerError (''epoch '' @ show_nat e @ '' has no completed report'')))"

text \<open>\<open>supplied = report_digest or expected\<close>: an empty text counts as none.\<close>

definition supplied_digest :: "string option \<Rightarrow> epoch_row \<Rightarrow> string option" where
  "supplied_digest d r = (if d = None \<or> d = Some [] then ep_report_digest r else d)"

definition mark_published :: "instant \<Rightarrow> nat \<Rightarrow> string option \<Rightarrow> ledger \<Rightarrow> ledger_error + ledger" where
  "mark_published now e d l =
    rbind (epoch_of l e) (\<lambda>r.
      if ep_status r = Published then
        (if supplied_digest d r \<noteq> ep_report_digest r
         then Inl (LedgerError ''epoch already published with a different digest'') else Inr l)
      else if ep_status r \<noteq> Complete
        then Inl (LedgerError (''epoch '' @ show_nat e @ '' is '' @ epoch_status_text (ep_status r) @ ''; cannot publish''))
      else if supplied_digest d r \<noteq> ep_report_digest r
        then Inl (LedgerError ''published digest does not match persisted report bytes'')
      else Inr (set_epoch e (\<lambda>r. r\<lparr>ep_status := Published, ep_published_at := Some now\<rparr>) l))"

definition blocking_epoch :: "ledger \<Rightarrow> epoch_row option" where
  "blocking_epoch l = find (is_status [Running, Complete]) (epochs l)"

definition latest_published_epoch_id :: "ledger \<Rightarrow> nat option" where
  "latest_published_epoch_id l = map_option ep_id (newest (filter (is_status [Published]) (epochs l)))"

section \<open>Challenges, artifacts and timings\<close>

definition find_challenge :: "ledger \<Rightarrow> string \<Rightarrow> challenge_row option" where
  "find_challenge l cid = find (\<lambda>c. ch_id c = cid) (challenges l)"

definition new_challenge :: "instant \<Rightarrow> string \<Rightarrow> nat \<Rightarrow> string \<Rightarrow> challenge_row" where
  "new_challenge now cid e miner =
    \<lparr>ch_id = cid, ch_epoch = e, ch_hotkey = miner, ch_status = Issued, ch_units = 0, ch_issued_at = now,
     ch_resolved_at = None\<rparr>"

definition issue_challenge :: "instant \<Rightarrow> string \<Rightarrow> string \<Rightarrow> nat \<Rightarrow> ledger \<Rightarrow> ledger_error + ledger" where
  "issue_challenge now cid miner e l =
    (if cid = [] \<or> miner = [] then Inl (LedgerError ''challenge_id and hotkey are required'')
     else rbind (require_running l e ''issue challenges'') (\<lambda>_.
       if find_challenge l cid \<noteq> None then Inl (LedgerError ''duplicate challenge_id'')
       else Inr (l\<lparr>challenges := challenges l @ [new_challenge now cid e miner]\<rparr>)))"

definition record_work_artifacts :: "string \<Rightarrow> bytes \<Rightarrow> bytes \<Rightarrow> ledger \<Rightarrow> ledger_error + ledger" where
  "record_work_artifacts cid item_body result_body l =
    (if cid = [] then Inl (LedgerError ''work artifacts are invalid'')
     else case find (\<lambda>a. wa_challenge a = cid) (artifacts l) of
         Some a \<Rightarrow>
           if wa_item_body a \<noteq> item_body \<or> wa_result_body a \<noteq> result_body
           then Inl (LedgerError ''work artifacts are immutable'') else Inr l
       | None \<Rightarrow> Inr (l\<lparr>artifacts := artifacts l
           @ [\<lparr>wa_challenge = cid, wa_item_body = item_body, wa_result_body = result_body\<rparr>]\<rparr>))"

text \<open>The column references the challenges table, and SQLite integers have 64 bits.\<close>

definition record_work_timing :: "timing_row \<Rightarrow> ledger \<Rightarrow> ledger_error + ledger" where
  "record_work_timing t l =
    (if tm_challenge t = [] \<or> tm_dispatch t < 0 \<or> tm_verified t < tm_dispatch t
        \<or> tm_job_class t \<notin> {''canonical'', ''customer''} \<or> tm_boot_id t = []
     then Inl (LedgerError ''work timing is invalid'')
     else case find (\<lambda>r. tm_challenge r = tm_challenge t) (timings l) of
         Some r \<Rightarrow> if r \<noteq> t then Inl (LedgerError ''work timing is immutable'') else Inr l
       | None \<Rightarrow>
           if tm_verified t > LEDGER_MAX_INTEGER then Inl LedgerOverflow
           else if find_challenge l (tm_challenge t) = None then Inl LedgerIntegrity
           else Inr (l\<lparr>timings := timings l @ [t]\<rparr>))"

end
