(* ===== verification/Ledger_Jobs.thy ===== *)
theory Ledger_Jobs
  imports Ledger
begin

text \<open>
  The customer jobs of \<open>ledger.py\<close>: submission, leases, and the resolution of a challenge together
  with the lease that dispatched it.  Work units are whole numbers of at most 15 digits,
  which floats and their sums represent exactly; other numbers are outside the model.
\<close>

section \<open>Payloads\<close>

definition MAX_CUSTOMER_JOB_RESULT_BYTES :: nat where "MAX_CUSTOMER_JOB_RESULT_BYTES = 64 * 1024"

definition MAX_CUSTOMER_JOB_ERROR_LENGTH :: nat where "MAX_CUSTOMER_JOB_ERROR_LENGTH = 1000"

definition MAX_ACTIVE_CUSTOMER_JOBS :: nat where "MAX_ACTIVE_CUSTOMER_JOBS = 1024"

definition MAX_ACTIVE_CUSTOMER_JOBS_PER_CUSTOMER :: nat where "MAX_ACTIVE_CUSTOMER_JOBS_PER_CUSTOMER = 64"

definition MAX_CUSTOMER_JOB_STORAGE_BYTES :: nat where "MAX_CUSTOMER_JOB_STORAGE_BYTES = 256 * 1024 * 1024"

definition CUSTOMER_JOB_IDEMPOTENCY_RE :: "string \<Rightarrow> bool" where
  "CUSTOMER_JOB_IDEMPOTENCY_RE s \<longleftrightarrow> 1 \<le> length s \<and> length s \<le> 128 \<and> visible_ascii s"

definition CUSTOMER_ID_RE :: "string \<Rightarrow> bool" where
  "CUSTOMER_ID_RE s \<longleftrightarrow> s \<noteq> [] \<and> length s \<le> 128 \<and> is_alnum (hd s)
     \<and> list_all (\<lambda>c. is_alnum c \<or> c \<in> {CHR ''.'', CHR ''_'', CHR '':'', CHR ''-''}) (tl s)"

text \<open>
  The text of stored bytes.  \<open>json.loads\<close> guesses UTF-16 or UTF-32 from zero bytes; bytes that are
  not ASCII or contain a zero are outside the model.
\<close>

definition ascii_text :: "bytes \<Rightarrow> ledger_error + string" where
  "ascii_text bs =
    (if 0 \<in> set bs then Inl LedgerOutsideModel
     else case decode_ascii bs of Some t \<Rightarrow> Inr t | None \<Rightarrow> Inl LedgerOutsideModel)"

text \<open>A strict reader whose every \<open>ValueError\<close> becomes one error.\<close>

definition strict_value :: "bytes \<Rightarrow> string \<Rightarrow> ledger_error + pyval" where
  "strict_value body message =
    rbind (ascii_text body) (\<lambda>t.
    case json_loads True t of
      Inr v \<Rightarrow> Inr v
    | Inl e \<Rightarrow> if e = JsonOutsideModel \<or> e = JsonFuel \<or> e = JsonConstant then Inl LedgerOutsideModel
               else Inl (LedgerError message))"

definition strict_object :: "bytes \<Rightarrow> string \<Rightarrow> ledger_error + (string \<times> pyval) list" where
  "strict_object body message =
    rbind (strict_value body message) (\<lambda>v. case v of PDict kvs \<Rightarrow> Inr kvs | _ \<Rightarrow> Inl (LedgerError message))"

definition customer_item_value :: "SatWorkItem \<Rightarrow> pyval" where
  "customer_item_value item = PDict
    [(''challenge_id'', PStr (item_challenge_id item)), (''clauses'', clauses_pyval (clauses (item_instance item))),
     (''n_vars'', PInt (n_vars (item_instance item))), (''seed'', PInt (item_seed item))]"

definition customer_item_body :: "raw_work_item \<Rightarrow> ledger_error + bytes" where
  "customer_item_body raw =
    (case validate_sat_work_item raw of
       Inl (SatValueError m) \<Rightarrow> Inl (LedgerError m)
     | Inr item \<Rightarrow> Inr (encode_ascii (dumps (customer_item_value item))))"

definition customer_item_from_body :: "bytes \<Rightarrow> string \<Rightarrow> ledger_error + SatWorkItem" where
  "customer_item_from_body body digest =
    (if sha256_label body \<noteq> digest then Inl (LedgerError ''customer job payload integrity check failed'')
     else rbind (strict_object body ''customer job payload is invalid'') (\<lambda>kvs.
       if set (map fst kvs) \<noteq> {''challenge_id'', ''clauses'', ''n_vars'', ''seed''}
       then Inl (LedgerError ''customer job payload is invalid'')
       else case validate_sat_work_item
                \<lparr>raw_n_vars = dget kvs ''n_vars'', raw_clauses = dget kvs ''clauses'',
                 raw_seed = dget kvs ''seed'', raw_challenge_id = dget kvs ''challenge_id''\<rparr> of
           Inl e \<Rightarrow> Inl (LedgerError ''customer job payload is invalid'')
         | Inr item \<Rightarrow> Inr item))"

definition customer_result_body :: "(string \<times> pyval) list option \<Rightarrow> ledger_error + bytes option" where
  "customer_result_body result =
    (case result of
       None \<Rightarrow> Inr None
     | Some kvs \<Rightarrow>
         if \<not> json_encodable (PDict kvs) then Inl (LedgerError ''customer job result is invalid'')
         else
           (let body = encode_ascii (dumps (PDict kvs)) in
            if length body > MAX_CUSTOMER_JOB_RESULT_BYTES
            then Inl (LedgerError ''customer job result exceeds size limit'') else Inr (Some body)))"

definition dispatch_seed :: "SatWorkItem \<Rightarrow> string \<Rightarrow> nat \<Rightarrow> int" where
  "dispatch_seed original jid attempt =
    int (int_from_bytes_big (take 8 (sha256 (encode_ascii (dumps (PDict
      [(''domain'', PStr ''cathedral-customer-sat-dispatch-v1''), (''job_id'', PStr jid),
       (''attempt'', PInt (int attempt)), (''submitted_seed'', PInt (item_seed original))])))))
     mod 2 ^ 63)"

definition customer_dispatch_item :: "SatWorkItem \<Rightarrow> string \<Rightarrow> nat \<Rightarrow> SatWorkItem" where
  "customer_dispatch_item original jid attempt =
    (let seed = dispatch_seed original jid attempt in
     \<lparr>item_instance = item_instance original, item_seed = seed,
      item_challenge_id = compute_challenge_id (item_instance original) seed\<rparr>)"

section \<open>Leases and snapshots\<close>

record CustomerJobLease =
  le_job :: string
  le_token :: string
  le_owner :: string
  le_epoch :: nat
  le_challenge :: string
  le_attempt :: nat
  le_item :: SatWorkItem

record CustomerJobSnapshot =
  cs_job :: string
  cs_customer :: string
  cs_status :: job_status
  cs_attempts :: nat
  cs_item :: SatWorkItem
  cs_idempotency_key :: "string option"
  cs_owner :: "string option"
  cs_epoch :: "nat option"
  cs_result :: "(string \<times> pyval) list option"
  cs_last_error :: "string option"

definition snapshot_result :: "job_row \<Rightarrow> ledger_error + (string \<times> pyval) list option" where
  "snapshot_result j =
    (case jb_result_body j of
       None \<Rightarrow> Inr None
     | Some body \<Rightarrow>
         if jb_result_digest j \<noteq> Some (sha256_label body)
         then Inl (LedgerError ''customer job result integrity check failed'')
         else rbind (strict_object body ''customer job result is invalid'') (\<lambda>kvs. Inr (Some kvs)))"

definition customer_job_snapshot :: "job_row \<Rightarrow> ledger_error + CustomerJobSnapshot" where
  "customer_job_snapshot j =
    rbind (snapshot_result j) (\<lambda>result.
    rbind (customer_item_from_body (jb_payload_body j) (jb_payload_digest j)) (\<lambda>item.
      Inr \<lparr>cs_job = jb_id j, cs_customer = jb_customer j, cs_status = jb_status j, cs_attempts = jb_attempts j,
           cs_item = item, cs_idempotency_key = jb_idempotency_key j, cs_owner = jb_owner j, cs_epoch = jb_epoch j,
           cs_result = result, cs_last_error = jb_last_error j\<rparr>))"

definition active_job :: "job_row \<Rightarrow> bool" where
  "active_job j \<longleftrightarrow> jb_status j \<in> {Queued, Leased}"

text \<open>The bytes a row is charged with: an active job reserves the largest result.\<close>

definition job_storage :: "job_row \<Rightarrow> nat" where
  "job_storage j =
    length (jb_payload_body j)
    + (if active_job j then MAX_CUSTOMER_JOB_RESULT_BYTES
       else case jb_result_body j of Some b \<Rightarrow> length b | None \<Rightarrow> 0)
    + (case jb_last_error j of Some e \<Rightarrow> length e | None \<Rightarrow> 0)"

definition new_job :: "instant \<Rightarrow> string \<Rightarrow> string \<Rightarrow> string option \<Rightarrow> bytes \<Rightarrow> job_row" where
  "new_job now jid customer key body =
    \<lparr>jb_id = jid, jb_customer = customer, jb_idempotency_key = key, jb_payload_body = body,
     jb_payload_digest = sha256_label body, jb_status = Queued, jb_submitted_at = now, jb_available_at = now,
     jb_attempts = 0, jb_token = None, jb_owner = None, jb_epoch = None, jb_challenge = None, jb_expires_at = None,
     jb_result_body = None, jb_result_digest = None, jb_last_error = None, jb_resolved_at = None\<rparr>"

definition existing_job :: "ledger \<Rightarrow> string \<Rightarrow> string option \<Rightarrow> job_row option" where
  "existing_job l customer key =
    (if key = None then None else find (\<lambda>j. jb_customer j = customer \<and> jb_idempotency_key j = key) (jobs l))"

definition enqueue_customer_job ::
  "instant \<Rightarrow> string \<Rightarrow> raw_work_item \<Rightarrow> string \<Rightarrow> string option \<Rightarrow> ledger
    \<Rightarrow> ledger_error + (CustomerJobSnapshot \<times> ledger)" where
  "enqueue_customer_job now token raw customer key l =
    rbind (checks
      [require (CUSTOMER_ID_RE customer) (LedgerError ''customer_id must be a bounded public identifier''),
       require (pred_option CUSTOMER_JOB_IDEMPOTENCY_RE key)
         (LedgerError ''idempotency_key must be 1-128 printable non-space ASCII bytes'')]) (\<lambda>_.
    rbind (customer_item_body raw) (\<lambda>body.
    case existing_job l customer key of
      Some j \<Rightarrow>
        if jb_payload_digest j \<noteq> sha256_label body
        then Inl (LedgerError ''idempotency_key was already used for different work'')
        else rbind (customer_job_snapshot j) (\<lambda>s. Inr (s, l))
    | None \<Rightarrow>
        rbind (checks
          [require (length (filter active_job (jobs l)) < MAX_ACTIVE_CUSTOMER_JOBS)
             (LedgerError ''customer job queue capacity reached''),
           require (length (filter (\<lambda>j. jb_customer j = customer \<and> active_job j) (jobs l))
               < MAX_ACTIVE_CUSTOMER_JOBS_PER_CUSTOMER)
             (LedgerError ''customer active-job quota reached''),
           require (sum_list (map job_storage (jobs l)) + (length body + MAX_CUSTOMER_JOB_RESULT_BYTES)
               \<le> MAX_CUSTOMER_JOB_STORAGE_BYTES)
             (LedgerError ''customer job ledger storage capacity reached; prune terminal jobs''),
           require (find (\<lambda>j. jb_id j = ''job-'' @ token) (jobs l) = None) LedgerIntegrity]) (\<lambda>_.
          (let j = new_job now (''job-'' @ token) customer key body in
           rbind (customer_job_snapshot j) (\<lambda>s. Inr (s, l\<lparr>jobs := jobs l @ [j]\<rparr>))))))"

definition JOB_ID_RE :: "string \<Rightarrow> bool" where
  "JOB_ID_RE s \<longleftrightarrow> starts_with ''job-'' s \<and> length s = 36 \<and> list_all is_lower_hex (drop 4 s)"

definition find_job :: "ledger \<Rightarrow> string \<Rightarrow> job_row option" where
  "find_job l jid = find (\<lambda>j. jb_id j = jid) (jobs l)"

definition customer_job :: "string \<Rightarrow> ledger \<Rightarrow> ledger_error + CustomerJobSnapshot" where
  "customer_job jid l =
    (if \<not> JOB_ID_RE jid then Inl (LedgerError ''customer job_id is invalid'')
     else case find_job l jid of
         None \<Rightarrow> Inl (LedgerError ''customer job not found'')
       | Some j \<Rightarrow> customer_job_snapshot j)"

definition customer_job_counts :: "ledger \<Rightarrow> job_status \<Rightarrow> nat" where
  "customer_job_counts l s = length (filter (\<lambda>j. jb_status j = s) (jobs l))"

text \<open>
  \<open>DELETE\<close> of the first \<open>limit\<close> terminal jobs by resolution time.  A terminal job without a
  resolution time compares as NULL and stays.
\<close>

definition prunable :: "instant \<Rightarrow> string option \<Rightarrow> job_row \<Rightarrow> bool" where
  "prunable before customer j \<longleftrightarrow>
    jb_status j \<in> {Succeeded, FailedJob} \<and> (case jb_resolved_at j of Some t \<Rightarrow> t < before | None \<Rightarrow> False)
    \<and> (case customer of Some c \<Rightarrow> jb_customer j = c | None \<Rightarrow> True)"

definition prune_customer_jobs ::
  "datetime \<Rightarrow> int \<Rightarrow> string option \<Rightarrow> ledger \<Rightarrow> ledger_error + (nat \<times> ledger)" where
  "prune_customer_jobs resolved_before limit customer l =
    rbind (checks
      [require (is_utc resolved_before) (LedgerError ''resolved_before must be a UTC timestamp''),
       require (1 \<le> limit \<and> limit \<le> 10000) (LedgerError ''prune limit must be between 1 and 10000''),
       require (pred_option CUSTOMER_ID_RE customer) (LedgerError ''customer_id must be a bounded public identifier'')]) (\<lambda>_.
      (let doomed = map jb_id (take (nat limit) (sort_key (\<lambda>j. (the (jb_resolved_at j), jb_id j))
             (filter (prunable (dt_micros resolved_before) customer) (jobs l))));
           kept = filter (\<lambda>j. jb_id j \<notin> set doomed) (jobs l)
       in Inr (length (jobs l) - length kept, l\<lparr>jobs := kept\<rparr>)))"

section \<open>Claiming\<close>

text \<open>A stale lease: its challenge is abandoned, the job is queued again or failed.\<close>

definition expired_lease :: "instant \<Rightarrow> job_row \<Rightarrow> bool" where
  "expired_lease now j \<longleftrightarrow> jb_status j = Leased \<and> (case jb_expires_at j of Some t \<Rightarrow> t \<le> now | None \<Rightarrow> False)"

definition release_expired :: "instant \<Rightarrow> nat \<Rightarrow> job_row \<Rightarrow> job_row" where
  "release_expired now max_attempts j =
    (let terminal = max_attempts \<le> jb_attempts j in
     clear_lease (j\<lparr>jb_status := (if terminal then FailedJob else Queued), jb_available_at := now,
       jb_last_error := Some ''customer job lease expired'', jb_resolved_at := (if terminal then Some now else None)\<rparr>))"

definition reclaim_expired :: "instant \<Rightarrow> nat \<Rightarrow> ledger \<Rightarrow> ledger" where
  "reclaim_expired now max_attempts l =
    (let expired = filter (expired_lease now) (jobs l) in
     l\<lparr>challenges := fold (\<lambda>j. abandon_challenge now (jb_challenge j)) expired (challenges l),
       jobs := fold (\<lambda>j. update_where (\<lambda>k. jb_id k = jb_id j) (release_expired now max_attempts)) expired (jobs l)\<rparr>)"

definition fail_exhausted :: "instant \<Rightarrow> nat \<Rightarrow> ledger \<Rightarrow> ledger" where
  "fail_exhausted now max_attempts l =
    l\<lparr>jobs := update_where (\<lambda>j. jb_status j = Queued \<and> max_attempts \<le> jb_attempts j)
        (\<lambda>j. j\<lparr>jb_status := FailedJob, jb_last_error := Some ''customer job retry limit reached'',
               jb_resolved_at := Some now\<rparr>) (jobs l)\<rparr>"

definition next_job :: "instant \<Rightarrow> nat \<Rightarrow> ledger \<Rightarrow> job_row option" where
  "next_job now max_attempts l =
    (case sort_key (\<lambda>j. (jb_available_at j, jb_submitted_at j, jb_id j))
           (filter (\<lambda>j. jb_status j = Queued \<and> jb_available_at j \<le> now \<and> jb_attempts j < max_attempts) (jobs l)) of
       [] \<Rightarrow> None
     | j # _ \<Rightarrow> Some j)"

definition lease_job :: "CustomerJobLease \<Rightarrow> instant \<Rightarrow> job_row \<Rightarrow> job_row" where
  "lease_job lease expires j =
    j\<lparr>jb_status := Leased, jb_attempts := le_attempt lease, jb_token := Some (le_token lease),
      jb_owner := Some (le_owner lease), jb_epoch := Some (le_epoch lease), jb_challenge := Some (le_challenge lease),
      jb_expires_at := Some expires, jb_last_error := None, jb_resolved_at := None\<rparr>"

definition claim_customer_job ::
  "instant \<Rightarrow> string \<Rightarrow> string \<Rightarrow> nat \<Rightarrow> int \<Rightarrow> int \<Rightarrow> ledger
    \<Rightarrow> ledger_error + (CustomerJobLease option \<times> ledger)" where
  "claim_customer_job now token owner e lease_seconds max_attempts l =
    rbind (checks
      [require (owner \<noteq> [] \<and> length owner \<le> 256) (LedgerError ''customer job owner hotkey is invalid''),
       require (1 \<le> lease_seconds \<and> lease_seconds \<le> 86400) (LedgerError ''lease_seconds must be between 1 and 86400''),
       require (1 \<le> max_attempts \<and> max_attempts \<le> 100) (LedgerError ''max_attempts must be between 1 and 100''),
       require_running l e ''claim customer jobs'']) (\<lambda>_.
    (let l1 = fail_exhausted now (nat max_attempts) (reclaim_expired now (nat max_attempts) l) in
     case next_job now (nat max_attempts) l1 of
       None \<Rightarrow> Inr (None, l1)
     | Some j \<Rightarrow>
         rbind (customer_item_from_body (jb_payload_body j) (jb_payload_digest j)) (\<lambda>original.
         (let attempt = jb_attempts j + 1;
              item = customer_dispatch_item original (jb_id j) attempt;
              lease = \<lparr>le_job = jb_id j, le_token = token, le_owner = owner, le_epoch = e,
                       le_challenge = item_challenge_id item, le_attempt = attempt, le_item = item\<rparr> in
          if find_challenge l1 (item_challenge_id item) \<noteq> None
          then Inl (LedgerError ''failed to issue a unique customer job challenge'')
          else Inr (Some lease,
            l1\<lparr>challenges := challenges l1 @ [new_challenge now (item_challenge_id item) e owner],
               jobs := update_where (\<lambda>k. jb_id k = jb_id j \<and> jb_status k = Queued)
                 (lease_job lease (now + lease_seconds * 1000000)) (jobs l1)\<rparr>)))))"

section \<open>Resolution\<close>

definition resolve_status :: "string \<Rightarrow> challenge_status option" where
  "resolve_status s =
    (if s = ''verified'' then Some Verified else if s = ''failed'' then Some FailedWork
     else if s = ''abandoned'' then Some AbandonedWork else None)"

definition units_error :: ledger_error where
  "units_error = LedgerError ''work_units must be finite and nonnegative''"

text \<open>\<open>float(work_units)\<close> for the numbers the model decides.\<close>

fun whole_units :: "pyval \<Rightarrow> ledger_error + nat" where
  "whole_units (PInt n) =
    (if n < 0 then Inl units_error else if n < 10 ^ 15 then Inr (nat n) else Inl LedgerOutsideModel)"
| "whole_units (PBool b) = Inr (if b then 1 else 0)"
| "whole_units (PFloat t) =
    (if whole_float t then Inr (read_nat (take (length t - 2) t))
     else if t \<in> {''nan'', ''inf'', ''-inf''} then Inl units_error else Inl LedgerOutsideModel)"
| "whole_units (PStr s) = Inl LedgerOutsideModel"
| "whole_units (PObject d) = Inl LedgerOutsideModel"
| "whole_units (POther t) = Inl LedgerOutsideModel"
| "whole_units _ = Inl units_error"

definition validated_resolution_units ::
  "string \<Rightarrow> pyval \<Rightarrow> bool \<Rightarrow> ledger_error + (challenge_status \<times> nat)" where
  "validated_resolution_units status units validator_derived =
    (case resolve_status status of
       None \<Rightarrow> Inl (LedgerError ''invalid resolve status'')
     | Some s \<Rightarrow>
         rbind (whole_units units) (\<lambda>u.
           if s = Verified \<and> \<not> validator_derived
           then Inl (LedgerError ''verified work_units must be validator-derived'')
           else Inr (s, if s = Verified then u else 0)))"

text \<open>\<open>float(work_units) != CUSTOMER_SAT_WORK_UNITS\<close> and the checks before it; a huge integer overflows.\<close>

fun customer_units_ok :: "pyval \<Rightarrow> ledger_error + bool" where
  "customer_units_ok (PInt n) =
    (if 2 ^ 1024 - 2 ^ 970 \<le> \<bar>n\<bar> then Inl LedgerOverflow else Inr (n = int CUSTOMER_SAT_WORK_UNITS))"
| "customer_units_ok (PFloat t) =
    (if whole_float t then Inr (read_nat (take (length t - 2) t) = CUSTOMER_SAT_WORK_UNITS)
     else if t \<in> {''nan'', ''inf'', ''-inf''} then Inr False else Inl LedgerOutsideModel)"
| "customer_units_ok _ = Inr False"

definition validate_customer_result ::
  "CustomerJobLease \<Rightarrow> (string \<times> pyval) list \<Rightarrow> ledger_error + unit" where
  "validate_customer_result lease kvs =
    (if set (map fst kvs) \<noteq> {''satisfiable'', ''assignment'', ''work_units'', ''challenge_id'', ''assigned_hotkey''}
     then Inl (LedgerError ''customer job result schema is invalid'')
     else if dget kvs ''satisfiable'' \<notin> {PBool True, PBool False}
          \<or> dget kvs ''challenge_id'' \<noteq> PStr (le_challenge lease)
          \<or> dget kvs ''assigned_hotkey'' \<noteq> PStr (le_owner lease)
       then Inl (LedgerError ''customer job result does not match its dispatch'')
     else rbind (customer_units_ok (dget kvs ''work_units'')) (\<lambda>ok. checks
       [require ok (LedgerError ''customer job result does not match its dispatch''),
        require (dget kvs ''satisfiable'' = PBool True)
          (LedgerError ''customer job success requires a satisfiable assignment witness''),
        (case int_elements (dget kvs ''assignment'') of
           None \<Rightarrow> Inl (LedgerError ''customer job SAT result assignment is invalid'')
         | Some asg \<Rightarrow> checks
             [require (int (length asg) = n_vars (item_instance (le_item lease))
                  \<and> set (map abs asg) = set [1..n_vars (item_instance (le_item lease))])
                (LedgerError ''customer job SAT result assignment is invalid''),
              require (list_all (list_ex (\<lambda>x. x \<in> set asg)) (clauses (item_instance (le_item lease))))
                (LedgerError ''customer job SAT result does not satisfy its instance'')])]))"

record customer_resolution =
  cr_lease :: "CustomerJobLease option"
  cr_disposition :: "string option"
  cr_result :: "(string \<times> pyval) list option"
  cr_error :: "string option"
  cr_max_attempts :: int

definition validate_customer_resolution ::
  "challenge_status \<Rightarrow> customer_resolution \<Rightarrow> ledger_error + (bytes option \<times> string option)" where
  "validate_customer_resolution status cr =
    (case cr_lease cr of
       None \<Rightarrow>
         if cr_disposition cr \<noteq> None \<or> cr_result cr \<noteq> None \<or> cr_error cr \<noteq> None
         then Inl (LedgerError ''customer resolution fields require a customer lease'') else Inr (None, None)
     | Some lease \<Rightarrow>
         rbind (checks
           [require (cr_disposition cr \<in> {Some ''succeeded'', Some ''failed'', Some ''retry''})
              (LedgerError ''customer job disposition is invalid''),
            require (1 \<le> cr_max_attempts cr \<and> cr_max_attempts cr \<le> 100)
              (LedgerError ''customer_max_attempts must be between 1 and 100''),
            (if cr_disposition cr = Some ''succeeded'' then
               (case cr_result cr of
                  Some kvs \<Rightarrow>
                    if status \<noteq> Verified \<or> cr_error cr \<noteq> None
                    then Inl (LedgerError ''successful customer jobs require a verified bounded result'')
                    else validate_customer_result lease kvs
                | None \<Rightarrow> Inl (LedgerError ''successful customer jobs require a verified bounded result''))
             else require (status \<in> {FailedWork, AbandonedWork} \<and> cr_result cr = None)
               (LedgerError ''failed or retried customer jobs require a failed resolution'')),
            require (case cr_error cr of
                Some x \<Rightarrow> strip x \<noteq> [] \<and> length x \<le> MAX_CUSTOMER_JOB_ERROR_LENGTH | None \<Rightarrow> True)
              (LedgerError ''customer job error must be a bounded nonempty string''),
            require (\<not> (cr_disposition cr \<in> {Some ''failed'', Some ''retry''} \<and> cr_error cr = None))
              (LedgerError ''failed or retried customer jobs require an error'')]) (\<lambda>_.
         rbind (customer_result_body (cr_result cr)) (\<lambda>body. Inr (body, map_option strip (cr_error cr)))))"

definition require_current_customer_lease :: "instant \<Rightarrow> CustomerJobLease \<Rightarrow> ledger \<Rightarrow> ledger_error + unit" where
  "require_current_customer_lease now lease l =
    (case find_job l (le_job lease) of
       None \<Rightarrow> Inl (LedgerError ''customer job not found'')
     | Some j \<Rightarrow>
         if \<not> (jb_status j = Leased \<and> jb_token j = Some (le_token lease) \<and> jb_owner j = Some (le_owner lease)
               \<and> jb_epoch j = Some (le_epoch lease) \<and> jb_challenge j = Some (le_challenge lease)
               \<and> jb_attempts j = le_attempt lease)
         then Inl (LedgerError ''customer job lease is stale or does not match its dispatch'')
         else rbind (customer_item_from_body (jb_payload_body j) (jb_payload_digest j)) (\<lambda>original.
           checks
             [require (le_item lease = customer_dispatch_item original (le_job lease) (le_attempt lease))
                (LedgerError ''customer job lease item does not match its durable payload''),
              require (case jb_expires_at j of Some t \<Rightarrow> now < t | None \<Rightarrow> False)
                (LedgerError ''customer job lease has expired'')]))"

definition resolve_challenge_row ::
  "instant \<Rightarrow> string \<Rightarrow> challenge_status \<Rightarrow> nat \<Rightarrow> ledger \<Rightarrow> ledger_error + (challenge_row \<times> ledger)" where
  "resolve_challenge_row now cid status units l =
    (case find_challenge l cid of
       None \<Rightarrow> Inl (LedgerError ''challenge not found'')
     | Some c \<Rightarrow>
         (case find (at_epoch (ch_epoch c)) (epochs l) of
            None \<Rightarrow> Inl (LedgerError ''challenge not found'')
          | Some e \<Rightarrow>
              if ep_status e \<noteq> Running
              then Inl (LedgerError ''challenge can only be resolved while its epoch is running'')
              else if ch_status c \<noteq> Issued then Inl (LedgerError ''challenge is already resolved'')
              else Inr (c, l\<lparr>challenges := update_where (\<lambda>c. ch_id c = cid)
                  (\<lambda>c. c\<lparr>ch_status := status, ch_units := units, ch_resolved_at := Some now\<rparr>) (challenges l)\<rparr>)))"

definition final_job_status :: "string option \<Rightarrow> nat \<Rightarrow> int \<Rightarrow> job_status" where
  "final_job_status disposition attempt max_attempts =
    (if disposition = Some ''succeeded'' then Succeeded
     else if disposition = Some ''retry'' \<and> int attempt < max_attempts then Queued else FailedJob)"

definition resolve_customer_job ::
  "instant \<Rightarrow> CustomerJobLease \<Rightarrow> customer_resolution \<Rightarrow> bytes option \<Rightarrow> string option \<Rightarrow> ledger \<Rightarrow> ledger_error + ledger" where
  "resolve_customer_job now lease cr body error l =
    (let final = final_job_status (cr_disposition cr) (le_attempt lease) (cr_max_attempts cr);
         mine = (\<lambda>j. jb_id j = le_job lease \<and> jb_status j = Leased \<and> jb_token j = Some (le_token lease)) in
     if length (filter mine (jobs l)) \<noteq> 1
     then Inl (LedgerError ''customer job lease changed during atomic resolution'')
     else Inr (l\<lparr>jobs := update_where mine
       (\<lambda>j. clear_lease (j\<lparr>jb_status := final, jb_available_at := now, jb_result_body := body,
              jb_result_digest := map_option sha256_label body, jb_last_error := error,
              jb_resolved_at := (if final = Queued then None else Some now)\<rparr>)) (jobs l)\<rparr>))"

text \<open>The clock is read once for each of the three steps.\<close>

definition resolve_challenge ::
  "instant \<times> instant \<times> instant \<Rightarrow> string \<Rightarrow> string \<Rightarrow> pyval \<Rightarrow> bool \<Rightarrow> customer_resolution \<Rightarrow> ledger
    \<Rightarrow> ledger_error + ledger" where
  "resolve_challenge clock cid status units validator_derived cr l =
    rbind (validated_resolution_units status units validator_derived) (\<lambda>(s, u).
    rbind (validate_customer_resolution s cr) (\<lambda>(body, error).
    rbind (require (pred_option (\<lambda>lease. le_challenge lease = cid) (cr_lease cr))
             (LedgerError ''customer lease does not match the resolved challenge'')) (\<lambda>_.
    rbind (case cr_lease cr of None \<Rightarrow> Inr () | Some lease \<Rightarrow> require_current_customer_lease (fst clock) lease l) (\<lambda>_.
    rbind (resolve_challenge_row (fst (snd clock)) cid s u l) (\<lambda>(c, l1).
      case cr_lease cr of
        None \<Rightarrow> Inr l1
      | Some lease \<Rightarrow> resolve_customer_job (snd (snd clock)) lease cr body error l1)))))"

end
