(* ===== verification/Py_Float.thy ===== *)
theory Py_Float
  imports Complex_Main Py_Decimal
begin

text \<open>
  The floating-point steps of the score report: the quotient of two whole numbers, rounded to a
  double, its text as \<open>repr\<close> writes it, and the range tests on a float read from JSON.  A
  float is its exact value, a rational number; the quotients are at most 1, and far above the
  smallest normal double.
\<close>

section \<open>Division\<close>

text \<open>Round to nearest, ties to even.\<close>

definition round_even :: "nat \<Rightarrow> nat \<Rightarrow> nat" where
  "round_even p q =
    (let d = p div q; r = p mod q in
     if 2 * r < q \<or> 2 * r = q \<and> even d then d else d + 1)"

text \<open>The number of doublings that bring \<open>a / b\<close> to 53 significant bits.\<close>

function doublings :: "nat \<Rightarrow> nat \<Rightarrow> nat" where
  "doublings a b = (if a = 0 \<or> 2 ^ 52 * b \<le> a then 0 else Suc (doublings (2 * a) b))"
  by auto
termination by (relation "measure (\<lambda>(a, b). 2 ^ 52 * b - a)") auto

declare doublings.simps [simp del]

text \<open>\<open>a / b\<close> for \<open>a \<le> b\<close> and \<open>0 < b\<close>.\<close>

definition float_div :: "nat \<Rightarrow> nat \<Rightarrow> rat" where
  "float_div a b = (let k = doublings a b in of_nat (round_even (a * 2 ^ k) b) / 2 ^ k)"

section \<open>Text\<close>

text \<open>
  The shortest decimal digits that read back as the float: \<open>n\<close> digits after the \<open>j\<close> zeros that
  follow the point, the first \<open>n\<close> for which rounding the decimal gives the float back.
\<close>

definition decimal_digits :: "rat \<Rightarrow> nat \<Rightarrow> nat" where
  "decimal_digits x t = (case quotient_of x of (p, q) \<Rightarrow> round_even (nat p * 10 ^ t) (nat q))"

definition leading_zeros :: "rat \<Rightarrow> nat" where
  "leading_zeros x = (case find (\<lambda>j. 1 \<le> x * 10 ^ Suc j) [0..<20] of Some j \<Rightarrow> j | None \<Rightarrow> 20)"

definition repr_digits :: "rat \<Rightarrow> nat \<times> nat" where
  "repr_digits x =
    (let j = leading_zeros x in
     case find (\<lambda>n. float_div (decimal_digits x (j + n)) (10 ^ (j + n)) = x) [1..<17] of
       Some n \<Rightarrow> (decimal_digits x (j + n), j + n)
     | None \<Rightarrow> (decimal_digits x (j + 17), j + 17))"

definition strip_zeros :: "string \<Rightarrow> string" where
  "strip_zeros s = rev (dropWhile (\<lambda>c. c = CHR ''0'') (rev s))"

text \<open>\<open>repr\<close> of a float between 0 and 1: an exponent from the fourth zero on.\<close>

definition float_repr :: "rat \<Rightarrow> string" where
  "float_repr x =
    (if x = 0 then ''0.0''
     else if x = 1 then ''1.0''
     else case repr_digits x of (d, t) \<Rightarrow>
       (let ds = strip_zeros (show_nat d); zeros = t - length (show_nat d) in
        if zeros < 4 then ''0.'' @ replicate zeros (CHR ''0'') @ ds
        else hd ds # (if tl ds = [] then [] else CHR ''.'' # tl ds) @ ''e-'' @ pad_dec 2 (zeros + 1)))"

section \<open>Reading\<close>

definition decimal_value :: "bool \<Rightarrow> string \<Rightarrow> int \<Rightarrow> rat" where
  "decimal_value neg ds e =
    (if neg then - 1 else 1) * of_nat (read_nat ds)
      * (if 0 \<le> e then 10 ^ nat e else 1 / 10 ^ nat (- e))"

text \<open>
  \<open>float(text)\<close> lies between 0 and 1, and above 0: the nearest double is 0 up to half the smallest
  double, and 1 up to half a unit above 1.
\<close>

definition half_tiny :: rat where "half_tiny = 1 / 2 ^ 1075"

definition float_in_unit :: "rat \<Rightarrow> bool" where
  "float_in_unit v \<longleftrightarrow> - half_tiny \<le> v \<and> v \<le> 1 + 1 / 2 ^ 53"

definition float_positive :: "rat \<Rightarrow> bool" where
  "float_positive v \<longleftrightarrow> half_tiny < v"

section \<open>Rounding\<close>

lemma round_even_near:
  assumes "0 < q"
  shows "\<bar>of_nat (round_even p q) - of_nat p / (of_nat q :: rat)\<bar> \<le> 1 / 2"
proof -
  define x where "x = of_nat (p mod q) / (of_nat q :: rat)"
  have "of_nat p = of_nat (p div q) * of_nat q + (of_nat (p mod q) :: rat)"
    by (metis div_mult_mod_eq of_nat_add of_nat_mult)
  then have p: "of_nat p / of_nat q = of_nat (p div q) + x"
    using assms by (simp add: x_def add_divide_distrib)
  have x: "0 \<le> x" "x < 1" using assms by (simp_all add: x_def)
  have "2 * (p mod q) \<le> q \<Longrightarrow> x \<le> 1 / 2" "q \<le> 2 * (p mod q) \<Longrightarrow> 1 / 2 \<le> x"
    using assms unfolding x_def by (simp_all add: divide_le_eq le_divide_eq)
  then show ?thesis
    unfolding p round_even_def Let_def using x by (cases "2 * (p mod q) < q") (auto simp: abs_le_iff)
qed

lemma round_even_exact [simp]: "0 < q \<Longrightarrow> round_even (n * q) q = n"
  by (simp add: round_even_def)

lemma round_even_mono:
  assumes "p \<le> p'"
  shows "round_even p q \<le> round_even p' q"
proof (cases "p div q = p' div q")
  case True
  have "p mod q \<le> p' mod q" using assms True by (metis add_le_cancel_left div_mult_mod_eq)
  then show ?thesis using True by (auto simp: round_even_def Let_def)
next
  case False
  then have "p div q + 1 \<le> p' div q" using div_le_mono [OF assms, of q] by simp
  then show ?thesis by (simp add: round_even_def Let_def)
qed

lemma doublings_ge: "0 < a \<Longrightarrow> 2 ^ 52 * b \<le> a * 2 ^ doublings a b"
proof (induction a b rule: doublings.induct)
  case (1 a b)
  show ?case
  proof (cases "2 ^ 52 * b \<le> a")
    case True
    then show ?thesis by (subst doublings.simps) simp
  next
    case False
    then have "doublings a b = Suc (doublings (2 * a) b)" using "1.prems" by (subst doublings.simps) simp
    then show ?thesis using 1 False by (simp add: mult.assoc mult.left_commute)
  qed
qed

lemma doublings_less: "0 < doublings a b \<Longrightarrow> a * 2 ^ doublings a b < 2 ^ 53 * b"
proof (induction a b rule: doublings.induct)
  case (1 a b)
  from "1.prems" have ab: "\<not> (a = 0 \<or> 2 ^ 52 * b \<le> a)" by (subst (asm) doublings.simps) (simp split: if_splits)
  then have k: "doublings a b = Suc (doublings (2 * a) b)" by (subst doublings.simps) simp
  show ?case
  proof (cases "doublings (2 * a) b = 0")
    case True
    then show ?thesis using ab k by simp
  next
    case False
    then show ?thesis using 1 ab k by (simp add: mult.assoc mult.left_commute)
  qed
qed

lemma doublings_antimono: "0 < a \<Longrightarrow> a \<le> a' \<Longrightarrow> doublings a' b \<le> doublings a b"
proof (induction a b arbitrary: a' rule: doublings.induct)
  case (1 a b)
  show ?case
  proof (cases "2 ^ 52 * b \<le> a'")
    case True
    then show ?thesis by (subst doublings.simps) simp
  next
    case False
    then have "doublings a b = Suc (doublings (2 * a) b)" "doublings a' b = Suc (doublings (2 * a') b)"
      using "1.prems" by (subst doublings.simps, simp)+
    then show ?thesis using 1 False by simp
  qed
qed

section \<open>Quotients\<close>

text \<open>The quotient is off by at most half a unit in the last of 53 places.\<close>

lemma float_div_near:
  assumes "0 < b"
  shows "\<bar>float_div a b - of_nat a / of_nat b\<bar> \<le> of_nat a / of_nat b / 2 ^ 53"
proof (cases "a = 0")
  case True
  then show ?thesis using assms by (simp add: float_div_def Let_def round_even_def)
next
  case False
  define k where "k = doublings a b"
  have "(of_nat (2 ^ 52 * b) :: rat) \<le> of_nat (a * 2 ^ k)"
    using False doublings_ge [of a b] unfolding k_def of_nat_le_iff by simp
  then have big: "2 ^ 52 / 2 ^ k \<le> (of_nat a / of_nat b :: rat)" using assms by (simp add: field_simps)
  have "\<bar>of_nat (round_even (a * 2 ^ k) b) - of_nat (a * 2 ^ k) / (of_nat b :: rat)\<bar> / 2 ^ k \<le> 1 / 2 / 2 ^ k"
    using round_even_near [OF assms, of "a * 2 ^ k"] by (intro divide_right_mono) auto
  moreover have "float_div a b - of_nat a / of_nat b
      = (of_nat (round_even (a * 2 ^ k) b) - of_nat (a * 2 ^ k) / (of_nat b :: rat)) / 2 ^ k"
    by (simp add: float_div_def Let_def k_def diff_divide_distrib)
  ultimately have "\<bar>float_div a b - of_nat a / of_nat b\<bar> \<le> 1 / 2 / 2 ^ k" by simp
  also have "\<dots> = 2 ^ 52 / 2 ^ k / 2 ^ 53" by simp
  also have "\<dots> \<le> of_nat a / of_nat b / 2 ^ 53" using big by (intro divide_right_mono) auto
  finally show ?thesis .
qed

lemma float_div_self [simp]: "0 < b \<Longrightarrow> float_div b b = 1"
  by (simp add: float_div_def Let_def mult.commute [of b])

lemma float_div_zero [simp]: "float_div 0 b = 0"
  by (cases b) (simp_all add: float_div_def Let_def round_even_def)

lemma float_div_nonneg [simp]: "0 \<le> float_div a b"
  by (simp add: float_div_def Let_def)

lemma float_div_mono:
  assumes "a \<le> a'" "0 < b"
  shows "float_div a b \<le> float_div a' b"
proof (cases "a = 0")
  case False
  let ?k = "doublings a b" and ?k' = "doublings a' b"
  have le: "?k' \<le> ?k" using doublings_antimono False assms(1) by simp
  show ?thesis
  proof (cases "?k' = ?k")
    case True
    then show ?thesis
      using round_even_mono [of "a * 2 ^ ?k" "a' * 2 ^ ?k" b] assms(1)
      by (simp add: float_div_def Let_def divide_right_mono)
  next
    case less: False
    then have "a * 2 ^ ?k \<le> 2 ^ 53 * b" using doublings_less [of a b] le by simp
    from round_even_mono [OF this, of b] have "round_even (a * 2 ^ ?k) b \<le> 2 ^ 53" using assms(2) by simp
    then have "(of_nat (round_even (a * 2 ^ ?k) b) :: rat) \<le> 2 ^ 53" by (metis of_nat_le_iff of_nat_numeral of_nat_power)
    then have "float_div a b \<le> 2 ^ 53 / 2 ^ ?k" by (simp add: float_div_def Let_def divide_right_mono)
    also have "\<dots> \<le> 2 ^ 53 / 2 ^ Suc ?k'"
      using le less by (intro divide_left_mono power_increasing) auto
    also have "\<dots> = 2 ^ 52 / 2 ^ ?k'" by simp
    also have "\<dots> \<le> float_div a' b"
    proof -
      have "2 ^ 52 * b \<le> a' * 2 ^ ?k'" using doublings_ge [of a' b] False assms(1) by simp
      from round_even_mono [OF this, of b] have "2 ^ 52 \<le> round_even (a' * 2 ^ ?k') b" using assms(2) by simp
      then have "(2 ^ 52 :: rat) \<le> of_nat (round_even (a' * 2 ^ ?k') b)" by (metis of_nat_le_iff of_nat_numeral of_nat_power)
      then show ?thesis unfolding float_div_def Let_def by (rule divide_right_mono) simp
    qed
    finally show ?thesis .
  qed
qed simp

lemma float_div_le_one: "a \<le> b \<Longrightarrow> 0 < b \<Longrightarrow> float_div a b \<le> 1"
  using float_div_mono [of a b b] by simp

lemma float_div_pos: "0 < b \<Longrightarrow> 0 < float_div a b \<longleftrightarrow> 0 < a"
proof -
  assume b: "0 < b"
  have "0 < float_div a b" if "0 < a"
  proof -
    have "2 ^ 52 * b \<le> a * 2 ^ doublings a b" using doublings_ge that by simp
    from round_even_mono [OF this, of b] have "0 < round_even (a * 2 ^ doublings a b) b"
      using b by (simp add: order.strict_trans2 [of 0 "2 ^ 52"])
    then show ?thesis by (simp add: float_div_def Let_def)
  qed
  then show ?thesis by (cases a) auto
qed

end
