(* ===== verification/Ledger_Scores.thy ===== *)
theory Ledger_Scores
  imports Ledger_Jobs Py_Float Admission
begin

text \<open>
  The evidence and the score report of an epoch in \<open>ledger.py\<close>: attestations, lifecycle
  snapshots, receipts, the frozen report, its publication and the exports of score classes.
\<close>

section \<open>Attestations\<close>

fun split_on :: "char \<Rightarrow> string \<Rightarrow> string list" where
  "split_on c [] = [[]]"
| "split_on c (x # xs) =
    (if x = c then [] # split_on c xs
     else case split_on c xs of p # ps \<Rightarrow> (x # p) # ps | [] \<Rightarrow> [[x]])"

text \<open>
  \<open>gpu-profile:<id>@profile=<digest>@release=none@registry=none\<close>, or a release of at most 19
  digits with the digest of its registry.
\<close>

definition GPU_POLICY_MODE_RE :: "string \<Rightarrow> bool" where
  "GPU_POLICY_MODE_RE s \<longleftrightarrow>
    (case split_on (CHR ''@'') s of
       [p, d, r, g] \<Rightarrow>
         starts_with ''gpu-profile:'' p
         \<and> (let i = drop 12 p in i \<noteq> [] \<and> length i \<le> 128 \<and> is_alnum (hd i)
              \<and> list_all (\<lambda>c. is_alnum c \<or> c \<in> {CHR ''.'', CHR ''_'', CHR ''-''}) (tl i))
         \<and> starts_with ''profile='' d \<and> DIGEST_RE (drop 8 d)
         \<and> (r = ''release=none'' \<and> g = ''registry=none''
            \<or> starts_with ''release='' r
              \<and> (let n = drop 8 r in n \<noteq> [] \<and> length n \<le> 19 \<and> list_all is_digit n \<and> hd n \<noteq> CHR ''0'')
              \<and> starts_with ''registry='' g \<and> DIGEST_RE (drop 9 g))
     | _ \<Rightarrow> False)"

record attestation_request =
  aq_epoch :: nat
  aq_hotkey :: string
  aq_verdict :: string
  aq_tee_type :: string
  aq_workload :: string
  aq_evidence :: string
  aq_policy_mode :: string
  aq_score_eligible :: "bool option"
  aq_envelope :: "string option"
  aq_envelope_required :: bool
  aq_challenge :: "string option"

definition cpu_shape :: "attestation_request \<Rightarrow> bool" where
  "cpu_shape q \<longleftrightarrow> (aq_verdict q, aq_tee_type q, aq_workload q) = (''VERIFIED'', ''TDX'', ''CPU'')"

definition gpu_shape :: "attestation_request \<Rightarrow> bool" where
  "gpu_shape q \<longleftrightarrow> (aq_verdict q, aq_tee_type q, aq_workload q) = (''VERIFIED'', ''TDX+GPU_CC'', ''GPU'')"

definition requested_eligible :: "attestation_request \<Rightarrow> bool" where
  "requested_eligible q = (case aq_score_eligible q of Some b \<Rightarrow> b | None \<Rightarrow> cpu_shape q)"

definition new_attestation :: "instant \<Rightarrow> attestation_request \<Rightarrow> attestation_row" where
  "new_attestation now q =
    \<lparr>att_epoch = aq_epoch q, att_hotkey = aq_hotkey q, att_tee_type = aq_tee_type q, att_workload = aq_workload q,
     att_evidence = aq_evidence q, att_policy_mode = aq_policy_mode q, att_score_eligible = requested_eligible q,
     att_at = now, att_envelope = aq_envelope q, att_challenge = aq_challenge q\<rparr>"

definition add_attestation :: "instant \<Rightarrow> attestation_request \<Rightarrow> ledger \<Rightarrow> ledger_error + ledger" where
  "add_attestation now q l =
    rbind (checks
      [require (pred_option DIGEST_RE (aq_envelope q)) (LedgerError ''attestation envelope digest is invalid''),
       require (\<not> (aq_envelope_required q \<and> aq_envelope q = None))
         (LedgerError ''production scoring attestation requires a retained envelope digest''),
       require (pred_option DIGEST_RE (aq_challenge q)) (LedgerError ''attestation challenge digest is invalid''),
       require (cpu_shape q \<or> gpu_shape q) (LedgerError ''attestation hardware shape is invalid''),
       require (aq_hotkey q \<noteq> [] \<and> aq_evidence q \<noteq> []) (LedgerError ''hotkey and evidence_digest are required''),
       require (if cpu_shape q then aq_policy_mode q \<in> {''strict'', ''compatibility''}
                else GPU_POLICY_MODE_RE (aq_policy_mode q))
         (LedgerError ''attestation policy_mode does not match its hardware shape''),
       require_running l (aq_epoch q) ''add attestations'']) (\<lambda>_.
    case find (\<lambda>a. att_epoch a = aq_epoch q \<and> att_hotkey a = aq_hotkey q) (attestations l) of
      Some a \<Rightarrow>
        if aq_envelope_required q \<and> att_envelope a = None
        then Inl (LedgerError ''production scoring attestation requires a retained envelope digest'')
        else if a\<lparr>att_at := 0\<rparr> \<noteq> new_attestation 0 q
          then Inl (LedgerError ''attestation evidence is immutable within an epoch'')
        else Inr l
    | None \<Rightarrow> Inr (l\<lparr>attestations := attestations l @ [new_attestation now q]\<rparr>))"

section \<open>Lifecycle snapshots\<close>

text \<open>Python's \<open>==\<close> on the scalars of a document: \<open>True == 1\<close> and \<open>5.0 == 5\<close>.\<close>

fun scalar_number :: "pyval \<Rightarrow> pyval" where
  "scalar_number (PBool b) = PInt (if b then 1 else 0)"
| "scalar_number (PFloat t) = (if whole_float t then PInt (int (read_nat (take (length t - 2) t))) else PFloat t)"
| "scalar_number v = v"

definition scalar_eq :: "pyval \<Rightarrow> pyval \<Rightarrow> bool" where
  "scalar_eq a b \<longleftrightarrow> scalar_number a = scalar_number b"

text \<open>
  \<open>datetime.fromisoformat\<close> on the spellings the program writes: UTC with or without microseconds,
  ending in \<open>Z\<close> or \<open>+00:00\<close>; any other text is outside the model.
\<close>

definition with_z :: "string \<Rightarrow> string" where
  "with_z t = (if drop (length t - 6) t = ''+00:00'' then take (length t - 6) t @ ''Z'' else t)"

definition validated_generated_at :: "string \<Rightarrow> string option \<Rightarrow> ledger_error + string" where
  "validated_generated_at now_text generated =
    (case generated of
       None \<Rightarrow> Inr now_text
     | Some t \<Rightarrow>
         if parse_seconds (with_z t) \<noteq> None \<or> valid_utc_timestamp (with_z t) = Some True then Inr t
         else Inl LedgerOutsideModel)"

definition lifecycle_values :: "lifecycle_row \<Rightarrow> pyval list" where
  "lifecycle_values r =
    [PStr (wl_state r), PInt (wl_generation r), PInt (wl_revision r), PInt (wl_event_id r), PStr (wl_reason r),
     opt_str (wl_evidence_expires_at r), opt_str (wl_evidence_digest r), opt_str (wl_policy_digest r)]"

definition receipt_lifecycle_values :: "(string \<times> pyval) list \<Rightarrow> ledger_error + pyval list" where
  "receipt_lifecycle_values receipt =
    (case (dget receipt ''lifecycle'', dget receipt ''assurance'') of
       (PDict lc, PDict assurance) \<Rightarrow>
         (case dget assurance ''claims'' of
            PDict claims \<Rightarrow>
              (case (dget claims ''hardware'', dget claims ''software'') of
                 (PDict hw, PDict sw) \<Rightarrow> Inr
                   [dget lc ''worker_state'', dget lc ''worker_generation'', dget lc ''worker_revision'',
                    dget lc ''worker_event_id'', dget lc ''worker_reason'', dget lc ''worker_evidence_expires_at'',
                    dget hw ''evidence_digest'', dget sw ''policy_digest'']
               | _ \<Rightarrow> Inl (LedgerError ''receipt lifecycle snapshot is invalid''))
          | _ \<Rightarrow> Inl (LedgerError ''receipt lifecycle snapshot is invalid''))
     | _ \<Rightarrow> Inl (LedgerError ''receipt lifecycle snapshot is invalid''))"

definition receipt_matches_lifecycle :: "(string \<times> pyval) list \<Rightarrow> lifecycle_row \<Rightarrow> ledger_error + unit" where
  "receipt_matches_lifecycle receipt r =
    rbind (receipt_lifecycle_values receipt) (\<lambda>vs.
      require (list_all2 scalar_eq vs (lifecycle_values r))
        (LedgerError ''receipt does not match the epoch worker lifecycle snapshot''))"

definition snapshot_row :: "nat \<Rightarrow> LifecycleSnapshot \<Rightarrow> string \<Rightarrow> ledger_error + lifecycle_row" where
  "snapshot_row e s captured_at =
    (case optional_canonical_utc (evidence_expires_at s) of
       Inl x \<Rightarrow> Inl LedgerValueError
     | Inr expires \<Rightarrow> Inr
         \<lparr>wl_epoch = e, wl_hotkey = hotkey s, wl_state = WorkerLifecycleState_value (ls_state s),
          wl_generation = generation s, wl_revision = revision s, wl_event_id = event_id s,
          wl_reason = LifecycleReason_value (reason s), wl_evidence_expires_at = expires,
          wl_evidence_digest = evidence_digest s, wl_policy_digest = policy_digest s, wl_snapshot_at = captured_at\<rparr>)"

definition stored_receipt :: "bytes \<Rightarrow> string \<Rightarrow> ledger_error + (string \<times> pyval) list" where
  "stored_receipt body message =
    rbind (ascii_text body) (\<lambda>t.
    case parse_receipt_json t of
      Inr kvs \<Rightarrow> Inr kvs
    | Inl ReceiptOutsideModel \<Rightarrow> Inl LedgerOutsideModel
    | Inl _ \<Rightarrow> Inl (LedgerError message))"

definition find_lifecycle :: "ledger \<Rightarrow> nat \<Rightarrow> string \<Rightarrow> lifecycle_row option" where
  "find_lifecycle l e miner = find (\<lambda>r. wl_epoch r = e \<and> wl_hotkey r = miner) (lifecycles l)"

definition add_lifecycle_snapshot ::
  "string \<Rightarrow> nat \<Rightarrow> LifecycleSnapshot \<Rightarrow> string option \<Rightarrow> ledger \<Rightarrow> ledger_error + ledger" where
  "add_lifecycle_snapshot now_text e s snapshot_at l =
    (if \<not> (hotkey s \<noteq> [] \<and> list_all (\<lambda>n. 0 < n \<and> n \<le> LEDGER_MAX_INTEGER) [generation s, revision s, event_id s])
     then Inl (LedgerError ''worker lifecycle snapshot is invalid'')
     else rbind (validated_generated_at now_text snapshot_at) (\<lambda>captured_at.
       rbind (snapshot_row e s captured_at) (\<lambda>row.
       rbind (require_running l e ''add worker lifecycle snapshots'') (\<lambda>_.
       case find_lifecycle l e (hotkey s) of
         Some r \<Rightarrow>
           if lifecycle_values r \<noteq> lifecycle_values row
           then Inl (LedgerError ''worker lifecycle snapshot is immutable within an epoch'') else Inr l
       | None \<Rightarrow>
           rbind (case find (\<lambda>r. rr_epoch r = e \<and> rr_hotkey r = hotkey s) (receipts l) of
                    Some r \<Rightarrow> rbind (stored_receipt (rr_body r) ''stored receipt body is invalid'')
                                (\<lambda>doc. receipt_matches_lifecycle doc row)
                  | None \<Rightarrow> Inr ()) (\<lambda>_.
             Inr (l\<lparr>lifecycles := lifecycles l @ [row]\<rparr>))))))"

section \<open>Receipts\<close>

record receipt_request =
  rcq_receipt_id :: string
  rcq_body :: bytes
  rcq_digest :: string
  rcq_issued_at :: string

definition RECEIPT_ROW_ID_RE :: "string \<Rightarrow> bool" where
  "RECEIPT_ROW_ID_RE s \<longleftrightarrow> starts_with ''receipt-'' s \<and> DIGEST_RE (drop 8 s)"

text \<open>The units of a receipt: the text of a whole number, as receipts write it.\<close>

fun receipt_units :: "pyval \<Rightarrow> ledger_error + nat" where
  "receipt_units (PStr s) =
    (if s \<noteq> [] \<and> length s \<le> 15 \<and> list_all is_digit s then Inr (read_nat s) else Inl LedgerOutsideModel)"
| "receipt_units (PInt n) = (if 0 \<le> n \<and> n < 10 ^ 15 then Inr (nat n) else Inl LedgerOutsideModel)"
| "receipt_units (PBool b) = Inr (if b then 1 else 0)"
| "receipt_units (PFloat t) = Inl LedgerOutsideModel"
| "receipt_units _ = Inl (LedgerError ''receipt work units are invalid'')"

definition checked_receipt ::
  "string \<Rightarrow> challenge_status \<Rightarrow> nat \<Rightarrow> receipt_request \<Rightarrow> ledger_error + (string \<times> pyval) list" where
  "checked_receipt cid status units q =
    rbind (checks
      [require (RECEIPT_ROW_ID_RE (rcq_receipt_id q)) (LedgerError ''receipt_id is invalid''),
       require (rcq_body q \<noteq> []) (LedgerError ''receipt_body must be nonempty bytes''),
       require (DIGEST_RE (rcq_digest q)) (LedgerError ''receipt_digest is invalid''),
       require (sha256_label (rcq_body q) = rcq_digest q) (LedgerError ''receipt digest does not match receipt bytes''),
       require (rcq_issued_at q \<noteq> []) (LedgerError ''receipt issued_at is required'')]) (\<lambda>_.
    rbind (stored_receipt (rcq_body q) ''receipt body is invalid'') (\<lambda>receipt.
    case dget receipt ''work'' of
      PDict wk \<Rightarrow>
        if encode_ascii (dumps (PDict receipt)) \<noteq> rcq_body q
           \<or> dget receipt ''receipt_id'' \<noteq> PStr (rcq_receipt_id q) \<or> dget receipt ''issued_at'' \<noteq> PStr (rcq_issued_at q)
           \<or> dget wk ''challenge_id'' \<noteq> PStr cid
           \<or> dget wk ''status'' \<notin> PStr ` set (if status = Verified then [''passed'']
                 else [''passed'', ''failed'', ''stale'', ''revoked''])
        then Inl (LedgerError ''receipt body does not match its work resolution'')
        else rbind (receipt_units (dget wk ''work_units'')) (\<lambda>n.
          if n \<noteq> units then Inl (LedgerError ''receipt work units do not match their resolution'') else Inr receipt)
    | _ \<Rightarrow> Inl (LedgerError ''receipt body does not match its work resolution'')))"

text \<open>The row of a receipt, unless its identifier, challenge or worker already has one.\<close>

definition insert_receipt :: "receipt_row \<Rightarrow> ledger \<Rightarrow> ledger_error + ledger" where
  "insert_receipt r l =
    (if list_ex (\<lambda>s. rr_id s = rr_id r \<or> rr_challenge s = rr_challenge r
          \<or> rr_epoch s = rr_epoch r \<and> rr_hotkey s = rr_hotkey r) (receipts l)
     then Inl (LedgerError ''failed to persist receipt atomically'')
     else Inr (l\<lparr>receipts := receipts l @ [r]\<rparr>))"

definition resolve_challenge_with_receipt ::
  "instant \<times> instant \<times> instant \<Rightarrow> string \<Rightarrow> string \<Rightarrow> pyval \<Rightarrow> bool \<Rightarrow> receipt_request \<Rightarrow> customer_resolution
    \<Rightarrow> ledger \<Rightarrow> ledger_error + ledger" where
  "resolve_challenge_with_receipt clock cid status units validator_derived q cr l =
    rbind (validated_resolution_units status units validator_derived) (\<lambda>(s, u).
    rbind (checked_receipt cid s u q) (\<lambda>receipt.
    rbind (validate_customer_resolution s cr) (\<lambda>(body, error).
    rbind (require (pred_option (\<lambda>lease. le_challenge lease = cid) (cr_lease cr))
             (LedgerError ''customer lease does not match the resolved challenge'')) (\<lambda>_.
    rbind (case cr_lease cr of None \<Rightarrow> Inr () | Some lease \<Rightarrow> require_current_customer_lease (fst clock) lease l) (\<lambda>_.
    rbind (resolve_challenge_row (fst (snd clock)) cid s u l) (\<lambda>(c, l1).
    rbind (require (scalar_eq (dget receipt ''epoch_id'') (PInt (int (ch_epoch c)))
                    \<and> dget receipt ''subject_hotkey'' = PStr (ch_hotkey c))
             (LedgerError ''receipt subject does not match its issued challenge'')) (\<lambda>_.
    rbind (case find_lifecycle l1 (ch_epoch c) (ch_hotkey c) of
             Some r \<Rightarrow> receipt_matches_lifecycle receipt r | None \<Rightarrow> Inr ()) (\<lambda>_.
    rbind (insert_receipt
             \<lparr>rr_id = rcq_receipt_id q, rr_epoch = ch_epoch c, rr_hotkey = ch_hotkey c, rr_challenge = cid,
              rr_status = s, rr_body = rcq_body q, rr_digest = rcq_digest q, rr_issued_at = rcq_issued_at q\<rparr> l1) (\<lambda>l2.
      case cr_lease cr of
        None \<Rightarrow> Inr l2
      | Some lease \<Rightarrow> resolve_customer_job (snd (snd clock)) lease cr body error l2)))))))))"

section \<open>The launch grammar of a report\<close>

definition MAX_LAUNCH_VERIFIED_CANDIDATES :: nat where "MAX_LAUNCH_VERIFIED_CANDIDATES = 28"

definition MAX_LAUNCH_HOTKEY_BYTES :: nat where "MAX_LAUNCH_HOTKEY_BYTES = 128"

definition MAX_LAUNCH_WIRE_REPORT_BYTES :: nat where "MAX_LAUNCH_WIRE_REPORT_BYTES = 1024 * 1024"

definition is_launch_hotkey :: "pyval \<Rightarrow> bool" where
  "is_launch_hotkey v \<longleftrightarrow>
    (case v of PStr s \<Rightarrow> 1 \<le> length s \<and> length s \<le> MAX_LAUNCH_HOTKEY_BYTES \<and> strip s = s \<and> visible_ascii s
     | _ \<Rightarrow> False)"

text \<open>\<open>float(value)\<close> is positive, when it lies between 0 and 1.\<close>

definition invalid_score :: ledger_error where
  "invalid_score = LedgerError ''persisted confidential score report has an invalid score''"

fun launch_score :: "pyval \<Rightarrow> ledger_error + bool" where
  "launch_score (PInt n) =
    (if 2 ^ 1024 - 2 ^ 970 \<le> \<bar>n\<bar> then Inl LedgerOverflow
     else if n \<in> {0, 1} then Inr (n = 1) else Inl invalid_score)"
| "launch_score (PFloat t) =
    (case decimal_of_text t of
       Some (DecFinite neg ds e) \<Rightarrow>
         if float_in_unit (decimal_value neg ds e) then Inr (float_positive (decimal_value neg ds e))
         else Inl invalid_score
     | _ \<Rightarrow> Inl LedgerOutsideModel)"
| "launch_score _ = Inl invalid_score"

fun launch_rows :: "pyval list \<Rightarrow> string list \<Rightarrow> nat \<Rightarrow> ledger_error + nat" where
  "launch_rows [] seen verified = Inr verified"
| "launch_rows (PDict row # rows) seen verified =
    (case dget row ''miner_hotkey'' of
       PStr h \<Rightarrow>
         if \<not> is_launch_hotkey (PStr h) \<or> h \<in> set seen
         then Inl (LedgerError ''persisted confidential score report has an invalid or duplicate hotkey'')
         else rbind (launch_score (dget row ''score'')) (\<lambda>positive.
           launch_rows rows (h # seen) (if positive then verified + 1 else verified))
     | _ \<Rightarrow> Inl (LedgerError ''persisted confidential score report has an invalid or duplicate hotkey''))"
| "launch_rows (_ # rows) seen verified =
    Inl (LedgerError ''persisted confidential score report has an invalid score row'')"

definition validate_launch_report_cardinality :: "bytes \<Rightarrow> ledger_error + unit" where
  "validate_launch_report_cardinality body =
    (if length body > MAX_LAUNCH_WIRE_REPORT_BYTES
     then Inl (LedgerError ''persisted confidential score report exceeds the subnet intake limit'')
     else rbind (ascii_text body) (\<lambda>t.
       case json_loads True t of
         Inl e \<Rightarrow>
           if e = JSONDecodeError then Inl (LedgerError ''persisted score report is not valid JSON'')
           else if e = JsonIntDigits then Inl LedgerValueError else Inl LedgerOutsideModel
       | Inr (PDict doc) \<Rightarrow>
           if dget doc ''source'' \<noteq> PStr ''cathedral_confidential_tdx''
           then Inl (LedgerError ''persisted score report is not a confidential score report'')
           else (case dget doc ''scores'' of
               PList rows \<Rightarrow>
                 if int (length rows) > MAX_LAUNCH_CANDIDATES
                 then Inl (LedgerError ''confidential score report exceeds the shared launch candidate limit'')
                 else rbind (launch_rows rows [] 0) (\<lambda>verified.
                   require (verified \<le> MAX_LAUNCH_VERIFIED_CANDIDATES)
                     (LedgerError ''confidential score report exceeds the shared launch verified-candidate limit''))
             | _ \<Rightarrow> Inl (LedgerError ''persisted confidential score report has no scores list''))
       | Inr _ \<Rightarrow> Inl (LedgerError ''persisted score report is not a confidential score report'')))"

section \<open>Completing an epoch\<close>

definition epoch_challenges :: "ledger \<Rightarrow> nat \<Rightarrow> challenge_row list" where
  "epoch_challenges l e = filter (\<lambda>c. ch_epoch c = e) (challenges l)"

definition verified_units :: "ledger \<Rightarrow> nat \<Rightarrow> string \<Rightarrow> nat" where
  "verified_units l e miner =
    sum_list (map ch_units (filter (\<lambda>c. ch_hotkey c = miner \<and> ch_status c = Verified) (epoch_challenges l e)))"

definition epoch_lifecycles :: "ledger \<Rightarrow> nat \<Rightarrow> lifecycle_row list" where
  "epoch_lifecycles l e = sort_key wl_hotkey (filter (\<lambda>r. wl_epoch r = e) (lifecycles l))"

definition epoch_attestations :: "ledger \<Rightarrow> nat \<Rightarrow> attestation_row list" where
  "epoch_attestations l e = filter (\<lambda>a. att_epoch a = e) (attestations l)"

text \<open>The candidates of an epoch, in the order of the report.\<close>

definition score_universe :: "ledger \<Rightarrow> nat \<Rightarrow> string list \<Rightarrow> string list" where
  "score_universe l e all_hotkeys = sorted_list_of_set (set (all_hotkeys
     @ map ch_hotkey (epoch_challenges l e) @ map att_hotkey (epoch_attestations l e)
     @ map wl_hotkey (epoch_lifecycles l e)))"

text \<open>A worker may earn: attested and eligible, and attested in its lifecycle when the epoch has one.\<close>

definition may_earn :: "ledger \<Rightarrow> nat \<Rightarrow> string \<Rightarrow> bool" where
  "may_earn l e miner \<longleftrightarrow>
    list_ex (\<lambda>a. att_hotkey a = miner \<and> att_score_eligible a) (epoch_attestations l e)
    \<and> (epoch_lifecycles l e = []
       \<or> list_ex (\<lambda>r. wl_hotkey r = miner \<and> wl_state r = WorkerLifecycleState_value ATTESTED) (epoch_lifecycles l e))"

definition gated_units :: "ledger \<Rightarrow> nat \<Rightarrow> string \<Rightarrow> nat" where
  "gated_units l e miner = (if may_earn l e miner then verified_units l e miner else 0)"

definition maximum_units :: "ledger \<Rightarrow> nat \<Rightarrow> string list \<Rightarrow> nat" where
  "maximum_units l e universe = foldl max 0 (map (gated_units l e) universe)"

definition score_of :: "ledger \<Rightarrow> nat \<Rightarrow> string list \<Rightarrow> string \<Rightarrow> rat" where
  "score_of l e universe miner =
    (let m = maximum_units l e universe in if 0 < m then float_div (gated_units l e miner) m else 0)"

definition lifecycle_document :: "lifecycle_row \<Rightarrow> pyval" where
  "lifecycle_document r = PDict
    [(''event_id'', PInt (wl_event_id r)), (''evidence_expires_at'', opt_str (wl_evidence_expires_at r)),
     (''generation'', PInt (wl_generation r)), (''hotkey'', PStr (wl_hotkey r)), (''reason'', PStr (wl_reason r)),
     (''revision'', PInt (wl_revision r)), (''snapshot_at'', PStr (wl_snapshot_at r)), (''state'', PStr (wl_state r))]"

definition score_report ::
  "ledger \<Rightarrow> epoch_row \<Rightarrow> string list \<Rightarrow> string \<Rightarrow> (string \<times> int) option \<Rightarrow> pyval" where
  "score_report l r universe generated_at audience =
    (let e = ep_id r; sc = score_of l e universe in PDict
      ([(''complete'', PBool True), (''epoch'', PInt (ep_source_epoch r)), (''generated_at'', PStr generated_at),
        (''mechanism'', PStr ''cathedral_confidential_tdx''),
        (''metadata'', PDict
          [(''normalization'', PStr ''max''),
           (''attestation_policy_modes'',
              PList (map PStr (sorted_list_of_set (set (map att_policy_mode (epoch_attestations l e)))))),
           (''policy_registry_release'', opt_int (ep_registry_release r)),
           (''policy_registry_digest'', opt_str (ep_registry_digest r)),
           (''worker_lifecycle'', PList (map lifecycle_document
              (filter (\<lambda>w. 0 < sc (wl_hotkey w)) (epoch_lifecycles l e))))]),
        (''scores'', PList (map (\<lambda>h. PDict
           [(''miner_hotkey'', PStr h), (''score'', PFloat (float_repr (sc h)))]) universe)),
        (''source'', PStr ''cathedral_confidential_tdx'')]
       @ (case audience of None \<Rightarrow> [] | Some (network, netuid) \<Rightarrow> [(''network'', PStr network), (''netuid'', PInt netuid)])))"

record complete_request =
  cq_all_hotkeys :: "string list"
  cq_generated_at :: "string option"
  cq_valid_until :: "datetime option"
  cq_network :: "string option"
  cq_netuid :: "int option"

definition score_audience :: "complete_request \<Rightarrow> ledger_error + (string \<times> int) option" where
  "score_audience q =
    (if cq_network q = None \<and> cq_netuid q = None then Inr None
     else rbind (validate_score_audience (cq_network q) (cq_netuid q)) (\<lambda>a. Inr (Some a)))"

definition check_anchored_audience :: "epoch_row \<Rightarrow> (string \<times> int) option \<Rightarrow> ledger_error + unit" where
  "check_anchored_audience r audience =
    (case (ep_anchor_network r, ep_anchor_netuid r) of
       (Some network, Some netuid) \<Rightarrow>
         (case audience of
            None \<Rightarrow> Inl (LedgerError ''an anchored epoch must be completed with its anchored score audience'')
          | Some a \<Rightarrow> require (a = (network, netuid))
              (LedgerError ''score audience does not match the anchored audience of the epoch''))
     | (None, _) \<Rightarrow> Inr ()
     | _ \<Rightarrow> Inl LedgerValueError)"

text \<open>The rows of \<open>epoch_scores\<close>, whose key is the epoch and the hotkey.\<close>

definition insert_scores :: "score_row list \<Rightarrow> ledger \<Rightarrow> ledger_error + ledger" where
  "insert_scores rows l =
    (if list_ex (\<lambda>r. list_ex (\<lambda>s. sr_epoch s = sr_epoch r \<and> sr_hotkey s = sr_hotkey r) (score_rows l)) rows
     then Inl LedgerIntegrity else Inr (l\<lparr>score_rows := score_rows l @ rows\<rparr>))"

definition load_scores :: "ledger \<Rightarrow> nat \<Rightarrow> (string \<times> rat) list" where
  "load_scores l e =
    map (\<lambda>s. (sr_hotkey s, sr_score s)) (sort_key sr_hotkey (filter (\<lambda>s. sr_epoch s = e) (score_rows l)))"

text \<open>The computed scores, the report bytes and the rows; sums above \<open>2 ^ 53\<close> would round and are
  outside the model.\<close>

definition freeze_epoch ::
  "instant \<Rightarrow> epoch_row \<Rightarrow> string \<Rightarrow> (string \<times> int) option \<Rightarrow> complete_request \<Rightarrow> ledger
    \<Rightarrow> ledger_error + ((string \<times> rat) list \<times> ledger)" where
  "freeze_epoch completion r generated_at audience q l =
    (let e = ep_id r; universe = score_universe l e (cq_all_hotkeys q);
         body = encode_ascii (dumps (score_report l r universe generated_at audience));
         rows = map (\<lambda>h. \<lparr>sr_epoch = e, sr_hotkey = h, sr_units = gated_units l e h,
                          sr_score = score_of l e universe h\<rparr>) universe in
     rbind (require (list_all (\<lambda>h. verified_units l e h \<le> 2 ^ 53) universe) LedgerOutsideModel) (\<lambda>_.
     rbind (validate_launch_report_cardinality body) (\<lambda>_.
     rbind (require (case cq_valid_until q of Some t \<Rightarrow> completion < dt_micros t | None \<Rightarrow> True)
              (LedgerError ''score authority expired before epoch completion'')) (\<lambda>_.
     rbind (require (\<not> list_ex (\<lambda>k. is_status [Complete, Published] k \<and> ep_source_epoch k = ep_source_epoch r) (epochs l))
              LedgerIntegrity) (\<lambda>_.
     rbind (insert_scores rows (set_epoch e (\<lambda>r. r\<lparr>ep_status := Complete, ep_completed_at := Some completion,
              ep_generated_at := Some generated_at, ep_report_body := Some body,
              ep_report_digest := Some (sha256_hexdigest body)\<rparr>) l)) (\<lambda>l2.
       Inr (map (\<lambda>h. (h, score_of l e universe h)) universe, l2)))))))"

definition complete_epoch ::
  "string \<Rightarrow> instant \<Rightarrow> nat \<Rightarrow> complete_request \<Rightarrow> ledger \<Rightarrow> ledger_error + ((string \<times> rat) list \<times> ledger)" where
  "complete_epoch now_text completion e q l =
    rbind (validated_generated_at now_text (cq_generated_at q)) (\<lambda>generated_at.
    rbind (score_audience q) (\<lambda>audience.
    rbind (checks
      [require (pred_option is_utc (cq_valid_until q)) (LedgerError ''score authority expiry must be a UTC timestamp''),
       require (list_all (\<lambda>h. h \<noteq> []) (cq_all_hotkeys q)) (LedgerError ''all hotkeys must be nonempty strings'')]) (\<lambda>_.
    rbind (epoch_of l e) (\<lambda>r.
      if is_status [Complete, Published] r then Inr (load_scores l e, l)
      else if ep_status r \<noteq> Running
        then Inl (LedgerError (''epoch '' @ show_nat e @ '' is '' @ epoch_status_text (ep_status r) @ ''; cannot complete''))
      else rbind (check_anchored_audience r audience) (\<lambda>_.
        (let unresolved = length (filter (\<lambda>c. ch_status c = Issued) (epoch_challenges l e)) in
         if unresolved \<noteq> 0
         then Inl (LedgerError (''epoch has '' @ show_nat unresolved @ '' unresolved issued challenge(s)''))
         else freeze_epoch completion r generated_at audience q l))))))"

section \<open>Publication\<close>

definition publishable_report :: "ledger \<Rightarrow> nat \<Rightarrow> ledger_error + (bytes \<times> string)" where
  "publishable_report l e =
    rbind (epoch_of l e) (\<lambda>r.
      case (ep_report_body r, ep_report_digest r) of
        (Some body, Some d) \<Rightarrow>
          if \<not> is_status [Complete, Published] r
          then Inl (LedgerError (''epoch '' @ show_nat e @ '' has no publishable report''))
          else if sha256_hexdigest body \<noteq> d
            then Inl (LedgerError ''persisted report bytes do not match their frozen digest'')
          else rbind (validate_launch_report_cardinality body) (\<lambda>_. Inr (body, d))
      | _ \<Rightarrow> Inl (LedgerError (''epoch '' @ show_nat e @ '' has no publishable report'')))"

text \<open>
  The lock is free while the poster runs: \<open>between\<close> is what other calls did to the ledger
  meanwhile, \<open>post\<close> the status of the acknowledgement.
\<close>

definition post_and_mark_published ::
  "(bytes \<Rightarrow> pyval) \<Rightarrow> (ledger \<Rightarrow> ledger) \<Rightarrow> instant \<Rightarrow> nat \<Rightarrow> ledger \<Rightarrow> ledger_error + ledger" where
  "post_and_mark_published post between now e l =
    rbind (publishable_report l e) (\<lambda>(body, d).
      if post body \<noteq> PStr ''accepted''
      then Inl (LedgerError ''publication acknowledgement status must be accepted'')
      else mark_published now e (Some d) (between l))"

section \<open>Exports of score classes\<close>

record export_request =
  xq_source_epoch :: int
  xq_network :: string
  xq_netuid :: int
  xq_class :: string
  xq_source :: string
  xq_report_id :: string
  xq_previous :: "string option"
  xq_body :: bytes

definition export_stream :: "export_request \<Rightarrow> string \<times> int \<times> string \<times> string" where
  "export_stream q = (xq_network q, xq_netuid q, xq_class q, xq_source q)"

fun latest_export :: "export_row list \<Rightarrow> export_row option" where
  "latest_export [] = None"
| "latest_export (r # rs) =
    (case latest_export rs of
       None \<Rightarrow> Some r
     | Some t \<Rightarrow> Some (if ex_source_epoch t < ex_source_epoch r then r else t))"

definition export_document :: "export_request \<Rightarrow> ledger_error + unit" where
  "export_document q =
    rbind (strict_value (xq_body q) ''score-class report body is invalid'') (\<lambda>v.
      case v of
        PDict doc \<Rightarrow>
          if \<not> floats_known v then Inl LedgerOutsideModel
          else checks
            [require (encode_ascii (dumps v) = xq_body q) (LedgerError ''score-class report body is not canonical JSON''),
             require (scalar_eq (dget doc ''source_epoch'') (PInt (xq_source_epoch q))
                 \<and> dget doc ''network'' = PStr (xq_network q) \<and> scalar_eq (dget doc ''netuid'') (PInt (xq_netuid q))
                 \<and> dget doc ''class_id'' = PStr (xq_class q) \<and> dget doc ''source_id'' = PStr (xq_source q)
                 \<and> dget doc ''report_id'' = PStr (xq_report_id q)
                 \<and> dget doc ''previous_report_id'' = opt_str (xq_previous q))
               (LedgerError ''score-class report body does not match export metadata'')]
      | _ \<Rightarrow> Inl (LedgerError ''score-class report body is not canonical JSON''))"

definition find_export :: "ledger \<Rightarrow> nat \<Rightarrow> string \<times> int \<times> string \<times> string \<Rightarrow> export_row option" where
  "find_export l e stream = find (\<lambda>x. ex_epoch x = e \<and> ex_stream x = stream) (exports l)"

definition previous_score_class_export :: "ledger \<Rightarrow> int \<Rightarrow> string \<times> int \<times> string \<times> string \<Rightarrow> export_row option" where
  "previous_score_class_export l source stream =
    latest_export (filter (\<lambda>x. ex_source_epoch x < source \<and> ex_stream x = stream) (exports l))"

definition record_score_class_export :: "nat \<Rightarrow> export_request \<Rightarrow> ledger \<Rightarrow> ledger_error + (bytes \<times> ledger)" where
  "record_score_class_export e q l =
    rbind (checks
      [require (xq_body q \<noteq> []) (LedgerError ''score-class report body must be nonempty bytes''),
       require (DIGEST_RE (xq_report_id q)) (LedgerError ''score-class report id is invalid''),
       require (pred_option DIGEST_RE (xq_previous q)) (LedgerError ''score-class previous report id is invalid''),
       export_document q]) (\<lambda>_.
    rbind (epoch_of l e) (\<lambda>r.
    rbind (checks
      [require (is_status [Complete, Published] r)
         (LedgerError (''epoch '' @ show_nat e @ '' is '' @ epoch_status_text (ep_status r) @ ''; score facts are not frozen'')),
       require (ep_source_epoch r = xq_source_epoch q)
         (LedgerError ''score-class source epoch does not match ledger epoch''),
       require (- (2 ^ 63) \<le> xq_netuid q \<and> xq_netuid q \<le> LEDGER_MAX_INTEGER) LedgerOverflow]) (\<lambda>_.
    case find_export l e (export_stream q) of
      Some x \<Rightarrow>
        if ex_report_id x = xq_report_id q \<and> ex_body x = xq_body q then Inr (ex_body x, l)
        else Inl (LedgerError ''conflicting duplicate score-class export'')
    | None \<Rightarrow>
        rbind (case latest_export (filter (\<lambda>x. ex_stream x = export_stream q) (exports l)) of
                 None \<Rightarrow> require (xq_previous q = None)
                   (LedgerError ''first score-class export must not declare a previous report id'')
               | Some x \<Rightarrow> checks
                   [require (ex_source_epoch x < xq_source_epoch q)
                      (LedgerError ''score-class source epoch is stale or out of order''),
                    require (xq_previous q = Some (ex_report_id x))
                      (LedgerError ''durable export chain changed before insert'')]) (\<lambda>_.
        rbind (require (0 \<le> xq_netuid q) (LedgerError ''score-class export stream conflicts'')) (\<lambda>_.
          Inr (xq_body q, l\<lparr>exports := exports l
            @ [\<lparr>ex_epoch = e, ex_source_epoch = xq_source_epoch q, ex_stream = export_stream q,
                ex_report_id = xq_report_id q, ex_body = xq_body q, ex_body_digest = sha256_label (xq_body q)\<rparr>]\<rparr>))))))"

definition attested_hotkeys :: "ledger \<Rightarrow> nat \<Rightarrow> string set" where
  "attested_hotkeys l e = set (map att_hotkey (epoch_attestations l e))"

section \<open>Reading rows\<close>

definition attestation_rows :: "ledger \<Rightarrow> nat \<Rightarrow> attestation_row list" where
  "attestation_rows l e = sort_key att_hotkey (epoch_attestations l e)"

definition get_epoch :: "ledger \<Rightarrow> nat \<Rightarrow> epoch_row option" where
  "get_epoch l e = find (at_epoch e) (epochs l)"

definition work_timing_for_challenge :: "ledger \<Rightarrow> string \<Rightarrow> timing_row option" where
  "work_timing_for_challenge l cid = find (\<lambda>t. tm_challenge t = cid) (timings l)"

definition work_artifacts_for_challenge :: "ledger \<Rightarrow> string \<Rightarrow> artifact_row option" where
  "work_artifacts_for_challenge l cid = find (\<lambda>a. wa_challenge a = cid) (artifacts l)"

definition receipt_for_challenge :: "ledger \<Rightarrow> string \<Rightarrow> receipt_row option" where
  "receipt_for_challenge l cid = find (\<lambda>r. rr_challenge r = cid) (receipts l)"

text \<open>The frozen score facts of an epoch, each row with its receipt: the left join on epoch and hotkey.\<close>

record class_snapshot =
  cl_source_epoch :: int
  cl_status :: epoch_status
  cl_generated_at :: "string option"
  cl_network :: pyval
  cl_netuid :: pyval
  cl_registry_release :: "int option"
  cl_registry_digest :: "string option"
  cl_anchor_block :: "int option"
  cl_anchor_hash :: "string option"
  cl_report_digest :: string
  cl_rows :: "(score_row \<times> receipt_row option) list"

definition class_rows :: "ledger \<Rightarrow> nat \<Rightarrow> (score_row \<times> receipt_row option) list" where
  "class_rows l e =
    map (\<lambda>s. (s, find (\<lambda>r. rr_epoch r = e \<and> rr_hotkey r = sr_hotkey s) (receipts l)))
      (sort_key sr_hotkey (filter (\<lambda>s. sr_epoch s = e) (score_rows l)))"

definition frozen_document :: "bytes \<Rightarrow> ledger_error + (string \<times> pyval) list" where
  "frozen_document body =
    rbind (ascii_text body) (\<lambda>t.
      case json_loads True t of
        Inl x \<Rightarrow>
          if x = JSONDecodeError then Inl (LedgerError ''persisted report body is invalid'')
          else if x = JsonIntDigits then Inl LedgerValueError else Inl LedgerOutsideModel
      | Inr (PDict doc) \<Rightarrow>
          if dget doc ''complete'' = PBool True then Inr doc
          else Inl (LedgerError ''persisted report is not a complete score snapshot'')
      | Inr _ \<Rightarrow> Inl (LedgerError ''persisted report is not a complete score snapshot''))"

definition score_class_snapshot :: "ledger \<Rightarrow> nat \<Rightarrow> ledger_error + class_snapshot" where
  "score_class_snapshot l e =
    rbind (epoch_of l e) (\<lambda>r.
      if \<not> is_status [Complete, Published] r
      then Inl (LedgerError (''epoch '' @ show_nat e @ '' is '' @ epoch_status_text (ep_status r) @ ''; score facts are not frozen''))
      else case (ep_report_body r, ep_report_digest r) of
        (Some body, Some d) \<Rightarrow>
          if sha256_hexdigest body \<noteq> d
          then Inl (LedgerError ''persisted report bytes do not match their frozen digest'')
          else rbind (frozen_document body) (\<lambda>doc.
            if list_ex (\<lambda>(s, receipt). 0 < sr_units s \<and> receipt = None) (class_rows l e)
            then Inl (LedgerError ''positive work lacks an assurance receipt'')
            else Inr
              \<lparr>cl_source_epoch = ep_source_epoch r, cl_status = ep_status r, cl_generated_at = ep_generated_at r,
               cl_network = dget doc ''network'', cl_netuid = dget doc ''netuid'',
               cl_registry_release = ep_registry_release r, cl_registry_digest = ep_registry_digest r,
               cl_anchor_block = ep_anchor_block r, cl_anchor_hash = ep_anchor_hash r,
               cl_report_digest = ''sha256:'' @ d, cl_rows = class_rows l e\<rparr>)
      | _ \<Rightarrow> Inl (LedgerError (''epoch '' @ show_nat e @ '' has no completed report'')))"

end
