(* ===== verification/Ledger_Evolution.thy ===== *)
theory Ledger_Evolution
  imports Ledger_Scores
begin

text \<open>
  How a ledger changes over time.  \<open>ledger_step\<close> is one committed call of any method that writes;
  \<open>ledger_evolves\<close> is what all of them guarantee: rows of the evidence tables are only added, a
  resolved challenge stays as it is, and an epoch only moves forward and keeps its report once it
  has one.
\<close>

section \<open>Tables that grow\<close>

definition grows :: "('r \<Rightarrow> 'r \<Rightarrow> bool) \<Rightarrow> 'r list \<Rightarrow> 'r list \<Rightarrow> bool" where
  "grows R xs ys \<longleftrightarrow> length xs \<le> length ys \<and> (\<forall>i < length xs. R (xs ! i) (ys ! i))"

lemma growsI: "length xs \<le> length ys \<Longrightarrow> (\<And>i. i < length xs \<Longrightarrow> R (xs ! i) (ys ! i)) \<Longrightarrow> grows R xs ys"
  by (simp add: grows_def)

lemma grows_refl: "(\<And>x. x \<in> set xs \<Longrightarrow> R x x) \<Longrightarrow> grows R xs xs"
  by (simp add: grows_def)

lemma grows_append: "grows R xs ys \<Longrightarrow> grows R xs (ys @ zs)"
  by (auto simp: grows_def nth_append)

lemma grows_trans:
  assumes "grows R xs ys" "grows R ys zs" "\<And>x y z. R x y \<Longrightarrow> R y z \<Longrightarrow> R x z"
  shows "grows R xs zs"
  using assms unfolding grows_def by (meson dual_order.trans order.strict_trans2)

lemma grows_update:
  assumes "\<And>x. x \<in> set xs \<Longrightarrow> P x \<Longrightarrow> R x (f x)" "\<And>x. R x x"
  shows "grows R xs (update_where P f xs)"
  using assms by (auto simp: grows_def update_where_def)

lemma grows_mem: "grows R xs ys \<Longrightarrow> x \<in> set xs \<Longrightarrow> \<exists>y \<in> set ys. R x y"
  unfolding grows_def in_set_conv_nth by (meson nth_mem order.strict_trans2)

lemma length_update_where [simp]: "length (update_where P f xs) = length xs"
  by (simp add: update_where_def)

lemma set_update_where: "set (update_where P f xs) = (\<lambda>x. if P x then f x else x) ` set xs"
  by (simp add: update_where_def)

lemma map_update_where [simp]: "(\<And>x. g (f x) = g x) \<Longrightarrow> map g (update_where P f xs) = map g xs"
  by (simp add: update_where_def)

lemma fold_grows:
  assumes "\<And>x xs. x \<in> set js \<Longrightarrow> grows R xs (u x xs)" "\<And>x y z. R x y \<Longrightarrow> R y z \<Longrightarrow> R x z" "\<And>x. R x x"
  shows "grows R xs (fold u js xs)"
  using assms(1)
proof (induction js arbitrary: xs)
  case (Cons j js)
  have "grows R xs (u j xs)" using Cons.prems by simp
  moreover have "grows R (u j xs) (fold u js (u j xs))" using Cons by simp
  ultimately show ?case using grows_trans [OF _ _ assms(2)] by auto
qed (simp add: grows_refl assms(3))

section \<open>Rows\<close>

fun status_moves :: "epoch_status \<Rightarrow> epoch_status \<Rightarrow> bool" where
  "status_moves Running t = True"
| "status_moves Complete t = (t \<in> {Complete, Published, Abandoned})"
| "status_moves s t = (t = s)"

definition reported :: "epoch_row \<Rightarrow> bool" where
  "reported r \<longleftrightarrow> is_status [Complete, Published, Abandoned] r"

definition epoch_evolves :: "epoch_row \<Rightarrow> epoch_row \<Rightarrow> bool" where
  "epoch_evolves r s \<longleftrightarrow>
    ep_id s = ep_id r \<and> ep_source_epoch s = ep_source_epoch r \<and> ep_started_at s = ep_started_at r
    \<and> ep_registry_release s = ep_registry_release r \<and> ep_registry_digest s = ep_registry_digest r
    \<and> ep_anchor_network s = ep_anchor_network r \<and> ep_anchor_netuid s = ep_anchor_netuid r
    \<and> ep_anchor_block s = ep_anchor_block r \<and> ep_anchor_hash s = ep_anchor_hash r
    \<and> status_moves (ep_status r) (ep_status s)
    \<and> (reported r \<longrightarrow> ep_report_body s = ep_report_body r \<and> ep_report_digest s = ep_report_digest r
          \<and> ep_generated_at s = ep_generated_at r \<and> ep_completed_at s = ep_completed_at r)"

definition challenge_evolves :: "challenge_row \<Rightarrow> challenge_row \<Rightarrow> bool" where
  "challenge_evolves c d \<longleftrightarrow>
    ch_id d = ch_id c \<and> ch_epoch d = ch_epoch c \<and> ch_hotkey d = ch_hotkey c \<and> ch_issued_at d = ch_issued_at c
    \<and> (ch_status c \<noteq> Issued \<longrightarrow> d = c)"

lemma status_moves_refl [simp]: "status_moves s s"
  by (cases s) auto

lemma status_moves_trans: "status_moves s t \<Longrightarrow> status_moves t u \<Longrightarrow> status_moves s u"
  by (cases s; cases t) auto

lemma epoch_evolves_refl [simp]: "epoch_evolves r r"
  by (simp add: epoch_evolves_def)

lemma epoch_evolves_trans: "epoch_evolves r s \<Longrightarrow> epoch_evolves s t \<Longrightarrow> epoch_evolves r t"
proof -
  assume a: "epoch_evolves r s" "epoch_evolves s t"
  have "reported r \<Longrightarrow> reported s"
    using a(1) by (cases "ep_status r") (auto simp: epoch_evolves_def reported_def is_status_def)
  with a show ?thesis using status_moves_trans by (auto simp: epoch_evolves_def)
qed

lemma challenge_evolves_refl [simp]: "challenge_evolves c c"
  by (simp add: challenge_evolves_def)

lemma challenge_evolves_trans: "challenge_evolves c d \<Longrightarrow> challenge_evolves d f \<Longrightarrow> challenge_evolves c f"
  by (auto simp: challenge_evolves_def)

definition ledger_evolves :: "ledger \<Rightarrow> ledger \<Rightarrow> bool" where
  "ledger_evolves l m \<longleftrightarrow>
    grows epoch_evolves (epochs l) (epochs m) \<and> grows challenge_evolves (challenges l) (challenges m)
    \<and> grows (=) (attestations l) (attestations m) \<and> grows (=) (lifecycles l) (lifecycles m)
    \<and> grows (=) (score_rows l) (score_rows m) \<and> grows (=) (receipts l) (receipts m)
    \<and> grows (=) (artifacts l) (artifacts m) \<and> grows (=) (timings l) (timings m)
    \<and> grows (=) (exports l) (exports m)"

lemma ledger_evolves_refl [simp]: "ledger_evolves l l"
  by (simp add: ledger_evolves_def grows_refl)

lemmas row_grows_trans = grows_trans [of epoch_evolves, OF _ _ epoch_evolves_trans]
  grows_trans [of challenge_evolves, OF _ _ challenge_evolves_trans] grows_trans [of "(=)", OF _ _ trans]

lemma ledger_evolves_trans:
  assumes "ledger_evolves l m" "ledger_evolves m n"
  shows "ledger_evolves l n"
  using assms unfolding ledger_evolves_def
  by - (elim conjE, intro conjI; (rule row_grows_trans; assumption))

lemma grows_same [simp]: "grows (=) xs xs" "grows (=) xs (xs @ ys)" "grows epoch_evolves es es"
  "grows epoch_evolves es (es @ fs)" "grows challenge_evolves cs cs" "grows challenge_evolves cs (cs @ ds)"
  by (simp_all add: grows_refl grows_append)

section \<open>Steps\<close>

text \<open>One committed call.  A call that raises changes nothing, so it is no step.\<close>

inductive ledger_step :: "ledger \<Rightarrow> ledger \<Rightarrow> bool" where
  begins: "begin_epoch now q l = Inr (e, m) \<Longrightarrow> ledger_step l m"
| aborts: "abort_epoch now e l = Inr m \<Longrightarrow> ledger_step l m"
| abandons: "abandon_completed_epoch now e why l = Inr m \<Longrightarrow> ledger_step l m"
| publishes: "mark_published now e d l = Inr m \<Longrightarrow> ledger_step l m"
| issues: "issue_challenge now cid miner e l = Inr m \<Longrightarrow> ledger_step l m"
| keeps_artifacts: "record_work_artifacts cid item_body result_body l = Inr m \<Longrightarrow> ledger_step l m"
| keeps_timing: "record_work_timing t l = Inr m \<Longrightarrow> ledger_step l m"
| enqueues: "enqueue_customer_job now token raw customer key l = Inr (s, m) \<Longrightarrow> ledger_step l m"
| prunes: "prune_customer_jobs before limit customer' l = Inr (n, m) \<Longrightarrow> ledger_step l m"
| claims: "claim_customer_job now token owner e lease_seconds max_attempts l = Inr (lease, m) \<Longrightarrow> ledger_step l m"
| resolves: "resolve_challenge clock cid status units derived cr l = Inr m \<Longrightarrow> ledger_step l m"
| resolves_with_receipt:
    "resolve_challenge_with_receipt clock cid status units derived rq cr l = Inr m \<Longrightarrow> ledger_step l m"
| attests: "add_attestation now aq l = Inr m \<Longrightarrow> ledger_step l m"
| snapshots: "add_lifecycle_snapshot now_text e ls captured l = Inr m \<Longrightarrow> ledger_step l m"
| completes: "complete_epoch now_text completion e cq l = Inr (sc, m) \<Longrightarrow> ledger_step l m"
| exports_class: "record_score_class_export e xq l = Inr (bs, m) \<Longrightarrow> ledger_step l m"

text \<open>The parts of a ledger that a step of each kind can change.\<close>

lemma epoch_of_ok: "epoch_of l e = Inr r \<Longrightarrow> r \<in> set (epochs l) \<and> ep_id r = e"
  by (auto simp: epoch_of_def at_epoch_def find_Some_iff split: option.splits)

lemma set_epoch_evolves:
  assumes "\<And>r. r \<in> set (epochs l) \<Longrightarrow> ep_id r = e \<Longrightarrow> epoch_evolves r (f r)"
  shows "grows epoch_evolves (epochs l) (epochs (set_epoch e f l))"
  unfolding set_epoch_def using assms by (auto simp: at_epoch_def intro!: grows_update)

lemma set_epoch_simps [simp]:
  "challenges (set_epoch e f l) = challenges l" "jobs (set_epoch e f l) = jobs l"
  "attestations (set_epoch e f l) = attestations l" "lifecycles (set_epoch e f l) = lifecycles l"
  "score_rows (set_epoch e f l) = score_rows l" "receipts (set_epoch e f l) = receipts l"
  "artifacts (set_epoch e f l) = artifacts l" "timings (set_epoch e f l) = timings l"
  "exports (set_epoch e f l) = exports l" "next_epoch (set_epoch e f l) = next_epoch l"
  by (simp_all add: set_epoch_def)

lemma abandon_challenge_evolves: "grows challenge_evolves cs (abandon_challenge now cid cs)"
  unfolding abandon_challenge_def by (rule grows_update) (auto simp: challenge_evolves_def)

lemma fold_abandon_evolves:
  "grows challenge_evolves cs (fold (\<lambda>j. abandon_challenge now (jb_challenge j)) js cs)"
  by (rule fold_grows) (auto simp: abandon_challenge_evolves intro: challenge_evolves_trans)

section \<open>Epochs\<close>

text \<open>A report is there exactly from completion on, with the digest of its bytes.\<close>

definition report_ok :: "epoch_row \<Rightarrow> bool" where
  "report_ok r \<longleftrightarrow>
    (if reported r
     then \<exists>b. ep_report_body r = Some b \<and> ep_report_digest r = Some (sha256_hexdigest b)
            \<and> validate_launch_report_cardinality b = Inr ()
     else ep_report_body r = None \<and> ep_report_digest r = None)"

text \<open>What one step can do to the epochs.\<close>

inductive epoch_change :: "ledger \<Rightarrow> ledger \<Rightarrow> bool" where
  same: "epochs m = epochs l \<Longrightarrow> next_epoch m = next_epoch l \<Longrightarrow> epoch_change l m"
| new: "epochs m = epochs l @ [r] \<Longrightarrow> next_epoch m = next_epoch l + 1 \<Longrightarrow> ep_id r = next_epoch l \<Longrightarrow>
    ep_status r = Running \<Longrightarrow> report_ok r \<Longrightarrow> \<forall>s \<in> set (epochs l). \<not> is_status [Running, Complete] s \<Longrightarrow>
    \<forall>s \<in> set (epochs l). is_status [Complete, Published] s \<longrightarrow> ep_source_epoch s < ep_source_epoch r \<Longrightarrow> epoch_change l m"
| moved: "epochs m = update_where (at_epoch (ep_id r)) f (epochs l) \<Longrightarrow> next_epoch m = next_epoch l \<Longrightarrow>
    r \<in> set (epochs l) \<Longrightarrow> is_status [Running, Complete] r \<Longrightarrow> epoch_evolves r (f r) \<Longrightarrow>
    (report_ok r \<longrightarrow> report_ok (f r)) \<Longrightarrow> 
    (reported (f r) \<and> \<not> reported r \<longrightarrow> challenges m = challenges l
       \<and> (\<forall>c \<in> set (challenges l). ch_epoch c = ep_id r \<longrightarrow> ch_status c \<noteq> Issued)) \<Longrightarrow> epoch_change l m"

lemma last_final_ge:
  assumes "s \<in> set (epochs l)" "is_status [Complete, Published] s"
  shows "\<exists>f. last_final l = Some f \<and> ep_source_epoch s \<le> f"
proof -
  let ?xs = "map ep_source_epoch (filter (is_status [Complete, Published]) (epochs l))"
  have mem: "ep_source_epoch s \<in> set ?xs" using assms by force
  then obtain x xs where x: "?xs = x # xs" by (cases ?xs) auto
  have "ep_source_epoch s \<le> foldl max x xs" using mem foldl_max_ge [of x xs "foldl max x xs"] by (auto simp: x)
  then show ?thesis by (simp add: last_final_def x)
qed

lemma begin_epoch_change: "begin_epoch now q l = Inr (e, m) \<Longrightarrow> epoch_change l m"
proof -
  assume b: "begin_epoch now q l = Inr (e, m)"
  then obtain h where none: "find (is_status [Running, Complete]) (epochs l) = None"
    and m: "m = l\<lparr>epochs := epochs l @ [new_epoch now q h (next_epoch l)], next_epoch := next_epoch l + 1\<rparr>"
    and lf: "\<forall>f. last_final l = Some f \<longrightarrow> f < bg_source_epoch q"
    unfolding begin_epoch_def ok_simps
    by (auto simp: ok_simps split: option.splits)
  have "ep_source_epoch s < bg_source_epoch q" if "s \<in> set (epochs l)" "is_status [Complete, Published] s" for s
    using last_final_ge [OF that] lf by force
  then show ?thesis
    using none by (intro epoch_change.new [where r = "new_epoch now q h (next_epoch l)"])
      (auto simp: m new_epoch_def report_ok_def reported_def is_status_def find_None_iff)
qed

lemma moved_change:
  assumes "epoch_of l e = Inr r" "is_status [Running, Complete] r" "epoch_evolves r (f r)"
    "report_ok r \<longrightarrow> report_ok (f r)"
    "reported (f r) \<and> \<not> reported r \<longrightarrow> challenges m = challenges l
       \<and> (\<forall>c \<in> set (challenges l). ch_epoch c = ep_id r \<longrightarrow> ch_status c \<noteq> Issued)"
    "epochs m = epochs (set_epoch e f l)" "next_epoch m = next_epoch l"
  shows "epoch_change l m"
  using epoch_of_ok [OF assms(1)] assms(2-) by (intro moved [of m r f]) (auto simp: set_epoch_def)

lemma abort_epoch_change:
  assumes "abort_epoch now e l = Inr m"
  shows "epoch_change l m"
proof -
  obtain r where r: "epoch_of l e = Inr r" using assms by (auto simp: abort_epoch_def ok_simps)
  show ?thesis
  proof (cases "ep_status r = Running")
    case True
    with assms r have "epochs m = epochs (set_epoch e (\<lambda>r. r\<lparr>ep_status := Aborted\<rparr>) l)" "next_epoch m = next_epoch l"
      by (auto simp: abort_epoch_def Let_def set_epoch_def)
    with r True show ?thesis
      by (intro moved_change [of l e r "\<lambda>r. r\<lparr>ep_status := Aborted\<rparr>"])
        (auto simp: is_status_def epoch_evolves_def report_ok_def reported_def)
  next
    case False
    with assms r show ?thesis by (auto simp: abort_epoch_def split: if_splits intro: same)
  qed
qed

lemma abandon_epoch_change:
  assumes "abandon_completed_epoch now e why l = Inr m"
  shows "epoch_change l m"
proof -
  let ?f = "\<lambda>r. r\<lparr>ep_status := Abandoned, ep_abandoned_at := Some now, ep_abandon_reason := Some (strip why)\<rparr>"
  obtain r where "epoch_of l e = Inr r" "ep_status r = Complete" "m = set_epoch e ?f l"
    using assms by (auto simp: abandon_completed_epoch_def ok_simps split: if_splits)
  then show ?thesis
    by (intro moved_change [of l e r ?f]) (auto simp: is_status_def epoch_evolves_def report_ok_def reported_def)
qed

lemma publish_epoch_change:
  assumes "mark_published now e d l = Inr m"
  shows "epoch_change l m"
proof -
  let ?f = "\<lambda>r. r\<lparr>ep_status := Published, ep_published_at := Some now\<rparr>"
  obtain r where "epoch_of l e = Inr r" and "m = l \<or> ep_status r = Complete \<and> m = set_epoch e ?f l"
    using assms by (auto simp: mark_published_def ok_simps split: if_splits)
  then show ?thesis
    using moved_change [of l e r ?f m]
    by (auto simp: is_status_def epoch_evolves_def report_ok_def reported_def intro: same)
qed

text \<open>Freezing: the report bytes, their check, and the rows of the scores.\<close>

definition frozen :: "instant \<Rightarrow> string \<Rightarrow> bytes \<Rightarrow> epoch_row \<Rightarrow> epoch_row" where
  "frozen completion generated_at body r =
    r\<lparr>ep_status := Complete, ep_completed_at := Some completion, ep_generated_at := Some generated_at,
      ep_report_body := Some body, ep_report_digest := Some (sha256_hexdigest body)\<rparr>"

lemma complete_epoch_cases:
  assumes "complete_epoch now_text completion e q l = Inr (sc, m)"
  obtains (again) r where "epoch_of l e = Inr r" "is_status [Complete, Published] r" "m = l" "sc = load_scores l e"
  | (freeze) r generated_at audience universe body where
      "epoch_of l e = Inr r" "ep_status r = Running"
      "\<forall>c \<in> set (challenges l). ch_epoch c = e \<longrightarrow> ch_status c \<noteq> Issued"
      "universe = score_universe l e (cq_all_hotkeys q)"
      "body = encode_ascii (dumps (score_report l r universe generated_at audience))"
      "validate_launch_report_cardinality body = Inr ()"
      "\<forall>h \<in> set universe. verified_units l e h \<le> 2 ^ 53"
      "sc = map (\<lambda>h. (h, score_of l e universe h)) universe"
      "m = (set_epoch e (frozen completion generated_at body) l)\<lparr>score_rows := score_rows l
         @ map (\<lambda>h. \<lparr>sr_epoch = e, sr_hotkey = h, sr_units = gated_units l e h,
                     sr_score = score_of l e universe h\<rparr>) universe\<rparr>"
proof -
  from assms obtain generated_at audience r where
    g: "epoch_of l e = Inr r"
    "(if is_status [Complete, Published] r then Inr (load_scores l e, l)
      else if ep_status r \<noteq> Running
        then Inl (LedgerError (''epoch '' @ show_nat e @ '' is '' @ epoch_status_text (ep_status r) @ ''; cannot complete''))
      else rbind (check_anchored_audience r audience) (\<lambda>_.
        (let unresolved = length (filter (\<lambda>c. ch_status c = Issued) (epoch_challenges l e)) in
         if unresolved \<noteq> 0
         then Inl (LedgerError (''epoch has '' @ show_nat unresolved @ '' unresolved issued challenge(s)''))
         else freeze_epoch completion r generated_at audience q l))) = Inr (sc, m)"
    unfolding complete_epoch_def ok_simps by blast
  show thesis
  proof (cases "is_status [Complete, Published] r")
    case True
    with g show thesis by (intro again [of r]) auto
  next
    case False
    with g(2) have run: "ep_status r = Running" "filter (\<lambda>c. ch_status c = Issued) (epoch_challenges l e) = []"
      and fr: "freeze_epoch completion r generated_at audience q l = Inr (sc, m)"
      by (auto simp: ok_simps Let_def split: if_splits)
    have e: "ep_id r = e" using epoch_of_ok [OF g(1)] by simp
    show thesis
      using fr run unfolding freeze_epoch_def Let_def ok_simps e insert_scores_def
      by (intro freeze [of r _ _ generated_at audience])
        (auto simp: g(1) filter_empty_conv epoch_challenges_def list_all_iff set_epoch_def frozen_def [abs_def] ok_simps
          split: if_splits)
  qed
qed

lemma complete_epoch_change:
  assumes "complete_epoch now_text completion e q l = Inr (sc, m)"
  shows "epoch_change l m"
  using assms
proof (cases rule: complete_epoch_cases)
  case (freeze r generated_at audience universe body)
  with epoch_of_ok [OF freeze(1)] show ?thesis
    by (intro moved_change [of l e r "frozen completion generated_at body"])
      (auto simp: frozen_def is_status_def epoch_evolves_def report_ok_def reported_def)
qed (auto intro: same)

text \<open>All other methods leave the epochs alone.\<close>

lemma resolve_challenge_row_ok:
  assumes "resolve_challenge_row now cid s u l = Inr (c, m)"
  shows "find_challenge l cid = Some c" "ch_status c = Issued"
    "\<exists>r \<in> set (epochs l). ep_id r = ch_epoch c \<and> ep_status r = Running"
    "m = l\<lparr>challenges := update_where (\<lambda>c. ch_id c = cid)
       (\<lambda>c. c\<lparr>ch_status := s, ch_units := u, ch_resolved_at := Some now\<rparr>) (challenges l)\<rparr>"
  using assms by (auto simp: resolve_challenge_row_def at_epoch_def find_Some_iff split: option.splits if_splits)

lemma resolve_customer_job_ok:
  assumes "resolve_customer_job now lease cr body error l = Inr m"
  shows "\<exists>js. m = l\<lparr>jobs := js\<rparr>"
  using assms by (auto simp: resolve_customer_job_def Let_def split: if_splits)

lemma resolve_challenge_steps:
  assumes "resolve_challenge clock cid status units derived cr l = Inr m"
  obtains s u body error c l1 where
    "validated_resolution_units status units derived = Inr (s, u)"
    "validate_customer_resolution s cr = Inr (body, error)"
    "pred_option (\<lambda>lease. le_challenge lease = cid) (cr_lease cr)"
    "\<And>lease. cr_lease cr = Some lease \<Longrightarrow> require_current_customer_lease (fst clock) lease l = Inr ()"
    "resolve_challenge_row (fst (snd clock)) cid s u l = Inr (c, l1)"
    "case cr_lease cr of None \<Rightarrow> m = l1
       | Some lease \<Rightarrow> resolve_customer_job (snd (snd clock)) lease cr body error l1 = Inr m"
  using assms unfolding resolve_challenge_def split_beta ok_simps
  apply (elim exE conjE)
  subgoal for x y _ _ z
    by (rule that [of "fst x" "snd x" "fst y" "snd y" "fst z" "snd z"]) (auto split: option.splits)
  done

lemma resolve_with_receipt_steps:
  assumes "resolve_challenge_with_receipt clock cid status units derived q cr l = Inr m"
  obtains s u receipt body error c l1 row where
    "validated_resolution_units status units derived = Inr (s, u)"
    "checked_receipt cid s u q = Inr receipt"
    "validate_customer_resolution s cr = Inr (body, error)"
    "pred_option (\<lambda>lease. le_challenge lease = cid) (cr_lease cr)"
    "\<And>lease. cr_lease cr = Some lease \<Longrightarrow> require_current_customer_lease (fst clock) lease l = Inr ()"
    "resolve_challenge_row (fst (snd clock)) cid s u l = Inr (c, l1)"
    "row = \<lparr>rr_id = rcq_receipt_id q, rr_epoch = ch_epoch c, rr_hotkey = ch_hotkey c, rr_challenge = cid,
       rr_status = s, rr_body = rcq_body q, rr_digest = rcq_digest q, rr_issued_at = rcq_issued_at q\<rparr>"
    "\<forall>x \<in> set (receipts l). rr_id x \<noteq> rr_id row \<and> rr_challenge x \<noteq> cid
       \<and> (rr_epoch x \<noteq> ch_epoch c \<or> rr_hotkey x \<noteq> ch_hotkey c)"
    "case cr_lease cr of None \<Rightarrow> m = l1\<lparr>receipts := receipts l @ [row]\<rparr>
       | Some lease \<Rightarrow> resolve_customer_job (snd (snd clock)) lease cr body error
           (l1\<lparr>receipts := receipts l @ [row]\<rparr>) = Inr m"
  using assms unfolding resolve_challenge_with_receipt_def split_beta ok_simps
  apply (elim exE conjE)
  subgoal for x receipt y _ v z _ _ l2
  proof -
    assume a: "resolve_challenge_row (fst (snd clock)) cid (fst x) (snd x) l = Inr z"
      and b: "insert_receipt \<lparr>rr_id = rcq_receipt_id q, rr_epoch = ch_epoch (fst z), rr_hotkey = ch_hotkey (fst z),
         rr_challenge = cid, rr_status = fst x, rr_body = rcq_body q, rr_digest = rcq_digest q,
         rr_issued_at = rcq_issued_at q\<rparr> (snd z) = Inr l2"
      and c: "validated_resolution_units status units derived = Inr x" "checked_receipt cid (fst x) (snd x) q = Inr receipt"
        "validate_customer_resolution (fst x) cr = Inr y" "pred_option (\<lambda>lease. le_challenge lease = cid) (cr_lease cr)"
        "(case cr_lease cr of None \<Rightarrow> Inr () | Some lease \<Rightarrow> require_current_customer_lease (fst clock) lease l) = Inr v"
        "(case cr_lease cr of None \<Rightarrow> Inr l2
          | Some lease \<Rightarrow> resolve_customer_job (snd (snd clock)) lease cr (fst y) (snd y) l2) = Inr m"
    have "receipts (snd z) = receipts l"
      using resolve_challenge_row_ok(4) [of _ _ _ _ l "fst z" "snd z"] a by fastforce
    then show thesis
      using a b c by (intro that [of "fst x" "snd x" receipt "fst y" "snd y" "fst z" "snd z"])
        (auto simp: insert_receipt_def list_ex_iff split: option.splits if_splits)
  qed
  done

lemma claim_customer_job_cases:
  assumes "claim_customer_job now token owner e lease_seconds max_attempts l = Inr (lease, m)"
    "l1 = fail_exhausted now (nat max_attempts) (reclaim_expired now (nat max_attempts) l)"
  obtains (nothing) "lease = None" "m = l1" "next_job now (nat max_attempts) l1 = None"
  | (leased) j original item r where
      "next_job now (nat max_attempts) l1 = Some j"
      "customer_item_from_body (jb_payload_body j) (jb_payload_digest j) = Inr original"
      "item = customer_dispatch_item original (jb_id j) (jb_attempts j + 1)"
      "find_challenge l1 (item_challenge_id item) = None"
      "epoch_of l e = Inr r" "ep_status r = Running" "owner \<noteq> []" "1 \<le> lease_seconds"
      "lease = Some \<lparr>le_job = jb_id j, le_token = token, le_owner = owner, le_epoch = e,
         le_challenge = item_challenge_id item, le_attempt = jb_attempts j + 1, le_item = item\<rparr>"
      "m = l1\<lparr>challenges := challenges l1 @ [new_challenge now (item_challenge_id item) e owner],
         jobs := update_where (\<lambda>k. jb_id k = jb_id j \<and> jb_status k = Queued)
           (lease_job (the lease) (now + lease_seconds * 1000000)) (jobs l1)\<rparr>"
proof -
  obtain r where r: "epoch_of l e = Inr r" "ep_status r = Running" and arg: "owner \<noteq> []" "1 \<le> lease_seconds"
    using assms(1) by (auto simp: claim_customer_job_def ok_simps require_running_def)
  show thesis
  proof (cases "next_job now (nat max_attempts) l1")
    case None
    with assms have "lease = None" "m = l1" by (auto simp: claim_customer_job_def ok_simps Let_def)
    then show thesis using None by (rule nothing)
  next
    case (Some j)
    with assms obtain original where o: "customer_item_from_body (jb_payload_body j) (jb_payload_digest j) = Inr original"
      by (auto simp: claim_customer_job_def ok_simps Let_def)
    show thesis
      using assms(1) Some o r arg unfolding claim_customer_job_def ok_simps Let_def assms(2) [symmetric]
      by (intro leased [of j original _ r]) (auto split: if_splits)
  qed
qed

definition challenge_change :: "ledger \<Rightarrow> ledger \<Rightarrow> bool" where
  "challenge_change l m \<longleftrightarrow> (\<exists>cs new. challenges m = cs @ new \<and> length cs = length (challenges l)
     \<and> grows challenge_evolves (challenges l) cs
     \<and> (new = [] \<or> (\<exists>c. new = [c] \<and> ch_status c = Issued \<and> ch_id c \<notin> ch_id ` set (challenges l)
          \<and> (\<exists>r \<in> set (epochs l). ep_id r = ch_epoch c \<and> ep_status r = Running))))"

lemma challenge_same: "challenges m = challenges l \<Longrightarrow> challenge_change l m"
  unfolding challenge_change_def by (intro exI [of _ "challenges l"] exI [of _ "[]"]) simp

lemma challenge_updated:
  "length (challenges m) = length (challenges l) \<Longrightarrow> grows challenge_evolves (challenges l) (challenges m) \<Longrightarrow>
    challenge_change l m"
  unfolding challenge_change_def by (intro exI [of _ "challenges m"] exI [of _ "[]"]) simp

lemma grows_keys:
  assumes "grows R xs ys" "length ys = length xs" "\<And>x y. R x y \<Longrightarrow> k y = k x"
  shows "map k ys = map k xs"
  using assms by (auto simp: grows_def intro!: nth_equalityI)

lemma length_fold_abandon [simp]:
  "length (fold (\<lambda>j. abandon_challenge now (jb_challenge j)) js cs) = length cs"
  by (induction js arbitrary: cs) (simp_all add: abandon_challenge_def)

lemma reclaim_challenges:
  assumes l1_def: "l1 = fail_exhausted now n (reclaim_expired now n l)"
  shows "length (challenges l1) = length (challenges l)" "grows challenge_evolves (challenges l) (challenges l1)"
    "map ch_id (challenges l1) = map ch_id (challenges l)"
proof -
  show a: "length (challenges l1) = length (challenges l)" "grows challenge_evolves (challenges l) (challenges l1)"
    by (simp_all add: l1_def fail_exhausted_def reclaim_expired_def Let_def fold_abandon_evolves)
  show "map ch_id (challenges l1) = map ch_id (challenges l)"
    using grows_keys [OF a(2,1), of ch_id] by (simp add: challenge_evolves_def)
qed

lemma find_challenge_None: "find_challenge l cid = None \<longleftrightarrow> cid \<notin> ch_id ` set (challenges l)"
  by (auto simp: find_challenge_def find_None_iff)

lemma resolve_row_change:
  assumes "resolve_challenge_row now cid s u l = Inr (c, l1)" "distinct (map ch_id (challenges l))"
    "challenges m = challenges l1"
  shows "challenge_change l m"
proof (rule challenge_updated)
  note ok = resolve_challenge_row_ok [OF assms(1)]
  have "x = c" if "x \<in> set (challenges l)" "ch_id x = cid" for x
    using that ok(1) assms(2) by (auto simp: find_challenge_def find_Some_iff distinct_map inj_on_def)
  then show "grows challenge_evolves (challenges l) (challenges m)"
    unfolding assms(3) ok(4) using ok(2) by (auto simp: challenge_evolves_def intro!: grows_update)
  show "length (challenges m) = length (challenges l)" by (simp add: assms(3) ok(4))
qed

lemma claim_challenge_change:
  assumes "claim_customer_job now token owner e lease_seconds max_attempts l = Inr (lease, m)"
  shows "challenge_change l m"
  using assms refl
proof (cases rule: claim_customer_job_cases)
  case nothing
  then show ?thesis by (intro challenge_updated) (simp_all add: reclaim_challenges [OF refl])
next
  case (leased j original item r)
  let ?l1 = "fail_exhausted now (nat max_attempts) (reclaim_expired now (nat max_attempts) l)"
  have "item_challenge_id item \<notin> ch_id ` set (challenges l)"
    using leased(4) reclaim_challenges(3) [OF refl, of now "nat max_attempts" l]
    unfolding find_challenge_None by (metis set_map)
  then show ?thesis
    using epoch_of_ok [OF leased(5)] leased(6)
    unfolding challenge_change_def leased(10)
    by (intro exI [of _ "challenges ?l1"] exI [of _ "[new_challenge now (item_challenge_id item) e owner]"])
      (auto simp: reclaim_challenges [OF refl] new_challenge_def)
qed

section \<open>What each method leaves alone\<close>

lemma issue_challenge_ok:
  assumes "issue_challenge now cid miner e l = Inr m"
  obtains r where "epoch_of l e = Inr r" "ep_status r = Running" "cid \<notin> ch_id ` set (challenges l)"
    "m = l\<lparr>challenges := challenges l @ [new_challenge now cid e miner]\<rparr>"
  using assms
  by (auto simp: issue_challenge_def ok_simps require_running_def find_challenge_None split: if_splits)

lemma record_work_artifacts_ok:
  "record_work_artifacts cid ib rb l = Inr m \<Longrightarrow> \<exists>xs. m = l\<lparr>artifacts := artifacts l @ xs\<rparr>"
  by (auto simp: record_work_artifacts_def split: if_splits option.splits intro: exI [of _ "[]"])

lemma record_work_timing_ok: "record_work_timing t l = Inr m \<Longrightarrow> \<exists>xs. m = l\<lparr>timings := timings l @ xs\<rparr>"
  by (auto simp: record_work_timing_def split: if_splits option.splits intro: exI [of _ "[]"])

lemma enqueue_customer_job_ok:
  assumes "enqueue_customer_job now token raw customer key l = Inr (s, m)"
  obtains (again) "m = l"
  | (queued) body where "customer_item_body raw = Inr body" "find_job l (''job-'' @ token) = None"
      "m = l\<lparr>jobs := jobs l @ [new_job now (''job-'' @ token) customer key body]\<rparr>"
      "customer_job_snapshot (new_job now (''job-'' @ token) customer key body) = Inr s"
proof (cases "existing_job l customer key")
  case (Some j)
  with assms have "m = l" by (auto simp: enqueue_customer_job_def ok_simps split: if_splits)
  then show thesis by (rule again)
next
  case None
  from assms show thesis
    unfolding enqueue_customer_job_def None option.case Let_def ok_simps
    by (elim exE conjE) (rule queued, auto simp: find_job_def)
qed

lemma prune_customer_jobs_ok:
  assumes "prune_customer_jobs before limit customer l = Inr (n, m)"
  obtains P where "m = l\<lparr>jobs := filter P (jobs l)\<rparr>"
  using assms by (auto simp: prune_customer_jobs_def ok_simps Let_def)

lemma add_attestation_ok:
  "add_attestation now q l = Inr m \<Longrightarrow> \<exists>xs. m = l\<lparr>attestations := attestations l @ xs\<rparr>"
  by (auto simp: add_attestation_def ok_simps split: if_splits option.splits intro: exI [of _ "[]"])

lemma add_lifecycle_snapshot_ok:
  "add_lifecycle_snapshot now_text e s at' l = Inr m \<Longrightarrow> \<exists>xs. m = l\<lparr>lifecycles := lifecycles l @ xs\<rparr>"
  by (cases "find_lifecycle l e (hotkey s)")
    (auto simp: add_lifecycle_snapshot_def ok_simps split: if_splits intro: exI [of _ "[]"])

lemma record_score_class_export_ok:
  "record_score_class_export e q l = Inr (bs, m) \<Longrightarrow> \<exists>xs. m = l\<lparr>exports := exports l @ xs\<rparr>"
  by (auto simp: record_score_class_export_def ok_simps split: if_splits option.splits intro: exI [of _ "[]"])

lemma claim_frame:
  assumes "claim_customer_job now token owner e lease_seconds max_attempts l = Inr (lease, m)"
  shows "\<exists>cs js. m = l\<lparr>challenges := cs, jobs := js\<rparr>"
  using assms refl
  by (cases rule: claim_customer_job_cases) (auto simp: fail_exhausted_def reclaim_expired_def Let_def)

lemma resolve_frame:
  assumes "resolve_challenge clock cid status units derived cr l = Inr m"
  shows "\<exists>cs js. m = l\<lparr>challenges := cs, jobs := js\<rparr>"
  using assms
proof (rule resolve_challenge_steps)
  fix s u body error c l1
  assume "resolve_challenge_row (fst (snd clock)) cid s u l = Inr (c, l1)"
  then obtain cs where l1: "l1 = l\<lparr>challenges := cs\<rparr>" using resolve_challenge_row_ok(4) by blast
  assume m: "case cr_lease cr of None \<Rightarrow> m = l1
    | Some lease \<Rightarrow> resolve_customer_job (snd (snd clock)) lease cr body error l1 = Inr m"
  show ?thesis
  proof (cases "cr_lease cr")
    case None
    with m have "m = l\<lparr>challenges := cs, jobs := jobs l\<rparr>" by (simp add: l1)
    then show ?thesis by blast
  qed (use m l1 in \<open>force dest: resolve_customer_job_ok\<close>)
qed

lemma resolve_receipt_frame:
  assumes "resolve_challenge_with_receipt clock cid status units derived q cr l = Inr m"
  shows "\<exists>cs js r. m = l\<lparr>challenges := cs, jobs := js, receipts := receipts l @ [r]\<rparr>"
  using assms
proof (rule resolve_with_receipt_steps)
  fix s u body error c l1 row
  assume "resolve_challenge_row (fst (snd clock)) cid s u l = Inr (c, l1)"
  then obtain cs where l1: "l1 = l\<lparr>challenges := cs\<rparr>" using resolve_challenge_row_ok(4) by blast
  assume m: "case cr_lease cr of None \<Rightarrow> m = l1\<lparr>receipts := receipts l @ [row]\<rparr>
    | Some lease \<Rightarrow> resolve_customer_job (snd (snd clock)) lease cr body error (l1\<lparr>receipts := receipts l @ [row]\<rparr>) = Inr m"
  show ?thesis
  proof (cases "cr_lease cr")
    case None
    with m have "m = l\<lparr>challenges := cs, jobs := jobs l, receipts := receipts l @ [row]\<rparr>" by (simp add: l1)
    then show ?thesis by blast
  next
    case (Some lease)
    with m obtain js where "m = (l1\<lparr>receipts := receipts l @ [row]\<rparr>)\<lparr>jobs := js\<rparr>" by (auto dest: resolve_customer_job_ok)
    then have "m = l\<lparr>challenges := cs, jobs := js, receipts := receipts l @ [row]\<rparr>" by (simp add: l1)
    then show ?thesis by blast
  qed
qed

lemmas append_ok = record_work_artifacts_ok record_work_timing_ok add_attestation_ok add_lifecycle_snapshot_ok
  record_score_class_export_ok claim_frame resolve_frame resolve_receipt_frame

lemma step_epoch_change: "ledger_step l m \<Longrightarrow> epoch_change l m"
proof (induction rule: ledger_step.cases)
  case enqueues
  then show ?case by (auto elim!: enqueue_customer_job_ok intro: same)
next
  case prunes
  then show ?case by (auto elim!: prune_customer_jobs_ok intro: same)
next
  case issues
  then show ?case by (auto elim!: issue_challenge_ok intro: same)
qed (auto dest!: append_ok intro: same begin_epoch_change abort_epoch_change abandon_epoch_change
    publish_epoch_change complete_epoch_change)

lemma step_challenge_change:
  assumes "ledger_step l m" "distinct (map ch_id (challenges l))"
  shows "challenge_change l m"
  using assms(1)
proof cases
  case (issues now cid miner e)
  then obtain r where "epoch_of l e = Inr r" "ep_status r = Running" "cid \<notin> ch_id ` set (challenges l)"
    "m = l\<lparr>challenges := challenges l @ [new_challenge now cid e miner]\<rparr>" by (rule issue_challenge_ok)
  then show ?thesis
    using epoch_of_ok unfolding challenge_change_def
    by (intro exI [of _ "challenges l"] exI [of _ "[new_challenge now cid e miner]"])
      (auto simp: new_challenge_def)
next
  case (begins now q e)
  then show ?thesis
    by (intro challenge_same) (auto simp: begin_epoch_def ok_simps split: option.splits)
next
  case (aborts now e)
  then show ?thesis
    by (intro challenge_updated) (auto simp: abort_epoch_def ok_simps Let_def fold_abandon_evolves split: if_splits)
next
  case (abandons now e why)
  then show ?thesis by (intro challenge_same) (auto simp: abandon_completed_epoch_def ok_simps split: if_splits)
next
  case (publishes now e d)
  then show ?thesis by (intro challenge_same) (auto simp: mark_published_def ok_simps split: if_splits)
next
  case enqueues
  then show ?thesis by (auto elim!: enqueue_customer_job_ok intro: challenge_same)
next
  case prunes
  then show ?thesis by (auto elim!: prune_customer_jobs_ok intro: challenge_same)
next
  case claims
  then show ?thesis by (rule claim_challenge_change)
next
  case (resolves clock cid status units derived cr)
  then show ?thesis
  proof (rule resolve_challenge_steps)
    fix s u body error c l1
    assume r: "resolve_challenge_row (fst (snd clock)) cid s u l = Inr (c, l1)"
      and "case cr_lease cr of None \<Rightarrow> m = l1
       | Some lease \<Rightarrow> resolve_customer_job (snd (snd clock)) lease cr body error l1 = Inr m"
    then have "challenges m = challenges l1" by (auto dest: resolve_customer_job_ok split: option.splits)
    then show ?thesis by (rule resolve_row_change [OF r assms(2)])
  qed
next
  case (resolves_with_receipt clock cid status units derived rq cr)
  then show ?thesis
  proof (rule resolve_with_receipt_steps)
    fix s u body error c l1 row
    assume r: "resolve_challenge_row (fst (snd clock)) cid s u l = Inr (c, l1)"
      and "case cr_lease cr of None \<Rightarrow> m = l1\<lparr>receipts := receipts l @ [row]\<rparr>
       | Some lease \<Rightarrow> resolve_customer_job (snd (snd clock)) lease cr body error
           (l1\<lparr>receipts := receipts l @ [row]\<rparr>) = Inr m"
    then have "challenges m = challenges l1" by (auto dest: resolve_customer_job_ok split: option.splits)
    then show ?thesis by (rule resolve_row_change [OF r assms(2)])
  qed
next
  case (completes now_text completion e cq sc)
  then show ?thesis by (cases rule: complete_epoch_cases) (auto intro: challenge_same)
qed (auto dest!: append_ok intro: challenge_same)

lemma step_evidence_grows:
  assumes "ledger_step l m"
  shows "grows (=) (attestations l) (attestations m) \<and> grows (=) (lifecycles l) (lifecycles m)
    \<and> grows (=) (score_rows l) (score_rows m) \<and> grows (=) (receipts l) (receipts m)
    \<and> grows (=) (artifacts l) (artifacts m) \<and> grows (=) (timings l) (timings m) \<and> grows (=) (exports l) (exports m)"
  using assms
proof cases
  case begins
  then show ?thesis by (auto simp: begin_epoch_def ok_simps split: option.splits)
next
  case aborts
  then show ?thesis by (auto simp: abort_epoch_def ok_simps Let_def split: if_splits)
next
  case abandons
  then show ?thesis by (auto simp: abandon_completed_epoch_def ok_simps split: if_splits)
next
  case publishes
  then show ?thesis by (auto simp: mark_published_def ok_simps split: if_splits)
next
  case issues
  then show ?thesis by (auto elim!: issue_challenge_ok)
next
  case enqueues
  then show ?thesis by (auto elim!: enqueue_customer_job_ok)
next
  case prunes
  then show ?thesis by (auto elim!: prune_customer_jobs_ok)
next
  case completes
  then show ?thesis by (cases rule: complete_epoch_cases) auto
qed (auto dest!: append_ok)

section \<open>The invariant\<close>

definition epochs_inv :: "ledger \<Rightarrow> bool" where
  "epochs_inv l \<longleftrightarrow>
    sorted_wrt (\<lambda>r s. ep_id r < ep_id s) (epochs l) \<and> (\<forall>r \<in> set (epochs l). ep_id r < next_epoch l \<and> report_ok r)
    \<and> list_all (\<lambda>r. \<not> is_status [Running, Complete] r) (butlast (epochs l))
    \<and> sorted_wrt (\<lambda>r s. is_status [Complete, Published] r \<longrightarrow> ep_source_epoch r < ep_source_epoch s) (epochs l)"

definition challenges_inv :: "ledger \<Rightarrow> bool" where
  "challenges_inv l \<longleftrightarrow>
    distinct (map ch_id (challenges l))
    \<and> (\<forall>c \<in> set (challenges l). \<exists>r \<in> set (epochs l). ep_id r = ch_epoch c \<and> (ch_status c = Issued \<longrightarrow> \<not> reported r))"

lemma epochs_inv_distinct: "epochs_inv l \<Longrightarrow> distinct (map ep_id (epochs l))"
  unfolding epochs_inv_def by (metis sorted_wrt_map strict_sorted_iff)

lemma epoch_unique:
  assumes "epochs_inv l" "r \<in> set (epochs l)" "s \<in> set (epochs l)" "ep_id s = ep_id r"
  shows "s = r"
  using epochs_inv_distinct [OF assms(1)] assms(2-) by (auto simp: distinct_map inj_on_def)

lemma epoch_of_mem: "epochs_inv l \<Longrightarrow> r \<in> set (epochs l) \<Longrightarrow> epoch_of l (ep_id r) = Inr r"
proof -
  assume a: "epochs_inv l" "r \<in> set (epochs l)"
  then have "find (at_epoch (ep_id r)) (epochs l) \<noteq> None" by (auto simp: find_None_iff at_epoch_def)
  then obtain s where "epoch_of l (ep_id r) = Inr s" by (auto simp: epoch_of_def)
  moreover from epoch_of_ok [OF this] have "s = r" using epoch_unique [OF a] by simp
  ultimately show ?thesis by simp
qed

lemma step_epochs_inv:
  assumes "epoch_change l m" "epochs_inv l"
  shows "epochs_inv m \<and> grows epoch_evolves (epochs l) (epochs m)"
  using assms(1)
proof cases
  case same
  then show ?thesis using assms(2) by (simp add: epochs_inv_def)
next
  case (new r)
  have "list_all (\<lambda>r. \<not> is_status [Running, Complete] r) (epochs l)" using new(6) by (simp add: list_all_iff)
  then show ?thesis using new assms(2) by (auto simp: epochs_inv_def sorted_wrt_append)
next
  case (moved r f)
  have only: "s = r" if "s \<in> set (epochs l)" "at_epoch (ep_id r) s" for s
    using epoch_unique [OF assms(2) moved(3)] that by (simp add: at_epoch_def)
  have upd: "epochs m = map (\<lambda>s. if s = r then f r else s) (epochs l)"
    unfolding moved(1) update_where_def using only by (auto simp: at_epoch_def)
  obtain es where last: "epochs l = es @ [r]" "r \<notin> set es"
  proof -
    have "epochs l \<noteq> []" "r \<notin> set (butlast (epochs l))"
      using moved(3,4) assms(2) by (auto simp: epochs_inv_def list_all_iff)
    moreover from this moved(3) have "last (epochs l) = r"
      by (metis append_butlast_last_id in_set_conv_decomp rotate1.simps(2) set_ConsD set_rotate1)
    ultimately show thesis using that [of "butlast (epochs l)"] append_butlast_last_id by metis
  qed
  have e: "epochs m = es @ [f r]" unfolding upd last(1) using last(2) by (auto intro!: map_idI)
  have id: "ep_id (f r) = ep_id r" "ep_source_epoch (f r) = ep_source_epoch r"
    using moved(5) by (simp_all add: epoch_evolves_def)
  have "grows epoch_evolves (epochs l) (epochs m)"
    using moved(5) unfolding e last(1) by (auto simp: grows_def nth_append less_Suc_eq)
  moreover have "epochs_inv m"
    using assms(2) moved(2,6) unfolding epochs_inv_def e last(1) by (auto simp: sorted_wrt_append id)
  ultimately show ?thesis by blast
qed

lemma step_challenges_inv:
  assumes "epoch_change l m" "challenge_change l m" "epochs_inv l" "challenges_inv l"
  shows "challenges_inv m \<and> grows challenge_evolves (challenges l) (challenges m)"
proof -
  obtain cs new where c: "challenges m = cs @ new" "length cs = length (challenges l)"
    "grows challenge_evolves (challenges l) cs"
    "new = [] \<or> (\<exists>c. new = [c] \<and> ch_status c = Issued \<and> ch_id c \<notin> ch_id ` set (challenges l)
       \<and> (\<exists>r \<in> set (epochs l). ep_id r = ch_epoch c \<and> ep_status r = Running))"
    using assms(2) unfolding challenge_change_def by blast
  have ids: "map ch_id cs = map ch_id (challenges l)"
    using grows_keys [OF c(3,2), of ch_id] by (simp add: challenge_evolves_def)
  have old: "\<exists>c0 \<in> set (challenges l). challenge_evolves c0 c" if "c \<in> set cs" for c
    using that c(2,3) unfolding grows_def in_set_conv_nth by (metis nth_mem)
  have grown: "\<exists>s \<in> set (epochs m). ep_id s = ep_id r \<and> (reported s \<and> \<not> reported r \<longrightarrow>
      challenges m = challenges l \<and> (\<forall>c \<in> set (challenges l). ch_epoch c = ep_id r \<longrightarrow> ch_status c \<noteq> Issued))"
    if "r \<in> set (epochs l)" for r
    using assms(1)
  proof cases
    case (moved q f)
    show ?thesis
    proof (cases "r = q")
      case True
      with moved that show ?thesis
        by (intro bexI [of _ "f q"]) (auto simp: set_update_where at_epoch_def epoch_evolves_def)
    next
      case False
      then have "ep_id r \<noteq> ep_id q" using epoch_unique [OF assms(3) moved(3) that] by blast
      with moved that show ?thesis by (intro bexI [of _ r]) (auto simp: set_update_where at_epoch_def)
    qed
  qed (use that in auto)
  have "\<exists>s \<in> set (epochs m). ep_id s = ch_epoch c \<and> (ch_status c = Issued \<longrightarrow> \<not> reported s)"
    if "c \<in> set (challenges m)" for c
  proof (cases "c \<in> set cs")
    case True
    from old [OF this] obtain c0 where c0: "c0 \<in> set (challenges l)" "challenge_evolves c0 c" by blast
    with assms(4) obtain r where r: "r \<in> set (epochs l)" "ep_id r = ch_epoch c0" "ch_status c0 = Issued \<longrightarrow> \<not> reported r"
      unfolding challenges_inv_def by blast
    from grown [OF r(1)] show ?thesis using c0 r by (auto simp: challenge_evolves_def)
  next
    case False
    with that c(1) have "c \<in> set new" by simp
    with c(4) obtain r where r: "r \<in> set (epochs l)" "ep_id r = ch_epoch c" "ep_status r = Running" "new = [c]"
      by fastforce
    have nr: "\<not> reported r" using r(3) by (simp add: reported_def is_status_def)
    have "length (challenges m) \<noteq> length (challenges l)" using c(1,2) r(4) by simp
    with grown [OF r(1)] r(2) nr show ?thesis by metis
  qed
  moreover have "distinct (map ch_id (challenges m))"
    using assms(4) c(1,4) ids by (auto simp: challenges_inv_def) (metis image_eqI)
  moreover have "grows challenge_evolves (challenges l) (challenges m)" unfolding c(1) using c(3) by (rule grows_append)
  ultimately show ?thesis by (simp add: challenges_inv_def)
qed

definition evidence_inv :: "ledger \<Rightarrow> bool" where
  "evidence_inv l \<longleftrightarrow> epochs_inv l \<and> challenges_inv l"

lemma step_evolves:
  assumes "ledger_step l m" "evidence_inv l"
  shows "evidence_inv m \<and> ledger_evolves l m"
proof -
  have inv: "epochs_inv l" "challenges_inv l" using assms(2) by (simp_all add: evidence_inv_def)
  note e = step_epoch_change [OF assms(1)]
  have "distinct (map ch_id (challenges l))" using inv(2) by (simp add: challenges_inv_def)
  note c = step_challenge_change [OF assms(1) this]
  show ?thesis
    using step_epochs_inv [OF e inv(1)] step_challenges_inv [OF e c inv] step_evidence_grows [OF assms(1)]
    by (simp add: evidence_inv_def ledger_evolves_def)
qed

section \<open>Histories\<close>

text \<open>
  A durable store: an invariant that holds of the empty store and that every step keeps, and a
  relation of what a step preserves, which adds up over any number of steps.
\<close>

locale durable_store =
  fixes step :: "'s \<Rightarrow> 's \<Rightarrow> bool" and start :: 's and inv :: "'s \<Rightarrow> bool" and evolves :: "'s \<Rightarrow> 's \<Rightarrow> bool"
  assumes start_inv: "inv start"
    and step_keeps: "step s t \<Longrightarrow> inv s \<Longrightarrow> inv t \<and> evolves s t"
    and evolves_refl: "evolves s s"
    and evolves_trans: "evolves s t \<Longrightarrow> evolves t u \<Longrightarrow> evolves s u"
begin

lemma history_evolves:
  assumes "step\<^sup>*\<^sup>* s t" "inv s"
  shows "inv t \<and> evolves s t"
  using assms by (induction) (auto intro: evolves_refl evolves_trans dest: step_keeps)

lemma reachable_inv: "step\<^sup>*\<^sup>* start s \<Longrightarrow> inv s"
  using history_evolves start_inv by blast

lemma later_evolves: "step\<^sup>*\<^sup>* start s \<Longrightarrow> step\<^sup>*\<^sup>* s t \<Longrightarrow> evolves s t"
  using history_evolves reachable_inv by blast

end

interpretation ledger_store: durable_store ledger_step empty_ledger evidence_inv ledger_evolves
proof
  show "evidence_inv empty_ledger"
    by (simp add: evidence_inv_def epochs_inv_def challenges_inv_def empty_ledger_def)
qed (use step_evolves ledger_evolves_trans in auto)

end
