(* ===== verification/Ledger_Custody.thy ===== *)
theory Ledger_Custody
  imports Ledger_Evolution
begin

text \<open>
  The custody of customer jobs: which rows of the job table a ledger can hold, and that every
  method keeps them so.
\<close>

section \<open>Rows of the job table\<close>

definition no_lease :: "job_row \<Rightarrow> bool" where
  "no_lease j \<longleftrightarrow> jb_token j = None \<and> jb_owner j = None \<and> jb_epoch j = None \<and> jb_challenge j = None \<and> jb_expires_at j = None"

definition payload_of :: "job_row \<Rightarrow> SatWorkItem \<Rightarrow> bool" where
  "payload_of j item \<longleftrightarrow> customer_item_from_body (jb_payload_body j) (jb_payload_digest j) = Inr item"

text \<open>The challenge of the last attempt of a job.\<close>

definition dispatched_as :: "job_row \<Rightarrow> SatWorkItem \<Rightarrow> string" where
  "dispatched_as j item = item_challenge_id (customer_dispatch_item item (jb_id j) (jb_attempts j))"

definition lease_held :: "challenge_row list \<Rightarrow> job_row \<Rightarrow> bool" where
  "lease_held cs j \<longleftrightarrow>
    (\<exists>item c t x. payload_of j item \<and> c \<in> set cs \<and> ch_id c = dispatched_as j item
       \<and> jb_token j = Some t \<and> jb_owner j = Some (ch_hotkey c) \<and> jb_epoch j = Some (ch_epoch c)
       \<and> jb_challenge j = Some (ch_id c) \<and> jb_expires_at j = Some x)"

definition result_backed :: "challenge_row list \<Rightarrow> job_row \<Rightarrow> bool" where
  "result_backed cs j \<longleftrightarrow>
    (\<exists>item kvs asg c. payload_of j item \<and> jb_result_body j = Some (encode_ascii (dumps (PDict kvs)))
       \<and> jb_result_digest j = Some (sha256_label (encode_ascii (dumps (PDict kvs)))) \<and> jb_resolved_at j \<noteq> None
       \<and> int_elements (dget kvs ''assignment'') = Some asg \<and> certifies (item_instance item) asg
       \<and> c \<in> set cs \<and> ch_id c = dispatched_as j item \<and> ch_status c = Verified
       \<and> dget kvs ''challenge_id'' = PStr (ch_id c) \<and> dget kvs ''assigned_hotkey'' = PStr (ch_hotkey c))"

definition job_ok :: "challenge_row list \<Rightarrow> job_row \<Rightarrow> bool" where
  "job_ok cs j \<longleftrightarrow> (\<exists>item. payload_of j item) \<and> (if jb_status j = Leased then lease_held cs j else no_lease j)
     \<and> (jb_status j = Succeeded \<longrightarrow> result_backed cs j)"

definition jobs_inv :: "ledger \<Rightarrow> bool" where
  "jobs_inv l \<longleftrightarrow> distinct (map jb_id (jobs l)) \<and> (\<forall>j \<in> set (jobs l). job_ok (challenges l) j)"

lemma job_ok_grows:
  assumes "job_ok cs j" "grows challenge_evolves cs ds"
  shows "job_ok ds j"
proof -
  have "\<exists>d \<in> set ds. ch_id d = ch_id c \<and> ch_epoch d = ch_epoch c \<and> ch_hotkey d = ch_hotkey c
      \<and> (ch_status c = Verified \<longrightarrow> ch_status d = Verified)" if "c \<in> set cs" for c
    using grows_mem [OF assms(2) that] by (auto simp: challenge_evolves_def)
  then have "lease_held cs j \<Longrightarrow> lease_held ds j" "result_backed cs j \<Longrightarrow> result_backed ds j"
    unfolding lease_held_def result_backed_def by (metis (no_types, lifting))+
  then show ?thesis using assms(1) by (auto simp: job_ok_def)
qed

lemma job_ok_idle:
  assumes "payload_of j item" "jb_status k \<in> {Queued, FailedJob}" "no_lease k"
    "jb_payload_body k = jb_payload_body j" "jb_payload_digest k = jb_payload_digest j"
  shows "job_ok cs k"
  using assms by (auto simp: job_ok_def payload_of_def)

text \<open>Jobs that a step only sets back to the queue, or fails.\<close>

definition idled :: "job_row \<Rightarrow> job_row \<Rightarrow> bool" where
  "idled j k \<longleftrightarrow> jb_id k = jb_id j \<and> jb_payload_body k = jb_payload_body j \<and> jb_payload_digest k = jb_payload_digest j
     \<and> (k = j \<or> jb_status k \<in> {Queued, FailedJob} \<and> no_lease k)"

lemma idled_trans: "idled j k \<Longrightarrow> idled k i \<Longrightarrow> idled j i"
  by (auto simp: idled_def)

lemma idled_refl [simp]: "idled j j"
  by (simp add: idled_def)

lemma jobs_inv_idled:
  assumes "jobs_inv l" "grows idled (jobs l) js" "length js = length (jobs l)"
    "grows challenge_evolves (challenges l) (challenges m)" "jobs m = js"
  shows "jobs_inv m"
proof -
  have ids: "map jb_id js = map jb_id (jobs l)" using grows_keys [OF assms(2,3), of jb_id] by (simp add: idled_def)
  have "job_ok (challenges m) k" if "k \<in> set js" for k
  proof -
    from that assms(2,3) obtain j where j: "j \<in> set (jobs l)" "idled j k"
      unfolding grows_def in_set_conv_nth by (metis nth_mem)
    then have "job_ok (challenges l) j" using assms(1) by (simp add: jobs_inv_def)
    with j(2) job_ok_idle show ?thesis
      using job_ok_grows [OF \<open>job_ok (challenges l) j\<close> assms(4)] by (auto simp: idled_def job_ok_def [of "challenges l"])
  qed
  then show ?thesis using assms(1,5) ids by (simp add: jobs_inv_def)
qed

lemma idled_clear: "jb_status j \<in> {Queued, FailedJob} \<Longrightarrow> jb_id j = jb_id i \<Longrightarrow> jb_payload_body j = jb_payload_body i \<Longrightarrow>
    jb_payload_digest j = jb_payload_digest i \<Longrightarrow> idled i (clear_lease j)"
  by (simp add: idled_def clear_lease_def no_lease_def)

lemma release_idled: "idled j (release_expired now n j)"
  unfolding release_expired_def Let_def by (rule idled_clear) auto

lemma fold_length: "(\<And>x xs. length (u x xs) = length xs) \<Longrightarrow> length (fold u js xs) = length xs"
  by (induction js arbitrary: xs) simp_all

lemma reclaim_idled:
  assumes "jobs_inv l"
  shows "grows idled (jobs l) (jobs (fail_exhausted now n (reclaim_expired now n l)))"
    and "length (jobs (fail_exhausted now n (reclaim_expired now n l))) = length (jobs l)"
proof -
  have a: "grows idled (jobs l) (jobs (reclaim_expired now n l))"
    unfolding reclaim_expired_def Let_def
    by (simp, rule fold_grows) (auto intro: grows_update release_idled idled_trans)
  have nl: "no_lease k" if "jb_status k = Queued" "k \<in> set (jobs (reclaim_expired now n l))" for k
  proof -
    have len: "length (jobs (reclaim_expired now n l)) = length (jobs l)"
      by (simp add: reclaim_expired_def Let_def fold_length)
    with that a obtain j where "j \<in> set (jobs l)" "idled j k" unfolding grows_def in_set_conv_nth by (metis nth_mem)
    with that assms show ?thesis by (auto simp: idled_def jobs_inv_def job_ok_def)
  qed
  have "grows idled (jobs (reclaim_expired now n l)) (jobs (fail_exhausted now n (reclaim_expired now n l)))"
    unfolding fail_exhausted_def by (simp, rule grows_update) (auto simp: idled_def no_lease_def dest!: nl)
  with a show "grows idled (jobs l) (jobs (fail_exhausted now n (reclaim_expired now n l)))"
    by (rule grows_trans) (rule idled_trans)
  show "length (jobs (fail_exhausted now n (reclaim_expired now n l))) = length (jobs l)"
    by (simp add: fail_exhausted_def reclaim_expired_def Let_def fold_length)
qed

section \<open>Methods that change jobs\<close>

lemma jobs_inv_mono:
  assumes "jobs_inv l" "jobs m = jobs l" "grows challenge_evolves (challenges l) (challenges m)"
  shows "jobs_inv m"
  using assms job_ok_grows by (auto simp: jobs_inv_def)

lemma enqueue_jobs_inv:
  assumes "enqueue_customer_job now token raw customer key l = Inr (s, m)" "jobs_inv l"
  shows "jobs_inv m"
  using assms(1)
proof (cases rule: enqueue_customer_job_ok)
  case (queued body)
  let ?j = "new_job now (''job-'' @ token) customer key body"
  obtain item where "payload_of ?j item"
    using queued(4) by (auto simp: customer_job_snapshot_def ok_simps payload_of_def)
  then have "job_ok (challenges l) ?j" by (rule job_ok_idle) (simp_all add: new_job_def no_lease_def)
  moreover have "jb_id ?j \<notin> jb_id ` set (jobs l)"
    using queued(2) by (auto simp: find_job_def find_None_iff new_job_def)
  ultimately show ?thesis using assms(2) queued(3) by (auto simp: jobs_inv_def)
qed (use assms(2) in simp)

lemma prune_jobs_inv:
  assumes "prune_customer_jobs before limit customer l = Inr (n, m)" "jobs_inv l"
  shows "jobs_inv m"
proof -
  obtain P where "m = l\<lparr>jobs := filter P (jobs l)\<rparr>" using assms(1) by (rule prune_customer_jobs_ok)
  then show ?thesis using assms(2) by (auto simp: jobs_inv_def distinct_map_filter)
qed

lemma abort_jobs_inv:
  assumes "abort_epoch now e l = Inr m" "jobs_inv l"
  shows "jobs_inv m"
proof -
  obtain js :: "job_row list" where js: "jobs m = fold (\<lambda>j. update_where (\<lambda>k. jb_id k = jb_id j)
      (\<lambda>k. clear_lease (k\<lparr>jb_status := Queued, jb_available_at := now,
         jb_last_error := Some ''customer job epoch aborted''\<rparr>))) js (jobs l)"
    "challenges m = fold (\<lambda>j. abandon_challenge now (jb_challenge j)) js (challenges l)"
    using assms(1) that [of "[]"] that [of "filter (\<lambda>j. jb_status j = Leased \<and> jb_epoch j = Some e) (jobs l)"]
    by (auto simp: abort_epoch_def ok_simps Let_def split: if_splits)
  have "grows idled (jobs l) (jobs m)"
    unfolding js(1) by (rule fold_grows) (auto intro!: grows_update idled_clear intro: idled_trans)
  moreover have "length (jobs m) = length (jobs l)" by (simp add: js(1) fold_length)
  moreover have "grows challenge_evolves (challenges l) (challenges m)" unfolding js(2) by (rule fold_abandon_evolves)
  ultimately show ?thesis using jobs_inv_idled [OF assms(2)] by blast
qed

lemma next_job_ok: "next_job now n l = Some j \<Longrightarrow> j \<in> set (jobs l) \<and> jb_status j = Queued"
proof -
  assume a: "next_job now n l = Some j"
  let ?xs = "filter (\<lambda>j. jb_status j = Queued \<and> jb_available_at j \<le> now \<and> jb_attempts j < n) (jobs l)"
  from a obtain ys where "sort_key (\<lambda>j. (jb_available_at j, jb_submitted_at j, jb_id j)) ?xs = j # ys"
    by (auto simp: next_job_def split: list.splits)
  from arg_cong [OF this, of set] have "j \<in> set ?xs" by (simp only: set_sort list.set insertI1)
  then show ?thesis unfolding set_filter by blast
qed

lemma claim_jobs_inv:
  assumes "claim_customer_job now token owner e lease_seconds max_attempts l = Inr (lease, m)" "jobs_inv l"
  shows "jobs_inv m"
proof -
  define l1 where "l1 = fail_exhausted now (nat max_attempts) (reclaim_expired now (nat max_attempts) l)"
  have inv1: "jobs_inv l1"
    using jobs_inv_idled [OF assms(2) reclaim_idled [OF assms(2)] reclaim_challenges(2) [OF l1_def]]
    by (simp add: l1_def)
  from assms(1) l1_def show ?thesis
  proof (cases rule: claim_customer_job_cases)
    case nothing
    then show ?thesis using inv1 by simp
  next
    case (leased j original item r)
    let ?c = "new_challenge now (item_challenge_id item) e owner"
    note j = next_job_ok [OF leased(1)]
    have grown: "grows challenge_evolves (challenges l1) (challenges m)" by (simp add: leased(10))
    have "lease_held (challenges m) (lease_job (the lease) (now + lease_seconds * 1000000) j)"
      unfolding lease_held_def using leased(2,3)
      by (intro exI [of _ original] exI [of _ ?c])
        (auto simp: leased(9,10) payload_of_def lease_job_def dispatched_as_def new_challenge_def)
    then have new: "job_ok (challenges m) (lease_job (the lease) (now + lease_seconds * 1000000) j)"
      using leased(2) by (auto simp: job_ok_def lease_job_def payload_of_def)
    have only: "k = j" if "k \<in> set (jobs l1)" "jb_id k = jb_id j" for k
      using that inv1 j by (auto simp: jobs_inv_def distinct_map inj_on_def)
    have "job_ok (challenges m) k" if "k \<in> set (jobs m)" for k
      using that new only inv1 job_ok_grows [OF _ grown]
      by (auto simp: leased(10) set_update_where jobs_inv_def split: if_splits)
    moreover have "map jb_id (jobs m) = map jb_id (jobs l1)" by (simp add: leased(10) lease_job_def)
    ultimately show ?thesis using inv1 by (simp add: jobs_inv_def)
  qed
qed

section \<open>Resolution\<close>

lemma current_lease_ok:
  assumes "require_current_customer_lease now lease l = Inr ()"
  obtains j original x where "find_job l (le_job lease) = Some j" "jb_status j = Leased"
    "jb_token j = Some (le_token lease)" "jb_owner j = Some (le_owner lease)" "jb_epoch j = Some (le_epoch lease)"
    "jb_challenge j = Some (le_challenge lease)" "jb_attempts j = le_attempt lease" "payload_of j original"
    "le_item lease = customer_dispatch_item original (le_job lease) (le_attempt lease)"
    "jb_expires_at j = Some x" "now < x"
  using assms
  by (auto simp: require_current_customer_lease_def ok_simps payload_of_def split: option.splits if_splits)

lemma find_job_ok: "find_job l jid = Some j \<Longrightarrow> j \<in> set (jobs l) \<and> jb_id j = jid"
  by (auto simp: find_job_def find_Some_iff)

lemma find_challenge_ok: "find_challenge l cid = Some c \<Longrightarrow> c \<in> set (challenges l) \<and> ch_id c = cid"
  by (auto simp: find_challenge_def find_Some_iff)

lemma validate_customer_result_ok:
  assumes "validate_customer_result lease kvs = Inr ()"
  obtains asg where "int_elements (dget kvs ''assignment'') = Some asg" "certifies (item_instance (le_item lease)) asg"
    "dget kvs ''challenge_id'' = PStr (le_challenge lease)" "dget kvs ''assigned_hotkey'' = PStr (le_owner lease)"
  using assms
  by (cases "int_elements (dget kvs ''assignment'')")
    (auto simp: validate_customer_result_def ok_simps certifies_def split: if_splits)

lemma validate_customer_resolution_ok:
  assumes "validate_customer_resolution s cr = Inr (body, error)" "cr_lease cr = Some lease"
    "cr_disposition cr = Some ''succeeded''"
  obtains kvs where "s = Verified" "validate_customer_result lease kvs = Inr ()"
    "body = Some (encode_ascii (dumps (PDict kvs)))"
  using assms
  by (cases "cr_result cr")
    (auto simp: validate_customer_resolution_def ok_simps customer_result_body_def Let_def split: if_splits)

text \<open>The row of a job after its resolution.\<close>

definition resolved_job ::
  "instant \<Rightarrow> CustomerJobLease \<Rightarrow> customer_resolution \<Rightarrow> bytes option \<Rightarrow> string option \<Rightarrow> job_row \<Rightarrow> job_row" where
  "resolved_job now lease cr body error j =
    (let final = final_job_status (cr_disposition cr) (le_attempt lease) (cr_max_attempts cr) in
     clear_lease (j\<lparr>jb_status := final, jb_available_at := now, jb_result_body := body,
       jb_result_digest := map_option sha256_label body, jb_last_error := error,
       jb_resolved_at := (if final = Queued then None else Some now)\<rparr>))"

lemma resolved_job_fields:
  "payload_of (resolved_job now lease cr body error j) = payload_of j"
  "dispatched_as (resolved_job now lease cr body error j) = dispatched_as j"
  "no_lease (resolved_job now lease cr body error j)"
  "jb_id (resolved_job now lease cr body error j) = jb_id j"
  "jb_status (resolved_job now lease cr body error j)
     = final_job_status (cr_disposition cr) (le_attempt lease) (cr_max_attempts cr)"
  by (simp_all add: resolved_job_def Let_def payload_of_def [abs_def] dispatched_as_def [abs_def] clear_lease_def no_lease_def)

lemma resolve_customer_job_rows:
  assumes "resolve_customer_job now lease cr body error l = Inr m"
  shows "jobs m = update_where (\<lambda>j. jb_id j = le_job lease \<and> jb_status j = Leased \<and> jb_token j = Some (le_token lease))
      (resolved_job now lease cr body error) (jobs l)"
    and "challenges m = challenges l"
  using assms by (auto simp: resolve_customer_job_def resolved_job_def [abs_def] Let_def split: if_splits)

lemma resolve_row_grows:
  assumes "resolve_challenge_row now cid s u l = Inr (c, m)" "distinct (map ch_id (challenges l))"
  shows "grows challenge_evolves (challenges l) (challenges m)"
proof -
  note r = resolve_challenge_row_ok [OF assms(1)]
  have "x = c" if "x \<in> set (challenges l)" "ch_id x = cid" for x
    using that find_challenge_ok [OF r(1)] assms(2) by (simp add: distinct_map inj_on_def)
  then show ?thesis unfolding r(4) using r(2) by (auto simp: challenge_evolves_def intro!: grows_update)
qed

lemma success_backed:
  assumes valid: "validate_customer_resolution s cr = Inr (body, error)" "cr_lease cr = Some lease"
    "cr_disposition cr = Some ''succeeded''"
    and item: "payload_of j original" "le_item lease = customer_dispatch_item original (le_job lease) (le_attempt lease)"
    and c: "c \<in> set cs" "ch_id c = le_challenge lease" "ch_hotkey c = le_owner lease" "ch_status c = s"
    and d: "le_challenge lease = dispatched_as j original"
  shows "result_backed cs (resolved_job now lease cr body error j)"
proof -
  obtain kvs where k: "s = Verified" "validate_customer_result lease kvs = Inr ()"
    "body = Some (encode_ascii (dumps (PDict kvs)))"
    using valid by (rule validate_customer_resolution_ok)
  from k(2) obtain asg where "int_elements (dget kvs ''assignment'') = Some asg"
    "certifies (item_instance (le_item lease)) asg"
    "dget kvs ''challenge_id'' = PStr (le_challenge lease)" "dget kvs ''assigned_hotkey'' = PStr (le_owner lease)"
    by (rule validate_customer_result_ok)
  moreover have "item_instance (le_item lease) = item_instance original"
    by (simp add: item(2) customer_dispatch_item_def Let_def)
  ultimately show ?thesis
    unfolding result_backed_def resolved_job_fields using k item(1) c d valid(3)
    by (intro exI [of _ original] exI [of _ kvs] exI [of _ asg] exI [of _ c])
      (simp add: resolved_job_def Let_def final_job_status_def clear_lease_def)
qed

text \<open>A job that is resolved under its lease: the challenge row is the one the lease names.\<close>

lemma resolve_job_inv:
  assumes inv: "jobs_inv l" "distinct (map ch_id (challenges l))"
    and valid: "validate_customer_resolution s cr = Inr (body, error)" "cr_lease cr = Some lease"
    and lease: "require_current_customer_lease now1 lease l = Inr ()"
    and row: "resolve_challenge_row now2 (le_challenge lease) s u l = Inr (c, l1)"
    and l2: "jobs l2 = jobs l" "challenges l2 = challenges l1"
    and res: "resolve_customer_job now3 lease cr body error l2 = Inr m"
  shows "jobs_inv m"
proof -
  obtain j original x where j: "find_job l (le_job lease) = Some j" "jb_status j = Leased"
    "jb_token j = Some (le_token lease)" "jb_owner j = Some (le_owner lease)"
    "jb_challenge j = Some (le_challenge lease)" "jb_attempts j = le_attempt lease" "payload_of j original"
    "le_item lease = customer_dispatch_item original (le_job lease) (le_attempt lease)"
    using lease by (rule current_lease_ok)
  note jm = find_job_ok [OF j(1)]
  have only: "k = j" if "k \<in> set (jobs l)" "jb_id k = le_job lease" for k
    using that jm inv(1) by (auto simp: jobs_inv_def distinct_map inj_on_def)
  have held: "lease_held (challenges l) j" using inv(1) jm j(2) by (simp add: jobs_inv_def job_ok_def)
  have item: "item = original" if "payload_of j item" for item using that j(7) by (simp add: payload_of_def)
  obtain c' where c': "c' \<in> set (challenges l)" "ch_id c' = le_challenge lease" "ch_hotkey c' = le_owner lease"
    "le_challenge lease = dispatched_as j original"
    using held j(4,5) item unfolding lease_held_def by fastforce
  note m = resolve_customer_job_rows [OF res]
  note grown = resolve_row_grows [OF row inv(2), folded l2(2), folded m(2)]
  let ?j = "resolved_job now3 lease cr body error j" and ?c = "c'\<lparr>ch_status := s, ch_units := u, ch_resolved_at := Some now2\<rparr>"
  have "?c \<in> set (challenges m)"
    unfolding m(2) l2(2) resolve_challenge_row_ok(4) [OF row] using c'(1,2)
    by (auto simp: set_update_where image_iff intro!: bexI [of _ c'])
  then have "result_backed (challenges m) ?j" if "cr_disposition cr = Some ''succeeded''"
    by (rule success_backed [OF valid that j(7,8)]) (use c' in simp_all)
  then have "job_ok (challenges m) ?j"
    using j(7) unfolding job_ok_def resolved_job_fields by (auto simp: final_job_status_def resolved_job_fields)
  moreover have "k \<in> set (jobs l) \<or> k = ?j" if "k \<in> set (jobs m)" for k
    using that only unfolding m(1) l2(1) set_update_where by (auto split: if_splits)
  moreover have "map jb_id (jobs m) = map jb_id (jobs l)" by (simp add: m(1) l2(1) resolved_job_fields)
  ultimately show ?thesis using inv(1) job_ok_grows [OF _ grown] by (auto simp: jobs_inv_def)
qed

lemma resolution_jobs_inv:
  assumes inv: "jobs_inv l" "distinct (map ch_id (challenges l))"
    and valid: "validate_customer_resolution s cr = Inr (body, error)"
      "pred_option (\<lambda>lease. le_challenge lease = cid) (cr_lease cr)"
      "\<And>lease. cr_lease cr = Some lease \<Longrightarrow> require_current_customer_lease now1 lease l = Inr ()"
    and row: "resolve_challenge_row now2 cid s u l = Inr (c, l1)"
    and l2: "jobs l2 = jobs l1" "challenges l2 = challenges l1"
    and m: "case cr_lease cr of None \<Rightarrow> m = l2 | Some lease \<Rightarrow> resolve_customer_job now3 lease cr body error l2 = Inr m"
  shows "jobs_inv m"
proof (cases "cr_lease cr")
  case None
  have "jobs l2 = jobs l" unfolding l2(1) resolve_challenge_row_ok(4) [OF row] by simp
  moreover note resolve_row_grows [OF row inv(2), folded l2(2)]
  ultimately show ?thesis using None m jobs_inv_mono [OF inv(1)] by simp
next
  case (Some lease)
  have cid: "cid = le_challenge lease" using valid(2) Some by simp
  have "jobs l2 = jobs l" unfolding l2(1) resolve_challenge_row_ok(4) [OF row] by simp
  moreover have "resolve_customer_job now3 lease cr body error l2 = Inr m" using m Some by simp
  ultimately show ?thesis
    using resolve_job_inv [OF inv valid(1) Some valid(3) [OF Some] row [unfolded cid]] l2(2) by blast
qed

section \<open>All methods\<close>

lemma step_jobs_inv:
  assumes "ledger_step l m" "jobs_inv l" "evidence_inv l"
  shows "jobs_inv m"
proof -
  have evolves: "grows challenge_evolves (challenges l) (challenges m)" and ids: "distinct (map ch_id (challenges l))"
    using step_evolves [OF assms(1,3)] assms(3)
    by (simp_all add: ledger_evolves_def evidence_inv_def challenges_inv_def)
  note same = jobs_inv_mono [OF assms(2) _ evolves]
  from assms(1) show ?thesis
  proof cases
    case begins
    then show ?thesis by (intro same) (auto simp: begin_epoch_def ok_simps split: option.splits)
  next
    case aborts
    then show ?thesis using assms(2) by (rule abort_jobs_inv)
  next
    case abandons
    then show ?thesis by (intro same) (auto simp: abandon_completed_epoch_def ok_simps split: if_splits)
  next
    case publishes
    then show ?thesis by (intro same) (auto simp: mark_published_def ok_simps split: if_splits)
  next
    case issues
    then show ?thesis by (intro same) (auto elim!: issue_challenge_ok)
  next
    case enqueues
    then show ?thesis using assms(2) by (rule enqueue_jobs_inv)
  next
    case prunes
    then show ?thesis using assms(2) by (rule prune_jobs_inv)
  next
    case claims
    then show ?thesis using assms(2) by (rule claim_jobs_inv)
  next
    case completes
    then show ?thesis by (intro same) (cases rule: complete_epoch_cases, auto)
  next
    case (resolves clock cid status units derived cr)
    then show ?thesis
    proof (rule resolve_challenge_steps)
      fix s u body error c l1
      assume "validate_customer_resolution s cr = Inr (body, error)"
        "pred_option (\<lambda>lease. le_challenge lease = cid) (cr_lease cr)"
        "\<And>lease. cr_lease cr = Some lease \<Longrightarrow> require_current_customer_lease (fst clock) lease l = Inr ()"
        "resolve_challenge_row (fst (snd clock)) cid s u l = Inr (c, l1)"
        "case cr_lease cr of None \<Rightarrow> m = l1
           | Some lease \<Rightarrow> resolve_customer_job (snd (snd clock)) lease cr body error l1 = Inr m"
      from resolution_jobs_inv [OF assms(2) ids this(1,2) this(3) this(4) refl refl this(5)] show ?thesis .
    qed
  next
    case (resolves_with_receipt clock cid status units derived rq cr)
    then show ?thesis
    proof (rule resolve_with_receipt_steps)
      fix s u body error c l1 row
      assume "validate_customer_resolution s cr = Inr (body, error)"
        "pred_option (\<lambda>lease. le_challenge lease = cid) (cr_lease cr)"
        "\<And>lease. cr_lease cr = Some lease \<Longrightarrow> require_current_customer_lease (fst clock) lease l = Inr ()"
        "resolve_challenge_row (fst (snd clock)) cid s u l = Inr (c, l1)"
        "case cr_lease cr of None \<Rightarrow> m = l1\<lparr>receipts := receipts l @ [row]\<rparr>
           | Some lease \<Rightarrow> resolve_customer_job (snd (snd clock)) lease cr body error
               (l1\<lparr>receipts := receipts l @ [row]\<rparr>) = Inr m"
      from resolution_jobs_inv [OF assms(2) ids this(1,2) this(3) this(4) _ _ this(5)] show ?thesis by simp
    qed
  qed (intro same; auto dest!: append_ok)+
qed

text \<open>The evidence and the job table together.\<close>

definition custody_inv :: "ledger \<Rightarrow> bool" where
  "custody_inv l \<longleftrightarrow> evidence_inv l \<and> jobs_inv l"

interpretation job_store: durable_store ledger_step empty_ledger custody_inv ledger_evolves
proof
  show "custody_inv empty_ledger"
    using ledger_store.start_inv by (simp add: custody_inv_def jobs_inv_def empty_ledger_def)
next
  fix l m assume "ledger_step l m" "custody_inv l"
  then show "custody_inv m \<and> ledger_evolves l m"
    using step_evolves step_jobs_inv by (simp add: custody_inv_def)
qed (use ledger_evolves_trans in auto)

end
