(* ===== verification/Ledger_Records.thy ===== *)
theory Ledger_Records
  imports Ledger_Custody
begin

text \<open>
  Three more guarantees of every history of a ledger: the score rows of a reported epoch stay as
  they are, a stored receipt matches the work it was issued for, and the exports of a stream
  form one chain.
\<close>

section \<open>Tables that one method writes\<close>

lemma step_frame:
  assumes "ledger_step l m"
  shows "(\<exists>now_text completion e q sc. complete_epoch now_text completion e q l = Inr (sc, m)) \<or> score_rows m = score_rows l"
    and "(\<exists>e q bs. record_score_class_export e q l = Inr (bs, m)) \<or> exports m = exports l"
    and "(\<exists>clock cid status units derived q cr.
        resolve_challenge_with_receipt clock cid status units derived q cr l = Inr m) \<or> receipts m = receipts l"
proof -
  show "(\<exists>now_text completion e q sc. complete_epoch now_text completion e q l = Inr (sc, m)) \<or> score_rows m = score_rows l"
    using assms
  proof cases
    case completes
    then show ?thesis by blast
  qed (auto simp: begin_epoch_def abort_epoch_def abandon_completed_epoch_def mark_published_def Let_def ok_simps
      dest!: append_ok elim!: issue_challenge_ok enqueue_customer_job_ok prune_customer_jobs_ok
      split: option.splits if_splits)
  show "(\<exists>e q bs. record_score_class_export e q l = Inr (bs, m)) \<or> exports m = exports l"
    using assms
  proof cases
    case completes
    then show ?thesis by (cases rule: complete_epoch_cases) auto
  next
    case exports_class
    then show ?thesis by blast
  qed (auto simp: begin_epoch_def abort_epoch_def abandon_completed_epoch_def mark_published_def Let_def ok_simps
      dest!: append_ok elim!: issue_challenge_ok enqueue_customer_job_ok prune_customer_jobs_ok
      split: option.splits if_splits)
  show "(\<exists>clock cid status units derived q cr.
      resolve_challenge_with_receipt clock cid status units derived q cr l = Inr m) \<or> receipts m = receipts l"
    using assms
  proof cases
    case completes
    then show ?thesis by (cases rule: complete_epoch_cases) auto
  next
    case resolves_with_receipt
    then show ?thesis by blast
  qed (auto simp: begin_epoch_def abort_epoch_def abandon_completed_epoch_def mark_published_def Let_def ok_simps
      dest!: append_ok elim!: issue_challenge_ok enqueue_customer_job_ok prune_customer_jobs_ok
      split: option.splits if_splits)
qed

section \<open>Stored scores\<close>

definition scores_at :: "ledger \<Rightarrow> nat \<Rightarrow> score_row list" where
  "scores_at l e = filter (\<lambda>s. sr_epoch s = e) (score_rows l)"

definition scores_inv :: "ledger \<Rightarrow> bool" where
  "scores_inv l \<longleftrightarrow> evidence_inv l
     \<and> (\<forall>s \<in> set (score_rows l). \<exists>r \<in> set (epochs l). ep_id r = sr_epoch s \<and> reported r)"

definition scores_kept :: "ledger \<Rightarrow> ledger \<Rightarrow> bool" where
  "scores_kept l m \<longleftrightarrow> ledger_evolves l m
     \<and> (\<forall>r \<in> set (epochs l). reported r \<longrightarrow> scores_at m (ep_id r) = scores_at l (ep_id r))"

lemma reported_evolves: "epoch_evolves r s \<Longrightarrow> reported r \<Longrightarrow> reported s"
  by (cases "ep_status r") (auto simp: epoch_evolves_def reported_def is_status_def)

lemma reported_later:
  assumes "ledger_evolves l m" "r \<in> set (epochs l)" "reported r"
  obtains s where "s \<in> set (epochs m)" "ep_id s = ep_id r" "reported s"
proof -
  have "grows epoch_evolves (epochs l) (epochs m)" using assms(1) by (simp add: ledger_evolves_def)
  from grows_mem [OF this assms(2)] obtain s where "s \<in> set (epochs m)" "epoch_evolves r s" by blast
  then show thesis using that reported_evolves [OF _ assms(3)] by (auto simp: epoch_evolves_def)
qed

lemma step_scores:
  assumes "ledger_step l m" "scores_inv l"
  shows "scores_inv m \<and> scores_kept l m"
proof -
  have inv: "evidence_inv l" using assms(2) by (simp add: scores_inv_def)
  then have e: "epochs_inv l" by (simp add: evidence_inv_def)
  have m: "evidence_inv m" "ledger_evolves l m" using step_evolves [OF assms(1) inv] by simp_all
  have old: "\<exists>r \<in> set (epochs m). ep_id r = sr_epoch s \<and> reported r" if "s \<in> set (score_rows l)" for s
    using that assms(2) reported_later [OF m(2)] unfolding scores_inv_def by metis
  from step_frame(1) [OF assms(1)] show ?thesis
  proof (elim disjE exE)
    assume "score_rows m = score_rows l"
    then show ?thesis using m old by (simp add: scores_inv_def scores_kept_def scores_at_def)
  next
    fix now_text completion e q sc
    assume "complete_epoch now_text completion e q l = Inr (sc, m)"
    then show ?thesis
    proof (cases rule: complete_epoch_cases)
      case again
      then show ?thesis using assms(2) by (simp add: scores_kept_def)
    next
      case (freeze r generated_at audience universe body)
      note r = epoch_of_ok [OF freeze(1)]
      have "frozen completion generated_at body r \<in> set (epochs m)"
        using r by (auto simp: freeze(9) set_epoch_def set_update_where at_epoch_def image_iff intro!: bexI [of _ r])
      then have new: "\<exists>s \<in> set (epochs m). ep_id s = e \<and> reported s"
        using r by (intro bexI) (auto simp: frozen_def reported_def is_status_def)
      have "ep_id k \<noteq> e" if "k \<in> set (epochs l)" "reported k" for k
        using epoch_unique [OF \<open>epochs_inv l\<close>, of r k] that r freeze(2) by (auto simp: reported_def is_status_def)
      moreover obtain rows where "score_rows m = score_rows l @ rows" "\<forall>x \<in> set rows. sr_epoch x = e"
        by (auto simp: freeze(9))
      ultimately have "scores_at m (ep_id k) = scores_at l (ep_id k)" if "k \<in> set (epochs l)" "reported k" for k
        using that by (force simp: scores_at_def filter_empty_conv)
      moreover have "\<exists>r \<in> set (epochs m). ep_id r = sr_epoch s \<and> reported r" if "s \<in> set (score_rows m)" for s
        using that old new by (auto simp: freeze(9))
      ultimately show ?thesis using m by (simp add: scores_inv_def scores_kept_def)
    qed
  qed
qed

lemma scores_kept_trans:
  assumes "scores_kept l m" "scores_kept m n"
  shows "scores_kept l n"
proof -
  have "scores_at n (ep_id r) = scores_at l (ep_id r)" if r: "r \<in> set (epochs l)" "reported r" for r
  proof -
    obtain s where "s \<in> set (epochs m)" "ep_id s = ep_id r" "reported s"
      using assms(1) r by (auto simp: scores_kept_def elim: reported_later)
    then show ?thesis using assms r by (metis scores_kept_def)
  qed
  then show ?thesis using assms ledger_evolves_trans by (auto simp: scores_kept_def)
qed

interpretation score_store: durable_store ledger_step empty_ledger scores_inv scores_kept
proof
  show "scores_inv empty_ledger" using ledger_store.start_inv by (simp add: scores_inv_def empty_ledger_def)
next
  fix l m assume "ledger_step l m" "scores_inv l"
  then show "scores_inv m \<and> scores_kept l m" by (rule step_scores)
next
  fix l m n assume "scores_kept l m" "scores_kept m n"
  then show "scores_kept l n" by (rule scores_kept_trans)
qed (simp add: scores_kept_def)

text \<open>The rows that completion inserts are read back as the scores it returns.\<close>

lemma complete_loads:
  assumes "complete_epoch now_text completion e q l = Inr (sc, m)" "scores_inv l" "epoch_of l e = Inr r" "ep_status r = Running"
  shows "load_scores m e = sc"
  using assms(1)
proof (cases rule: complete_epoch_cases)
  case (again r')
  then show ?thesis by simp
next
  case (freeze r' generated_at audience universe body)
  have e: "epochs_inv l" using assms(2) by (simp add: scores_inv_def evidence_inv_def)
  have "sr_epoch s \<noteq> e" if s: "s \<in> set (score_rows l)" for s
  proof
    assume "sr_epoch s = e"
    then obtain k where "k \<in> set (epochs l)" "ep_id k = e" "reported k" using assms(2) s by (auto simp: scores_inv_def)
    then show False
      using epoch_unique [OF e, of r k] epoch_of_ok [OF assms(3)] assms(4) by (auto simp: reported_def is_status_def)
  qed
  then have "filter (\<lambda>s. sr_epoch s = e) (score_rows l) = []" by (simp add: filter_empty_conv)
  moreover have "sorted universe" by (simp add: freeze(4) score_universe_def)
  ultimately show ?thesis
    by (simp add: load_scores_def freeze(8,9) sort_key_id_if_sorted o_def)
qed

lemma load_scores_kept: "scores_at m e = scores_at l e \<Longrightarrow> load_scores m e = load_scores l e"
  by (simp add: load_scores_def scores_at_def)

section \<open>Stored receipts\<close>

text \<open>The challenge a receipt was issued for, and the checks its body passed when it was stored.\<close>

definition receipt_bound :: "challenge_row list \<Rightarrow> receipt_row \<Rightarrow> bool" where
  "receipt_bound cs r \<longleftrightarrow>
    (\<exists>c \<in> set cs. ch_id c = rr_challenge r \<and> ch_epoch c = rr_epoch r \<and> ch_hotkey c = rr_hotkey r
       \<and> ch_status c = rr_status r \<and> ch_status c \<noteq> Issued
       \<and> (\<exists>doc. checked_receipt (ch_id c) (ch_status c) (ch_units c)
             \<lparr>rcq_receipt_id = rr_id r, rcq_body = rr_body r, rcq_digest = rr_digest r, rcq_issued_at = rr_issued_at r\<rparr> = Inr doc))"

definition receipts_inv :: "ledger \<Rightarrow> bool" where
  "receipts_inv l \<longleftrightarrow> evidence_inv l \<and> (\<forall>r \<in> set (receipts l). receipt_bound (challenges l) r)
     \<and> sorted_wrt (\<lambda>r s. rr_challenge r \<noteq> rr_challenge s \<and> \<not> (rr_epoch r = rr_epoch s \<and> rr_hotkey r = rr_hotkey s))
         (receipts l)"

lemma receipt_bound_grows:
  assumes "receipt_bound cs r" "grows challenge_evolves cs ds"
  shows "receipt_bound ds r"
proof -
  have "c \<in> set ds" if "c \<in> set cs" "ch_status c \<noteq> Issued" for c
    using grows_mem [OF assms(2) that(1)] that(2) by (auto simp: challenge_evolves_def)
  then show ?thesis using assms(1) unfolding receipt_bound_def by meson
qed

lemma units_not_issued: "validated_resolution_units status units derived = Inr (s, u) \<Longrightarrow> s \<noteq> Issued"
  by (auto simp: validated_resolution_units_def resolve_status_def ok_simps split: if_splits option.splits)

lemma resolve_receipts_inv:
  assumes "resolve_challenge_with_receipt clock cid status units derived q cr l = Inr m" "receipts_inv l"
    "evidence_inv m" "ledger_evolves l m"
  shows "receipts_inv m"
  using assms(1)
proof (rule resolve_with_receipt_steps)
  fix s u receipt body error c l1 row
  assume v: "validated_resolution_units status units derived = Inr (s, u)" "checked_receipt cid s u q = Inr receipt"
    and row: "resolve_challenge_row (fst (snd clock)) cid s u l = Inr (c, l1)"
      "row = \<lparr>rr_id = rcq_receipt_id q, rr_epoch = ch_epoch c, rr_hotkey = ch_hotkey c, rr_challenge = cid,
       rr_status = s, rr_body = rcq_body q, rr_digest = rcq_digest q, rr_issued_at = rcq_issued_at q\<rparr>"
    and fresh: "\<forall>x \<in> set (receipts l). rr_id x \<noteq> rr_id row \<and> rr_challenge x \<noteq> cid
       \<and> (rr_epoch x \<noteq> ch_epoch c \<or> rr_hotkey x \<noteq> ch_hotkey c)"
    and m: "case cr_lease cr of None \<Rightarrow> m = l1\<lparr>receipts := receipts l @ [row]\<rparr>
       | Some lease \<Rightarrow> resolve_customer_job (snd (snd clock)) lease cr body error
           (l1\<lparr>receipts := receipts l @ [row]\<rparr>) = Inr m"
  have tables: "receipts m = receipts l @ [row]" "challenges m = challenges l1"
    using m by (auto dest: resolve_customer_job_ok split: option.splits)
  let ?c = "c\<lparr>ch_status := s, ch_units := u, ch_resolved_at := Some (fst (snd clock))\<rparr>"
  note r = resolve_challenge_row_ok [OF row(1)]
  have "?c \<in> set (challenges m)"
    unfolding tables r(4) using find_challenge_ok [OF r(1)]
    by (auto simp: set_update_where image_iff intro!: bexI [of _ c])
  moreover have "ch_id c = cid" using find_challenge_ok [OF r(1)] by simp
  moreover have "checked_receipt cid s u \<lparr>rcq_receipt_id = rcq_receipt_id q, rcq_body = rcq_body q,
      rcq_digest = rcq_digest q, rcq_issued_at = rcq_issued_at q\<rparr> = Inr receipt" using v(2) by (cases q) simp
  ultimately have "receipt_bound (challenges m) row"
    unfolding receipt_bound_def row(2) using units_not_issued [OF v(1)] by (intro bexI [of _ ?c]) auto
  moreover have "receipt_bound (challenges m) x" if "x \<in> set (receipts l)" for x
    using receipt_bound_grows that assms(2,4) unfolding receipts_inv_def ledger_evolves_def by blast
  ultimately show ?thesis
    using assms(2,3) fresh unfolding receipts_inv_def tables(1) by (auto simp: sorted_wrt_append row(2))
qed

interpretation receipt_store: durable_store ledger_step empty_ledger receipts_inv ledger_evolves
proof
  show "receipts_inv empty_ledger" using ledger_store.start_inv by (simp add: receipts_inv_def empty_ledger_def)
next
  fix l m assume a: "ledger_step l m" "receipts_inv l"
  then have m: "evidence_inv m" "ledger_evolves l m" using step_evolves [of l m] by (simp_all add: receipts_inv_def)
  have "receipts_inv m" if "receipts m = receipts l"
    using a(2) m receipt_bound_grows that unfolding receipts_inv_def ledger_evolves_def by metis
  then show "receipts_inv m \<and> ledger_evolves l m" using step_frame(3) [OF a(1)] resolve_receipts_inv a(2) m by blast
qed (use ledger_evolves_trans in auto)

section \<open>Export chains\<close>

definition exported :: "ledger \<Rightarrow> string \<times> int \<times> string \<times> string \<Rightarrow> export_row list" where
  "exported l stream = filter (\<lambda>x. ex_stream x = stream) (exports l)"

text \<open>The body of a row is the canonical document of its report, after \<open>previous\<close>.\<close>

definition export_follows :: "string option \<Rightarrow> export_row \<Rightarrow> bool" where
  "export_follows previous x \<longleftrightarrow>
    (\<exists>doc. strict_value (ex_body x) ''score-class report body is invalid'' = Inr (PDict doc)
       \<and> encode_ascii (dumps (PDict doc)) = ex_body x \<and> ex_body_digest x = sha256_label (ex_body x)
       \<and> dget doc ''report_id'' = PStr (ex_report_id x) \<and> dget doc ''previous_report_id'' = opt_str previous
       \<and> scalar_eq (dget doc ''source_epoch'') (PInt (ex_source_epoch x)))"

fun export_chain :: "string option \<Rightarrow> export_row list \<Rightarrow> bool" where
  "export_chain previous [] = True"
| "export_chain previous (x # xs) =
    (export_follows previous x \<and> (\<forall>y \<in> set xs. ex_source_epoch x < ex_source_epoch y)
     \<and> export_chain (Some (ex_report_id x)) xs)"

definition exports_inv :: "ledger \<Rightarrow> bool" where
  "exports_inv l \<longleftrightarrow> (\<forall>stream. export_chain None (exported l stream))"

lemma latest_in_chain: "export_chain p xs \<Longrightarrow> latest_export xs = (if xs = [] then None else Some (last xs))"
proof (induction xs arbitrary: p)
  case (Cons x xs)
  then show ?case by (cases "xs = []") (auto dest!: Cons.IH, meson last_in_set less_asym)
qed simp

lemma chain_snoc:
  assumes "export_chain p xs" "export_follows (if xs = [] then p else Some (ex_report_id (last xs))) x"
    "\<forall>y \<in> set xs. ex_source_epoch y < ex_source_epoch x"
  shows "export_chain p (xs @ [x])"
  using assms
proof (induction xs arbitrary: p)
  case (Cons y ys)
  then show ?case by (cases "ys = []") simp_all
qed simp

lemma chain_last_max: "export_chain p xs \<Longrightarrow> y \<in> set xs \<Longrightarrow> ex_source_epoch y \<le> ex_source_epoch (last xs)"
proof (induction xs arbitrary: p)
  case (Cons x xs)
  then show ?case by (cases "xs = []") (auto simp: less_imp_le)
qed simp

lemma export_document_ok:
  assumes "export_document q = Inr ()"
  shows "export_follows (xq_previous q)
    \<lparr>ex_epoch = e, ex_source_epoch = xq_source_epoch q, ex_stream = export_stream q, ex_report_id = xq_report_id q,
     ex_body = xq_body q, ex_body_digest = sha256_label (xq_body q)\<rparr>"
proof -
  obtain v where v: "strict_value (xq_body q) ''score-class report body is invalid'' = Inr v"
    using assms by (auto simp: export_document_def ok_simps)
  then obtain doc where "v = PDict doc" using assms by (cases v) (auto simp: export_document_def)
  with v assms show ?thesis by (auto simp: export_document_def export_follows_def ok_simps split: if_splits)
qed

lemma record_export_chain:
  assumes "record_score_class_export e q l = Inr (bs, m)" "exports_inv l"
  shows "exports_inv m"
proof -
  let ?xs = "exported l (export_stream q)"
  let ?x = "\<lparr>ex_epoch = e, ex_source_epoch = xq_source_epoch q, ex_stream = export_stream q, ex_report_id = xq_report_id q,
     ex_body = xq_body q, ex_body_digest = sha256_label (xq_body q)\<rparr>"
  have chain: "export_chain None ?xs" using assms(2) unfolding exports_inv_def ..
  have doc: "export_follows (xq_previous q) ?x"
    using assms(1) by (intro export_document_ok) (auto simp: record_score_class_export_def ok_simps)
  have "m = l \<or> m = l\<lparr>exports := exports l @ [?x]\<rparr> \<and>
      (case latest_export ?xs of None \<Rightarrow> xq_previous q = None
       | Some x \<Rightarrow> ex_source_epoch x < xq_source_epoch q \<and> xq_previous q = Some (ex_report_id x))"
    using assms(1) unfolding record_score_class_export_def exported_def
    by (auto simp: ok_simps split: option.splits if_splits)
  then show ?thesis
  proof (elim disjE conjE)
    assume m: "m = l\<lparr>exports := exports l @ [?x]\<rparr>" and prev: "case latest_export ?xs of None \<Rightarrow> xq_previous q = None
       | Some x \<Rightarrow> ex_source_epoch x < xq_source_epoch q \<and> xq_previous q = Some (ex_report_id x)"
    have "export_chain None (?xs @ [?x])"
    proof (rule chain_snoc [OF chain])
      show "export_follows (if ?xs = [] then None else Some (ex_report_id (last ?xs))) ?x"
        using doc prev by (simp add: latest_in_chain [OF chain] split: if_splits)
      show "\<forall>y \<in> set ?xs. ex_source_epoch y < ex_source_epoch ?x"
        using prev chain_last_max [OF chain] by (fastforce simp: latest_in_chain [OF chain] split: if_splits)
    qed
    then show ?thesis using assms(2) by (auto simp: exports_inv_def exported_def m)
  qed (use assms(2) in simp)
qed

interpretation export_store: durable_store ledger_step empty_ledger exports_inv "\<lambda>l m. True"
proof
  show "exports_inv empty_ledger" by (simp add: exports_inv_def exported_def empty_ledger_def)
next
  fix l m assume "ledger_step l m" "exports_inv l"
  then show "exports_inv m \<and> True"
    using step_frame(2) [of l m] record_export_chain by (auto simp: exports_inv_def exported_def)
qed auto

end
