(* ===== verification/Ledger_Customer.thy ===== *)
theory Ledger_Customer
  imports Ledger_Custody Workproof_Properties
begin

text \<open>
  Customer jobs from end to end: a submitted item is read back from its stored payload, and a
  correct answer under a current lease is stored and credited.
\<close>

section \<open>Payloads\<close>

text \<open>JSON text has no control characters, so its bytes contain no zero.\<close>

definition shown :: "char \<Rightarrow> bool" where
  "shown c \<longleftrightarrow> 32 \<le> ord_c c"

lemma shown_hex: "n < 16 \<Longrightarrow> shown (hex_digit n)"
  using hex_digit_class [of n] by (auto simp: text_simps shown_def)

lemma shown_json_string: "list_all shown (json_string s)"
proof -
  have "list_all shown (json_escape c)" for c
    using shown_hex ord_c_less [of c] by (auto simp: json_escape_def Let_def shown_def less_mult_imp_div_less)
  then show ?thesis by (auto simp: json_string_def list_all_iff shown_def)
qed

lemma shown_join_comma: "list_all (list_all shown) ts \<Longrightarrow> list_all shown (join_comma ts)"
  by (induction ts rule: join_comma.induct) (auto simp: shown_def)

lemma shown_dumps: "is_json v \<Longrightarrow> list_all shown (dumps v)"
proof (induction v rule: pyval.induct)
  case (PDict kvs)
  then have "list_all shown (dumps v)" if "(k, v) \<in> set kvs" for k v
    using that by (fastforce simp: list_all_iff)
  then have "list_all shown (json_member (k, dumps v))" if "(k, v) \<in> set kvs" for k v
    using that shown_json_string [of k] by (simp add: json_member_def shown_def [of "CHR '':''"])
  then have "list_all (list_all shown) (map (\<lambda>(k, v). json_member (k, dumps v)) (sort_key fst kvs))"
    by (auto simp: list_all_iff)
  from shown_join_comma [OF this] show ?case
    by (simp add: dumps_PDict_sorted shown_def [of "CHR ''{''"] shown_def [of "CHR ''}''"] del: dumps.simps)
next
  case (PList vs)
  then have "list_all (list_all shown) (map dumps vs)" by (auto simp: list_all_iff)
  from shown_join_comma [OF this] show ?case
    by (simp add: shown_def [of "CHR ''[''"] shown_def [of "CHR '']''"])
next
  case (PInt i)
  then show ?case
    using show_nat_digits by (fastforce simp: show_int_def list_all_iff is_digit_def shown_def)
qed (simp_all add: shown_json_string, simp_all add: shown_def)

lemma ascii_text_dumps:
  assumes "list_all shown t" "list_all is_ascii t"
  shows "ascii_text (encode_ascii t) = Inr t"
proof -
  have "(of_nat (ord_c c) :: 8 word) \<noteq> 0" if "c \<in> set t" for c
  proof
    assume z: "(of_nat (ord_c c) :: 8 word) = 0"
    have "ord_c c < 256" by (rule ord_c_less)
    then have "unat (of_nat (ord_c c) :: 8 word) = ord_c c" by (simp add: unat_of_nat)
    moreover have "32 \<le> ord_c c" using assms(1) that by (simp add: list_all_iff shown_def)
    ultimately show False using z by simp
  qed
  then show ?thesis
    using decode_encode_ascii [OF assms(2)] by (auto simp: ascii_text_def encode_ascii_def)
qed

lemma customer_item_json: "item_valid item \<Longrightarrow> is_json (customer_item_value item)"
  using valid_instance_digits [of "item_instance item"] seed_digits [of "item_seed item"]
  by (simp add: item_valid_def customer_item_value_def clauses_pyval_def list_all_iff)

lemma payload_round_trip:
  assumes "item_valid item"
  shows "customer_item_from_body (encode_ascii (dumps (customer_item_value item)))
    (sha256_label (encode_ascii (dumps (customer_item_value item)))) = Inr item"
proof -
  note j = customer_item_json [OF assms]
  have "canon (customer_item_value item) = customer_item_value item"
    by (simp add: customer_item_value_def)
  then have "strict_object (encode_ascii (dumps (customer_item_value item))) m =
      Inr [(''challenge_id'', PStr (item_challenge_id item)), (''clauses'', clauses_pyval (clauses (item_instance item))),
           (''n_vars'', PInt (n_vars (item_instance item))), (''seed'', PInt (item_seed item))]" for m
    using ascii_text_dumps [OF shown_dumps [OF j] ascii_dumps [OF j]] loads_dumps [OF j, of True]
    by (simp add: strict_object_def strict_value_def customer_item_value_def del: dumps.simps)
  moreover have "validate_sat_work_item (raw_item item) = Inr item"
    using assms by (simp add: validate_sat_work_item_ok_iff)
  ultimately show ?thesis
    by (simp add: customer_item_from_body_def raw_item_def insert_commute)
qed

section \<open>Answers\<close>

lemma only_Inr: "(case x of Inl e \<Rightarrow> Inl (g e) | Inr y \<Rightarrow> Inr y) = Inr z \<longleftrightarrow> x = Inr z"
  by (cases x) auto

lemma payload_valid: "payload_of j item \<Longrightarrow> item_valid item"
proof -
  assume "payload_of j item"
  then obtain raw where "validate_sat_work_item raw = Inr item"
    by (auto simp: payload_of_def customer_item_from_body_def ok_simps only_Inr split: if_splits)
  then show ?thesis by (simp add: validate_sat_work_item_ok_iff)
qed

lemma answer_accepted:
  assumes "valid_instance (item_instance (le_item lease))" "certifies (item_instance (le_item lease)) asg"
    "length (le_owner lease) \<le> 256" "length (le_challenge lease) = 64"
  shows "validate_customer_result lease (result_items (le_owner lease) asg (le_challenge lease) (float_text 20)) = Inr ()"
    and "\<exists>body. customer_result_body (Some (result_items (le_owner lease) asg (le_challenge lease) (float_text 20))) = Inr (Some body)"
proof -
  let ?d = "result_items (le_owner lease) asg (le_challenge lease) (float_text 20)"
  have units: "customer_units_ok (float_text 20) = Inr True"
    by (simp add: float_text_def whole_float_def CUSTOMER_SAT_WORK_UNITS_def dec_digit_def read_nat_def digit_val_def is_digit_def)
  have elements: "int_elements (PList (map PInt asg)) = Some asg" by (simp add: int_elements_iff)
  have fields: "set (map fst ?d) = {''satisfiable'', ''assignment'', ''work_units'', ''challenge_id'', ''assigned_hotkey''}"
    "dget ?d ''satisfiable'' = PBool True" "dget ?d ''challenge_id'' = PStr (le_challenge lease)"
    "dget ?d ''assigned_hotkey'' = PStr (le_owner lease)" "dget ?d ''work_units'' = float_text 20"
    "dget ?d ''assignment'' = PList (map PInt asg)"
    by (auto simp: result_items_def)
  show "validate_customer_result lease ?d = Inr ()"
    unfolding validate_customer_result_def fields units elements using assms(2) by (simp add: certifies_def)
  have "length (dumps (PDict ?d)) \<le> 2 + 5 * 4000"
    using assms by (intro result_items_short) simp_all
  moreover have "json_encodable (PDict ?d)"
    using result_items_values(4) [OF assms(1,2)] by (fastforce simp: list_all_iff)
  ultimately show "\<exists>body. customer_result_body (Some ?d) = Inr (Some body)"
    by (simp add: customer_result_body_def Let_def MAX_CUSTOMER_JOB_RESULT_BYTES_def encode_ascii_def del: dumps.simps json_encodable.simps)
qed

definition answer :: "CustomerJobLease \<Rightarrow> int list \<Rightarrow> int \<Rightarrow> customer_resolution" where
  "answer lease asg n =
    \<lparr>cr_lease = Some lease, cr_disposition = Some ''succeeded'',
     cr_result = Some (result_items (le_owner lease) asg (le_challenge lease) (float_text 20)),
     cr_error = None, cr_max_attempts = n\<rparr>"

lemma update_finds:
  assumes "find P xs = Some x" "\<And>y. P (f y) = P y" "P x \<Longrightarrow> Q x"
  shows "find P (update_where Q f xs) = Some (f x)"
  using assms(1)
proof (induction xs)
  case (Cons y ys)
  then show ?case using assms(2,3) by (auto simp: update_where_def split: if_splits)
qed simp

lemma single_row:
  assumes "distinct (map f xs)" "x \<in> set xs" "P x" "\<And>y. P y \<Longrightarrow> f y = f x"
  shows "length (filter P xs) = 1"
proof -
  have "set (filter P xs) = {x}" using assms by (auto simp: distinct_map dest: inj_onD)
  moreover have "distinct (filter P xs)" using assms(1) by (simp add: distinct_map)
  ultimately show ?thesis using distinct_card by fastforce
qed

lemma leased_challenge:
  assumes "custody_inv l" "require_current_customer_lease now lease l = Inr ()" "find_challenge l (le_challenge lease) = Some c"
  shows "ch_epoch c = le_epoch lease" "valid_instance (item_instance (le_item lease))" "length (le_challenge lease) = 64"
proof -
  obtain j original x where j: "find_job l (le_job lease) = Some j" "jb_status j = Leased"
    "jb_epoch j = Some (le_epoch lease)" "jb_challenge j = Some (le_challenge lease)" "payload_of j original"
    "le_item lease = customer_dispatch_item original (le_job lease) (le_attempt lease)"
    using assms(2) by (rule current_lease_ok)
  have "lease_held (challenges l) j"
    using assms(1) find_job_ok [OF j(1)] j(2) by (simp add: custody_inv_def jobs_inv_def job_ok_def)
  then obtain item d where d: "d \<in> set (challenges l)" "ch_id d = le_challenge lease" "ch_epoch d = le_epoch lease"
    "ch_id d = dispatched_as j item"
    using j(3,4) by (auto simp: lease_held_def)
  have "c = d"
    using assms(1) d find_challenge_ok [OF assms(3)]
    by (auto simp: custody_inv_def evidence_inv_def challenges_inv_def distinct_map inj_on_def)
  then show "ch_epoch c = le_epoch lease" using d by simp
  show "valid_instance (item_instance (le_item lease))"
    using payload_valid [OF j(5)] by (simp add: j(6) customer_dispatch_item_def Let_def item_valid_def)
  show "length (le_challenge lease) = 64"
    using d(2,4) challenge_id_shape
    by (metis (no_types, lifting) customer_dispatch_item_def dispatched_as_def SatWorkItem.select_convs(3))
qed

lemma answer_resolves:
  assumes inv: "custody_inv l" and lease: "require_current_customer_lease now1 lease l = Inr ()"
    and run: "require_running l (le_epoch lease) a = Inr ()"
    and c: "find_challenge l (le_challenge lease) = Some c" "ch_status c = Issued"
    and asg: "certifies (item_instance (le_item lease)) asg" "length (le_owner lease) \<le> 256" "1 \<le> n" "n \<le> 100"
  shows "\<exists>m j. resolve_challenge (now1, now2, now3) (le_challenge lease) ''verified'' (float_text 20) True (answer lease asg n) l
       = Inr m
     \<and> find_job m (le_job lease) = Some j \<and> jb_status j = Succeeded
     \<and> find_challenge m (le_challenge lease) = Some (c\<lparr>ch_status := Verified, ch_units := 20, ch_resolved_at := Some now2\<rparr>)"
proof -
  note ch = leased_challenge [OF inv lease c(1)]
  obtain body where body: "customer_result_body (cr_result (answer lease asg n)) = Inr (Some body)"
    using answer_accepted(2) [OF ch(2) asg(1,2) ch(3)] by (auto simp: answer_def)
  have units: "validated_resolution_units ''verified'' (float_text 20) True = Inr (Verified, 20)"
    by (simp add: validated_resolution_units_def resolve_status_def float_text_def whole_float_def dec_digit_def read_nat_def
        digit_val_def is_digit_def)
  have valid: "validate_customer_resolution Verified (answer lease asg n) = Inr (Some body, None)"
    using answer_accepted(1) [OF ch(2) asg(1,2) ch(3)] body asg(3,4)
    by (simp add: validate_customer_resolution_def answer_def)
  obtain r where r: "find (at_epoch (ch_epoch c)) (epochs l) = Some r" "ep_status r = Running"
    using run by (auto simp: require_running_def epoch_of_def ch(1) ok_simps split: option.splits)
  let ?f = "\<lambda>c. c\<lparr>ch_status := Verified, ch_units := 20, ch_resolved_at := Some now2\<rparr>"
  let ?l1 = "l\<lparr>challenges := update_where (\<lambda>c. ch_id c = le_challenge lease) ?f (challenges l)\<rparr>"
  have row: "resolve_challenge_row now2 (le_challenge lease) Verified 20 l = Inr (c, ?l1)"
    using c r by (simp add: resolve_challenge_row_def)
  obtain j original x where j: "find_job l (le_job lease) = Some j" "jb_status j = Leased" "jb_token j = Some (le_token lease)"
    using lease by (rule current_lease_ok)
  let ?mine = "\<lambda>j. jb_id j = le_job lease \<and> jb_status j = Leased \<and> jb_token j = Some (le_token lease)"
  let ?m = "?l1\<lparr>jobs := update_where ?mine (resolved_job now3 lease (answer lease asg n) (Some body) None) (jobs l)\<rparr>"
  have one: "length (filter ?mine (jobs l)) = 1"
    using inv j find_job_ok [OF j(1)]
    by (intro single_row [of jb_id _ j]) (simp_all add: custody_inv_def jobs_inv_def)
  have job: "resolve_customer_job now3 lease (answer lease asg n) (Some body) None ?l1 = Inr ?m"
    using one by (simp add: resolve_customer_job_def Let_def resolved_job_def [abs_def])
  have "find_job ?m (le_job lease) = Some (resolved_job now3 lease (answer lease asg n) (Some body) None j)"
    using j unfolding find_job_def by (simp, intro update_finds) (simp_all add: resolved_job_fields)
  moreover have "find_challenge ?m (le_challenge lease) = Some (?f c)"
    using c(1) unfolding find_challenge_def by (simp, intro update_finds) simp_all
  moreover have "resolve_challenge (now1, now2, now3) (le_challenge lease) ''verified'' (float_text 20) True (answer lease asg n) l = Inr ?m"
    using lease job by (simp add: resolve_challenge_def units valid row) (simp add: answer_def)
  ultimately show ?thesis by (auto simp: resolved_job_fields final_job_status_def answer_def)
qed

end
