(* ===== verification/Ledger_Fixtures.thy ===== *)
theory Ledger_Fixtures
  imports Ledger_Records Ledger_Customer Sat_Properties
begin

text \<open>
  A concrete history of a ledger, for the witnesses: an epoch with one worker is completed and
  published and the next one begins; a customer job is submitted and leased; a score class is
  exported.
\<close>

section \<open>An epoch\<close>

definition fx_begin :: "int \<Rightarrow> begin_request" where
  "fx_begin s = \<lparr>bg_source_epoch = s, bg_release = None, bg_digest = None, bg_network = None, bg_netuid = None,
     bg_block = None, bg_hash = None\<rparr>"

definition fx_epoch :: "int \<Rightarrow> nat \<Rightarrow> epoch_row" where
  "fx_epoch s e = new_epoch 0 (fx_begin s) None e"

definition fx1 :: ledger where
  "fx1 = empty_ledger\<lparr>epochs := [fx_epoch 7 1], next_epoch := 2\<rparr>"

lemmas fx_epoch_defs = fx_begin_def fx_epoch_def new_epoch_def empty_ledger_def at_epoch_def epoch_of_def is_status_def
  require_running_def

lemma fx_step1: "begin_epoch 0 (fx_begin 7) empty_ledger = Inr (1, fx1)"
  by (simp add: begin_epoch_def fx_begin_def empty_ledger_def begin_anchor_def begin_registry_ok_def retry_source_def
      last_final_def LEDGER_MAX_INTEGER_def fx1_def fx_epoch_def)

definition fx_attest :: attestation_request where
  "fx_attest = \<lparr>aq_epoch = 1, aq_hotkey = ''a'', aq_verdict = ''VERIFIED'', aq_tee_type = ''TDX'', aq_workload = ''CPU'',
     aq_evidence = ''evidence'', aq_policy_mode = ''strict'', aq_score_eligible = None, aq_envelope = None,
     aq_envelope_required = False, aq_challenge = None\<rparr>"

definition fx2 :: ledger where
  "fx2 = fx1\<lparr>attestations := [new_attestation 1 fx_attest]\<rparr>"

lemma fx_step2: "add_attestation 1 fx_attest fx1 = Inr fx2"
  by (simp add: add_attestation_def fx_attest_def cpu_shape_def fx2_def fx1_def fx_epoch_defs)

definition fx3 :: ledger where
  "fx3 = fx2\<lparr>challenges := [new_challenge 2 ''c'' 1 ''a'']\<rparr>"

lemma fx_step3: "issue_challenge 2 ''c'' ''a'' 1 fx2 = Inr fx3"
  by (simp add: issue_challenge_def fx3_def fx2_def fx1_def fx_epoch_defs find_challenge_def)

definition fx4 :: ledger where
  "fx4 = fx3\<lparr>challenges := [(new_challenge 2 ''c'' 1 ''a'')\<lparr>ch_status := Verified, ch_units := 5, ch_resolved_at := Some 4\<rparr>]\<rparr>"

definition no_customer :: customer_resolution where
  "no_customer = \<lparr>cr_lease = None, cr_disposition = None, cr_result = None, cr_error = None, cr_max_attempts = 3\<rparr>"

lemma fx_step4: "resolve_challenge (3, 4, 4) ''c'' ''verified'' (PInt 5) True no_customer fx3 = Inr fx4"
  by (simp add: resolve_challenge_def validated_resolution_units_def resolve_status_def no_customer_def
      validate_customer_resolution_def resolve_challenge_row_def find_challenge_def fx4_def fx3_def fx2_def fx1_def fx_epoch_defs
      new_challenge_def update_where_def)

definition fx_complete :: complete_request where
  "fx_complete = \<lparr>cq_all_hotkeys = [''b''], cq_generated_at = None, cq_valid_until = None, cq_network = None, cq_netuid = None\<rparr>"

definition fx_document :: pyval where
  "fx_document = PDict
    [(''complete'', PBool True), (''epoch'', PInt 7), (''generated_at'', PStr ''t''),
     (''mechanism'', PStr ''cathedral_confidential_tdx''),
     (''metadata'', PDict
       [(''normalization'', PStr ''max''), (''attestation_policy_modes'', PList [PStr ''strict'']),
        (''policy_registry_release'', PNone), (''policy_registry_digest'', PNone), (''worker_lifecycle'', PList [])]),
     (''scores'', PList [PDict [(''miner_hotkey'', PStr ''a''), (''score'', PFloat ''1.0'')],
        PDict [(''miner_hotkey'', PStr ''b''), (''score'', PFloat ''0.0'')]]),
     (''source'', PStr ''cathedral_confidential_tdx'')]"

lemma fx4_fields: "epochs fx4 = [fx_epoch 7 1]" "attestations fx4 = [new_attestation 1 fx_attest]" "lifecycles fx4 = []"
  "challenges fx4 = [(new_challenge 2 ''c'' 1 ''a'')\<lparr>ch_status := Verified, ch_units := 5, ch_resolved_at := Some 4\<rparr>]"
  "score_rows fx4 = []" "next_epoch fx4 = 2" "jobs fx4 = []" "exports fx4 = []"
  by (simp_all add: fx4_def fx3_def fx2_def fx1_def empty_ledger_def del: One_nat_def)

lemmas fx_eval = fx4_fields epoch_challenges_def epoch_attestations_def epoch_lifecycles_def new_challenge_def
  new_attestation_def fx_attest_def requested_eligible_def cpu_shape_def

lemma fx_universe: "score_universe fx4 1 [''b''] = [''a'', ''b'']"
  by (simp add: score_universe_def fx_eval sorted_list_of_set_insert del: One_nat_def)

lemma fx_units: "verified_units fx4 1 ''a'' = 5" "verified_units fx4 1 ''b'' = 0"
  "gated_units fx4 1 ''a'' = 5" "gated_units fx4 1 ''b'' = 0"
  by (simp_all add: gated_units_def may_earn_def verified_units_def fx_eval del: One_nat_def)

lemma fx_scores: "score_of fx4 1 [''a'', ''b''] ''a'' = 1" "score_of fx4 1 [''a'', ''b''] ''b'' = 0"
  by (simp_all add: score_of_def Let_def maximum_units_def fx_units del: One_nat_def)

lemma fx_report: "score_report fx4 (fx_epoch 7 1) [''a'', ''b''] ''t'' None = fx_document"
  by (simp add: score_report_def Let_def fx_document_def float_repr_def fx_epoch_def new_epoch_def fx_begin_def fx_scores fx_eval opt_int_def
      del: One_nat_def)

lemma has_head_containers: "has_head (PList vs)" "has_head (PDict kvs)"
  by (simp_all add: has_head_def opens_value_def)

lemma fx_floats: "reads_back True (PFloat ''1.0'')" "reads_back True (PFloat ''0.0'')"
  "has_head (PFloat ''1.0'')" "has_head (PFloat ''0.0'')"
  using reads_back_whole_float [of 1] reads_back_whole_float [of 0]
  by (simp_all add: dec_digit_def has_head_def opens_value_def)

lemma fx_loads: "json_loads True (dumps fx_document) = Inr (canon fx_document)"
proof -
  have i: "is_json (PInt 7)" by (simp add: int_digits_def max_str_digits_def)
  show ?thesis
    unfolding fx_document_def
    by (intro loads_reads_back reads_back_dict reads_back_list has_head_containers)
      (auto simp: fx_floats has_head_json parse_value_dumps i has_head_containers simp del: is_json.simps(3)
        intro!: reads_back_dict reads_back_list)
qed

definition fx_body :: bytes where
  "fx_body = encode_ascii (dumps fx_document)"

lemma fx_dumps: \<open>dumps fx_document =
  ''{"complete":true,"epoch":7,"generated_at":"t","mechanism":"cathedral_confidential_tdx","metadata":'' @
  ''{"attestation_policy_modes":["strict"],"normalization":"max","policy_registry_digest":null,'' @
  ''"policy_registry_release":null,"worker_lifecycle":[]},"scores":[{"miner_hotkey":"a","score":1.0},'' @
  ''{"miner_hotkey":"b","score":0.0}],"source":"cathedral_confidential_tdx"}''\<close>
  by code_simp

lemma fx_text: "decode_ascii fx_body = Some (dumps fx_document)" "0 \<notin> set fx_body" "length fx_body \<le> 1000"
proof -
  have "list_all is_ascii (dumps fx_document)" by (simp add: fx_dumps is_ascii_def)
  then show "decode_ascii fx_body = Some (dumps fx_document)" unfolding fx_body_def by (rule decode_encode_ascii)
  show "0 \<notin> set fx_body" "length fx_body \<le> 1000"
    by (simp_all add: fx_body_def fx_dumps encode_ascii_def)
qed

lemma fx_score_texts: "launch_score (PFloat ''1.0'') = Inr True" "launch_score (PFloat ''0.0'') = Inr False"
proof -
  have "decimal_of_text ''1.0'' = Some (DecFinite False ''10'' (- 1))" "decimal_of_text ''0.0'' = Some (DecFinite False ''0'' (- 1))"
    by code_simp+
  then show "launch_score (PFloat ''1.0'') = Inr True" "launch_score (PFloat ''0.0'') = Inr False"
    by (simp_all add: float_in_unit_def float_positive_def decimal_value_def half_tiny_def read_nat_def digit_val_def)
qed

lemma fx_launch: "validate_launch_report_cardinality fx_body = Inr ()"
proof -
  have c: "canon fx_document = PDict
    [(''complete'', PBool True), (''epoch'', PInt 7), (''generated_at'', PStr ''t''),
     (''mechanism'', PStr ''cathedral_confidential_tdx''),
     (''metadata'', PDict
       [(''attestation_policy_modes'', PList [PStr ''strict'']), (''normalization'', PStr ''max''),
        (''policy_registry_digest'', PNone), (''policy_registry_release'', PNone), (''worker_lifecycle'', PList [])]),
     (''scores'', PList [PDict [(''miner_hotkey'', PStr ''a''), (''score'', PFloat ''1.0'')],
        PDict [(''miner_hotkey'', PStr ''b''), (''score'', PFloat ''0.0'')]]),
     (''source'', PStr ''cathedral_confidential_tdx'')]"
    by (simp add: fx_document_def)
  have k: "is_launch_hotkey (PStr ''a'')" "is_launch_hotkey (PStr ''b'')" by code_simp+
  have len: "\<not> MAX_LAUNCH_WIRE_REPORT_BYTES < length fx_body"
    using fx_text(3) by (simp add: MAX_LAUNCH_WIRE_REPORT_BYTES_def)
  show ?thesis
    unfolding validate_launch_report_cardinality_def ascii_text_def
    by (simp add: len fx_text(1,2) fx_loads c k fx_score_texts MAX_LAUNCH_CANDIDATES_def MAX_LAUNCH_VERIFIED_CANDIDATES_def
        del: canon.simps launch_score.simps)
qed

definition fx5 :: ledger where
  "fx5 = (set_epoch 1 (frozen 5 ''t'' fx_body) fx4)\<lparr>score_rows :=
     [\<lparr>sr_epoch = 1, sr_hotkey = ''a'', sr_units = 5, sr_score = 1\<rparr>, \<lparr>sr_epoch = 1, sr_hotkey = ''b'', sr_units = 0, sr_score = 0\<rparr>]\<rparr>"

lemma fx_epoch_of: "epoch_of fx4 1 = Inr (fx_epoch 7 1)" "ep_status (fx_epoch 7 1) = Running"
  by (simp_all add: epoch_of_def fx4_fields at_epoch_def fx_epoch_def new_epoch_def del: One_nat_def)

lemma fx_epoch_fields: "ep_id (fx_epoch s e) = e" "ep_source_epoch (fx_epoch s e) = s" "ep_status (fx_epoch s e) = Running"
  "ep_anchor_network (fx_epoch s e) = None"
  by (simp_all add: fx_epoch_def new_epoch_def fx_begin_def)

lemma fx_step5: "complete_epoch ''t'' 5 1 fx_complete fx4 = Inr ([(''a'', 1), (''b'', 0)], fx5)"
  by (simp add: complete_epoch_def validated_generated_at_def fx_complete_def score_audience_def fx_epoch_of is_status_def
      check_anchored_audience_def fx_epoch_fields epoch_challenges_def fx4_fields(1,4,5) new_challenge_def freeze_epoch_def Let_def
      fx_universe fx_report fx_units fx_scores fx_body_def [symmetric] fx_launch insert_scores_def fx5_def
      frozen_def [abs_def] set_epoch_def del: One_nat_def)

definition fx6 :: ledger where
  "fx6 = set_epoch 1 (\<lambda>r. r\<lparr>ep_status := Published, ep_published_at := Some 6\<rparr>) fx5"

lemma fx5_epoch: "epochs fx5 = [frozen 5 ''t'' fx_body (fx_epoch 7 1)]"
  by (simp add: fx5_def set_epoch_def fx4_fields update_where_def at_epoch_def fx_epoch_fields del: One_nat_def)

lemma fx5_epoch_of: "epoch_of fx5 1 = Inr (frozen 5 ''t'' fx_body (fx_epoch 7 1))"
  by (simp add: epoch_of_def fx5_epoch at_epoch_def frozen_def fx_epoch_fields del: One_nat_def)

lemma fx_step6: "mark_published 6 1 None fx5 = Inr fx6"
  by (simp add: mark_published_def fx5_epoch_of frozen_def supplied_digest_def fx6_def del: One_nat_def)

lemma fx6_epoch: "epochs fx6 = [(frozen 5 ''t'' fx_body (fx_epoch 7 1))\<lparr>ep_status := Published, ep_published_at := Some 6\<rparr>]"
  by (simp add: fx6_def set_epoch_def fx5_epoch update_where_def at_epoch_def frozen_def fx_epoch_fields del: One_nat_def)

lemma fx6_next: "next_epoch fx6 = 2"
  by (simp add: fx6_def fx5_def fx4_fields)

definition fx7 :: ledger where
  "fx7 = fx6\<lparr>epochs := epochs fx6 @ [fx_epoch 8 2], next_epoch := 3\<rparr>"

lemma fx_step7: "begin_epoch 0 (fx_begin 8) fx6 = Inr (2, fx7)"
  by (simp add: begin_epoch_def fx_begin_def begin_anchor_def begin_registry_ok_def retry_source_def fx6_epoch
      last_final_def LEDGER_MAX_INTEGER_def fx7_def is_status_def frozen_def fx_epoch_fields fx_epoch_def [of 8] fx6_next)
  
lemma fx_history: "ledger_step\<^sup>*\<^sup>* empty_ledger fx4" "ledger_step fx4 fx5" "ledger_step fx5 fx6" "ledger_step fx6 fx7"
proof -
  have "ledger_step empty_ledger fx1" "ledger_step fx1 fx2" "ledger_step fx2 fx3" "ledger_step fx3 fx4"
    using fx_step1 fx_step2 fx_step3 fx_step4 by (auto intro: ledger_step.intros)
  then show "ledger_step\<^sup>*\<^sup>* empty_ledger fx4" by (meson converse_rtranclp_into_rtranclp rtranclp.rtrancl_refl)
  show "ledger_step fx4 fx5" using fx_step5 by (rule completes)
  show "ledger_step fx5 fx6" using fx_step6 by (rule publishes)
  show "ledger_step fx6 fx7" using fx_step7 by (rule begins)
qed

section \<open>A customer job\<close>

definition fj_payload :: bytes where
  "fj_payload = encode_ascii (dumps (customer_item_value ex_customer))"

definition fj_job :: job_row where
  "fj_job = new_job 1 ''job-t'' ''acme'' None fj_payload"

definition fj2 :: ledger where
  "fj2 = fx1\<lparr>jobs := [fj_job]\<rparr>"

lemma fj_valid: "item_valid ex_customer"
  using ex_customer_valid by (simp add: validate_sat_work_item_ok_iff)

lemma fj_item: "customer_item_from_body fj_payload (sha256_label fj_payload) = Inr ex_customer"
  unfolding fj_payload_def using fj_valid by (rule payload_round_trip)

lemma fj_short: "length fj_payload \<le> 3000"
proof -
  have "length (item_challenge_id ex_customer) = 64" using challenge_id_shape by (simp add: ex_customer_def Let_def)
  then have "text_bound (customer_item_value ex_customer) \<le> 3000"
    by (simp add: customer_item_value_def ex_customer_def Let_def clauses_pyval_def int_digits_def)
  moreover have "plain_json (customer_item_value ex_customer)" by (simp add: customer_item_value_def plain_clauses)
  ultimately show ?thesis using dumps_text_bound [of "customer_item_value ex_customer"]
    by (simp add: fj_payload_def encode_ascii_def del: dumps.simps)
qed

lemma fj_step2: "\<exists>s. enqueue_customer_job 1 ''t'' (raw_item ex_customer) ''acme'' None fx1 = Inr (s, fj2)"
proof -
  have "CUSTOMER_ID_RE ''acme''" by (simp add: CUSTOMER_ID_RE_def text_simps)
  moreover have "customer_item_body (raw_item ex_customer) = Inr fj_payload"
    by (simp add: customer_item_body_def ex_customer_valid fj_payload_def)
  moreover have "jobs fx1 = []" by (simp add: fx1_def empty_ledger_def)
  moreover obtain s where "customer_job_snapshot fj_job = Inr s"
    by (simp add: customer_job_snapshot_def fj_job_def new_job_def snapshot_result_def fj_item)
  ultimately show ?thesis
    using fj_short
    by (simp add: enqueue_customer_job_def existing_job_def MAX_ACTIVE_CUSTOMER_JOBS_def MAX_ACTIVE_CUSTOMER_JOBS_PER_CUSTOMER_def
        MAX_CUSTOMER_JOB_STORAGE_BYTES_def MAX_CUSTOMER_JOB_RESULT_BYTES_def Let_def fj2_def fj_job_def)
qed

definition fj_dispatch :: SatWorkItem where
  "fj_dispatch = customer_dispatch_item ex_customer ''job-t'' 1"

definition fj_lease :: CustomerJobLease where
  "fj_lease = \<lparr>le_job = ''job-t'', le_token = ''tok'', le_owner = ''a'', le_epoch = 1,
     le_challenge = item_challenge_id fj_dispatch, le_attempt = 1, le_item = fj_dispatch\<rparr>"

definition fj3 :: ledger where
  "fj3 = fx1\<lparr>challenges := [new_challenge 2 (item_challenge_id fj_dispatch) 1 ''a''],
     jobs := [lease_job fj_lease 60000002 fj_job]\<rparr>"

lemma fj_step3: "claim_customer_job 2 ''tok'' ''a'' 1 60 3 fj2 = Inr (Some fj_lease, fj3)"
proof -
  have run: "require_running fj2 (Suc 0) m = Inr ()" for m
    by (simp add: fj2_def fx1_def fx_epoch_defs)
  have re: "fail_exhausted 2 3 (reclaim_expired 2 3 fj2) = fj2"
    by (simp add: fail_exhausted_def reclaim_expired_def Let_def fj2_def fj_job_def new_job_def expired_lease_def update_where_def
       fx1_def empty_ledger_def)
  have nj: "next_job 2 3 fj2 = Some fj_job"
    by (simp add: next_job_def fj2_def fj_job_def new_job_def)
  have f: "jb_payload_body fj_job = fj_payload" "jb_payload_digest fj_job = sha256_label fj_payload" "jb_id fj_job = ''job-t''"
    "jb_attempts fj_job = 0" "jb_status fj_job = Queued"
    by (simp_all add: fj_job_def new_job_def)
  have fc: "find_challenge fj2 x = None" "challenges fj2 = []" "jobs fj2 = [fj_job]" for x
    by (simp_all add: find_challenge_def fj2_def fx1_def empty_ledger_def)
  show ?thesis
    by (simp add: claim_customer_job_def run re nj f fj_item Let_def fc update_where_def fj_lease_def fj3_def fj_dispatch_def)
       (simp add: fj2_def)
qed

lemma fj_history: "ledger_step\<^sup>*\<^sup>* empty_ledger fj3"
proof -
  obtain s where s: "enqueue_customer_job 1 ''t'' (raw_item ex_customer) ''acme'' None fx1 = Inr (s, fj2)"
    using fj_step2 by blast
  have "ledger_step empty_ledger fx1" "ledger_step fx1 fj2" "ledger_step fj2 fj3"
    using begins [OF fx_step1] enqueues [OF s] claims [OF fj_step3] .
  then show ?thesis by (meson converse_rtranclp_into_rtranclp rtranclp.rtrancl_refl)
qed

lemma fj_current: "require_current_customer_lease 3 fj_lease fj3 = Inr ()"
  by (simp add: require_current_customer_lease_def find_job_def fj3_def lease_job_def fj_job_def new_job_def fj_lease_def
      fj_item fj_dispatch_def)

lemma fj_running: "require_running fj3 (le_epoch fj_lease) m = Inr ()"
  by (simp add: fj_lease_def fj3_def fx1_def fx_epoch_defs)

lemma fj_issued: "find_challenge fj3 (le_challenge fj_lease) = Some (new_challenge 2 (le_challenge fj_lease) 1 ''a'')"
  by (simp add: find_challenge_def fj3_def fj_lease_def new_challenge_def)

lemma fj_solved: "certifies (item_instance (le_item fj_lease)) [1]"
  by (simp add: certifies_def fj_lease_def fj_dispatch_def customer_dispatch_item_def Let_def ex_customer_def)

lemma fj_open: "ch_status (new_challenge 2 (le_challenge fj_lease) 1 ''a'') = Issued" "length (le_owner fj_lease) \<le> 256"
  "le_job fj_lease = ''job-t''"
  by (simp_all add: new_challenge_def fj_lease_def)

lemma fj_expired: "\<exists>m. claim_customer_job 60000002 ''next'' ''b'' 1 60 1 fj3 = Inr (None, m)"
proof -
  have run: "require_running fj3 (Suc 0) m = Inr ()" for m
    using fj_running [of m] by (simp add: fj_lease_def)
  have "next_job 60000002 1 (fail_exhausted 60000002 1 (reclaim_expired 60000002 1 fj3)) = None"
    by (simp add: next_job_def fail_exhausted_def reclaim_expired_def Let_def fj3_def expired_lease_def lease_job_def
        update_where_def release_expired_def clear_lease_def fj_job_def new_job_def fj_lease_def)
  then show ?thesis by (simp add: claim_customer_job_def run)
qed

section \<open>An export\<close>

definition fe_document :: pyval where
  "fe_document = PDict
    [(''source_epoch'', PInt 7), (''network'', PStr ''n''), (''netuid'', PInt 1), (''class_id'', PStr ''c''),
     (''source_id'', PStr ''s''), (''report_id'', PStr (sha256_label [])), (''previous_report_id'', PNone)]"

definition fe_request :: export_request where
  "fe_request = \<lparr>xq_source_epoch = 7, xq_network = ''n'', xq_netuid = 1, xq_class = ''c'', xq_source = ''s'',
     xq_report_id = sha256_label [], xq_previous = None, xq_body = encode_ascii (dumps fe_document)\<rparr>"

lemma fe_document_ok: "export_document fe_request = Inr ()"
proof -
  have j: "is_json fe_document" by (simp add: fe_document_def int_digits_def max_str_digits_def)
  have "canon fe_document = PDict
    [(''class_id'', PStr ''c''), (''netuid'', PInt 1), (''network'', PStr ''n''), (''previous_report_id'', PNone),
     (''report_id'', PStr (sha256_label [])), (''source_epoch'', PInt 7), (''source_id'', PStr ''s'')]" (is "_ = PDict ?d")
    by (simp add: fe_document_def)
  then have "strict_value (encode_ascii (dumps fe_document)) m = Inr (PDict ?d)" for m
    using ascii_text_dumps [OF shown_dumps [OF j] ascii_dumps [OF j]] loads_dumps [OF j, of True]
    by (simp add: strict_value_def)
  moreover have "dumps (PDict ?d) = dumps fe_document"
    using dumps_canon [of fe_document] \<open>canon fe_document = PDict ?d\<close> j by simp
  ultimately show ?thesis
    by (simp add: export_document_def fe_request_def scalar_eq_def del: dumps.simps)
qed

lemma fe_step: "\<exists>m. record_score_class_export 1 fe_request fx5 = Inr (xq_body fe_request, m)
   \<and> exports m = [\<lparr>ex_epoch = 1, ex_source_epoch = 7, ex_stream = export_stream fe_request, ex_report_id = sha256_label [],
       ex_body = xq_body fe_request, ex_body_digest = sha256_label (xq_body fe_request)\<rparr>]"
proof -
  have x: "exports fx5 = []" by (simp add: fx5_def fx4_fields)
  have ne: "dumps fe_document \<noteq> []" by (simp add: fe_document_def)
  show ?thesis
  unfolding record_score_class_export_def fe_document_ok fx5_epoch_of find_export_def x
  by (simp add: is_status_def frozen_def fx_epoch_fields) (simp add: fe_request_def encode_ascii_def ne LEDGER_MAX_INTEGER_def)
qed

section \<open>A receipt\<close>

definition fr_id :: string where "fr_id = ''receipt-'' @ sha256_label []"

definition fr_items :: "(string \<times> pyval) list" where
  "fr_items =
    [(''epoch_id'', PInt 1), (''issued_at'', PStr ''t''), (''receipt_id'', PStr fr_id), (''subject_hotkey'', PStr ''a''),
     (''work'', PDict [(''challenge_id'', PStr ''c''), (''status'', PStr ''passed''), (''work_units'', PStr ''5'')])]"

definition fr_request :: receipt_request where
  "fr_request = \<lparr>rcq_receipt_id = fr_id, rcq_body = encode_ascii (dumps (PDict fr_items)),
     rcq_digest = sha256_label (encode_ascii (dumps (PDict fr_items))), rcq_issued_at = ''t''\<rparr>"

lemma fr_parse: "parse_receipt_json (dumps (PDict fr_items)) = Inr fr_items"
proof -
  have j: "is_json (PDict fr_items)" by (simp add: fr_items_def int_digits_def max_str_digits_def)
  have c: "canon (PDict fr_items) = PDict fr_items" by (simp add: fr_items_def)
  have "length fr_id = 79" by (simp add: fr_id_def sha256_label_def)
  then have "text_bound (PDict fr_items) \<le> 2000" by (simp add: fr_items_def int_digits_def)
  moreover have "plain_json (PDict fr_items)" by (simp add: fr_items_def)
  ultimately have "length (utf8 (dumps (PDict fr_items))) \<le> MAX_RECEIPT_BYTES"
    using dumps_text_bound [of "PDict fr_items"] utf8_ascii [OF ascii_dumps [OF j]]
    by (simp add: MAX_RECEIPT_BYTES_def encode_ascii_def del: dumps.simps text_bound.simps)
  moreover have "ints_in_range (PDict fr_items)" "validate_json_shape (PDict fr_items)"
    by (simp_all add: validate_json_shape_iff fr_items_def MAX_RECEIPT_NODES_def MAX_RECEIPT_DEPTH_def MAX_SQLITE_INTEGER_def)
  ultimately show ?thesis
    using loads_dumps [OF j, of False] unfolding parse_receipt_json_def by (simp add: c del: dumps.simps canon.simps ints_in_range.simps)
qed

lemma fr_checked: "checked_receipt ''c'' Verified 5 fr_request = Inr fr_items"
proof -
  have j: "is_json (PDict fr_items)" by (simp add: fr_items_def int_digits_def max_str_digits_def)
  have s: "stored_receipt (encode_ascii (dumps (PDict fr_items))) message = Inr fr_items" for message
    using ascii_text_dumps [OF shown_dumps [OF j] ascii_dumps [OF j]] fr_parse by (simp add: stored_receipt_def)
  have w: "dget fr_items ''work'' = PDict [(''challenge_id'', PStr ''c''), (''status'', PStr ''passed''), (''work_units'', PStr ''5'')]"
    "dget fr_items ''receipt_id'' = PStr fr_id" "dget fr_items ''issued_at'' = PStr ''t''"
    by (simp_all add: fr_items_def)
  have i: "RECEIPT_ROW_ID_RE fr_id" by (simp add: RECEIPT_ROW_ID_RE_def fr_id_def starts_with_def)
  have n: "encode_ascii (dumps (PDict fr_items)) \<noteq> []" by (simp add: encode_ascii_def)
  have u: "receipt_units (PStr ''5'') = Inr 5" by (simp add: is_digit_def read_nat_def digit_val_def)
  show ?thesis unfolding checked_receipt_def fr_request_def by (simp add: i n s w u del: dumps.simps receipt_units.simps)
qed

definition fr4 :: ledger where
  "fr4 = fx4\<lparr>receipts := [\<lparr>rr_id = fr_id, rr_epoch = 1, rr_hotkey = ''a'', rr_challenge = ''c'', rr_status = Verified,
     rr_body = rcq_body fr_request, rr_digest = rcq_digest fr_request, rr_issued_at = ''t''\<rparr>]\<rparr>"

lemma fr_step: "resolve_challenge_with_receipt (3, 4, 4) ''c'' ''verified'' (PInt 5) True fr_request no_customer fx3 = Inr fr4"
proof -
  have r: "resolve_challenge_row 4 ''c'' Verified 5 fx3 = Inr (new_challenge 2 ''c'' 1 ''a'', fx4)"
    by (simp add: resolve_challenge_row_def find_challenge_def fx4_def fx3_def fx2_def fx1_def fx_epoch_defs
        new_challenge_def update_where_def)
  have d: "dget fr_items ''epoch_id'' = PInt 1" "dget fr_items ''subject_hotkey'' = PStr ''a''" by (simp_all add: fr_items_def)
  have x: "find_lifecycle fx4 1 ''a'' = None" "receipts fx4 = []"
    by (simp_all add: find_lifecycle_def fx4_fields) (simp add: fx4_def fx3_def fx2_def fx1_def empty_ledger_def)
  have q: "rcq_receipt_id fr_request = fr_id" "rcq_issued_at fr_request = ''t''" by (simp_all add: fr_request_def)
  show ?thesis
    unfolding resolve_challenge_with_receipt_def
    by (simp add: validated_resolution_units_def resolve_status_def fr_checked no_customer_def validate_customer_resolution_def
        r d scalar_eq_def new_challenge_def x [simplified] insert_receipt_def q fr4_def)
qed

lemma fr_history: "ledger_step\<^sup>*\<^sup>* empty_ledger fr4"
proof -
  have "ledger_step empty_ledger fx1" "ledger_step fx1 fx2" "ledger_step fx2 fx3" "ledger_step fx3 fr4"
    using begins [OF fx_step1] attests [OF fx_step2] issues [OF fx_step3] resolves_with_receipt [OF fr_step] .
  then show ?thesis by (meson converse_rtranclp_into_rtranclp rtranclp.rtrancl_refl)
qed

end
