(* ===== verification/Ledger_Properties.thy ===== *)
theory Ledger_Properties
  imports Ledger_Fixtures
begin

text \<open>
  What the ledger promises to those who read it later: frozen reports, scores, resolved work and
  customer results.  The histories range over every sequence of committed calls.
\<close>

section \<open>Scores\<close>

lemma le_foldl_max: "foldl max (a :: nat) xs \<le> b \<longleftrightarrow> a \<le> b \<and> (\<forall>x \<in> set xs. x \<le> b)"
  by (induction xs arbitrary: a) auto

lemma foldl_max_mem: "foldl max (a :: nat) xs \<in> insert a (set xs)"
proof (induction xs arbitrary: a)
  case (Cons x xs)
  from Cons.IH [of "max a x"] show ?case by (auto simp: max_def split: if_splits)
qed simp

lemma gated_le_maximum: "h \<in> set universe \<Longrightarrow> gated_units l e h \<le> maximum_units l e universe"
  using le_foldl_max [of 0 "map (gated_units l e) universe" "maximum_units l e universe"]
  by (simp add: maximum_units_def)

lemma maximum_attained:
  assumes "0 < maximum_units l e universe"
  obtains h where "h \<in> set universe" "gated_units l e h = maximum_units l e universe"
  using foldl_max_mem [of 0 "map (gated_units l e) universe"] assms by (auto simp: maximum_units_def)

lemma maximum_zero: "h \<in> set universe \<Longrightarrow> maximum_units l e universe = 0 \<Longrightarrow> gated_units l e h = 0"
  using gated_le_maximum [of h universe l e] by simp

lemma score_of_facts:
  assumes "h \<in> set universe"
  shows "0 \<le> score_of l e universe h" "score_of l e universe h \<le> 1"
    "0 < score_of l e universe h \<longleftrightarrow> may_earn l e h \<and> 0 < verified_units l e h"
  using gated_le_maximum [OF assms, of l e] maximum_zero [OF assms, of l e]
  by (auto simp: score_of_def Let_def float_div_le_one float_div_pos gated_units_def split: if_splits)

lemma score_of_mono:
  "gated_units l e h \<le> gated_units l e k \<Longrightarrow> score_of l e universe h \<le> score_of l e universe k"
  by (simp add: score_of_def Let_def float_div_mono)

lemma score_of_near:
  assumes "h \<in> set universe"
  shows "\<bar>score_of l e universe h * of_nat (maximum_units l e universe) - of_nat (gated_units l e h)\<bar>
    \<le> of_nat (gated_units l e h) / 2 ^ 53"
proof (cases "maximum_units l e universe = 0")
  case False
  let ?g = "gated_units l e h" and ?m = "maximum_units l e universe"
  have m: "(of_nat ?m :: rat) \<noteq> 0" using False by simp
  have "\<bar>float_div ?g ?m - of_nat ?g / of_nat ?m\<bar> * of_nat ?m \<le> of_nat ?g / of_nat ?m / 2 ^ 53 * (of_nat ?m :: rat)"
    by (intro mult_right_mono float_div_near) (use False in auto)
  moreover have "float_div ?g ?m * of_nat ?m - of_nat ?g = (float_div ?g ?m - of_nat ?g / of_nat ?m) * of_nat ?m"
    using m by (simp only: left_diff_distrib nonzero_divide_eq_eq) simp
  moreover have "of_nat ?g / of_nat ?m / 2 ^ 53 * of_nat ?m = (of_nat ?g / 2 ^ 53 :: rat)" using m by simp
  ultimately have "\<bar>float_div ?g ?m * of_nat ?m - of_nat ?g\<bar> \<le> (of_nat ?g / 2 ^ 53 :: rat)" by (simp only: abs_mult abs_of_nat)
  then show ?thesis using False by (simp only: score_of_def Let_def) simp
qed (use maximum_zero [OF assms, of l e] in \<open>simp add: score_of_def\<close>)

lemma score_of_best:
  assumes "h \<in> set universe" "0 < score_of l e universe h"
  shows "\<exists>k \<in> set universe. score_of l e universe k = 1"
proof -
  have m: "0 < maximum_units l e universe" using assms(2) by (auto simp: score_of_def Let_def split: if_splits)
  then obtain k where "k \<in> set universe" "gated_units l e k = maximum_units l e universe" by (rule maximum_attained)
  then show ?thesis using m by (auto simp: score_of_def Let_def intro!: bexI [of _ k])
qed

lemma report_bytes_iff: "report_bytes l e = Inr b \<longleftrightarrow> (\<exists>r. epoch_of l e = Inr r \<and> reported r \<and> ep_report_body r = Some b)"
  by (auto simp: report_bytes_def ok_simps reported_def split: option.splits if_splits)

lemma complete_running:
  assumes "complete_epoch now_text completion e q l = Inr (sc, m)" "epoch_of l e = Inr r" "ep_status r = Running"
  obtains generated_at audience universe where
    "universe = score_universe l e (cq_all_hotkeys q)"
    "\<forall>c \<in> set (epoch_challenges l e). ch_status c \<noteq> Issued"
    "sc = map (\<lambda>h. (h, score_of l e universe h)) universe"
    "report_bytes m e = Inr (encode_ascii (dumps (score_report l r universe generated_at audience)))"
  using assms(1)
proof (cases rule: complete_epoch_cases)
  case (again r')
  then show thesis using assms(2,3) by (simp add: is_status_def)
next
  case (freeze r' generated_at audience universe body)
  have r: "r' = r" using freeze(1) assms(2) by simp
  have "find (at_epoch e) (update_where (at_epoch e) (frozen completion generated_at body) es)
      = map_option (frozen completion generated_at body) (find (at_epoch e) es)" for es
    by (induction es) (auto simp: update_where_def at_epoch_def frozen_def)
  moreover have "find (at_epoch e) (epochs l) = Some r" using assms(2) by (auto simp: epoch_of_def split: option.splits)
  ultimately have "epoch_of m e = Inr (frozen completion generated_at body r)"
    by (simp add: epoch_of_def freeze(9) set_epoch_def)
  then show thesis
    using freeze r by (intro that [of universe generated_at audience])
      (auto simp: epoch_challenges_def report_bytes_def frozen_def is_status_def)
qed

text \<open>
  C4.  A call that completes a running epoch finds no unresolved challenge of the epoch and returns a score
  for each candidate: between 0 and 1, positive exactly for workers that may earn and have verified units,
  ordered as the units that count, within a relative error of 2^-53 of their share of the
  largest total, with some candidate at exactly 1 when any score is positive; the report that the
  epoch keeps is the document of these scores.
\<close>

theorem complete_epoch_scores:
  assumes "complete_epoch now_text completion e q l = Inr (sc, m)" "epoch_of l e = Inr r" "ep_status r = Running"
  shows "map fst sc = score_universe l e (cq_all_hotkeys q)
    \<and> (\<forall>c \<in> set (epoch_challenges l e). ch_status c \<noteq> Issued)
    \<and> (\<forall>(h, s) \<in> set sc. 0 \<le> s \<and> s \<le> 1 \<and> (0 < s \<longleftrightarrow> may_earn l e h \<and> 0 < verified_units l e h)
         \<and> \<bar>s * of_nat (maximum_units l e (map fst sc)) - of_nat (gated_units l e h)\<bar> \<le> of_nat (gated_units l e h) / 2 ^ 53
         \<and> (\<forall>(k, t) \<in> set sc. gated_units l e h \<le> gated_units l e k \<longrightarrow> s \<le> t))
    \<and> ((\<exists>(h, s) \<in> set sc. 0 < s) \<longrightarrow> (\<exists>h. (h, 1) \<in> set sc))
    \<and> (\<exists>generated_at audience. report_bytes m e =
         Inr (encode_ascii (dumps (score_report l r (map fst sc) generated_at audience))))"
proof -
  obtain generated_at audience universe where u: "universe = score_universe l e (cq_all_hotkeys q)"
    "\<forall>c \<in> set (epoch_challenges l e). ch_status c \<noteq> Issued"
    "sc = map (\<lambda>h. (h, score_of l e universe h)) universe"
    "report_bytes m e = Inr (encode_ascii (dumps (score_report l r universe generated_at audience)))"
    using assms by (rule complete_running)
  have fst: "map fst sc = universe" by (simp add: u(3) o_def)
  have best: "\<exists>h. (h, 1) \<in> set sc" if "(h, s) \<in> set sc" "0 < s" for h s
    using that score_of_best [of h universe l e] by (force simp: u(3))
  have each: "0 \<le> s \<and> s \<le> 1 \<and> (0 < s \<longleftrightarrow> may_earn l e h \<and> 0 < verified_units l e h)
      \<and> \<bar>s * of_nat (maximum_units l e universe) - of_nat (gated_units l e h)\<bar> \<le> of_nat (gated_units l e h) / 2 ^ 53
      \<and> (\<forall>(k, t) \<in> set sc. gated_units l e h \<le> gated_units l e k \<longrightarrow> s \<le> t)" if "(h, s) \<in> set sc" for h s
  proof -
    from that have h: "h \<in> set universe" "s = score_of l e universe h" by (auto simp: u(3))
    then show ?thesis
      using score_of_facts [OF h(1), of l e] score_of_near [OF h(1), of l e] score_of_mono [of l e h]
      unfolding h(2) by (simp add: u(3))
  qed
  show ?thesis unfolding fst using u(1,2,4) best each by blast
qed

theorem complete_epoch_scores_witness:
  "\<exists>generated_at audience. report_bytes fx5 1 =
     Inr (encode_ascii (dumps (score_report fx4 (fx_epoch 7 1) [''a'', ''b''] generated_at audience)))"
proof -
  from complete_epoch_scores [OF fx_step5 fx_epoch_of]
  have "\<exists>generated_at audience. report_bytes fx5 1 = Inr (encode_ascii (dumps
      (score_report fx4 (fx_epoch 7 1) (map fst [(''a'', 1 :: rat), (''b'', 0)]) generated_at audience)))" by blast
  then show ?thesis by simp
qed



section \<open>Reports\<close>

lemma evolved_epoch:
  assumes "evidence_inv l" "evidence_inv m" "ledger_evolves l m" "epoch_of l e = Inr r"
  obtains s where "epoch_of m e = Inr s" "epoch_evolves r s" "report_ok s"
proof -
  note r = epoch_of_ok [OF assms(4)]
  have "grows epoch_evolves (epochs l) (epochs m)" using assms(3) by (simp add: ledger_evolves_def)
  from grows_mem [OF this] r obtain s where s: "s \<in> set (epochs m)" "epoch_evolves r s" by blast
  have inv: "epochs_inv m" using assms(2) by (simp add: evidence_inv_def)
  from epoch_of_mem [OF inv s(1)] s(2) r have "epoch_of m e = Inr s" by (simp add: epoch_evolves_def)
  moreover have "report_ok s" using inv s(1) by (simp add: epochs_inv_def)
  ultimately show thesis using s(2) that by blast
qed

text \<open>
  C5.  Once an epoch has a report, every later ledger returns the same bytes for it, their SHA-256 as
  its digest, within the launch limits; the epoch never leaves the states complete, published
  and abandoned, and keeps its source epoch and its registry release.
\<close>

theorem frozen_report_is_final:
  assumes "ledger_step\<^sup>*\<^sup>* empty_ledger l" "report_bytes l e = Inr b" "ledger_step\<^sup>*\<^sup>* l m"
  shows "report_bytes m e = Inr b \<and> report_digest m e = Inr (sha256_hexdigest b)
    \<and> validate_launch_report_cardinality b = Inr ()
    \<and> (\<exists>r s. epoch_of l e = Inr r \<and> epoch_of m e = Inr s \<and> status_moves (ep_status r) (ep_status s)
         \<and> ep_source_epoch s = ep_source_epoch r \<and> ep_registry_digest s = ep_registry_digest r)"
proof -
  obtain r where r: "epoch_of l e = Inr r" "reported r" "ep_report_body r = Some b"
    using assms(2) by (auto simp: report_bytes_iff)
  have inv: "evidence_inv l" "evidence_inv m" "ledger_evolves l m"
    using ledger_store.reachable_inv [OF assms(1)] ledger_store.history_evolves [OF assms(3)] by blast+
  obtain s where s: "epoch_of m e = Inr s" "epoch_evolves r s" "report_ok s" using inv r(1) by (rule evolved_epoch)
  have rep: "reported s" using reported_evolves [OF s(2) r(2)] .
  have body: "ep_report_body s = Some b" using s(2) r(2,3) by (simp add: epoch_evolves_def)
  have "ep_report_digest s = Some (sha256_hexdigest b)" "validate_launch_report_cardinality b = Inr ()"
    using s(3) rep body by (auto simp: report_ok_def)
  then show ?thesis
    using s rep body r(1) by (auto simp: report_bytes_iff report_digest_def epoch_evolves_def)
qed

theorem frozen_report_is_final_witness:
  "report_bytes fx7 1 = Inr fx_body \<and> report_digest fx7 1 = Inr (sha256_hexdigest fx_body)"
proof -
  have "report_bytes fx5 1 = Inr fx_body"
    by (simp add: report_bytes_def fx5_epoch_of frozen_def is_status_def del: One_nat_def)
  moreover have "ledger_step\<^sup>*\<^sup>* fx5 fx7" using fx_history(3,4) by (meson converse_rtranclp_into_rtranclp rtranclp.rtrancl_refl)
  ultimately show ?thesis
    using frozen_report_is_final [OF rtranclp.rtrancl_into_rtrancl [OF fx_history(1,2)]] by blast
qed

section \<open>Epochs\<close>

text \<open>
  C12.  In every reachable ledger the epochs are numbered in order, only the last one can be running
  or waiting for publication, and the source epoch of a finalized report is below that of
  every epoch begun after it.
\<close>

theorem epochs_are_sequential:
  assumes "ledger_step\<^sup>*\<^sup>* empty_ledger l" "i < j" "j < length (epochs l)"
  shows "ep_id (epochs l ! i) < ep_id (epochs l ! j) \<and> ep_id (epochs l ! j) < next_epoch l
    \<and> \<not> is_status [Running, Complete] (epochs l ! i)
    \<and> (is_status [Published] (epochs l ! i) \<longrightarrow> ep_source_epoch (epochs l ! i) < ep_source_epoch (epochs l ! j))"
proof -
  have inv: "epochs_inv l" using ledger_store.reachable_inv [OF assms(1)] by (simp add: evidence_inv_def)
  have "butlast (epochs l) ! i \<in> set (butlast (epochs l))" using assms(2,3) by (intro nth_mem) simp
  then have "epochs l ! i \<in> set (butlast (epochs l))" using assms(2,3) by (simp add: nth_butlast)
  moreover have "epochs l ! j \<in> set (epochs l)" using assms(3) by simp
  ultimately show ?thesis
    using inv assms(2,3) unfolding epochs_inv_def list_all_iff sorted_wrt_iff_nth_less
    by (simp add: is_status_def)
qed

theorem epochs_are_sequential_witness:
  "ep_id (epochs fx7 ! 0) < ep_id (epochs fx7 ! 1) \<and> ep_source_epoch (epochs fx7 ! 0) < ep_source_epoch (epochs fx7 ! 1)"
proof -
  have "ledger_step\<^sup>*\<^sup>* empty_ledger fx7"
    using fx_history by (meson rtranclp.rtrancl_into_rtrancl)
  moreover have e: "epochs fx7 = epochs fx6 @ [fx_epoch 8 2]" by (simp add: fx7_def)
  moreover have "is_status [Published] (epochs fx7 ! 0)" by (simp add: e fx6_epoch is_status_def)
  ultimately show ?thesis using epochs_are_sequential [of fx7 0 1] by (simp add: fx6_epoch)
qed

section \<open>Work\<close>

lemma find_challenge_mem:
  assumes "evidence_inv l" "c \<in> set (challenges l)"
  shows "find_challenge l (ch_id c) = Some c"
proof -
  have "find_challenge l (ch_id c) \<noteq> None" using assms(2) by (auto simp: find_challenge_None)
  then obtain d where "find_challenge l (ch_id c) = Some d" by blast
  moreover from find_challenge_ok [OF this] have "d = c"
    using assms by (auto simp: evidence_inv_def challenges_inv_def distinct_map inj_on_def)
  ultimately show ?thesis by simp
qed

lemma resolved_stays:
  assumes "evidence_inv l" "find_challenge l cid = Some c" "ch_status c \<noteq> Issued" "ledger_step\<^sup>*\<^sup>* l m"
  shows "find_challenge m cid = Some c"
proof -
  have m: "evidence_inv m" "ledger_evolves l m" using ledger_store.history_evolves [OF assms(4,1)] by simp_all
  note c = find_challenge_ok [OF assms(2)]
  have "grows challenge_evolves (challenges l) (challenges m)" using m(2) by (simp add: ledger_evolves_def)
  from grows_mem [OF this] c obtain d where "d \<in> set (challenges m)" "challenge_evolves c d" by blast
  then have "c \<in> set (challenges m)" using assms(3) by (simp add: challenge_evolves_def)
  then show ?thesis using find_challenge_mem [OF m(1)] c by blast
qed

lemma resolved_refused:
  assumes "find_challenge m cid = Some c" "ch_status c \<noteq> Issued"
  shows "\<exists>x. resolve_challenge clock cid status units derived cr m = Inl x"
    and "\<exists>x. resolve_challenge_with_receipt clock cid status units derived q cr m = Inl x"
proof -
  have no: "resolve_challenge_row now cid s u m \<noteq> Inr z" for now s u z
    using assms by (auto simp: resolve_challenge_row_def split: option.splits)
  show "\<exists>x. resolve_challenge clock cid status units derived cr m = Inl x"
    using no by (cases "resolve_challenge clock cid status units derived cr m") (auto elim: resolve_challenge_steps)
  show "\<exists>x. resolve_challenge_with_receipt clock cid status units derived q cr m = Inl x"
    using no by (cases "resolve_challenge_with_receipt clock cid status units derived q cr m")
      (auto elim: resolve_with_receipt_steps)
qed

text \<open>
  C6.  A challenge of a reachable ledger that is no longer issued keeps its outcome, its units and
  its owner in every later ledger, and no later call, with or without a receipt, resolves it again.
\<close>

theorem resolved_work_is_final:
  assumes "ledger_step\<^sup>*\<^sup>* empty_ledger l" "find_challenge l cid = Some c" "ch_status c \<noteq> Issued" "ledger_step\<^sup>*\<^sup>* l m"
  shows "find_challenge m cid = Some c
    \<and> (\<forall>clock status units derived cr. \<exists>x. resolve_challenge clock cid status units derived cr m = Inl x)
    \<and> (\<forall>clock status units derived q cr. \<exists>x. resolve_challenge_with_receipt clock cid status units derived q cr m = Inl x)"
proof -
  have "find_challenge m cid = Some c"
    using ledger_store.reachable_inv [OF assms(1)] assms(2-) by (rule resolved_stays)
  with assms(3) show ?thesis using resolved_refused by blast
qed

theorem resolved_work_is_final_witness:
  "find_challenge fx7 ''c''
    = Some ((new_challenge 2 ''c'' 1 ''a'')\<lparr>ch_status := Verified, ch_units := 5, ch_resolved_at := Some 4\<rparr>)"
proof -
  let ?c = "(new_challenge 2 ''c'' 1 ''a'')\<lparr>ch_status := Verified, ch_units := 5, ch_resolved_at := Some 4\<rparr>"
  have c: "find_challenge fx4 ''c'' = Some ?c" "ch_status ?c \<noteq> Issued"
    by (simp_all add: find_challenge_def fx4_fields new_challenge_def)
  have "ledger_step\<^sup>*\<^sup>* fx4 fx7"
    using fx_history(2-4) by (meson converse_rtranclp_into_rtranclp rtranclp.rtrancl_refl)
  from resolved_work_is_final [OF fx_history(1) c this] show ?thesis ..
qed

section \<open>Receipts\<close>

lemma checked_receipt_ok:
  assumes "checked_receipt cid s u q = Inr doc"
  obtains wk where "rcq_body q = encode_ascii (dumps (PDict doc))" "rcq_digest q = sha256_label (rcq_body q)"
    "dget doc ''receipt_id'' = PStr (rcq_receipt_id q)" "dget doc ''work'' = PDict wk"
    "dget wk ''challenge_id'' = PStr cid" "receipt_units (dget wk ''work_units'') = Inr u"
    "s = Verified \<longrightarrow> dget wk ''status'' = PStr ''passed''"
proof -
  obtain receipt where r: "(case dget receipt ''work'' of
      PDict wk \<Rightarrow>
        if encode_ascii (dumps (PDict receipt)) \<noteq> rcq_body q
           \<or> dget receipt ''receipt_id'' \<noteq> PStr (rcq_receipt_id q) \<or> dget receipt ''issued_at'' \<noteq> PStr (rcq_issued_at q)
           \<or> dget wk ''challenge_id'' \<noteq> PStr cid
           \<or> dget wk ''status'' \<notin> PStr ` set (if s = Verified then [''passed'']
                 else [''passed'', ''failed'', ''stale'', ''revoked''])
        then Inl (LedgerError ''receipt body does not match its work resolution'')
        else rbind (receipt_units (dget wk ''work_units'')) (\<lambda>n.
          if n \<noteq> u then Inl (LedgerError ''receipt work units do not match their resolution'') else Inr receipt)
    | _ \<Rightarrow> Inl (LedgerError ''receipt body does not match its work resolution'')) = Inr doc"
    "sha256_label (rcq_body q) = rcq_digest q"
    using assms unfolding checked_receipt_def by (auto simp: ok_simps)
  then obtain wk where wk: "dget receipt ''work'' = PDict wk" by (cases "dget receipt ''work''") auto
  have c: "encode_ascii (dumps (PDict receipt)) = rcq_body q" "receipt = doc"
    "dget doc ''receipt_id'' = PStr (rcq_receipt_id q)" "dget wk ''challenge_id'' = PStr cid"
    "receipt_units (dget wk ''work_units'') = Inr u" "s = Verified \<longrightarrow> dget wk ''status'' = PStr ''passed''"
    using r(1) unfolding wk by (auto simp: ok_simps split: if_splits)
  then show thesis using that [of wk] r(2) wk by simp
qed



section \<open>Customer jobs\<close>

text \<open>
  C10.  A correct answer under a current lease is credited: while the epoch runs and the challenge is
  open, resolving it with an assignment that satisfies the dispatched instance succeeds, the
  job becomes succeeded, and the challenge is verified with the 20 units of customer work.
\<close>

theorem customer_answer_is_credited:
  assumes "ledger_step\<^sup>*\<^sup>* empty_ledger l" "require_current_customer_lease now1 lease l = Inr ()"
    "require_running l (le_epoch lease) a = Inr ()" "find_challenge l (le_challenge lease) = Some c" "ch_status c = Issued"
    "certifies (item_instance (le_item lease)) asg" "length (le_owner lease) \<le> 256" "1 \<le> n" "n \<le> 100"
  shows "\<exists>m j. resolve_challenge (now1, now2, now3) (le_challenge lease) ''verified'' (float_text 20) True
        \<lparr>cr_lease = Some lease, cr_disposition = Some ''succeeded'',
         cr_result = Some (result_items (le_owner lease) asg (le_challenge lease) (float_text 20)),
         cr_error = None, cr_max_attempts = n\<rparr> l = Inr m
     \<and> find_job m (le_job lease) = Some j \<and> jb_status j = Succeeded
     \<and> find_challenge m (le_challenge lease) = Some (c\<lparr>ch_status := Verified, ch_units := 20, ch_resolved_at := Some now2\<rparr>)"
  using answer_resolves [OF job_store.reachable_inv [OF assms(1)] assms(2-)] by (simp only: answer_def)

theorem customer_answer_is_credited_witness:
  "\<exists>m j. ledger_step fj3 m \<and> find_job m ''job-t'' = Some j \<and> jb_status j = Succeeded"
proof -
  have "\<exists>m j. resolve_challenge (3, 4, 5) (le_challenge fj_lease) ''verified'' (float_text 20) True
        \<lparr>cr_lease = Some fj_lease, cr_disposition = Some ''succeeded'',
         cr_result = Some (result_items (le_owner fj_lease) [1] (le_challenge fj_lease) (float_text 20)),
         cr_error = None, cr_max_attempts = 3\<rparr> fj3 = Inr m
     \<and> find_job m (le_job fj_lease) = Some j \<and> jb_status j = Succeeded
     \<and> find_challenge m (le_challenge fj_lease)
         = Some ((new_challenge 2 (le_challenge fj_lease) 1 ''a'')\<lparr>ch_status := Verified, ch_units := 20, ch_resolved_at := Some 4\<rparr>)"
    by (rule customer_answer_is_credited [OF fj_history fj_current fj_running fj_issued fj_open(1) fj_solved fj_open(2)]) simp_all
  then obtain m j where m: "ledger_step fj3 m" "find_job m (le_job fj_lease) = Some j" "jb_status j = Succeeded"
    using ledger_step.resolves by metis
  from m(2) have "find_job m ''job-t'' = Some j" unfolding fj_open(3) .
  with m(1,3) show ?thesis by blast
qed

text \<open>
  C8.  A customer job of a reachable ledger that has succeeded carries the canonical result that was
  checked against it: an assignment that satisfies the instance the customer submitted, under the
  challenge of the last dispatch of that job, which is verified and belongs to the worker the result names.
\<close>

theorem succeeded_job_is_backed:
  assumes "ledger_step\<^sup>*\<^sup>* empty_ledger l" "j \<in> set (jobs l)" "jb_status j = Succeeded"
  shows "\<exists>item kvs asg c.
    customer_item_from_body (jb_payload_body j) (jb_payload_digest j) = Inr item
    \<and> jb_result_body j = Some (encode_ascii (dumps (PDict kvs)))
    \<and> jb_result_digest j = Some (sha256_label (encode_ascii (dumps (PDict kvs))))
    \<and> int_elements (dget kvs ''assignment'') = Some asg \<and> certifies (item_instance item) asg
    \<and> c \<in> set (challenges l) \<and> ch_status c = Verified
    \<and> ch_id c = item_challenge_id (customer_dispatch_item item (jb_id j) (jb_attempts j))
    \<and> dget kvs ''challenge_id'' = PStr (ch_id c) \<and> dget kvs ''assigned_hotkey'' = PStr (ch_hotkey c)"
proof -
  have "result_backed (challenges l) j"
    using job_store.reachable_inv [OF assms(1)] assms(2,3) by (simp add: custody_inv_def jobs_inv_def job_ok_def)
  then show ?thesis unfolding result_backed_def payload_of_def dispatched_as_def by blast
qed

lemma fj_succeeds: "\<exists>m j. ledger_step\<^sup>*\<^sup>* empty_ledger m \<and> j \<in> set (jobs m) \<and> jb_status j = Succeeded"
proof -
  have "\<exists>m j. resolve_challenge (3, 4, 5) (le_challenge fj_lease) ''verified'' (float_text 20) True (answer fj_lease [1] 3) fj3 = Inr m
     \<and> find_job m (le_job fj_lease) = Some j \<and> jb_status j = Succeeded
     \<and> find_challenge m (le_challenge fj_lease)
         = Some ((new_challenge 2 (le_challenge fj_lease) 1 ''a'')\<lparr>ch_status := Verified, ch_units := 20, ch_resolved_at := Some 4\<rparr>)"
    by (rule answer_resolves [OF job_store.reachable_inv [OF fj_history] fj_current fj_running fj_issued fj_open(1) fj_solved fj_open(2)])
      simp_all
  then show ?thesis
    using ledger_step.resolves find_job_ok rtranclp.rtrancl_into_rtrancl [OF fj_history] by blast
qed

theorem succeeded_job_is_backed_witness:
  "\<exists>(l :: ledger) (j :: job_row). jb_status j = Succeeded \<and> j \<in> set (jobs l) \<and> (\<exists>item kvs asg c.
    customer_item_from_body (jb_payload_body j) (jb_payload_digest j) = Inr item
    \<and> int_elements (dget kvs ''assignment'') = Some asg \<and> certifies (item_instance item) asg
    \<and> c \<in> set (challenges l) \<and> ch_status c = Verified)"
proof -
  obtain l j where l: "ledger_step\<^sup>*\<^sup>* empty_ledger l" "j \<in> set (jobs l)" "jb_status j = Succeeded" using fj_succeeds by blast
  from succeeded_job_is_backed [OF this] l(2,3) show ?thesis by blast
qed

section \<open>Expired leases\<close>

lemma abandoned_not_issued:
  assumes "c \<in> set (fold (\<lambda>j. abandon_challenge now (jb_challenge j)) js cs)" "ch_status c = Issued" "j \<in> set js"
  shows "jb_challenge j \<noteq> Some (ch_id c)"
  using assms
proof (induction js arbitrary: cs)
  case (Cons k js)
  let ?cs = "abandon_challenge now (jb_challenge k) cs"
  have c: "c \<in> set (fold (\<lambda>j. abandon_challenge now (jb_challenge j)) js ?cs)" using Cons.prems(1) by simp
  have "length (fold (\<lambda>j. abandon_challenge now (jb_challenge j)) js ?cs) = length ?cs" by simp
  with c fold_abandon_evolves [of ?cs now js] obtain d where d: "d \<in> set ?cs" "challenge_evolves d c"
    unfolding grows_def in_set_conv_nth by metis
  then have "d = c \<or> ch_status d = Issued \<and> ch_id d = ch_id c" by (auto simp: challenge_evolves_def)
  then have "jb_challenge k \<noteq> Some (ch_id c)"
    using d(1) Cons.prems(2) by (auto simp: abandon_challenge_def set_update_where split: if_splits)
  then show ?case using Cons.IH [OF c Cons.prems(2)] Cons.prems(3) by auto
qed simp

lemma claim_kills_expired:
  assumes "claim_customer_job now token owner e lease_seconds max_attempts l = Inr (lease, m)" "custody_inv l"
    "j \<in> set (jobs l)" "jb_status j = Leased" "jb_challenge j = Some cid" "jb_expires_at j = Some x" "x \<le> now"
  shows "\<exists>c. find_challenge m cid = Some c \<and> ch_status c \<noteq> Issued"
proof -
  define l1 where "l1 = fail_exhausted now (nat max_attempts) (reclaim_expired now (nat max_attempts) l)"
  have "lease_held (challenges l) j" using assms(2-4) by (simp add: custody_inv_def jobs_inv_def job_ok_def)
  then have "cid \<in> ch_id ` set (challenges l)" using assms(5) by (auto simp: lease_held_def)
  then have "cid \<in> set (map ch_id (challenges l1))" using reclaim_challenges(3) [OF l1_def] by simp
  then obtain c where c: "c \<in> set (challenges l1)" "ch_id c = cid" by auto
  have "j \<in> set (filter (expired_lease now) (jobs l))" using assms(3,4,6,7) by (simp add: expired_lease_def)
  moreover have "c \<in> set (fold (\<lambda>j. abandon_challenge now (jb_challenge j)) (filter (expired_lease now) (jobs l)) (challenges l))"
    using c(1) by (simp add: l1_def fail_exhausted_def reclaim_expired_def Let_def)
  ultimately have "ch_status c \<noteq> Issued" using abandoned_not_issued assms(5) c(2) by blast
  moreover have "c \<in> set (challenges m)"
    using assms(1) l1_def c(1) by (cases rule: claim_customer_job_cases) auto
  moreover have "evidence_inv m"
    using step_evolves [OF ledger_step.claims [OF assms(1)]] assms(2) by (simp add: custody_inv_def)
  ultimately show ?thesis using find_challenge_mem c(2) by blast
qed

text \<open>
  C9.  A lease that has expired when any worker claims a job is dead from then on: the challenge it
  was given under is resolved, and in every later ledger a resolution of that challenge, with this
  lease or any other, is refused.
\<close>

theorem expired_lease_is_dead:
  assumes "ledger_step\<^sup>*\<^sup>* empty_ledger l" "j \<in> set (jobs l)" "jb_status j = Leased" "jb_challenge j = Some cid"
    "jb_expires_at j = Some x" "x \<le> now"
    "claim_customer_job now token owner e lease_seconds max_attempts l = Inr (lease, l1)" "ledger_step\<^sup>*\<^sup>* l1 m"
  shows "(\<forall>clock status units derived cr. \<exists>x. resolve_challenge clock cid status units derived cr m = Inl x)
    \<and> (\<forall>clock status units derived q cr. \<exists>x. resolve_challenge_with_receipt clock cid status units derived q cr m = Inl x)"
proof -
  have inv: "custody_inv l" using job_store.reachable_inv [OF assms(1)] .
  obtain c where c: "find_challenge l1 cid = Some c" "ch_status c \<noteq> Issued"
    using claim_kills_expired [OF assms(7) inv assms(2-6)] by blast
  have "evidence_inv l1" using step_evolves [OF ledger_step.claims [OF assms(7)]] inv by (simp add: custody_inv_def)
  from resolved_stays [OF this c assms(8)] show ?thesis using resolved_refused [OF _ c(2)] by blast
qed

theorem expired_lease_is_dead_witness:
  "\<exists>m. claim_customer_job 60000002 ''next'' ''b'' 1 60 1 fj3 = Inr (None, m)
     \<and> (\<exists>x. resolve_challenge (3, 4, 5) (le_challenge fj_lease) ''failed'' (PInt 0) True no_customer m = Inl x)"
proof -
  obtain m where m: "claim_customer_job 60000002 ''next'' ''b'' 1 60 1 fj3 = Inr (None, m)" using fj_expired by blast
  let ?j = "lease_job fj_lease 60000002 fj_job"
  have j: "?j \<in> set (jobs fj3)" "jb_status ?j = Leased" "jb_challenge ?j = Some (le_challenge fj_lease)"
    "jb_expires_at ?j = Some 60000002"
    by (simp_all add: fj3_def lease_job_def fj_lease_def)
  from expired_lease_is_dead [OF fj_history j order_refl m rtranclp.rtrancl_refl] m show ?thesis by blast
qed

section \<open>Exports\<close>

lemma chain_nth:
  assumes "export_chain p xs" "i < length xs"
  shows "export_follows (if i = 0 then p else Some (ex_report_id (xs ! (i - 1)))) (xs ! i)"
  using assms
proof (induction xs arbitrary: p i)
  case (Cons x xs)
  then show ?case by (cases i) (auto dest: Cons.IH split: if_splits simp: nth_Cons' )
qed simp

lemma chain_sorted: "export_chain p xs \<Longrightarrow> i < j \<Longrightarrow> j < length xs \<Longrightarrow> ex_source_epoch (xs ! i) < ex_source_epoch (xs ! j)"
proof (induction xs arbitrary: p i j)
  case (Cons x xs)
  then show ?case by (cases i; cases j) auto
qed simp

text \<open>
  C13.  The exports of a stream in a reachable ledger form one chain: the stored body of each is the
  canonical document with its identifier, whose previous identifier is that of the export
  before it (none for the first), and their source epochs strictly increase.
\<close>

theorem exports_form_a_chain:
  assumes "ledger_step\<^sup>*\<^sup>* empty_ledger l" "xs = filter (\<lambda>x. ex_stream x = stream) (exports l)" "i < length xs"
  shows "(\<exists>doc. strict_value (ex_body (xs ! i)) ''score-class report body is invalid'' = Inr (PDict doc)
       \<and> encode_ascii (dumps (PDict doc)) = ex_body (xs ! i)
       \<and> ex_body_digest (xs ! i) = sha256_label (ex_body (xs ! i))
       \<and> dget doc ''report_id'' = PStr (ex_report_id (xs ! i))
       \<and> dget doc ''previous_report_id'' = (if i = 0 then PNone else PStr (ex_report_id (xs ! (i - 1)))))
    \<and> (\<forall>j. i < j \<and> j < length xs \<longrightarrow> ex_source_epoch (xs ! i) < ex_source_epoch (xs ! j))"
proof -
  have chain: "export_chain None xs"
    using export_store.reachable_inv [OF assms(1)] unfolding exports_inv_def exported_def assms(2) by blast
  show ?thesis
    using chain_nth [OF chain assms(3)] chain_sorted [OF chain] unfolding export_follows_def
    by (auto split: if_splits)
qed

theorem exports_form_a_chain_witness:
  "\<exists>l. ledger_step\<^sup>*\<^sup>* empty_ledger l \<and> length (exports l) = 1
     \<and> (\<exists>doc. strict_value (ex_body (exports l ! 0)) ''score-class report body is invalid'' = Inr (PDict doc)
          \<and> dget doc ''previous_report_id'' = PNone)"
proof -
  obtain m where m: "record_score_class_export 1 fe_request fx5 = Inr (xq_body fe_request, m)"
    "exports m = [\<lparr>ex_epoch = 1, ex_source_epoch = 7, ex_stream = export_stream fe_request, ex_report_id = sha256_label [],
       ex_body = xq_body fe_request, ex_body_digest = sha256_label (xq_body fe_request)\<rparr>]"
    using fe_step by blast
  have "ledger_step\<^sup>*\<^sup>* empty_ledger m"
    using fx_history(1,2) exports_class [OF m(1)] by (meson rtranclp.rtrancl_into_rtrancl)
  moreover have "filter (\<lambda>x. ex_stream x = export_stream fe_request) (exports m) = exports m" by (simp add: m(2))
  ultimately show ?thesis
    using exports_form_a_chain [OF _ refl, where l = m and stream = "export_stream fe_request" and i = 0] m(2)
    by (intro exI [of _ m]) auto
qed

end
