(* ===== verification/Spec2Isabelle.thy ===== *)
theory Spec2Isabelle
  imports Provider_Properties Sat_Properties Lifecycle_Properties Registry_Properties
    Receipt_Properties Workproof_Properties Challenge Admission_Properties Ledger_Properties
begin

text \<open>
  A verification of the decision core of cathedral-compute (\<open>src/cathedral/\<close>), a subnet that
  dispatches work to attested confidential-computing machines and pays for proven work.

  \<^bold>\<open>Parts and how they interact.\<close>  A signed policy registry (\<open>policy_registry.py\<close>) says which
  measurements are admitted and which keys sign receipts; it becomes a \<open>Policy\<close>
  (\<open>common.py\<close>) that verifiers enforce.  A worker moves through a lifecycle
  (\<open>lifecycle.py\<close>) that decides when it may be used and refreshes its evidence through a
  single-flight re-attestor.  Work is dispatched in lanes (\<open>lanes/sat.py\<close>), verified and
  credited.  For every unit of proven work a receipt is signed over the assurance claims
  of the worker that did it (\<open>assurance.py\<close>, \<open>receipt.py\<close>), and anyone holding the
  published keys verifies it.  Customer workers on external providers follow a contract
  (\<open>provider_contract.py\<close>): assignment, permit, dispatch envelope, attempt state machine,
  cleanup, settlement; a transcript (\<open>provider_transcript.py\<close>) replays all of it.  A durable
  ledger (\<open>ledger.py\<close>) keeps epochs, challenges, attestations, receipts and customer jobs and
  freezes the score report that is published and paid.

  \<^bold>\<open>Conventions.\<close>  \<open>Prelude\<close> has the error monad (\<open>Inl\<close> is a raised error, the first failing
  check wins), text and number formatting.  \<open>Py_Value\<close> has Python values, \<open>json.dumps\<close> with
  sorted keys and \<open>json.loads\<close>, with the round trip between them; its parser takes
  fuel \<open>json_fuel\<close>, computed from the length of the text, and \<open>loads_dumps\<close> shows that this is
  enough.  \<open>Py_Text\<close> has UTF-8, base64 and byte packing, \<open>Py_Time\<close> and \<open>Py_Instant\<close> have
  \<open>datetime\<close> with its two canonical spellings and instants in microseconds, \<open>Py_Decimal\<close> has
  the decimal amounts of receipts, \<open>Py_Float\<close> the quotients of the score report, rounded to
  doubles, with their error bound, \<open>Sha2\<close> has SHA-256.  Text is over the code points 0 to 255; anything else is an error value of its
  own.  Dictionaries from JSON are association lists in the order of the text.

  \<^bold>\<open>Provider contract\<close> (\<open>Provider_Canonical\<close>, \<open>Provider_Records\<close>, \<open>Provider_Dispatch\<close>,
  \<open>Provider_Attempt\<close>, \<open>Provider_Settlement\<close>).  Every dataclass is a record with its
  \<open>__post_init__\<close> as \<open>X_post_init\<close>, and \<open>X_to_document\<close>, \<open>X_from_document\<close>, \<open>X_digest\<close>; the
  validators keep their names.  \<open>Provider_Canonical\<close> proves that the budgeted encoder and the
  strict parser accept exactly one set of documents.  \<open>Provider_Transcript\<close> models both
  transcript classes, \<open>Provider_Protocol\<close> and \<open>Provider_Sizes\<close> hold the facts about runs of the
  state machine and about encoded sizes, \<open>Provider_Fixtures\<close> concrete transcripts, and
  \<open>Provider_Properties\<close> the theorems: what a charged worker proves, how settlements follow
  attempts, which runs are possible, what a dispatched envelope can contain, and the round
  trips.

  \<^bold>\<open>SAT lane\<close> (\<open>Sat_Solver\<close>, \<open>Sat_Lane\<close>, \<open>Sat_Properties\<close>).  Instances, validation and the DPLL
  search with its termination; the lane as a record threaded through \<open>enqueue\<close>, \<open>dispatch\<close>,
  \<open>verify\<close> and \<open>score\<close>.  \<open>random.Random\<close> is a parameter (\<open>rng\<close>) whose contract \<open>rng_ok\<close> says
  that a draw below n is below n.  Credits are counted in whole units, the float 20.0 being
  the only value that occurs.  The theorems: the solver decides satisfiability, runs of
  operations credit real work at most once, honest work is credited, scores add up.

  \<^bold>\<open>Worker lifecycle\<close> (\<open>Lifecycle\<close>, \<open>Reattest\<close>, \<open>Lifecycle_Properties\<close>).  The state and reason
  tables, the validated snapshot, the retry delay; the re-attestor as a store of futures
  with one operation per critical section of the code, whose interleavings are the
  relation \<open>reattest_step\<close>.  Timeouts are rational numbers.  The theorems are by rule
  induction over runs.

  \<^bold>\<open>Policy registry\<close> (\<open>Attest_Policy\<close>, \<open>Registry_Document\<close>, \<open>Registry_Policy\<close>, \<open>Registry_Store\<close>,
  \<open>Registry_Snapshot\<close>, \<open>Registry_Fixtures\<close>, \<open>Registry_Properties\<close>).  \<open>verify_registry\<close> and
  \<open>sign_registry\<close> take the Ed25519 functions of the \<open>cryptography\<close> package as arguments, and the
  clock.  The store is the row of its table; \<open>accept\<close> is one transaction, and an error
  leaves the row alone.  \<open>registry_advances\<close> is the abstract contract, the locale
  \<open>registry_contract\<close> derives what it gives over any number of transactions, and the
  interpretation \<open>registry_store\<close> discharges it for \<open>accept\<close>.  \<open>Registry_Snapshot\<close> has the
  invariant of verified snapshots and shows that stored rows can be read back.

  \<^bold>\<open>Assurance claims and receipts\<close> (\<open>Assurance\<close>, \<open>Receipt_Fields\<close>, \<open>Receipt_Verify\<close>,
  \<open>Receipt_Issue\<close>; proofs in \<open>Receipt_Text\<close>, \<open>Receipt_Checks\<close>, \<open>Receipt_Roundtrip\<close>,
  \<open>Receipt_Sizes\<close>, \<open>Receipt_Fixtures\<close>, \<open>Receipt_Properties\<close>).  \<open>Assurance\<close> has the claim record
  with its status and reason tables and the constructors of \<open>assurance.py\<close>.
  \<open>Receipt_Fields\<close> has the field validators and the bounded JSON shape,
  \<open>Receipt_Verify\<close> the strict parser and \<open>verify_receipt\<close> with its checks in the order of the code,
  \<open>Receipt_Issue\<close> the request, the issuer with its registry and key, and
  \<open>issue_receipt\<close> for its \<open>issue\<close>.  The Ed25519 functions and the clock are arguments, the
  registry snapshot is the one of \<open>Registry_Document\<close>.  Timestamps are read in the two spellings the code itself writes; another ISO 8601
  spelling is an error value of its own.  The limits of the shape check (4096 nodes,
  depth 32, 256 KiB) are those of the code, and \<open>Receipt_Sizes\<close> shows that every receipt built
  from validated fields stays below them.  The theorems: an issued receipt verifies under
  the issuer's key, a verified one was signed over exactly its fields and rests on
  passed claims, claims built by the constructors are well typed, and the counting walk of the
  shape check accepts exactly the values within the limits.

  \<^bold>\<open>Work artifacts, replay and challenges\<close> (\<open>Workproof\<close>, \<open>Workproof_Properties\<close>, \<open>Challenge\<close>).
  \<open>Workproof\<close> has the bytes \<open>runtime.py\<close> publishes for verified work, the work claim it signs over
  them, and \<open>workproof.py\<close>, which replays them; floats are known to print back for whole
  numbers of at most 15 digits, others are an error value.  The theorems: what replays is
  a valid item and a certificate that solves it, with the derived units; and whatever a
  run of the lane dispatched and credited replays under the digests its receipt signs.
  \<open>Challenge\<close> has the derived challenge nonces of \<open>challenge.py\<close>, with the theorem that a
  digest stands for one block, network, epoch and miner.

  \<^bold>\<open>Admission artifacts\<close> (\<open>Admission\<close>, \<open>Admission_Properties\<close>).  The signed coldkey allowlist
  (\<open>coldkey_allowlist.py\<close>) and the signed admission policy (\<open>admission_policy.py\<close>) of the enrollment
  door, with signing, verification, key files and the providers that guard against rollback.
  The locale \<open>version_gate\<close> is the guard both providers implement (\<open>allowlist_gate\<close>,
  \<open>admission_gate\<close>); \<open>door_step\<close> is a service with a state file that starts, loads, fails to write
  and stops.  The theorems: a loaded policy is authentic and bound to the service, signed
  policies load, and accepted versions never decrease across restarts.

  \<^bold>\<open>Ledger\<close> (\<open>Ledger\<close>, \<open>Ledger_Jobs\<close>, \<open>Ledger_Scores\<close>; proofs in \<open>Ledger_Evolution\<close>, \<open>Ledger_Custody\<close>,
  \<open>Ledger_Records\<close>, \<open>Ledger_Customer\<close>, \<open>Ledger_Fixtures\<close>, \<open>Ledger_Properties\<close>).  The record
  \<open>ledger\<close> has one list of rows per table of \<open>ledger.py\<close>; a method is a function from a ledger
  to an error or a new ledger, since its transaction rolls back on an error.  \<open>Ledger\<close> has epochs,
  challenges, artifacts and timings, \<open>Ledger_Jobs\<close> the customer jobs with their leases and the
  resolution of work, \<open>Ledger_Scores\<close> attestations, lifecycle snapshots, receipts, the score report
  with its launch limits (\<open>launch_limits.py\<close>, \<open>score_audience.py\<close>), publication and exports.  The clock and
  the random tokens are arguments.  Work units are whole numbers below \<open>10 ^ 15\<close> and sums at
  most \<open>2 ^ 53\<close>, which floats hold exactly; other numbers, and texts outside ASCII, are the error
  value \<open>LedgerOutsideModel\<close>.  \<open>ledger_step\<close> is one committed call of any writing method, and the
  locale \<open>durable_store\<close> derives what holds over histories of steps from a step invariant
  and a relation that every step preserves; it is interpreted on the evidence tables
  (\<open>ledger_store\<close>), the job table (\<open>job_store\<close>), the scores (\<open>score_store\<close>), the receipts
  (\<open>receipt_store\<close>) and the exports (\<open>export_store\<close>).  The theorems: the scores of an
  epoch, frozen reports and resolved work never change, receipts match the work they
  were stored with, a succeeded job carries a checked answer, correct answers are
  credited, an expired lease is dead, epochs are sequential, exports form a chain.

  \<^bold>\<open>Not modelled.\<close>  Network, subprocess and terminal code (\<open>cli\<close>, \<open>worker\<close>, \<open>remote\<close>, \<open>prober\<close>, the epochs of
  \<open>runtime\<close>, \<open>poster\<close>, \<open>events\<close>, \<open>neuron\<close>), quote and certificate verification (\<open>verify\<close>, \<open>gpu\<close>,
  \<open>attest\<close>), the migrations of old ledger files, and, so far, enrollment, key release,
  provenance bundles and the workload manifests.
  Next in order: customer receipts, score classes, channel bindings and report data of \<open>common.py\<close>.
\<close>

end
